(* ===== verification/Prelude.thy ===== *)
theory Prelude
  imports Main "HOL-Library.Sublist" "HOL-Library.Multiset" "HOL-Library.Char_ord" "HOL-Library.List_Lexorder"
begin

text \<open>
  What the components share: the text functions of the Rust standard library the source uses,
  machine-integer helpers, ordered maps, SQL tables as row lists, and two interface locales for
  machines whose good states are closed under steps.

  Text is \<open>string\<close>, a list of bytes: a Rust \<open>String\<close> is UTF-8, and an Isabelle \<open>char\<close> is a byte.
  White space is recognised on ASCII only, which is where Unicode's \<open>White_Space\<close> and this
  development agree; the text the daemon matches on is ASCII.
\<close>

named_theorems table_simps \<open>rows of SQL tables under updates, deletions and look-ups\<close>
named_theorems text_simps \<open>evaluation of the text functions\<close>

section \<open>Text\<close>

definition is_whitespace :: "char \<Rightarrow> bool" where
  "is_whitespace c \<longleftrightarrow> (let n = (of_char c :: nat) in n = 32 \<or> (9 \<le> n \<and> n \<le> 13))"

definition is_ascii_whitespace :: "char \<Rightarrow> bool" where
  "is_ascii_whitespace c \<longleftrightarrow> (let n = (of_char c :: nat) in n = 32 \<or> n = 9 \<or> n = 10 \<or> n = 12 \<or> n = 13)"

definition ascii_lower :: "char \<Rightarrow> char" where
  "ascii_lower c = (let n = (of_char c :: nat) in if 65 \<le> n \<and> n \<le> 90 then char_of (n + 32) else c)"

definition to_ascii_lowercase :: "string \<Rightarrow> string" where
  "to_ascii_lowercase s = map ascii_lower s"

definition trim_start :: "string \<Rightarrow> string" where
  "trim_start s = dropWhile is_whitespace s"

definition trim_end :: "string \<Rightarrow> string" where
  "trim_end s = rev (dropWhile is_whitespace (rev s))"

definition trim :: "string \<Rightarrow> string" where
  "trim s = trim_end (trim_start s)"

definition trim_end_char :: "char \<Rightarrow> string \<Rightarrow> string" where
  "trim_end_char c s = rev (dropWhile (\<lambda>d. d = c) (rev s))"

fun contains_str :: "string \<Rightarrow> string \<Rightarrow> bool" where
  "contains_str [] needle = (needle = [])"
| "contains_str (c # s) needle = (prefix needle (c # s) \<or> contains_str s needle)"

text \<open>\<open>str::lines\<close>: a line ends at a line feed, with a carriage return before it dropped.\<close>

fun lines_of :: "string \<Rightarrow> string \<Rightarrow> string list" where
  "lines_of acc [] = (if acc = [] then [] else [rev acc])"
| "lines_of acc (c # s) = (if c = CHR 0x0A
     then (case acc of d # ds \<Rightarrow> if d = CHR 0x0D then rev ds else rev acc | [] \<Rightarrow> []) # lines_of [] s
     else lines_of (c # acc) s)"

definition str_lines :: "string \<Rightarrow> string list" where
  "str_lines s = lines_of [] s"

definition strip_prefix :: "string \<Rightarrow> string \<Rightarrow> string option" where
  "strip_prefix pre s = (if prefix pre s then Some (drop (length pre) s) else None)"

fun split_on :: "char \<Rightarrow> string \<Rightarrow> string list" where
  "split_on c [] = [[]]"
| "split_on c (d # s) = (if d = c then [] # split_on c s
     else case split_on c s of [] \<Rightarrow> [[d]] | p # ps \<Rightarrow> (d # p) # ps)"

text \<open>\<open>str::split\<close> on the characters a predicate accepts.\<close>

fun split_when :: "(char \<Rightarrow> bool) \<Rightarrow> string \<Rightarrow> string list" where
  "split_when p [] = [[]]"
| "split_when p (d # s) = (if p d then [] # split_when p s
     else case split_when p s of [] \<Rightarrow> [[d]] | w # ws \<Rightarrow> (d # w) # ws)"

definition split_whitespace :: "string \<Rightarrow> string list" where
  "split_whitespace s = filter (\<lambda>w. w \<noteq> []) (split_when is_whitespace s)"

text \<open>The first word of \<open>split_whitespace\<close>.\<close>

definition first_word :: "string \<Rightarrow> string option" where
  "first_word s = (let w = takeWhile (\<lambda>c. \<not> is_whitespace c) (trim_start s)
     in if w = [] then None else Some w)"

fun join :: "string \<Rightarrow> string list \<Rightarrow> string" where
  "join sep [] = []"
| "join sep [s] = s"
| "join sep (s # t # ss) = s @ sep @ join sep (t # ss)"

text \<open>The filter the source writes as \<open>map(str::trim).filter(|s| !s.is_empty())\<close>.\<close>

definition trimmed_nonempty :: "string option \<Rightarrow> string option" where
  "trimmed_nonempty v = (case v of None \<Rightarrow> None
     | Some s \<Rightarrow> if trim s = [] then None else Some (trim s))"

fun digits_of :: "nat \<Rightarrow> string" where
  "digits_of n = (if n < 10 then [char_of (48 + n)] else digits_of (n div 10) @ [char_of (48 + n mod 10)])"

declare digits_of.simps [simp del]

definition show_nat :: "nat \<Rightarrow> string" where
  "show_nat n = digits_of n"

definition show_int :: "int \<Rightarrow> string" where
  "show_int i = (if i < 0 then CHR ''-'' # show_nat (nat (- i)) else show_nat (nat i))"

lemmas [text_simps] = is_whitespace_def is_ascii_whitespace_def ascii_lower_def
  to_ascii_lowercase_def trim_start_def trim_end_def trim_def

lemma trim_start_idem [simp]: "trim_start (trim_start s) = trim_start s"
  by (simp add: trim_start_def dropWhile_idem)

lemma trim_end_idem [simp]: "trim_end (trim_end s) = trim_end s"
  by (simp add: trim_end_def dropWhile_idem)

lemma trim_Nil [simp]: "trim [] = []"
  by (simp add: trim_def trim_start_def trim_end_def)

lemma trim_end_nonempty:
  assumes "s \<noteq> []" and "\<not> is_whitespace (hd s)"
  shows "trim_end s \<noteq> [] \<and> hd (trim_end s) = hd s"
proof -
  obtain c t where s: "s = c # t" using assms(1) by (cases s) auto
  with assms have "\<not> is_whitespace c" by simp
  then have "dropWhile is_whitespace (rev t @ [c]) = dropWhile is_whitespace (rev t) @ [c]"
    by (cases "\<exists>x\<in>set (rev t). \<not> is_whitespace x")
      (auto simp: dropWhile_append1 dropWhile_append2 dropWhile_append)
  then show ?thesis by (simp add: trim_end_def s)
qed

lemma trim_start_trim_end: "trim_start (trim_end (trim_start s)) = trim_end (trim_start s)"
proof (cases "trim_start s = []")
  case True
  then show ?thesis by (simp add: trim_end_def) (simp add: trim_start_def)
next
  case False
  then have "\<not> is_whitespace (hd (trim_start s))"
    unfolding trim_start_def by (simp add: hd_dropWhile)
  with False have "trim_end (trim_start s) \<noteq> []" "\<not> is_whitespace (hd (trim_end (trim_start s)))"
    using trim_end_nonempty by (auto simp del: trim_end_idem)
  then show ?thesis unfolding trim_start_def [of "trim_end (trim_start s)"]
    by (cases "trim_end (trim_start s)") auto
qed

lemma trim_idem [simp]: "trim (trim s) = trim s"
  by (simp add: trim_def trim_start_trim_end)

lemma trimmed_nonempty_Some: "trimmed_nonempty v = Some s \<Longrightarrow> s \<noteq> [] \<and> trim s = s"
  by (auto simp: trimmed_nonempty_def split: option.splits if_splits)

lemma contains_str_iff: "contains_str s needle \<longleftrightarrow> (\<exists>pre suf. s = pre @ needle @ suf)"
proof (induction s)
  case Nil
  then show ?case by auto
next
  case (Cons c s)
  show ?case
  proof
    assume "contains_str (c # s) needle"
    then consider (here) suf where "c # s = needle @ suf" | (later) "contains_str s needle"
      by (auto simp: prefix_def)
    then show "\<exists>pre suf. c # s = pre @ needle @ suf"
    proof cases
      case here
      then have "c # s = [] @ needle @ suf" by simp
      then show ?thesis by blast
    next
      case later
      with Cons.IH obtain pre suf where "s = pre @ needle @ suf" by auto
      then have "c # s = (c # pre) @ needle @ suf" by simp
      then show ?thesis by blast
    qed
  next
    assume "\<exists>pre suf. c # s = pre @ needle @ suf"
    then obtain pre suf where e: "c # s = pre @ needle @ suf" by blast
    show "contains_str (c # s) needle"
    proof (cases pre)
      case Nil
      with e have "prefix needle (c # s)" by (simp add: prefix_def)
      then show ?thesis by simp
    next
      case (Cons d pre')
      with e have "s = pre' @ needle @ suf" by simp
      with Cons.IH show ?thesis by auto
    qed
  qed
qed

text \<open>\<open>str::find\<close> of a text, and \<open>str::replace\<close> of a non-empty one.\<close>

fun find_str :: "string \<Rightarrow> string \<Rightarrow> nat option" where
  "find_str [] needle = (if needle = [] then Some 0 else None)"
| "find_str (c # s) needle = (if prefix needle (c # s) then Some 0 else map_option Suc (find_str s needle))"

lemma find_str_Some: "find_str s needle = Some n \<Longrightarrow> n + length needle \<le> length s \<and> prefix needle (drop n s)"
  by (induction s arbitrary: n) (auto split: if_splits dest: prefix_length_le)

function replace_str :: "string \<Rightarrow> string \<Rightarrow> string \<Rightarrow> string" where
  "replace_str from to [] = []"
| "replace_str from to (c # s) =
     (if from \<noteq> [] \<and> prefix from (c # s) then to @ replace_str from to (drop (length from) (c # s))
      else c # replace_str from to s)"
  by pat_completeness auto

termination by (relation "measure (\<lambda>(_, _, s). length s)") auto

text \<open>\<open>chars().count()\<close> and \<open>chars().take(n)\<close>: a character is a byte that does not continue one, with those that do.\<close>

definition utf8_continues :: "char \<Rightarrow> bool" where
  "utf8_continues c \<longleftrightarrow> (let n = (of_char c :: nat) in 128 \<le> n \<and> n < 192)"

definition chars_count :: "string \<Rightarrow> nat" where
  "chars_count s = length (filter (\<lambda>c. \<not> utf8_continues c) s)"

fun chars_take :: "nat \<Rightarrow> string \<Rightarrow> string" where
  "chars_take n [] = []"
| "chars_take n (c # s) = (if utf8_continues c then c # chars_take n s
     else case n of 0 \<Rightarrow> [] | Suc m \<Rightarrow> c # chars_take m s)"

lemma chars_count_Nil [simp]: "chars_count [] = 0"
  by (simp add: chars_count_def)

lemma chars_count_append [simp]: "chars_count (s @ t) = chars_count s + chars_count t"
  by (simp add: chars_count_def)

lemma chars_take_prefix: "prefix (chars_take n s) s"
  by (induction n s rule: chars_take.induct) (auto split: nat.splits)

lemma chars_count_take: "chars_count (chars_take n s) = min n (chars_count s)"
  by (induction n s rule: chars_take.induct) (auto simp: chars_count_def split: nat.splits)

section \<open>Decimal digits\<close>

definition in_range :: "nat \<Rightarrow> nat \<Rightarrow> char \<Rightarrow> bool" where
  "in_range lo hi c \<longleftrightarrow> lo \<le> of_char c \<and> of_char c \<le> (hi :: nat)"

definition is_ascii_digit :: "char \<Rightarrow> bool" where
  "is_ascii_digit c \<longleftrightarrow> in_range 48 57 c"

definition is_ascii_lowercase :: "char \<Rightarrow> bool" where
  "is_ascii_lowercase c \<longleftrightarrow> in_range 97 122 c"

definition is_ascii_uppercase :: "char \<Rightarrow> bool" where
  "is_ascii_uppercase c \<longleftrightarrow> in_range 65 90 c"

definition is_ascii_alphanumeric :: "char \<Rightarrow> bool" where
  "is_ascii_alphanumeric c \<longleftrightarrow> is_ascii_lowercase c \<or> is_ascii_uppercase c \<or> is_ascii_digit c"

text \<open>\<open>str::parse::<u64>\<close>: decimal digits with an optional plus sign, within range.\<close>

definition digits_value :: "string \<Rightarrow> nat" where
  "digits_value s = fold (\<lambda>c n. 10 * n + (of_char c - 48)) s 0"

definition parse_u64 :: "string \<Rightarrow> nat option" where
  "parse_u64 s = (let d = (case s of [] \<Rightarrow> [] | c # r \<Rightarrow> if c = CHR ''+'' then r else s)
     in if d \<noteq> [] \<and> list_all is_ascii_digit d \<and> digits_value d < 2 ^ 64 then Some (digits_value d) else None)"

text \<open>\<open>str::parse::<i64>\<close>: an optional sign, then digits, within range.\<close>

definition parse_i64 :: "string \<Rightarrow> int option" where
  "parse_i64 s =
     (let (negative, d) = (case s of [] \<Rightarrow> (False, []) | c # r \<Rightarrow>
            if c = CHR ''-'' then (True, r) else if c = CHR ''+'' then (False, r) else (False, s));
          n = int (digits_value d)
      in if d = [] \<or> \<not> list_all is_ascii_digit d then None
         else if negative then (if n \<le> 2 ^ 63 then Some (- n) else None)
         else if n < 2 ^ 63 then Some n else None)"

lemma digit_char: "n < 10 \<Longrightarrow> of_char (char_of (48 + n :: nat)) = (48 + n :: nat) \<and> is_ascii_digit (char_of (48 + n :: nat))"
  by (simp add: is_ascii_digit_def in_range_def)

lemma digits_of_digits: "list_all is_ascii_digit (digits_of n) \<and> digits_of n \<noteq> []"
proof (induction n rule: digits_of.induct)
  case (1 n)
  show ?case using 1 digit_char [of n] digit_char [of "n mod 10"]
    by (subst digits_of.simps, subst digits_of.simps) simp
qed

lemma digits_value_of: "digits_value (digits_of n) = n"
proof (induction n rule: digits_of.induct)
  case (1 n)
  show ?case
  proof (cases "n < 10")
    case False
    have "digits_value (digits_of n) = 10 * digits_value (digits_of (n div 10)) + n mod 10"
      unfolding digits_of.simps [of n] using False by (simp add: digits_value_def)
    with 1 False show ?thesis by simp
  next
    case True
    then show ?thesis unfolding digits_of.simps [of n] by (simp add: digits_value_def)
  qed
qed

lemma parse_u64_show: "parse_u64 (show_nat n) = (if n < 2 ^ 64 then Some n else None)"
proof -
  obtain c s where d: "digits_of n = c # s" "is_ascii_digit c"
    using digits_of_digits [of n] by (cases "digits_of n") auto
  have "c \<noteq> CHR ''+''" using d(2) by (auto simp: is_ascii_digit_def in_range_def)
  then show ?thesis
    using digits_of_digits [of n] digits_value_of [of n] by (simp add: parse_u64_def show_nat_def d(1) Let_def)
qed

section \<open>Machine integers\<close>

text \<open>Counters are \<open>nat\<close>; where the source saturates, the bound is written out.\<close>

abbreviation u64_max :: nat where
  "u64_max \<equiv> 18446744073709551615"

definition saturating_add :: "nat \<Rightarrow> nat \<Rightarrow> nat" where
  "saturating_add a b = min (a + b) u64_max"

section \<open>Iterators\<close>

fun find_map :: "('a \<Rightarrow> 'b option) \<Rightarrow> 'a list \<Rightarrow> 'b option" where
  "find_map f [] = None"
| "find_map f (x # xs) = (case f x of Some y \<Rightarrow> Some y | None \<Rightarrow> find_map f xs)"

lemma find_map_None: "find_map f xs = None \<longleftrightarrow> (\<forall>x\<in>set xs. f x = None)"
  by (induction xs) (auto split: option.splits)

lemma find_map_Some: "find_map f xs = Some y \<Longrightarrow> \<exists>x\<in>set xs. f x = Some y"
  by (induction xs) (auto split: option.splits)

fun position :: "('a \<Rightarrow> bool) \<Rightarrow> 'a list \<Rightarrow> nat option" where
  "position p [] = None"
| "position p (x # xs) = (if p x then Some 0 else map_option Suc (position p xs))"

lemma position_Some: "position p xs = Some n \<Longrightarrow> n < length xs \<and> p (xs ! n)"
  by (induction xs arbitrary: n) (auto split: if_splits)

lemma position_None: "position p xs = None \<longleftrightarrow> (\<forall>x\<in>set xs. \<not> p x)"
  by (induction xs) (auto split: if_splits)

text \<open>\<open>rfind\<close>: the last position.\<close>

definition rposition :: "('a \<Rightarrow> bool) \<Rightarrow> 'a list \<Rightarrow> nat option" where
  "rposition p xs = map_option (\<lambda>k. length xs - 1 - k) (position p (rev xs))"

lemma rposition_Some: "rposition p xs = Some n \<Longrightarrow> n < length xs \<and> p (xs ! n)"
  using position_Some [of p "rev xs"] by (auto simp: rposition_def rev_nth)

section \<open>Ordered maps\<close>

text \<open>A \<open>BTreeMap\<close> is the list of its entries in key order.\<close>

fun bt_insert :: "'k::linorder \<Rightarrow> 'v \<Rightarrow> ('k \<times> 'v) list \<Rightarrow> ('k \<times> 'v) list" where
  "bt_insert k v [] = [(k, v)]"
| "bt_insert k v ((a, b) # m) =
     (if k < a then (k, v) # (a, b) # m
      else if k = a then (k, v) # m
      else (a, b) # bt_insert k v m)"

definition bt_sorted :: "('k::linorder \<times> 'v) list \<Rightarrow> bool" where
  "bt_sorted m \<longleftrightarrow> sorted_wrt (<) (map fst m)"

lemma bt_insert_keys: "fst ` set (bt_insert k v m) = insert k (fst ` set m)"
  by (induction k v m rule: bt_insert.induct) auto

lemma bt_insert_sorted [intro]: "bt_sorted m \<Longrightarrow> bt_sorted (bt_insert k v m)"
proof (induction k v m rule: bt_insert.induct)
  case (2 k v a b m)
  then have "\<And>x. x \<in> fst ` set (bt_insert k v m) \<Longrightarrow> a < k \<Longrightarrow> a < x"
    using bt_insert_keys [of k v m] by (auto simp: bt_sorted_def)
  with 2 show ?case by (auto simp: bt_sorted_def)
qed (simp add: bt_sorted_def)

lemma bt_filter_sorted [intro]: "bt_sorted m \<Longrightarrow> bt_sorted (filter P m)"
  by (simp add: bt_sorted_def sorted_wrt_map sorted_wrt_filter)

lemma bt_sorted_distinct: "bt_sorted m \<Longrightarrow> distinct (map fst m)"
  unfolding bt_sorted_def using strict_sorted_iff by blast

section \<open>SQL tables\<close>

text \<open>
  A table is the list of its rows. \<open>update_where\<close> is \<open>UPDATE .. SET f WHERE p\<close>, and
  \<open>count_where\<close> the number of rows the statement reports as changed.
\<close>

definition update_where :: "('r \<Rightarrow> bool) \<Rightarrow> ('r \<Rightarrow> 'r) \<Rightarrow> 'r list \<Rightarrow> 'r list" where
  "update_where p f rows = map (\<lambda>r. if p r then f r else r) rows"

definition delete_where :: "('r \<Rightarrow> bool) \<Rightarrow> 'r list \<Rightarrow> 'r list" where
  "delete_where p rows = filter (\<lambda>r. \<not> p r) rows"

definition count_where :: "('r \<Rightarrow> bool) \<Rightarrow> 'r list \<Rightarrow> nat" where
  "count_where p rows = length (filter p rows)"

definition keyed :: "('r \<Rightarrow> 'k) \<Rightarrow> 'r list \<Rightarrow> bool" where
  "keyed key rows \<longleftrightarrow> distinct (map key rows)"

lemma update_where_keyed [table_simps]:
  "(\<And>r. key (f r) = key r) \<Longrightarrow> map key (update_where p f rows) = map key rows"
  by (induction rows) (auto simp: update_where_def)

lemma update_where_find [table_simps]:
  assumes "\<And>r. key (f r) = key r"
  shows "find (\<lambda>r. key r = k) (update_where p f rows) =
    map_option (\<lambda>r. if p r then f r else r) (find (\<lambda>r. key r = k) rows)"
  by (induction rows) (auto simp: update_where_def assms)

lemma count_where_key_le_1: "keyed key rows \<Longrightarrow> count_where (\<lambda>r. key r = k \<and> p r) rows \<le> 1"
proof (induction rows)
  case Nil
  then show ?case by (simp add: count_where_def)
next
  case (Cons r rows)
  show ?case
  proof (cases "key r = k \<and> p r")
    case True
    with Cons.prems have "filter (\<lambda>r. key r = k \<and> p r) rows = []"
      by (auto simp: keyed_def filter_empty_conv rev_image_eqI)
    with True show ?thesis by (simp add: count_where_def)
  next
    case False
    with Cons show ?thesis by (auto simp: count_where_def keyed_def)
  qed
qed

lemma count_where_pos: "count_where p rows \<noteq> 0 \<longleftrightarrow> (\<exists>r\<in>set rows. p r)"
  by (auto simp: count_where_def filter_empty_conv)

lemma keyed_find: "keyed key rows \<Longrightarrow> r \<in> set rows \<Longrightarrow> find (\<lambda>x. key x = key r) rows = Some r"
  by (induction rows) (auto simp: keyed_def rev_image_eqI)

lemma find_keyed_Some: "find (\<lambda>x. key x = k) rows = Some r \<Longrightarrow> r \<in> set rows \<and> key r = k"
  by (auto simp: find_Some_iff)

lemma keyed_find_iff:
  "keyed key rows \<Longrightarrow> find (\<lambda>x. key x = k) rows = Some r \<longleftrightarrow> r \<in> set rows \<and> key r = k"
  using keyed_find [of key rows r] find_keyed_Some [of key k rows r] by auto

text \<open>
  The next value of a numbering column: one more than the largest present, 1 in an empty table. This
  is \<open>COALESCE(MAX(c), 0) + 1\<close>, and the row id of an \<open>INTEGER PRIMARY KEY\<close> without
  \<open>AUTOINCREMENT\<close>.
\<close>

definition sql_next :: "('r \<Rightarrow> int) \<Rightarrow> 'r list \<Rightarrow> int" where
  "sql_next f rows = (case map f rows of [] \<Rightarrow> 1 | i # is \<Rightarrow> fold max is i + 1)"

lemma fold_max_upper: "x \<le> fold max xs (x::int) \<and> (\<forall>y\<in>set xs. y \<le> fold max xs x)"
proof (induction xs arbitrary: x)
  case (Cons a xs)
  from Cons [of "max a x"] show ?case by auto
qed simp

lemma sql_next_greater: "r \<in> set rows \<Longrightarrow> f r < sql_next f rows"
proof (cases rows)
  case (Cons a as)
  assume "r \<in> set rows"
  with Cons fold_max_upper [of "f a" "map f as"] show ?thesis
    by (auto simp: sql_next_def)
qed simp

lemma sort_key_snoc:
  assumes "\<forall>y\<in>set xs. f y < f x"
  shows "sort_key f (xs @ [x]) = sort_key f xs @ [x :: 'a]"
proof (rule properties_for_sort_key)
  show "mset (sort_key f xs @ [x]) = mset (xs @ [x])" by simp
  fix k assume "k \<in> set (sort_key f xs @ [x])"
  show "filter (\<lambda>y. f k = f y) (sort_key f xs @ [x]) = filter (\<lambda>y. f k = f y) (xs @ [x])"
    using sort_key_stable [of f "f k" xs] by (simp add: eq_commute [of "f k"])
next
  show "sorted (map f (sort_key f xs @ [x]))"
    using assms by (auto simp: sorted_append)
qed

section \<open>Machines with closed states\<close>

text \<open>
  Several components promise the same thing: once a record is in a good (or final) state, no later
  operation takes it out again. \<open>closed_machine\<close> states that for one step and lifts it to every
  run; \<open>terminal_machine\<close> is the stronger contract of a status column guarded by
  \<open>WHERE status NOT IN (..)\<close>, whose final values never change.
\<close>

locale closed_machine =
  fixes step :: "'s \<Rightarrow> 'e \<Rightarrow> 's"
    and good :: "'s \<Rightarrow> bool"
  assumes closed: "good s \<Longrightarrow> good (step s e)"
begin

lemma closed_run: "good s \<Longrightarrow> good (fold (\<lambda>e s. step s e) es s)"
  by (induction es arbitrary: s) (auto intro: closed)

lemma closed_suffix:
  "good (fold (\<lambda>e s. step s e) es s) \<Longrightarrow> good (fold (\<lambda>e s. step s e) (es @ fs) s)"
  by (simp add: closed_run)

end

locale terminal_machine =
  fixes step :: "'s \<Rightarrow> 'e \<Rightarrow> 's"
    and phase :: "'s \<Rightarrow> 'p"
    and terminal :: "'p \<Rightarrow> bool"
  assumes absorbs: "terminal (phase s) \<Longrightarrow> phase (step s e) = phase s"
begin

lemma terminal_run: "terminal (phase s) \<Longrightarrow> phase (fold (\<lambda>e s. step s e) es s) = phase s"
proof (induction es arbitrary: s)
  case (Cons e es)
  then have "phase (step s e) = phase s" by (simp add: absorbs)
  with Cons show ?case by simp
qed simp

lemma terminal_once:
  assumes "terminal (phase (fold (\<lambda>e s. step s e) es s))"
  shows "phase (fold (\<lambda>e s. step s e) (es @ fs) s) = phase (fold (\<lambda>e s. step s e) es s)"
  using terminal_run [OF assms] by simp

end

sublocale terminal_machine \<subseteq> closed: closed_machine step "\<lambda>s. terminal (phase s)"
  by unfold_locales (simp add: absorbs)

end
