(* ===== verification/Session_State.thy ===== *)
theory Session_State
  imports Prelude
begin

text \<open>
  The session event model (\<open>crates/core/src/session_event.rs\<close>), the runtime state machine it drives
  (\<open>session_state.rs\<close>) and the PTY pipeline that folds a batch of screen events into a state
  (\<open>session_pipeline.rs\<close>). A record's transition is either applied or logged as invalid; the
  lemmas show which states are final and that no transition is lost.
\<close>

section \<open>Session events\<close>

datatype SessionEventSource = User | Assistant | Runtime | System

datatype SessionInputKind = User | ReviewPrompt | ControlCommand

datatype SessionCommandOutputStatus = Unknown | Running | Succeeded | Failed

datatype SessionEventStatus = Starting | Running | WaitingForInput | Completed | Failed | Stopped

datatype SessionPromptStyle = Text | Confirmation | Selection

record SessionPromptOption =
  po_label :: string
  po_value :: string

text \<open>A number is kept as the text \<open>serde_json::Number\<close> displays.\<close>

datatype SessionMetadataValue = String string | Number string | Bool bool

datatype SessionEventPayload =
    UserInput string SessionInputKind
  | AssistantText string
  | CommandOutput string string SessionCommandOutputStatus
  | StatusChange SessionEventStatus "string option"
  | Error string bool
  | Prompt SessionPromptStyle string "SessionPromptOption list"
  | Metadata "(string \<times> SessionMetadataValue) list"

record SessionEvent =
  ev_sequence :: "nat option"
  ev_occurred_at_ms :: "nat option"
  ev_source :: SessionEventSource
  ev_raw_text :: "string option"
  ev_payload :: SessionEventPayload

definition session_event_new :: "SessionEventSource \<Rightarrow> string option \<Rightarrow> SessionEventPayload \<Rightarrow> SessionEvent" where
  "session_event_new source raw_text payload =
     \<lparr>ev_sequence = None, ev_occurred_at_ms = None, ev_source = source,
      ev_raw_text = raw_text, ev_payload = payload\<rparr>"

section \<open>Events from the codex screen parser\<close>

text \<open>
  What the screen parser (\<open>codex_tui.rs\<close>) hands over: a message of a role, or a tool, skill or
  file-change event. Only the fields the conversion reads are kept of a file change.
\<close>

datatype ScreenMessageRole = User | Agent

datatype CodexFileChangeAction = Added | Edited | Deleted

record CodexFileChange =
  fc_action :: CodexFileChangeAction
  fc_path :: string
  fc_additions :: "nat option"
  fc_deletions :: "nat option"

datatype CodexTranscriptEvent =
    Tool string string
  | Skill string string
  | FileChange CodexFileChange

datatype CodexParsedItem =
    Message ScreenMessageRole string
  | Event CodexTranscriptEvent

definition trust_question :: string where
  "trust_question = ''Do you trust the contents of this directory?''"

definition detect_directory_trust_prompt :: "string \<Rightarrow> bool" where
  "detect_directory_trust_prompt screen \<longleftrightarrow>
     contains_str screen trust_question \<and> contains_str screen ''1. Yes, continue''"

definition trust_options :: "SessionPromptOption list" where
  "trust_options = [\<lparr>po_label = ''Yes, continue'', po_value = ''yes''\<rparr>,
                    \<lparr>po_label = ''No, exit'', po_value = ''no''\<rparr>]"

definition looks_like_error_message :: "string \<Rightarrow> bool" where
  "looks_like_error_message text \<longleftrightarrow> (let lower = to_ascii_lowercase (trim_start text) in
     prefix ''error:'' lower \<or> prefix ''fatal:'' lower \<or>
     prefix ''failed:'' lower \<or> prefix ''panic:'' lower)"

definition assistant_message_payload :: "string \<Rightarrow> SessionEventPayload" where
  "assistant_message_payload text =
     (if detect_directory_trust_prompt text
      then Prompt Confirmation trust_question trust_options
      else if looks_like_error_message text then Error text False
      else AssistantText text)"

definition command_output_status :: "string \<Rightarrow> SessionCommandOutputStatus" where
  "command_output_status output = (let lower = to_ascii_lowercase output in
     if contains_str lower ''error'' \<or> contains_str lower ''failed''
        \<or> contains_str lower ''panic'' \<or> contains_str lower ''not found''
     then SessionCommandOutputStatus.Failed
     else if contains_str lower ''ok'' \<or> contains_str lower ''success''
        \<or> contains_str lower ''passed'' \<or> contains_str lower ''finished''
     then Succeeded
     else if contains_str lower ''running'' then SessionCommandOutputStatus.Running
     else SessionCommandOutputStatus.Unknown)"

fun file_change_label :: "CodexFileChangeAction \<Rightarrow> string" where
  "file_change_label Added = ''added''"
| "file_change_label Edited = ''edited''"
| "file_change_label Deleted = ''deleted''"

definition insert_count :: "string \<Rightarrow> nat option \<Rightarrow> (string \<times> SessionMetadataValue) list \<Rightarrow>
    (string \<times> SessionMetadataValue) list" where
  "insert_count key n entries = (case n of None \<Rightarrow> entries
     | Some k \<Rightarrow> bt_insert key (Number (show_nat k)) entries)"

fun codex_transcript_event_to_session_event :: "CodexTranscriptEvent \<Rightarrow> SessionEvent" where
  "codex_transcript_event_to_session_event (Tool title body) =
     session_event_new Runtime (Some (''Ran '' @ title @ [CHR 0x0A] @ body))
       (CommandOutput title body (command_output_status body))"
| "codex_transcript_event_to_session_event (Skill title body) =
     session_event_new Runtime (Some (''Read SKILL.md ('' @ title @ '')'' @ [CHR 0x0A] @ body))
       (CommandOutput (''skill: '' @ title) body SessionCommandOutputStatus.Unknown)"
| "codex_transcript_event_to_session_event (FileChange change) =
     (let action = file_change_label (fc_action change);
          e1 = bt_insert ''kind'' (String ''file_change'') [];
          e2 = bt_insert ''action'' (String action) e1;
          e3 = bt_insert ''path'' (String (fc_path change)) e2;
          e4 = insert_count ''additions'' (fc_additions change) e3;
          e5 = insert_count ''deletions'' (fc_deletions change) e4
      in session_event_new Runtime (Some (action @ '' '' @ fc_path change)) (Metadata e5))"

fun codex_parsed_item_to_session_event :: "CodexParsedItem \<Rightarrow> SessionEvent" where
  "codex_parsed_item_to_session_event (Message ScreenMessageRole.User content) =
     session_event_new SessionEventSource.User (Some content) (UserInput content SessionInputKind.User)"
| "codex_parsed_item_to_session_event (Message Agent content) =
     session_event_new Assistant (Some content) (assistant_message_payload content)"
| "codex_parsed_item_to_session_event (Event event) = codex_transcript_event_to_session_event event"

section \<open>The runtime state machine\<close>

datatype AgentSessionState =
    Starting | Running | Streaming | WaitingForInput | ToolRunning
  | Interrupted | Failed | Exited | Archived

fun session_state_str :: "AgentSessionState \<Rightarrow> string" where
  "session_state_str Starting = ''starting''"
| "session_state_str Running = ''running''"
| "session_state_str Streaming = ''streaming''"
| "session_state_str WaitingForInput = ''waiting_for_input''"
| "session_state_str ToolRunning = ''tool_running''"
| "session_state_str Interrupted = ''interrupted''"
| "session_state_str Failed = ''failed''"
| "session_state_str Exited = ''exited''"
| "session_state_str Archived = ''archived''"

definition is_terminal :: "AgentSessionState \<Rightarrow> bool" where
  "is_terminal s \<longleftrightarrow> s \<in> {Interrupted, Failed, Exited, Archived}"

record InvalidSessionTransition =
  it_from :: AgentSessionState
  it_to :: AgentSessionState
  it_reason :: string

record SessionStateMachine =
  sm_state :: AgentSessionState
  sm_invalid :: "InvalidSessionTransition list"

definition machine_new :: SessionStateMachine where
  "machine_new = \<lparr>sm_state = Starting, sm_invalid = []\<rparr>"

definition from_state :: "AgentSessionState \<Rightarrow> SessionStateMachine" where
  "from_state s = \<lparr>sm_state = s, sm_invalid = []\<rparr>"

definition transition :: "SessionStateMachine \<Rightarrow> AgentSessionState \<Rightarrow> string \<Rightarrow> SessionStateMachine" where
  "transition m to reason =
     (if sm_state m = to then m
      else if is_terminal (sm_state m) \<and> to \<noteq> Archived
      then m\<lparr>sm_invalid := sm_invalid m @
              [\<lparr>it_from = sm_state m, it_to = to, it_reason = reason\<rparr>]\<rparr>
      else m\<lparr>sm_state := to\<rparr>)"

fun next_state :: "AgentSessionState \<Rightarrow> SessionEventPayload \<Rightarrow> AgentSessionState" where
  "next_state cur (UserInput _ _) = Running"
| "next_state cur (AssistantText _) = Streaming"
| "next_state cur (CommandOutput _ _ status) = (case status of
      SessionCommandOutputStatus.Running \<Rightarrow> ToolRunning
    | SessionCommandOutputStatus.Unknown \<Rightarrow> ToolRunning
    | Succeeded \<Rightarrow> Running
    | SessionCommandOutputStatus.Failed \<Rightarrow> Failed)"
| "next_state cur (StatusChange status _) = (case status of
      SessionEventStatus.Starting \<Rightarrow> Starting
    | SessionEventStatus.Running \<Rightarrow> Running
    | SessionEventStatus.WaitingForInput \<Rightarrow> WaitingForInput
    | Completed \<Rightarrow> Exited
    | SessionEventStatus.Failed \<Rightarrow> Failed
    | Stopped \<Rightarrow> Interrupted)"
| "next_state cur (Error _ recoverable) = (if recoverable then WaitingForInput else Failed)"
| "next_state cur (Prompt _ _ _) = WaitingForInput"
| "next_state cur (Metadata _) = cur"

definition apply_event :: "SessionStateMachine \<Rightarrow> SessionEvent \<Rightarrow> SessionStateMachine" where
  "apply_event m event = transition m (next_state (sm_state m) (ev_payload event))
     (case ev_raw_text event of None \<Rightarrow> ''session event'' | Some t \<Rightarrow> t)"

fun apply_events :: "SessionStateMachine \<Rightarrow> SessionEvent list \<Rightarrow> SessionStateMachine" where
  "apply_events m [] = m"
| "apply_events m (e # es) = apply_events (apply_event m e) es"

definition mark_interrupted :: "SessionStateMachine \<Rightarrow> string \<Rightarrow> SessionStateMachine" where
  "mark_interrupted m reason = transition m Interrupted reason"

definition mark_exited :: "SessionStateMachine \<Rightarrow> int option \<Rightarrow> SessionStateMachine" where
  "mark_exited m exit_code =
     (case exit_code of
        Some code \<Rightarrow> if code \<noteq> 0 then transition m Failed ''process exited with failure''
                      else transition m Exited ''process exited''
      | None \<Rightarrow> transition m Exited ''process exited'')"

definition mark_archived :: "SessionStateMachine \<Rightarrow> SessionStateMachine" where
  "mark_archived m = transition m Archived ''workspace archived''"

section \<open>The PTY pipeline\<close>

record PtyChunkInput =
  ck_sequence :: nat
  ck_text :: string

text \<open>
  \<open>process_codex_pty_pipeline\<close> over the results of the screen parser: the parsed items of the
  screen delta and the parser's verdict on whether the screen accepts input (\<open>codex_tui.rs\<close>).
\<close>

record SessionPipelineOutput =
  out_chunk_range :: "(nat \<times> nat) option"
  out_normalized_text :: string
  out_events :: "SessionEvent list"
  out_state :: AgentSessionState
  out_ready_for_input :: bool
  out_trust_prompt :: bool

definition is_prompt_event :: "SessionEvent \<Rightarrow> bool" where
  "is_prompt_event e = (case ev_payload e of Prompt _ _ _ \<Rightarrow> True | _ \<Rightarrow> False)"

definition is_running_tool_event :: "SessionEvent \<Rightarrow> bool" where
  "is_running_tool_event e = (case ev_payload e of
     CommandOutput _ _ status \<Rightarrow> status = SessionCommandOutputStatus.Running | _ \<Rightarrow> False)"

definition chunk_range :: "PtyChunkInput list \<Rightarrow> (nat \<times> nat) option" where
  "chunk_range chunks = (case map ck_sequence chunks of [] \<Rightarrow> None
     | s # ss \<Rightarrow> Some (fold min ss s, fold max ss s))"

definition codex_trust_prompt_event :: "string \<Rightarrow> SessionEvent" where
  "codex_trust_prompt_event screen =
     (let text = trim (case find (\<lambda>l. contains_str l trust_question) (str_lines screen) of
                         Some l \<Rightarrow> l | None \<Rightarrow> trust_question)
      in session_event_new System (Some text) (Prompt Confirmation text trust_options))"

definition ready_event :: SessionEvent where
  "ready_event = session_event_new System None
     (StatusChange SessionEventStatus.WaitingForInput (Some ''ready for input''))"

definition process_codex_pty_pipeline ::
    "PtyChunkInput list \<Rightarrow> string \<Rightarrow> CodexParsedItem list \<Rightarrow> bool \<Rightarrow> AgentSessionState \<Rightarrow> SessionPipelineOutput" where
  "process_codex_pty_pipeline chunks screen items screen_ready previous =
     (let trust_prompt = detect_directory_trust_prompt screen;
          events0 = map codex_parsed_item_to_session_event items;
          ready = (screen_ready \<and> \<not> list_ex is_running_tool_event events0);
          events1 = (if trust_prompt \<and> \<not> list_ex is_prompt_event events0
                     then events0 @ [codex_trust_prompt_event screen] else events0);
          events2 = (if ready \<and> previous \<noteq> WaitingForInput then events1 @ [ready_event] else events1);
          machine = apply_events (from_state previous) events2
      in \<lparr>out_chunk_range = chunk_range chunks, out_normalized_text = concat (map ck_text chunks),
          out_events = events2, out_state = sm_state machine,
          out_ready_for_input = ready, out_trust_prompt = trust_prompt\<rparr>)"

section \<open>Lemmas\<close>

lemmas machine_defs = transition_def apply_event_def mark_interrupted_def mark_exited_def
  mark_archived_def is_terminal_def

lemma apply_events_fold: "apply_events m es = fold (\<lambda>e m. apply_event m e) es m"
  by (induction es arbitrary: m) auto

lemma apply_events_append [simp]:
  "apply_events m (es @ fs) = apply_events (apply_events m es) fs"
  by (simp add: apply_events_fold)

lemma transition_terminal:
  "is_terminal (sm_state m) \<Longrightarrow> to \<noteq> Archived \<Longrightarrow> sm_state (transition m to r) = sm_state m"
  by (auto simp: transition_def)

lemma next_state_never_archived: "cur \<noteq> Archived \<Longrightarrow> next_state cur p \<noteq> Archived"
  by (cases p) (auto split: SessionCommandOutputStatus.splits SessionEventStatus.splits)

lemma transition_archived: "sm_state m = Archived \<Longrightarrow> sm_state (transition m to r) = Archived"
  by (auto simp: transition_def is_terminal_def)

lemma apply_event_terminal:
  assumes "is_terminal (sm_state m)"
  shows "sm_state (apply_event m e) = sm_state m"
proof (cases "sm_state m = Archived")
  case True
  then show ?thesis by (simp add: apply_event_def transition_archived)
next
  case False
  then have "next_state (sm_state m) (ev_payload e) \<noteq> Archived" by (rule next_state_never_archived)
  with assms show ?thesis by (simp add: apply_event_def transition_terminal)
qed

text \<open>Every way the machine is driven, as one step function.\<close>

datatype SessionAction =
    ApplyEvent SessionEvent
  | MarkInterrupted string
  | MarkExited "int option"
  | MarkArchived

fun machine_step :: "SessionStateMachine \<Rightarrow> SessionAction \<Rightarrow> SessionStateMachine" where
  "machine_step m (ApplyEvent e) = apply_event m e"
| "machine_step m (MarkInterrupted r) = mark_interrupted m r"
| "machine_step m (MarkExited c) = mark_exited m c"
| "machine_step m MarkArchived = mark_archived m"

interpretation archived: terminal_machine machine_step sm_state "\<lambda>s. s = Archived"
proof
  fix s :: SessionStateMachine and e
  assume "sm_state s = Archived"
  then show "sm_state (machine_step s e) = sm_state s"
    by (cases e) (auto simp: machine_defs transition_archived split: option.splits)
qed

interpretation ended: closed_machine machine_step "\<lambda>m. is_terminal (sm_state m)"
proof
  fix s :: SessionStateMachine and e
  assume "is_terminal (sm_state s)"
  then show "is_terminal (sm_state (machine_step s e))"
    by (cases e) (auto simp: apply_event_terminal mark_interrupted_def mark_exited_def
      mark_archived_def transition_def is_terminal_def split: option.splits)
qed

interpretation events: terminal_machine apply_event sm_state is_terminal
  by unfold_locales (rule apply_event_terminal)

lemma machine_step_invalid_grows:
  "\<exists>new. sm_invalid (machine_step m a) = sm_invalid m @ new"
  by (cases a) (auto simp: machine_defs split: option.splits)

lemma machine_step_changed_or_logged:
  assumes "sm_state (machine_step m a) = sm_state m"
  shows "sm_invalid (machine_step m a) = sm_invalid m \<or>
    (is_terminal (sm_state m) \<and> length (sm_invalid (machine_step m a)) = Suc (length (sm_invalid m)))"
  using assms by (cases a) (auto simp: machine_defs split: option.splits if_splits)

section \<open>Properties\<close>

lemma machine_step_state: "is_terminal (sm_state m) \<Longrightarrow>
    sm_state (machine_step m a) = (if a = MarkArchived then Archived else sm_state m)"
  by (cases a) (auto simp: apply_event_terminal mark_interrupted_def mark_exited_def
    mark_archived_def transition_def is_terminal_def split: option.splits)

lemma terminal_fold: "is_terminal (sm_state m) \<Longrightarrow>
    sm_state (fold (\<lambda>a m. machine_step m a) as m) =
      (if MarkArchived \<in> set as then Archived else sm_state m)"
proof (induction as arbitrary: m)
  case (Cons a as)
  have "is_terminal (sm_state (machine_step m a))" by (rule ended.closed [OF Cons.prems])
  from Cons.IH [OF this] machine_step_state [OF Cons.prems, of a] show ?case by auto
qed simp

text \<open>
  A session that has ended (interrupted, failed, exited or archived) is never brought back: after
  any sequence of events, interrupts, exits and archivings it is archived if it was archived at some
  point of the sequence, and otherwise in the state it ended in.
\<close>

lemma ended_session_only_archives:
  assumes "is_terminal (sm_state m)"
  shows "sm_state (fold (\<lambda>a m. machine_step m a) as m) =
    (if MarkArchived \<in> set as then Archived else sm_state m)"
  by (rule terminal_fold [OF assms])

fun asked_state :: "AgentSessionState \<Rightarrow> SessionAction \<Rightarrow> AgentSessionState" where
  "asked_state cur (ApplyEvent e) = next_state cur (ev_payload e)"
| "asked_state cur (MarkInterrupted _) = Interrupted"
| "asked_state cur (MarkExited code) = (if code = None \<or> code = Some 0 then Exited else Failed)"
| "asked_state cur MarkArchived = Archived"

text \<open>
  No request to change state is dropped silently: a step either moves the machine to the state
  it asks for, or leaves an ended machine where it was and logs that very refusal (the states it
  would have joined and the reason).
\<close>

lemma transition_applied_or_logged:
  "(sm_state (machine_step m a) = asked_state (sm_state m) a \<and>
      sm_invalid (machine_step m a) = sm_invalid m) \<or>
   (is_terminal (sm_state m) \<and> sm_state (machine_step m a) = sm_state m \<and>
      (\<exists>reason. sm_invalid (machine_step m a) = sm_invalid m @
        [\<lparr>it_from = sm_state m, it_to = asked_state (sm_state m) a, it_reason = reason\<rparr>]))"
  by (cases a) (auto simp: machine_defs split: option.splits)

text \<open>
  A PTY batch whose screen is ready for input, with no tool still running, ends waiting for
  input unless the session was already waiting or the batch's own events ended it; an ended session
  stays in the state it ended in whatever the batch holds.
\<close>

lemma pipeline_final_state:
  "let out = process_codex_pty_pipeline chunks screen items screen_ready previous;
       batch = map codex_parsed_item_to_session_event items;
       asked = (if detect_directory_trust_prompt screen \<and> \<not> list_ex is_prompt_event batch
                then batch @ [codex_trust_prompt_event screen] else batch);
       reached = sm_state (apply_events (from_state previous) asked)
   in out_state out =
        (if out_ready_for_input out \<and> previous \<noteq> WaitingForInput \<and> \<not> is_terminal reached
         then WaitingForInput else reached)
      \<and> (is_terminal previous \<longrightarrow> out_state out = previous)
      \<and> (out_ready_for_input out \<longrightarrow> \<not> list_ex is_running_tool_event (out_events out))"
proof -
  define batch where "batch = map codex_parsed_item_to_session_event items"
  define asked where "asked = (if detect_directory_trust_prompt screen \<and> \<not> list_ex is_prompt_event batch
    then batch @ [codex_trust_prompt_event screen] else batch)"
  define ready where "ready = (screen_ready \<and> \<not> list_ex is_running_tool_event batch)"
  define out where "out = process_codex_pty_pipeline chunks screen items screen_ready previous"
  have out: "out_ready_for_input out = ready"
    "out_events out = (if ready \<and> previous \<noteq> WaitingForInput then asked @ [ready_event] else asked)"
    "out_state out = sm_state (apply_events (from_state previous) (out_events out))"
    by (simp_all add: out_def process_codex_pty_pipeline_def Let_def ready_def asked_def batch_def)
  let ?m = "apply_events (from_state previous) asked"
  have "sm_state (apply_event ?m ready_event) =
      (if is_terminal (sm_state ?m) then sm_state ?m else WaitingForInput)"
    by (simp add: apply_event_terminal) (auto simp: ready_event_def session_event_new_def apply_event_def
      transition_def)
  then have state: "out_state out = (if ready \<and> previous \<noteq> WaitingForInput \<and> \<not> is_terminal (sm_state ?m)
      then WaitingForInput else sm_state ?m)"
    by (simp add: out)
  have "is_terminal previous \<longrightarrow> sm_state (apply_events (from_state previous) es) = previous" for es
    using events.terminal_run [of "from_state previous" es] by (simp add: apply_events_fold from_state_def)
  moreover have "ready \<longrightarrow> \<not> list_ex is_running_tool_event (out_events out)"
    by (auto simp: out asked_def ready_def is_running_tool_event_def ready_event_def
      session_event_new_def codex_trust_prompt_event_def Let_def)
  ultimately show ?thesis
    using state out(1,3) unfolding Let_def out_def [symmetric] batch_def [symmetric] asked_def [symmetric]
    by simp
qed

end
