(* ===== verification/Turn_Ledger.thy ===== *)
theory Turn_Ledger
  imports Prelude
begin

text \<open>
  The turn ledger of a session (\<open>TurnGenerations\<close> in \<open>crates/core/src/archcar/session.rs\<close>): which
  turn generations were started by busy marks, which input started each, which the provider has
  taken in, which were retired before a turn took them, and which are completed. The daemon only
  trusts a session to be idle when the latest generation is completed, so the lemmas show that a
  completion finishes the turn it names and never a newer one, that a retired input never finishes
  another input's generation, and that the duration book-keeping stays bounded by the live turns.

  The generation counters are \<open>nat\<close>: a \<open>u64\<close> that is incremented once per input does not wrap.
\<close>

section \<open>The ledger\<close>

record TurnGenerations =
  tg_started :: nat
  tg_completed :: nat
  tg_inputs :: "(string \<times> nat) list"
  tg_taken :: nat
  tg_retired :: "nat list"
  tg_started_at :: "(nat \<times> nat) list"
  tg_reported :: "nat option"

definition ledger_default :: TurnGenerations where
  "ledger_default = \<lparr>tg_started = 0, tg_completed = 0, tg_inputs = [], tg_taken = 0,
     tg_retired = [], tg_started_at = [], tg_reported = None\<rparr>"

definition latest_turn_completed :: "TurnGenerations \<Rightarrow> bool" where
  "latest_turn_completed t \<longleftrightarrow> tg_completed t = tg_started t"

definition generations_of :: "string \<Rightarrow> TurnGenerations \<Rightarrow> nat list" where
  "generations_of i t = map snd (filter (\<lambda>(id, _). id = i) (tg_inputs t))"

definition note_input :: "string \<Rightarrow> TurnGenerations \<Rightarrow> TurnGenerations" where
  "note_input local_input_id t = t\<lparr>
     tg_started_at := filter (\<lambda>(g, _). g \<notin> set (generations_of local_input_id t)) (tg_started_at t),
     tg_reported := None,
     tg_inputs := tg_inputs t @ [(local_input_id, tg_started t)]\<rparr>"

text \<open>The \<open>while\<close> loop of \<open>catch_up_over_retired\<close>: \<open>remove\<close> succeeds on a member of the set.\<close>

function catch_up :: "nat \<Rightarrow> nat list \<Rightarrow> nat \<times> nat list" where
  "catch_up completed retired =
     (if Suc completed \<in> set retired
      then catch_up (Suc completed) (removeAll (Suc completed) retired)
      else (completed, retired))"
  by pat_completeness auto
termination
  by (relation "measure (\<lambda>(_, r). length r)") (auto simp: length_removeAll_less)

declare catch_up.simps [simp del]

definition catch_up_over_retired :: "TurnGenerations \<Rightarrow> TurnGenerations" where
  "catch_up_over_retired t =
     (let (completed, retired) = catch_up (tg_completed t) (tg_retired t)
      in t\<lparr>tg_completed := completed, tg_retired := filter (\<lambda>g. completed < g) retired\<rparr>)"

definition retire_input :: "string \<Rightarrow> TurnGenerations \<Rightarrow> TurnGenerations" where
  "retire_input local_input_id t =
     (let retired = tg_retired t @ filter (\<lambda>g. tg_completed t < g) (generations_of local_input_id t)
      in catch_up_over_retired (t\<lparr>
        tg_retired := retired,
        tg_inputs := filter (\<lambda>(id, _). id \<noteq> local_input_id) (tg_inputs t),
        tg_started_at := filter (\<lambda>(g, _). g \<notin> set retired) (tg_started_at t)\<rparr>))"

definition generation_of :: "string \<Rightarrow> TurnGenerations \<Rightarrow> nat option" where
  "generation_of i t = map_option snd (find (\<lambda>(id, _). id = i) (tg_inputs t))"

definition note_input_taken :: "string \<Rightarrow> TurnGenerations \<Rightarrow> TurnGenerations" where
  "note_input_taken local_input_id t = (case generation_of local_input_id t of
     None \<Rightarrow> t | Some g \<Rightarrow> t\<lparr>tg_taken := max (tg_taken t) g\<rparr>)"

definition note_started :: "nat \<Rightarrow> TurnGenerations \<Rightarrow> TurnGenerations" where
  "note_started now_ms t = t\<lparr>tg_started_at := bt_insert (tg_started t) now_ms (tg_started_at t)\<rparr>"

text \<open>What \<open>mark_session_busy_for_input\<close> does to the ledger.\<close>

definition busy_mark :: "nat \<Rightarrow> TurnGenerations \<Rightarrow> TurnGenerations" where
  "busy_mark now_ms t = note_started now_ms (t\<lparr>tg_started := Suc (tg_started t)\<rparr>)"

datatype FinishedTurn = Latest | Settled | Input string | Inputs "string list"

definition list_max :: "nat list \<Rightarrow> nat option" where
  "list_max gs = (case gs of [] \<Rightarrow> None | g # gs \<Rightarrow> Some (fold max gs g))"

fun finished_generation :: "TurnGenerations \<Rightarrow> FinishedTurn \<Rightarrow> nat" where
  "finished_generation t Latest = tg_started t"
| "finished_generation t Settled = tg_started t"
| "finished_generation t (Input i) =
     (case generation_of i t of None \<Rightarrow> tg_started t | Some g \<Rightarrow> max (tg_taken t) g)"
| "finished_generation t (Inputs ids) =
     (case list_max (map snd (filter (\<lambda>(id, _). id \<in> set ids) (tg_inputs t))) of
        None \<Rightarrow> tg_started t | Some g \<Rightarrow> g)"

definition finish :: "FinishedTurn \<Rightarrow> TurnGenerations \<Rightarrow> (nat \<times> nat option) \<times> TurnGenerations" where
  "finish turn t =
     (let finished = finished_generation t turn;
          t1 = catch_up_over_retired (t\<lparr>
                 tg_completed := max (tg_completed t) finished,
                 tg_taken := max (tg_taken t) finished,
                 tg_inputs := filter (\<lambda>(_, g). finished < g) (tg_inputs t)\<rparr>);
          started_at = map_option snd (find (\<lambda>(g, _). g \<le> finished) (tg_started_at t1))
      in ((finished, started_at),
          t1\<lparr>tg_started_at := filter (\<lambda>(g, _). finished < g) (tg_started_at t1)\<rparr>))"

definition finish_timed :: "FinishedTurn \<Rightarrow> nat \<Rightarrow> TurnGenerations \<Rightarrow> nat option \<times> TurnGenerations" where
  "finish_timed turn now_ms t =
     (let ((_, started_at), t1) = finish turn t;
          measured = map_option (\<lambda>s. now_ms - s) started_at
      in if turn = Settled
         then (case tg_reported t1 of Some d \<Rightarrow> Some d | None \<Rightarrow> measured, t1\<lparr>tg_reported := None\<rparr>)
         else (measured, t1\<lparr>tg_reported := measured\<rparr>))"

text \<open>Every operation the session code performs on its ledger.\<close>

datatype LedgerOp =
    BusyMark nat
  | NoteInput string
  | NoteInputTaken string
  | RetireInput string
  | FinishTimed FinishedTurn nat

fun ledger_step :: "TurnGenerations \<Rightarrow> LedgerOp \<Rightarrow> TurnGenerations" where
  "ledger_step t (BusyMark now) = busy_mark now t"
| "ledger_step t (NoteInput i) = note_input i t"
| "ledger_step t (NoteInputTaken i) = note_input_taken i t"
| "ledger_step t (RetireInput i) = retire_input i t"
| "ledger_step t (FinishTimed turn now) = snd (finish_timed turn now t)"

definition ledger_run :: "LedgerOp list \<Rightarrow> TurnGenerations \<Rightarrow> TurnGenerations" where
  "ledger_run ops t = fold (\<lambda>op t. ledger_step t op) ops t"

section \<open>The invariant\<close>

text \<open>
  A generation is live when it was started and is neither completed nor retired.
\<close>

definition live_generations :: "TurnGenerations \<Rightarrow> nat set" where
  "live_generations t = {g. tg_completed t < g \<and> g \<le> tg_started t \<and> g \<notin> set (tg_retired t)}"

definition ledger_ok :: "TurnGenerations \<Rightarrow> bool" where
  "ledger_ok t \<longleftrightarrow>
     tg_completed t \<le> tg_started t \<and> tg_taken t \<le> tg_started t \<and>
     sorted (map snd (tg_inputs t)) \<and> (\<forall>g\<in>set (map snd (tg_inputs t)). g \<le> tg_started t) \<and>
     (\<forall>g\<in>set (tg_retired t). Suc (tg_completed t) < g \<and> g \<le> tg_started t) \<and>
     bt_sorted (tg_started_at t) \<and> (\<forall>g\<in>set (map fst (tg_started_at t)). g \<in> live_generations t)"

section \<open>Lemmas\<close>

lemma catch_up_spec:
  "catch_up c r = (c', r') \<Longrightarrow>
     c \<le> c' \<and> {c<..c'} \<subseteq> set r \<and> Suc c' \<notin> set r \<and> set r' = set r - {c<..c'}"
proof (induction c r arbitrary: c' r' rule: catch_up.induct)
  case (1 c r)
  show ?case
  proof (cases "Suc c \<in> set r")
    case True
    with "1.prems" have "catch_up (Suc c) (removeAll (Suc c) r) = (c', r')"
      by (simp add: catch_up.simps [of c r])
    then have ih: "Suc c \<le> c'" "{Suc c<..c'} \<subseteq> set r - {Suc c}" "Suc c' \<notin> set r - {Suc c}"
        "set r' = set r - {Suc c} - {Suc c<..c'}"
      using "1.IH" [OF True] by auto
    have "{c<..c'} = insert (Suc c) {Suc c<..c'}" "Suc c' \<noteq> Suc c" using ih(1) by auto
    with ih True show ?thesis by auto
  next
    case False
    with 1 show ?thesis by (simp add: catch_up.simps [of c r])
  qed
qed

text \<open>What catching up does to a ledger, in one bundle: it steps over retired generations only.\<close>

lemma catch_up_over_retired_fields:
  "tg_started (catch_up_over_retired t) = tg_started t"
  "tg_taken (catch_up_over_retired t) = tg_taken t"
  "tg_inputs (catch_up_over_retired t) = tg_inputs t"
  "tg_started_at (catch_up_over_retired t) = tg_started_at t"
  "tg_reported (catch_up_over_retired t) = tg_reported t"
  by (simp_all add: catch_up_over_retired_def split: prod.splits)

lemma catch_up_over_retired_spec:
  defines "u t \<equiv> catch_up_over_retired t"
  shows "tg_completed t \<le> tg_completed (u t)"
    "{tg_completed t<..tg_completed (u t)} \<subseteq> set (tg_retired t)"
    "Suc (tg_completed (u t)) \<notin> set (tg_retired t)"
    "set (tg_retired (u t)) = {g \<in> set (tg_retired t). tg_completed (u t) < g}"
proof -
  obtain c r where cr: "catch_up (tg_completed t) (tg_retired t) = (c, r)" by (metis surj_pair)
  note s = catch_up_spec [OF cr]
  have u: "tg_completed (u t) = c" "tg_retired (u t) = filter (\<lambda>g. c < g) r"
    by (simp_all add: u_def catch_up_over_retired_def cr)
  show "tg_completed t \<le> tg_completed (u t)" "{tg_completed t<..tg_completed (u t)} \<subseteq> set (tg_retired t)"
    "Suc (tg_completed (u t)) \<notin> set (tg_retired t)"
    using s by (simp_all add: u)
  show "set (tg_retired (u t)) = {g \<in> set (tg_retired t). tg_completed (u t) < g}"
    using s by (auto simp: u)
qed

lemma live_catch_up: "live_generations (catch_up_over_retired t) = live_generations t"
proof -
  note s = catch_up_over_retired_spec [of t]
  show ?thesis unfolding live_generations_def
    using s(1,2) by (force simp: s(4) catch_up_over_retired_fields)
qed

lemma ledger_ok_catch_up:
  assumes "tg_completed t \<le> tg_started t" "tg_taken t \<le> tg_started t"
    and "sorted (map snd (tg_inputs t))" "\<forall>g\<in>set (map snd (tg_inputs t)). g \<le> tg_started t"
    and "\<forall>g\<in>set (tg_retired t). g \<le> tg_started t"
    and "bt_sorted (tg_started_at t)" "\<forall>g\<in>set (map fst (tg_started_at t)). g \<in> live_generations t"
  shows "ledger_ok (catch_up_over_retired t)"
proof -
  note s = catch_up_over_retired_spec [of t]
  have "tg_completed (catch_up_over_retired t) \<le> tg_started t"
  proof (rule ccontr)
    assume "\<not> ?thesis"
    then have "tg_completed (catch_up_over_retired t) \<in> set (tg_retired t)"
      using s(2) assms(1) by (auto dest: subsetD)
    with \<open>\<not> ?thesis\<close> assms(5) show False by blast
  qed
  moreover have "Suc (tg_completed (catch_up_over_retired t)) < g \<and> g \<le> tg_started t"
    if "g \<in> set (tg_retired (catch_up_over_retired t))" for g
  proof -
    have "g \<in> set (tg_retired t)" "tg_completed (catch_up_over_retired t) < g"
      using that by (simp_all add: s(4))
    moreover have "g \<noteq> Suc (tg_completed (catch_up_over_retired t))"
      using s(3) calculation(1) by metis
    ultimately show ?thesis using assms(5) by simp
  qed
  ultimately show ?thesis
    using assms by (simp add: ledger_ok_def catch_up_over_retired_fields live_catch_up)
qed

lemma generations_of_bound: "ledger_ok t \<Longrightarrow> g \<in> set (generations_of i t) \<Longrightarrow> g \<le> tg_started t"
  by (auto simp: generations_of_def ledger_ok_def)

lemma generation_of_mem: "generation_of i t = Some g \<Longrightarrow> (i, g) \<in> set (tg_inputs t)"
  by (auto simp: generation_of_def find_Some_iff in_set_conv_nth)

lemma generation_of_bound: "ledger_ok t \<Longrightarrow> generation_of i t = Some g \<Longrightarrow> g \<le> tg_started t"
  by (auto dest!: generation_of_mem simp: ledger_ok_def)

lemma fold_max_ge: "x \<le> fold max xs (x::nat) \<and> (\<forall>y\<in>set xs. y \<le> fold max xs x) \<and> fold max xs x \<in> insert x (set xs)"
proof (induction xs arbitrary: x)
  case (Cons a xs)
  from Cons [of "max a x"] show ?case by (auto simp: max_def split: if_splits)
qed simp

lemma list_max_Some: "list_max gs = Some m \<Longrightarrow> m \<in> set gs \<and> (\<forall>g\<in>set gs. g \<le> m)"
  using fold_max_ge [of "hd gs" "tl gs"] by (cases gs) (auto simp: list_max_def)

lemma finished_generation_bound: "ledger_ok t \<Longrightarrow> finished_generation t turn \<le> tg_started t"
proof (cases turn)
  assume ok: "ledger_ok t"
  case (Input i)
  with ok show ?thesis
    by (auto split: option.split dest: generation_of_bound [OF ok] simp: ledger_ok_def)
next
  assume ok: "ledger_ok t"
  case (Inputs ids)
  with ok show ?thesis
    by (auto split: option.split dest!: list_max_Some simp: ledger_ok_def)
qed simp_all

lemma filter_map_keys: "set (map fst (filter P xs)) \<subseteq> set (map fst xs)"
  by auto

lemma sorted_filter_snd: "sorted (map snd xs) \<Longrightarrow> sorted (map snd (filter P xs))"
  by (simp add: sorted_wrt_map sorted_wrt_filter)

section \<open>Every operation keeps the invariant\<close>

lemma live_busy_mark:
  assumes ok: "ledger_ok t"
  shows "live_generations (busy_mark now t) = insert (Suc (tg_started t)) (live_generations t)"
proof -
  have "tg_completed t \<le> tg_started t" "Suc (tg_started t) \<notin> set (tg_retired t)"
    using ok by (auto simp: ledger_ok_def)
  then show ?thesis
    by (auto simp: live_generations_def busy_mark_def note_started_def le_Suc_eq)
qed

lemma live_note_input: "live_generations (note_input i t) = live_generations t"
  by (simp add: live_generations_def note_input_def)

lemma live_note_input_taken: "live_generations (note_input_taken i t) = live_generations t"
  by (simp add: live_generations_def note_input_taken_def split: option.split)

lemma live_retire_input:
  "live_generations (retire_input i t) = live_generations t - set (generations_of i t)"
  unfolding retire_input_def Let_def live_catch_up by (auto simp: live_generations_def)

lemma busy_mark_ok: "ledger_ok t \<Longrightarrow> ledger_ok (busy_mark now t)"
proof -
  assume ok: "ledger_ok t"
  let ?u = "busy_mark now t"
  note live = live_busy_mark [OF ok, of now]
  have "set (map fst (tg_started_at ?u)) = insert (Suc (tg_started t)) (set (map fst (tg_started_at t)))"
    by (simp add: busy_mark_def note_started_def bt_insert_keys)
  moreover have "bt_sorted (tg_started_at ?u)"
    using ok by (auto simp: busy_mark_def note_started_def ledger_ok_def)
  ultimately show ?thesis
    using ok by (simp add: ledger_ok_def live) (simp add: busy_mark_def note_started_def le_Suc_eq)
qed

lemma note_input_ok:
  assumes ok: "ledger_ok t"
  shows "ledger_ok (note_input i t)"
  using ok live_note_input [of i t] unfolding ledger_ok_def
  by (auto simp: note_input_def sorted_append)

lemma note_input_taken_ok: "ledger_ok t \<Longrightarrow> ledger_ok (note_input_taken i t)"
proof (cases "generation_of i t")
  case (Some g)
  assume ok: "ledger_ok t"
  from ok generation_of_bound [OF ok Some] live_note_input_taken [of i t] show ?thesis
    unfolding ledger_ok_def by (simp add: note_input_taken_def Some)
qed (simp add: note_input_taken_def)

lemma retire_input_ok:
  assumes ok: "ledger_ok t"
  shows "ledger_ok (retire_input i t)"
  unfolding retire_input_def Let_def
proof (rule ledger_ok_catch_up, goal_cases)
  case 5
  with ok show ?case by (auto simp: ledger_ok_def dest: generations_of_bound [OF ok])
next
  case 7
  with ok show ?case by (auto simp: ledger_ok_def live_generations_def)
qed (use ok in \<open>auto simp: ledger_ok_def sorted_filter_snd\<close>)

lemma finish_fields:
  assumes "finish turn t = ((finished, at), u)"
  shows "finished = finished_generation t turn"
    "tg_started u = tg_started t"
    "tg_inputs u = filter (\<lambda>(_, g). finished < g) (tg_inputs t)"
    "tg_started_at u = filter (\<lambda>(g, _). finished < g) (tg_started_at t)"
    "tg_reported u = tg_reported t"
    "at = map_option snd (find (\<lambda>(g, _). g \<le> finished) (tg_started_at t))"
  using assms by (auto simp: finish_def Let_def catch_up_over_retired_fields)

lemma finish_catch_up:
  defines "f turn t \<equiv> finished_generation t turn"
  shows "snd (finish turn t) = catch_up_over_retired (t\<lparr>tg_completed := max (tg_completed t) (f turn t),
    tg_taken := max (tg_taken t) (f turn t), tg_inputs := filter (\<lambda>(_, g). f turn t < g) (tg_inputs t),
    tg_started_at := filter (\<lambda>(g, _). f turn t < g) (tg_started_at t)\<rparr>)"
  unfolding finish_def Let_def f_def catch_up_over_retired_def by (simp split: prod.split)

lemma live_finish:
  "live_generations (snd (finish turn t)) = {g \<in> live_generations t. finished_generation t turn < g}"
  unfolding finish_catch_up live_catch_up by (auto simp: live_generations_def)

lemma finish_ok:
  assumes ok: "ledger_ok t"
  shows "ledger_ok (snd (finish turn t))"
proof -
  define f where "f = finished_generation t turn"
  define t0 where "t0 = t\<lparr>tg_completed := max (tg_completed t) f, tg_taken := max (tg_taken t) f,
    tg_inputs := filter (\<lambda>(_, g). f < g) (tg_inputs t),
    tg_started_at := filter (\<lambda>(g, _). f < g) (tg_started_at t)\<rparr>"
  have f: "f \<le> tg_started t" unfolding f_def by (rule finished_generation_bound [OF ok])
  have live: "live_generations t0 = {g \<in> live_generations t. f < g}"
    by (auto simp: live_generations_def t0_def)
  have "ledger_ok (catch_up_over_retired t0)"
  proof (rule ledger_ok_catch_up)
    show "\<forall>g\<in>set (map fst (tg_started_at t0)). g \<in> live_generations t0"
      using ok unfolding live by (auto simp: t0_def ledger_ok_def)
  qed (use ok f in \<open>simp_all add: t0_def ledger_ok_def sorted_filter_snd bt_filter_sorted\<close>)
  then show ?thesis by (simp add: finish_catch_up t0_def f_def)
qed

lemma ledger_ok_reported: "ledger_ok (t\<lparr>tg_reported := d\<rparr>) = ledger_ok t"
  by (simp add: ledger_ok_def live_generations_def)

lemma finish_timed_ok: "ledger_ok t \<Longrightarrow> ledger_ok (snd (finish_timed turn now t))"
  using finish_ok [of t turn]
  by (auto simp: finish_timed_def Let_def ledger_ok_reported split: prod.splits)

lemma ledger_default_ok: "ledger_ok ledger_default"
  by (simp add: ledger_ok_def ledger_default_def bt_sorted_def)

interpretation ledger: closed_machine ledger_step ledger_ok
proof
  fix t :: TurnGenerations and op
  assume "ledger_ok t"
  then show "ledger_ok (ledger_step t op)"
    by (cases op) (simp_all add: busy_mark_ok note_input_ok note_input_taken_ok retire_input_ok
      finish_timed_ok)
qed

lemmas live_simps = live_busy_mark live_note_input live_note_input_taken live_retire_input live_finish

lemma live_reported: "live_generations (t\<lparr>tg_reported := d\<rparr>) = live_generations t"
  by (simp add: live_generations_def)

lemma finish_timed_snd: "snd (finish_timed turn now t) =
    (snd (finish turn t))\<lparr>tg_reported := tg_reported (snd (finish_timed turn now t))\<rparr>"
  by (simp add: finish_timed_def Let_def split: prod.splits)

lemma live_finish_timed:
  "live_generations (snd (finish_timed turn now t)) =
     {g \<in> live_generations t. finished_generation t turn < g}"
  by (subst finish_timed_snd) (simp only: live_reported live_finish)

lemma run_ok: "ledger_ok (ledger_run ops ledger_default)"
  unfolding ledger_run_def by (rule ledger.closed_run [OF ledger_default_ok])

lemma latest_turn_completed_iff:
  assumes ok: "ledger_ok t"
  shows "latest_turn_completed t \<longleftrightarrow> live_generations t = {}"
proof
  assume "live_generations t = {}"
  then have "Suc (tg_completed t) \<notin> live_generations t" by simp
  with ok show "latest_turn_completed t"
    by (auto simp: latest_turn_completed_def live_generations_def ledger_ok_def)
qed (auto simp: latest_turn_completed_def live_generations_def)

lemma finish_started: "tg_started (snd (finish turn t)) = tg_started t"
  by (simp add: finish_catch_up catch_up_over_retired_fields)

lemma finish_timed_started: "tg_started (snd (finish_timed turn now t)) = tg_started t"
  by (subst finish_timed_snd) (simp add: finish_started)

lemma step_started: "tg_started t \<le> tg_started (ledger_step t op)"
proof (cases op)
  case (BusyMark n)
  then show ?thesis by (simp add: busy_mark_def note_started_def)
next
  case (RetireInput i)
  then show ?thesis by (simp add: retire_input_def Let_def catch_up_over_retired_fields)
qed (simp_all add: note_input_def note_input_taken_def finish_timed_started split: option.split)

lemma live_step_old:
  assumes "ledger_ok t"
  shows "live_generations (ledger_step t op) \<subseteq> insert (Suc (tg_started t)) (live_generations t)"
proof (cases op)
  case (BusyMark n)
  with assms show ?thesis by (simp add: live_busy_mark)
qed (simp_all add: live_simps live_finish_timed subset_insertI2 Diff_subset Collect_mono
  subset_insertI)

lemma live_run_old:
  assumes "ledger_ok t" and "g \<le> tg_started t" and "g \<in> live_generations (ledger_run ops t)"
  shows "g \<in> live_generations t"
  using assms
proof (induction ops arbitrary: t)
  case (Cons op ops)
  have "g \<in> live_generations (ledger_run ops (ledger_step t op))"
    using Cons.prems(3) by (simp add: ledger_run_def)
  moreover have "ledger_ok (ledger_step t op)" by (rule ledger.closed [OF Cons.prems(1)])
  moreover have "g \<le> tg_started (ledger_step t op)" using step_started [of t op] Cons.prems(2) by simp
  ultimately have "g \<in> live_generations (ledger_step t op)" by (rule Cons.IH [rotated 2])
  with live_step_old [OF Cons.prems(1), of op] Cons.prems(2) show ?case by auto
qed (simp add: ledger_run_def)

lemma live_iff: "g \<in> live_generations t \<longleftrightarrow>
    tg_completed t < g \<and> g \<le> tg_started t \<and> g \<notin> set (tg_retired t)"
  by (simp add: live_generations_def)

section \<open>Properties\<close>

text \<open>
  Whatever busy marks, inputs, acceptances, failures and completions arrive, and in whatever
  order, the ledger keeps its invariant, and the start times it keeps never outgrow the turns that
  are still open.
\<close>

lemma ledger_invariant:
  "ledger_ok (ledger_run ops ledger_default) \<and>
   length (tg_started_at (ledger_run ops ledger_default)) \<le>
     tg_started (ledger_run ops ledger_default) - tg_completed (ledger_run ops ledger_default)"
proof
  let ?t = "ledger_run ops ledger_default"
  show ok: "ledger_ok ?t" by (rule run_ok)
  have "bt_sorted (tg_started_at ?t)" using ok by (simp add: ledger_ok_def)
  then have "length (tg_started_at ?t) = card (set (map fst (tg_started_at ?t)))"
    using distinct_card [OF bt_sorted_distinct] by (metis length_map)
  also have "\<dots> \<le> card {tg_completed ?t<..tg_started ?t}"
  proof (rule card_mono)
    show "set (map fst (tg_started_at ?t)) \<subseteq> {tg_completed ?t<..tg_started ?t}"
      using ok unfolding ledger_ok_def live_generations_def by fastforce
  qed simp
  finally show "length (tg_started_at ?t) \<le> tg_started ?t - tg_completed ?t" by simp
qed

text \<open>
  C1. The ledger refines a set of live turns: a busy mark adds the new generation, retiring an
  input removes exactly the generations noted for it, a completion removes exactly the generations
  up to the one it finished, and the latest turn counts as completed exactly when none is live.
\<close>

theorem ledger_refines_live_turns:
  defines "t ops \<equiv> ledger_run ops ledger_default"
  shows "live_generations (busy_mark now (t ops)) = insert (Suc (tg_started (t ops))) (live_generations (t ops))
   \<and> live_generations (note_input i (t ops)) = live_generations (t ops)
   \<and> live_generations (note_input_taken i (t ops)) = live_generations (t ops)
   \<and> live_generations (retire_input i (t ops)) = live_generations (t ops) - set (generations_of i (t ops))
   \<and> live_generations (snd (finish_timed turn now (t ops))) =
       {g \<in> live_generations (t ops). finished_generation (t ops) turn < g}
   \<and> latest_turn_completed (t ops) = (live_generations (t ops) = {})"
  unfolding t_def using run_ok [of ops]
  by (simp add: live_simps live_finish_timed latest_turn_completed_iff)

text \<open>
  A turn that was completed or retired is never open again: of the generations started by some
  point of a session, those open at any later point were open then.
\<close>

lemma finished_turn_stays_finished:
  assumes "g \<le> tg_started (ledger_run ops ledger_default)"
    and "g \<notin> live_generations (ledger_run ops ledger_default)"
  shows "g \<notin> live_generations (ledger_run (ops @ later) ledger_default)"
  using live_run_old [OF run_ok assms(1), of later] assms(2) by (auto simp: ledger_run_def)

text \<open>
  A completion that names the input it answers leaves a newer input alone: a generation that is
  still open, above both the named input's own and everything the provider has taken in, stays
  open, keeps the input noted for it, and holds the session back from counting as idle.
\<close>

lemma completion_leaves_newer_input_open:
  assumes "generation_of i (ledger_run ops ledger_default) = Some g"
    and "g' \<in> live_generations (ledger_run ops ledger_default)"
    and "max (tg_taken (ledger_run ops ledger_default)) g < g'"
    and "(j, g') \<in> set (tg_inputs (ledger_run ops ledger_default))"
  shows "g' \<in> live_generations (snd (finish_timed (Input i) now (ledger_run ops ledger_default)))
    \<and> (j, g') \<in> set (tg_inputs (snd (finish_timed (Input i) now (ledger_run ops ledger_default))))
    \<and> \<not> latest_turn_completed (snd (finish_timed (Input i) now (ledger_run ops ledger_default)))"
proof -
  let ?t = "ledger_run ops ledger_default" and ?u = "snd (finish_timed (Input i) now (ledger_run ops ledger_default))"
  have live: "g' \<in> live_generations ?u" using assms by (simp add: live_finish_timed)
  moreover have "(j, g') \<in> set (tg_inputs ?u)"
    using assms by (subst finish_timed_snd) (simp add: finish_catch_up catch_up_over_retired_fields)
  moreover have "\<not> latest_turn_completed ?u"
    using live latest_turn_completed_iff [OF finish_timed_ok [OF run_ok]] by auto
  ultimately show ?thesis by blast
qed

fun keeps_reported :: "LedgerOp \<Rightarrow> bool" where
  "keeps_reported (NoteInput _) = False"
| "keeps_reported (FinishTimed _ _) = False"
| "keeps_reported _ = True"

lemma keeps_reported_step: "keeps_reported op \<Longrightarrow> tg_reported (ledger_step t op) = tg_reported t"
proof (cases op)
  case (RetireInput i)
  then show ?thesis by (simp add: retire_input_def Let_def catch_up_over_retired_fields)
qed (simp_all add: busy_mark_def note_started_def note_input_taken_def split: option.split)

lemma keeps_reported_run:
  "list_all keeps_reported ops \<Longrightarrow> tg_reported (ledger_run ops t) = tg_reported t"
  by (induction ops arbitrary: t) (simp_all add: ledger_run_def keeps_reported_step)

text \<open>
  The settle that closes a turn reports the same duration its completion reported, whatever
  busy marks, acceptances and failures of other inputs come between them; only the next input the
  loop takes in makes the ledger forget it, and a second settle has nothing left to repeat.
\<close>

lemma settle_repeats_reported_duration:
  assumes "turn \<noteq> Settled" and "finish_timed turn now t = (Some d, t1)"
    and "list_all keeps_reported ops"
  shows "fst (finish_timed Settled later (ledger_run ops t1)) = Some d \<and>
    tg_reported (snd (finish_timed Settled later (ledger_run ops t1))) = None"
proof -
  have "tg_reported t1 = Some d"
    using assms(1,2) by (auto simp: finish_timed_def Let_def split: prod.splits)
  then have "tg_reported (snd (finish Settled (ledger_run ops t1))) = Some d"
    by (simp add: finish_catch_up catch_up_over_retired_fields keeps_reported_run [OF assms(3)])
  then show ?thesis by (auto simp: finish_timed_def Let_def split: prod.splits)
qed

end
