(* ===== verification/Json.thy ===== *)
theory Json
  imports Prelude "HOL-Library.Word"
begin

text \<open>
  JSON values as \<open>serde_json::Value\<close> holds them, with the accessors the adapters use. A float keeps
  the text it displays as and its truncation to \<open>u64\<close> when it has one; an object is the list of its
  entries in key order, which is how \<open>serde_json\<close>'s default map orders them. The printer is
  \<open>serde_json\<close>'s compact one; its parser is a parameter of the definitions that call it.
\<close>

datatype json =
    JNull
  | JBool bool
  | JInt int
  | JFloat string "nat option"
  | JStr string
  | JArr "json list"
  | JObj "(string \<times> json) list"

section \<open>Building and reading\<close>

definition bt_of :: "('k::linorder \<times> 'v) list \<Rightarrow> ('k \<times> 'v) list" where
  "bt_of kvs = fold (\<lambda>(k, v) m. bt_insert k v m) kvs []"

definition obj :: "(string \<times> json) list \<Rightarrow> json" where
  "obj kvs = JObj (bt_of kvs)"

fun jget :: "json \<Rightarrow> string \<Rightarrow> json option" where
  "jget (JObj m) k = map_of m k"
| "jget _ k = None"

text \<open>Indexing with a key: \<open>Null\<close> where there is nothing.\<close>

definition jindex :: "json \<Rightarrow> string \<Rightarrow> json" where
  "jindex v k = (case jget v k of Some w \<Rightarrow> w | None \<Rightarrow> JNull)"

fun jpath :: "json \<Rightarrow> string list \<Rightarrow> json option" where
  "jpath v [] = Some v"
| "jpath v (k # ks) = (case jget v k of Some w \<Rightarrow> jpath w ks | None \<Rightarrow> None)"

fun as_str :: "json \<Rightarrow> string option" where
  "as_str (JStr s) = Some s"
| "as_str _ = None"

fun as_bool :: "json \<Rightarrow> bool option" where
  "as_bool (JBool b) = Some b"
| "as_bool _ = None"

fun as_array :: "json \<Rightarrow> json list option" where
  "as_array (JArr vs) = Some vs"
| "as_array _ = None"

fun as_i64 :: "json \<Rightarrow> int option" where
  "as_i64 (JInt i) = (if - (2 ^ 63) \<le> i \<and> i < 2 ^ 63 then Some i else None)"
| "as_i64 _ = None"

fun as_u64 :: "json \<Rightarrow> nat option" where
  "as_u64 (JInt i) = (if 0 \<le> i \<and> i < 2 ^ 64 then Some (nat i) else None)"
| "as_u64 _ = None"

definition jarray_at :: "json \<Rightarrow> string list \<Rightarrow> json list" where
  "jarray_at v path = (case Option.bind (jpath v path) as_array of Some vs \<Rightarrow> vs | None \<Rightarrow> [])"

definition string_at :: "json \<Rightarrow> string list \<Rightarrow> string option" where
  "string_at v path = Option.bind (jpath v path) as_str"

definition number_at :: "json \<Rightarrow> string list \<Rightarrow> nat option" where
  "number_at v path = Option.bind (jpath v path)
     (\<lambda>w. case as_u64 w of Some n \<Rightarrow> Some n
        | None \<Rightarrow> (case w of JFloat _ n \<Rightarrow> n | _ \<Rightarrow> None))"

definition string_array_at :: "json \<Rightarrow> string list \<Rightarrow> string list" where
  "string_array_at v path = List.map_filter as_str (jarray_at v path)"

definition unwrap_or :: "'a option \<Rightarrow> 'a \<Rightarrow> 'a" where
  "unwrap_or v d = (case v of Some x \<Rightarrow> x | None \<Rightarrow> d)"

definition or_else :: "'a option \<Rightarrow> 'a option \<Rightarrow> 'a option" where
  "or_else a b = (case a of Some x \<Rightarrow> Some x | None \<Rightarrow> b)"

lemma unwrap_or_simps [simp]: "unwrap_or (Some x) d = x" "unwrap_or None d = d"
  by (simp_all add: unwrap_or_def)

lemma or_else_simps [simp]: "or_else (Some x) b = Some x" "or_else None b = b"
  by (simp_all add: or_else_def)

section \<open>The compact printer\<close>

definition hex_digit :: "nat \<Rightarrow> char" where
  "hex_digit n = (if n < 10 then char_of (48 + n) else char_of (87 + n))"

definition escape_char :: "char \<Rightarrow> string" where
  "escape_char c = (let n = (of_char c :: nat) in
     if n = 34 then [CHR 0x5C, CHR 0x22]
     else if n = 92 then [CHR 0x5C, CHR 0x5C]
     else if n = 8 then [CHR 0x5C, CHR ''b'']
     else if n = 12 then [CHR 0x5C, CHR ''f'']
     else if n = 10 then [CHR 0x5C, CHR ''n'']
     else if n = 13 then [CHR 0x5C, CHR ''r'']
     else if n = 9 then [CHR 0x5C, CHR ''t'']
     else if n < 32 then CHR 0x5C # ''u00'' @ [hex_digit (n div 16), hex_digit (n mod 16)]
     else [c])"

definition quote_str :: "string \<Rightarrow> string" where
  "quote_str s = CHR 0x22 # concat (map escape_char s) @ [CHR 0x22]"

fun json_to_string :: "json \<Rightarrow> string"
  and elems_to_string :: "json list \<Rightarrow> string"
  and members_to_string :: "(string \<times> json) list \<Rightarrow> string" where
  "json_to_string JNull = ''null''"
| "json_to_string (JBool b) = (if b then ''true'' else ''false'')"
| "json_to_string (JInt i) = show_int i"
| "json_to_string (JFloat s _) = s"
| "json_to_string (JStr s) = quote_str s"
| "json_to_string (JArr vs) = ''['' @ elems_to_string vs @ '']''"
| "json_to_string (JObj kvs) = ''{'' @ members_to_string kvs @ ''}''"
| "elems_to_string [] = []"
| "elems_to_string [v] = json_to_string v"
| "elems_to_string (v # w # vs) = json_to_string v @ '','' @ elems_to_string (w # vs)"
| "members_to_string [] = []"
| "members_to_string [(k, v)] = quote_str k @ '':'' @ json_to_string v"
| "members_to_string ((k, v) # kv # kvs) =
     quote_str k @ '':'' @ json_to_string v @ '','' @ members_to_string (kv # kvs)"

text \<open>\<open>to_string_pretty\<close>: two spaces a level, empty arrays and objects on one line.\<close>

fun json_pretty :: "nat \<Rightarrow> json \<Rightarrow> string"
  and elems_pretty :: "nat \<Rightarrow> json list \<Rightarrow> string list"
  and members_pretty :: "nat \<Rightarrow> (string \<times> json) list \<Rightarrow> string list" where
  "json_pretty d (JArr []) = ''[]''"
| "json_pretty d (JArr (v # vs)) = ''['' @ [CHR 0x0A]
     @ join ('','' @ [CHR 0x0A]) (elems_pretty (Suc d) (v # vs))
     @ [CHR 0x0A] @ replicate (2 * d) (CHR 0x20) @ '']''"
| "json_pretty d (JObj []) = ''{}''"
| "json_pretty d (JObj (kv # kvs)) = ''{'' @ [CHR 0x0A]
     @ join ('','' @ [CHR 0x0A]) (members_pretty (Suc d) (kv # kvs))
     @ [CHR 0x0A] @ replicate (2 * d) (CHR 0x20) @ ''}''"
| "json_pretty d v = json_to_string v"
| "elems_pretty d [] = []"
| "elems_pretty d (v # vs) = (replicate (2 * d) (CHR 0x20) @ json_pretty d v) # elems_pretty d vs"
| "members_pretty d [] = []"
| "members_pretty d ((k, v) # kvs) =
     (replicate (2 * d) (CHR 0x20) @ quote_str k @ '': '' @ json_pretty d v) # members_pretty d kvs"

text \<open>Assigning to a key of an object.\<close>

fun jset :: "string \<Rightarrow> json \<Rightarrow> json \<Rightarrow> json" where
  "jset k w (JObj m) = JObj (bt_insert k w m)"
| "jset k w v = v"

definition jopt_str :: "string option \<Rightarrow> json" where
  "jopt_str v = (case v of None \<Rightarrow> JNull | Some s \<Rightarrow> JStr s)"

definition jopt_nat :: "nat option \<Rightarrow> json" where
  "jopt_nat v = (case v of None \<Rightarrow> JNull | Some n \<Rightarrow> JInt (int n))"

text \<open>A number read as a float and written again (below \<open>10 ^ 16\<close>, where an integer displays with \<open>.0\<close>).\<close>

fun as_f64 :: "json \<Rightarrow> json option" where
  "as_f64 (JFloat s n) = Some (JFloat s n)"
| "as_f64 (JInt i) = Some (JFloat (show_int i @ ''.0'') (if 0 \<le> i then Some (nat i) else None))"
| "as_f64 _ = None"

text \<open>One value per line: the payload both stdio adapters write.\<close>

definition encode_line :: "json \<Rightarrow> string" where
  "encode_line v = json_to_string v @ [CHR 0x0A]"

section \<open>Stable hashes\<close>

definition fnv1a :: "string \<Rightarrow> 64 word" where
  "fnv1a s = fold (\<lambda>c h. (Bit_Operations.xor h (of_nat (of_char c))) * 0x100000001b3) s 0xcbf29ce484222325"

fun hex_digits :: "nat \<Rightarrow> nat \<Rightarrow> string" where
  "hex_digits 0 n = []"
| "hex_digits (Suc w) n = hex_digits w (n div 16) @ [hex_digit (n mod 16)]"

definition hex16 :: "64 word \<Rightarrow> string" where
  "hex16 h = hex_digits 16 (unat h)"

section \<open>Lemmas\<close>

lemma bt_of_sorted [simp]: "bt_sorted (bt_of kvs)"
proof -
  have "bt_sorted m \<Longrightarrow> bt_sorted (fold (\<lambda>(k, v) m. bt_insert k v m) kvs m)" for m
    by (induction kvs arbitrary: m) auto
  then show ?thesis by (simp add: bt_of_def bt_sorted_def)
qed

lemma bt_insert_lookup: "map_of (bt_insert k v m) x = (if x = k then Some v else map_of m x)"
  by (induction k v m rule: bt_insert.induct) auto

lemma bt_of_lookup: "map_of (bt_of kvs) k = map_of (rev kvs) k"
proof -
  have "map_of (fold (\<lambda>(k, v) m. bt_insert k v m) kvs m) k = (map_of m ++ map_of (rev kvs)) k" for m
    by (induction kvs arbitrary: m) (auto simp: bt_insert_lookup map_add_def split: option.splits)
  then show ?thesis by (simp add: bt_of_def map_add_def split: option.splits)
qed

lemma jget_obj [simp]: "jget (obj kvs) k = map_of (rev kvs) k"
  by (simp add: obj_def bt_of_lookup)

section \<open>Framing\<close>

text \<open>A value whose floats display without a line feed, as every number does.\<close>

fun one_line :: "json \<Rightarrow> bool"
  and one_line_list :: "json list \<Rightarrow> bool"
  and one_line_members :: "(string \<times> json) list \<Rightarrow> bool" where
  "one_line (JFloat s _) \<longleftrightarrow> CHR 0x0A \<notin> set s"
| "one_line (JArr vs) \<longleftrightarrow> one_line_list vs"
| "one_line (JObj kvs) \<longleftrightarrow> one_line_members kvs"
| "one_line _ \<longleftrightarrow> True"
| "one_line_list [] \<longleftrightarrow> True"
| "one_line_list (v # vs) \<longleftrightarrow> one_line v \<and> one_line_list vs"
| "one_line_members [] \<longleftrightarrow> True"
| "one_line_members ((_, v) # kvs) \<longleftrightarrow> one_line v \<and> one_line_members kvs"

lemma char_of_newline: "n < 256 \<Longrightarrow> n \<noteq> 10 \<Longrightarrow> char_of (n::nat) \<noteq> CHR 0x0A"
  by (simp add: char_of_eq_iff take_bit_nat_eq_self)

lemma digits_no_newline: "CHR 0x0A \<notin> set (digits_of n)"
proof (induction n rule: digits_of.induct)
  case (1 n)
  have "char_of (48 + n mod 10) \<noteq> CHR 0x0A" by (rule char_of_newline) simp_all
  with 1 show ?case
    by (cases "n < 10") (simp_all add: digits_of.simps [of n] char_of_newline not_sym)
qed

lemma show_int_no_newline: "CHR 0x0A \<notin> set (show_int i)"
  by (simp add: show_int_def show_nat_def digits_no_newline)

lemma hex_digit_no_newline: "n < 16 \<Longrightarrow> hex_digit n \<noteq> CHR 0x0A"
  by (simp add: hex_digit_def char_of_newline)

lemma of_char_newline: "of_char c = (10::nat) \<longleftrightarrow> c = CHR 0x0A"
proof
  assume "of_char c = (10::nat)"
  then have "char_of (of_char c :: nat) = char_of (10::nat)" by simp
  then have "c = char_of (10::nat)" by simp
  also have "char_of (10::nat) = CHR 0x0A" by code_simp
  finally show "c = CHR 0x0A" .
qed simp

lemma escape_no_newline: "CHR 0x0A \<notin> set (escape_char c)"
proof -
  have "(of_char c :: nat) div 16 < 16" "(of_char c :: nat) mod 16 < 16"
    using nat_of_char_less_256 [of c] by (auto intro: less_mult_imp_div_less)
  then show ?thesis
    using hex_digit_no_newline [THEN not_sym] of_char_newline [of c]
    by (auto simp: escape_char_def Let_def)
qed

lemma quote_no_newline: "CHR 0x0A \<notin> set (quote_str s)"
  by (simp add: quote_str_def escape_no_newline)

lemma printed_no_newline:
  "one_line v \<Longrightarrow> CHR 0x0A \<notin> set (json_to_string v)"
  "one_line_list vs \<Longrightarrow> CHR 0x0A \<notin> set (elems_to_string vs)"
  "one_line_members kvs \<Longrightarrow> CHR 0x0A \<notin> set (members_to_string kvs)"
proof (induction v and vs and kvs rule: json_to_string_elems_to_string_members_to_string.induct)
qed (simp_all add: quote_no_newline show_int_no_newline)

lemma one_line_bt_insert:
  "one_line_members (bt_insert k v m) \<Longrightarrow> one_line v" 
  "one_line v \<Longrightarrow> one_line_members m \<Longrightarrow> one_line_members (bt_insert k v m)"
  by (induction k v m rule: bt_insert.induct) (auto split: if_splits)

lemma one_line_obj [simp]: "(\<forall>(k, v)\<in>set kvs. one_line v) \<Longrightarrow> one_line (obj kvs)"
proof -
  have "\<forall>(k, v)\<in>set kvs. one_line v \<Longrightarrow> one_line_members m \<Longrightarrow>
      one_line_members (fold (\<lambda>(k, v) m. bt_insert k v m) kvs m)" for m
    by (induction kvs arbitrary: m) (auto simp: one_line_bt_insert(2))
  then show "(\<forall>(k, v)\<in>set kvs. one_line v) \<Longrightarrow> one_line (obj kvs)"
    by (simp add: obj_def bt_of_def)
qed

lemma encode_line_framed:
  "one_line v \<Longrightarrow> \<exists>l. encode_line v = l @ [CHR 0x0A] \<and> CHR 0x0A \<notin> set l"
  by (simp add: encode_line_def printed_no_newline)

end
