(* ===== verification/Harness_Contract.thy ===== *)
theory Harness_Contract
  imports Json "HOL-Library.Multiset"
begin

text \<open>
  The managed harness contract (\<open>crates/core/src/archcar/harness_contract.rs\<close>, the registration
  check of \<open>archcar/harness.rs\<close>) and the provider event types the effects carry
  (\<open>provider_events.rs\<close>). Every provider adapter is written against these types; a descriptor is
  refused at registration unless it says something about every extended feature, and the lemmas show
  what that check guarantees about tiers and support.
\<close>

section \<open>Provider events\<close>

datatype ProviderEventPhase =
    Started | Delta | Progress | Completed | Failed | Declined | Interrupted | Unknown

datatype ProviderEventKind =
    AccountAuth | ThreadSession | GoalTask | Turn | UserInput | AssistantOutput
  | PlanningReasoning | CommandProcess | TerminalRuntime | FileSystem | DiffFileChange | Tool
  | Mcp | SkillPluginHook | ApprovalPermission | SubagentCollaboration | WebBrowserMedia
  | EnvironmentConfigModel | LimitFailure | Unknown

fun phase_str :: "ProviderEventPhase \<Rightarrow> string" where
  "phase_str Started = ''started''"
| "phase_str Delta = ''delta''"
| "phase_str Progress = ''progress''"
| "phase_str Completed = ''completed''"
| "phase_str Failed = ''failed''"
| "phase_str Declined = ''declined''"
| "phase_str Interrupted = ''interrupted''"
| "phase_str ProviderEventPhase.Unknown = ''unknown''"

definition phase_from_str :: "string \<Rightarrow> ProviderEventPhase" where
  "phase_from_str value =
     (if value = ''started'' then Started
      else if value = ''delta'' then Delta
      else if value = ''progress'' then Progress
      else if value = ''completed'' then Completed
      else if value = ''failed'' then Failed
      else if value = ''declined'' then Declined
      else if value = ''interrupted'' then Interrupted
      else ProviderEventPhase.Unknown)"

fun kind_str :: "ProviderEventKind \<Rightarrow> string" where
  "kind_str AccountAuth = ''account_auth''"
| "kind_str ThreadSession = ''thread_session''"
| "kind_str GoalTask = ''goal_task''"
| "kind_str Turn = ''turn''"
| "kind_str UserInput = ''user_input''"
| "kind_str AssistantOutput = ''assistant_output''"
| "kind_str PlanningReasoning = ''planning_reasoning''"
| "kind_str CommandProcess = ''command_process''"
| "kind_str TerminalRuntime = ''terminal_runtime''"
| "kind_str FileSystem = ''file_system''"
| "kind_str DiffFileChange = ''diff_file_change''"
| "kind_str Tool = ''tool''"
| "kind_str Mcp = ''mcp''"
| "kind_str SkillPluginHook = ''skill_plugin_hook''"
| "kind_str ApprovalPermission = ''approval_permission''"
| "kind_str SubagentCollaboration = ''subagent_collaboration''"
| "kind_str WebBrowserMedia = ''web_browser_media''"
| "kind_str EnvironmentConfigModel = ''environment_config_model''"
| "kind_str LimitFailure = ''limit_failure''"
| "kind_str Unknown = ''unknown''"

definition all_kinds :: "ProviderEventKind list" where
  "all_kinds = [AccountAuth, ThreadSession, GoalTask, Turn, UserInput, AssistantOutput,
     PlanningReasoning, CommandProcess, TerminalRuntime, FileSystem, DiffFileChange, Tool, Mcp,
     SkillPluginHook, ApprovalPermission, SubagentCollaboration, WebBrowserMedia,
     EnvironmentConfigModel, LimitFailure]"

text \<open>The first arm of the source's match that names the value.\<close>

definition kind_from_str :: "string \<Rightarrow> ProviderEventKind" where
  "kind_from_str value = (case find (\<lambda>k. kind_str k = value) all_kinds of
     Some k \<Rightarrow> k | None \<Rightarrow> Unknown)"

record ProviderEventDraft =
  dr_provider :: string
  dr_provider_event_id :: "string option"
  dr_provider_item_id :: "string option"
  dr_provider_thread_id :: "string option"
  dr_provider_turn_id :: "string option"
  dr_parent_provider_item_id :: "string option"
  dr_parent_provider_thread_id :: "string option"
  dr_workspace_id :: "int option"
  dr_chat_thread_id :: "int option"
  dr_process_id :: "int option"
  dr_phase :: ProviderEventPhase
  dr_kind :: ProviderEventKind
  dr_provider_subtype :: "string option"
  dr_provider_sequence :: "int option"
  dr_occurred_at_ms :: nat
  dr_normalized_payload :: json
  dr_raw_json :: json
  dr_schema_version :: int
  dr_adapter_version :: string

record ProviderEventContext =
  pc_workspace_id :: "int option"
  pc_chat_thread_id :: "int option"
  pc_process_id :: "int option"
  pc_occurred_at_ms :: nat
  pc_schema_version :: int
  pc_adapter_version :: string

text \<open>\<open>ProviderEventContext::runtime\<close>, at the wall clock \<open>now_ms\<close>.\<close>

definition runtime_context :: "nat \<Rightarrow> int option \<Rightarrow> int option \<Rightarrow> int option \<Rightarrow> string \<Rightarrow> ProviderEventContext" where
  "runtime_context now_ms w t p adapter_version = \<lparr>pc_workspace_id = w, pc_chat_thread_id = t,
     pc_process_id = p, pc_occurred_at_ms = now_ms, pc_schema_version = 1, pc_adapter_version = adapter_version\<rparr>"

section \<open>Features, capabilities, descriptors\<close>

definition MANAGED_HARNESS_CONTRACT_VERSION :: nat where
  "MANAGED_HARNESS_CONTRACT_VERSION = 1"

datatype HarnessFeature =
    Preflight | ThreadScopedSession | ProcessLifecycle | InputDelivery | InputAcknowledgement
  | StreamingEvents | ExactlyOnceTurnCompletion | Queueing | Interrupt | Resume | CrashRecovery
  | SessionControls | ProviderInteractions | StructuredErrors | CapabilityDiscovery

fun feature_str :: "HarnessFeature \<Rightarrow> string" where
  "feature_str Preflight = ''preflight''"
| "feature_str ThreadScopedSession = ''thread_scoped_session''"
| "feature_str ProcessLifecycle = ''process_lifecycle''"
| "feature_str InputDelivery = ''input_delivery''"
| "feature_str InputAcknowledgement = ''input_acknowledgement''"
| "feature_str StreamingEvents = ''streaming_events''"
| "feature_str ExactlyOnceTurnCompletion = ''exactly_once_turn_completion''"
| "feature_str Queueing = ''queueing''"
| "feature_str Interrupt = ''interrupt''"
| "feature_str Resume = ''resume''"
| "feature_str CrashRecovery = ''crash_recovery''"
| "feature_str SessionControls = ''session_controls''"
| "feature_str ProviderInteractions = ''provider_interactions''"
| "feature_str StructuredErrors = ''structured_errors''"
| "feature_str CapabilityDiscovery = ''capability_discovery''"

definition CORE_HARNESS_FEATURES :: "HarnessFeature list" where
  "CORE_HARNESS_FEATURES = [Preflight, ProcessLifecycle, InputDelivery, StreamingEvents,
     ExactlyOnceTurnCompletion, StructuredErrors, CapabilityDiscovery]"

definition EXTENDED_HARNESS_FEATURES :: "HarnessFeature list" where
  "EXTENDED_HARNESS_FEATURES = [ThreadScopedSession, InputAcknowledgement, Queueing, Interrupt,
     Resume, CrashRecovery, SessionControls, ProviderInteractions]"

definition ALL_HARNESS_FEATURES :: "HarnessFeature list" where
  "ALL_HARNESS_FEATURES = [Preflight, ThreadScopedSession, ProcessLifecycle, InputDelivery,
     InputAcknowledgement, StreamingEvents, ExactlyOnceTurnCompletion, Queueing, Interrupt, Resume,
     CrashRecovery, SessionControls, ProviderInteractions, StructuredErrors, CapabilityDiscovery]"

datatype HarnessTier = Full | Partial | Basic

datatype HarnessCapability = Goals | NativeSlashCommands

datatype SupportMode = Native | RestartRequired | Emulated | Unsupported string

record HarnessPreflightSpec =
  ps_command :: "string list"
  ps_auth_guidance :: string

record HarnessDescriptor =
  hd_contract_version :: nat
  hd_kind :: string
  hd_provider_key :: string
  hd_display_name :: string
  hd_default_executable :: string
  hd_preflight :: HarnessPreflightSpec
  hd_core_features :: "HarnessFeature list"
  hd_extended_features :: "(HarnessFeature \<times> SupportMode) list"
  hd_optional_capabilities :: "(HarnessCapability \<times> SupportMode) list"

definition descriptor_optional :: "HarnessDescriptor \<Rightarrow> HarnessCapability \<Rightarrow> SupportMode" where
  "descriptor_optional d c = unwrap_or
     (find_map (\<lambda>(candidate, support). if candidate = c then Some support else None)
       (hd_optional_capabilities d))
     (Unsupported ''capability is not declared by this harness'')"

definition extended :: "HarnessDescriptor \<Rightarrow> HarnessFeature \<Rightarrow> SupportMode" where
  "extended d f = unwrap_or
     (find_map (\<lambda>(candidate, support). if candidate = f then Some support else None)
       (hd_extended_features d))
     (Unsupported ''feature is not declared by this harness'')"

fun is_unsupported :: "SupportMode \<Rightarrow> bool" where
  "is_unsupported (Unsupported _) = True"
| "is_unsupported _ = False"

definition supports :: "HarnessDescriptor \<Rightarrow> HarnessFeature \<Rightarrow> bool" where
  "supports d f \<longleftrightarrow> f \<in> set (hd_core_features d) \<or> \<not> is_unsupported (extended d f)"

definition tier :: "HarnessDescriptor \<Rightarrow> HarnessTier" where
  "tier d = (let supported = length (filter (\<lambda>f. \<not> is_unsupported (extended d f))
                                       EXTENDED_HARNESS_FEATURES)
     in if supported = 0 then Basic
        else if supported = length EXTENDED_HARNESS_FEATURES then Full
        else Partial)"

section \<open>Registration\<close>

definition validate_managed_harness :: "HarnessDescriptor \<Rightarrow> string + unit" where
  "validate_managed_harness d =
     (if hd_contract_version d \<noteq> MANAGED_HARNESS_CONTRACT_VERSION
      then Inl (hd_provider_key d @ '' uses managed harness contract '' @ show_nat (hd_contract_version d)
             @ '' instead of '' @ show_nat MANAGED_HARNESS_CONTRACT_VERSION)
      else if hd_core_features d \<noteq> CORE_HARNESS_FEATURES
      then Inl (hd_provider_key d @ '' does not declare the complete core harness baseline'')
      else case find (\<lambda>f. f \<notin> fst ` set (hd_extended_features d)) EXTENDED_HARNESS_FEATURES of
        Some f \<Rightarrow> Inl (hd_provider_key d @ '' does not declare support for '' @ feature_str f)
      | None \<Rightarrow>
          (case find (\<lambda>(f, _). f \<notin> set EXTENDED_HARNESS_FEATURES) (hd_extended_features d) of
             Some (f, _) \<Rightarrow> Inl (hd_provider_key d @ '' declares '' @ feature_str f
                              @ '' as extended, but it is not an extended feature'')
           | None \<Rightarrow> Inr ()))"

section \<open>Inputs, records, controls and effects\<close>

datatype ArchcarInputKind = User | ReviewPrompt | ControlCommand | RawTerminal

datatype ArchcarInputDelivery = Auto | Immediate

record HarnessInput =
  hi_local_input_id :: string
  hi_content :: string
  hi_visible_content :: "string option"
  hi_kind :: ArchcarInputKind
  hi_delivery :: ArchcarInputDelivery

record NativeWrite =
  nw_provider_key :: string
  nw_local_input_id :: "string option"
  nw_payload :: string

record NativeRecord =
  nr_provider_key :: string
  nr_payload :: string

record DesiredHarnessControls =
  dc_model :: "string option"
  dc_effort :: "string option"
  dc_permission_mode :: "string option"
  dc_fast_mode :: "bool option"

record HarnessAdapterContext =
  ac_session_id :: int
  ac_thread_id :: int
  ac_workspace :: string
  ac_native_session_id :: "string option"
  ac_controls :: DesiredHarnessControls

datatype HarnessTurnStatus = Success | Failed | Interrupted | Deferred

datatype HarnessSignal = InterruptProcessGroup | TerminateProcessGroup

datatype HarnessRecoveryCause = ChildExited "int option" | ProtocolError string | InterruptDeadline

datatype HarnessRecoveryPlan =
    Continue
  | RestartAndResume string DesiredHarnessControls
  | Fail string

datatype ProviderInteractionKind = Permission | UserQuestion | PlanApproval

record InteractionOption =
  io_label :: string
  io_description :: string

record InteractionQuestion =
  iq_id :: string
  iq_header :: string
  iq_question :: string
  iq_options :: "InteractionOption list"
  iq_allow_other :: bool
  iq_multi_select :: bool

record InteractionAnswer =
  ia_question_id :: string
  ia_values :: "string list"

record ProviderInteractionDraft =
  id_provider_key :: string
  id_workspace :: string
  id_thread_id :: int
  id_session_id :: int
  id_native_session_id :: "string option"
  id_native_id :: string
  id_kind :: ProviderInteractionKind
  id_title :: string
  id_detail :: string
  id_questions :: "InteractionQuestion list"
  id_auto_resolution_ms :: "nat option"
  id_native_request :: json

datatype ProviderInteractionResolution =
    Approve
  | ApproveForSession
  | Deny "string option"
  | Answer "InteractionAnswer list"
  | Defer

datatype HarnessEffect =
    Initialized string "string option"
  | Ready
  | InputAcknowledged string
  | TurnStarted string
  | TurnCompleted string HarnessTurnStatus
  | TurnSettled HarnessTurnStatus
  | ProviderEvent ProviderEventDraft
  | InteractionRequested ProviderInteractionDraft
  | InteractionResolved string
  | CapabilitiesObserved "string list"
  | Retry string "nat option"
  | RateLimited string "nat option"
  | Warning string
  | Fatal string
  | ResumeRequired

datatype HarnessControl =
    Interrupt
  | Kill
  | SetModel "string option"
  | SetEffort "string option"
  | SetFastMode bool
  | SetPermissionMode "string option"
  | ResolveInteraction string ProviderInteractionResolution

datatype HarnessControlPlan =
    NativeWrite NativeWrite
  | Applied
  | Signal HarnessSignal
  | RestartRequired DesiredHarnessControls
  | Emulated HarnessEffect
  | Unsupported string

text \<open>The completions a batch of effects reports, in order.\<close>

definition completions :: "HarnessEffect list \<Rightarrow> string list" where
  "completions effects = List.map_filter
     (\<lambda>e. case e of TurnCompleted i _ \<Rightarrow> Some i | _ \<Rightarrow> None) effects"

lemma completions_simps [simp]:
  "completions [] = []"
  "completions (TurnCompleted i s # es) = i # completions es"
  "(\<And>i s. e \<noteq> TurnCompleted i s) \<Longrightarrow> completions (e # es) = completions es"
  "completions (es @ fs) = completions es @ completions fs"
  by (auto simp: completions_def map_filter_def split: HarnessEffect.splits)

section \<open>The adapter interface\<close>

text \<open>
  What the session loop relies on of an adapter behind \<open>ManagedHarnessAdapter\<close>. An adapter state has
  the inputs it was handed and has not finished with (\<open>open_inputs\<close>). Handing over an input either
  fails and leaves them alone or adds that input; observing a provider record only ever takes inputs
  out, and the completions it reports are for inputs that were open.
\<close>

fun ok_effects :: "string + HarnessEffect list \<Rightarrow> HarnessEffect list" where
  "ok_effects (Inl _) = []"
| "ok_effects (Inr es) = es"

fun accepted :: "HarnessInput \<Rightarrow> string + NativeWrite \<Rightarrow> string list" where
  "accepted i (Inl _) = []"
| "accepted i (Inr _) = [hi_local_input_id i]"

locale managed_adapter =
  fixes encode :: "HarnessInput \<Rightarrow> 's \<Rightarrow> (string + NativeWrite) \<times> 's"
    and observe :: "'r \<Rightarrow> 's \<Rightarrow> (string + HarnessEffect list) \<times> 's"
    and open_inputs :: "'s \<Rightarrow> string list"
  assumes encode_open:
      "mset (open_inputs (snd (encode i s))) = mset (open_inputs s) + mset (accepted i (fst (encode i s)))"
    and observe_open:
      "mset (completions (ok_effects (fst (observe r s)))) + mset (open_inputs (snd (observe r s)))
         \<subseteq># mset (open_inputs s)"
begin

text \<open>A session: the inputs handed over and the records read, in order.\<close>

fun adapter_run :: "(HarnessInput + 'r) list \<Rightarrow> 's \<Rightarrow> HarnessEffect list \<times> string list \<times> 's" where
  "adapter_run [] s = ([], [], s)"
| "adapter_run (Inl i # es) s =
     (let (effs, given, s') = adapter_run es (snd (encode i s))
      in (effs, accepted i (fst (encode i s)) @ given, s'))"
| "adapter_run (Inr r # es) s =
     (let (effs, given, s') = adapter_run es (snd (observe r s))
      in (ok_effects (fst (observe r s)) @ effs, given, s'))"

lemma exactly_once:
  "adapter_run es s = (effs, given, s') \<Longrightarrow>
     mset (completions effs) + mset (open_inputs s') \<subseteq># mset (open_inputs s) + mset given"
proof (induction es s arbitrary: effs given s' rule: adapter_run.induct)
  case (2 i es s)
  obtain effs' given' where run: "adapter_run es (snd (encode i s)) = (effs', given', s')"
    and eq: "effs = effs'" "given = accepted i (fst (encode i s)) @ given'"
    using "2.prems" by (auto split: prod.splits)
  from "2.IH" [OF run] show ?case by (simp add: eq encode_open ac_simps)
next
  case (3 r es s)
  obtain effs' where run: "adapter_run es (snd (observe r s)) = (effs', given, s')"
    and eq: "effs = ok_effects (fst (observe r s)) @ effs'"
    using "3.prems" by (auto split: prod.splits)
  have "mset (completions effs) + mset (open_inputs s')
      \<subseteq># mset (completions (ok_effects (fst (observe r s)))) + (mset (open_inputs (snd (observe r s))) + mset given)"
    using "3.IH" [OF run] by (simp add: eq ac_simps)
  also have "\<dots> \<subseteq># mset (open_inputs s) + mset given"
    using observe_open [of r s] by (simp add: add.assoc [symmetric])
  finally show ?case .
qed simp

end

text \<open>An input the witnesses of the adapters use.\<close>

definition demo_input :: HarnessInput where
  "demo_input = \<lparr>hi_local_input_id = ''a'', hi_content = ''hi'', hi_visible_content = None,
     hi_kind = ArchcarInputKind.User, hi_delivery = Auto\<rparr>"

section \<open>Lemmas\<close>

lemma find_map_None_iff: "find_map f xs = None \<longleftrightarrow> (\<forall>x\<in>set xs. f x = None)"
  by (rule find_map_None)

lemma features_partition:
  "set CORE_HARNESS_FEATURES \<union> set EXTENDED_HARNESS_FEATURES = UNIV"
  "set CORE_HARNESS_FEATURES \<inter> set EXTENDED_HARNESS_FEATURES = {}"
  "set ALL_HARNESS_FEATURES = UNIV"
proof -
  have "f \<in> set CORE_HARNESS_FEATURES \<union> set EXTENDED_HARNESS_FEATURES
      \<and> f \<in> set ALL_HARNESS_FEATURES" for f
    by (cases f) (simp_all add: CORE_HARNESS_FEATURES_def EXTENDED_HARNESS_FEATURES_def
      ALL_HARNESS_FEATURES_def)
  then show "set CORE_HARNESS_FEATURES \<union> set EXTENDED_HARNESS_FEATURES = UNIV"
    "set ALL_HARNESS_FEATURES = UNIV" by auto
  show "set CORE_HARNESS_FEATURES \<inter> set EXTENDED_HARNESS_FEATURES = {}"
    by (simp add: CORE_HARNESS_FEATURES_def EXTENDED_HARNESS_FEATURES_def)
qed

lemma validate_ok_iff:
  "validate_managed_harness d = Inr () \<longleftrightarrow>
     hd_contract_version d = MANAGED_HARNESS_CONTRACT_VERSION \<and>
     hd_core_features d = CORE_HARNESS_FEATURES \<and>
     fst ` set (hd_extended_features d) = set EXTENDED_HARNESS_FEATURES"
proof -
  have "validate_managed_harness d = Inr () \<longleftrightarrow>
      hd_contract_version d = MANAGED_HARNESS_CONTRACT_VERSION \<and>
      hd_core_features d = CORE_HARNESS_FEATURES \<and>
      find (\<lambda>f. f \<notin> fst ` set (hd_extended_features d)) EXTENDED_HARNESS_FEATURES = None \<and>
      find (\<lambda>(f, _). f \<notin> set EXTENDED_HARNESS_FEATURES) (hd_extended_features d) = None"
    unfolding validate_managed_harness_def by (simp split: option.split)
  also have "find (\<lambda>f. f \<notin> fst ` set (hd_extended_features d)) EXTENDED_HARNESS_FEATURES = None \<longleftrightarrow>
      set EXTENDED_HARNESS_FEATURES \<subseteq> fst ` set (hd_extended_features d)"
    unfolding find_None_iff by blast
  also have "find (\<lambda>(f, _). f \<notin> set EXTENDED_HARNESS_FEATURES) (hd_extended_features d) = None \<longleftrightarrow>
      fst ` set (hd_extended_features d) \<subseteq> set EXTENDED_HARNESS_FEATURES"
    unfolding find_None_iff by fastforce
  finally show ?thesis by blast
qed

lemma tier_Full: "tier d = Full \<longleftrightarrow> (\<forall>f\<in>set EXTENDED_HARNESS_FEATURES. \<not> is_unsupported (extended d f))"
proof -
  have all: "length (filter P xs) = length xs \<longleftrightarrow> (\<forall>x\<in>set xs. P x)" for P and xs :: "HarnessFeature list"
    by (metis filter_True filter_id_conv length_filter_less linorder_neq_iff)
  have "length EXTENDED_HARNESS_FEATURES \<noteq> 0" by (simp add: EXTENDED_HARNESS_FEATURES_def)
  then have "tier d = Full \<longleftrightarrow> length (filter (\<lambda>f. \<not> is_unsupported (extended d f))
      EXTENDED_HARNESS_FEATURES) = length EXTENDED_HARNESS_FEATURES"
    unfolding tier_def Let_def by (metis HarnessTier.distinct(1,3,5))
  then show ?thesis unfolding all .
qed

lemma tier_Basic: "tier d = Basic \<longleftrightarrow> (\<forall>f\<in>set EXTENDED_HARNESS_FEATURES. is_unsupported (extended d f))"
  by (auto simp: tier_def Let_def filter_empty_conv)

section \<open>Properties\<close>

text \<open>
  Once a descriptor passes registration, its tier says what it supports: it is full exactly when
  every feature of the contract is supported, basic exactly when only the core ones are, and every
  extended feature has a verdict the descriptor wrote down itself.
\<close>

lemma registered_tier_is_honest:
  assumes "validate_managed_harness d = Inr ()"
  shows "(tier d = Full \<longleftrightarrow> (\<forall>f. supports d f))
    \<and> (tier d = Basic \<longleftrightarrow> (\<forall>f. supports d f \<longleftrightarrow> f \<in> set CORE_HARNESS_FEATURES))
    \<and> (\<forall>f\<in>set EXTENDED_HARNESS_FEATURES. (f, extended d f) \<in> set (hd_extended_features d))"
proof (intro conjI ballI)
  have core: "hd_core_features d = CORE_HARNESS_FEATURES"
    and ext: "fst ` set (hd_extended_features d) = set EXTENDED_HARNESS_FEATURES"
    using assms by (simp_all add: validate_ok_iff)
  have sup: "supports d f \<longleftrightarrow> f \<in> set CORE_HARNESS_FEATURES \<or> \<not> is_unsupported (extended d f)" for f
    by (simp add: supports_def core)
  show "tier d = Full \<longleftrightarrow> (\<forall>f. supports d f)"
    using features_partition(1,2) unfolding tier_Full sup by blast
  show "tier d = Basic \<longleftrightarrow> (\<forall>f. supports d f \<longleftrightarrow> f \<in> set CORE_HARNESS_FEATURES)"
    using features_partition(1,2) unfolding tier_Basic sup by blast
  fix f assume "f \<in> set EXTENDED_HARNESS_FEATURES"
  then obtain m where "(f, m) \<in> set (hd_extended_features d)" using ext by force
  then have "find_map (\<lambda>(c, m). if c = f then Some m else None) (hd_extended_features d) \<noteq> None"
    unfolding find_map_None by force
  then obtain m' where m': "find_map (\<lambda>(c, m). if c = f then Some m else None) (hd_extended_features d) = Some m'"
    by blast
  from find_map_Some [OF this] show "(f, extended d f) \<in> set (hd_extended_features d)"
    by (auto simp: extended_def m' split: if_splits)
qed

end
