(* ===== verification/Acp_Adapter.thy ===== *)
theory Acp_Adapter
  imports Harness_Contract
begin

text \<open>
  The Agent Client Protocol adapter (\<open>crates/core/src/provider_adapters/acp.rs\<close>): JSON-RPC over the
  agent's stdio, one message per line, one prompt in flight. The lemmas show that every accepted
  prompt is completed at most once, that a prompt response ends its turn and makes the session ready
  again, and that an answer to a permission ask only ever names an option the agent offered.

  Parameters: \<open>from_str\<close> is \<open>serde_json::from_str\<close>, \<open>clock n\<close> the wall clock when the \<open>n\<close>-th event
  of the adapter is built, and the agent's entry in the tool registry (\<open>agent_tools.rs\<close>).
\<close>

section \<open>Descriptor\<close>

definition ACP_EXTENDED_FEATURES :: "(HarnessFeature \<times> SupportMode) list" where
  "ACP_EXTENDED_FEATURES = [
     (ThreadScopedSession, Native),
     (InputAcknowledgement, SupportMode.Emulated),
     (Queueing, Native),
     (HarnessFeature.Interrupt, Native),
     (Resume, SupportMode.Unsupported ''ACP session/load is an optional capability negotiated per agent''),
     (CrashRecovery, SupportMode.Unsupported ''without session/load a crashed ACP session cannot be rebuilt''),
     (SessionControls, SupportMode.Unsupported ''ACP has no model, effort, or permission-mode control surface''),
     (ProviderInteractions, Native)]"

definition ACP_OPTIONAL_CAPABILITIES :: "(HarnessCapability \<times> SupportMode) list" where
  "ACP_OPTIONAL_CAPABILITIES = [
     (Goals, SupportMode.Unsupported ''ACP has no goal or task surface''),
     (NativeSlashCommands, SupportMode.Unsupported ''ACP prompts are content blocks, not command lines'')]"

record AgentToolEntry =
  at_display_name :: string
  at_default_command :: string
  at_auth_guidance :: string

definition build_descriptor :: "string \<Rightarrow> AgentToolEntry option \<Rightarrow> HarnessDescriptor" where
  "build_descriptor kind tool =
     (let executable = (case tool of Some t \<Rightarrow> at_default_command t | None \<Rightarrow> kind)
      in \<lparr>hd_contract_version = MANAGED_HARNESS_CONTRACT_VERSION, hd_kind = kind,
          hd_provider_key = kind,
          hd_display_name = (case tool of Some t \<Rightarrow> at_display_name t | None \<Rightarrow> kind),
          hd_default_executable = executable,
          hd_preflight = \<lparr>ps_command = [executable, ''--version''],
            ps_auth_guidance = (case tool of Some t \<Rightarrow> at_auth_guidance t
                                | None \<Rightarrow> ''Install and authenticate this agent.'')\<rparr>,
          hd_core_features = CORE_HARNESS_FEATURES,
          hd_extended_features = ACP_EXTENDED_FEATURES,
          hd_optional_capabilities = ACP_OPTIONAL_CAPABILITIES\<rparr>)"

section \<open>State\<close>

record PendingTurn =
  pt_request_id :: int
  pt_local_input_id :: string
  pt_completed :: bool

record OfferedOption =
  oo_id :: string
  oo_label :: string
  oo_kind :: string

definition option_of_kind :: "OfferedOption list \<Rightarrow> string list \<Rightarrow> OfferedOption option" where
  "option_of_kind offered kinds = find_map (\<lambda>k. find (\<lambda>opt. oo_kind opt = k) offered) kinds"

record AcpAdapter =
  acp_kind :: string
  acp_chat_thread_id :: int
  acp_process_id :: int
  acp_workspace :: string
  acp_session_id :: "string option"
  acp_next_request_id :: int
  acp_pending :: "PendingTurn option"
  acp_offered_options :: "string \<Rightarrow> OfferedOption list option"
  acp_initialized :: bool
  acp_sequence :: int

definition acp_new :: "string \<Rightarrow> HarnessAdapterContext \<Rightarrow> AcpAdapter" where
  "acp_new kind context = \<lparr>acp_kind = kind, acp_chat_thread_id = ac_thread_id context,
     acp_process_id = ac_session_id context, acp_workspace = ac_workspace context,
     acp_session_id = ac_native_session_id context, acp_next_request_id = 3, acp_pending = None,
     acp_offered_options = Map.empty, acp_initialized = False, acp_sequence = 0\<rparr>"

definition acp_write :: "AcpAdapter \<Rightarrow> json \<Rightarrow> string option \<Rightarrow> NativeWrite" where
  "acp_write s payload local_input_id =
     \<lparr>nw_provider_key = acp_kind s, nw_local_input_id = local_input_id,
      nw_payload = encode_line payload\<rparr>"

definition is_established :: "AcpAdapter \<Rightarrow> bool" where
  "is_established s \<longleftrightarrow> acp_session_id s \<noteq> None"

definition can_accept_prompt :: "AcpAdapter \<Rightarrow> bool" where
  "can_accept_prompt s \<longleftrightarrow> is_established s \<and>
     (case acp_pending s of None \<Rightarrow> True | Some p \<Rightarrow> pt_completed p)"

definition initialize_request :: "AcpAdapter \<Rightarrow> NativeWrite" where
  "initialize_request s = acp_write s (obj [
     (''jsonrpc'', JStr ''2.0''), (''id'', JInt 1), (''method'', JStr ''initialize''),
     (''params'', obj [(''protocolVersion'', JInt 1),
       (''clientCapabilities'', obj [(''fs'', obj [(''readTextFile'', JBool False),
                                                (''writeTextFile'', JBool False)])])])]) None"

definition session_new_request :: "string \<Rightarrow> AcpAdapter \<Rightarrow> NativeWrite" where
  "session_new_request cwd s = acp_write s (obj [
     (''jsonrpc'', JStr ''2.0''), (''id'', JInt 2), (''method'', JStr ''session/new''),
     (''params'', obj [(''cwd'', JStr cwd), (''mcpServers'', JArr [])])]) None"

section \<open>Provider records\<close>

definition turn_id_text :: "AcpAdapter \<Rightarrow> string option" where
  "turn_id_text s = map_option (\<lambda>p. show_int (pt_request_id p)) (acp_pending s)"

definition acp_event :: "(int \<Rightarrow> nat) \<Rightarrow> ProviderEventKind \<Rightarrow> ProviderEventPhase \<Rightarrow> json \<Rightarrow> json \<Rightarrow>
    string option \<Rightarrow> AcpAdapter \<Rightarrow> ProviderEventDraft \<times> AcpAdapter" where
  "acp_event clock kind phase payload raw item_id s0 =
     (let s = s0\<lparr>acp_sequence := acp_sequence s0 + 1\<rparr>
      in (\<lparr>dr_provider = acp_kind s,
           dr_provider_event_id = Some (acp_kind s @ ''-'' @ show_int (acp_process_id s) @ ''-''
                                          @ show_int (acp_sequence s)),
           dr_provider_item_id = item_id,
           dr_provider_thread_id = acp_session_id s,
           dr_provider_turn_id = turn_id_text s,
           dr_parent_provider_item_id = None, dr_parent_provider_thread_id = None,
           dr_workspace_id = None,
           dr_chat_thread_id = Some (acp_chat_thread_id s), dr_process_id = Some (acp_process_id s),
           dr_phase = phase, dr_kind = kind, dr_provider_subtype = None,
           dr_provider_sequence = Some (acp_sequence s), dr_occurred_at_ms = clock (acp_sequence s),
           dr_normalized_payload = payload, dr_raw_json = raw, dr_schema_version = 1,
           dr_adapter_version = ''acp-1''\<rparr>, s))"

definition content_text :: "json \<Rightarrow> string option" where
  "content_text content = (case as_str (jindex content ''text'') of
      Some t \<Rightarrow> Some t
    | None \<Rightarrow> (case as_array content of None \<Rightarrow> None
        | Some blocks \<Rightarrow> (let joined = concat (List.map_filter (\<lambda>b. as_str (jindex b ''text'')) blocks)
                        in if joined = [] then None else Some joined)))"

definition update_item_id :: "string \<Rightarrow> json \<Rightarrow> AcpAdapter \<Rightarrow> string option" where
  "update_item_id variant update s = (case as_str (jindex update ''toolCallId'') of
      Some tool_call_id \<Rightarrow> Some (''tool-'' @ tool_call_id)
    | None \<Rightarrow> (let turn = unwrap_or (turn_id_text s) ''boot''
        in if variant = ''agent_message_chunk'' \<or> variant = ''agent_thought_chunk''
              \<or> variant = ''user_message_chunk''
           then Some (variant @ ''-'' @ turn) else None))"

definition update_kind_phase :: "string \<Rightarrow> ProviderEventKind \<times> ProviderEventPhase" where
  "update_kind_phase variant =
     (if variant = ''agent_message_chunk'' then (AssistantOutput, Delta)
      else if variant = ''agent_thought_chunk'' then (PlanningReasoning, Delta)
      else if variant = ''user_message_chunk'' then (UserInput, Delta)
      else if variant = ''tool_call'' then (Tool, Started)
      else if variant = ''tool_call_update'' then (Tool, Progress)
      else if variant = ''plan'' then (PlanningReasoning, Progress)
      else if variant = ''available_commands_update'' then (EnvironmentConfigModel, Progress)
      else (ProviderEventKind.Unknown, Progress))"

definition handle_session_update :: "(int \<Rightarrow> nat) \<Rightarrow> json \<Rightarrow> json \<Rightarrow> AcpAdapter \<Rightarrow>
    HarnessEffect list \<times> AcpAdapter" where
  "handle_session_update clock params raw s =
     (let update = jindex params ''update''
      in case as_str (jindex update ''sessionUpdate'') of None \<Rightarrow> ([], s)
       | Some variant \<Rightarrow>
         (let (kind, phase) = update_kind_phase variant;
              body = unwrap_or (or_else (content_text (jindex update ''content''))
                                        (as_str (jindex update ''title''))) [];
              payload = obj [(''title'', JStr variant), (''body'', JStr body)];
              (draft, s') = acp_event clock kind phase payload raw (update_item_id variant update s) s
          in ([ProviderEvent draft], s')))"

definition shown_option :: "json \<Rightarrow> InteractionOption" where
  "shown_option opt = \<lparr>io_label = unwrap_or (as_str (jindex opt ''name''))
                                (unwrap_or (as_str (jindex opt ''optionId'')) ''Allow''),
     io_description = unwrap_or (as_str (jindex opt ''kind'')) []\<rparr>"

definition offered_option :: "json \<Rightarrow> OfferedOption option" where
  "offered_option opt = map_option (\<lambda>i. \<lparr>oo_id = i, oo_label = io_label (shown_option opt),
     oo_kind = io_description (shown_option opt)\<rparr>) (as_str (jindex opt ''optionId''))"

definition handle_permission_request :: "json \<Rightarrow> json \<Rightarrow> AcpAdapter \<Rightarrow> HarnessEffect list \<times> AcpAdapter" where
  "handle_permission_request i params s =
     (let opts = unwrap_or (as_array (jindex params ''options'')) [];
          options = map shown_option opts;
          offered = List.map_filter offered_option opts;
          title = unwrap_or (as_str (jindex (jindex params ''toolCall'') ''title'')) ''Permission requested'';
          native_id = json_to_string i
      in ([InteractionRequested
            \<lparr>id_provider_key = acp_kind s, id_workspace = acp_workspace s,
             id_thread_id = acp_chat_thread_id s, id_session_id = acp_process_id s,
             id_native_session_id = acp_session_id s, id_native_id = native_id,
             id_kind = Permission, id_title = title,
             id_detail = json_to_string (jindex (jindex params ''toolCall'') ''rawInput''),
             id_questions = [\<lparr>iq_id = native_id, iq_header = ''Permission'', iq_question = title,
               iq_options = options, iq_allow_other = False, iq_multi_select = False\<rparr>],
             id_auto_resolution_ms = None, id_native_request = params\<rparr>],
          s\<lparr>acp_offered_options := (acp_offered_options s)(native_id \<mapsto> offered)\<rparr>))"

definition stop_status :: "string \<Rightarrow> HarnessTurnStatus" where
  "stop_status stop_reason = (if stop_reason = ''cancelled'' then HarnessTurnStatus.Interrupted
     else if stop_reason = ''refusal'' then HarnessTurnStatus.Failed else Success)"

fun turn_phase :: "HarnessTurnStatus \<Rightarrow> ProviderEventPhase" where
  "turn_phase Success = Completed"
| "turn_phase HarnessTurnStatus.Interrupted = ProviderEventPhase.Interrupted"
| "turn_phase HarnessTurnStatus.Failed = ProviderEventPhase.Failed"
| "turn_phase Deferred = Declined"

definition handle_prompt_response :: "(int \<Rightarrow> nat) \<Rightarrow> json \<Rightarrow> AcpAdapter \<Rightarrow> HarnessEffect list \<times> AcpAdapter" where
  "handle_prompt_response clock message s = (case acp_pending s of None \<Rightarrow> ([], s)
    | Some p \<Rightarrow>
      if pt_completed p then ([], s) else
      (let s1 = s\<lparr>acp_pending := Some (p\<lparr>pt_completed := True\<rparr>)\<rparr>;
           item = Some (''turn-'' @ show_int (pt_request_id p))
       in case jget message ''error'' of
         Some e \<Rightarrow>
           (let text = unwrap_or (as_str (jindex e ''message'')) ''ACP request failed'';
                (draft, s2) = acp_event clock Turn ProviderEventPhase.Failed
                  (obj [(''title'', JStr ''Turn''), (''body'', JStr text)]) message item s1
            in ([TurnCompleted (pt_local_input_id p) HarnessTurnStatus.Failed, ProviderEvent draft,
                 Fatal text, TurnSettled HarnessTurnStatus.Failed, Ready], s2))
       | None \<Rightarrow>
           (let stop_reason = unwrap_or (as_str (jindex (jindex message ''result'') ''stopReason'')) ''end_turn'';
                status = stop_status stop_reason;
                (draft, s2) = acp_event clock Turn (turn_phase status)
                  (obj [(''title'', JStr ''Turn''), (''body'', JStr stop_reason)]) message item s1;
                warning = (if stop_reason = ''max_tokens'' \<or> stop_reason = ''max_turn_requests''
                           then [Warning (''the agent stopped early: '' @ stop_reason)] else [])
            in ([TurnCompleted (pt_local_input_id p) status, ProviderEvent draft] @ warning
                @ [TurnSettled status, Ready], s2))))"

definition handle_initialize_response :: "json \<Rightarrow> AcpAdapter \<Rightarrow> HarnessEffect list \<times> AcpAdapter" where
  "handle_initialize_response message s =
     (let capabilities = (case jindex (jindex message ''result'') ''agentCapabilities'' of
                            JObj kvs \<Rightarrow> map fst kvs | _ \<Rightarrow> [])
      in ([CapabilitiesObserved capabilities], s\<lparr>acp_initialized := True\<rparr>))"

definition handle_session_new_response :: "json \<Rightarrow> AcpAdapter \<Rightarrow> HarnessEffect list \<times> AcpAdapter" where
  "handle_session_new_response message s =
     (case as_str (jindex (jindex message ''result'') ''sessionId'') of
        None \<Rightarrow> ([Fatal (case as_str (jindex (jindex message ''error'') ''message'') of
                   Some reason \<Rightarrow> ''ACP session/new failed: '' @ reason
                 | None \<Rightarrow> ''ACP session/new returned no sessionId'')], s)
      | Some session_id \<Rightarrow> ([Initialized session_id None, Ready], s\<lparr>acp_session_id := Some session_id\<rparr>))"

section \<open>The adapter operations\<close>

definition acp_encode_input :: "HarnessInput \<Rightarrow> AcpAdapter \<Rightarrow> (string + NativeWrite) \<times> AcpAdapter" where
  "acp_encode_input input s = (case acp_session_id s of
      None \<Rightarrow> (Inl ''ACP session is not established yet'', s)
    | Some session_id \<Rightarrow>
      if \<not> can_accept_prompt s
      then (Inl ''an ACP turn is already running; the next prompt must wait for it'', s)
      else (let request_id = acp_next_request_id s;
                s' = s\<lparr>acp_next_request_id := request_id + 1,
                       acp_pending := Some \<lparr>pt_request_id = request_id,
                         pt_local_input_id = hi_local_input_id input, pt_completed = False\<rparr>\<rparr>
            in (Inr (acp_write s' (obj [(''jsonrpc'', JStr ''2.0''), (''id'', JInt request_id),
                  (''method'', JStr ''session/prompt''),
                  (''params'', obj [(''sessionId'', JStr session_id),
                    (''prompt'', JArr [obj [(''type'', JStr ''text''), (''text'', JStr (hi_content input))]])])])
                  (Some (hi_local_input_id input))), s')))"

definition observe_message :: "(int \<Rightarrow> nat) \<Rightarrow> json \<Rightarrow> AcpAdapter \<Rightarrow> HarnessEffect list \<times> AcpAdapter" where
  "observe_message clock message s = (case as_str (jindex message ''method'') of
      Some method \<Rightarrow>
        if method = ''session/update'' then handle_session_update clock (jindex message ''params'') message s
        else if method = ''session/request_permission''
        then handle_permission_request (jindex message ''id'') (jindex message ''params'') s
        else ([], s)
    | None \<Rightarrow> (case as_i64 (jindex message ''id'') of
        None \<Rightarrow> ([], s)
      | Some i \<Rightarrow>
        if i = 1 then handle_initialize_response message s
        else if i = 2 then handle_session_new_response message s
        else (case acp_pending s of None \<Rightarrow> ([], s)
          | Some p \<Rightarrow> if pt_request_id p = i then handle_prompt_response clock message s else ([], s))))"

fun observe_lines :: "(string \<Rightarrow> json option) \<Rightarrow> (int \<Rightarrow> nat) \<Rightarrow> string list \<Rightarrow> AcpAdapter \<Rightarrow>
    HarnessEffect list \<times> AcpAdapter" where
  "observe_lines from_str clock [] s = ([], s)"
| "observe_lines from_str clock (line # ls) s =
     (let (es, s1) = (if trim line = [] then ([], s)
                      else case from_str (trim line) of None \<Rightarrow> ([], s)
                         | Some message \<Rightarrow> observe_message clock message s);
          (fs, s2) = observe_lines from_str clock ls s1
      in (es @ fs, s2))"

definition acp_observe_native :: "(string \<Rightarrow> json option) \<Rightarrow> (int \<Rightarrow> nat) \<Rightarrow> NativeRecord \<Rightarrow> AcpAdapter \<Rightarrow>
    (string + HarnessEffect list) \<times> AcpAdapter" where
  "acp_observe_native from_str clock record s =
     (let (es, s') = observe_lines from_str clock (str_lines (nr_payload record)) s in (Inr es, s'))"

definition selected_option :: "OfferedOption list \<Rightarrow> ProviderInteractionResolution \<Rightarrow> OfferedOption option" where
  "selected_option offered resolution = (case resolution of
      Approve \<Rightarrow> option_of_kind offered [''allow_once'', ''allow_always'']
    | ApproveForSession \<Rightarrow> option_of_kind offered [''allow_always'', ''allow_once'']
    | Deny _ \<Rightarrow> option_of_kind offered [''reject_once'', ''reject_always'']
    | Answer answers \<Rightarrow> (case answers of [] \<Rightarrow> None
        | a # _ \<Rightarrow> (case ia_values a of [] \<Rightarrow> None
            | v # _ \<Rightarrow> find (\<lambda>opt. oo_label opt = v \<or> oo_id opt = v) offered))
    | Defer \<Rightarrow> None)"

definition outcome_json :: "OfferedOption option \<Rightarrow> json" where
  "outcome_json selected = (case selected of
      Some opt \<Rightarrow> obj [(''outcome'', JStr ''selected''), (''optionId'', JStr (oo_id opt))]
    | None \<Rightarrow> obj [(''outcome'', JStr ''cancelled'')])"

definition acp_plan_control :: "(string \<Rightarrow> json option) \<Rightarrow> HarnessControl \<Rightarrow> AcpAdapter \<Rightarrow>
    HarnessControlPlan \<times> AcpAdapter" where
  "acp_plan_control from_str control s = (case control of
      HarnessControl.Interrupt \<Rightarrow> (case acp_session_id s of
        Some session_id \<Rightarrow> (HarnessControlPlan.NativeWrite (acp_write s (obj [(''jsonrpc'', JStr ''2.0''),
            (''method'', JStr ''session/cancel''),
            (''params'', obj [(''sessionId'', JStr session_id)])]) None), s)
      | None \<Rightarrow> (HarnessControlPlan.Unsupported ''no ACP session to cancel yet'', s))
    | Kill \<Rightarrow> (Signal TerminateProcessGroup, s)
    | ResolveInteraction native_id resolution \<Rightarrow>
        (let offered = unwrap_or (acp_offered_options s native_id) [];
             s' = s\<lparr>acp_offered_options := (acp_offered_options s)(native_id := None)\<rparr>;
             i = unwrap_or (from_str native_id) (JStr native_id);
             outcome = outcome_json (selected_option offered resolution)
         in (HarnessControlPlan.NativeWrite (acp_write s' (obj [(''jsonrpc'', JStr ''2.0''), (''id'', i),
               (''result'', obj [(''outcome'', outcome)])]) None), s'))
    | _ \<Rightarrow> (HarnessControlPlan.Unsupported ''ACP has no session control surface'', s))"

definition acp_recovery_plan :: "HarnessRecoveryCause \<Rightarrow> HarnessRecoveryPlan" where
  "acp_recovery_plan cause = (case cause of
      ChildExited code \<Rightarrow> Fail (''the ACP agent exited ('' @ unwrap_or (map_option show_int code) ''signal''
                                @ '') and its session cannot be resumed'')
    | ProtocolError message \<Rightarrow> Fail message
    | InterruptDeadline \<Rightarrow> Fail ''the ACP agent did not answer session/cancel'')"

section \<open>Exactly-once completion\<close>

definition acp_open_inputs :: "AcpAdapter \<Rightarrow> string list" where
  "acp_open_inputs s = (case acp_pending s of None \<Rightarrow> []
     | Some p \<Rightarrow> if pt_completed p then [] else [pt_local_input_id p])"

lemma acp_event_fields:
  "acp_event clock kind phase payload raw item s = (d, s') \<Longrightarrow>
     acp_pending s' = acp_pending s \<and> acp_session_id s' = acp_session_id s \<and>
     acp_offered_options s' = acp_offered_options s \<and> acp_next_request_id s' = acp_next_request_id s"
  by (auto simp: acp_event_def Let_def)

lemma prompt_response_open:
  "handle_prompt_response clock m s = (es, s') \<Longrightarrow>
     completions es @ acp_open_inputs s' = acp_open_inputs s"
  by (auto simp: handle_prompt_response_def Let_def acp_open_inputs_def split: option.splits if_splits
    prod.splits dest!: acp_event_fields)

lemma session_update_open:
  "handle_session_update clock params raw s = (es, s') \<Longrightarrow>
     completions es = [] \<and> acp_pending s' = acp_pending s"
  by (auto simp: handle_session_update_def Let_def split: option.splits prod.splits dest!: acp_event_fields)

lemma open_inputs_update [simp]:
  "acp_open_inputs (s\<lparr>acp_offered_options := x\<rparr>) = acp_open_inputs s"
  "acp_open_inputs (s\<lparr>acp_initialized := b\<rparr>) = acp_open_inputs s"
  "acp_open_inputs (s\<lparr>acp_session_id := n\<rparr>) = acp_open_inputs s"
  by (simp_all add: acp_open_inputs_def split: option.split)

lemma open_inputs_pending: "acp_pending s' = acp_pending s \<Longrightarrow> acp_open_inputs s' = acp_open_inputs s"
  by (simp add: acp_open_inputs_def)

lemma observe_message_open:
  assumes "observe_message clock m s = (es, s')"
  shows "completions es @ acp_open_inputs s' = acp_open_inputs s"
  using assms
  by (auto simp: observe_message_def handle_permission_request_def handle_initialize_response_def
      handle_session_new_response_def Let_def split: option.splits if_splits
      dest!: session_update_open prompt_response_open dest: open_inputs_pending)

lemma observe_lines_open:
  "observe_lines from_str clock ls s = (es, s') \<Longrightarrow>
     completions es @ acp_open_inputs s' = acp_open_inputs s"
proof (induction ls arbitrary: s es s')
  case (Cons line ls)
  obtain es1 s1 where one: "(if trim line = [] then ([], s)
      else case from_str (trim line) of None \<Rightarrow> ([], s) | Some m \<Rightarrow> observe_message clock m s) = (es1, s1)"
    by (metis surj_pair)
  obtain fs s2 where rest: "observe_lines from_str clock ls s1 = (fs, s2)" by (metis surj_pair)
  have "completions es1 @ acp_open_inputs s1 = acp_open_inputs s"
    using one by (auto split: if_splits option.splits dest: observe_message_open)
  moreover have "es = es1 @ fs" "s' = s2"
    using Cons.prems by (simp_all add: one rest del: trim_idem)
  ultimately show ?case using Cons.IH [OF rest] by auto
qed simp

lemma encode_open:
  "acp_open_inputs (snd (acp_encode_input i s)) =
     acp_open_inputs s @ accepted i (fst (acp_encode_input i s))"
  by (auto simp: acp_encode_input_def acp_open_inputs_def can_accept_prompt_def Let_def
    split: option.splits)

interpretation acp: managed_adapter acp_encode_input "acp_observe_native from_str clock" acp_open_inputs
  for from_str :: "string \<Rightarrow> json option" and clock :: "int \<Rightarrow> nat"
proof
  fix i and s :: AcpAdapter
  show "mset (acp_open_inputs (snd (acp_encode_input i s))) =
      mset (acp_open_inputs s) + mset (accepted i (fst (acp_encode_input i s)))"
    by (simp add: encode_open)
next
  fix r :: NativeRecord and s :: AcpAdapter
  obtain es s' where o: "observe_lines from_str clock (str_lines (nr_payload r)) s = (es, s')"
    by (metis surj_pair)
  have "mset (completions es) + mset (acp_open_inputs s') = mset (acp_open_inputs s)"
    using observe_lines_open [OF o] by (metis mset_append)
  then show "mset (completions (ok_effects (fst (acp_observe_native from_str clock r s)))) +
      mset (acp_open_inputs (snd (acp_observe_native from_str clock r s))) \<subseteq># mset (acp_open_inputs s)"
    by (simp add: acp_observe_native_def o)
qed

section \<open>Request ids\<close>

definition acp_ids_ok :: "AcpAdapter \<Rightarrow> bool" where
  "acp_ids_ok s \<longleftrightarrow> 3 \<le> acp_next_request_id s \<and>
     (case acp_pending s of None \<Rightarrow> True
      | Some p \<Rightarrow> 3 \<le> pt_request_id p \<and> pt_request_id p < acp_next_request_id s)"

datatype AcpOp = EncodeInput HarnessInput | ObserveMessage json | PlanControl HarnessControl

fun acp_step :: "(string \<Rightarrow> json option) \<Rightarrow> (int \<Rightarrow> nat) \<Rightarrow> AcpAdapter \<Rightarrow> AcpOp \<Rightarrow> AcpAdapter" where
  "acp_step from_str clock s (EncodeInput i) = snd (acp_encode_input i s)"
| "acp_step from_str clock s (ObserveMessage m) = snd (observe_message clock m s)"
| "acp_step from_str clock s (PlanControl c) = snd (acp_plan_control from_str c s)"

definition acp_run :: "(string \<Rightarrow> json option) \<Rightarrow> (int \<Rightarrow> nat) \<Rightarrow> AcpOp list \<Rightarrow> AcpAdapter \<Rightarrow> AcpAdapter" where
  "acp_run from_str clock ops s = fold (\<lambda>op s. acp_step from_str clock s op) ops s"

lemma prompt_response_ids:
  assumes "acp_ids_ok s" and "handle_prompt_response clock m s = (es, s')"
  shows "acp_ids_ok s'"
  using assms
  by (auto simp: handle_prompt_response_def Let_def acp_ids_ok_def split: option.splits if_splits
    prod.splits dest!: acp_event_fields)

lemma observe_message_ids:
  assumes "acp_ids_ok s" and "observe_message clock m s = (es, s')"
  shows "acp_ids_ok s'"
proof -
  have "acp_ids_ok s'" if "handle_session_update clock params raw s = (es, s')" for params raw
    using that assms(1) by (auto simp: handle_session_update_def acp_ids_ok_def Let_def
      split: option.splits prod.splits dest!: acp_event_fields)
  moreover have "acp_ids_ok s'" if "handle_permission_request i params s = (es, s')" for i params
    using that assms(1) by (auto simp: handle_permission_request_def acp_ids_ok_def Let_def
      split: option.splits)
  moreover have "acp_ids_ok s'" if "handle_initialize_response m s = (es, s')"
    using that assms(1) by (auto simp: handle_initialize_response_def acp_ids_ok_def split: option.splits)
  moreover have "acp_ids_ok s'" if "handle_session_new_response m s = (es, s')"
    using that assms(1) by (auto simp: handle_session_new_response_def acp_ids_ok_def split: option.splits)
  moreover have "acp_ids_ok s'" if "handle_prompt_response clock m s = (es, s')"
    using that assms(1) by (rule prompt_response_ids [rotated])
  ultimately show ?thesis
    using assms by (auto simp: observe_message_def split: option.splits if_splits)
qed

interpretation acp_ids: closed_machine "acp_step from_str clock" acp_ids_ok
  for from_str :: "string \<Rightarrow> json option" and clock :: "int \<Rightarrow> nat"
proof
  fix s :: AcpAdapter and op
  assume ok: "acp_ids_ok s"
  show "acp_ids_ok (acp_step from_str clock s op)"
  proof (cases op)
    case (EncodeInput i)
    with ok show ?thesis by (auto simp: acp_encode_input_def acp_ids_ok_def Let_def split: option.splits)
  next
    case (ObserveMessage m)
    with observe_message_ids [OF ok] show ?thesis by (metis acp_step.simps(2) prod.collapse)
  next
    case (PlanControl c)
    with ok show ?thesis by (auto simp: acp_plan_control_def acp_ids_ok_def Let_def
      split: HarnessControl.splits option.splits)
  qed
qed

lemma acp_run_ids: "acp_ids_ok (acp_run from_str clock ops (acp_new kind ctx))"
  unfolding acp_run_def by (rule acp_ids.closed_run) (simp add: acp_ids_ok_def acp_new_def)

section \<open>Permission answers\<close>

definition fits :: "ProviderInteractionResolution \<Rightarrow> string \<Rightarrow> bool" where
  "fits r kind = (case r of
      Approve \<Rightarrow> kind = ''allow_once'' \<or> kind = ''allow_always''
    | ApproveForSession \<Rightarrow> kind = ''allow_once'' \<or> kind = ''allow_always''
    | Deny _ \<Rightarrow> kind = ''reject_once'' \<or> kind = ''reject_always''
    | Answer _ \<Rightarrow> True
    | Defer \<Rightarrow> False)"

lemma option_of_kind_Some:
  "option_of_kind offered kinds = Some opt \<Longrightarrow> opt \<in> set offered \<and> oo_kind opt \<in> set kinds"
  by (auto simp: option_of_kind_def find_Some_iff dest!: find_map_Some)

lemma option_of_kind_None:
  "option_of_kind offered kinds = None \<longleftrightarrow> (\<forall>opt\<in>set offered. oo_kind opt \<notin> set kinds)"
  unfolding option_of_kind_def find_map_None find_None_iff by auto

lemma selected_option_fits:
  "selected_option offered r = Some opt \<Longrightarrow> opt \<in> set offered \<and> fits r (oo_kind opt)"
  by (auto simp: selected_option_def fits_def find_Some_iff
    split: ProviderInteractionResolution.splits list.splits dest!: option_of_kind_Some)

lemma offered_option_id: "offered_option v = Some opt \<Longrightarrow>
    as_str (jindex v ''optionId'') = Some (oo_id opt) \<and>
    oo_kind opt = unwrap_or (as_str (jindex v ''kind'')) []"
  by (auto simp: offered_option_def shown_option_def)

section \<open>Properties\<close>

text \<open>
  C2. The ACP adapter completes inputs exactly once: over any sequence of prompts handed to it and
  records read from the agent, duplicated and stray responses included, every completion it reports
  answers a prompt it accepted, no prompt is completed more often than it was accepted, and the one
  still in flight is not counted.
\<close>

theorem acp_completes_exactly_once:
  assumes "acp.adapter_run from_str clock es (acp_new kind ctx) = (effs, given, s')"
  shows "mset (completions effs) + mset (acp_open_inputs s') \<subseteq># mset given"
  using acp.exactly_once [OF assms] by (simp add: acp_open_inputs_def acp_new_def)

text \<open>
  A response to the prompt in flight ends its turn on every branch, the agent's error included:
  the turn's completion comes first, then the transcript record of the turn, and the last two effects
  settle the turn with the same status and make the session ready; the next prompt is accepted if the
  session is established, and a second copy of the response does nothing.
\<close>

lemma acp_prompt_response_ends_turn:
  assumes "s = acp_run from_str clock ops (acp_new kind ctx)"
    and "acp_pending s = Some p" and "\<not> pt_completed p"
    and "as_str (jindex m ''method'') = None" and "as_i64 (jindex m ''id'') = Some (pt_request_id p)"
    and "observe_message clock m s = (es, s')"
  defines "status \<equiv> (if jget m ''error'' = None
      then stop_status (unwrap_or (as_str (jindex (jindex m ''result'') ''stopReason'')) ''end_turn'')
      else HarnessTurnStatus.Failed)"
  shows "(\<exists>draft mid. es = [TurnCompleted (pt_local_input_id p) status, ProviderEvent draft] @ mid
            @ [TurnSettled status, Ready]
          \<and> dr_kind draft = Turn \<and> dr_phase draft = turn_phase status
          \<and> completions mid = [])
    \<and> can_accept_prompt s' = is_established s
    \<and> observe_message clock m s' = ([], s')"
proof -
  have "acp_ids_ok s" unfolding assms(1) by (rule acp_run_ids)
  then have id: "3 \<le> pt_request_id p" using assms(2) by (simp add: acp_ids_ok_def)
  then have o: "handle_prompt_response clock m s = (es, s')"
    using assms(2,4-6) by (simp add: observe_message_def)
  have pending: "acp_pending s' = Some (p\<lparr>pt_completed := True\<rparr>) \<and> acp_session_id s' = acp_session_id s"
    using o assms(2,3) by (auto simp: handle_prompt_response_def Let_def split: option.splits prod.splits
      dest!: acp_event_fields)
  have "\<exists>draft mid. es = [TurnCompleted (pt_local_input_id p) status, ProviderEvent draft] @ mid
      @ [TurnSettled status, Ready] \<and> dr_kind draft = Turn \<and> dr_phase draft = turn_phase status
      \<and> completions mid = []"
  proof (cases "jget m ''error''")
    case (Some e)
    with o assms(2,3) show ?thesis
      by (auto simp: handle_prompt_response_def status_def Let_def acp_event_def split: prod.splits)
  next
    case None
    with o assms(2,3) show ?thesis
      by (auto simp: handle_prompt_response_def status_def Let_def acp_event_def split: prod.splits if_splits)
  qed
  moreover have "can_accept_prompt s' = is_established s"
    using pending by (simp add: can_accept_prompt_def is_established_def)
  moreover have "observe_message clock m s' = ([], s')"
    using pending id assms(4,5) by (simp add: observe_message_def handle_prompt_response_def)
  ultimately show ?thesis by blast
qed

text \<open>
  One prompt at a time: a prompt is refused, and nothing changes, unless the session is
  established and the previous turn has been answered; an accepted prompt gets a request id no
  earlier prompt and neither handshake request used, and goes out as one line carrying its text.
\<close>

lemma acp_one_prompt_in_flight:
  assumes "s = acp_run from_str clock ops (acp_new kind ctx)"
  shows "(\<not> can_accept_prompt s \<longrightarrow> (\<exists>e. acp_encode_input i s = (Inl e, s)))
   \<and> (can_accept_prompt s \<longrightarrow> (\<exists>w s'. acp_encode_input i s = (Inr w, s')
        \<and> acp_pending s' = Some \<lparr>pt_request_id = acp_next_request_id s,
             pt_local_input_id = hi_local_input_id i, pt_completed = False\<rparr>
        \<and> acp_next_request_id s < acp_next_request_id s' \<and> 3 \<le> acp_next_request_id s
        \<and> (\<forall>p. acp_pending s = Some p \<longrightarrow> pt_request_id p < acp_next_request_id s)
        \<and> \<not> can_accept_prompt s'
        \<and> (\<exists>l. nw_payload w = l @ [CHR 0x0A] \<and> CHR 0x0A \<notin> set l)))"
proof -
  have ids: "acp_ids_ok s" unfolding assms by (rule acp_run_ids)
  show ?thesis
  proof (cases "can_accept_prompt s")
    case False
    then show ?thesis
      by (auto simp: acp_encode_input_def can_accept_prompt_def is_established_def split: option.splits)
  next
    case True
    then obtain sid where sid: "acp_session_id s = Some sid"
      by (auto simp: can_accept_prompt_def is_established_def)
    obtain w s' where enc: "acp_encode_input i s = (Inr w, s')"
      and w: "nw_payload w = encode_line (obj [(''jsonrpc'', JStr ''2.0''),
        (''id'', JInt (acp_next_request_id s)), (''method'', JStr ''session/prompt''),
        (''params'', obj [(''sessionId'', JStr sid),
          (''prompt'', JArr [obj [(''type'', JStr ''text''), (''text'', JStr (hi_content i))]])])])"
      and s': "s' = s\<lparr>acp_next_request_id := acp_next_request_id s + 1,
        acp_pending := Some \<lparr>pt_request_id = acp_next_request_id s,
          pt_local_input_id = hi_local_input_id i, pt_completed = False\<rparr>\<rparr>"
      using True sid by (simp add: acp_encode_input_def Let_def acp_write_def)
    have "\<exists>l. nw_payload w = l @ [CHR 0x0A] \<and> CHR 0x0A \<notin> set l"
      unfolding w by (rule encode_line_framed) simp
    with True ids enc show ?thesis
      by (auto simp: s' acp_ids_ok_def can_accept_prompt_def split: option.splits)
  qed
qed

text \<open>
  C3. An answer to a permission ask goes back under the ask's own JSON-RPC id and names an option
  the agent offered in that ask, of a kind that fits the decision (an approval never picks a
  rejecting option, a denial never an allowing one), or else says the ask was cancelled; the ask is
  then forgotten. It is cancelled only when nothing offered fits or the user deferred or answered
  with something that was not offered.
\<close>

theorem acp_permission_answer_was_offered:
  assumes "from_str (json_to_string i) = Some i"
    and "handle_permission_request i params s = (effs, s1)"
    and "acp_plan_control from_str (ResolveInteraction (json_to_string i) r) s1 = (plan, s2)"
  shows "\<exists>outcome. plan = HarnessControlPlan.NativeWrite (acp_write s (obj [(''jsonrpc'', JStr ''2.0''), (''id'', i),
             (''result'', obj [(''outcome'', outcome)])]) None)
    \<and> acp_offered_options s2 (json_to_string i) = None
    \<and> (outcome = obj [(''outcome'', JStr ''cancelled'')]
         \<and> (r = Approve \<or> r = ApproveForSession \<or> (\<exists>why. r = Deny why) \<longrightarrow>
            (\<forall>v\<in>set (jarray_at params [''options'']). as_str (jindex v ''optionId'') \<noteq> None \<longrightarrow>
               \<not> fits r (unwrap_or (as_str (jindex v ''kind'')) [])))
       \<or> (\<exists>v\<in>set (jarray_at params [''options'']). \<exists>opt_id. as_str (jindex v ''optionId'') = Some opt_id
            \<and> fits r (unwrap_or (as_str (jindex v ''kind'')) [])
            \<and> outcome = obj [(''outcome'', JStr ''selected''), (''optionId'', JStr opt_id)]))"
proof -
  define offered where "offered = List.map_filter offered_option (jarray_at params [''options''])"
  have opts: "unwrap_or (as_array (jindex params ''options'')) [] = jarray_at params [''options'']"
    by (simp add: jarray_at_def jindex_def unwrap_or_def split: option.split)
  have s1: "s1 = s\<lparr>acp_offered_options := (acp_offered_options s)(json_to_string i \<mapsto> offered)\<rparr>"
    using assms(2) by (simp add: handle_permission_request_def Let_def opts offered_def)
  have plan: "plan = HarnessControlPlan.NativeWrite (acp_write s (obj [(''jsonrpc'', JStr ''2.0''), (''id'', i),
             (''result'', obj [(''outcome'', outcome_json (selected_option offered r))])]) None)"
    and gone: "acp_offered_options s2 (json_to_string i) = None"
    using assms(1,3) by (auto simp: acp_plan_control_def Let_def s1 acp_write_def)
  have mem: "opt \<in> set offered \<longleftrightarrow> (\<exists>v\<in>set (jarray_at params [''options'']). offered_option v = Some opt)" for opt
    by (auto simp: offered_def map_filter_def image_iff)
  show ?thesis
  proof (cases "selected_option offered r")
    case (Some opt)
    then obtain v where "v \<in> set (jarray_at params [''options''])" "offered_option v = Some opt"
      "fits r (oo_kind opt)"
      using selected_option_fits [OF Some] mem by blast
    with plan gone Some offered_option_id [of v opt] show ?thesis
      by (auto simp: outcome_json_def)
  next
    case None
    have "\<not> fits r (oo_kind opt)" if "r = Approve \<or> r = ApproveForSession \<or> (\<exists>why. r = Deny why)"
        "opt \<in> set offered" for opt
      using None that by (auto simp: selected_option_def fits_def option_of_kind_None)
    moreover have "\<exists>opt\<in>set offered. oo_kind opt = unwrap_or (as_str (jindex v ''kind'')) []"
      if "v \<in> set (jarray_at params [''options''])" "as_str (jindex v ''optionId'') \<noteq> None" for v
    proof -
      note v = that
      obtain opt where opt: "offered_option v = Some opt"
        using v(2) by (auto simp: offered_option_def)
      with v(1) mem offered_option_id [OF opt] show ?thesis by blast
    qed
    ultimately have "r = Approve \<or> r = ApproveForSession \<or> (\<exists>why. r = Deny why) \<longrightarrow>
        (\<forall>v\<in>set (jarray_at params [''options'']). as_str (jindex v ''optionId'') \<noteq> None \<longrightarrow>
           \<not> fits r (unwrap_or (as_str (jindex v ''kind'')) []))"
      by metis
    moreover have "outcome_json None = obj [(''outcome'', JStr ''cancelled'')]"
      by (simp add: outcome_json_def)
    ultimately show ?thesis using plan [unfolded None] gone by metis
  qed
qed

section \<open>Witnesses\<close>

definition acp_demo_context :: HarnessAdapterContext where
  "acp_demo_context = \<lparr>ac_session_id = 7, ac_thread_id = 11, ac_workspace = ''berlin'',
     ac_native_session_id = Some ''s1'',
     ac_controls = \<lparr>dc_model = None, dc_effort = None, dc_permission_mode = None, dc_fast_mode = None\<rparr>\<rparr>"

definition demo_response :: json where
  "demo_response = JObj [(''id'', JInt 3), (''result'', JObj [(''stopReason'', JStr ''end_turn'')])]"

lemma demo_run: "acp_run f clock [EncodeInput demo_input] (acp_new ''gemini'' acp_demo_context) =
    (acp_new ''gemini'' acp_demo_context)\<lparr>acp_next_request_id := 4,
      acp_pending := Some \<lparr>pt_request_id = 3, pt_local_input_id = ''a'', pt_completed = False\<rparr>\<rparr>"
  by (simp add: acp_run_def acp_encode_input_def acp_new_def acp_demo_context_def demo_input_def
    can_accept_prompt_def is_established_def Let_def)

theorem acp_completes_exactly_once_witness:
  "completions (fst (acp.adapter_run (\<lambda>_. Some demo_response) (\<lambda>_. 0)
      [Inl demo_input, Inr \<lparr>nr_provider_key = ''gemini'', nr_payload = ''{}''\<rparr>] (acp_new ''gemini'' acp_demo_context))) = [''a'']
   \<and> mset [''a''] \<subseteq># mset [''a'']"
proof -
  let ?run = "acp.adapter_run (\<lambda>_. Some demo_response) (\<lambda>_. 0)
      [Inl demo_input, Inr \<lparr>nr_provider_key = ''gemini'', nr_payload = ''{}''\<rparr>] (acp_new ''gemini'' acp_demo_context)"
  obtain effs given s' where run: "?run = (effs, given, s')" by (metis surj_pair)
  have "completions effs = [''a''] \<and> given = [''a''] \<and> acp_open_inputs s' = []"
    using run by (auto simp: acp_encode_input_def acp_new_def acp_demo_context_def demo_input_def
      can_accept_prompt_def is_established_def Let_def acp_observe_native_def str_lines_def text_simps
      observe_message_def demo_response_def jindex_def handle_prompt_response_def acp_event_def
      stop_status_def acp_open_inputs_def split: prod.splits)
  with acp_completes_exactly_once [OF run] run show ?thesis by simp
qed

theorem acp_permission_answer_was_offered_witness:
  "\<exists>outcome. fst (acp_plan_control (\<lambda>t. if t = ''5'' then Some (JInt 5) else None)
      (ResolveInteraction ''5'' Approve) (snd (handle_permission_request (JInt 5)
        (JObj [(''options'', JArr [JObj [(''kind'', JStr ''allow_once''), (''optionId'', JStr ''yes'')]])])
        (acp_new ''gemini'' acp_demo_context))))
    = HarnessControlPlan.NativeWrite (acp_write (acp_new ''gemini'' acp_demo_context) (obj [(''jsonrpc'', JStr ''2.0''),
        (''id'', JInt 5), (''result'', obj [(''outcome'', outcome)])]) None)"
proof -
  let ?f = "\<lambda>t. if t = ''5'' then Some (JInt 5) else None"
  let ?p = "JObj [(''options'', JArr [JObj [(''kind'', JStr ''allow_once''), (''optionId'', JStr ''yes'')]])]"
  let ?s1 = "snd (handle_permission_request (JInt 5) ?p (acp_new ''gemini'' acp_demo_context))"
  have five: "json_to_string (JInt 5) = ''5''" by code_simp
  show ?thesis
    using acp_permission_answer_was_offered [of ?f "JInt 5" ?p "acp_new ''gemini'' acp_demo_context"
      "fst (handle_permission_request (JInt 5) ?p (acp_new ''gemini'' acp_demo_context))" ?s1 Approve
      "fst (acp_plan_control ?f (ResolveInteraction ''5'' Approve) ?s1)"
      "snd (acp_plan_control ?f (ResolveInteraction ''5'' Approve) ?s1)"]
    unfolding five by (simp only: prod.collapse if_True refl simp_thms) blast
qed

end
