(* ===== verification/Claude_Parser.thy ===== *)
theory Claude_Parser
  imports Harness_Contract
begin

text \<open>
  The Claude stream-json parser (\<open>crates/core/src/provider_adapters/claude_stream.rs\<close>): what kind of
  event a record is, which tool, message and background task it belongs to, and the provider events
  it becomes. The parser keeps the tools and tasks of the session, so that a result finds the name
  and the target of the call that produced it.
\<close>

section \<open>Event kinds and the event record\<close>

datatype ClaudeProviderEventKind =
    Initialization | Session | UserMessage | AssistantMessage | MessageStart | MessageDelta
  | MessageStop | ContentBlockStart | ContentBlockDelta | ContentBlockStop | ToolUse
  | ToolInputDelta | ToolResult | Permission | Hook | SkillInjection | ImageCompanionNote
  | Subagent | BackgroundTask | Usage | ApiRetry | RateLimit | PromptSuggestion | Reasoning
  | DeferredResult | Result | Error | Unknown

record ClaudeInitMetadata =
  im_session_id :: string
  im_model :: "string option"
  im_capabilities :: "string list"

datatype ClaudeResultStatus = Success | Failed | Interrupted | Declined | Deferred

datatype ClaudeLifecycleSignal =
    Initialized ClaudeInitMetadata
  | UserInputReplayed string
  | TurnFinished ClaudeResultStatus "string option"
  | DeferredTool json

record ClaudeUsageDraft =
  ud_input_tokens :: "nat option"
  ud_output_tokens :: "nat option"
  ud_thinking_tokens :: "nat option"
  ud_cache_creation_input_tokens :: "nat option"
  ud_cache_read_input_tokens :: "nat option"

definition usage_default :: ClaudeUsageDraft where
  "usage_default = \<lparr>ud_input_tokens = None, ud_output_tokens = None, ud_thinking_tokens = None,
     ud_cache_creation_input_tokens = None, ud_cache_read_input_tokens = None\<rparr>"

record ClaudeReasoningBlockDraft =
  rb_content_block_index :: nat
  rb_thinking :: string

record ClaudeProviderEventDraft =
  ce_provider :: string
  ce_kind :: ClaudeProviderEventKind
  ce_provider_event_id :: "string option"
  ce_session_id :: "string option"
  ce_parent_tool_use_id :: "string option"
  ce_provider_message_id :: "string option"
  ce_provider_tool_use_id :: "string option"
  ce_tool_target :: "string option"
  ce_content_block_index :: "nat option"
  ce_tool_name :: "string option"
  ce_content_delta :: "string option"
  ce_cost_usd :: "json option"
  ce_duration_ms :: "nat option"
  ce_subtype :: "string option"
  ce_usage :: ClaudeUsageDraft
  ce_reasoning_blocks :: "ClaudeReasoningBlockDraft list"
  ce_background_agent :: bool
  ce_raw_json :: json

section \<open>Reading records\<close>

definition type_of :: "json \<Rightarrow> string option" where
  "type_of v = Option.bind (jget v ''type'') as_str"

definition message_content :: "json \<Rightarrow> json list option" where
  "message_content v = Option.bind (jpath v [''message'', ''content'']) as_array"

definition usage_from :: "json \<Rightarrow> ClaudeUsageDraft" where
  "usage_from value = (case or_else (jget value ''usage'')
        (or_else (jpath value [''message'', ''usage''])
        (or_else (jpath value [''event'', ''message'', ''usage'']) (jpath value [''event'', ''usage''])))
     of None \<Rightarrow> usage_default
      | Some usage \<Rightarrow> \<lparr>ud_input_tokens = number_at usage [''input_tokens''],
          ud_output_tokens = number_at usage [''output_tokens''],
          ud_thinking_tokens = or_else (number_at usage [''output_tokens_details'', ''thinking_tokens''])
                                 (number_at usage [''thinking_tokens'']),
          ud_cache_creation_input_tokens = number_at usage [''cache_creation_input_tokens''],
          ud_cache_read_input_tokens = number_at usage [''cache_read_input_tokens'']\<rparr>)"

definition claude_fallback_event_id :: "json \<Rightarrow> string" where
  "claude_fallback_event_id value =
     (let hash = hex16 (fnv1a (json_to_string value));
          native_type = unwrap_or (string_at value [''type'']) ''unknown''
      in case string_at value [''subtype''] of
           Some subtype \<Rightarrow> native_type @ '':'' @ subtype @ '':'' @ hash
         | None \<Rightarrow> native_type @ '':'' @ hash)"

definition nonempty :: "string \<Rightarrow> string option" where
  "nonempty t = (if t = [] then None else Some t)"

definition message_content_text :: "json \<Rightarrow> string \<Rightarrow> string \<Rightarrow> string option" where
  "message_content_text value block_type field = Option.bind (message_content value)
     (\<lambda>blocks. nonempty (concat (List.map_filter (\<lambda>b. Option.bind (jget b field) as_str)
        (filter (\<lambda>b. type_of b = Some block_type) blocks))))"

definition message_has_block_type :: "json \<Rightarrow> string \<Rightarrow> bool" where
  "message_has_block_type value block_type = (case message_content value of None \<Rightarrow> False
     | Some blocks \<Rightarrow> list_ex (\<lambda>b. type_of b = Some block_type) blocks)"

fun tool_result_content_text :: "json \<Rightarrow> string option" where
  "tool_result_content_text (JStr text) = Some text"
| "tool_result_content_text (JArr blocks) = nonempty (join [CHR 0x0A] (List.map_filter
     (\<lambda>b. if type_of b = Some ''text'' then string_at b [''text'']
          else if type_of b = Some ''tool_reference''
          then map_option (\<lambda>name. ''Loaded '' @ name) (string_at b [''tool_name''])
          else None) blocks))"
| "tool_result_content_text _ = None"

definition tool_result_text :: "json \<Rightarrow> string option" where
  "tool_result_text value = Option.bind (message_content value)
     (\<lambda>blocks. nonempty (join [CHR 0x0A] (List.map_filter
        (\<lambda>b. Option.bind (jget b ''content'') tool_result_content_text)
        (filter (\<lambda>b. type_of b = Some ''tool_result'') blocks))))"

definition tool_result_is_error :: "json \<Rightarrow> bool" where
  "tool_result_is_error value = (case message_content value of None \<Rightarrow> False
     | Some blocks \<Rightarrow> list_ex (\<lambda>b. type_of b = Some ''tool_result''
         \<and> Option.bind (jget b ''is_error'') as_bool = Some True) blocks)"

definition reasoning_blocks_from :: "json \<Rightarrow> ClaudeReasoningBlockDraft list" where
  "reasoning_blocks_from value = List.map_filter
     (\<lambda>(index, b). if type_of b = Some ''thinking''
        then map_option (\<lambda>t. \<lparr>rb_content_block_index = index, rb_thinking = t\<rparr>)
               (Option.bind (Option.bind (jget b ''thinking'') as_str) nonempty)
        else None) (List.enumerate 0 (unwrap_or (message_content value) []))"

definition claude_task_body :: "json \<Rightarrow> string option" where
  "claude_task_body value =
     (let lines =
        (if string_at value [''subtype''] = Some ''task_progress'' then
           (let line = unwrap_or (string_at value [''description'']) []
            in case number_at value [''usage'', ''tool_uses''] of None \<Rightarrow> [line]
               | Some uses \<Rightarrow>
                   (let text = show_nat uses @ '' tool use'' @ (if uses = 1 then [] else ''s'')
                    in [if line = [] then text else line @ '' ('' @ text @ '')'']))
         else if string_at value [''subtype''] = Some ''task_notification'' then
           [unwrap_or (string_at value [''summary'']) []] @
           (case string_at value [''output_file''] of None \<Rightarrow> []
            | Some output \<Rightarrow> if trim output = [] then [] else [''Output: '' @ output])
         else [])
      in nonempty (join [CHR 0x0A] (filter (\<lambda>l. trim l \<noteq> []) lines)))"

definition claude_task_phase :: "json \<Rightarrow> ProviderEventPhase" where
  "claude_task_phase value =
     (let by_status = (\<lambda>status. if status = Some ''completed'' then ProviderEventPhase.Completed
            else if status = Some ''failed'' then ProviderEventPhase.Failed
            else if status = Some ''stopped'' \<or> status = Some ''killed'' then ProviderEventPhase.Interrupted
            else Progress);
          subtype = string_at value [''subtype'']
      in if subtype = Some ''task_started'' then Started
         else if subtype = Some ''task_progress'' then Progress
         else if subtype = Some ''task_notification'' then by_status (string_at value [''status''])
         else if subtype = Some ''task_updated'' then by_status (string_at value [''patch'', ''status''])
         else by_status None)"

definition todo_mark :: "string option \<Rightarrow> string" where
  "todo_mark status = (if status = Some ''completed'' then ''[x]''
     else if status = Some ''in_progress'' then ''[~]'' else ''[ ]'')"

definition assistant_todo_lists :: "json \<Rightarrow> (string \<times> string) list" where
  "assistant_todo_lists raw = List.map_filter
     (\<lambda>b. Option.bind (Option.bind (jpath b [''input'', ''todos'']) as_array) (\<lambda>todos.
        Option.bind (Option.bind (jget b ''id'') as_str) (\<lambda>i. Some (i, join [CHR 0x0A]
          (List.map_filter (\<lambda>todo. map_option
             (\<lambda>content. todo_mark (string_at todo [''status'']) @ '' '' @ content)
             (string_at todo [''content''])) todos)))))
     (filter (\<lambda>b. type_of b = Some ''tool_use'' \<and> Option.bind (jget b ''name'') as_str = Some ''TodoWrite'')
       (unwrap_or (message_content raw) []))"

definition claude_tool_target :: "json \<Rightarrow> string option" where
  "claude_tool_target input = find_map
     (\<lambda>key. trimmed_nonempty (Option.bind (jget input key) as_str))
     [''file_path'', ''path'', ''command'', ''pattern'', ''query'', ''url'', ''notebook_path'',
      ''skill'', ''subject'', ''description'']"

definition assistant_tool_calls :: "json \<Rightarrow> (string \<times> string \<times> string option) list" where
  "assistant_tool_calls raw = List.map_filter
     (\<lambda>b. Option.bind (Option.bind (jget b ''id'') as_str) (\<lambda>i.
        Option.bind (Option.bind (jget b ''name'') as_str) (\<lambda>n.
          Some (i, n, Option.bind (jget b ''input'') claude_tool_target))))
     (filter (\<lambda>b. type_of b = Some ''tool_use'') (unwrap_or (message_content raw) []))"

definition deferred_tool_result :: "json \<Rightarrow> json option" where
  "deferred_tool_result value = Option.bind (jget value ''tool_use_result'')
     (\<lambda>r. if type_of r = Some ''tool_deferred'' then Some r else None)"

definition claude_system_hook_event :: "json \<Rightarrow> bool" where
  "claude_system_hook_event value \<longleftrightarrow>
     (case string_at value [''subtype''] of None \<Rightarrow> False | Some s \<Rightarrow> prefix ''hook_'' s)
     \<or> string_at value [''hook_event''] \<noteq> None \<or> string_at value [''hook_name''] \<noteq> None
     \<or> string_at value [''hook_event_name''] \<noteq> None"

definition flagged :: "string list \<Rightarrow> json \<Rightarrow> bool" where
  "flagged keys value \<longleftrightarrow> list_ex (\<lambda>k. Option.bind (jget value k) as_bool = Some True) keys"

definition claude_skill_injection_name :: "json \<Rightarrow> string option" where
  "claude_skill_injection_name value =
     (if \<not> flagged [''isSynthetic'', ''isMeta''] value \<or> message_has_block_type value ''tool_result''
      then None
      else Option.bind (message_content_text value ''text'' ''text'') (\<lambda>text.
        case str_lines (trim_start text) of [] \<Rightarrow> None
        | l # _ \<Rightarrow> (let first = trim l in
            case strip_prefix ''Base directory for this skill:'' first of
              Some path \<Rightarrow> find (\<lambda>part. part \<noteq> []) (rev (split_on (CHR ''/'') (trim path)))
            | None \<Rightarrow> Option.bind (strip_prefix ''Skill /'' first) first_word)))"

definition claude_message_plain_text :: "json \<Rightarrow> string option" where
  "claude_message_plain_text value =
     or_else (Option.bind (jpath value [''message'', ''content'']) as_str)
       (message_content_text value ''text'' ''text'')"

definition claude_image_companion_note :: "json \<Rightarrow> bool" where
  "claude_image_companion_note value \<longleftrightarrow>
     flagged [''isSynthetic'', ''isMeta'', ''turnCompanion''] value \<and>
     \<not> message_has_block_type value ''tool_result'' \<and>
     (case claude_message_plain_text value of None \<Rightarrow> False
      | Some text \<Rightarrow> prefix ''[Image:'' (trim_start text))"

definition claude_task_is_agent :: "json \<Rightarrow> bool" where
  "claude_task_is_agent value \<longleftrightarrow> string_at value [''task_type''] = Some ''local_agent''"

section \<open>The parser's state\<close>

record ClaudeTaskState =
  ts_description :: "string option"
  ts_backgrounded :: bool
  ts_agent :: bool

definition task_default :: ClaudeTaskState where
  "task_default = \<lparr>ts_description = None, ts_backgrounded = False, ts_agent = False\<rparr>"

record ToolBlockState =
  tb_id :: "string option"
  tb_name :: "string option"

record ClaudeStreamParser =
  cp_current_message_id :: "string option"
  cp_tool_use_by_block :: "nat \<Rightarrow> ToolBlockState option"
  cp_tool_names :: "string \<Rightarrow> string option"
  cp_tool_targets :: "string \<Rightarrow> string option"
  cp_reasoning_blocks :: "nat set"
  cp_tasks :: "string \<Rightarrow> ClaudeTaskState option"
  cp_todo_lists :: "string \<Rightarrow> string option"

definition parser_default :: ClaudeStreamParser where
  "parser_default = \<lparr>cp_current_message_id = None, cp_tool_use_by_block = Map.empty,
     cp_tool_names = Map.empty, cp_tool_targets = Map.empty, cp_reasoning_blocks = {},
     cp_tasks = Map.empty, cp_todo_lists = Map.empty\<rparr>"

definition task_entry :: "ClaudeStreamParser \<Rightarrow> string \<Rightarrow> ClaudeTaskState" where
  "task_entry p i = unwrap_or (cp_tasks p i) task_default"

definition put_task :: "string \<Rightarrow> ClaudeTaskState \<Rightarrow> ClaudeStreamParser \<Rightarrow> ClaudeStreamParser" where
  "put_task i t p = p\<lparr>cp_tasks := (cp_tasks p)(i \<mapsto> t)\<rparr>"

definition is_true :: "json option \<Rightarrow> bool" where
  "is_true v \<longleftrightarrow> Option.bind v as_bool = Some True"

definition observe_tasks :: "json \<Rightarrow> ClaudeStreamParser \<Rightarrow> ClaudeStreamParser" where
  "observe_tasks value p =
     (let subtype = string_at value [''subtype''] in
      if string_at value [''type''] \<noteq> Some ''system'' then p
      else if subtype = Some ''task_started'' then
        (case string_at value [''task_id''] of None \<Rightarrow> p
         | Some i \<Rightarrow> (let t = task_entry p i in put_task i
             \<lparr>ts_description = or_else (string_at value [''description'']) (ts_description t),
              ts_backgrounded = (ts_backgrounded t \<or> is_true (jget value ''is_backgrounded'')),
              ts_agent = (ts_agent t \<or> claude_task_is_agent value)\<rparr> p))
      else if subtype = Some ''task_updated'' then
        (if is_true (jpath value [''patch'', ''is_backgrounded'']) then
           (case string_at value [''task_id''] of None \<Rightarrow> p
            | Some i \<Rightarrow> put_task i ((task_entry p i)\<lparr>ts_backgrounded := True\<rparr>) p)
         else p)
      else if subtype = Some ''background_tasks_changed'' then
        fold (\<lambda>task p. case string_at task [''task_id''] of None \<Rightarrow> p
           | Some i \<Rightarrow> (let t = task_entry p i in put_task i
               \<lparr>ts_description = or_else (ts_description t) (string_at task [''description'']),
                ts_backgrounded = True,
                ts_agent = (ts_agent t \<or> claude_task_is_agent task)\<rparr> p))
          (jarray_at value [''tasks'']) p
      else p)"

definition is_background_task_record :: "ClaudeStreamParser \<Rightarrow> json \<Rightarrow> bool" where
  "is_background_task_record p value \<longleftrightarrow>
     string_at value [''type''] = Some ''system'' \<and>
     string_at value [''subtype''] \<in> {Some ''task_started'', Some ''task_progress'',
        Some ''task_notification'', Some ''task_updated''} \<and>
     (case Option.bind (string_at value [''task_id'']) (cp_tasks p) of
        None \<Rightarrow> False | Some t \<Rightarrow> ts_backgrounded t)"

definition stream_event_kind :: "ClaudeStreamParser \<Rightarrow> json \<Rightarrow> ClaudeProviderEventKind" where
  "stream_event_kind p value =
     (let event = string_at value [''event'', ''type''];
          block = string_at value [''event'', ''content_block'', ''type''];
          delta = string_at value [''event'', ''delta'', ''type''];
          index = number_at value [''event'', ''index'']
      in if event = Some ''message_start'' then MessageStart
         else if event = Some ''message_delta'' then MessageDelta
         else if event = Some ''message_stop'' then MessageStop
         else if event = Some ''content_block_start'' then
           (if block = Some ''tool_use'' then ToolUse
            else if block = Some ''thinking'' then Reasoning else ContentBlockStart)
         else if event = Some ''content_block_delta'' then
           (if delta = Some ''input_json_delta'' then ToolInputDelta
            else if delta = Some ''thinking_delta'' then Reasoning else ContentBlockDelta)
         else if event = Some ''content_block_stop'' then
           (case index of None \<Rightarrow> ContentBlockStop
            | Some i \<Rightarrow> if cp_tool_use_by_block p i \<noteq> None then ToolResult
                      else if i \<in> cp_reasoning_blocks p then Reasoning else ContentBlockStop)
         else if event = Some ''error'' then Error
         else Unknown)"

definition kind_for :: "ClaudeStreamParser \<Rightarrow> json \<Rightarrow> ClaudeProviderEventKind" where
  "kind_for p value =
     (let top = string_at value [''type'']; subtype = string_at value [''subtype''] in
      if claude_system_hook_event value then Hook
      else if is_background_task_record p value then BackgroundTask
      else if top = Some ''system'' \<and> subtype = Some ''init'' then Initialization
      else if top = Some ''system'' \<and> subtype = Some ''api_retry'' then ApiRetry
      else if top = Some ''prompt_suggestion'' \<or> top = Some ''system'' \<and> subtype = Some ''prompt_suggestion''
      then PromptSuggestion
      else if top \<in> {Some ''rate_limit_event'', Some ''rate_limit'', Some ''context_limit''} then RateLimit
      else if top = Some ''user'' \<and> deferred_tool_result value \<noteq> None then DeferredResult
      else if top = Some ''user'' \<and> message_has_block_type value ''tool_result'' then ToolResult
      else if top = Some ''user'' \<and> claude_skill_injection_name value \<noteq> None then SkillInjection
      else if top = Some ''user'' \<and> claude_image_companion_note value then ImageCompanionNote
      else if top = Some ''assistant'' \<and> message_has_block_type value ''thinking''
              \<and> \<not> message_has_block_type value ''text'' then Reasoning
      else if top = Some ''system'' \<and> subtype = Some ''thinking_tokens'' then Reasoning
      else if top = Some ''system'' then Session
      else if top = Some ''user'' then UserMessage
      else if top = Some ''assistant'' then AssistantMessage
      else if top = Some ''result'' then Result
      else if top = Some ''error'' then Error
      else if top \<in> {Some ''hook_event'', Some ''hook''} then Hook
      else if top \<in> {Some ''permission_request'', Some ''permission'', Some ''user_input_request''} then Permission
      else if top = Some ''stream_event'' then stream_event_kind p value
      else if top = Some ''tool_result'' then ToolResult
      else if top \<in> {Some ''subagent'', Some ''task''} then Subagent
      else if top = Some ''usage'' then Usage
      else Unknown)"

section \<open>Identity state\<close>

type_synonym draft_state = "ClaudeProviderEventDraft \<times> ClaudeStreamParser"

definition apply_message_id :: "draft_state \<Rightarrow> draft_state" where
  "apply_message_id = (\<lambda>(d, p).
     if ce_kind d = Initialization
     then (d, p\<lparr>cp_current_message_id := None, cp_tool_use_by_block := Map.empty, cp_reasoning_blocks := {}\<rparr>)
     else if ce_kind d = MessageStart
     then (let i = string_at (ce_raw_json d) [''event'', ''message'', ''id'']
           in (d\<lparr>ce_provider_message_id := i\<rparr>,
               p\<lparr>cp_current_message_id := i, cp_tool_use_by_block := Map.empty, cp_reasoning_blocks := {}\<rparr>))
     else if ce_kind d \<in> {AssistantMessage, UserMessage, ToolResult, DeferredResult}
     then (d\<lparr>ce_provider_message_id := string_at (ce_raw_json d) [''message'', ''id'']\<rparr>, p)
     else if ce_kind d \<in> {MessageDelta, MessageStop, ContentBlockStart, ContentBlockDelta, ContentBlockStop, Reasoning}
     then (d\<lparr>ce_provider_message_id := cp_current_message_id p\<rparr>, p)
     else (d, p))"

definition apply_block_index :: "draft_state \<Rightarrow> draft_state" where
  "apply_block_index = (\<lambda>(d, p). case ce_content_block_index d of None \<Rightarrow> (d, p)
     | Some index \<Rightarrow>
       if ce_kind d = ToolUse
       then (let st = \<lparr>tb_id = string_at (ce_raw_json d) [''event'', ''content_block'', ''id''],
                       tb_name = string_at (ce_raw_json d) [''event'', ''content_block'', ''name'']\<rparr>;
                 names = (case (tb_id st, tb_name st) of
                            (Some i, Some n) \<Rightarrow> (cp_tool_names p)(i \<mapsto> n) | _ \<Rightarrow> cp_tool_names p)
             in (d\<lparr>ce_provider_tool_use_id := tb_id st, ce_tool_name := tb_name st\<rparr>,
                 p\<lparr>cp_tool_names := names,
                   cp_tool_use_by_block := (cp_tool_use_by_block p)(index \<mapsto> st)\<rparr>))
       else if ce_kind d = Reasoning
               \<and> string_at (ce_raw_json d) [''event'', ''type''] = Some ''content_block_start''
       then (d, p\<lparr>cp_reasoning_blocks := insert index (cp_reasoning_blocks p)\<rparr>)
       else (case cp_tool_use_by_block p index of None \<Rightarrow> (d, p)
             | Some st \<Rightarrow> (d\<lparr>ce_provider_tool_use_id := tb_id st, ce_tool_name := tb_name st\<rparr>, p)))"

definition message_tool_use_id :: "json \<Rightarrow> string option" where
  "message_tool_use_id raw = find_map
     (\<lambda>b. if type_of b = Some ''tool_result'' then Option.bind (jget b ''tool_use_id'') as_str else None)
     (unwrap_or (message_content raw) [])"

definition apply_result_identity :: "draft_state \<Rightarrow> draft_state" where
  "apply_result_identity = (\<lambda>(d, p).
     if ce_kind d \<in> {ToolResult, DeferredResult}
     then (let i = or_else (message_tool_use_id (ce_raw_json d)) (ce_provider_tool_use_id d);
               name = Option.bind i (cp_tool_names p)
           in (d\<lparr>ce_provider_tool_use_id := i, ce_tool_name := or_else name (ce_tool_name d)\<rparr>, p))
     else (d, p))"

definition learn_calls :: "json \<Rightarrow> ClaudeStreamParser \<Rightarrow> ClaudeStreamParser" where
  "learn_calls raw p = fold (\<lambda>(i, name, target) p. p\<lparr>cp_tool_names := (cp_tool_names p)(i \<mapsto> name),
         cp_tool_targets := (case target of None \<Rightarrow> cp_tool_targets p
                             | Some t \<Rightarrow> (cp_tool_targets p)(i \<mapsto> t))\<rparr>)
       (assistant_tool_calls raw)
     (fold (\<lambda>(i, todos) p. p\<lparr>cp_todo_lists := (cp_todo_lists p)(i \<mapsto> todos)\<rparr>)
       (assistant_todo_lists raw) p)"

definition apply_target :: "draft_state \<Rightarrow> draft_state" where
  "apply_target = (\<lambda>(d, p). let p' = learn_calls (ce_raw_json d) p
     in (case Option.bind (ce_provider_tool_use_id d) (cp_tool_targets p') of
           None \<Rightarrow> d | Some t \<Rightarrow> d\<lparr>ce_tool_target := Some t\<rparr>, p'))"

definition content_delta_of :: "ClaudeProviderEventDraft \<Rightarrow> ClaudeStreamParser \<Rightarrow> string option" where
  "content_delta_of d p = (let raw = ce_raw_json d in
     if ce_kind d = ToolInputDelta then string_at raw [''event'', ''delta'', ''partial_json'']
     else if ce_kind d = ContentBlockDelta then string_at raw [''event'', ''delta'', ''text'']
     else if ce_kind d = Reasoning
     then or_else (string_at raw [''event'', ''delta'', ''thinking''])
            (message_content_text raw ''thinking'' ''thinking'')
     else if ce_kind d = AssistantMessage \<or> ce_kind d = UserMessage
     then message_content_text raw ''text'' ''text''
     else if ce_kind d = ToolResult \<or> ce_kind d = DeferredResult
     then or_else (if string_at raw [''type''] = Some ''user''
                   then Option.bind (ce_provider_tool_use_id d) (cp_todo_lists p) else None)
            (tool_result_text raw)
     else if ce_kind d = BackgroundTask then claude_task_body raw
     else if ce_kind d = Result then string_at raw [''result'']
     else None)"

definition apply_task :: "draft_state \<Rightarrow> draft_state" where
  "apply_task = (\<lambda>(d, p). if ce_kind d = BackgroundTask
     then (let task = Option.bind (string_at (ce_raw_json d) [''task_id'']) (cp_tasks p)
           in (d\<lparr>ce_tool_target := Option.bind task ts_description,
                 ce_background_agent := (case task of None \<Rightarrow> False | Some t \<Rightarrow> ts_agent t)\<rparr>, p))
     else (d, p))"

definition close_block :: "draft_state \<Rightarrow> draft_state" where
  "close_block = (\<lambda>(d, p).
     if string_at (ce_raw_json d) [''event'', ''type''] = Some ''content_block_stop''
     then (case ce_content_block_index d of None \<Rightarrow> (d, p)
           | Some index \<Rightarrow> (d, p\<lparr>cp_tool_use_by_block := (cp_tool_use_by_block p)(index := None),
                                 cp_reasoning_blocks := cp_reasoning_blocks p - {index}\<rparr>))
     else (d, p))"

definition apply_identity_state :: "ClaudeProviderEventDraft \<Rightarrow> ClaudeStreamParser \<Rightarrow> draft_state" where
  "apply_identity_state d p =
     (let (d1, p1) = apply_target (apply_result_identity (apply_block_index (apply_message_id (d, p))));
          d2 = d1\<lparr>ce_content_delta := content_delta_of d1 p1\<rparr>
      in close_block (apply_task (d2, p1)))"

definition map_value :: "json \<Rightarrow> ClaudeStreamParser \<Rightarrow> draft_state" where
  "map_value raw p0 =
     (let p = observe_tasks raw p0; kind = kind_for p raw;
          d = \<lparr>ce_provider = ''claude'', ce_kind = kind,
            ce_provider_event_id = or_else (string_at raw [''uuid''])
              (or_else (string_at raw [''event'', ''uuid'']) (string_at raw [''event'', ''id''])),
            ce_session_id = string_at raw [''session_id''],
            ce_parent_tool_use_id = string_at raw [''parent_tool_use_id''],
            ce_provider_message_id = None, ce_provider_tool_use_id = None, ce_tool_target = None,
            ce_content_block_index = number_at raw [''event'', ''index''],
            ce_tool_name = None, ce_content_delta = None,
            ce_cost_usd = Option.bind (jget raw ''total_cost_usd'') as_f64,
            ce_duration_ms = number_at raw [''duration_ms''],
            ce_subtype = or_else (string_at raw [''subtype''])
              (or_else (string_at raw [''event'', ''delta'', ''type''])
              (or_else (string_at raw [''event'', ''content_block'', ''type'']) (string_at raw [''type'']))),
            ce_usage = usage_from raw,
            ce_reasoning_blocks = (if kind = AssistantMessage then reasoning_blocks_from raw else []),
            ce_background_agent = False, ce_raw_json = raw\<rparr>;
          (d', p') = apply_identity_state d p
      in (d'\<lparr>ce_provider_event_id :=
              Some (unwrap_or (ce_provider_event_id d') (claude_fallback_event_id raw))\<rparr>, p'))"

definition parse_line :: "(string \<Rightarrow> json option) \<Rightarrow> string \<Rightarrow> ClaudeStreamParser \<Rightarrow>
    (string + ClaudeProviderEventDraft option) \<times> ClaudeStreamParser" where
  "parse_line from_str line p =
     (if trim line = [] then (Inr None, p)
      else case from_str (trim line) of None \<Rightarrow> (Inl ''parse claude stream-json line'', p)
         | Some raw \<Rightarrow> (let (d, p') = map_value raw p in (Inr (Some d), p')))"

definition split_parallel_tool_results :: "(string \<Rightarrow> json option) \<Rightarrow> string \<Rightarrow> string list" where
  "split_parallel_tool_results from_str line =
     (if \<not> contains_str line ''tool_result'' then [line]
      else case from_str (trim line) of None \<Rightarrow> [line]
      | Some value \<Rightarrow> (case message_content value of None \<Rightarrow> [line]
        | Some blocks \<Rightarrow>
          (let results = filter (\<lambda>b. type_of b = Some ''tool_result'') blocks in
           if length results < 2 then [line]
           else map (\<lambda>block.
              (let record1 = jset ''message'' (jset ''content'' (JArr [block]) (jindex value ''message'')) value
               in json_to_string (case (Option.bind (jget value ''uuid'') as_str,
                                        Option.bind (jget block ''tool_use_id'') as_str) of
                    (Some uuid, Some use_id) \<Rightarrow> jset ''uuid'' (JStr (uuid @ '':'' @ use_id)) record1
                  | _ \<Rightarrow> record1))) results)))"

section \<open>Results and lifecycle signals\<close>

definition claude_result_defers_a_tool :: "json \<Rightarrow> bool" where
  "claude_result_defers_a_tool value \<longleftrightarrow>
     (case jget value ''deferred_tool_use'' of None \<Rightarrow> False | Some t \<Rightarrow> t \<noteq> JNull)
     \<or> list_ex (\<lambda>k. string_at value [k] = Some ''tool_deferred'') [''stop_reason'', ''terminal_reason'']"

definition claude_result_status_from_json :: "json \<Rightarrow> ClaudeResultStatus" where
  "claude_result_status_from_json value =
     (let subtype = unwrap_or (Option.bind (jget value ''subtype'') as_str) [] in
      if subtype \<in> {''interrupted'', ''cancelled'', ''canceled''} then Interrupted
      else if subtype \<in> {''declined'', ''denied'', ''rejected''} then Declined
      else if subtype \<in> {''deferred'', ''tool_deferred''} \<or> claude_result_defers_a_tool value then Deferred
      else if is_true (jget value ''is_error'') \<or> subtype \<in> {''error'', ''failed'', ''error_during_execution''}
      then Failed
      else Success)"

definition result_status :: "ClaudeProviderEventDraft \<Rightarrow> ClaudeResultStatus option" where
  "result_status d = (if ce_kind d = DeferredResult then Some Deferred
     else if ce_kind d \<noteq> Result then None
     else Some (claude_result_status_from_json (ce_raw_json d)))"

definition lifecycle_signal :: "ClaudeProviderEventDraft \<Rightarrow> ClaudeLifecycleSignal option" where
  "lifecycle_signal d =
     (if ce_kind d = Initialization
      then map_option (\<lambda>i. Initialized \<lparr>im_session_id = i, im_model = string_at (ce_raw_json d) [''model''],
             im_capabilities = string_array_at (ce_raw_json d) [''capabilities'']\<rparr>) (ce_session_id d)
      else if ce_kind d = UserMessage \<and> is_true (jget (ce_raw_json d) ''isReplay'')
      then map_option UserInputReplayed (message_content_text (ce_raw_json d) ''text'' ''text'')
      else if ce_kind d = Result
      then map_option (\<lambda>st. TurnFinished st (string_at (ce_raw_json d) [''stop_reason''])) (result_status d)
      else if ce_kind d = DeferredResult
      then map_option DeferredTool (jget (ce_raw_json d) ''tool_use_result'')
      else None)"

section \<open>Provider events\<close>

definition claude_subagent_message :: "ClaudeProviderEventKind \<Rightarrow> (string \<times> string) option" where
  "claude_subagent_message kind =
     (if kind = UserMessage then Some (''subagent_prompt'', ''Asked subagent'')
      else if kind = AssistantMessage then Some (''nested_transcript'', ''Subagent'') else None)"

fun claude_kind_to_provider_kind :: "ClaudeProviderEventKind \<Rightarrow> ProviderEventKind" where
  "claude_kind_to_provider_kind Initialization = ThreadSession"
| "claude_kind_to_provider_kind Session = ThreadSession"
| "claude_kind_to_provider_kind UserMessage = UserInput"
| "claude_kind_to_provider_kind AssistantMessage = AssistantOutput"
| "claude_kind_to_provider_kind MessageStart = AssistantOutput"
| "claude_kind_to_provider_kind MessageDelta = AssistantOutput"
| "claude_kind_to_provider_kind MessageStop = AssistantOutput"
| "claude_kind_to_provider_kind ContentBlockStart = AssistantOutput"
| "claude_kind_to_provider_kind ContentBlockDelta = AssistantOutput"
| "claude_kind_to_provider_kind ContentBlockStop = AssistantOutput"
| "claude_kind_to_provider_kind ToolUse = Tool"
| "claude_kind_to_provider_kind ToolInputDelta = Tool"
| "claude_kind_to_provider_kind ToolResult = Tool"
| "claude_kind_to_provider_kind Permission = ApprovalPermission"
| "claude_kind_to_provider_kind Hook = SkillPluginHook"
| "claude_kind_to_provider_kind SkillInjection = SkillPluginHook"
| "claude_kind_to_provider_kind ImageCompanionNote = WebBrowserMedia"
| "claude_kind_to_provider_kind Subagent = SubagentCollaboration"
| "claude_kind_to_provider_kind BackgroundTask = GoalTask"
| "claude_kind_to_provider_kind Usage = LimitFailure"
| "claude_kind_to_provider_kind ApiRetry = LimitFailure"
| "claude_kind_to_provider_kind RateLimit = LimitFailure"
| "claude_kind_to_provider_kind Error = LimitFailure"
| "claude_kind_to_provider_kind PromptSuggestion = GoalTask"
| "claude_kind_to_provider_kind Reasoning = PlanningReasoning"
| "claude_kind_to_provider_kind DeferredResult = Tool"
| "claude_kind_to_provider_kind Result = Turn"
| "claude_kind_to_provider_kind Unknown = ProviderEventKind.Unknown"

text \<open>The lower-cased \<open>Debug\<close> name of a kind.\<close>

fun kind_debug :: "ClaudeProviderEventKind \<Rightarrow> string" where
  "kind_debug Initialization = ''initialization''"
| "kind_debug Session = ''session''"
| "kind_debug UserMessage = ''usermessage''"
| "kind_debug AssistantMessage = ''assistantmessage''"
| "kind_debug MessageStart = ''messagestart''"
| "kind_debug MessageDelta = ''messagedelta''"
| "kind_debug MessageStop = ''messagestop''"
| "kind_debug ContentBlockStart = ''contentblockstart''"
| "kind_debug ContentBlockDelta = ''contentblockdelta''"
| "kind_debug ContentBlockStop = ''contentblockstop''"
| "kind_debug ToolUse = ''tooluse''"
| "kind_debug ToolInputDelta = ''toolinputdelta''"
| "kind_debug ToolResult = ''toolresult''"
| "kind_debug Permission = ''permission''"
| "kind_debug Hook = ''hook''"
| "kind_debug SkillInjection = ''skillinjection''"
| "kind_debug ImageCompanionNote = ''imagecompanionnote''"
| "kind_debug Subagent = ''subagent''"
| "kind_debug BackgroundTask = ''backgroundtask''"
| "kind_debug Usage = ''usage''"
| "kind_debug ApiRetry = ''apiretry''"
| "kind_debug RateLimit = ''ratelimit''"
| "kind_debug PromptSuggestion = ''promptsuggestion''"
| "kind_debug Reasoning = ''reasoning''"
| "kind_debug DeferredResult = ''deferredresult''"
| "kind_debug Result = ''result''"
| "kind_debug Error = ''error''"
| "kind_debug Unknown = ''unknown''"

definition claude_local_tool_action :: "string option \<Rightarrow> (ProviderEventKind \<times> string) option" where
  "claude_local_tool_action tool_name = Option.bind tool_name (\<lambda>n.
     let norm = to_ascii_lowercase (trim n) in
     if norm \<in> {''bash'', ''shell'', ''exec'', ''exec_command''} then Some (CommandProcess, ''command'')
     else if norm \<in> {''read'', ''ls'', ''glob'', ''grep''} then Some (FileSystem, ''read'')
     else if norm \<in> {''edit'', ''multiedit'', ''notebookedit'', ''apply_patch'', ''patch''}
     then Some (FileSystem, ''edit'')
     else if norm \<in> {''write'', ''create''} then Some (FileSystem, ''write'')
     else None)"

definition claude_canonical_kind_and_subtype ::
    "ClaudeProviderEventKind \<Rightarrow> string option \<Rightarrow> string option \<Rightarrow> bool \<Rightarrow> ProviderEventKind \<times> string option" where
  "claude_canonical_kind_and_subtype kind tool_name subtype background_agent =
     (let default = (claude_kind_to_provider_kind kind, Some (unwrap_or subtype (kind_debug kind))) in
      if kind = SkillInjection then (SkillPluginHook, Some ''skill'')
      else if kind = ImageCompanionNote then (WebBrowserMedia, Some ''image_note'')
      else if kind = BackgroundTask
      then (GoalTask, Some (if background_agent then ''background_task:agent'' else ''background_task''))
      else if kind \<in> {ToolUse, ToolInputDelta, ToolResult, DeferredResult}
      then (case claude_local_tool_action tool_name of
              Some (pk, ps) \<Rightarrow> (pk, Some ps) | None \<Rightarrow> default)
      else default)"

fun result_phase :: "ClaudeResultStatus \<Rightarrow> ProviderEventPhase" where
  "result_phase Success = Completed"
| "result_phase Failed = ProviderEventPhase.Failed"
| "result_phase Interrupted = ProviderEventPhase.Interrupted"
| "result_phase Declined = ProviderEventPhase.Declined"
| "result_phase Deferred = ProviderEventPhase.Declined"

definition claude_phase_for :: "ClaudeProviderEventKind \<Rightarrow> json \<Rightarrow> ProviderEventPhase" where
  "claude_phase_for kind raw =
     (let event = string_at raw [''event'', ''type''] in
      if kind \<in> {MessageStart, ContentBlockStart, ToolUse, Initialization, Session, UserMessage} then Started
      else if kind \<in> {MessageDelta, ContentBlockDelta, ToolInputDelta} then Delta
      else if kind = Reasoning then
        (if event = Some ''content_block_delta'' then Delta
         else if event = Some ''content_block_stop'' then Completed
         else if string_at raw [''type''] = Some ''assistant'' then Completed
         else if string_at raw [''subtype''] = Some ''thinking_tokens'' then Completed
         else Started)
      else if kind \<in> {Permission, Hook, Subagent, Usage, ApiRetry, PromptSuggestion} then Progress
      else if kind = RateLimit then
        (case string_at raw [''rate_limit_info'', ''status''] of None \<Rightarrow> ProviderEventPhase.Failed
         | Some st \<Rightarrow> if contains_str st ''allowed'' then Progress else ProviderEventPhase.Failed)
      else if kind = ToolResult then
        (if event = Some ''content_block_stop'' then Progress
         else if tool_result_is_error raw then ProviderEventPhase.Failed else Completed)
      else if kind \<in> {MessageStop, ContentBlockStop, SkillInjection, ImageCompanionNote, AssistantMessage}
      then Completed
      else if kind = DeferredResult then ProviderEventPhase.Declined
      else if kind = Result then result_phase (claude_result_status_from_json raw)
      else if kind = BackgroundTask then claude_task_phase raw
      else if kind = Error then ProviderEventPhase.Failed
      else ProviderEventPhase.Unknown)"

definition first_line :: "string \<Rightarrow> string" where
  "first_line value = trim (case str_lines value of [] \<Rightarrow> value | l # _ \<Rightarrow> l)"

definition claude_title_for :: "ClaudeProviderEventKind \<Rightarrow> string option \<Rightarrow> string option \<Rightarrow> string" where
  "claude_title_for kind tool_name tool_target =
     (if kind \<in> {ToolUse, ToolInputDelta, ToolResult} then
        (let name = unwrap_or tool_name ''Tool'' in
         case tool_target of None \<Rightarrow> name
         | Some target \<Rightarrow> if target = [] then name else name @ '' '' @ first_line target)
      else if kind = UserMessage then ''User input''
      else if kind \<in> {AssistantMessage, MessageStart, MessageDelta, MessageStop, ContentBlockStart,
                       ContentBlockDelta, ContentBlockStop} then ''Assistant output''
      else if kind = Permission then ''Permission request''
      else if kind = Hook then ''Hook''
      else if kind = SkillInjection then ''Skill''
      else if kind = ImageCompanionNote then ''Image''
      else if kind = Subagent then ''Subagent''
      else if kind = BackgroundTask then
        (case tool_target of None \<Rightarrow> ''Background task''
         | Some target \<Rightarrow> if trim target = [] then ''Background task'' else first_line target)
      else if kind = Usage then ''Usage''
      else if kind = ApiRetry then ''API retry''
      else if kind = RateLimit then ''Rate limit''
      else if kind = PromptSuggestion then ''Prompt suggestion''
      else if kind = Reasoning then ''Reasoning''
      else if kind = DeferredResult then ''Deferred tool''
      else if kind = Result then ''Turn result''
      else if kind = Initialization then ''Session initialized''
      else if kind = Session then ''Session''
      else if kind = Error then ''Provider error''
      else ''Unknown provider event'')"

definition claude_event_title :: "ClaudeProviderEventKind \<Rightarrow> string option \<Rightarrow> string option \<Rightarrow> json \<Rightarrow> string" where
  "claude_event_title kind tool_name tool_target raw =
     (let default = claude_title_for kind tool_name tool_target in
      if kind = Hook then unwrap_or (find_map (string_at raw)
        [[''hook_event_name''], [''hook_name''], [''hook_event''], [''hook'', ''name''],
         [''event'', ''hook_event_name'']]) default
      else if kind = SkillInjection
      then unwrap_or (map_option (\<lambda>n. ''Skill: '' @ n) (claude_skill_injection_name raw)) default
      else default)"

definition nonblank :: "string option \<Rightarrow> string list" where
  "nonblank v = (case v of None \<Rightarrow> [] | Some s \<Rightarrow> if trim s = [] then [] else [s])"

definition claude_hook_body :: "json \<Rightarrow> string option" where
  "claude_hook_body raw =
     (let parts = nonblank (string_at raw [''tool_name'']) @
            nonblank (find_map (string_at raw) [[''message''], [''event'', ''message''], [''output''], [''result'']]) @
            nonblank (map_option (json_pretty 0) (find_map (jpath raw)
              [[''tool_input''], [''event'', ''tool_input''], [''hook'', ''tool_input'']]))
      in if parts = [] then None else Some (join [CHR 0x0A] parts))"

definition claude_thinking_token_count :: "json \<Rightarrow> nat option" where
  "claude_thinking_token_count raw = (if string_at raw [''subtype''] = Some ''thinking_tokens''
     then number_at raw [''estimated_tokens''] else None)"

definition usage_json :: "ClaudeUsageDraft \<Rightarrow> json" where
  "usage_json u = obj (List.map_filter (\<lambda>(k, v). map_option (\<lambda>n. (k, JInt (int n))) v)
     [(''input_tokens'', ud_input_tokens u), (''output_tokens'', ud_output_tokens u),
      (''thinking_tokens'', ud_thinking_tokens u),
      (''cache_creation_input_tokens'', ud_cache_creation_input_tokens u),
      (''cache_read_input_tokens'', ud_cache_read_input_tokens u)])"

definition claude_item_id :: "ClaudeProviderEventDraft \<Rightarrow> string option" where
  "claude_item_id d = (let kind = ce_kind d in
     if kind \<in> {ToolUse, ToolInputDelta, ToolResult, DeferredResult} then ce_provider_tool_use_id d
     else if kind = Reasoning
     then map_option (\<lambda>m. m @ '':reasoning:'' @ show_nat (unwrap_or (ce_content_block_index d) 0))
            (ce_provider_message_id d)
     else if kind \<in> {AssistantMessage, MessageStart, MessageDelta, MessageStop, ContentBlockStart,
                     ContentBlockDelta, ContentBlockStop, UserMessage} then ce_provider_message_id d
     else if kind = BackgroundTask
     then map_option (\<lambda>t. ''task:'' @ t) (string_at (ce_raw_json d) [''task_id''])
     else None)"

definition claude_body :: "ClaudeProviderEventDraft \<Rightarrow> string" where
  "claude_body d = (if ce_kind d = ImageCompanionNote then []
     else if ce_kind d = Hook then unwrap_or (claude_hook_body (ce_raw_json d)) []
     else case claude_thinking_token_count (ce_raw_json d) of
       Some n \<Rightarrow> ''Thought for ~'' @ show_nat n @ '' tokens''
     | None \<Rightarrow> unwrap_or (or_else (ce_content_delta d) (string_at (ce_raw_json d) [''result''])) [])"

definition into_provider_event_draft :: "ProviderEventContext \<Rightarrow> ClaudeProviderEventDraft \<Rightarrow> ProviderEventDraft" where
  "into_provider_event_draft ctx d =
     (let sub = (if ce_parent_tool_use_id d = None then None else claude_subagent_message (ce_kind d));
          (kind, subtype) = (case sub of Some (st, _) \<Rightarrow> (SubagentCollaboration, Some st)
             | None \<Rightarrow> claude_canonical_kind_and_subtype (ce_kind d) (ce_tool_name d) (ce_subtype d)
                         (ce_background_agent d));
          phase = claude_phase_for (ce_kind d) (ce_raw_json d);
          title = (case sub of Some (_, t) \<Rightarrow> t
             | None \<Rightarrow> claude_event_title (ce_kind d) (ce_tool_name d) (ce_tool_target d) (ce_raw_json d))
      in \<lparr>dr_provider = ce_provider d, dr_provider_event_id = ce_provider_event_id d,
          dr_provider_item_id = claude_item_id d, dr_provider_thread_id = ce_session_id d,
          dr_provider_turn_id = None, dr_parent_provider_item_id = ce_parent_tool_use_id d,
          dr_parent_provider_thread_id = None, dr_workspace_id = pc_workspace_id ctx,
          dr_chat_thread_id = pc_chat_thread_id ctx, dr_process_id = pc_process_id ctx,
          dr_phase = phase, dr_kind = kind, dr_provider_subtype = subtype,
          dr_provider_sequence = Option.bind (ce_content_block_index d)
            (\<lambda>n. if n < 2 ^ 63 then Some (int n) else None),
          dr_occurred_at_ms = pc_occurred_at_ms ctx,
          dr_normalized_payload = obj [(''title'', JStr title), (''body'', JStr (claude_body d)),
            (''stream_delta'', jopt_str (if phase = Delta then ce_content_delta d else None)),
            (''tool_name'', jopt_str (ce_tool_name d)),
            (''cost_usd'', unwrap_or (ce_cost_usd d) JNull),
            (''duration_ms'', jopt_nat (ce_duration_ms d)), (''usage'', usage_json (ce_usage d))],
          dr_raw_json = ce_raw_json d, dr_schema_version = pc_schema_version ctx,
          dr_adapter_version = pc_adapter_version ctx\<rparr>)"

definition into_provider_event_drafts :: "ProviderEventContext \<Rightarrow> ClaudeProviderEventDraft \<Rightarrow> ProviderEventDraft list" where
  "into_provider_event_drafts ctx d =
     into_provider_event_draft ctx (d\<lparr>ce_reasoning_blocks := []\<rparr>) #
     map (\<lambda>b. into_provider_event_draft ctx
       \<lparr>ce_provider = ce_provider d, ce_kind = Reasoning,
        ce_provider_event_id = map_option
          (\<lambda>i. i @ '':reasoning:'' @ show_nat (rb_content_block_index b)) (ce_provider_event_id d),
        ce_session_id = ce_session_id d, ce_parent_tool_use_id = ce_parent_tool_use_id d,
        ce_provider_message_id = ce_provider_message_id d, ce_provider_tool_use_id = None,
        ce_tool_target = None, ce_content_block_index = Some (rb_content_block_index b),
        ce_tool_name = None, ce_content_delta = Some (rb_thinking b), ce_cost_usd = ce_cost_usd d,
        ce_duration_ms = ce_duration_ms d, ce_subtype = Some ''thinking'', ce_usage = usage_default,
        ce_reasoning_blocks = [], ce_background_agent = False, ce_raw_json = ce_raw_json d\<rparr>)
     (ce_reasoning_blocks d)"

section \<open>Tool names\<close>

text \<open>A record names a tool call when it holds it inline or is the streamed start of its block.\<close>

definition names_call :: "json \<Rightarrow> string \<Rightarrow> bool" where
  "names_call raw i \<longleftrightarrow> i \<in> fst ` set (assistant_tool_calls raw)
     \<or> string_at raw [''event'', ''content_block'', ''id''] = Some i"

lemma put_task_names [simp]: "cp_tool_names (put_task i t p) = cp_tool_names p"
  by (simp add: put_task_def)

lemma fold_keeps_names:
  "(\<And>x p. cp_tool_names (f x p) = cp_tool_names p) \<Longrightarrow> cp_tool_names (fold f xs p) = cp_tool_names p"
  by (induction xs arbitrary: p) simp_all

lemma observe_tasks_names: "cp_tool_names (observe_tasks raw p) = cp_tool_names p"
  unfolding observe_tasks_def
  by (auto simp: Let_def split: option.split intro!: fold_keeps_names)

lemma message_id_step: "apply_message_id (d, p) = (d', p') \<Longrightarrow>
    ce_kind d' = ce_kind d \<and> ce_raw_json d' = ce_raw_json d \<and> cp_tool_names p' = cp_tool_names p"
  by (auto simp: apply_message_id_def Let_def split: if_splits)

lemma block_index_step: "apply_block_index (d, p) = (d', p') \<Longrightarrow>
    ce_kind d' = ce_kind d \<and> ce_raw_json d' = ce_raw_json d \<and>
    (string_at (ce_raw_json d) [''event'', ''content_block'', ''id''] \<noteq> Some i \<longrightarrow>
       cp_tool_names p' i = cp_tool_names p i)"
  by (auto simp: apply_block_index_def Let_def split: if_splits option.splits)

lemma result_identity_step: "apply_result_identity (d, p) = (d', p') \<Longrightarrow>
    p' = p \<and> ce_kind d' = ce_kind d \<and> ce_raw_json d' = ce_raw_json d \<and>
    (ce_kind d = ToolResult \<and> message_tool_use_id (ce_raw_json d) = Some i \<longrightarrow>
       ce_provider_tool_use_id d' = Some i \<and> (\<forall>n. cp_tool_names p i = Some n \<longrightarrow> ce_tool_name d' = Some n))"
  by (auto simp: apply_result_identity_def Let_def split: if_splits)

lemma learn_todos_names:
  "cp_tool_names (fold (\<lambda>(i, todos) p. p\<lparr>cp_todo_lists := (cp_todo_lists p)(i \<mapsto> todos)\<rparr>) xs p) = cp_tool_names p"
  by (induction xs arbitrary: p) auto

lemma learn_calls_fold:
  "cp_tool_names (fold (\<lambda>(i, name, target) p. p\<lparr>cp_tool_names := (cp_tool_names p)(i \<mapsto> name),
      cp_tool_targets := (case target of None \<Rightarrow> cp_tool_targets p | Some t \<Rightarrow> (cp_tool_targets p)(i \<mapsto> t))\<rparr>) xs p) i
     = (case map_of (rev (map (\<lambda>(i, n, t). (i, n)) xs)) i of Some n \<Rightarrow> Some n | None \<Rightarrow> cp_tool_names p i)"
  by (induction xs arbitrary: p) (auto simp: map_add_def split: option.split)

lemma learn_calls_names: "cp_tool_names (learn_calls raw p) i =
    (case map_of (rev (map (\<lambda>(i, n, t). (i, n)) (assistant_tool_calls raw))) i of
       Some n \<Rightarrow> Some n | None \<Rightarrow> cp_tool_names p i)"
  by (simp add: learn_calls_def learn_calls_fold learn_todos_names split: option.split)

lemma target_step: "apply_target (d, p) = (d', p') \<Longrightarrow> p' = learn_calls (ce_raw_json d) p \<and>
    ce_tool_name d' = ce_tool_name d \<and> ce_provider_tool_use_id d' = ce_provider_tool_use_id d \<and>
    ce_raw_json d' = ce_raw_json d \<and> ce_kind d' = ce_kind d"
  by (auto simp: apply_target_def Let_def split: option.splits)

lemma task_step: "apply_task (d, p) = (d', p') \<Longrightarrow> p' = p \<and> ce_tool_name d' = ce_tool_name d \<and>
    ce_provider_tool_use_id d' = ce_provider_tool_use_id d \<and> ce_kind d' = ce_kind d"
  by (auto simp: apply_task_def Let_def split: if_splits)

lemma close_step: "close_block (d, p) = (d', p') \<Longrightarrow> d' = d \<and> cp_tool_names p' = cp_tool_names p"
  by (auto simp: close_block_def split: if_splits option.splits)

lemma identity_step:
  assumes "apply_identity_state d p = (d', p')"
  shows "string_at (ce_raw_json d) [''event'', ''content_block'', ''id''] \<noteq> Some i \<longrightarrow>
      cp_tool_names p' i = cp_tool_names (learn_calls (ce_raw_json d) p) i"
    and "i \<in> fst ` set (assistant_tool_calls (ce_raw_json d)) \<longrightarrow>
      cp_tool_names p' i = map_of (rev (map (\<lambda>(i, n, t). (i, n)) (assistant_tool_calls (ce_raw_json d)))) i"
    and "ce_kind d = ToolResult \<and> message_tool_use_id (ce_raw_json d) = Some i
      \<and> string_at (ce_raw_json d) [''event'', ''content_block'', ''id''] \<noteq> Some i
      \<and> cp_tool_names p i = Some n \<longrightarrow>
      ce_provider_tool_use_id d' = Some i \<and> ce_tool_name d' = Some n"
    and "ce_kind d' = ce_kind d"
proof -
  obtain d1 p1 where 1: "apply_message_id (d, p) = (d1, p1)" by (metis surj_pair)
  obtain d2 p2 where 2: "apply_block_index (d1, p1) = (d2, p2)" by (metis surj_pair)
  obtain d3 p3 where 3: "apply_result_identity (d2, p2) = (d3, p3)" by (metis surj_pair)
  obtain d4 p4 where 4: "apply_target (d3, p3) = (d4, p4)" by (metis surj_pair)
  obtain d5 p5 where 5: "apply_task (d4\<lparr>ce_content_delta := content_delta_of d4 p4\<rparr>, p4) = (d5, p5)"
    by (metis surj_pair)
  have out: "close_block (d5, p5) = (d', p')"
    using assms by (simp add: apply_identity_state_def 1 2 3 4 5)
  note steps = message_id_step [OF 1] block_index_step [OF 2, of i] result_identity_step [OF 3, of i]
    target_step [OF 4] task_step [OF 5] close_step [OF out]
  have names: "cp_tool_names p' i = cp_tool_names (learn_calls (ce_raw_json d) p2) i"
    using steps by simp
  show "string_at (ce_raw_json d) [''event'', ''content_block'', ''id''] \<noteq> Some i \<longrightarrow>
      cp_tool_names p' i = cp_tool_names (learn_calls (ce_raw_json d) p) i"
    using steps names by (simp add: learn_calls_names split: option.split)
  show "i \<in> fst ` set (assistant_tool_calls (ce_raw_json d)) \<longrightarrow>
      cp_tool_names p' i = map_of (rev (map (\<lambda>(i, n, t). (i, n)) (assistant_tool_calls (ce_raw_json d)))) i"
  proof
    assume "i \<in> fst ` set (assistant_tool_calls (ce_raw_json d))"
    then have "i \<in> fst ` set (rev (map (\<lambda>(i, n, t). (i, n)) (assistant_tool_calls (ce_raw_json d))))"
      by force
    then have "map_of (rev (map (\<lambda>(i, n, t). (i, n)) (assistant_tool_calls (ce_raw_json d)))) i \<noteq> None"
      by (simp add: map_of_eq_None_iff)
    then show "cp_tool_names p' i = map_of (rev (map (\<lambda>(i, n, t). (i, n)) (assistant_tool_calls (ce_raw_json d)))) i"
      by (auto simp: names learn_calls_names)
  qed
  show "ce_kind d = ToolResult \<and> message_tool_use_id (ce_raw_json d) = Some i
      \<and> string_at (ce_raw_json d) [''event'', ''content_block'', ''id''] \<noteq> Some i
      \<and> cp_tool_names p i = Some n \<longrightarrow>
      ce_provider_tool_use_id d' = Some i \<and> ce_tool_name d' = Some n"
    using steps by auto
  show "ce_kind d' = ce_kind d" using steps by auto
qed

lemma map_value_keeps_name:
  assumes "\<not> names_call raw i"
  shows "cp_tool_names (snd (map_value raw p)) i = cp_tool_names p i"
proof -
  have "i \<notin> fst ` set (rev (map (\<lambda>(i, n, t). (i, n)) (assistant_tool_calls raw)))"
    using assms by (force simp: names_call_def)
  then have "map_of (rev (map (\<lambda>(i, n, t). (i, n)) (assistant_tool_calls raw))) i = None"
    by (simp add: map_of_eq_None_iff)
  then show ?thesis
    using assms by (auto simp: map_value_def Let_def names_call_def learn_calls_names observe_tasks_names
      split: prod.splits dest!: identity_step(1) [where i = i])
qed

lemma map_value_learns_name:
  assumes "assistant_tool_calls raw = [(i, n, t)]"
  shows "cp_tool_names (snd (map_value raw p)) i = Some n"
  using assms by (auto simp: map_value_def Let_def split: prod.splits dest!: identity_step(2) [where i = i])

lemma fold_keeps_name:
  "\<forall>v\<in>set vs. \<not> names_call v i \<Longrightarrow>
     cp_tool_names (fold (\<lambda>v p. snd (map_value v p)) vs p) i = cp_tool_names p i"
  by (induction vs arbitrary: p) (simp_all add: map_value_keeps_name)

lemma map_value_step:
  "\<exists>d. ce_kind d = kind_for (observe_tasks raw p) raw \<and> ce_raw_json d = raw \<and>
     map_value raw p = (let (d', p') = apply_identity_state d (observe_tasks raw p)
       in (d'\<lparr>ce_provider_event_id := Some (unwrap_or (ce_provider_event_id d') (claude_fallback_event_id raw))\<rparr>, p'))"
  apply (rule exI, intro conjI)
    prefer 3
    apply (unfold map_value_def Let_def)
    apply (rule refl)
   apply simp_all
  done

section \<open>Properties\<close>

text \<open>
  A tool result is shown under the name of the call it answers: after an assistant message called
  tool n under an id, whatever records follow (streamed blocks of other messages reusing the same
  block index included) as long as none calls that id again, the user record that answers the id
  carries that id and the name n.
\<close>

lemma tool_result_carries_call_name:
  assumes "assistant_tool_calls call = [(i, n, target)]"
    and "\<forall>v\<in>set vs. \<not> names_call v i"
    and "string_at raw [''type''] = Some ''user''" and "message_has_block_type raw ''tool_result''"
    and "message_tool_use_id raw = Some i" and "\<not> names_call raw i"
    and "\<not> claude_system_hook_event raw" and "deferred_tool_result raw = None"
    and "p = fold (\<lambda>v p. snd (map_value v p)) (call # vs) p0"
  shows "ce_kind (fst (map_value raw p)) = ToolResult
    \<and> ce_provider_tool_use_id (fst (map_value raw p)) = Some i
    \<and> ce_tool_name (fst (map_value raw p)) = Some n"
proof -
  have p: "cp_tool_names p i = Some n"
    using map_value_learns_name [OF assms(1), of p0] fold_keeps_name [OF assms(2)]
    by (simp add: assms(9))
  define q where "q = observe_tasks raw p"
  have "\<not> is_background_task_record q raw" using assms(3) by (simp add: is_background_task_record_def)
  then have kind: "kind_for q raw = ToolResult"
    using assms(3,4,7,8) by (simp add: kind_for_def)
  have q: "cp_tool_names q i = Some n" by (simp add: q_def observe_tasks_names p)
  show ?thesis
  proof -
    obtain d where d: "ce_kind d = ToolResult" "ce_raw_json d = raw"
      "map_value raw p = (let (d', p') = apply_identity_state d q
        in (d'\<lparr>ce_provider_event_id := Some (unwrap_or (ce_provider_event_id d') (claude_fallback_event_id raw))\<rparr>, p'))"
      using map_value_step [of raw p] unfolding q_def [symmetric] kind by blast
    obtain d' p' where a: "apply_identity_state d q = (d', p')" by (metis surj_pair)
    show ?thesis
      using identity_step(3) [OF a, where i = i and n = n] identity_step(4) [OF a] q assms(5,6) d a
      by (simp add: names_call_def)
  qed
qed

definition demo_call :: json where
  "demo_call = JObj [(''message'', JObj [(''content'', JArr [JObj [(''id'', JStr ''t1''), (''name'', JStr ''Bash''),
     (''type'', JStr ''tool_use'')]])]), (''type'', JStr ''assistant'')]"

definition demo_tool_result :: json where
  "demo_tool_result = JObj [(''message'', JObj [(''content'', JArr [JObj [(''tool_use_id'', JStr ''t1''),
     (''type'', JStr ''tool_result'')]])]), (''type'', JStr ''user'')]"

end
