(* ===== verification/Claude_Adapter.thy ===== *)
theory Claude_Adapter
  imports Claude_Parser
begin

text \<open>
  The Claude adapter (\<open>crates/core/src/provider_adapters/claude_stream.rs\<close>): the tracker that ties
  the inputs written to Claude's stdin to the turns and results it streams back, the permission
  channel, and the handlers of \<open>ManagedHarnessAdapter\<close>. Claude takes an input in at a tool boundary
  into the turn already running, so one result can answer several inputs; the lemmas show that no
  input is completed twice, and that an input merged into a turn is acknowledged and never waits for
  a turn of its own.

  Parameters: \<open>from_str\<close> is \<open>serde_json::from_str\<close> and \<open>now\<close> the wall clock. A record's payload is
  taken to be valid UTF-8 (the source refuses it otherwise).
\<close>

section \<open>The turn tracker\<close>

record TrackedClaudeInput =
  ti_local_input_id :: string
  ti_content :: string
  ti_visible_content :: "string option"
  ti_turn_id :: nat
  ti_acknowledged :: bool
  ti_started :: bool

record ClaudeTurnTracker =
  tr_initialized :: bool
  tr_transport_started :: bool
  tr_next_local_turn :: nat
  tr_written_inputs :: "TrackedClaudeInput list"
  tr_active_turn :: "TrackedClaudeInput option"
  tr_completed_result_ids :: "(nat \<times> string) set"

definition tracker_default :: ClaudeTurnTracker where
  "tracker_default = \<lparr>tr_initialized = False, tr_transport_started = False, tr_next_local_turn = 0,
     tr_written_inputs = [], tr_active_turn = None, tr_completed_result_ids = {}\<rparr>"

definition tracker_ready :: "ClaudeTurnTracker \<Rightarrow> bool" where
  "tracker_ready t \<longleftrightarrow> (tr_initialized t \<or> tr_transport_started t) \<and> tr_written_inputs t = []
     \<and> tr_active_turn t = None"

definition note_initialized :: "ClaudeTurnTracker \<Rightarrow> ClaudeTurnTracker" where
  "note_initialized t = t\<lparr>tr_initialized := True\<rparr>"

definition note_transport_started :: "ClaudeTurnTracker \<Rightarrow> ClaudeTurnTracker" where
  "note_transport_started t = t\<lparr>tr_transport_started := True\<rparr>"

definition note_input_written :: "string \<Rightarrow> string \<Rightarrow> string option \<Rightarrow> ClaudeTurnTracker \<Rightarrow> ClaudeTurnTracker" where
  "note_input_written local_input_id content visible t =
     (let turn = saturating_add (tr_next_local_turn t) 1 in
      t\<lparr>tr_next_local_turn := turn,
        tr_written_inputs := tr_written_inputs t @
          [\<lparr>ti_local_input_id = local_input_id, ti_content = content, ti_visible_content = visible,
            ti_turn_id = turn, ti_acknowledged = False, ti_started = False\<rparr>]\<rparr>)"

definition settle_failed_input_write :: "string \<Rightarrow> ClaudeTurnTracker \<Rightarrow> ClaudeTurnTracker" where
  "settle_failed_input_write local_input_id t =
     t\<lparr>tr_written_inputs := filter (\<lambda>i. ti_local_input_id i \<noteq> local_input_id) (tr_written_inputs t),
       tr_active_turn := (case tr_active_turn t of None \<Rightarrow> None
         | Some a \<Rightarrow> if ti_local_input_id a = local_input_id then None else Some a)\<rparr>"

text \<open>\<open>self.active_turn = self.written_inputs.pop_front()\<close>\<close>

definition pop_into_active :: "ClaudeTurnTracker \<Rightarrow> ClaudeTurnTracker" where
  "pop_into_active t = (case tr_written_inputs t of
      [] \<Rightarrow> t\<lparr>tr_active_turn := None\<rparr>
    | i # is \<Rightarrow> t\<lparr>tr_active_turn := Some i, tr_written_inputs := is\<rparr>)"

text \<open>The echo of an active turn's input: acknowledge and start it, each once.\<close>

definition echo_active :: "string \<Rightarrow> TrackedClaudeInput \<Rightarrow> HarnessEffect list \<times> TrackedClaudeInput" where
  "echo_active text a =
     (let ack = (ti_content a = text \<and> \<not> ti_acknowledged a);
          a1 = (if ack then a\<lparr>ti_acknowledged := True\<rparr> else a);
          start = (ti_content a1 = text \<and> \<not> ti_started a1);
          a2 = (if start then a1\<lparr>ti_started := True\<rparr> else a1)
      in ((if ack then [InputAcknowledged (ti_local_input_id a)] else []) @
          (if start then [TurnStarted (ti_local_input_id a)] else []), a2))"

definition front_is :: "string \<Rightarrow> ClaudeTurnTracker \<Rightarrow> bool" where
  "front_is text t = (case tr_written_inputs t of [] \<Rightarrow> False | front # _ \<Rightarrow> ti_content front = text)"

text \<open>An echo while a turn is open: the next written input joins the turn, or the turn's own input is
  acknowledged.\<close>

definition replay_into_turn :: "string \<Rightarrow> TrackedClaudeInput \<Rightarrow> ClaudeTurnTracker \<Rightarrow>
    HarnessEffect list \<times> ClaudeTurnTracker" where
  "replay_into_turn text active t =
     (let echoes_active = (ti_content active = text \<and> \<not> ti_acknowledged active) in
      if \<not> echoes_active \<and> front_is text t
      then ([InputAcknowledged (ti_local_input_id (hd (tr_written_inputs t)))],
            t\<lparr>tr_written_inputs := tl (tr_written_inputs t)\<rparr>)
      else (let (es, a) = echo_active text active in (es, t\<lparr>tr_active_turn := Some a\<rparr>)))"

definition note_replayed_user :: "string \<Rightarrow> ClaudeTurnTracker \<Rightarrow> HarnessEffect list \<times> ClaudeTurnTracker" where
  "note_replayed_user text t0 =
     (let opens = (tr_active_turn t0 = None \<and> (tr_initialized t0 \<or> tr_transport_started t0))
      in if opens \<and> \<not> front_is text t0 then ([], t0)
         else (let t = (if opens then pop_into_active t0 else t0) in
           case tr_active_turn t of None \<Rightarrow> ([], t)
           | Some active \<Rightarrow> replay_into_turn text active t))"

definition visible_content_for_replayed_user :: "string \<Rightarrow> ClaudeTurnTracker \<Rightarrow> string option" where
  "visible_content_for_replayed_user text t =
     (let of_input = (\<lambda>i. if ti_content i = text then ti_visible_content i else None)
      in or_else (Option.bind (tr_active_turn t) of_input)
           (case tr_written_inputs t of [] \<Rightarrow> None | front # _ \<Rightarrow> of_input front))"

definition start_active :: "ClaudeTurnTracker \<Rightarrow> HarnessEffect list \<times> ClaudeTurnTracker" where
  "start_active t = (case tr_active_turn t of None \<Rightarrow> ([], t)
     | Some a \<Rightarrow> if ti_started a then ([], t)
               else ([TurnStarted (ti_local_input_id a)], t\<lparr>tr_active_turn := Some (a\<lparr>ti_started := True\<rparr>)\<rparr>))"

definition note_provider_turn_started :: "ClaudeTurnTracker \<Rightarrow> HarnessEffect list \<times> ClaudeTurnTracker" where
  "note_provider_turn_started t =
     start_active (if tr_active_turn t = None then pop_into_active t else t)"

definition result_completed :: "string \<Rightarrow> ClaudeTurnTracker \<Rightarrow> bool" where
  "result_completed result_id t =
     (case or_else (map_option ti_turn_id (tr_active_turn t))
             (case tr_written_inputs t of [] \<Rightarrow> None | front # _ \<Rightarrow> Some (ti_turn_id front)) of
        Some turn_id \<Rightarrow> (turn_id, result_id) \<in> tr_completed_result_ids t
      | None \<Rightarrow> result_id \<in> snd ` tr_completed_result_ids t)"

fun claude_result_to_harness_status :: "ClaudeResultStatus \<Rightarrow> HarnessTurnStatus" where
  "claude_result_to_harness_status Success = HarnessTurnStatus.Success"
| "claude_result_to_harness_status Failed = HarnessTurnStatus.Failed"
| "claude_result_to_harness_status Declined = HarnessTurnStatus.Failed"
| "claude_result_to_harness_status Interrupted = HarnessTurnStatus.Interrupted"
| "claude_result_to_harness_status Deferred = HarnessTurnStatus.Deferred"

definition note_terminal_result :: "string \<Rightarrow> ClaudeResultStatus \<Rightarrow> ClaudeTurnTracker \<Rightarrow>
    HarnessEffect list \<times> ClaudeTurnTracker" where
  "note_terminal_result result_id status t0 =
     (let (es, t) = (if tr_active_turn t0 = None then start_active (pop_into_active t0) else ([], t0)) in
      case tr_active_turn t of None \<Rightarrow> (es, t)
      | Some a \<Rightarrow>
        (let t1 = t\<lparr>tr_active_turn := None\<rparr>; k = (ti_turn_id a, result_id) in
         if k \<in> tr_completed_result_ids t1 then (es, t1)
         else (es @ [TurnCompleted (ti_local_input_id a) (claude_result_to_harness_status status)],
               t1\<lparr>tr_completed_result_ids := insert k (tr_completed_result_ids t1)\<rparr>)))"

section \<open>The adapter\<close>

record ClaudeManagedAdapter =
  cm_context :: HarnessAdapterContext
  cm_parser :: ClaudeStreamParser
  cm_tracker :: ClaudeTurnTracker
  cm_pending_interactions :: "string \<Rightarrow> json option"
  cm_control_request_seq :: nat
  cm_plan_mode :: bool

definition claude_new :: "HarnessAdapterContext \<Rightarrow> ClaudeManagedAdapter" where
  "claude_new context = \<lparr>cm_context = context, cm_parser = parser_default, cm_tracker = tracker_default,
     cm_pending_interactions = Map.empty, cm_control_request_seq = 0, cm_plan_mode = False\<rparr>"

definition provider_context :: "nat \<Rightarrow> ClaudeManagedAdapter \<Rightarrow> ProviderEventContext" where
  "provider_context now s = runtime_context now None (Some (ac_thread_id (cm_context s)))
     (Some (ac_session_id (cm_context s))) ''claude-stream-json''"

definition claude_tool_mutates_workspace :: "string \<Rightarrow> bool" where
  "claude_tool_mutates_workspace tool_name \<longleftrightarrow> tool_name \<in>
     {''Write'', ''Edit'', ''MultiEdit'', ''NotebookEdit'', ''ApplyPatch'', ''apply_patch''}"

definition auto_resolution_for :: "ProviderInteractionDraft \<Rightarrow> ClaudeManagedAdapter \<Rightarrow>
    ProviderInteractionResolution option" where
  "auto_resolution_for draft s =
     (if id_kind draft \<noteq> ProviderInteractionKind.Permission then None
      else (let tool_name = unwrap_or (string_at (id_native_request draft) [''request'', ''tool_name'']) []
        in if cm_plan_mode s \<and> claude_tool_mutates_workspace tool_name
           then Some (Deny (Some (''Planning, not building yet '' @ [CHR 0xE2, CHR 0x80, CHR 0x94]
                  @ '' propose the change with ExitPlanMode instead.'')))
           else Some Approve))"

definition claude_interaction_kind :: "string \<Rightarrow> ProviderInteractionKind" where
  "claude_interaction_kind tool_name = (if tool_name = ''ExitPlanMode'' then PlanApproval
     else if tool_name = ''AskUserQuestion'' then UserQuestion else ProviderInteractionKind.Permission)"

definition claude_questions :: "json \<Rightarrow> InteractionQuestion list" where
  "claude_questions tool_input = map (\<lambda>(index, q).
       \<lparr>iq_id = unwrap_or (string_at q [''id'']) (''question-'' @ show_nat (index + 1)),
        iq_header = unwrap_or (string_at q [''header'']) [],
        iq_question = unwrap_or (string_at q [''question'']) [],
        iq_options = map (\<lambda>opt. \<lparr>io_label = unwrap_or (string_at opt [''label'']) [],
             io_description = unwrap_or (string_at opt [''description'']) []\<rparr>)
           (jarray_at q [''options'']),
        iq_allow_other = unwrap_or (Option.bind (jget q ''isOther'') as_bool) True,
        iq_multi_select = unwrap_or (Option.bind (jget q ''multiSelect'') as_bool) False\<rparr>)
     (List.enumerate 0 (jarray_at tool_input [''questions'']))"

definition control_request_interaction :: "(string \<Rightarrow> json option) \<Rightarrow> string \<Rightarrow> ClaudeManagedAdapter \<Rightarrow>
    ProviderInteractionDraft option \<times> ClaudeManagedAdapter" where
  "control_request_interaction from_str line s = (case from_str line of None \<Rightarrow> (None, s)
    | Some value \<Rightarrow>
      if string_at value [''type''] \<noteq> Some ''control_request'' then (None, s)
      else (case string_at value [''request_id''] of None \<Rightarrow> (None, s)
      | Some request_id \<Rightarrow>
        if string_at value [''request'', ''subtype''] \<noteq> Some ''can_use_tool'' then (None, s)
        else
        (let tool_name = unwrap_or (string_at value [''request'', ''tool_name'']) [];
             tool_input = unwrap_or (jpath value [''request'', ''input'']) JNull;
             kind = claude_interaction_kind tool_name;
             questions = (if kind = UserQuestion then claude_questions tool_input else []);
             (title, detail) = (case kind of
                 PlanApproval \<Rightarrow> (''Plan ready for review'', unwrap_or (string_at tool_input [''plan'']) [])
               | UserQuestion \<Rightarrow> (case questions of [] \<Rightarrow> ''Question'' | q # _ \<Rightarrow> iq_header q,
                                  join [CHR 0x0A] (map iq_question questions))
               | ProviderInteractionKind.Permission \<Rightarrow> (tool_name @ '' permission'',
                                  unwrap_or (string_at value [''request'', ''description'']) []))
         in (Some \<lparr>id_provider_key = ''claude'', id_workspace = ac_workspace (cm_context s),
               id_thread_id = ac_thread_id (cm_context s), id_session_id = ac_session_id (cm_context s),
               id_native_session_id = ac_native_session_id (cm_context s), id_native_id = request_id,
               id_kind = kind, id_title = title, id_detail = detail, id_questions = questions,
               id_auto_resolution_ms = None, id_native_request = value\<rparr>,
             s\<lparr>cm_pending_interactions := (cm_pending_interactions s)(request_id \<mapsto> tool_input)\<rparr>))))"

definition format_claude_answers :: "InteractionAnswer list \<Rightarrow> string" where
  "format_claude_answers answers = (if answers = [] then ''The user gave no answer.''
     else ''User answered '' @ [CHR 0xE2, CHR 0x80, CHR 0x94, CHR 0x0A] @
       join [CHR 0x0A] (map (\<lambda>a. ia_question_id a @ '': '' @ join '', '' (ia_values a)) answers))"

definition claude_native_write :: "json \<Rightarrow> NativeWrite" where
  "claude_native_write payload = \<lparr>nw_provider_key = ''claude'', nw_local_input_id = None,
     nw_payload = encode_line payload\<rparr>"

definition control_response :: "json \<Rightarrow> ProviderInteractionResolution \<Rightarrow> json" where
  "control_response tool_input resolution = (case resolution of
      Approve \<Rightarrow> obj [(''behavior'', JStr ''allow''), (''updatedInput'', tool_input)]
    | ApproveForSession \<Rightarrow> obj [(''behavior'', JStr ''allow''), (''updatedInput'', tool_input)]
    | Deny reason \<Rightarrow> obj [(''behavior'', JStr ''deny''), (''message'', JStr (unwrap_or reason ''Denied.''))]
    | Answer answers \<Rightarrow> obj [(''behavior'', JStr ''deny''), (''message'', JStr (format_claude_answers answers))]
    | Defer \<Rightarrow> obj [(''behavior'', JStr ''deny''), (''message'', JStr (''Deferred ''
          @ [CHR 0xE2, CHR 0x80, CHR 0x94] @ '' ask again when it matters.''))])"

definition control_response_for :: "string \<Rightarrow> ProviderInteractionResolution \<Rightarrow> ClaudeManagedAdapter \<Rightarrow>
    NativeWrite \<times> ClaudeManagedAdapter" where
  "control_response_for native_id resolution s =
     (let tool_input = unwrap_or (cm_pending_interactions s native_id) JNull
      in (claude_native_write (obj [(''type'', JStr ''control_response''),
            (''response'', obj [(''subtype'', JStr ''success''), (''request_id'', JStr native_id),
               (''response'', control_response tool_input resolution)])]),
          s\<lparr>cm_pending_interactions := (cm_pending_interactions s)(native_id := None)\<rparr>))"

definition set_permission_mode_write :: "string \<Rightarrow> ClaudeManagedAdapter \<Rightarrow> NativeWrite \<times> ClaudeManagedAdapter" where
  "set_permission_mode_write mode s =
     (let n = saturating_add (cm_control_request_seq s) 1
      in (claude_native_write (obj [(''type'', JStr ''control_request''),
            (''request_id'', JStr (''archcar-mode-'' @ show_int (ac_session_id (cm_context s)) @ ''-'' @ show_nat n)),
            (''request'', obj [(''subtype'', JStr ''set_permission_mode''), (''mode'', JStr mode)])]),
          s\<lparr>cm_control_request_seq := n\<rparr>))"

definition encode_claude_user_message :: "string \<Rightarrow> json" where
  "encode_claude_user_message input = obj [(''type'', JStr ''user''),
     (''message'', obj [(''role'', JStr ''user''),
        (''content'', JArr [obj [(''type'', JStr ''text''), (''text'', JStr input)]])]),
     (''parent_tool_use_id'', JNull)]"

definition claude_encode_input :: "HarnessInput \<Rightarrow> ClaudeManagedAdapter \<Rightarrow> (string + NativeWrite) \<times> ClaudeManagedAdapter" where
  "claude_encode_input input s =
     (Inr \<lparr>nw_provider_key = ''claude'', nw_local_input_id = Some (hi_local_input_id input),
           nw_payload = encode_line (encode_claude_user_message (hi_content input))\<rparr>,
      s\<lparr>cm_tracker := note_input_written (hi_local_input_id input) (hi_content input)
           (hi_visible_content input) (cm_tracker s)\<rparr>)"

section \<open>Observing the stream\<close>

definition rate_limit_message :: "json \<Rightarrow> string" where
  "rate_limit_message value =
     (let status = unwrap_or (string_at value [''rate_limit_info'', ''status'']) ''rate limited''
      in case string_at value [''rate_limit_info'', ''rateLimitType''] of
           Some limit_type \<Rightarrow> ''Claude '' @ limit_type @ '' limit: '' @ status
         | None \<Rightarrow> ''Claude rate limit: '' @ status)"

definition rate_limit_retry_after_ms :: "json \<Rightarrow> nat option" where
  "rate_limit_retry_after_ms value = or_else (number_at value [''rate_limit_info'', ''retry_after_ms''])
     (number_at value [''retry_after_ms''])"

definition rate_limit_is_allowed :: "json \<Rightarrow> bool" where
  "rate_limit_is_allowed value = (case string_at value [''rate_limit_info'', ''status''] of
     None \<Rightarrow> False | Some status \<Rightarrow> to_ascii_lowercase status = ''allowed'')"

definition rate_limit_is_terminal :: "json \<Rightarrow> bool" where
  "rate_limit_is_terminal value = (\<not> rate_limit_is_allowed value)"

definition claude_auth_failure :: "json \<Rightarrow> bool" where
  "claude_auth_failure value \<longleftrightarrow> number_at value [''api_error_status''] = Some 401
     \<or> number_at value [''error_status''] = Some 401
     \<or> (case string_at value [''error''] of None \<Rightarrow> False
        | Some e \<Rightarrow> (let error = to_ascii_lowercase e in contains_str error ''authentication''
             \<or> contains_str error ''unauthorized'' \<or> contains_str error ''auth''))"

definition claude_terminal_failure_message :: "ClaudeProviderEventDraft \<Rightarrow> string option" where
  "claude_terminal_failure_message event =
     (if ce_kind event \<noteq> Result \<or> result_status event \<noteq> Some Failed then None
      else (let message = unwrap_or (or_else (string_at (ce_raw_json event) [''result''])
                            (string_at (ce_raw_json event) [''error''])) ''Claude Code returned a failed result.''
        in Some (if claude_auth_failure (ce_raw_json event)
           then ''Claude is not logged in. Run `claude auth login`, then try again. '' @ message
           else message)))"

definition claude_terminal_result_id :: "ClaudeProviderEventDraft \<Rightarrow> string" where
  "claude_terminal_result_id event =
     unwrap_or (ce_provider_event_id event) (claude_fallback_event_id (ce_raw_json event))"

definition ready_if :: "ClaudeTurnTracker \<Rightarrow> HarnessEffect list" where
  "ready_if t = (if tracker_ready t then [Ready] else [])"

text \<open>The drafts of a replayed input show what the user typed, not what was sent.\<close>

definition with_visible_body :: "string option \<Rightarrow> ProviderEventDraft list \<Rightarrow> ProviderEventDraft list" where
  "with_visible_body visible drafts = (case visible of None \<Rightarrow> drafts
     | Some v \<Rightarrow> map (\<lambda>d. if dr_kind d = UserInput
          then d\<lparr>dr_normalized_payload := jset ''body'' (JStr v) (dr_normalized_payload d)\<rparr> else d) drafts)"

definition on_signal :: "ClaudeProviderEventDraft \<Rightarrow> ClaudeManagedAdapter \<Rightarrow> HarnessEffect list \<times> ClaudeManagedAdapter" where
  "on_signal event s = (case lifecycle_signal event of
      Some (Initialized init) \<Rightarrow>
        (let t = note_initialized (cm_tracker s)
         in ([HarnessEffect.Initialized (im_session_id init) (im_model init),
              CapabilitiesObserved (im_capabilities init)] @ ready_if t,
             s\<lparr>cm_tracker := t,
               cm_context := (cm_context s)\<lparr>ac_native_session_id := Some (im_session_id init)\<rparr>\<rparr>))
    | Some (UserInputReplayed text) \<Rightarrow>
        (let (es, t) = note_replayed_user text (cm_tracker s) in (es, s\<lparr>cm_tracker := t\<rparr>))
    | Some (TurnFinished status _) \<Rightarrow>
        (let fatal = (case claude_terminal_failure_message event of None \<Rightarrow> [] | Some m \<Rightarrow> [Fatal m]);
             (es, t) = note_terminal_result (claude_terminal_result_id event) status (cm_tracker s)
         in (fatal @ es @ ready_if t, s\<lparr>cm_tracker := t\<rparr>))
    | _ \<Rightarrow> ([], s))"

definition is_replay :: "ClaudeProviderEventDraft \<Rightarrow> bool" where
  "is_replay event = (case lifecycle_signal event of Some (UserInputReplayed _) \<Rightarrow> True | _ \<Rightarrow> False)"

definition on_turn_start :: "ClaudeProviderEventDraft \<Rightarrow> ClaudeManagedAdapter \<Rightarrow> HarnessEffect list \<times> ClaudeManagedAdapter" where
  "on_turn_start event s =
     (if ce_kind event \<in> {UserMessage, MessageStart} \<and> \<not> is_replay event
      then (let (es, t) = note_provider_turn_started (cm_tracker s) in (es, s\<lparr>cm_tracker := t\<rparr>))
      else ([], s))"

definition on_limits :: "ClaudeProviderEventDraft \<Rightarrow> ClaudeManagedAdapter \<Rightarrow> HarnessEffect list \<times> ClaudeManagedAdapter" where
  "on_limits event s = (let raw = ce_raw_json event in
     if ce_kind event = ApiRetry
     then ([Retry (unwrap_or (string_at raw [''error'']) ''Claude API retry'') (number_at raw [''retry_delay_ms''])], s)
     else if ce_kind event = RateLimit \<and> \<not> rate_limit_is_allowed raw
     then (let limited = RateLimited (rate_limit_message raw) (rate_limit_retry_after_ms raw) in
       if rate_limit_is_terminal raw
       then (let (es, t) = note_terminal_result (claude_fallback_event_id raw) Failed (cm_tracker s)
             in (limited # es @ ready_if t, s\<lparr>cm_tracker := t\<rparr>))
       else ([limited], s))
     else ([], s))"

definition observe_event :: "nat \<Rightarrow> ClaudeProviderEventDraft \<Rightarrow> ClaudeManagedAdapter \<Rightarrow>
    HarnessEffect list \<times> ClaudeManagedAdapter" where
  "observe_event now event s =
     (if ce_kind event = Result \<and> result_completed (claude_terminal_result_id event) (cm_tracker s)
      then ([], s)
      else (let visible = (case lifecycle_signal event of
                  Some (UserInputReplayed text) \<Rightarrow> visible_content_for_replayed_user text (cm_tracker s)
                | _ \<Rightarrow> None);
                drafts = with_visible_body visible
                  (into_provider_event_drafts (provider_context now s) event);
                shown = (if ce_kind event = RateLimit \<and> rate_limit_is_allowed (ce_raw_json event)
                         then [] else map ProviderEvent drafts);
                (es1, s1) = on_signal event s;
                (es2, s2) = on_turn_start event s1;
                (es3, s3) = on_limits event s2
            in (shown @ es1 @ es2 @ es3, s3)))"

definition observe_line :: "(string \<Rightarrow> json option) \<Rightarrow> nat \<Rightarrow> string \<Rightarrow> ClaudeManagedAdapter \<Rightarrow>
    (string + HarnessEffect list) \<times> ClaudeManagedAdapter" where
  "observe_line from_str now line s =
     (case control_request_interaction from_str line s of
        (Some draft, s1) \<Rightarrow> (Inr [InteractionRequested draft], s1)
      | (None, s1) \<Rightarrow>
        (case parse_line from_str line (cm_parser s1) of
           (Inl e, p) \<Rightarrow> (Inl e, s1\<lparr>cm_parser := p\<rparr>)
         | (Inr None, p) \<Rightarrow> (Inr [], s1\<lparr>cm_parser := p\<rparr>)
         | (Inr (Some event), p) \<Rightarrow>
             (let (es, s2) = observe_event now event (s1\<lparr>cm_parser := p\<rparr>) in (Inr es, s2))))"

text \<open>The loop over the lines: an error stops it and drops the effects gathered so far.\<close>

fun claude_observe_lines :: "(string \<Rightarrow> json option) \<Rightarrow> nat \<Rightarrow> string list \<Rightarrow> HarnessEffect list \<Rightarrow>
    ClaudeManagedAdapter \<Rightarrow> (string + HarnessEffect list) \<times> ClaudeManagedAdapter" where
  "claude_observe_lines from_str now [] effects s = (Inr effects, s)"
| "claude_observe_lines from_str now (line # ls) effects s =
     (case observe_line from_str now line s of
        (Inl e, s1) \<Rightarrow> (Inl e, s1)
      | (Inr es, s1) \<Rightarrow> claude_observe_lines from_str now ls (effects @ es) s1)"

definition claude_observe_native :: "(string \<Rightarrow> json option) \<Rightarrow> nat \<Rightarrow> NativeRecord \<Rightarrow> ClaudeManagedAdapter \<Rightarrow>
    (string + HarnessEffect list) \<times> ClaudeManagedAdapter" where
  "claude_observe_native from_str now record s =
     (if nr_provider_key record \<noteq> ''claude''
      then (Inl (''Claude adapter received native record for '' @ nr_provider_key record), s)
      else claude_observe_lines from_str now
        (concat (map (split_parallel_tool_results from_str)
           (filter (\<lambda>l. trim l \<noteq> []) (str_lines (nr_payload record))))) [] s)"

section \<open>Controls and recovery\<close>

definition set_control :: "(DesiredHarnessControls \<Rightarrow> DesiredHarnessControls) \<Rightarrow> ClaudeManagedAdapter \<Rightarrow> ClaudeManagedAdapter" where
  "set_control f s = s\<lparr>cm_context := (cm_context s)\<lparr>ac_controls := f (ac_controls (cm_context s))\<rparr>\<rparr>"

definition restart_with :: "ClaudeManagedAdapter \<Rightarrow> HarnessControlPlan \<times> ClaudeManagedAdapter" where
  "restart_with s = (HarnessControlPlan.RestartRequired (ac_controls (cm_context s)), s)"

definition claude_plan_control :: "HarnessControl \<Rightarrow> ClaudeManagedAdapter \<Rightarrow> HarnessControlPlan \<times> ClaudeManagedAdapter" where
  "claude_plan_control control s = (case control of
      Kill \<Rightarrow> (Signal TerminateProcessGroup, s)
    | HarnessControl.Interrupt \<Rightarrow> (Signal InterruptProcessGroup, s)
    | SetModel m \<Rightarrow> restart_with (set_control (\<lambda>c. c\<lparr>dc_model := m\<rparr>) s)
    | SetEffort e \<Rightarrow> restart_with (set_control (\<lambda>c. c\<lparr>dc_effort := e\<rparr>) s)
    | SetFastMode f \<Rightarrow> restart_with (set_control (\<lambda>c. c\<lparr>dc_fast_mode := Some f\<rparr>) s)
    | SetPermissionMode mode \<Rightarrow>
        (let s1 = (set_control (\<lambda>c. c\<lparr>dc_permission_mode := mode\<rparr>) s)\<lparr>cm_plan_mode := (mode = Some ''plan'')\<rparr>
         in case mode of
              Some m \<Rightarrow> (let (w, s2) = set_permission_mode_write m s1
                         in (HarnessControlPlan.NativeWrite w, s2))
            | None \<Rightarrow> restart_with s1)
    | ResolveInteraction native_id resolution \<Rightarrow>
        (let (w, s1) = control_response_for native_id resolution s in (HarnessControlPlan.NativeWrite w, s1)))"

definition claude_recovery_plan :: "HarnessRecoveryCause \<Rightarrow> ClaudeManagedAdapter \<Rightarrow> HarnessRecoveryPlan" where
  "claude_recovery_plan cause s = (case ac_native_session_id (cm_context s) of
      Some native_session_id \<Rightarrow> RestartAndResume native_session_id (ac_controls (cm_context s))
    | None \<Rightarrow> Fail ''Claude session has no native session id to resume'')"

section \<open>Descriptor and launch arguments\<close>

definition CLAUDE_EXTENDED_FEATURES :: "(HarnessFeature \<times> SupportMode) list" where
  "CLAUDE_EXTENDED_FEATURES = [(ThreadScopedSession, Native), (InputAcknowledgement, SupportMode.Emulated),
     (Queueing, Native), (HarnessFeature.Interrupt, Native), (Resume, Native), (CrashRecovery, Native),
     (SessionControls, SupportMode.RestartRequired), (ProviderInteractions, Native)]"

definition CLAUDE_OPTIONAL_CAPABILITIES :: "(HarnessCapability \<times> SupportMode) list" where
  "CLAUDE_OPTIONAL_CAPABILITIES = [
     (Goals, SupportMode.Unsupported ''Claude stream-json does not expose native goals''),
     (NativeSlashCommands, SupportMode.Unsupported ''Claude stream-json does not expose interactive slash commands'')]"

definition CLAUDE_MANAGED_HARNESS_DESCRIPTOR :: HarnessDescriptor where
  "CLAUDE_MANAGED_HARNESS_DESCRIPTOR = \<lparr>hd_contract_version = MANAGED_HARNESS_CONTRACT_VERSION,
     hd_kind = ''claude'', hd_provider_key = ''claude'', hd_display_name = ''Claude Code'',
     hd_default_executable = ''claude'',
     hd_preflight = \<lparr>ps_command = [''claude'', ''auth'', ''status''], ps_auth_guidance = ''Run `claude auth login`.''\<rparr>,
     hd_core_features = CORE_HARNESS_FEATURES, hd_extended_features = CLAUDE_EXTENDED_FEATURES,
     hd_optional_capabilities = CLAUDE_OPTIONAL_CAPABILITIES\<rparr>"

record ClaudeStreamLaunchConfig =
  lc_persistent_input :: bool
  lc_replay_user_messages :: bool
  lc_resume :: "string option"
  lc_permission_mode :: "string option"
  lc_permission_prompt_tool :: "string option"
  lc_model :: "string option"
  lc_effort :: "string option"
  lc_append_system_prompt :: "string option"
  lc_settings_json :: "string option"

definition optional_arg :: "string \<Rightarrow> string option \<Rightarrow> string list" where
  "optional_arg flag v = (case trimmed_nonempty v of None \<Rightarrow> [] | Some t \<Rightarrow> [flag, t])"

definition build_claude_stream_args :: "ClaudeStreamLaunchConfig \<Rightarrow> string list" where
  "build_claude_stream_args c =
     [''-p'', ''--output-format'', ''stream-json'', ''--verbose'', ''--include-partial-messages''] @
     (if lc_persistent_input c then [''--input-format'', ''stream-json''] @
        (if lc_replay_user_messages c then [''--replay-user-messages''] else []) else []) @
     optional_arg ''--permission-prompt-tool'' (lc_permission_prompt_tool c) @
     optional_arg ''--resume'' (lc_resume c) @
     optional_arg ''--permission-mode'' (lc_permission_mode c) @
     (if lc_permission_mode c = Some ''bypassPermissions'' then [''--dangerously-skip-permissions''] else []) @
     optional_arg ''--model'' (lc_model c) @
     optional_arg ''--effort'' (lc_effort c) @
     optional_arg ''--append-system-prompt'' (lc_append_system_prompt c) @
     optional_arg ''--settings'' (lc_settings_json c)"

section \<open>Lemmas\<close>

text \<open>Every input the tracker still holds, the one whose turn is running first.\<close>

definition tracked :: "ClaudeTurnTracker \<Rightarrow> string list" where
  "tracked t = (case tr_active_turn t of None \<Rightarrow> [] | Some a \<Rightarrow> [ti_local_input_id a])
     @ map ti_local_input_id (tr_written_inputs t)"

lemma tracked_pop: "tr_active_turn t = None \<Longrightarrow> tracked (pop_into_active t) = tracked t"
  by (simp add: tracked_def pop_into_active_def split: list.split)

lemma tracked_start: "start_active t = (es, t') \<Longrightarrow> tracked t' = tracked t \<and> completions es = []"
  by (auto simp: start_active_def tracked_def split: option.splits if_splits)

lemma echo_active_id: "echo_active text a = (es, a') \<Longrightarrow>
    ti_local_input_id a' = ti_local_input_id a \<and> completions es = []"
  by (auto simp: echo_active_def Let_def split: if_splits)

lemma tracked_written: "tracked (note_input_written i c v t) = tracked t @ [i]"
  by (simp add: tracked_def note_input_written_def Let_def)

lemma tracked_turn_started:
  "note_provider_turn_started t = (es, t') \<Longrightarrow> tracked t' = tracked t \<and> completions es = []"
  by (auto simp: note_provider_turn_started_def tracked_pop split: if_splits dest: tracked_start)

lemma tracked_terminal:
  assumes "note_terminal_result r st t = (es, t')"
  shows "mset (completions es) + mset (tracked t') \<subseteq># mset (tracked t)"
proof -
  obtain es0 t0 where start: "(if tr_active_turn t = None then start_active (pop_into_active t)
      else ([], t)) = (es0, t0)" by (metis surj_pair)
  have t0: "tracked t0 = tracked t" "completions es0 = []"
    using start by (auto simp: tracked_pop split: if_splits dest: tracked_start)
  show ?thesis
  proof (cases "tr_active_turn t0")
    case None
    with assms start t0 show ?thesis by (simp add: note_terminal_result_def)
  next
    case (Some a)
    have "mset (tracked t0) = {#ti_local_input_id a#} + mset (map ti_local_input_id (tr_written_inputs t0))"
      by (simp add: tracked_def Some)
    with assms start t0 Some show ?thesis
      by (auto simp: note_terminal_result_def Let_def tracked_def split: if_splits)
  qed
qed

lemma front_is_Cons: "front_is text t \<longleftrightarrow> (\<exists>front rest. tr_written_inputs t = front # rest \<and> ti_content front = text)"
  by (auto simp: front_is_def split: list.splits)

lemma tracked_replay_into:
  assumes "replay_into_turn text active t = (es, t')" and "tr_active_turn t = Some active"
  shows "completions es = [] \<and> mset (tracked t') \<subseteq># mset (tracked t)"
proof -
  obtain es' a' where echo: "echo_active text active = (es', a')" by (metis surj_pair)
  show ?thesis
  proof (cases "\<not> (ti_content active = text \<and> \<not> ti_acknowledged active) \<and> front_is text t")
    case True
    then obtain front rest where "tr_written_inputs t = front # rest" by (auto simp: front_is_Cons)
    with True assms show ?thesis by (auto simp: replay_into_turn_def tracked_def)
  next
    case False
    then have "es = es'" "t' = t\<lparr>tr_active_turn := Some a'\<rparr>"
      using assms(1) by (simp_all add: replay_into_turn_def echo Let_def split: if_splits)
    with echo_active_id [OF echo] assms(2) show ?thesis by (simp add: tracked_def)
  qed
qed

lemma tracked_replayed:
  assumes "note_replayed_user text t = (es, t')"
  shows "completions es = [] \<and> mset (tracked t') \<subseteq># mset (tracked t)"
proof (cases "tr_active_turn t")
  case None
  show ?thesis
  proof (cases "tr_initialized t \<or> tr_transport_started t")
    case True
    then show ?thesis
      using assms None tracked_pop [OF None]
      by (auto simp: note_replayed_user_def Let_def split: if_splits option.splits
        dest!: tracked_replay_into)
  next
    case False
    with assms None show ?thesis by (simp add: note_replayed_user_def)
  qed
next
  case (Some active)
  with assms show ?thesis by (auto simp: note_replayed_user_def dest: tracked_replay_into)
qed

text \<open>What each stage of handling an event does to the inputs held and the completions reported.\<close>

definition conserves :: "HarnessEffect list \<Rightarrow> ClaudeManagedAdapter \<Rightarrow> ClaudeManagedAdapter \<Rightarrow> bool" where
  "conserves es s s' \<longleftrightarrow>
     mset (completions es) + mset (tracked (cm_tracker s')) \<subseteq># mset (tracked (cm_tracker s))"

lemma conserves_trans:
  assumes "conserves es s s'" and "conserves fs s' s''"
  shows "conserves (es @ fs) s s''"
proof -
  have "mset (completions es) + (mset (completions fs) + mset (tracked (cm_tracker s'')))
      \<subseteq># mset (completions es) + mset (tracked (cm_tracker s'))"
    using assms(2) unfolding conserves_def by (rule subset_mset.add_left_mono)
  then have "mset (completions (es @ fs)) + mset (tracked (cm_tracker s''))
      \<subseteq># mset (completions es) + mset (tracked (cm_tracker s'))"
    by (simp add: add.assoc)
  also have "\<dots> \<subseteq># mset (tracked (cm_tracker s))" using assms(1) by (simp add: conserves_def)
  finally show ?thesis by (simp add: conserves_def)
qed

lemma completions_Nil_iff: "completions es = [] \<longleftrightarrow> (\<forall>e\<in>set es. \<forall>i s. e \<noteq> TurnCompleted i s)"
  by (induction es) (auto simp: completions_def map_filter_def split: HarnessEffect.splits)

lemma completions_ready_if [simp]: "completions (ready_if t) = []"
  by (simp add: ready_if_def)

lemma completions_drafts [simp]: "completions (map ProviderEvent ds) = []"
  by (auto simp: completions_Nil_iff)

lemma conserves_same: "completions es = [] \<Longrightarrow> tracked (cm_tracker s') = tracked (cm_tracker s) \<Longrightarrow> conserves es s s'"
  by (simp add: conserves_def)

lemma tracked_initialized [simp]: "tracked (note_initialized t) = tracked t"
  by (simp add: note_initialized_def tracked_def)

lemma on_signal_conserves:
  assumes "on_signal event s = (es, s')"
  shows "conserves es s s'"
proof (cases "lifecycle_signal event")
  case None
  with assms show ?thesis by (auto simp: on_signal_def intro: conserves_same)
next
  case (Some sig)
  show ?thesis
  proof (cases sig)
    case (Initialized meta)
    with assms Some show ?thesis by (auto simp: on_signal_def Let_def intro!: conserves_same)
  next
    case (UserInputReplayed said)
    obtain fs t where r: "note_replayed_user said (cm_tracker s) = (fs, t)" by (metis surj_pair)
    with assms Some UserInputReplayed have "es = fs" "s' = s\<lparr>cm_tracker := t\<rparr>"
      by (simp_all add: on_signal_def)
    with tracked_replayed [OF r] show ?thesis by (simp add: conserves_def)
  next
    case (TurnFinished status why)
    obtain fs t where r: "note_terminal_result (claude_terminal_result_id event) status (cm_tracker s) = (fs, t)"
      by (metis surj_pair)
    with assms Some TurnFinished have "completions es = completions fs" "s' = s\<lparr>cm_tracker := t\<rparr>"
      by (auto simp: on_signal_def Let_def split: option.splits)
    with tracked_terminal [OF r] show ?thesis by (simp add: conserves_def)
  next
    case (DeferredTool v)
    with assms Some show ?thesis by (auto simp: on_signal_def intro: conserves_same)
  qed
qed

lemma on_turn_start_conserves: "on_turn_start event s = (es, s') \<Longrightarrow> conserves es s s'"
  by (auto simp: on_turn_start_def split: if_splits prod.splits intro!: conserves_same
    dest: tracked_turn_started)

lemma on_limits_conserves:
  assumes "on_limits event s = (es, s')"
  shows "conserves es s s'"
proof (cases "ce_kind event = RateLimit \<and> \<not> rate_limit_is_allowed (ce_raw_json event)")
  case True
  obtain fs t where r: "note_terminal_result (claude_fallback_event_id (ce_raw_json event)) Failed
      (cm_tracker s) = (fs, t)" by (metis surj_pair)
  from True have "rate_limit_is_terminal (ce_raw_json event)" "ce_kind event \<noteq> ApiRetry"
    by (auto simp: rate_limit_is_terminal_def)
  with assms True r have "completions es = completions fs" "s' = s\<lparr>cm_tracker := t\<rparr>"
    by (auto simp: on_limits_def Let_def)
  with tracked_terminal [OF r] show ?thesis by (simp add: conserves_def)
next
  case False
  with assms show ?thesis
    by (auto simp: on_limits_def Let_def intro!: conserves_same split: if_splits)
qed

lemma observe_event_conserves:
  assumes "observe_event now event s = (es, s')"
  shows "conserves es s s'"
proof (cases "ce_kind event = Result \<and> result_completed (claude_terminal_result_id event) (cm_tracker s)")
  case True
  with assms show ?thesis by (simp add: observe_event_def conserves_same)
next
  case False
  obtain es1 s1 where 1: "on_signal event s = (es1, s1)" by (metis surj_pair)
  obtain es2 s2 where 2: "on_turn_start event s1 = (es2, s2)" by (metis surj_pair)
  obtain es3 s3 where 3: "on_limits event s2 = (es3, s3)" by (metis surj_pair)
  obtain shown where "es = shown @ es1 @ es2 @ es3" "completions shown = []" "s' = s3"
    using assms unfolding observe_event_def if_not_P [OF False] Let_def 1 2 3 prod.case
    by (auto split: if_splits)
  moreover have "conserves (es1 @ es2 @ es3) s s3"
    using conserves_trans [OF on_signal_conserves [OF 1]
      conserves_trans [OF on_turn_start_conserves [OF 2] on_limits_conserves [OF 3]]] .
  ultimately show ?thesis by (simp add: conserves_def)
qed

lemma control_request_tracker:
  "control_request_interaction from_str line s = (d, s') \<Longrightarrow> cm_tracker s' = cm_tracker s"
  by (auto simp: control_request_interaction_def Let_def split: option.splits if_splits prod.splits)

lemma observe_line_conserves:
  assumes "observe_line from_str now line s = (r, s')"
  shows "conserves (ok_effects r) s s'"
proof -
  obtain d s1 where c: "control_request_interaction from_str line s = (d, s1)" by (metis surj_pair)
  note t = control_request_tracker [OF c]
  obtain q p where pl: "parse_line from_str line (cm_parser s1) = (q, p)" by (metis surj_pair)
  show ?thesis
  proof (cases d)
    case (Some draft)
    with assms c t show ?thesis by (auto simp: observe_line_def intro!: conserves_same)
  next
    case None
    show ?thesis
    proof (cases "\<exists>event. q = Inr (Some event)")
      case True
      then obtain event where q: "q = Inr (Some event)" by blast
      obtain es s2 where e: "observe_event now event (s1\<lparr>cm_parser := p\<rparr>) = (es, s2)" by (metis surj_pair)
      with assms c None pl q have "r = Inr es" "s' = s2" by (auto simp: observe_line_def)
      with observe_event_conserves [OF e] t show ?thesis by (simp add: conserves_def)
    next
      case False
      with assms c None pl t show ?thesis
        by (auto simp: observe_line_def intro!: conserves_same split: sum.splits option.splits)
    qed
  qed
qed

lemma observe_lines_conserves:
  "claude_observe_lines from_str now ls effects s = (r, s') \<Longrightarrow>
     mset (completions (ok_effects r)) + mset (tracked (cm_tracker s'))
       \<subseteq># mset (completions effects) + mset (tracked (cm_tracker s))"
proof (induction from_str now ls effects s rule: claude_observe_lines.induct)
  case (2 from_str now line ls effects s)
  obtain q s1 where q: "observe_line from_str now line s = (q, s1)" by (metis surj_pair)
  note c = observe_line_conserves [OF q]
  show ?case
  proof (cases q)
    case (Inl e)
    with 2 q c show ?thesis
      by (auto simp: conserves_def intro: subset_mset.add_increasing)
  next
    case (Inr es)
    with "2.prems" q have rest: "claude_observe_lines from_str now ls (effects @ es) s1 = (r, s')" by simp
    have "mset (completions (ok_effects r)) + mset (tracked (cm_tracker s'))
        \<subseteq># mset (completions (effects @ es)) + mset (tracked (cm_tracker s1))"
      using "2.IH" [OF q [symmetric] Inr rest] .
    also have "\<dots> = mset (completions effects) + (mset (completions es) + mset (tracked (cm_tracker s1)))"
      by simp
    also have "\<dots> \<subseteq># mset (completions effects) + mset (tracked (cm_tracker s))"
      using c Inr by (intro subset_mset.add_left_mono) (simp add: conserves_def)
    finally show ?thesis .
  qed
qed auto

definition claude_open_inputs :: "ClaudeManagedAdapter \<Rightarrow> string list" where
  "claude_open_inputs s = tracked (cm_tracker s)"

interpretation claude: managed_adapter claude_encode_input "claude_observe_native from_str now" claude_open_inputs
  for from_str :: "string \<Rightarrow> json option" and now :: nat
proof
  fix i and s :: ClaudeManagedAdapter
  show "mset (claude_open_inputs (snd (claude_encode_input i s))) =
      mset (claude_open_inputs s) + mset (accepted i (fst (claude_encode_input i s)))"
    by (simp add: claude_open_inputs_def claude_encode_input_def tracked_written)
next
  fix r :: NativeRecord and s :: ClaudeManagedAdapter
  show "mset (completions (ok_effects (fst (claude_observe_native from_str now r s)))) +
      mset (claude_open_inputs (snd (claude_observe_native from_str now r s))) \<subseteq># mset (claude_open_inputs s)"
    using observe_lines_conserves [OF prod.collapse [symmetric], of from_str now _ "[]" s]
    by (simp add: claude_observe_native_def claude_open_inputs_def)
qed

section \<open>Turn ids\<close>

text \<open>
  Turn ids are handed out in order and never reused while the counter does not saturate, so a result
  recorded for one turn can never be mistaken for the result of another.
\<close>

definition turn_ids :: "ClaudeTurnTracker \<Rightarrow> nat list" where
  "turn_ids t = (case tr_active_turn t of None \<Rightarrow> [] | Some a \<Rightarrow> [ti_turn_id a])
     @ map ti_turn_id (tr_written_inputs t)"

definition tracker_ok :: "ClaudeTurnTracker \<Rightarrow> bool" where
  "tracker_ok t \<longleftrightarrow> (tr_next_local_turn t < u64_max \<longrightarrow>
     distinct (turn_ids t) \<and> (\<forall>i\<in>set (turn_ids t). i \<le> tr_next_local_turn t) \<and>
     (\<forall>(i, r)\<in>tr_completed_result_ids t. i \<le> tr_next_local_turn t \<and> i \<notin> set (turn_ids t)))"

datatype TrackerOp =
    NoteInitialized
  | NoteTransportStarted
  | NoteInputWritten string string "string option"
  | SettleFailedInputWrite string
  | NoteReplayedUser string
  | NoteProviderTurnStarted
  | NoteTerminalResult string ClaudeResultStatus

fun tracker_step :: "ClaudeTurnTracker \<Rightarrow> TrackerOp \<Rightarrow> ClaudeTurnTracker" where
  "tracker_step t NoteInitialized = note_initialized t"
| "tracker_step t NoteTransportStarted = note_transport_started t"
| "tracker_step t (NoteInputWritten i c v) = note_input_written i c v t"
| "tracker_step t (SettleFailedInputWrite i) = settle_failed_input_write i t"
| "tracker_step t (NoteReplayedUser s) = snd (note_replayed_user s t)"
| "tracker_step t NoteProviderTurnStarted = snd (note_provider_turn_started t)"
| "tracker_step t (NoteTerminalResult r st) = snd (note_terminal_result r st t)"

definition tracker_run :: "TrackerOp list \<Rightarrow> ClaudeTurnTracker" where
  "tracker_run ops = fold (\<lambda>op t. tracker_step t op) ops tracker_default"

text \<open>An operation that hands out no id, completes no result and only drops inputs.\<close>

definition shrinks :: "ClaudeTurnTracker \<Rightarrow> ClaudeTurnTracker \<Rightarrow> bool" where
  "shrinks t t' \<longleftrightarrow> subseq (turn_ids t') (turn_ids t) \<and> tr_next_local_turn t' = tr_next_local_turn t
     \<and> tr_completed_result_ids t' = tr_completed_result_ids t"

lemma shrinks_ok: "shrinks t t' \<Longrightarrow> tracker_ok t \<Longrightarrow> tracker_ok t'"
proof -
  assume sh: "shrinks t t'" and ok: "tracker_ok t"
  then obtain N where N: "turn_ids t' = nths (turn_ids t) N" by (auto simp: shrinks_def subseq_conv_nths)
  have "distinct (turn_ids t) \<Longrightarrow> distinct (turn_ids t')" unfolding N by (rule distinct_nthsI)
  moreover have "set (turn_ids t') \<subseteq> set (turn_ids t)" unfolding N by (rule set_nths_subset)
  ultimately show ?thesis using sh ok unfolding shrinks_def tracker_ok_def by fastforce
qed

lemma shrinks_refl [simp]: "shrinks t t" by (simp add: shrinks_def)

lemma shrinks_trans: "shrinks t u \<Longrightarrow> shrinks u v \<Longrightarrow> shrinks t v"
  by (auto simp: shrinks_def intro: subseq_order.order_trans)

lemma shrinks_pop: "tr_active_turn t = None \<Longrightarrow> shrinks t (pop_into_active t)"
  by (simp add: shrinks_def turn_ids_def pop_into_active_def split: list.split)

lemma shrinks_start: "start_active t = (es, t') \<Longrightarrow> shrinks t t'"
  by (auto simp: start_active_def shrinks_def turn_ids_def split: option.splits if_splits)

lemma echo_active_turn: "echo_active s a = (es, a') \<Longrightarrow> ti_turn_id a' = ti_turn_id a"
  by (auto simp: echo_active_def Let_def split: if_splits)

lemma shrinks_replay_into:
  assumes "tr_active_turn t = Some a"
  shows "shrinks t (snd (replay_into_turn s a t))"
proof -
  obtain es' a' where echo: "echo_active s a = (es', a')" by (metis surj_pair)
  have "subseq (map ti_turn_id (tl (tr_written_inputs t))) (map ti_turn_id (tr_written_inputs t))"
    by (cases "tr_written_inputs t") (auto intro: subseq_Cons')
  with echo echo_active_turn [OF echo] assms show ?thesis
    by (auto simp: replay_into_turn_def shrinks_def turn_ids_def Let_def)
qed

lemma shrinks_replayed: "shrinks t (snd (note_replayed_user s t))"
proof (cases "tr_active_turn t")
  case None
  have "shrinks (pop_into_active t) (snd (replay_into_turn s a (pop_into_active t)))"
    if "tr_active_turn (pop_into_active t) = Some a" for a
    by (rule shrinks_replay_into [OF that])
  with shrinks_pop [OF None] None show ?thesis
    by (auto simp: note_replayed_user_def Let_def split: option.split intro: shrinks_trans)
next
  case (Some a)
  with shrinks_replay_into [OF Some] show ?thesis by (simp add: note_replayed_user_def)
qed

lemma shrinks_turn_started: "shrinks t (snd (note_provider_turn_started t))"
proof -
  obtain es u where "start_active (if tr_active_turn t = None then pop_into_active t else t) = (es, u)"
    by (metis surj_pair)
  with shrinks_start [OF this] shrinks_pop [of t] show ?thesis
    by (auto simp: note_provider_turn_started_def intro: shrinks_trans split: if_splits)
qed

lemma shrinks_settle: "shrinks t (settle_failed_input_write i t)"
proof -
  have "subseq (map ti_turn_id (filter P xs)) (map ti_turn_id xs)" for P xs
    by (simp add: subseq_map)
  then show ?thesis
    by (auto simp: shrinks_def settle_failed_input_write_def turn_ids_def split: option.split
      intro: subseq_Cons')
qed

lemma written_ok:
  assumes "tracker_ok t"
  shows "tracker_ok (note_input_written i c v t)"
proof (cases "tr_next_local_turn t < u64_max")
  case True
  have "turn_ids (note_input_written i c v t) = turn_ids t @ [Suc (tr_next_local_turn t)]"
    and "tr_next_local_turn (note_input_written i c v t) = Suc (tr_next_local_turn t)"
    and "tr_completed_result_ids (note_input_written i c v t) = tr_completed_result_ids t"
    using True by (simp_all add: note_input_written_def turn_ids_def saturating_add_def Let_def)
  with assms True show ?thesis by (fastforce simp: tracker_ok_def)
next
  case False
  then show ?thesis by (simp add: tracker_ok_def note_input_written_def saturating_add_def Let_def)
qed

text \<open>The result of the oldest input still held always completes it, and only it.\<close>

lemma terminal_completes_head:
  assumes ok: "tracker_ok t" and less: "tr_next_local_turn t < u64_max" and held: "tracked t \<noteq> []"
  shows "completions (fst (note_terminal_result r st t)) = [hd (tracked t)]
    \<and> tracked (snd (note_terminal_result r st t)) = tl (tracked t)
    \<and> tracker_ok (snd (note_terminal_result r st t))
    \<and> tr_active_turn (snd (note_terminal_result r st t)) = None"
proof -
  obtain es0 t0 where start: "(if tr_active_turn t = None then start_active (pop_into_active t)
      else ([], t)) = (es0, t0)" by (metis surj_pair)
  have t0: "tracked t0 = tracked t" "completions es0 = []"
    using start by (auto simp: tracked_pop split: if_splits dest: tracked_start)
  have sh: "shrinks t t0"
    using start shrinks_pop [of t] by (auto split: if_splits intro: shrinks_trans shrinks_start)
  with ok have ok0: "tracker_ok t0" by (rule shrinks_ok [rotated])
  obtain a where a: "tr_active_turn t0 = Some a"
  proof (cases "tr_active_turn t0")
    case None
    then have "tr_active_turn t = None" "tr_written_inputs t = []"
      using start by (auto simp: start_active_def pop_into_active_def split: if_splits list.splits option.splits)
    with held that show ?thesis by (simp add: tracked_def)
  qed (use that in blast)
  have next0: "tr_next_local_turn t0 < u64_max" using sh less by (simp add: shrinks_def)
  have ids: "turn_ids t0 = ti_turn_id a # map ti_turn_id (tr_written_inputs t0)"
    by (simp add: turn_ids_def a)
  with ok0 next0 have fresh: "(ti_turn_id a, r) \<notin> tr_completed_result_ids t0"
    by (fastforce simp: tracker_ok_def)
  define u where "u = t0\<lparr>tr_active_turn := None,
    tr_completed_result_ids := insert (ti_turn_id a, r) (tr_completed_result_ids t0)\<rparr>"
  have res: "note_terminal_result r st t =
      (es0 @ [TurnCompleted (ti_local_input_id a) (claude_result_to_harness_status st)], u)"
    using start a fresh by (simp add: note_terminal_result_def u_def)
  have "tracked t = ti_local_input_id a # tracked u"
    using t0(1) a by (simp add: tracked_def u_def)
  moreover have "tracker_ok u"
  proof -
    have "turn_ids u = map ti_turn_id (tr_written_inputs t0)"
      "tr_completed_result_ids u = insert (ti_turn_id a, r) (tr_completed_result_ids t0)"
      "tr_next_local_turn u = tr_next_local_turn t0"
      by (simp_all add: u_def turn_ids_def)
    with ok0 next0 show ?thesis by (auto simp: tracker_ok_def ids)
  qed
  ultimately show ?thesis using res t0(2) by (simp add: u_def)
qed

lemma terminal_ok:
  assumes ok: "tracker_ok t"
  shows "tracker_ok (snd (note_terminal_result r st t))"
proof (cases "tracked t = []")
  case True
  then have "tr_active_turn t = None" "tr_written_inputs t = []"
    by (auto simp: tracked_def split: option.splits)
  then have "note_terminal_result r st t = ([], t\<lparr>tr_active_turn := None\<rparr>)"
    by (simp add: note_terminal_result_def pop_into_active_def start_active_def)
  with ok \<open>tr_active_turn t = None\<close> show ?thesis by (simp add: tracker_ok_def turn_ids_def)
next
  case False
  show ?thesis
  proof (cases "tr_next_local_turn t < u64_max")
    case True
    with terminal_completes_head [OF ok _ False] show ?thesis by blast
  next
    case False
    obtain es0 t0 where start: "(if tr_active_turn t = None then start_active (pop_into_active t)
        else ([], t)) = (es0, t0)" by (metis surj_pair)
    have "shrinks t t0"
      using start shrinks_pop [of t] by (auto split: if_splits intro: shrinks_trans shrinks_start)
    with start have "tr_next_local_turn (snd (note_terminal_result r st t)) = tr_next_local_turn t"
      by (auto simp: note_terminal_result_def Let_def shrinks_def split: option.splits)
    with False show ?thesis by (simp add: tracker_ok_def)
  qed
qed

interpretation tracker: closed_machine tracker_step tracker_ok
proof
  fix t :: ClaudeTurnTracker and op
  assume ok: "tracker_ok t"
  show "tracker_ok (tracker_step t op)"
  proof (cases op)
    case NoteInitialized
    with ok show ?thesis by (simp add: tracker_ok_def turn_ids_def note_initialized_def)
  next
    case NoteTransportStarted
    with ok show ?thesis by (simp add: tracker_ok_def turn_ids_def note_transport_started_def)
  qed (simp_all add: written_ok terminal_ok ok shrinks_ok [OF shrinks_settle ok]
      shrinks_ok [OF shrinks_replayed ok] shrinks_ok [OF shrinks_turn_started ok])
qed

lemma tracker_run_ok: "tracker_ok (tracker_run ops)"
  unfolding tracker_run_def
  by (rule tracker.closed_run) (simp add: tracker_ok_def tracker_default_def turn_ids_def)

lemma terminal_flags:
  "tr_initialized (snd (note_terminal_result r st t)) = tr_initialized t
   \<and> tr_transport_started (snd (note_terminal_result r st t)) = tr_transport_started t"
  by (auto simp: note_terminal_result_def start_active_def pop_into_active_def Let_def
    split: option.splits list.splits)

lemma terminal_no_ready: "Ready \<notin> set (fst (note_terminal_result r st t))"
  by (auto simp: note_terminal_result_def start_active_def pop_into_active_def Let_def
    split: option.splits list.splits)

lemma tracked_ready: "tracker_ready t \<longleftrightarrow> (tr_initialized t \<or> tr_transport_started t) \<and> tracked t = []"
  by (auto simp: tracker_ready_def tracked_def split: option.split)

lemma held_not_completed:
  assumes ok: "tracker_ok t" and less: "tr_next_local_turn t < u64_max" and held: "tracked t \<noteq> []"
  shows "\<not> result_completed r t"
proof -
  obtain i where i: "or_else (map_option ti_turn_id (tr_active_turn t))
      (case tr_written_inputs t of [] \<Rightarrow> None | front # _ \<Rightarrow> Some (ti_turn_id front)) = Some i"
    and "i \<in> set (turn_ids t)"
    using held by (cases "tr_written_inputs t"; cases "tr_active_turn t")
      (auto simp: tracked_def turn_ids_def)
  with ok less show ?thesis by (fastforce simp: result_completed_def tracker_ok_def)
qed

section \<open>Properties\<close>

text \<open>
  C4. The Claude adapter completes inputs exactly once: over any sequence of inputs written to it and
  records read from the stream, with results duplicated, echoes merged into a running turn and lines
  that fail to parse, every completion answers an input it was given, no input is completed more often
  than it was given, and those it still holds are not counted.
\<close>

theorem claude_completes_exactly_once:
  assumes "claude.adapter_run from_str now es (claude_new ctx) = (effs, given, s')"
  shows "mset (completions effs) + mset (claude_open_inputs s') \<subseteq># mset given"
  using claude.exactly_once [OF assms]
  by (simp add: claude_open_inputs_def claude_new_def tracker_default_def tracked_def)

text \<open>
  While an input is held, a result is never taken for a repeat: it completes exactly the oldest
  input held, drops that one, and reports the session ready exactly when none is left and Claude has
  started; so a session that answered everything does not stay busy.
\<close>

lemma claude_result_answers_oldest:
  assumes "cm_tracker s = tracker_run ops" and "tr_next_local_turn (cm_tracker s) < u64_max"
    and "tracked (cm_tracker s) \<noteq> []" and "ce_kind event = Result"
  shows "completions (fst (observe_event now event s)) = [hd (tracked (cm_tracker s))]
    \<and> tracked (cm_tracker (snd (observe_event now event s))) = tl (tracked (cm_tracker s))
    \<and> (Ready \<in> set (fst (observe_event now event s)) \<longleftrightarrow> tl (tracked (cm_tracker s)) = []
         \<and> (tr_initialized (cm_tracker s) \<or> tr_transport_started (cm_tracker s)))"
proof -
  let ?t = "cm_tracker s" and ?r = "claude_terminal_result_id event"
  have ok: "tracker_ok ?t" unfolding assms(1) by (rule tracker_run_ok)
  obtain st why where sig: "lifecycle_signal event = Some (TurnFinished st why)"
    using assms(4) by (auto simp: lifecycle_signal_def result_status_def)
  obtain es t where r: "note_terminal_result ?r st ?t = (es, t)" by (metis surj_pair)
  note head = terminal_completes_head [OF ok assms(2,3), of ?r st, unfolded r]
  obtain fatal where signal: "on_signal event s = (fatal @ es @ ready_if t, s\<lparr>cm_tracker := t\<rparr>)"
    and fatal: "completions fatal = [] \<and> Ready \<notin> set fatal"
    using sig r by (cases "claude_terminal_failure_message event") (auto simp: on_signal_def)
  obtain shown where shown: "completions shown = []" "Ready \<notin> set shown"
    and obs: "observe_event now event s = (shown @ fatal @ es @ ready_if t, s\<lparr>cm_tracker := t\<rparr>)"
  proof
    let ?shown = "map ProviderEvent (with_visible_body None
      (into_provider_event_drafts (provider_context now s) event))"
    show "completions ?shown = []" "Ready \<notin> set ?shown" by auto
    show "observe_event now event s = (?shown @ fatal @ es @ ready_if t, s\<lparr>cm_tracker := t\<rparr>)"
      using assms(4) sig signal held_not_completed [OF ok assms(2,3)]
      by (simp add: observe_event_def on_turn_start_def on_limits_def)
  qed
  have "Ready \<in> set (ready_if t) \<longleftrightarrow> tl (tracked ?t) = [] \<and> (tr_initialized ?t \<or> tr_transport_started ?t)"
    using head terminal_flags [of ?r st ?t] r by (auto simp: ready_if_def tracked_ready)
  moreover have "Ready \<notin> set es" using terminal_no_ready [of ?r st ?t] r by simp
  ultimately show ?thesis using head obs shown fatal by simp
qed

text \<open>
  An input Claude takes in at a tool boundary, into the turn already running, is acknowledged at
  once and leaves the queue, so it never waits for a turn of its own: the running turn's next result
  completes that turn's input, and the tracker is then waiting only for what was written later.
\<close>

lemma claude_merged_input_joins_turn:
  assumes "t = tracker_run ops" and "tr_next_local_turn t < u64_max"
    and "tr_active_turn t = Some a" and "ti_content a \<noteq> text \<or> ti_acknowledged a"
    and "tr_written_inputs t = i # rest" and "ti_content i = text"
    and "note_replayed_user text t = (es, t1)"
  shows "es = [InputAcknowledged (ti_local_input_id i)]
    \<and> completions (fst (note_terminal_result r st t1)) = [ti_local_input_id a]
    \<and> tracked (snd (note_terminal_result r st t1)) = map ti_local_input_id rest"
proof -
  have t1: "es = [InputAcknowledged (ti_local_input_id i)]" "t1 = t\<lparr>tr_written_inputs := rest\<rparr>"
    using assms(3-7) by (auto simp: note_replayed_user_def replay_into_turn_def front_is_def)
  have "tracker_ok t1"
    using tracker_run_ok [of "ops @ [NoteReplayedUser text]"] assms(1,7)
    by (simp add: tracker_run_def)
  moreover have "tracked t1 = ti_local_input_id a # map ti_local_input_id rest"
    using assms(3) by (simp add: t1 tracked_def)
  moreover have "tr_next_local_turn t1 < u64_max" using assms(2) by (simp add: t1)
  ultimately show ?thesis using terminal_completes_head [of t1 r st] t1(1) by simp
qed

text \<open>
  C5. Plan mode keeps the tree read-only through the permission channel: once the mode is set to
  plan, an ask for a tool that writes files is denied without asking the user and the reply sent for
  it carries a denial; every other permission is approved and its reply hands back the very input
  Claude asked about; questions and plan reviews always go to the user.
\<close>

theorem claude_plan_mode_denies_edits:
  assumes "s1 = snd (claude_plan_control (SetPermissionMode (Some ''plan'')) s)"
    and "from_str line = Some value"
    and "control_request_interaction from_str line s1 = (Some draft, s2)"
  defines "tool \<equiv> unwrap_or (string_at value [''request'', ''tool_name'']) []"
    and "asked \<equiv> unwrap_or (jpath value [''request'', ''input'']) JNull"
    and "reply r \<equiv> fst (control_response_for (id_native_id draft) r s2)"
  shows "(auto_resolution_for draft s2 = None \<longleftrightarrow> tool \<in> {''ExitPlanMode'', ''AskUserQuestion''})
    \<and> (claude_tool_mutates_workspace tool \<longrightarrow> (\<exists>why. auto_resolution_for draft s2 = Some (Deny (Some why))
         \<and> reply (Deny (Some why)) = claude_native_write (obj [(''type'', JStr ''control_response''),
              (''response'', obj [(''subtype'', JStr ''success''), (''request_id'', JStr (id_native_id draft)),
                (''response'', obj [(''behavior'', JStr ''deny''), (''message'', JStr why)])])])))
    \<and> (auto_resolution_for draft s2 = Some Approve \<longrightarrow> \<not> claude_tool_mutates_workspace tool
         \<and> reply Approve = claude_native_write (obj [(''type'', JStr ''control_response''),
              (''response'', obj [(''subtype'', JStr ''success''), (''request_id'', JStr (id_native_id draft)),
                (''response'', obj [(''behavior'', JStr ''allow''), (''updatedInput'', asked)])])]))"
proof -
  have plan: "cm_plan_mode s1"
    unfolding assms(1)
    by (simp add: claude_plan_control_def Let_def set_permission_mode_write_def split: prod.split)
  have plan2: "cm_plan_mode s2"
    using assms(3) plan by (auto simp: control_request_interaction_def Let_def
      split: option.splits if_splits prod.splits)
  have draft: "id_kind draft = claude_interaction_kind tool" "id_native_request draft = value"
    "cm_pending_interactions s2 (id_native_id draft) = Some asked"
    using assms(2,3) by (auto simp: control_request_interaction_def Let_def tool_def asked_def
      split: option.splits if_splits prod.splits)
  have kinds: "claude_interaction_kind tool = ProviderInteractionKind.Permission \<longleftrightarrow>
      tool \<notin> {''ExitPlanMode'', ''AskUserQuestion''}"
    by (simp add: claude_interaction_kind_def)
  have "claude_tool_mutates_workspace tool \<longrightarrow> tool \<notin> {''ExitPlanMode'', ''AskUserQuestion''}"
    by (auto simp: claude_tool_mutates_workspace_def)
  with draft kinds plan2 show ?thesis
    by (auto simp: auto_resolution_for_def tool_def [symmetric] reply_def control_response_for_def
      control_response_def)
qed

section \<open>Witnesses\<close>

definition claude_demo_context :: HarnessAdapterContext where
  "claude_demo_context = \<lparr>ac_session_id = 7, ac_thread_id = 11, ac_workspace = ''berlin'',
     ac_native_session_id = None,
     ac_controls = \<lparr>dc_model = None, dc_effort = None, dc_permission_mode = None, dc_fast_mode = None\<rparr>\<rparr>"

definition demo_result :: ClaudeProviderEventDraft where
  "demo_result = \<lparr>ce_provider = ''claude'', ce_kind = Result, ce_provider_event_id = Some ''r1'',
     ce_session_id = None, ce_parent_tool_use_id = None, ce_provider_message_id = None,
     ce_provider_tool_use_id = None, ce_tool_target = None, ce_content_block_index = None,
     ce_tool_name = None, ce_content_delta = None, ce_cost_usd = None, ce_duration_ms = None,
     ce_subtype = None, ce_usage = usage_default, ce_reasoning_blocks = [],
     ce_background_agent = False, ce_raw_json = JNull\<rparr>"

definition demo_ops :: "TrackerOp list" where
  "demo_ops = [NoteTransportStarted, NoteInputWritten ''a'' ''hi'' None, NoteReplayedUser ''hi'',
     NoteInputWritten ''b'' ''more'' None]"

lemma demo_tracker: "tracker_run demo_ops = \<lparr>tr_initialized = False, tr_transport_started = True,
    tr_next_local_turn = 2,
    tr_written_inputs = [\<lparr>ti_local_input_id = ''b'', ti_content = ''more'', ti_visible_content = None,
      ti_turn_id = 2, ti_acknowledged = False, ti_started = False\<rparr>],
    tr_active_turn = Some \<lparr>ti_local_input_id = ''a'', ti_content = ''hi'', ti_visible_content = None,
      ti_turn_id = 1, ti_acknowledged = True, ti_started = True\<rparr>,
    tr_completed_result_ids = {}\<rparr>"
  by (simp add: tracker_run_def demo_ops_def tracker_default_def note_transport_started_def
    note_input_written_def saturating_add_def note_replayed_user_def front_is_def pop_into_active_def
    replay_into_turn_def echo_active_def Let_def)

theorem claude_completes_exactly_once_witness:
  "\<exists>effs given s'. claude.adapter_run (\<lambda>_. None) 0 [Inl demo_input, Inl demo_input] (claude_new claude_demo_context)
     = (effs, given, s') \<and> given = [''a'', ''a'']
     \<and> mset (completions effs) + mset (claude_open_inputs s') \<subseteq># mset [''a'', ''a'']"
proof -
  let ?run = "claude.adapter_run (\<lambda>_. None) 0 [Inl demo_input, Inl demo_input] (claude_new claude_demo_context)"
  obtain effs given s' where run: "?run = (effs, given, s')" by (metis surj_pair)
  have "given = [''a'', ''a'']"
    using run by (auto simp: claude_encode_input_def demo_input_def)
  with claude_completes_exactly_once [OF run] run show ?thesis by auto
qed

definition demo_ask :: json where
  "demo_ask = JObj [(''request'', JObj [(''subtype'', JStr ''can_use_tool''), (''tool_name'', JStr ''Write'')]),
     (''request_id'', JStr ''q1''), (''type'', JStr ''control_request'')]"

theorem claude_plan_mode_denies_edits_witness:
  "\<exists>draft why. fst (control_request_interaction (\<lambda>_. Some demo_ask) ''x''
       (snd (claude_plan_control (SetPermissionMode (Some ''plan'')) (claude_new claude_demo_context)))) = Some draft
     \<and> auto_resolution_for draft (snd (control_request_interaction (\<lambda>_. Some demo_ask) ''x''
         (snd (claude_plan_control (SetPermissionMode (Some ''plan'')) (claude_new claude_demo_context)))))
       = Some (Deny (Some why))"
proof -
  let ?s1 = "snd (claude_plan_control (SetPermissionMode (Some ''plan'')) (claude_new claude_demo_context))"
  obtain draft s2 where d: "control_request_interaction (\<lambda>_. Some demo_ask) ''x'' ?s1 = (Some draft, s2)"
    by (simp add: control_request_interaction_def string_at_def demo_ask_def claude_interaction_kind_def Let_def)
  have "unwrap_or (string_at demo_ask [''request'', ''tool_name'']) [] = ''Write''"
    "claude_tool_mutates_workspace ''Write''"
    by (simp_all add: demo_ask_def string_at_def claude_tool_mutates_workspace_def)
  with claude_plan_mode_denies_edits [OF refl refl d] d show ?thesis by simp blast
qed

end
