(* ===== verification/Provider_Inputs.thy ===== *)
theory Provider_Inputs
  imports Prelude
begin

text \<open>
  The delivery ledger of provider inputs (\<open>crates/core/src/provider_inputs.rs\<close>): a row per input the
  daemon hands to an agent, moved along \<open>queued\<close>, \<open>written\<close>, \<open>acknowledged\<close> and \<open>terminal\<close> or
  \<open>failed\<close> by guarded updates. The table is the list of its rows, keyed by id; the clock is an
  argument; the foreign keys of the schema are taken to hold.
\<close>

datatype ProviderInputState = Queued | Written | Acknowledged | Terminal | Failed

fun input_state_str :: "ProviderInputState \<Rightarrow> string" where
  "input_state_str Queued = ''queued''"
| "input_state_str Written = ''written''"
| "input_state_str Acknowledged = ''acknowledged''"
| "input_state_str Terminal = ''terminal''"
| "input_state_str Failed = ''failed''"

definition input_state_from_str :: "string \<Rightarrow> ProviderInputState" where
  "input_state_from_str value =
     (if value = ''written'' then Written else if value = ''acknowledged'' then Acknowledged
      else if value = ''terminal'' then Terminal else if value = ''failed'' then Failed else Queued)"

record ProviderInputInput =
  pin_id :: string
  pin_provider :: string
  pin_thread_id :: int
  pin_process_id :: int
  pin_native_session_id :: "string option"
  pin_input_kind :: string
  pin_delivery :: string
  pin_provider_input :: string
  pin_visible_input :: "string option"

record ProviderInputRecord =
  pir_input :: ProviderInputInput
  pir_state :: ProviderInputState
  pir_acknowledgement :: "string option"
  pir_error :: "string option"
  pir_created_at :: string
  pir_updated_at :: string

definition pir_id :: "ProviderInputRecord \<Rightarrow> string" where
  "pir_id r = pin_id (pir_input r)"

definition get_input :: "string \<Rightarrow> ProviderInputRecord list \<Rightarrow> ProviderInputRecord option" where
  "get_input i rows = find (\<lambda>r. pir_id r = i) rows"

text \<open>\<open>INSERT OR IGNORE\<close>, then the row under that id.\<close>

definition enqueue :: "string \<Rightarrow> ProviderInputInput \<Rightarrow> ProviderInputRecord list \<Rightarrow>
    ProviderInputRecord \<times> ProviderInputRecord list" where
  "enqueue now input rows = (case get_input (pin_id input) rows of
      Some r \<Rightarrow> (r, rows)
    | None \<Rightarrow> (let r = \<lparr>pir_input = input, pir_state = Queued, pir_acknowledgement = None,
                      pir_error = None, pir_created_at = now, pir_updated_at = now\<rparr>
             in (r, rows @ [r])))"

fun valid_prior_states :: "ProviderInputState \<Rightarrow> ProviderInputState list" where
  "valid_prior_states Queued = []"
| "valid_prior_states Written = [Queued]"
| "valid_prior_states Acknowledged = [Written]"
| "valid_prior_states Terminal = [Written, Acknowledged]"
| "valid_prior_states Failed = [Queued, Written, Acknowledged]"

definition coalesce :: "'a option \<Rightarrow> 'a option \<Rightarrow> 'a option" where
  "coalesce new old = (case new of Some x \<Rightarrow> Some x | None \<Rightarrow> old)"

definition update_state :: "string \<Rightarrow> string \<Rightarrow> ProviderInputState \<Rightarrow> string option \<Rightarrow> string option \<Rightarrow>
    ProviderInputRecord list \<Rightarrow> (string + unit) \<times> ProviderInputRecord list" where
  "update_state now i state acknowledgement error rows =
     (if valid_prior_states state = []
      then (Inl (''provider input '' @ i @ '' cannot transition to '' @ input_state_str state), rows)
      else (let p = (\<lambda>r. pir_id r = i \<and> pir_state r \<in> set (valid_prior_states state)) in
        (if count_where p rows \<noteq> 1
         then Inl (''provider input '' @ i @ '' missing or not in a valid prior state for '' @ input_state_str state)
         else Inr (),
         update_where p (\<lambda>r. r\<lparr>pir_state := state,
             pir_acknowledgement := coalesce acknowledgement (pir_acknowledgement r),
             pir_error := coalesce error (pir_error r), pir_updated_at := now\<rparr>) rows)))"

definition mark_written where
  "mark_written now i = update_state now i Written None None"

definition mark_acknowledged where
  "mark_acknowledged now i acknowledgement = update_state now i Acknowledged acknowledgement None"

definition mark_terminal where
  "mark_terminal now i = update_state now i Terminal None None"

definition mark_failed where
  "mark_failed now i error = update_state now i Failed None (Some error)"

datatype InputOp =
    Enqueue string ProviderInputInput
  | MarkWritten string string
  | MarkAcknowledged string string "string option"
  | MarkTerminal string string
  | MarkFailed string string string

fun input_step :: "ProviderInputRecord list \<Rightarrow> InputOp \<Rightarrow> ProviderInputRecord list" where
  "input_step rows (Enqueue now input) = snd (enqueue now input rows)"
| "input_step rows (MarkWritten now i) = snd (mark_written now i rows)"
| "input_step rows (MarkAcknowledged now i a) = snd (mark_acknowledged now i a rows)"
| "input_step rows (MarkTerminal now i) = snd (mark_terminal now i rows)"
| "input_step rows (MarkFailed now i e) = snd (mark_failed now i e rows)"

definition input_run :: "InputOp list \<Rightarrow> ProviderInputRecord list \<Rightarrow> ProviderInputRecord list" where
  "input_run ops rows = fold (\<lambda>op rows. input_step rows op) ops rows"

section \<open>Lemmas\<close>

lemmas mark_defs = mark_written_def mark_acknowledged_def mark_terminal_def mark_failed_def

definition inputs_ok :: "ProviderInputRecord list \<Rightarrow> bool" where
  "inputs_ok rows \<longleftrightarrow> keyed pir_id rows"

definition final :: "ProviderInputState \<Rightarrow> bool" where
  "final st \<longleftrightarrow> st = Terminal \<or> st = Failed"

definition state_of :: "string \<Rightarrow> ProviderInputRecord list \<Rightarrow> ProviderInputState option" where
  "state_of i rows = map_option pir_state (get_input i rows)"

lemma update_state_rows:
  "snd (update_state now i st a e rows) =
     update_where (\<lambda>r. pir_id r = i \<and> pir_state r \<in> set (valid_prior_states st))
       (\<lambda>r. r\<lparr>pir_state := st, pir_acknowledgement := coalesce a (pir_acknowledgement r),
          pir_error := coalesce e (pir_error r), pir_updated_at := now\<rparr>) rows"
  by (auto simp: update_state_def Let_def update_where_def intro!: map_idI [symmetric])

lemma get_update_state:
  "get_input j (snd (update_state now i st a e rows)) = map_option
     (\<lambda>r. if pir_id r = i \<and> pir_state r \<in> set (valid_prior_states st)
        then r\<lparr>pir_state := st, pir_acknowledgement := coalesce a (pir_acknowledgement r),
          pir_error := coalesce e (pir_error r), pir_updated_at := now\<rparr> else r) (get_input j rows)"
  unfolding update_state_rows get_input_def by (rule update_where_find) (simp add: pir_id_def)

lemma get_input_id: "get_input i rows = Some r \<Longrightarrow> pir_id r = i"
  by (auto simp: get_input_def find_Some_iff)

lemma get_enqueue:
  "get_input j (snd (enqueue now input rows)) =
     (case get_input j rows of Some r \<Rightarrow> Some r
      | None \<Rightarrow> if j = pin_id input then Some (fst (enqueue now input rows)) else None)"
proof -
  have "find P (xs @ [x]) = (case find P xs of Some y \<Rightarrow> Some y | None \<Rightarrow> if P x then Some x else None)"
    for P and x :: ProviderInputRecord and xs by (induction xs) auto
  then show ?thesis
    by (auto simp: enqueue_def get_input_def Let_def pir_id_def split: option.split)
qed

lemma update_state_ok: "inputs_ok rows \<Longrightarrow> inputs_ok (snd (update_state now i st a e rows))"
  unfolding inputs_ok_def keyed_def update_state_rows
  by (subst update_where_keyed) (simp_all add: pir_id_def)

lemma enqueue_ok: "inputs_ok rows \<Longrightarrow> inputs_ok (snd (enqueue now input rows))"
  by (auto simp: inputs_ok_def keyed_def enqueue_def get_input_def Let_def find_None_iff pir_id_def
    split: option.splits)

interpretation inputs: closed_machine input_step inputs_ok
proof
  fix rows :: "ProviderInputRecord list" and op
  assume "inputs_ok rows"
  then show "inputs_ok (input_step rows op)"
    by (cases op) (simp_all add: enqueue_ok mark_defs update_state_ok)
qed

interpretation delivery: terminal_machine input_step "state_of i" "\<lambda>st. \<exists>s. st = Some s \<and> final s" for i
proof
  fix rows :: "ProviderInputRecord list" and op
  assume "\<exists>s. state_of i rows = Some s \<and> final s"
  then obtain r where r: "get_input i rows = Some r" "final (pir_state r)"
    by (auto simp: state_of_def)
  then show "state_of i (input_step rows op) = state_of i rows"
    by (cases op) (auto simp: state_of_def mark_defs get_update_state get_enqueue final_def)
qed

section \<open>Properties\<close>

text \<open>The steps an input's state may take.\<close>

fun may_follow :: "ProviderInputState \<Rightarrow> ProviderInputState \<Rightarrow> bool" where
  "may_follow Queued s \<longleftrightarrow> s = Written \<or> s = Failed"
| "may_follow Written s \<longleftrightarrow> s = Acknowledged \<or> s = Terminal \<or> s = Failed"
| "may_follow Acknowledged s \<longleftrightarrow> s = Terminal \<or> s = Failed"
| "may_follow Terminal s \<longleftrightarrow> False"
| "may_follow Failed s \<longleftrightarrow> False"

lemma prior_may_follow: "t \<in> set (valid_prior_states s) \<longleftrightarrow> may_follow t s"
  by (cases s; cases t) auto

lemma step_keeps_record:
  assumes "get_input i rows = Some r"
  shows "\<exists>r'. get_input i (input_step rows op) = Some r' \<and> pir_input r' = pir_input r
    \<and> pir_created_at r' = pir_created_at r
    \<and> (pir_state r' = pir_state r \<or> may_follow (pir_state r) (pir_state r'))
    \<and> (pir_acknowledgement r \<noteq> None \<and> pir_state r \<noteq> Written \<longrightarrow> pir_acknowledgement r' = pir_acknowledgement r)"
  using assms
  by (cases op) (auto simp: mark_defs get_update_state get_enqueue prior_may_follow coalesce_def)

inductive follows :: "ProviderInputState \<Rightarrow> ProviderInputState \<Rightarrow> bool" where
  follows_refl: "follows s s"
| follows_step: "follows s t \<Longrightarrow> may_follow t u \<Longrightarrow> follows s u"

inductive_simps follows_from: "follows s t"

lemma follows_trans: "follows t u \<Longrightarrow> follows s t \<Longrightarrow> follows s u"
  by (induction rule: follows.induct) (auto intro: follows.intros)

lemma run_keeps_record:
  "get_input i rows = Some r \<Longrightarrow> \<exists>r'. get_input i (input_run ops rows) = Some r'
     \<and> pir_input r' = pir_input r \<and> pir_created_at r' = pir_created_at r \<and> follows (pir_state r) (pir_state r')"
proof (induction ops arbitrary: rows r)
  case Nil
  then show ?case by (auto simp: input_run_def intro: follows_refl)
next
  case (Cons op ops)
  obtain r1 where r1: "get_input i (input_step rows op) = Some r1" "pir_input r1 = pir_input r"
      "pir_created_at r1 = pir_created_at r" "pir_state r1 = pir_state r \<or> may_follow (pir_state r) (pir_state r1)"
    using step_keeps_record [OF Cons.prems] by blast
  then have "follows (pir_state r) (pir_state r1)" by (auto intro: follows.intros)
  moreover obtain r' where r': "get_input i (input_run ops (input_step rows op)) = Some r'"
      "pir_input r' = pir_input r1" "pir_created_at r' = pir_created_at r1" "follows (pir_state r1) (pir_state r')"
    using Cons.IH [OF r1(1)] by blast
  ultimately have "follows (pir_state r) (pir_state r')" by (blast intro: follows_trans)
  with r1 r' show ?case by (simp add: input_run_def)
qed

text \<open>
  C6. A provider input is never lost, rewritten or taken back: whatever is enqueued and marked later,
  its row stays, with the text it was enqueued with, and its state only moves forward along queued,
  written, acknowledged, terminal, or into failed; enqueueing the same id again changes nothing.
\<close>

theorem provider_input_only_moves_forward:
  assumes "get_input i rows = Some r"
  shows "(\<exists>r'. get_input i (input_run ops rows) = Some r' \<and> pir_input r' = pir_input r
      \<and> pir_created_at r' = pir_created_at r \<and> follows (pir_state r) (pir_state r'))
    \<and> (pin_id input = i \<longrightarrow> enqueue now input rows = (r, rows))"
  using run_keeps_record [OF assms] assms by (auto simp: enqueue_def)

text \<open>
  A mark is applied or refused, never half done: on a table that grew from nothing it succeeds
  exactly when the input exists in a state the mark may follow, and when it is refused (unknown id,
  repeated or late mark) no row changes at all.
\<close>

lemma provider_input_mark_applied_or_refused:
  defines "rows ops \<equiv> input_run ops []"
  shows "(fst (update_state now i st a e (rows ops)) = Inr () \<longleftrightarrow>
      (\<exists>r. get_input i (rows ops) = Some r \<and> may_follow (pir_state r) st))
    \<and> ((\<exists>m. fst (update_state now i st a e (rows ops)) = Inl m) \<longrightarrow> snd (update_state now i st a e (rows ops)) = rows ops)"
proof -
  have keyed: "keyed pir_id (rows ops)"
    using inputs.closed_run [of "[]" ops] by (simp add: inputs_ok_def keyed_def rows_def input_run_def)
  define p where "p r \<longleftrightarrow> pir_id r = i \<and> may_follow (pir_state r) st" for r
  have le: "count_where p (rows ops) \<le> 1"
    unfolding p_def by (rule count_where_key_le_1 [OF keyed])
  have ex: "count_where p (rows ops) \<noteq> 0 \<longleftrightarrow> (\<exists>r. get_input i (rows ops) = Some r \<and> may_follow (pir_state r) st)"
    unfolding count_where_pos p_def get_input_def
    by (auto simp: keyed_find_iff [OF keyed])
  have none: "count_where p (rows ops) = 0 \<longrightarrow> update_where p f (rows ops) = rows ops" for f
    by (auto simp: count_where_def update_where_def filter_empty_conv intro!: map_idI)
  have "valid_prior_states st = [] \<longleftrightarrow> st = Queued" by (cases st) simp_all
  moreover have "may_follow t Queued = False" for t by (cases t) simp_all
  ultimately show ?thesis
    using le ex none unfolding update_state_def Let_def prior_may_follow p_def [symmetric]
    by (cases "count_where p (rows ops)") (auto simp: p_def)
qed

definition demo_provider_input :: ProviderInputInput where
  "demo_provider_input = \<lparr>pin_id = ''a'', pin_provider = ''claude'', pin_thread_id = 1, pin_process_id = 2,
     pin_native_session_id = None, pin_input_kind = ''user'', pin_delivery = ''auto'',
     pin_provider_input = ''hi'', pin_visible_input = None\<rparr>"

theorem provider_input_only_moves_forward_witness:
  "\<exists>r'. get_input ''a'' (input_run [MarkWritten ''2'' ''a'', MarkWritten ''3'' ''a'', MarkTerminal ''4'' ''a'']
      (input_run [Enqueue ''1'' demo_provider_input] [])) = Some r' \<and> pir_input r' = demo_provider_input"
proof -
  have "get_input ''a'' (input_run [Enqueue ''1'' demo_provider_input] []) =
      Some \<lparr>pir_input = demo_provider_input, pir_state = Queued, pir_acknowledgement = None,
        pir_error = None, pir_created_at = ''1'', pir_updated_at = ''1''\<rparr>"
    by (simp add: input_run_def enqueue_def get_input_def demo_provider_input_def pir_id_def Let_def)
  from provider_input_only_moves_forward [OF this, of "[MarkWritten ''2'' ''a'', MarkWritten ''3'' ''a'',
      MarkTerminal ''4'' ''a'']"] show ?thesis by auto
qed

end
