(* ===== verification/Provider_Interactions.thy ===== *)
theory Provider_Interactions
  imports Harness_Contract Provider_Inputs
begin

text \<open>
  The store of provider interactions (\<open>crates/core/src/provider_interactions.rs\<close>): the questions,
  permissions and plan reviews an agent waits on. A pending ask is registered once per request,
  answered once, and marked consumed once its answer has gone back to the agent.

  Parameters: \<open>fp\<close> is \<open>request_fingerprint\<close> (the standard library's hash of the request's
  identity), the clock and the fresh uuid of a row are arguments.
\<close>

datatype ProviderInteractionStatus = Pending | Allowed | Denied | Answered | Expired | Failed

fun interaction_status_str :: "ProviderInteractionStatus \<Rightarrow> string" where
  "interaction_status_str Pending = ''pending''"
| "interaction_status_str Allowed = ''allowed''"
| "interaction_status_str Denied = ''denied''"
| "interaction_status_str Answered = ''answered''"
| "interaction_status_str Expired = ''expired''"
| "interaction_status_str Failed = ''failed''"

definition interaction_status_from_str :: "string \<Rightarrow> string + ProviderInteractionStatus" where
  "interaction_status_from_str value =
     (if value = ''pending'' then Inr Pending else if value = ''allowed'' then Inr Allowed
      else if value = ''denied'' then Inr Denied else if value = ''answered'' then Inr Answered
      else if value = ''expired'' then Inr Expired else if value = ''failed'' then Inr Failed
      else Inl (''unknown provider interaction status '' @ value))"

record ProviderInteractionRecord =
  pi_id :: string
  pi_request :: ProviderInteractionDraft
  pi_plan_path :: "string option"
  pi_request_fingerprint :: string
  pi_status :: ProviderInteractionStatus
  pi_resolution :: "ProviderInteractionResolution option"
  pi_native_response :: "json option"
  pi_error :: "string option"
  pi_created_at :: string
  pi_resolved_at :: "string option"
  pi_consumed_at :: "string option"

type_synonym interactions = "ProviderInteractionRecord list"

definition get_interaction :: "string \<Rightarrow> interactions \<Rightarrow> ProviderInteractionRecord option" where
  "get_interaction i rows = find (\<lambda>r. pi_id r = i) rows"

text \<open>The unique index on the fingerprint of pending rows leaves at most one row to choose from.\<close>

definition find_pending_by_fingerprint :: "string \<Rightarrow> interactions \<Rightarrow> ProviderInteractionRecord option" where
  "find_pending_by_fingerprint f rows =
     find (\<lambda>r. pi_request_fingerprint r = f \<and> pi_status r = Pending) rows"

definition register :: "(ProviderInteractionDraft \<Rightarrow> string) \<Rightarrow> string \<Rightarrow> string \<Rightarrow> ProviderInteractionDraft \<Rightarrow>
    interactions \<Rightarrow> (string + ProviderInteractionRecord) \<times> interactions" where
  "register fp now uuid draft rows = (case find_pending_by_fingerprint (fp draft) rows of
      Some existing \<Rightarrow> (Inr existing, rows)
    | None \<Rightarrow>
      if get_interaction uuid rows \<noteq> None
      then (Inl ''pending provider interaction conflict not found'', rows)
      else (let r = \<lparr>pi_id = uuid, pi_request = draft, pi_plan_path = None,
              pi_request_fingerprint = fp draft, pi_status = Pending, pi_resolution = None,
              pi_native_response = None, pi_error = None, pi_created_at = now,
              pi_resolved_at = None, pi_consumed_at = None\<rparr>
            in (Inr r, rows @ [r])))"

definition expire :: "string \<Rightarrow> string \<Rightarrow> interactions \<Rightarrow> interactions" where
  "expire now i rows = update_where (\<lambda>r. pi_id r = i \<and> pi_status r = Pending)
     (\<lambda>r. r\<lparr>pi_status := Expired, pi_resolved_at := Some now,
            pi_error := Some ''the agent session ended before this was answered''\<rparr>) rows"

definition attach_plan_path :: "string \<Rightarrow> string \<Rightarrow> interactions \<Rightarrow> interactions" where
  "attach_plan_path i path rows = update_where (\<lambda>r. pi_id r = i) (\<lambda>r. r\<lparr>pi_plan_path := Some path\<rparr>) rows"

definition list_interactions :: "int option \<Rightarrow> bool \<Rightarrow> interactions \<Rightarrow> interactions" where
  "list_interactions thread_id pending_only rows = filter
     (\<lambda>r. (case thread_id of None \<Rightarrow> True | Some t \<Rightarrow> id_thread_id (pi_request r) = t)
        \<and> (pending_only \<longrightarrow> pi_status r = Pending)) rows"

fun status_for_resolution :: "ProviderInteractionResolution \<Rightarrow> ProviderInteractionStatus" where
  "status_for_resolution Approve = Allowed"
| "status_for_resolution ApproveForSession = Allowed"
| "status_for_resolution (Deny _) = Denied"
| "status_for_resolution (Answer _) = Answered"
| "status_for_resolution Defer = Pending"

definition resolve :: "string \<Rightarrow> string \<Rightarrow> ProviderInteractionResolution \<Rightarrow> interactions \<Rightarrow>
    (string + ProviderInteractionRecord) \<times> interactions" where
  "resolve now i resolution rows = (case get_interaction i rows of
      None \<Rightarrow> (Inl (''provider interaction '' @ i @ '' not found''), rows)
    | Some existing \<Rightarrow>
      if pi_status existing \<noteq> Pending then (Inr existing, rows)
      else (let rows' = update_where (\<lambda>r. pi_id r = i \<and> pi_status r = Pending)
              (\<lambda>r. r\<lparr>pi_status := status_for_resolution resolution, pi_resolution := Some resolution,
                     pi_resolved_at := Some now\<rparr>) rows
            in (case get_interaction i rows' of
                  None \<Rightarrow> Inl (''provider interaction '' @ i @ '' not found'') | Some r \<Rightarrow> Inr r, rows')))"

definition consume_resolution :: "string \<Rightarrow> string \<Rightarrow> json \<Rightarrow> interactions \<Rightarrow>
    (string + ProviderInteractionRecord) \<times> interactions" where
  "consume_resolution now i response rows =
     (let rows' = update_where (\<lambda>r. pi_id r = i)
            (\<lambda>r. r\<lparr>pi_native_response := coalesce (pi_native_response r) (Some response),
                   pi_consumed_at := coalesce (pi_consumed_at r) (Some now)\<rparr>) rows
      in (if count_where (\<lambda>r. pi_id r = i) rows \<noteq> 1
          then Inl (''provider interaction '' @ i @ '' not found'')
          else case get_interaction i rows' of
                 None \<Rightarrow> Inl (''provider interaction '' @ i @ '' not found'') | Some r \<Rightarrow> Inr r, rows'))"

datatype InteractionOp =
    Register string string ProviderInteractionDraft
  | Expire string string
  | AttachPlanPath string string
  | Resolve string string ProviderInteractionResolution
  | ConsumeResolution string string json

fun interaction_step :: "(ProviderInteractionDraft \<Rightarrow> string) \<Rightarrow> interactions \<Rightarrow> InteractionOp \<Rightarrow> interactions" where
  "interaction_step fp rows (Register now uuid draft) = snd (register fp now uuid draft rows)"
| "interaction_step fp rows (Expire now i) = expire now i rows"
| "interaction_step fp rows (AttachPlanPath i path) = attach_plan_path i path rows"
| "interaction_step fp rows (Resolve now i r) = snd (resolve now i r rows)"
| "interaction_step fp rows (ConsumeResolution now i v) = snd (consume_resolution now i v rows)"

definition interaction_run :: "(ProviderInteractionDraft \<Rightarrow> string) \<Rightarrow> InteractionOp list \<Rightarrow> interactions \<Rightarrow> interactions" where
  "interaction_run fp ops rows = fold (\<lambda>op rows. interaction_step fp rows op) ops rows"

section \<open>Lemmas\<close>

lemma get_update_where:
  "(\<And>r. pi_id (f r) = pi_id r) \<Longrightarrow> get_interaction i (update_where p f rows) =
     map_option (\<lambda>r. if p r then f r else r) (get_interaction i rows)"
  unfolding get_interaction_def by (rule update_where_find)

lemma get_interaction_id: "get_interaction i rows = Some r \<Longrightarrow> r \<in> set rows \<and> pi_id r = i"
  by (auto simp: get_interaction_def find_Some_iff)

lemma get_append: "get_interaction i (rows @ [r]) =
    (case get_interaction i rows of Some x \<Rightarrow> Some x | None \<Rightarrow> if pi_id r = i then Some r else None)"
  unfolding get_interaction_def by (induction rows) auto

lemma get_register: "get_interaction i rows = Some r \<Longrightarrow>
    get_interaction i (snd (register fp now uuid draft rows)) = Some r"
  by (auto simp: register_def Let_def get_append split: option.split)

text \<open>What one operation can do to a row: nothing once it is settled, and to a pending row only
  settle it.\<close>

lemma settled_step:
  assumes "get_interaction i rows = Some r" and "pi_status r \<noteq> Pending"
  shows "\<exists>r'. get_interaction i (interaction_step fp rows op) = Some r' \<and> pi_status r' = pi_status r
    \<and> pi_resolution r' = pi_resolution r \<and> pi_resolved_at r' = pi_resolved_at r \<and> pi_request r' = pi_request r"
proof (cases op)
  case (Resolve now j s)
  with assms show ?thesis
    by (auto simp: resolve_def Let_def get_update_where dest!: get_interaction_id split: option.split)
qed (use assms in \<open>auto simp: get_register expire_def attach_plan_path_def consume_resolution_def Let_def
  get_update_where\<close>)

definition status_of :: "string \<Rightarrow> interactions \<Rightarrow> (ProviderInteractionStatus \<times> ProviderInteractionResolution option) option" where
  "status_of i rows = map_option (\<lambda>r. (pi_status r, pi_resolution r)) (get_interaction i rows)"

interpretation answered: terminal_machine "interaction_step fp" "status_of i"
    "\<lambda>st. \<exists>s r. st = Some (s, r) \<and> s \<noteq> Pending" for fp and i
proof
  fix rows op
  assume "\<exists>s r. status_of i rows = Some (s, r) \<and> s \<noteq> Pending"
  then obtain r where "get_interaction i rows = Some r" "pi_status r \<noteq> Pending"
    by (auto simp: status_of_def)
  from settled_step [OF this, of fp op] this(1) show "status_of i (interaction_step fp rows op) = status_of i rows"
    by (auto simp: status_of_def)
qed

text \<open>At most one pending row per fingerprint, and one row per id: the indexes of the schema.\<close>

definition interactions_ok :: "interactions \<Rightarrow> bool" where
  "interactions_ok rows \<longleftrightarrow> keyed pi_id rows \<and>
     keyed pi_request_fingerprint (filter (\<lambda>r. pi_status r = Pending) rows)"

lemma update_ok:
  assumes ok: "interactions_ok rows"
    and f: "\<And>r. pi_id (f r) = pi_id r" "\<And>r. pi_request_fingerprint (f r) = pi_request_fingerprint r"
      "\<And>r. p r \<Longrightarrow> pi_status (f r) = Pending \<Longrightarrow> pi_status r = Pending"
  shows "interactions_ok (update_where p f rows)"
proof -
  have "subseq (map pi_request_fingerprint (filter (\<lambda>r. pi_status r = Pending) (update_where p f rows)))
      (map pi_request_fingerprint (filter (\<lambda>r. pi_status r = Pending) rows))"
    using f(2,3) by (induction rows) (auto simp: update_where_def)
  then obtain N where N: "map pi_request_fingerprint (filter (\<lambda>r. pi_status r = Pending) (update_where p f rows))
      = nths (map pi_request_fingerprint (filter (\<lambda>r. pi_status r = Pending) rows)) N"
    by (auto simp: subseq_conv_nths)
  show ?thesis
    using ok unfolding interactions_ok_def keyed_def N
    by (simp add: update_where_keyed f(1) distinct_nthsI)
qed

lemma step_ok:
  assumes ok: "interactions_ok rows"
  shows "interactions_ok (interaction_step fp rows op)"
proof (cases op)
  case (Register now uuid draft)
  show ?thesis
  proof (cases "find_pending_by_fingerprint (fp draft) rows = None \<and> get_interaction uuid rows = None")
    case True
    then have "uuid \<notin> pi_id ` set rows"
      "fp draft \<notin> pi_request_fingerprint ` set (filter (\<lambda>r. pi_status r = Pending) rows)"
      by (auto simp: find_pending_by_fingerprint_def get_interaction_def find_None_iff)
    with ok True show ?thesis
      by (simp add: Register register_def Let_def interactions_ok_def keyed_def)
  next
    case False
    with ok show ?thesis by (auto simp: Register register_def Let_def split: option.splits)
  qed
next
  case (Expire now i)
  with ok show ?thesis by (auto simp: expire_def intro!: update_ok)
next
  case (AttachPlanPath i path)
  with ok show ?thesis by (auto simp: attach_plan_path_def intro!: update_ok)
next
  case (Resolve now i r)
  with ok show ?thesis by (auto simp: resolve_def Let_def intro!: update_ok split: option.split)
next
  case (ConsumeResolution now i v)
  with ok show ?thesis by (auto simp: consume_resolution_def Let_def intro!: update_ok)
qed

interpretation interactions: closed_machine "interaction_step fp" interactions_ok for fp
  by unfold_locales (rule step_ok)

section \<open>Properties\<close>

text \<open>
  C7. The first answer wins: once an ask is resolved with anything but a deferral, the answer and its
  status stay what they are, whatever is registered, resolved, expired or consumed afterwards; a
  second answer is told the first one.
\<close>

theorem first_answer_wins:
  assumes "get_interaction i rows = Some r" and "pi_status r = Pending" and "answer \<noteq> Defer"
  shows "status_of i (interaction_run fp later (snd (resolve now i answer rows)))
      = Some (status_for_resolution answer, Some answer)
    \<and> (\<exists>r'. fst (resolve now' i other (interaction_run fp later (snd (resolve now i answer rows)))) = Inr r'
         \<and> pi_resolution r' = Some answer)"
proof -
  let ?rows = "snd (resolve now i answer rows)"
  have st: "status_of i ?rows = Some (status_for_resolution answer, Some answer)"
    using assms(1,2) get_interaction_id [OF assms(1)]
    by (simp add: resolve_def Let_def status_of_def get_update_where)
  have settled: "status_for_resolution answer \<noteq> Pending" using assms(3) by (cases answer) simp_all
  have later: "status_of i (interaction_run fp later ?rows) = status_of i ?rows"
    unfolding interaction_run_def by (rule answered.terminal_run) (simp add: st settled)
  then obtain r' where "get_interaction i (interaction_run fp later ?rows) = Some r'"
    "pi_status r' = status_for_resolution answer" "pi_resolution r' = Some answer"
    using st by (auto simp: status_of_def)
  with settled later st show ?thesis by (auto simp: resolve_def)
qed

text \<open>
  An ask is registered once: over any history of the store, there is never more than one pending
  row for the same request, and registering a request returns a pending row for it that is in the
  store, the same one when it is registered again before it is answered.
\<close>

lemma ask_registered_once:
  assumes "rows = interaction_run fp ops []"
  shows "interactions_ok rows
    \<and> (\<forall>r. fst (register fp now uuid draft rows) = Inr r \<longrightarrow>
         pi_status r = Pending \<and> pi_request_fingerprint r = fp draft
         \<and> r \<in> set (snd (register fp now uuid draft rows))
         \<and> register fp now' uuid' draft (snd (register fp now uuid draft rows))
             = (Inr r, snd (register fp now uuid draft rows)))"
proof -
  have find_app: "find P (xs @ [x]) = (case find P xs of Some y \<Rightarrow> Some y | None \<Rightarrow> if P x then Some x else None)"
    for P and x :: ProviderInteractionRecord and xs by (induction xs) auto
  have "interactions_ok rows"
    unfolding assms interaction_run_def
    by (rule interactions.closed_run) (simp add: interactions_ok_def keyed_def)
  moreover have "pi_status r = Pending \<and> pi_request_fingerprint r = fp draft
      \<and> r \<in> set (snd (register fp now uuid draft rows))
      \<and> register fp now' uuid' draft (snd (register fp now uuid draft rows))
          = (Inr r, snd (register fp now uuid draft rows))"
    if "fst (register fp now uuid draft rows) = Inr r" for r
    using that
    by (auto simp: register_def Let_def find_pending_by_fingerprint_def find_app split: option.splits if_splits
      dest!: find_Some_iff [THEN iffD1] intro: nth_mem)
  ultimately show ?thesis by blast
qed

definition demo_draft :: ProviderInteractionDraft where
  "demo_draft = \<lparr>id_provider_key = ''claude'', id_workspace = ''w'', id_thread_id = 1, id_session_id = 2,
     id_native_session_id = None, id_native_id = ''q1'', id_kind = Permission, id_title = ''t'',
     id_detail = [], id_questions = [], id_auto_resolution_ms = None, id_native_request = JNull\<rparr>"

definition demo_row :: ProviderInteractionRecord where
  "demo_row = \<lparr>pi_id = ''u1'', pi_request = demo_draft, pi_plan_path = None,
     pi_request_fingerprint = ''q1'', pi_status = Pending, pi_resolution = None, pi_native_response = None,
     pi_error = None, pi_created_at = ''1'', pi_resolved_at = None, pi_consumed_at = None\<rparr>"

theorem first_answer_wins_witness:
  "status_of ''u1'' (interaction_run id_native_id [Resolve ''3'' ''u1'' (Deny None), Expire ''4'' ''u1'']
     (snd (resolve ''2'' ''u1'' Approve [demo_row]))) = Some (Allowed, Some Approve)"
  using first_answer_wins [of "''u1''" "[demo_row]" demo_row Approve id_native_id
      "[Resolve ''3'' ''u1'' (Deny None), Expire ''4'' ''u1'']" "''2''" "''5''" Defer]
  by (simp add: get_interaction_def demo_row_def)

end
