(* ===== verification/Chat_Queue.thy ===== *)
theory Chat_Queue
  imports Harness_Contract
begin

text \<open>
  The durable queue of chat inputs (the \<open>chat_queued_inputs\<close> operations of
  \<open>crates/core/src/workspace.rs\<close>): inputs waiting for a session, in the order of their row ids. The
  table is the list of its rows. Its \<open>id\<close> is an \<open>INTEGER PRIMARY KEY\<close> without \<open>AUTOINCREMENT\<close>: a new
  row gets one more than the largest id present, and 1 in an empty table, so ids are reused.

  The lemmas show that the queue of every thread is first in, first out, and what reordering,
  removal and putting a claimed input back do to it. The update of the thread's \<open>updated_at\<close>
  (\<open>touch_chat_thread\<close>) is left out; ids are unbounded integers.
\<close>

section \<open>The table\<close>

record QueuedChatInputRecord =
  qi_id :: int
  qi_thread_id :: int
  qi_input :: string
  qi_visible_input :: "string option"
  qi_input_kind :: ArchcarInputKind
  qi_session_kind :: string
  qi_created_at :: string
  qi_updated_at :: string

type_synonym queue = "QueuedChatInputRecord list"

definition next_row_id :: "queue \<Rightarrow> int" where
  "next_row_id rows = sql_next qi_id rows"

definition enqueue_chat_input :: "string \<Rightarrow> int \<Rightarrow> string \<Rightarrow> string option \<Rightarrow> ArchcarInputKind \<Rightarrow> string \<Rightarrow>
    queue \<Rightarrow> (string + QueuedChatInputRecord) \<times> queue" where
  "enqueue_chat_input now thread_id input visible_input input_kind session_kind rows =
     (let input' = trim input in
      if input' = [] then (Inl ''queued chat input cannot be empty'', rows)
      else (let r = \<lparr>qi_id = next_row_id rows, qi_thread_id = thread_id, qi_input = input',
              qi_visible_input = visible_input, qi_input_kind = input_kind,
              qi_session_kind = session_kind, qi_created_at = now, qi_updated_at = now\<rparr>
            in (Inr r, rows @ [r])))"

definition list_queued_chat_inputs :: "int \<Rightarrow> queue \<Rightarrow> queue" where
  "list_queued_chat_inputs thread_id rows = sort_key qi_id (filter (\<lambda>r. qi_thread_id r = thread_id) rows)"

definition list_queued_chat_thread_ids :: "queue \<Rightarrow> int list" where
  "list_queued_chat_thread_ids rows = remdups (sort (map qi_thread_id rows))"

definition peek_next_queued_chat_input :: "int \<Rightarrow> queue \<Rightarrow> QueuedChatInputRecord option" where
  "peek_next_queued_chat_input thread_id rows =
     (case list_queued_chat_inputs thread_id rows of [] \<Rightarrow> None | r # _ \<Rightarrow> Some r)"

definition claim_next_queued_chat_input :: "int \<Rightarrow> queue \<Rightarrow> QueuedChatInputRecord option \<times> queue" where
  "claim_next_queued_chat_input thread_id rows =
     (case peek_next_queued_chat_input thread_id rows of None \<Rightarrow> (None, rows)
      | Some r \<Rightarrow> (Some r, delete_where (\<lambda>x. qi_id x = qi_id r) rows))"

definition min_id :: "queue \<Rightarrow> int option" where
  "min_id rows = (case map qi_id rows of [] \<Rightarrow> None | i # is \<Rightarrow> Some (fold min is i))"

definition restore_id :: "QueuedChatInputRecord \<Rightarrow> queue \<Rightarrow> int" where
  "restore_id input rows =
     (if qi_id input \<notin> qi_id ` set rows then qi_id input
      else (case min_id rows of Some i \<Rightarrow> i | None \<Rightarrow> qi_id input) - 1)"

definition requeue_claimed_chat_input_front :: "string \<Rightarrow> QueuedChatInputRecord \<Rightarrow> queue \<Rightarrow> queue" where
  "requeue_claimed_chat_input_front now input rows =
     rows @ [input\<lparr>qi_id := restore_id input rows, qi_updated_at := now\<rparr>]"

definition get_queued_chat_input :: "int \<Rightarrow> queue \<Rightarrow> QueuedChatInputRecord option" where
  "get_queued_chat_input i rows = find (\<lambda>r. qi_id r = i) rows"

definition delete_queued_chat_input :: "int \<Rightarrow> queue \<Rightarrow> QueuedChatInputRecord option \<times> queue" where
  "delete_queued_chat_input i rows = (case get_queued_chat_input i rows of
      None \<Rightarrow> (None, rows) | Some r \<Rightarrow> (Some r, delete_where (\<lambda>x. qi_id x = i) rows))"

definition remove_queued_chat_input_at :: "int \<Rightarrow> nat \<Rightarrow> queue \<Rightarrow> QueuedChatInputRecord option \<times> queue" where
  "remove_queued_chat_input_at thread_id index rows =
     (let l = list_queued_chat_inputs thread_id rows
      in if index < length l then delete_queued_chat_input (qi_id (l ! index)) rows else (None, rows))"

definition write_queued_payload :: "string \<Rightarrow> int \<Rightarrow> QueuedChatInputRecord \<Rightarrow> queue \<Rightarrow> queue" where
  "write_queued_payload now target_id src rows = update_where (\<lambda>r. qi_id r = target_id)
     (\<lambda>r. r\<lparr>qi_input := qi_input src, qi_visible_input := qi_visible_input src,
            qi_input_kind := qi_input_kind src, qi_session_kind := qi_session_kind src,
            qi_updated_at := now\<rparr>) rows"

definition swap_payloads :: "string \<Rightarrow> QueuedChatInputRecord \<Rightarrow> QueuedChatInputRecord \<Rightarrow> queue \<Rightarrow> queue" where
  "swap_payloads now current neighbor rows =
     write_queued_payload now (qi_id current) neighbor (write_queued_payload now (qi_id neighbor) current rows)"

definition move_queued_chat_input :: "string \<Rightarrow> int \<Rightarrow> bool \<Rightarrow> queue \<Rightarrow> int option \<times> queue" where
  "move_queued_chat_input now queue_id up rows = (case get_queued_chat_input queue_id rows of
      None \<Rightarrow> (None, rows)
    | Some record \<Rightarrow>
      (let thread_id = qi_thread_id record; l = list_queued_chat_inputs thread_id rows in
       case position (\<lambda>r. qi_id r = queue_id) l of None \<Rightarrow> (None, rows)
       | Some pos \<Rightarrow>
         if up then (if pos = 0 then (None, rows)
                     else (Some thread_id, swap_payloads now (l ! pos) (l ! (pos - 1)) rows))
         else (if length l \<le> pos + 1 then (None, rows)
               else (Some thread_id, swap_payloads now (l ! pos) (l ! (pos + 1)) rows))))"

section \<open>A first-in, first-out queue per key\<close>

text \<open>
  What the daemon relies on of the queue: pushing appends to the named key's queue, popping takes its
  head, and neither touches any other key's queue.
\<close>

datatype ('k, 'a) fifo_op = Push 'k 'a | Pop 'k

fun pushed :: "'k \<Rightarrow> ('k, 'a) fifo_op list \<Rightarrow> 'a list" where
  "pushed k [] = []"
| "pushed k (Push j x # ops) = (if j = k then x # pushed k ops else pushed k ops)"
| "pushed k (Pop j # ops) = pushed k ops"

locale keyed_fifo =
  fixes push :: "'k \<Rightarrow> 'a \<Rightarrow> 's \<Rightarrow> 's"
    and pop :: "'k \<Rightarrow> 's \<Rightarrow> 'a option \<times> 's"
    and view :: "'k \<Rightarrow> 's \<Rightarrow> 'a list"
    and ok :: "'s \<Rightarrow> bool"
    and valid :: "'a \<Rightarrow> bool"
    and stored :: "'a \<Rightarrow> 'a"
  assumes push_ok: "ok s \<Longrightarrow> ok (push k x s)"
    and pop_ok: "ok s \<Longrightarrow> ok (snd (pop k s))"
    and push_view: "ok s \<Longrightarrow> view j (push k x s) = (if j = k \<and> valid x then view k s @ [stored x] else view j s)"
    and pop_view: "ok s \<Longrightarrow> view j (snd (pop k s)) = (if j = k then tl (view k s) else view j s)"
    and pop_head: "ok s \<Longrightarrow> fst (pop k s) = (case view k s of [] \<Rightarrow> None | x # _ \<Rightarrow> Some x)"
begin

text \<open>A run: what each pop delivered, with its key, and the queue at the end.\<close>

fun fifo_run :: "('k, 'a) fifo_op list \<Rightarrow> 's \<Rightarrow> ('k \<times> 'a) list \<times> 's" where
  "fifo_run [] s = ([], s)"
| "fifo_run (Push k x # ops) s = fifo_run ops (push k x s)"
| "fifo_run (Pop k # ops) s = (let (ds, s') = fifo_run ops (snd (pop k s))
     in (case fst (pop k s) of None \<Rightarrow> ds | Some x \<Rightarrow> (k, x) # ds, s'))"

lemma fifo_order:
  "ok s \<Longrightarrow> fifo_run ops s = (ds, s') \<Longrightarrow>
     map snd (filter (\<lambda>d. fst d = k) ds) @ view k s' = view k s @ map stored (filter valid (pushed k ops))"
proof (induction ops s arbitrary: ds s' rule: fifo_run.induct)
  case (2 j x ops s)
  then have "map snd (filter (\<lambda>d. fst d = k) ds) @ view k s'
      = view k (push j x s) @ map stored (filter valid (pushed k ops))"
    by (simp add: push_ok)
  with "2.prems"(1) show ?case by (auto simp: push_view)
next
  case (3 j ops s)
  obtain ds1 s1 where run: "fifo_run ops (snd (pop j s)) = (ds1, s1)" by (metis surj_pair)
  have ih: "map snd (filter (\<lambda>d. fst d = k) ds1) @ view k s1
      = view k (snd (pop j s)) @ map stored (filter valid (pushed k ops))"
    using "3.IH" [OF pop_ok [OF "3.prems"(1)] run] .
  have eq: "ds = (case view j s of [] \<Rightarrow> ds1 | x # _ \<Rightarrow> (j, x) # ds1)" "s' = s1"
    using "3.prems" by (auto simp: run pop_head split: list.splits)
  show ?case
    using ih "3.prems"(1) by (cases "view j s") (auto simp: eq pop_view split: if_splits)
qed simp

end

section \<open>The table is such a queue\<close>

type_synonym payload = "string \<times> string option \<times> ArchcarInputKind \<times> string"

definition payload_of :: "QueuedChatInputRecord \<Rightarrow> payload" where
  "payload_of r = (qi_input r, qi_visible_input r, qi_input_kind r, qi_session_kind r)"

definition queue_ok :: "queue \<Rightarrow> bool" where
  "queue_ok rows \<longleftrightarrow> keyed qi_id rows"

definition waiting :: "int \<Rightarrow> queue \<Rightarrow> payload list" where
  "waiting thread_id rows = map payload_of (list_queued_chat_inputs thread_id rows)"

definition push_input :: "string \<Rightarrow> int \<Rightarrow> payload \<Rightarrow> queue \<Rightarrow> queue" where
  "push_input now k = (\<lambda>(input, visible, kind, session) rows.
     snd (enqueue_chat_input now k input visible kind session rows))"

definition pop_input :: "int \<Rightarrow> queue \<Rightarrow> payload option \<times> queue" where
  "pop_input k rows = (map_option payload_of (fst (claim_next_queued_chat_input k rows)),
     snd (claim_next_queued_chat_input k rows))"

definition valid_input :: "payload \<Rightarrow> bool" where
  "valid_input = (\<lambda>(input, _). trim input \<noteq> [])"

definition stored_input :: "payload \<Rightarrow> payload" where
  "stored_input = (\<lambda>(input, rest). (trim input, rest))"

lemma next_row_id_greater: "r \<in> set rows \<Longrightarrow> qi_id r < next_row_id rows"
  unfolding next_row_id_def by (rule sql_next_greater)

lemma list_delete: "list_queued_chat_inputs j (delete_where p rows) = filter (\<lambda>r. \<not> p r) (list_queued_chat_inputs j rows)"
  by (simp add: list_queued_chat_inputs_def delete_where_def filter_sort conj_commute)

lemma list_set: "set (list_queued_chat_inputs j rows) = {r \<in> set rows. qi_thread_id r = j}"
  by (auto simp: list_queued_chat_inputs_def)

lemma list_distinct: "queue_ok rows \<Longrightarrow> distinct (map qi_id (list_queued_chat_inputs j rows))"
proof -
  assume "queue_ok rows"
  then have "distinct (map qi_id (filter (\<lambda>r. qi_thread_id r = j) rows))"
    by (auto simp: queue_ok_def keyed_def distinct_map intro: inj_on_subset)
  then show ?thesis
    by (simp add: list_queued_chat_inputs_def) (metis distinct_sort distinct_map mset_sort set_sort)
qed

lemma same_row: "queue_ok rows \<Longrightarrow> r \<in> set rows \<Longrightarrow> x \<in> set rows \<Longrightarrow> qi_id r = qi_id x \<Longrightarrow> r = x"
  by (auto simp: queue_ok_def keyed_def distinct_map dest: inj_onD)

lemma list_push:
  assumes "trim input \<noteq> []"
  shows "list_queued_chat_inputs j (snd (enqueue_chat_input now k input v kind sk rows)) =
    list_queued_chat_inputs j rows @
      (if j = k then [the_elem {r. fst (enqueue_chat_input now k input v kind sk rows) = Inr r}] else [])"
proof -
  have "\<forall>y\<in>set (filter (\<lambda>r. qi_thread_id r = j) rows). qi_id y < next_row_id rows"
    using next_row_id_greater by auto
  then show ?thesis
    using assms by (auto simp: enqueue_chat_input_def Let_def list_queued_chat_inputs_def sort_key_snoc
      simp del: sort_key_simps)
qed

lemma list_claim:
  assumes ok: "queue_ok rows"
  shows "list_queued_chat_inputs j (snd (claim_next_queued_chat_input k rows)) =
    (if j = k then tl (list_queued_chat_inputs k rows) else list_queued_chat_inputs j rows)"
proof (cases "list_queued_chat_inputs k rows")
  case Nil
  then show ?thesis by (simp add: claim_next_queued_chat_input_def peek_next_queued_chat_input_def)
next
  case (Cons r rest)
  then have r: "r \<in> set rows" "qi_thread_id r = k"
    using list_set [of k rows] by auto
  have eq: "snd (claim_next_queued_chat_input k rows) = delete_where (\<lambda>x. qi_id x = qi_id r) rows"
    by (simp add: claim_next_queued_chat_input_def peek_next_queued_chat_input_def Cons)
  have "filter (\<lambda>x. qi_id x \<noteq> qi_id r) (list_queued_chat_inputs k rows) = rest"
    using list_distinct [OF ok, of k] by (auto simp: Cons intro!: filter_True) (metis imageI)
  moreover have "filter (\<lambda>x. qi_id x \<noteq> qi_id r) (list_queued_chat_inputs j rows) = list_queued_chat_inputs j rows"
    if "j \<noteq> k"
  proof (rule filter_True, rule ballI)
    fix x assume "x \<in> set (list_queued_chat_inputs j rows)"
    then have "x \<in> set rows" "qi_thread_id x = j" by (simp_all add: list_set)
    with that r same_row [OF ok r(1), of x] show "qi_id x \<noteq> qi_id r" by auto
  qed
  ultimately show ?thesis by (simp add: eq list_delete Cons)
qed

lemma chat_enqueue_ok: "queue_ok rows \<Longrightarrow> queue_ok (snd (enqueue_chat_input now k input v kind sk rows))"
  using next_row_id_greater [of _ rows]
  by (fastforce simp: enqueue_chat_input_def Let_def queue_ok_def keyed_def)

lemma delete_ok: "queue_ok rows \<Longrightarrow> queue_ok (delete_where p rows)"
  by (auto simp: queue_ok_def keyed_def delete_where_def distinct_map intro: inj_on_subset)

lemma claim_ok: "queue_ok rows \<Longrightarrow> queue_ok (snd (claim_next_queued_chat_input k rows))"
  by (simp add: claim_next_queued_chat_input_def delete_ok split: option.split)

interpretation chat: keyed_fifo "push_input now" pop_input waiting queue_ok valid_input stored_input for now
proof
  fix rows :: queue and k :: int and x :: payload and j :: int
  assume ok: "queue_ok rows"
  obtain input v kind sk where x: "x = (input, v, kind, sk)" by (cases x)
  show "queue_ok (push_input now k x rows)" using ok by (simp add: push_input_def x chat_enqueue_ok)
  show "queue_ok (snd (pop_input k rows))" using ok by (simp add: pop_input_def claim_ok)
  show "waiting j (push_input now k x rows) =
      (if j = k \<and> valid_input x then waiting k rows @ [stored_input x] else waiting j rows)"
  proof (cases "trim input = []")
    case True
    then show ?thesis by (simp add: push_input_def x valid_input_def enqueue_chat_input_def)
  next
    case False
    from list_push [OF False, of j now k v kind sk rows] False show ?thesis
      by (simp add: push_input_def x valid_input_def stored_input_def waiting_def)
        (simp add: enqueue_chat_input_def Let_def payload_of_def)
  qed
  show "waiting j (snd (pop_input k rows)) = (if j = k then tl (waiting k rows) else waiting j rows)"
    using list_claim [OF ok, of j k] by (simp add: waiting_def pop_input_def map_tl)
  show "fst (pop_input k rows) = (case waiting k rows of [] \<Rightarrow> None | x # _ \<Rightarrow> Some x)"
    by (simp add: pop_input_def waiting_def claim_next_queued_chat_input_def peek_next_queued_chat_input_def
      split: list.split)
qed

section \<open>Putting a claimed input back\<close>

lemma list_insert_front:
  assumes "\<forall>x\<in>set (list_queued_chat_inputs (qi_thread_id r) rows). qi_id r < qi_id x"
  shows "list_queued_chat_inputs j (rows @ [r]) =
    (if j = qi_thread_id r then r # list_queued_chat_inputs j rows else list_queued_chat_inputs j rows)"
proof -
  define k where "k = qi_thread_id r"
  note assms = assms [folded k_def]
  have "sort_key qi_id (filter (\<lambda>x. qi_thread_id x = k) rows @ [r]) = r # list_queued_chat_inputs k rows"
  proof (rule properties_for_sort_key)
    show "mset (r # list_queued_chat_inputs k rows) = mset (filter (\<lambda>x. qi_thread_id x = k) rows @ [r])"
      by (simp add: list_queued_chat_inputs_def)
    fix y assume "y \<in> set (r # list_queued_chat_inputs k rows)"
    have stable: "filter (\<lambda>x. qi_id y = qi_id x) (list_queued_chat_inputs k rows)
        = filter (\<lambda>x. qi_id y = qi_id x) (filter (\<lambda>x. qi_thread_id x = k) rows)"
      using sort_key_stable [of qi_id "qi_id y" "filter (\<lambda>x. qi_thread_id x = k) rows"]
      by (simp add: eq_commute [of "qi_id y"] list_queued_chat_inputs_def)
    show "filter (\<lambda>x. qi_id y = qi_id x) (r # list_queued_chat_inputs k rows)
        = filter (\<lambda>x. qi_id y = qi_id x) (filter (\<lambda>x. qi_thread_id x = k) rows @ [r])"
    proof (cases "qi_id y = qi_id r")
      case True
      then have "filter (\<lambda>x. qi_id y = qi_id x) (list_queued_chat_inputs k rows) = []"
        using assms by (force simp: filter_empty_conv)
      with stable True show ?thesis by simp
    next
      case False
      with stable show ?thesis by simp
    qed
  next
    show "sorted (map qi_id (r # list_queued_chat_inputs k rows))"
      using assms by (auto simp: list_queued_chat_inputs_def less_imp_le)
  qed
  then show ?thesis by (auto simp: list_queued_chat_inputs_def k_def)
qed

lemma fold_min_lower: "fold min xs (x::int) \<le> x \<and> (\<forall>y\<in>set xs. fold min xs x \<le> y)"
proof (induction xs arbitrary: x)
  case (Cons a xs)
  from Cons [of "min a x"] show ?case by auto
qed simp

lemma min_id_lower: "r \<in> set rows \<Longrightarrow> \<exists>i. min_id rows = Some i \<and> i \<le> qi_id r"
  using fold_min_lower [of "map qi_id (tl rows)" "qi_id (hd rows)"]
  by (cases rows) (auto simp: min_id_def)

lemma restore_id_fresh: "restore_id r rows \<notin> qi_id ` set rows"
proof (cases "qi_id r \<in> qi_id ` set rows")
  case True
  then obtain i where i: "min_id rows = Some i" "\<forall>x\<in>set rows. i \<le> qi_id x"
    using min_id_lower [of _ rows] by (metis (no_types, lifting) imageE option.inject)
  then show ?thesis using True by (auto simp: restore_id_def)
next
  case False
  then show ?thesis by (simp add: restore_id_def)
qed

lemma restore_id_front:
  assumes "\<forall>x\<in>set (list_queued_chat_inputs k rows). qi_id r \<le> qi_id x"
  shows "\<forall>x\<in>set (list_queued_chat_inputs k rows). restore_id r rows < qi_id x"
proof
  fix x assume x: "x \<in> set (list_queued_chat_inputs k rows)"
  then have mem: "x \<in> set rows" by (simp add: list_set)
  show "restore_id r rows < qi_id x"
  proof (cases "qi_id r \<in> qi_id ` set rows")
    case True
    with min_id_lower [OF mem] show ?thesis by (auto simp: restore_id_def)
  next
    case False
    with mem have "qi_id x \<noteq> qi_id r" by (metis imageI)
    with assms x False show ?thesis by (force simp: restore_id_def)
  qed
qed

lemma requeue_ok: "queue_ok rows \<Longrightarrow> queue_ok (requeue_claimed_chat_input_front now r rows)"
  using restore_id_fresh [of r rows]
  by (simp add: requeue_claimed_chat_input_front_def queue_ok_def keyed_def)

lemma waiting_requeue:
  assumes "\<forall>x\<in>set (list_queued_chat_inputs (qi_thread_id r) rows). qi_id r \<le> qi_id x"
  shows "waiting j (requeue_claimed_chat_input_front now r rows) =
    (if j = qi_thread_id r then payload_of r # waiting j rows else waiting j rows)"
  using list_insert_front [of "r\<lparr>qi_id := restore_id r rows, qi_updated_at := now\<rparr>" rows j]
    restore_id_front [OF assms]
  by (simp add: requeue_claimed_chat_input_front_def waiting_def payload_of_def)

section \<open>Reordering\<close>

lemma insort_map: "insort_key f (g x) (map g xs) = map g (insort_key (\<lambda>y. f (g y)) x xs)"
  by (induction xs) auto

lemma sort_key_map: "sort_key f (map g xs) = map g (sort_key (\<lambda>y. f (g y)) xs)"
  by (induction xs) (simp_all add: insort_map)

lemma list_update_where:
  assumes "\<And>r. qi_id (f r) = qi_id r" "\<And>r. qi_thread_id (f r) = qi_thread_id r"
  shows "list_queued_chat_inputs j (update_where p f rows) = update_where p f (list_queued_chat_inputs j rows)"
proof -
  have "filter (\<lambda>r. qi_thread_id r = j) (update_where p f rows)
      = map (\<lambda>r. if p r then f r else r) (filter (\<lambda>r. qi_thread_id r = j) rows)"
    by (induction rows) (auto simp: update_where_def assms)
  moreover have "(\<lambda>r. qi_id (if p r then f r else r)) = qi_id" by (auto simp: assms)
  ultimately show ?thesis
    by (simp add: list_queued_chat_inputs_def sort_key_map update_where_def)
qed

lemma list_write: "list_queued_chat_inputs j (write_queued_payload now t src rows) =
    write_queued_payload now t src (list_queued_chat_inputs j rows)"
  unfolding write_queued_payload_def by (rule list_update_where) simp_all

lemma write_nth: "n < length l \<Longrightarrow> payload_of (write_queued_payload now t src l ! n) =
    (if qi_id (l ! n) = t then payload_of src else payload_of (l ! n))"
  and write_id: "n < length l \<Longrightarrow> qi_id (write_queued_payload now t src l ! n) = qi_id (l ! n)"
  and write_length [simp]: "length (write_queued_payload now t src l) = length l"
  by (simp_all add: write_queued_payload_def update_where_def payload_of_def)

text \<open>Writing two rows of one thread's list over each other exchanges the two payloads there.\<close>

lemma waiting_swap:
  assumes ok: "queue_ok rows" and l: "l = list_queued_chat_inputs k rows"
    and n: "n < length l" and m: "m < length l" and "n \<noteq> m"
  shows "waiting j (swap_payloads now (l ! n) (l ! m) rows) =
    (if j = k then (waiting k rows)[n := payload_of (l ! m), m := payload_of (l ! n)] else waiting j rows)"
proof (cases "j = k")
  case True
  have d: "distinct (map qi_id l)" unfolding l by (rule list_distinct [OF ok])
  then have ids: "qi_id (l ! a) = qi_id (l ! b) \<longleftrightarrow> a = b" if "a < length l" "b < length l" for a b
    using that by (metis length_map nth_eq_iff_index_eq nth_map)
  have "map payload_of (write_queued_payload now (qi_id (l ! n)) (l ! m)
      (write_queued_payload now (qi_id (l ! m)) (l ! n) l))
      = (map payload_of l)[n := payload_of (l ! m), m := payload_of (l ! n)]"
    by (rule nth_equalityI) (use n m assms(5) ids in \<open>auto simp: write_nth write_id nth_list_update\<close>)
  with True show ?thesis by (simp add: waiting_def swap_payloads_def list_write l [symmetric])
next
  case False
  have "qi_id (l ! a) \<notin> qi_id ` set (list_queued_chat_inputs j rows)" if "a < length l" for a
  proof
    assume "qi_id (l ! a) \<in> qi_id ` set (list_queued_chat_inputs j rows)"
    then obtain x where "x \<in> set rows" "qi_thread_id x = j" "qi_id (l ! a) = qi_id x"
      by (auto simp: list_set)
    moreover have "l ! a \<in> set rows" "qi_thread_id (l ! a) = k"
      using that nth_mem [OF that] l list_set [of k rows] by auto
    ultimately show False using same_row [OF ok] False by metis
  qed
  then have "write_queued_payload now (qi_id (l ! a)) src (list_queued_chat_inputs j rows)
      = list_queued_chat_inputs j rows" if "a < length l" for a src
    using that unfolding write_queued_payload_def update_where_def by (intro map_idI) (metis imageI)
  with False n m show ?thesis by (simp add: waiting_def swap_payloads_def list_write)
qed

section \<open>Properties\<close>

text \<open>
  C8. The queue of every thread is first in, first out: over any sequence of inputs queued and claimed
  on any threads, the inputs claimed from a thread followed by those still waiting are exactly the
  ones that waited before followed by the ones queued since, trimmed and with blank ones left out, in
  that order.
\<close>

theorem chat_queue_is_fifo:
  assumes "queue_ok rows" and "chat.fifo_run now ops rows = (delivered, rows')"
  shows "map snd (filter (\<lambda>d. fst d = thread) delivered) @ waiting thread rows'
    = waiting thread rows @ map stored_input (filter valid_input (pushed thread ops))"
  by (rule chat.fifo_order [OF assms])

theorem chat_queue_is_fifo_witness:
  "\<exists>delivered rows'. chat.fifo_run ''0'' [Push 1 ('' a '', None, ArchcarInputKind.User, ''codex''),
       Push 2 (''b'', None, ArchcarInputKind.User, ''codex''), Pop 1] [] = (delivered, rows')
     \<and> map snd (filter (\<lambda>d. fst d = 1) delivered) @ waiting 1 rows' = [(''a'', None, ArchcarInputKind.User, ''codex'')]"
proof -
  let ?ops = "[Push 1 ('' a '', None, ArchcarInputKind.User, ''codex''),
       Push 2 (''b'', None, ArchcarInputKind.User, ''codex''), Pop 1]"
  obtain d r where run: "chat.fifo_run ''0'' ?ops [] = (d, r)" by (metis surj_pair)
  have "queue_ok []" by (simp add: queue_ok_def keyed_def)
  from chat_queue_is_fifo [OF this run, of 1] have
    "map snd (filter (\<lambda>d. fst d = 1) d) @ waiting 1 r = [(''a'', None, ArchcarInputKind.User, ''codex'')]"
    by (simp add: waiting_def list_queued_chat_inputs_def valid_input_def stored_input_def text_simps)
  with run show ?thesis by blast
qed

text \<open>
  A claimed input that could not be delivered goes back to the front of its own thread's queue,
  and leaves every other thread's queue as it is, as long as nothing with a smaller row id was queued
  on that thread meanwhile; in particular claiming and putting back at once restores the queue.
\<close>

lemma requeue_restores_front:
  assumes "queue_ok rows" and "claim_next_queued_chat_input k rows = (Some r, rows1)"
  shows "waiting j (requeue_claimed_chat_input_front now r rows1) = waiting j rows
    \<and> (\<forall>rows2. queue_ok rows2 \<and> (\<forall>x\<in>set (list_queued_chat_inputs k rows2). qi_id r \<le> qi_id x) \<longrightarrow>
         waiting j (requeue_claimed_chat_input_front now r rows2) =
           (if j = k then payload_of r # waiting j rows2 else waiting j rows2))"
proof -
  have "\<exists>rest. list_queued_chat_inputs k rows = r # rest"
    and snd: "rows1 = snd (claim_next_queued_chat_input k rows)"
    using assms(2) by (auto simp: claim_next_queued_chat_input_def peek_next_queued_chat_input_def
      split: option.splits list.splits)
  then obtain rest where l: "list_queued_chat_inputs k rows = r # rest" by blast
  then have k: "qi_thread_id r = k" using list_set [of k rows] by auto
  have l1: "list_queued_chat_inputs j rows1 = (if j = k then rest else list_queued_chat_inputs j rows)" for j
    using list_claim [OF assms(1), of j k] by (simp add: snd l)
  have "sorted (map qi_id (r # rest))" unfolding l [symmetric] by (simp add: list_queued_chat_inputs_def)
  then have "\<forall>x\<in>set (list_queued_chat_inputs (qi_thread_id r) rows1). qi_id r \<le> qi_id x"
    by (simp add: k l1)
  from waiting_requeue [OF this, of j now]
  have "waiting j (requeue_claimed_chat_input_front now r rows1) = waiting j rows"
    by (simp add: k waiting_def l1 l)
  with waiting_requeue [of r _ j now] show ?thesis by (auto simp: k)
qed

definition queue_row :: "int \<Rightarrow> string \<Rightarrow> QueuedChatInputRecord" where
  "queue_row i input = \<lparr>qi_id = i, qi_thread_id = 7, qi_input = input, qi_visible_input = None,
     qi_input_kind = ArchcarInputKind.User, qi_session_kind = ''codex'', qi_created_at = ''0'', qi_updated_at = ''0''\<rparr>"

text \<open>
  Putting a claimed input back is not always putting it in front: because row ids are reused when
  the table empties, an input queued while the claimed one was out can get a smaller id, and the
  claimed input then comes back behind it.
\<close>

lemma requeue_can_fall_behind:
  "\<exists>rows claimed rows1 newer rows2.
     claim_next_queued_chat_input 7 rows = (Some claimed, rows1)
   \<and> enqueue_chat_input now 7 ''c'' None ArchcarInputKind.User ''codex'' rows1 = (Inr newer, rows2)
   \<and> qi_input claimed = ''b''
   \<and> map qi_input (list_queued_chat_inputs 7 (requeue_claimed_chat_input_front now claimed rows2)) = [''c'', ''b'']"
proof (intro exI conjI)
  show "claim_next_queued_chat_input 7 [queue_row 2 ''b''] = (Some (queue_row 2 ''b''), [])"
    by (simp add: claim_next_queued_chat_input_def peek_next_queued_chat_input_def
      list_queued_chat_inputs_def queue_row_def delete_where_def)
  show "enqueue_chat_input now 7 ''c'' None ArchcarInputKind.User ''codex'' [] =
      (Inr (hd (snd (enqueue_chat_input now 7 ''c'' None ArchcarInputKind.User ''codex'' []))),
       snd (enqueue_chat_input now 7 ''c'' None ArchcarInputKind.User ''codex'' []))"
    by (simp add: enqueue_chat_input_def text_simps Let_def)
  show "qi_input (queue_row 2 ''b'') = ''b''" by (simp add: queue_row_def)
  show "map qi_input (list_queued_chat_inputs 7 (requeue_claimed_chat_input_front now (queue_row 2 ''b'')
      (snd (enqueue_chat_input now 7 ''c'' None ArchcarInputKind.User ''codex'' [])))) = [''c'', ''b'']"
    by (simp add: enqueue_chat_input_def text_simps requeue_claimed_chat_input_front_def restore_id_def
      next_row_id_def sql_next_def list_queued_chat_inputs_def queue_row_def Let_def)
qed

text \<open>
  Moving a queued input exchanges it with its neighbour in its own thread's queue, up or down, and
  changes no other queue and no other entry; at the end of the queue, or for an id that is not queued,
  nothing changes and the caller is told so.
\<close>

lemma move_exchanges_neighbours:
  assumes ok: "queue_ok rows" and mv: "move_queued_chat_input now i up rows = (res, rows')"
  shows "(res = None \<and> rows' = rows \<and> (\<forall>r\<in>set rows. qi_id r = i \<longrightarrow>
           (let l = list_queued_chat_inputs (qi_thread_id r) rows in if up then hd l = r else last l = r)))
    \<or> (\<exists>k n m. res = Some k \<and> n < length (waiting k rows) \<and> m < length (waiting k rows)
        \<and> qi_id (list_queued_chat_inputs k rows ! n) = i \<and> (if up then n = m + 1 else m = n + 1)
        \<and> waiting k rows' = (waiting k rows)[n := waiting k rows ! m, m := waiting k rows ! n]
        \<and> (\<forall>j. j \<noteq> k \<longrightarrow> waiting j rows' = waiting j rows))"
proof (cases "get_queued_chat_input i rows")
  case None
  with mv have "res = None" "rows' = rows" by (simp_all add: move_queued_chat_input_def)
  moreover from None have "\<forall>r\<in>set rows. qi_id r \<noteq> i"
    by (auto simp: get_queued_chat_input_def find_None_iff)
  ultimately show ?thesis by simp
next
  case (Some r)
  then have r: "r \<in> set rows" "qi_id r = i" by (auto simp: get_queued_chat_input_def find_Some_iff)
  define k l where "k = qi_thread_id r" and "l = list_queued_chat_inputs k rows"
  have "r \<in> set l" using r by (simp add: l_def list_set k_def)
  then obtain n where pos: "position (\<lambda>x. qi_id x = i) l = Some n"
    using r(2) position_None [of "\<lambda>x. qi_id x = i" l] by fastforce
  then have n: "n < length l" "qi_id (l ! n) = i" by (auto dest: position_Some)
  have "l ! n \<in> set rows" using nth_mem [OF n(1)] list_set [of k rows] by (auto simp: l_def)
  then have ln: "l ! n = r" using same_row [OF ok r(1)] n(2) r(2) by metis
  have only: "x = r" if "x \<in> set rows" "qi_id x = i" for x using same_row [OF ok that(1) r(1)] that(2) r(2) by simp
  have mv': "(res, rows') = (if up then (if n = 0 then (None, rows)
        else (Some k, swap_payloads now (l ! n) (l ! (n - 1)) rows))
      else (if length l \<le> n + 1 then (None, rows) else (Some k, swap_payloads now (l ! n) (l ! (n + 1)) rows)))"
    unfolding mv [symmetric] using k_def l_def pos by (simp add: move_queued_chat_input_def Some Let_def)
  have wait: "waiting k rows = map payload_of l" by (simp add: waiting_def l_def)
  show ?thesis
  proof (cases "res = None")
    case True
    then have "rows' = rows" and edge: "if up then n = 0 else length l = n + 1"
      using mv' n(1) by (auto split: if_splits)
    have "(if up then hd l = r else last l = r)"
      using edge ln [symmetric] n(1) hd_conv_nth [of l] last_conv_nth [of l] by (cases "l = []"; cases up) simp_all
    with True \<open>rows' = rows\<close> only show ?thesis by (auto simp: k_def l_def Let_def)
  next
    case False
    define m where "m = (if up then n - 1 else n + 1)"
    have m: "m < length l" "n \<noteq> m" "if up then n = m + 1 else m = n + 1"
      and res: "res = Some k" "rows' = swap_payloads now (l ! n) (l ! m) rows"
      using False mv' n(1) by (auto simp: m_def split: if_splits)
    have "waiting k rows' = (waiting k rows)[n := waiting k rows ! m, m := waiting k rows ! n]"
      "\<forall>j. j \<noteq> k \<longrightarrow> waiting j rows' = waiting j rows"
      using waiting_swap [OF ok l_def n(1) m(1,2)] m(1) n(1) by (simp_all add: res wait)
    moreover have "n < length (waiting k rows)" "m < length (waiting k rows)"
      using n(1) m(1) by (simp_all add: wait)
    ultimately show ?thesis using res(1) n(2) m(3) unfolding l_def by blast
  qed
qed

end
