(* ===== verification/Chat_Store.thy ===== *)
theory Chat_Store
  imports Prelude
begin

text \<open>
  The stored messages of a chat thread (\<open>append_chat_message\<close> and what it calls in
  \<open>crates/core/src/workspace.rs\<close>, \<open>merge_message_content\<close> of \<open>codex_tui.rs\<close>): a message is appended
  under the next timeline number, unless the thread's latest item is a message of the same role and
  source that it repeats or continues; then it is merged into that message. Of the chat events only
  what the look-up of the latest item reads is kept. The clock is an argument; touching the thread's
  row is left out.
\<close>

record ChatMessageRecord =
  cm_id :: int
  cm_thread_id :: int
  cm_role :: string
  cm_content :: string
  cm_source :: string
  cm_timeline_seq :: "int option"
  cm_created_at :: string
  cm_updated_at :: string

record ChatEventRow =
  ev_id :: int
  ev_thread_id :: int
  ev_timeline_seq :: int

record chat_store =
  cs_messages :: "ChatMessageRecord list"
  cs_events :: "ChatEventRow list"
  cs_timeline :: int

section \<open>Merging\<close>

fun overlap_merge :: "string list \<Rightarrow> string list \<Rightarrow> nat \<Rightarrow> string option" where
  "overlap_merge existing incoming 0 = None"
| "overlap_merge existing incoming (Suc n) =
     (if drop (length existing - Suc n) existing = take (Suc n) incoming
      then Some (join [CHR 0x0A] (existing @ drop (Suc n) incoming))
      else overlap_merge existing incoming n)"

definition merge_message_content_by_line_overlap :: "string \<Rightarrow> string \<Rightarrow> string option" where
  "merge_message_content_by_line_overlap existing incoming =
     (let e = str_lines existing; i = str_lines incoming in overlap_merge e i (min (length e) (length i)))"

definition merge_message_content :: "string \<Rightarrow> string \<Rightarrow> string option" where
  "merge_message_content existing incoming =
     (if incoming = existing then Some existing
      else if prefix existing incoming then Some incoming
      else if prefix incoming existing then Some existing
      else merge_message_content_by_line_overlap existing incoming)"

section \<open>The latest item of a thread\<close>

definition message_order :: "ChatMessageRecord \<Rightarrow> int" where
  "message_order m = (case cm_timeline_seq m of Some s \<Rightarrow> s | None \<Rightarrow> cm_id m)"

definition thread_items :: "int \<Rightarrow> chat_store \<Rightarrow> (int \<times> int \<times> ChatMessageRecord option) list" where
  "thread_items t st =
     map (\<lambda>m. (message_order m, cm_id m, Some m)) (filter (\<lambda>m. cm_thread_id m = t) (cs_messages st))
     @ map (\<lambda>e. (ev_timeline_seq e, ev_id e, None)) (filter (\<lambda>e. ev_thread_id e = t) (cs_events st))"

definition latest_item :: "int \<Rightarrow> chat_store \<Rightarrow> ChatMessageRecord option" where
  "latest_item t st = (case thread_items t st of [] \<Rightarrow> None
     | i # is \<Rightarrow> snd (snd (last (sort_key fst (sort_key (\<lambda>x. fst (snd x)) (i # is))))))"

definition latest_matching_adjacent_chat_message :: "int \<Rightarrow> string \<Rightarrow> string \<Rightarrow> string \<Rightarrow> chat_store \<Rightarrow>
    ChatMessageRecord option" where
  "latest_matching_adjacent_chat_message t role content src st = (case latest_item t st of
      None \<Rightarrow> None
    | Some m \<Rightarrow> if cm_role m = role \<and> cm_content m = content \<and> cm_source m = src then Some m else None)"

definition latest_adjacent_chat_message :: "int \<Rightarrow> string \<Rightarrow> string \<Rightarrow> chat_store \<Rightarrow> ChatMessageRecord option" where
  "latest_adjacent_chat_message t role src st = (case latest_item t st of
      None \<Rightarrow> None | Some m \<Rightarrow> if cm_role m = role \<and> cm_source m = src then Some m else None)"

section \<open>Appending\<close>

definition get_chat_message :: "int \<Rightarrow> chat_store \<Rightarrow> ChatMessageRecord option" where
  "get_chat_message i st = find (\<lambda>m. cm_id m = i) (cs_messages st)"

definition update_latest_mergeable_chat_message :: "string \<Rightarrow> int \<Rightarrow> string \<Rightarrow> string \<Rightarrow> string \<Rightarrow> chat_store \<Rightarrow>
    ChatMessageRecord option \<times> chat_store" where
  "update_latest_mergeable_chat_message now t role content src st =
     (case latest_adjacent_chat_message t role src st of None \<Rightarrow> (None, st)
      | Some existing \<Rightarrow>
        (case merge_message_content (cm_content existing) content of None \<Rightarrow> (None, st)
         | Some merged \<Rightarrow>
           if merged = cm_content existing then (Some existing, st)
           else (let st' = st\<lparr>cs_messages := update_where (\<lambda>m. cm_id m = cm_id existing)
                    (\<lambda>m. m\<lparr>cm_content := merged, cm_updated_at := now\<rparr>) (cs_messages st)\<rparr>
                 in (get_chat_message (cm_id existing) st', st'))))"

definition append_chat_message :: "string \<Rightarrow> int \<Rightarrow> string \<Rightarrow> string \<Rightarrow> string \<Rightarrow> chat_store \<Rightarrow>
    ChatMessageRecord \<times> chat_store" where
  "append_chat_message now t role content src st =
     (case latest_matching_adjacent_chat_message t role content src st of
        Some existing \<Rightarrow> (existing, st)
      | None \<Rightarrow>
        (case update_latest_mergeable_chat_message now t role content src st of
           (Some existing, st') \<Rightarrow> (existing, st')
         | (None, st') \<Rightarrow>
           (let seq = cs_timeline st' + 1;
                m = \<lparr>cm_id = sql_next cm_id (cs_messages st'), cm_thread_id = t, cm_role = role,
                     cm_content = content, cm_source = src, cm_timeline_seq = Some seq,
                     cm_created_at = now, cm_updated_at = now\<rparr>
            in (m, st'\<lparr>cs_messages := cs_messages st' @ [m], cs_timeline := seq\<rparr>))))"

definition append_chat_message_once_for_source :: "string \<Rightarrow> int \<Rightarrow> string \<Rightarrow> string \<Rightarrow> string \<Rightarrow> chat_store \<Rightarrow>
    ChatMessageRecord \<times> chat_store" where
  "append_chat_message_once_for_source now t role content src st =
     (case sort_key cm_id (filter (\<lambda>m. cm_thread_id m = t \<and> cm_source m = src) (cs_messages st)) of
        existing # _ \<Rightarrow> (existing, st)
      | [] \<Rightarrow> append_chat_message now t role content src st)"

definition append_message_once_for_provider_input :: "string \<Rightarrow> string \<Rightarrow> int \<Rightarrow> string \<Rightarrow> string \<Rightarrow> chat_store \<Rightarrow>
    ChatMessageRecord \<times> chat_store" where
  "append_message_once_for_provider_input now provider_input_id t role content =
     append_chat_message_once_for_source now t role content (''provider_input:'' @ provider_input_id)"

definition list_chat_messages :: "int \<Rightarrow> chat_store \<Rightarrow> ChatMessageRecord list" where
  "list_chat_messages t st =
     sort_key message_order (sort_key cm_id (filter (\<lambda>m. cm_thread_id m = t) (cs_messages st)))"

definition thread_is_first_user_turn :: "int \<Rightarrow> chat_store \<Rightarrow> bool" where
  "thread_is_first_user_turn t st \<longleftrightarrow> \<not> list_ex (\<lambda>m. cm_role m = ''user'') (list_chat_messages t st)"

section \<open>Lemmas\<close>

lemma last_sorted_mem: "xs \<noteq> [] \<Longrightarrow> last (sort_key f (sort_key g xs)) \<in> set xs"
  by (metis last_in_set set_empty set_sort)

lemma latest_item_mem:
  assumes "latest_item t st = Some m"
  shows "m \<in> set (cs_messages st) \<and> cm_thread_id m = t"
proof -
  from assms obtain i rest where items: "thread_items t st = i # rest"
    and last: "snd (snd (last (sort_key fst (sort_key (\<lambda>x. fst (snd x)) (i # rest))))) = Some m"
    unfolding latest_item_def by (metis (no_types, lifting) list.case_eq_if list.collapse option.distinct(1))
  have "last (sort_key fst (sort_key (\<lambda>x. fst (snd x)) (i # rest))) \<in> set (i # rest)"
    by (rule last_sorted_mem) simp
  with last show ?thesis unfolding items [symmetric] by (auto simp: thread_items_def)
qed

lemma get_chat_message_mem: "keyed cm_id (cs_messages st) \<Longrightarrow> m \<in> set (cs_messages st) \<Longrightarrow>
    get_chat_message (cm_id m) st = Some m"
  unfolding get_chat_message_def by (rule keyed_find)

lemma latest_adjacent_mem: "latest_adjacent_chat_message t role src st = Some m \<Longrightarrow>
    m \<in> set (cs_messages st) \<and> cm_thread_id m = t \<and> cm_role m = role \<and> cm_source m = src"
  by (auto simp: latest_adjacent_chat_message_def dest!: latest_item_mem split: option.splits if_splits)

lemma overlap_merge_suffix:
  "overlap_merge existing incoming n = Some merged \<Longrightarrow> \<exists>pre. merged = join [CHR 0x0A] (pre @ incoming)"
proof (induction n)
  case (Suc n)
  show ?case
  proof (cases "drop (length existing - Suc n) existing = take (Suc n) incoming")
    case True
    then have "existing = take (length existing - Suc n) existing @ take (Suc n) incoming"
      by (metis append_take_drop_id)
    then have "existing @ drop (Suc n) incoming = take (length existing - Suc n) existing @ incoming"
      by (metis append.assoc append_take_drop_id)
    with True Suc.prems show ?thesis by auto
  next
    case False
    with Suc show ?thesis by simp
  qed
qed simp

definition shows_text :: "string \<Rightarrow> string \<Rightarrow> bool" where
  "shows_text content shown \<longleftrightarrow> prefix content shown \<or> (\<exists>pre. shown = join [CHR 0x0A] (pre @ str_lines content))"

lemma merged_shows: "merge_message_content existing content = Some merged \<Longrightarrow> shows_text content merged"
  by (auto simp: merge_message_content_def shows_text_def merge_message_content_by_line_overlap_def
    Let_def split: if_splits dest!: overlap_merge_suffix)

text \<open>What an append does to the table: nothing, one row's text rewritten, or one new row.\<close>

lemma append_cases:
  assumes ok: "keyed cm_id (cs_messages st)"
    and run: "append_chat_message now t role content src st = (r, st')"
  obtains
    (present) "latest_adjacent_chat_message t role src st = Some r" "st' = st" "shows_text content (cm_content r)"
  | (merged) m where "latest_adjacent_chat_message t role src st = Some m" "cm_id r = cm_id m"
      "merge_message_content (cm_content m) content = Some (cm_content r)"
      "r = m\<lparr>cm_content := cm_content r, cm_updated_at := now\<rparr>"
      "st' = st\<lparr>cs_messages := update_where (\<lambda>x. cm_id x = cm_id m) (\<lambda>_. r) (cs_messages st)\<rparr>"
  | (new) "cs_messages st' = cs_messages st @ [r]" "cm_thread_id r = t" "cm_role r = role"
      "cm_content r = content" "cm_source r = src"
      "cm_id r = sql_next cm_id (cs_messages st)"
proof (cases "latest_matching_adjacent_chat_message t role content src st")
  case (Some m)
  then have "latest_adjacent_chat_message t role src st = Some m" "cm_content m = content"
    by (auto simp: latest_matching_adjacent_chat_message_def latest_adjacent_chat_message_def
      split: option.splits if_splits)
  with Some run show thesis by (intro present) (auto simp: append_chat_message_def shows_text_def)
next
  case None
  note no_match = this
  show thesis
  proof (cases "latest_adjacent_chat_message t role src st")
    case None
    with no_match run show thesis
      by (intro new) (auto simp: append_chat_message_def update_latest_mergeable_chat_message_def Let_def)
  next
    case (Some m)
    show thesis
    proof (cases "merge_message_content (cm_content m) content")
      case None
      with Some no_match run show thesis
        by (intro new) (auto simp: append_chat_message_def update_latest_mergeable_chat_message_def Let_def)
    next
      case merge: (Some joined)
      note mem = latest_adjacent_mem [OF Some]
      show thesis
      proof (cases "joined = cm_content m")
        case True
        with Some merge no_match run show thesis
          by (intro present) (auto simp: append_chat_message_def update_latest_mergeable_chat_message_def
            dest: merged_shows)
      next
        case False
        let ?f = "\<lambda>x. x\<lparr>cm_content := joined, cm_updated_at := now\<rparr>"
        let ?st = "st\<lparr>cs_messages := update_where (\<lambda>x. cm_id x = cm_id m) ?f (cs_messages st)\<rparr>"
        have row: "get_chat_message (cm_id m) ?st = Some (?f m)"
          using get_chat_message_mem [OF ok, of m] mem
          by (simp add: get_chat_message_def update_where_find)
        have "update_where (\<lambda>x. cm_id x = cm_id m) ?f (cs_messages st)
            = update_where (\<lambda>x. cm_id x = cm_id m) (\<lambda>_. ?f m) (cs_messages st)"
          using ok mem keyed_find_iff [OF ok, of "cm_id m"]
          by (auto simp: update_where_def) (metis option.inject)
        with Some merge False no_match run row show thesis
          by (intro merged [of m])
            (auto simp: append_chat_message_def update_latest_mergeable_chat_message_def Let_def)
      qed
    qed
  qed
qed

section \<open>Properties\<close>

text \<open>
  A message handed to the transcript is shown: the row the append returns belongs to the thread,
  carries the role and source, and its text starts with the message or ends with the message's lines;
  every other row and every event is left as it was, and ids stay unique.
\<close>

lemma appended_message_is_shown:
  assumes ok: "keyed cm_id (cs_messages st)"
    and run: "append_chat_message now t role content src st = (r, st')"
  shows "r \<in> set (cs_messages st') \<and> cm_thread_id r = t \<and> cm_role r = role \<and> cm_source r = src
    \<and> (prefix content (cm_content r) \<or> (\<exists>pre. cm_content r = join [CHR 0x0A] (pre @ str_lines content)))
    \<and> filter (\<lambda>m. cm_id m \<noteq> cm_id r) (cs_messages st') = filter (\<lambda>m. cm_id m \<noteq> cm_id r) (cs_messages st)
    \<and> keyed cm_id (cs_messages st')"
  using ok run
proof (cases rule: append_cases)
  case present
  with latest_adjacent_mem [OF present(1)] ok show ?thesis by (auto simp: shows_text_def)
next
  case (merged m)
  let ?rows = "update_where (\<lambda>x. cm_id x = cm_id m) (\<lambda>_. r) (cs_messages st)"
  note mem = latest_adjacent_mem [OF merged(1)]
  have row: "cm_thread_id r = t \<and> cm_role r = role \<and> cm_source r = src" using mem
    by (subst (1 2 3) merged(4)) simp
  have "r \<in> set ?rows" using mem by (auto simp: update_where_def image_iff)
  moreover have "filter (\<lambda>x. cm_id x \<noteq> cm_id r) ?rows = filter (\<lambda>x. cm_id x \<noteq> cm_id r) (cs_messages st)"
    unfolding merged(2) by (induction "cs_messages st" arbitrary: st)
      (auto simp: update_where_def filter_map comp_def merged(2) intro!: map_idI)
  moreover have "map cm_id ?rows = map cm_id (cs_messages st)"
    using merged(2) by (auto simp: update_where_def)
  ultimately show ?thesis using row merged_shows [OF merged(3)] ok merged(5)
    by (simp add: shows_text_def keyed_def)
next
  case new
  have "cm_id m \<noteq> cm_id r" if "m \<in> set (cs_messages st)" for m
    using sql_next_greater [OF that, of cm_id] new(6) by simp
  note fresh = this
  have "filter (\<lambda>m. cm_id m \<noteq> cm_id r) (cs_messages st) = cs_messages st"
    by (rule filter_True) (simp add: fresh)
  moreover have "cm_id r \<notin> cm_id ` set (cs_messages st)" using fresh by force
  ultimately show ?thesis using new ok by (auto simp: keyed_def)
qed

text \<open>
  An input that continues the thread's latest message of the same role and source takes that
  message's place: a second input \<open>content\<close> starting with the first one's text leaves the thread with
  as many messages as before and no message with the first one's text under its id, although two were
  sent. The transcript of a managed session holds only what the user sent, so any two consecutive
  inputs of the user are adjacent.
\<close>

lemma continued_input_replaces_message:
  assumes ok: "keyed cm_id (cs_messages st)"
    and latest: "latest_item t st = Some m" "cm_role m = role" "cm_source m = src"
    and continued: "prefix (cm_content m) content"
    and run: "append_chat_message now t role content src st = (r, st')"
  shows "cm_id r = cm_id m \<and> length (cs_messages st') = length (cs_messages st)
    \<and> map_option cm_content (get_chat_message (cm_id m) st') = Some content"
proof -
  have adj: "latest_adjacent_chat_message t role src st = Some m"
    using latest by (simp add: latest_adjacent_chat_message_def)
  have merge: "merge_message_content (cm_content m) content = Some content"
    using continued by (simp add: merge_message_content_def)
  have row: "get_chat_message (cm_id m) st = Some m"
    using latest_item_mem [OF latest(1)] by (intro get_chat_message_mem [OF ok]) simp
  show ?thesis
  proof (cases "content = cm_content m")
    case True
    then have "latest_matching_adjacent_chat_message t role content src st = Some m"
      using latest by (simp add: latest_matching_adjacent_chat_message_def)
    with run have "r = m" "st' = st" by (simp_all add: append_chat_message_def)
    with row True show ?thesis by simp
  next
    case False
    have no_match: "latest_matching_adjacent_chat_message t role content src st = None"
      using latest False by (simp add: latest_matching_adjacent_chat_message_def)
    let ?f = "\<lambda>x. x\<lparr>cm_content := content, cm_updated_at := now\<rparr>"
    let ?st = "st\<lparr>cs_messages := update_where (\<lambda>x. cm_id x = cm_id m) ?f (cs_messages st)\<rparr>"
    have now_row: "get_chat_message (cm_id m) ?st = Some (?f m)"
      using row by (simp add: get_chat_message_def update_where_find)
    have "update_latest_mergeable_chat_message now t role content src st = (Some (?f m), ?st)"
      unfolding update_latest_mergeable_chat_message_def adj option.case merge Let_def
      using False now_row by simp
    with run no_match have "r = ?f m" "st' = ?st" by (simp_all add: append_chat_message_def)
    with now_row show ?thesis by (simp add: update_where_def)
  qed
qed

section \<open>Witnesses\<close>

definition demo_message :: "int \<Rightarrow> string \<Rightarrow> ChatMessageRecord" where
  "demo_message i content = \<lparr>cm_id = i, cm_thread_id = 7, cm_role = ''user'', cm_content = content,
     cm_source = ''user_send'', cm_timeline_seq = Some i, cm_created_at = ''0'', cm_updated_at = ''0''\<rparr>"

definition demo_store :: chat_store where
  "demo_store = \<lparr>cs_messages = [demo_message 1 ''yes''], cs_events = [], cs_timeline = 1\<rparr>"

lemma demo_store_ok: "keyed cm_id (cs_messages demo_store)"
  by (simp add: demo_store_def keyed_def)

end
