(* ===== verification/Provider_Events.thy ===== *)
theory Provider_Events
  imports Harness_Contract
begin

text \<open>
  The provider event store (\<open>crates/core/src/provider_events.rs\<close>): every record a provider streams is
  upserted under an identity key, so that the deltas of one item land in one row, and kept verbatim
  in a second table. The lemmas show that a stored event keeps its place in the timeline, that
  streamed text accumulates, that no raw record is lost, and what crash recovery does to the turns a
  dead process left open.

  The two tables are lists of rows and \<open>chat_timeline_seq\<close>, which only numbers, is the last number it
  gave; so is the row id of the raw table, which is \<open>AUTOINCREMENT\<close>. A payload column holds the value
  itself rather than its text, which is what reading it back gives. The clock is an argument.
\<close>

section \<open>Action categories\<close>

record ProviderActionCategory =
  ac_kind :: ProviderEventKind
  ac_label :: string
  ac_examples :: "string list"

definition category :: "ProviderEventKind \<Rightarrow> string \<Rightarrow> string list \<Rightarrow> ProviderActionCategory" where
  "category k l es = \<lparr>ac_kind = k, ac_label = l, ac_examples = es\<rparr>"

definition PROVIDER_ACTION_CATEGORIES :: "ProviderActionCategory list" where
  "PROVIDER_ACTION_CATEGORIES = [
     category ProviderEventKind.AccountAuth ''account/auth''
       [''login'', ''logout'', ''token refresh'', ''account update'', ''rate limits''],
     category ProviderEventKind.ThreadSession ''thread/session lifecycle''
       [''start'', ''resume'', ''fork'', ''archive'', ''delete'', ''close'', ''status''],
     category ProviderEventKind.GoalTask ''goal/task lifecycle''
       [''set goal'', ''clear goal'', ''task progress'', ''todo update''],
     category ProviderEventKind.Turn ''turn lifecycle''
       [''start'', ''steer'', ''interrupt'', ''complete'', ''fail'', ''compact''],
     category ProviderEventKind.UserInput ''user input''
       [''message'', ''review prompt'', ''control command'', ''user question response''],
     category ProviderEventKind.AssistantOutput ''assistant output''
       [''text delta'', ''final message'', ''partial message'', ''structured output''],
     category ProviderEventKind.PlanningReasoning ''planning/reasoning''
       [''plan delta'', ''reasoning delta'', ''reasoning summary''],
     category ProviderEventKind.CommandProcess ''command/process execution''
       [''command start'', ''stdout/stderr delta'', ''exit code'', ''process kill''],
     category ProviderEventKind.TerminalRuntime ''terminal/background runtime''
       [''terminal interaction'', ''background terminal'', ''realtime transcript''],
     category ProviderEventKind.FileSystem ''file system''
       [''read file'', ''write file'', ''copy'', ''remove'', ''watch''],
     category ProviderEventKind.DiffFileChange ''diff/file changes''
       [''edit'', ''patch'', ''file change output'', ''turn diff''],
     category ProviderEventKind.Tool ''tools''
       [''native tool'', ''dynamic tool'', ''tool progress'', ''tool result''],
     category ProviderEventKind.Mcp ''MCP''
       [''server status'', ''OAuth'', ''resource read'', ''tool call'', ''elicitation''],
     category ProviderEventKind.SkillPluginHook ''skills/plugins/hooks''
       [''skill list'', ''skill read'', ''plugin import'', ''hook started'', ''hook completed''],
     category ProviderEventKind.ApprovalPermission ''approvals/permissions''
       [''command approval'', ''file approval'', ''permission request'', ''guardian review''],
     category ProviderEventKind.SubagentCollaboration ''subagents/collaboration''
       [''spawn'', ''send input'', ''wait'', ''resume'', ''nested transcript'', ''finish''],
     category ProviderEventKind.WebBrowserMedia ''web/browser/media''
       [''web search'', ''web fetch'', ''image view'', ''browser integration'', ''audio''],
     category ProviderEventKind.EnvironmentConfigModel ''environment/config/model''
       [''environment info'', ''config read/write'', ''model list'', ''model reroute''],
     category ProviderEventKind.LimitFailure ''limits/failures''
       [''context exhaustion'', ''quota'', ''rate limit'', ''warning'', ''provider error''],
     category ProviderEventKind.Unknown ''unknown future events''
       [''lossless raw payload'', ''generic inspectable card'']]"

section \<open>Rows\<close>

record ProviderEventRecord =
  er_id :: int
  er_identity_key :: string
  er_provider :: string
  er_provider_event_id :: "string option"
  er_provider_item_id :: "string option"
  er_provider_thread_id :: "string option"
  er_provider_turn_id :: "string option"
  er_parent_provider_item_id :: "string option"
  er_parent_provider_thread_id :: "string option"
  er_workspace_id :: "int option"
  er_chat_thread_id :: "int option"
  er_process_id :: "int option"
  er_phase :: ProviderEventPhase
  er_kind :: ProviderEventKind
  er_provider_subtype :: "string option"
  er_provider_sequence :: "int option"
  er_received_sequence :: int
  er_timeline_seq :: "int option"
  er_occurred_at_ms :: int
  er_normalized_payload :: json
  er_raw_json :: json
  er_schema_version :: int
  er_adapter_version :: string
  er_created_at :: string
  er_updated_at :: string

record ProviderRawPayloadRecord =
  rp_id :: int
  rp_identity_key :: string
  rp_provider :: string
  rp_chat_thread_id :: "int option"
  rp_process_id :: "int option"
  rp_phase :: ProviderEventPhase
  rp_kind :: ProviderEventKind
  rp_provider_sequence :: "int option"
  rp_raw_sequence :: int
  rp_occurred_at_ms :: int
  rp_raw_json :: json
  rp_created_at :: string

record event_store =
  es_events :: "ProviderEventRecord list"
  es_raw :: "ProviderRawPayloadRecord list"
  es_timeline :: int
  es_raw_ids :: int

text \<open>The cast of a millisecond count to the signed column.\<close>

definition as_column :: "nat \<Rightarrow> int" where
  "as_column ms = (let n = ms mod 2 ^ 64 in if n < 2 ^ 63 then int n else int n - 2 ^ 64)"

section \<open>Identity\<close>

definition phase_key :: "ProviderEventPhase \<Rightarrow> string" where
  "phase_key phase = (case phase of Started \<Rightarrow> ''stream'' | Delta \<Rightarrow> ''stream'' | Progress \<Rightarrow> ''stream''
     | _ \<Rightarrow> phase_str phase)"

definition identity_key :: "ProviderEventDraft \<Rightarrow> string" where
  "identity_key d = (case dr_provider_item_id d of
      Some item_id \<Rightarrow> dr_provider d @ '':'' @ unwrap_or (dr_provider_thread_id d) ''-'' @ '':'' @ item_id
        @ '':'' @ phase_key (dr_phase d)
    | None \<Rightarrow> (case dr_provider_event_id d of
        Some event_id \<Rightarrow> dr_provider d @ '':event:'' @ event_id
      | None \<Rightarrow> dr_provider d @ '':raw:'' @ unwrap_or (dr_provider_thread_id d) ''-''
          @ '':'' @ show_int (unwrap_or (dr_provider_sequence d) 0)
          @ '':'' @ unwrap_or (dr_provider_subtype d) ''unknown''
          @ '':'' @ show_nat (dr_occurred_at_ms d)
          @ '':'' @ show_nat (unat (fnv1a (json_to_string (dr_raw_json d))))))"

section \<open>Merging a streamed payload\<close>

definition text_at :: "string \<Rightarrow> json \<Rightarrow> string option" where
  "text_at key v = Option.bind (jget v key) as_str"

definition stream_delta_of :: "json \<Rightarrow> string option" where
  "stream_delta_of v = or_else (text_at ''stream_delta'' v) (or_else (text_at ''body'' v) (text_at ''text'' v))"

definition set_text :: "string \<Rightarrow> string \<Rightarrow> json \<Rightarrow> json" where
  "set_text delta key v = (case text_at key v of None \<Rightarrow> v | Some _ \<Rightarrow> jset key (JStr delta) v)"

definition streaming_merge_incoming_payload :: "ProviderEventDraft \<Rightarrow> json" where
  "streaming_merge_incoming_payload d = (let incoming = dr_normalized_payload d in
     if dr_phase d \<noteq> Delta then incoming
     else (case stream_delta_of (dr_normalized_payload d) of None \<Rightarrow> incoming
       | Some delta \<Rightarrow> set_text delta ''text'' (set_text delta ''body'' incoming)))"

definition terminal_phase :: "ProviderEventPhase \<Rightarrow> bool" where
  "terminal_phase phase \<longleftrightarrow> phase \<in> {ProviderEventPhase.Completed, ProviderEventPhase.Failed,
     ProviderEventPhase.Declined, ProviderEventPhase.Interrupted}"

definition merged_text :: "ProviderEventPhase \<Rightarrow> string \<Rightarrow> string \<Rightarrow> string" where
  "merged_text phase existing incoming =
     (if terminal_phase phase then
        (if incoming = [] \<and> existing \<noteq> [] then existing else incoming)
      else if phase = Delta then existing @ incoming
      else if length existing < length incoming \<and> prefix existing incoming then incoming
      else if prefix incoming existing then existing
      else existing @ incoming)"

definition merge_key :: "json \<Rightarrow> ProviderEventPhase \<Rightarrow> string \<Rightarrow> json \<Rightarrow> json" where
  "merge_key existing phase key incoming = (case text_at key existing of None \<Rightarrow> incoming
     | Some existing_text \<Rightarrow> (case text_at key incoming of None \<Rightarrow> incoming
       | Some incoming_text \<Rightarrow> jset key (JStr (merged_text phase existing_text incoming_text)) incoming))"

definition merge_streaming_payload :: "json \<Rightarrow> json \<Rightarrow> ProviderEventPhase \<Rightarrow> json" where
  "merge_streaming_payload existing incoming phase =
     merge_key existing phase ''text'' (merge_key existing phase ''body'' incoming)"

definition get_by_identity_key :: "string \<Rightarrow> event_store \<Rightarrow> ProviderEventRecord option" where
  "get_by_identity_key k st = find (\<lambda>r. er_identity_key r = k) (es_events st)"

definition merge_existing_streaming_payload :: "event_store \<Rightarrow> string \<Rightarrow> ProviderEventDraft \<Rightarrow> json" where
  "merge_existing_streaming_payload st k d = (case get_by_identity_key k st of
      None \<Rightarrow> dr_normalized_payload d
    | Some r \<Rightarrow> merge_streaming_payload (er_normalized_payload r) (streaming_merge_incoming_payload d) (dr_phase d))"

section \<open>Writing\<close>

definition existing_timeline_sequence :: "event_store \<Rightarrow> string \<Rightarrow> int option" where
  "existing_timeline_sequence st k = Option.bind (get_by_identity_key k st) er_timeline_seq"

definition next_timeline_sequence :: "event_store \<Rightarrow> int \<times> event_store" where
  "next_timeline_sequence st = (es_timeline st + 1, st\<lparr>es_timeline := es_timeline st + 1\<rparr>)"

definition next_received_sequence :: "event_store \<Rightarrow> int" where
  "next_received_sequence st = sql_next er_received_sequence (es_events st)"

definition next_raw_sequence :: "event_store \<Rightarrow> int" where
  "next_raw_sequence st = sql_next rp_raw_sequence (es_raw st)"

text \<open>The row the \<open>INSERT\<close> writes, and what \<open>ON CONFLICT(identity_key) DO UPDATE\<close> makes of a present one.\<close>

definition inserted_row :: "string \<Rightarrow> int \<Rightarrow> int \<Rightarrow> int \<Rightarrow> json \<Rightarrow> ProviderEventDraft \<Rightarrow> ProviderEventRecord" where
  "inserted_row now i received timeline payload d = \<lparr>
     er_id = i, er_identity_key = identity_key d, er_provider = dr_provider d,
     er_provider_event_id = dr_provider_event_id d, er_provider_item_id = dr_provider_item_id d,
     er_provider_thread_id = dr_provider_thread_id d, er_provider_turn_id = dr_provider_turn_id d,
     er_parent_provider_item_id = dr_parent_provider_item_id d,
     er_parent_provider_thread_id = dr_parent_provider_thread_id d,
     er_workspace_id = dr_workspace_id d, er_chat_thread_id = dr_chat_thread_id d,
     er_process_id = dr_process_id d, er_phase = dr_phase d, er_kind = dr_kind d,
     er_provider_subtype = dr_provider_subtype d, er_provider_sequence = dr_provider_sequence d,
     er_received_sequence = received, er_timeline_seq = Some timeline,
     er_occurred_at_ms = as_column (dr_occurred_at_ms d), er_normalized_payload = payload,
     er_raw_json = dr_raw_json d, er_schema_version = dr_schema_version d,
     er_adapter_version = dr_adapter_version d, er_created_at = now, er_updated_at = now\<rparr>"

definition conflict_update :: "ProviderEventRecord \<Rightarrow> ProviderEventRecord \<Rightarrow> ProviderEventRecord" where
  "conflict_update excluded r = excluded\<lparr>
     er_id := er_id r, er_identity_key := er_identity_key r, er_provider := er_provider r,
     er_received_sequence := er_received_sequence r,
     er_timeline_seq := or_else (er_timeline_seq r) (er_timeline_seq excluded),
     er_created_at := er_created_at r\<rparr>"

definition upsert_row :: "ProviderEventRecord \<Rightarrow> ProviderEventRecord list \<Rightarrow> ProviderEventRecord list" where
  "upsert_row row rows = (if er_identity_key row \<in> er_identity_key ` set rows
     then update_where (\<lambda>r. er_identity_key r = er_identity_key row) (conflict_update row) rows
     else rows @ [row])"

definition raw_row :: "string \<Rightarrow> int \<Rightarrow> int \<Rightarrow> ProviderEventDraft \<Rightarrow> ProviderRawPayloadRecord" where
  "raw_row now i raw_sequence d = \<lparr>
     rp_id = i, rp_identity_key = identity_key d, rp_provider = dr_provider d,
     rp_chat_thread_id = dr_chat_thread_id d, rp_process_id = dr_process_id d,
     rp_phase = dr_phase d, rp_kind = dr_kind d, rp_provider_sequence = dr_provider_sequence d,
     rp_raw_sequence = raw_sequence, rp_occurred_at_ms = as_column (dr_occurred_at_ms d),
     rp_raw_json = dr_raw_json d, rp_created_at = now\<rparr>"

definition upsert_event_in_tx :: "string \<Rightarrow> ProviderEventDraft \<Rightarrow> event_store \<Rightarrow> event_store" where
  "upsert_event_in_tx now d st =
     (let k = identity_key d;
          received_sequence = next_received_sequence st;
          raw_sequence = next_raw_sequence st;
          (timeline_seq, st1) = (case existing_timeline_sequence st k of
             Some n \<Rightarrow> (n, st) | None \<Rightarrow> next_timeline_sequence st);
          payload = merge_existing_streaming_payload st1 k d
      in st1\<lparr>
        es_events := upsert_row (inserted_row now (sql_next er_id (es_events st)) received_sequence
                       timeline_seq payload d) (es_events st),
        es_raw := es_raw st @ [raw_row now (es_raw_ids st + 1) raw_sequence d],
        es_raw_ids := es_raw_ids st + 1\<rparr>)"

definition upsert_event :: "string \<Rightarrow> ProviderEventDraft \<Rightarrow> event_store \<Rightarrow>
    (string + ProviderEventRecord) \<times> event_store" where
  "upsert_event now d st = (let st' = upsert_event_in_tx now d st in
     (case get_by_identity_key (identity_key d) st' of
        None \<Rightarrow> Inl ''provider event upsert did not return a row'' | Some r \<Rightarrow> Inr r, st'))"

section \<open>Reading\<close>

definition list_for_chat_thread :: "int \<Rightarrow> event_store \<Rightarrow> ProviderEventRecord list" where
  "list_for_chat_thread t st =
     sort_key er_received_sequence (sort_key er_id (filter (\<lambda>r. er_chat_thread_id r = Some t) (es_events st)))"

definition list_for_process :: "int \<Rightarrow> event_store \<Rightarrow> ProviderEventRecord list" where
  "list_for_process p st =
     sort_key er_received_sequence (sort_key er_id (filter (\<lambda>r. er_process_id r = Some p) (es_events st)))"

fun max_of :: "int list \<Rightarrow> int option" where
  "max_of [] = None"
| "max_of (x # xs) = Some (fold max xs x)"

definition last_occurred_at_ms_for_chat_thread :: "int \<Rightarrow> event_store \<Rightarrow> nat option" where
  "last_occurred_at_ms_for_chat_thread t st = Option.bind
     (max_of (map er_occurred_at_ms (filter (\<lambda>r. er_chat_thread_id r = Some t) (es_events st))))
     (\<lambda>ms. if 0 \<le> ms then Some (nat ms) else None)"

definition list_raw_payloads_for_identity :: "string \<Rightarrow> event_store \<Rightarrow> ProviderRawPayloadRecord list" where
  "list_raw_payloads_for_identity k st =
     sort_key rp_raw_sequence (sort_key rp_id (filter (\<lambda>r. rp_identity_key r = k) (es_raw st)))"

fun max_over_subtypes :: "int \<Rightarrow> ProviderEventKind \<Rightarrow> string list \<Rightarrow> nat option \<Rightarrow> event_store \<Rightarrow>
    string + nat option" where
  "max_over_subtypes p kind [] m st = Inr m"
| "max_over_subtypes p kind (s # ss) m st =
     (case max_of (List.map_filter er_provider_sequence (filter (\<lambda>r. er_process_id r = Some p \<and>
              er_kind r = kind \<and> er_provider_subtype r = Some s) (es_events st))) of
        None \<Rightarrow> max_over_subtypes p kind ss m st
      | Some i \<Rightarrow> if i < 0 then Inl ''provider sequence must be non-negative''
          else max_over_subtypes p kind ss
            (Some (case m of None \<Rightarrow> nat i | Some c \<Rightarrow> max c (nat i))) st)"

definition max_provider_sequence_for_process_subtypes ::
    "int \<Rightarrow> ProviderEventKind \<Rightarrow> string list \<Rightarrow> event_store \<Rightarrow> string + nat option" where
  "max_provider_sequence_for_process_subtypes p kind subtypes st = max_over_subtypes p kind subtypes None st"

section \<open>Recovery of open turns\<close>









section \<open>The timeline\<close>

record ProviderTimelineItem =
  tl_canonical_id :: string
  tl_kind :: ProviderEventKind
  tl_phase :: ProviderEventPhase
  tl_title :: string
  tl_body :: string
  tl_provider_subtype :: "string option"
  tl_parent_canonical_id :: "string option"
  tl_raw_json :: json

definition provider_canonical_id :: "string \<Rightarrow> string option \<Rightarrow> string \<Rightarrow> string" where
  "provider_canonical_id provider thread_id item_id =
     provider @ '':'' @ unwrap_or thread_id ''-'' @ '':'' @ item_id"

definition provider_record_canonical_id :: "ProviderEventRecord \<Rightarrow> string" where
  "provider_record_canonical_id e = (case er_provider_item_id e of
      Some item \<Rightarrow> provider_canonical_id (er_provider e) (er_provider_thread_id e) item
    | None \<Rightarrow> er_identity_key e)"

definition project_timeline_item :: "ProviderEventRecord \<Rightarrow> ProviderTimelineItem" where
  "project_timeline_item e =
     (let v = er_normalized_payload e in \<lparr>
        tl_canonical_id = provider_record_canonical_id e,
        tl_kind = er_kind e, tl_phase = er_phase e,
        tl_title = unwrap_or (text_at ''title'' v) (unwrap_or (er_provider_subtype e)
          (case find (\<lambda>c. ac_kind c = er_kind e) PROVIDER_ACTION_CATEGORIES of
             Some c \<Rightarrow> ac_label c | None \<Rightarrow> ''unknown event'')),
        tl_body = unwrap_or (Option.bind (or_else (jget v ''body'') (jget v ''text'')) as_str) [],
        tl_provider_subtype = er_provider_subtype e,
        tl_parent_canonical_id = map_option (\<lambda>parent. provider_canonical_id (er_provider e)
          (or_else (er_parent_provider_thread_id e) (er_provider_thread_id e)) parent) (er_parent_provider_item_id e),
        tl_raw_json = er_raw_json e\<rparr>)"

definition project_timeline :: "ProviderEventRecord list \<Rightarrow> ProviderTimelineItem list" where
  "project_timeline events = map project_timeline_item events"

definition project_timeline_for_chat_thread :: "int \<Rightarrow> event_store \<Rightarrow> ProviderTimelineItem list" where
  "project_timeline_for_chat_thread t st = project_timeline (list_for_chat_thread t st)"

section \<open>Reading a merged payload\<close>

lemma text_at_Some_obj: "text_at k v = Some t \<Longrightarrow> \<exists>m. v = JObj m"
  by (cases v) (simp_all add: text_at_def)

lemma text_at_jset:
  "text_at k v \<noteq> None \<Longrightarrow> text_at k' (jset k (JStr t) v) = (if k' = k then Some t else text_at k' v)"
  by (cases v) (simp_all add: text_at_def bt_insert_lookup)

lemma text_at_set_text: "text_at k' (set_text t k v) =
    (if k' = k \<and> text_at k v \<noteq> None then Some t else text_at k' v)"
  by (auto simp: set_text_def text_at_jset split: option.splits)

lemma text_at_merge_key: "text_at k' (merge_key e ph k v) =
    (case (text_at k e, text_at k v) of
       (Some a, Some b) \<Rightarrow> if k' = k then Some (merged_text ph a b) else text_at k' v
     | _ \<Rightarrow> text_at k' v)"
  by (auto simp: merge_key_def text_at_jset split: option.splits)

lemma text_at_merge: "k \<in> {''body'', ''text''} \<Longrightarrow> text_at k e = Some a \<Longrightarrow> text_at k v = Some b \<Longrightarrow>
    text_at k (merge_streaming_payload e v ph) = Some (merged_text ph a b)"
  by (auto simp: merge_streaming_payload_def text_at_merge_key split: option.splits)

lemma text_at_incoming:
  assumes "dr_phase d = Delta" "k \<in> {''body'', ''text''}" "text_at k (dr_normalized_payload d) = Some b"
  shows "\<exists>t. stream_delta_of (dr_normalized_payload d) = Some t
    \<and> text_at k (streaming_merge_incoming_payload d) = Some t"
proof -
  have "stream_delta_of (dr_normalized_payload d) \<noteq> None"
    using assms(2,3) by (auto simp: stream_delta_of_def or_else_def split: option.splits)
  then obtain t where "stream_delta_of (dr_normalized_payload d) = Some t" by blast
  with assms show ?thesis by (auto simp: streaming_merge_incoming_payload_def text_at_set_text)
qed

section \<open>Upserting\<close>

lemma conflict_update_fields [simp]:
  "er_id (conflict_update x r) = er_id r" "er_identity_key (conflict_update x r) = er_identity_key r"
  "er_provider (conflict_update x r) = er_provider r"
  "er_received_sequence (conflict_update x r) = er_received_sequence r"
  "er_created_at (conflict_update x r) = er_created_at r"
  "er_timeline_seq (conflict_update x r) = or_else (er_timeline_seq r) (er_timeline_seq x)"
  "er_normalized_payload (conflict_update x r) = er_normalized_payload x"
  "er_phase (conflict_update x r) = er_phase x" "er_kind (conflict_update x r) = er_kind x"
  "er_process_id (conflict_update x r) = er_process_id x"
  by (simp_all add: conflict_update_def)

lemma inserted_row_fields [simp]:
  "er_id (inserted_row now i n q v d) = i" "er_identity_key (inserted_row now i n q v d) = identity_key d"
  "er_provider (inserted_row now i n q v d) = dr_provider d"
  "er_received_sequence (inserted_row now i n q v d) = n"
  "er_timeline_seq (inserted_row now i n q v d) = Some q"
  "er_normalized_payload (inserted_row now i n q v d) = v"
  "er_phase (inserted_row now i n q v d) = dr_phase d" "er_kind (inserted_row now i n q v d) = dr_kind d"
  "er_process_id (inserted_row now i n q v d) = dr_process_id d"
  by (simp_all add: inserted_row_def)

text \<open>The timeline number a draft gets, and the row it writes.\<close>

definition timeline_for :: "ProviderEventDraft \<Rightarrow> event_store \<Rightarrow> int" where
  "timeline_for d st = (case existing_timeline_sequence st (identity_key d) of
     Some n \<Rightarrow> n | None \<Rightarrow> es_timeline st + 1)"

definition new_row :: "string \<Rightarrow> ProviderEventDraft \<Rightarrow> event_store \<Rightarrow> ProviderEventRecord" where
  "new_row now d st = inserted_row now (sql_next er_id (es_events st)) (next_received_sequence st)
     (timeline_for d st) (merge_existing_streaming_payload st (identity_key d) d) d"

lemma upsert_fields:
  "es_events (upsert_event_in_tx now d st) = upsert_row (new_row now d st) (es_events st)"
  "es_raw (upsert_event_in_tx now d st) = es_raw st @ [raw_row now (es_raw_ids st + 1) (next_raw_sequence st) d]"
  "es_raw_ids (upsert_event_in_tx now d st) = es_raw_ids st + 1"
  "es_timeline (upsert_event_in_tx now d st) = (if existing_timeline_sequence st (identity_key d) = None
     then es_timeline st + 1 else es_timeline st)"
  by (auto simp: upsert_event_in_tx_def new_row_def timeline_for_def next_timeline_sequence_def Let_def
      merge_existing_streaming_payload_def get_by_identity_key_def split: option.splits)

definition events_ok :: "event_store \<Rightarrow> bool" where
  "events_ok st \<longleftrightarrow> keyed er_identity_key (es_events st) \<and> keyed er_id (es_events st)
     \<and> keyed er_received_sequence (es_events st)
     \<and> (\<forall>r\<in>set (es_events st). \<forall>n. er_timeline_seq r = Some n \<longrightarrow> n \<le> es_timeline st)
     \<and> (\<forall>r\<in>set (es_events st). \<forall>s\<in>set (es_events st).
          er_timeline_seq r \<noteq> None \<and> er_timeline_seq r = er_timeline_seq s \<longrightarrow> r = s)"

lemma get_iff: "keyed er_identity_key (es_events st) \<Longrightarrow>
    get_by_identity_key k st = Some r \<longleftrightarrow> r \<in> set (es_events st) \<and> er_identity_key r = k"
  unfolding get_by_identity_key_def by (rule keyed_find_iff)

lemma get_None: "get_by_identity_key k st = None \<longleftrightarrow> k \<notin> er_identity_key ` set (es_events st)"
  by (auto simp: get_by_identity_key_def find_None_iff)

lemma upsert_row_keyed:
  assumes "keyed key rows" and "\<And>r. key (conflict_update row r) = key r"
    and "er_identity_key row \<notin> er_identity_key ` set rows \<Longrightarrow> key row \<notin> key ` set rows"
  shows "keyed key (upsert_row row rows)"
  using assms update_where_keyed [of key "conflict_update row"]
  by (auto simp: upsert_row_def keyed_def)

lemma sql_next_neq [simp]: "x \<in> set rows \<Longrightarrow> sql_next f rows \<noteq> f x"
  using sql_next_greater [of x rows f] by simp

lemma sql_next_fresh: "sql_next f rows \<notin> f ` set rows"
  using sql_next_neq by fastforce

text \<open>After an upsert the row under the draft's key is the draft's, in the place of the one that was there.\<close>

lemma get_upsert:
  "get_by_identity_key k (upsert_event_in_tx now d st) = (if k = identity_key d
     then Some (case get_by_identity_key k st of None \<Rightarrow> new_row now d st
       | Some r \<Rightarrow> conflict_update (new_row now d st) r)
     else get_by_identity_key k st)"
proof -
  have key: "er_identity_key (new_row now d st) = identity_key d" by (simp add: new_row_def)
  have app: "find P (xs @ [x]) = (case find P xs of Some y \<Rightarrow> Some y | None \<Rightarrow> if P x then Some x else None)"
    for P and xs :: "ProviderEventRecord list" and x by (induction xs) auto
  show ?thesis
  proof (cases "get_by_identity_key (identity_key d) st")
    case None
    then have "identity_key d \<notin> er_identity_key ` set (es_events st)" by (simp add: get_None)
    with None show ?thesis
      by (auto simp: get_by_identity_key_def upsert_fields upsert_row_def key app split: option.splits)
  next
    case (Some r)
    then have "identity_key d \<in> er_identity_key ` set (es_events st)"
      by (metis get_None option.distinct(1))
    then have upd: "get_by_identity_key k (upsert_event_in_tx now d st) = map_option
        (\<lambda>x. if er_identity_key x = identity_key d then conflict_update (new_row now d st) x else x)
        (get_by_identity_key k st)"
      by (simp add: get_by_identity_key_def upsert_fields upsert_row_def key update_where_find)
    have id: "er_identity_key x = k" if "get_by_identity_key k st = Some x" for k x
      using that by (auto simp: get_by_identity_key_def find_Some_iff)
    show ?thesis
    proof (cases "get_by_identity_key k st")
      case None
      with Some upd show ?thesis by auto
    next
      case (Some x)
      with upd id [OF Some] id [OF \<open>get_by_identity_key (identity_key d) st = Some r\<close>]
        \<open>get_by_identity_key (identity_key d) st = Some r\<close> show ?thesis by auto
    qed
  qed
qed

lemma timeline_for_cases:
  assumes "keyed er_identity_key (es_events st)" "r \<in> set (es_events st)" "er_identity_key r = identity_key d"
  shows "existing_timeline_sequence st (identity_key d) = er_timeline_seq r"
  using assms get_iff [of st "identity_key d" r] by (simp add: existing_timeline_sequence_def)

lemma upsert_keyed:
  assumes "events_ok st"
  shows "keyed er_identity_key (es_events (upsert_event_in_tx now d st))"
    "keyed er_id (es_events (upsert_event_in_tx now d st))"
    "keyed er_received_sequence (es_events (upsert_event_in_tx now d st))"
  using assms unfolding upsert_fields events_ok_def
  by (auto intro!: upsert_row_keyed simp: new_row_def next_received_sequence_def)

text \<open>Every row after an upsert is an untouched one or the one under the draft's key.\<close>

lemma upsert_rows:
  assumes ok: "events_ok st" and mem: "r' \<in> set (es_events (upsert_event_in_tx now d st))"
  shows "(r' \<in> set (es_events st) \<and> er_identity_key r' \<noteq> identity_key d)
    \<or> (er_identity_key r' = identity_key d \<and> er_timeline_seq r' = Some (timeline_for d st))"
proof -
  let ?st = "upsert_event_in_tx now d st"
  have get: "get_by_identity_key (er_identity_key r') ?st = Some r'"
    using mem by (simp add: get_iff upsert_keyed [OF ok])
  have k: "keyed er_identity_key (es_events st)" using ok by (simp add: events_ok_def)
  show ?thesis
  proof (cases "er_identity_key r' = identity_key d")
    case False
    with get k show ?thesis by (simp add: get_upsert get_iff)
  next
    case True
    show ?thesis
    proof (cases "get_by_identity_key (identity_key d) st")
      case None
      with True get show ?thesis by (auto simp: get_upsert new_row_def)
    next
      case (Some r)
      with True get have "r' = conflict_update (new_row now d st) r" by (simp add: get_upsert)
      with Some True show ?thesis
        by (auto simp: new_row_def timeline_for_def existing_timeline_sequence_def or_else_def
            split: option.splits)
    qed
  qed
qed

lemma timeline_old_le: "events_ok st \<Longrightarrow> r \<in> set (es_events st) \<Longrightarrow> er_timeline_seq r = Some n \<Longrightarrow> n \<le> es_timeline st"
  by (simp add: events_ok_def)

lemma ok_keys: "events_ok st \<Longrightarrow> keyed er_identity_key (es_events st)"
  by (simp add: events_ok_def)

lemma timeline_unique: "events_ok st \<Longrightarrow> r \<in> set (es_events st) \<Longrightarrow> s \<in> set (es_events st) \<Longrightarrow>
    er_timeline_seq r = Some n \<Longrightarrow> er_timeline_seq s = Some n \<Longrightarrow> r = s"
  unfolding events_ok_def by (metis option.distinct(1))

text \<open>The row whose timeline number a draft takes over.\<close>

lemma existing_timeline_row:
  assumes ok: "events_ok st" and "existing_timeline_sequence st (identity_key d) = Some n"
  obtains x where "x \<in> set (es_events st)" "er_identity_key x = identity_key d" "er_timeline_seq x = Some n"
  using assms by (auto simp: existing_timeline_sequence_def bind_eq_Some_conv get_iff [OF ok_keys [OF ok]])

lemma timeline_for_old:
  assumes ok: "events_ok st" and r: "r \<in> set (es_events st)" "er_timeline_seq r = Some (timeline_for d st)"
  shows "er_identity_key r = identity_key d"
proof (cases "existing_timeline_sequence st (identity_key d)")
  case None
  with timeline_old_le [OF ok r] show ?thesis by (simp add: timeline_for_def)
next
  case (Some n)
  with r(2) have "er_timeline_seq r = Some n" by (simp add: timeline_for_def)
  with timeline_unique [OF ok r(1)] existing_timeline_row [OF ok Some] show ?thesis by metis
qed

lemma timeline_for_le:
  assumes ok: "events_ok st"
  shows "timeline_for d st \<le> es_timeline (upsert_event_in_tx now d st)"
proof (cases "existing_timeline_sequence st (identity_key d)")
  case None
  then show ?thesis by (simp add: timeline_for_def upsert_fields)
next
  case (Some n)
  then have "n \<le> es_timeline st" by (rule existing_timeline_row [OF ok]) (rule timeline_old_le [OF ok])
  with Some show ?thesis by (simp add: timeline_for_def upsert_fields)
qed

lemma upsert_ok:
  assumes ok: "events_ok st"
  shows "events_ok (upsert_event_in_tx now d st)"
proof -
  let ?st = "upsert_event_in_tx now d st" and ?rows = "es_events st"
  note keyed = upsert_keyed [OF ok, of now d]
  have top: "n \<le> es_timeline ?st" if "r' \<in> set (es_events ?st)" "er_timeline_seq r' = Some n" for r' n
    using upsert_rows [OF ok that(1)]
  proof
    assume "r' \<in> set ?rows \<and> er_identity_key r' \<noteq> identity_key d"
    with timeline_old_le [OF ok] that(2) have "n \<le> es_timeline st" by blast
    then show ?thesis by (simp add: upsert_fields)
  next
    assume "er_identity_key r' = identity_key d \<and> er_timeline_seq r' = Some (timeline_for d st)"
    with that(2) timeline_for_le [OF ok, of d now] show ?thesis by simp
  qed
  have same_key: "r = s" if "r \<in> set (es_events ?st)" "s \<in> set (es_events ?st)"
      "er_identity_key r = er_identity_key s" for r s
    using keyed(1) that by (auto simp: keyed_def distinct_map dest: inj_onD)
  have seq: "r = s" if r: "r \<in> set (es_events ?st)" and s: "s \<in> set (es_events ?st)"
      and "er_timeline_seq r \<noteq> None" "er_timeline_seq r = er_timeline_seq s" for r s
  proof (cases "er_identity_key r = er_identity_key s")
    case True
    then show ?thesis using same_key r s by blast
  next
    case False
    with upsert_rows [OF ok r] upsert_rows [OF ok s] consider "r \<in> set ?rows" "s \<in> set ?rows"
      | "r \<in> set ?rows" "er_identity_key r \<noteq> identity_key d" "er_timeline_seq s = Some (timeline_for d st)"
      | "s \<in> set ?rows" "er_identity_key s \<noteq> identity_key d" "er_timeline_seq r = Some (timeline_for d st)"
      by metis
    then show ?thesis
    proof cases
      case 1
      with that(3,4) timeline_unique [OF ok] show ?thesis by (metis option.exhaust)
    next
      case 2
      with timeline_for_old [OF ok 2(1)] that(4) show ?thesis by simp
    next
      case 3
      with timeline_for_old [OF ok 3(1)] that(4) show ?thesis by simp
    qed
  qed
  show ?thesis unfolding events_ok_def using keyed seq top by blast
qed

interpretation event_rows: closed_machine "\<lambda>st (now, d). upsert_event_in_tx now d st" events_ok
  by unfold_locales (auto intro: upsert_ok)

definition upsert_run :: "(string \<times> ProviderEventDraft) list \<Rightarrow> event_store \<Rightarrow> event_store" where
  "upsert_run ds st = fold (\<lambda>(now, d) st. upsert_event_in_tx now d st) ds st"

lemma upsert_run_simps [simp]:
  "upsert_run [] st = st"
  "upsert_run ((now, d) # ds) st = upsert_run ds (upsert_event_in_tx now d st)"
  "upsert_run (ds @ es) st = upsert_run es (upsert_run ds st)"
  by (simp_all add: upsert_run_def)

lemma upsert_run_ok: "events_ok st \<Longrightarrow> events_ok (upsert_run ds st)"
  using event_rows.closed_run [of st ds] by (simp add: upsert_run_def case_prod_beta')

section \<open>An event keeps its place\<close>

lemma upsert_place:
  assumes "get_by_identity_key k st = Some r"
  shows "\<exists>r'. get_by_identity_key k (upsert_event_in_tx now d st) = Some r' \<and> er_id r' = er_id r
    \<and> er_provider r' = er_provider r \<and> er_received_sequence r' = er_received_sequence r
    \<and> er_created_at r' = er_created_at r \<and> (er_timeline_seq r \<noteq> None \<longrightarrow> er_timeline_seq r' = er_timeline_seq r)"
  using assms by (auto simp: get_upsert or_else_def split: option.splits)

lemma run_place:
  "get_by_identity_key k st = Some r \<Longrightarrow>
   \<exists>r'. get_by_identity_key k (upsert_run ds st) = Some r' \<and> er_id r' = er_id r
    \<and> er_provider r' = er_provider r \<and> er_received_sequence r' = er_received_sequence r
    \<and> er_created_at r' = er_created_at r \<and> (er_timeline_seq r \<noteq> None \<longrightarrow> er_timeline_seq r' = er_timeline_seq r)"
proof (induction ds arbitrary: st r)
  case (Cons x ds)
  obtain now d where x: "x = (now, d)" by (cases x)
  from upsert_place [OF Cons.prems, of now d] obtain r1 where
    "get_by_identity_key k (upsert_event_in_tx now d st) = Some r1" and r1: "er_id r1 = er_id r"
    "er_provider r1 = er_provider r" "er_received_sequence r1 = er_received_sequence r"
    "er_created_at r1 = er_created_at r" "er_timeline_seq r \<noteq> None \<longrightarrow> er_timeline_seq r1 = er_timeline_seq r" by blast
  from Cons.IH [OF this(1)] r1 show ?case by (auto simp: x)
qed simp

lemma run_new:
  "events_ok st \<Longrightarrow> get_by_identity_key k st = None \<Longrightarrow> get_by_identity_key k (upsert_run ds st) = Some r' \<Longrightarrow>
   (\<exists>n. er_timeline_seq r' = Some n \<and> es_timeline st < n)
   \<and> (\<forall>r\<in>set (es_events st). er_received_sequence r < er_received_sequence r')"
proof (induction ds arbitrary: st)
  case (Cons x ds)
  obtain now d where x: "x = (now, d)" by (cases x)
  let ?st = "upsert_event_in_tx now d st"
  show ?case
  proof (cases "k = identity_key d")
    case True
    with Cons.prems(2) have "get_by_identity_key k ?st = Some (new_row now d st)" by (simp add: get_upsert)
    from run_place [OF this, of ds] Cons.prems(2,3) True
    have "er_timeline_seq r' = Some (es_timeline st + 1)"
      "er_received_sequence r' = sql_next er_received_sequence (es_events st)"
      by (auto simp: x new_row_def timeline_for_def existing_timeline_sequence_def next_received_sequence_def)
    then show ?thesis using sql_next_greater [of _ "es_events st" er_received_sequence] by simp
  next
    case False
    with Cons.prems have ih: "(\<exists>n. er_timeline_seq r' = Some n \<and> es_timeline ?st < n)
        \<and> (\<forall>r\<in>set (es_events ?st). er_received_sequence r < er_received_sequence r')"
      by (intro Cons.IH) (simp_all add: x upsert_ok get_upsert)
    have "er_received_sequence r < er_received_sequence r'" if "r \<in> set (es_events st)" for r
    proof -
      from that have "get_by_identity_key (er_identity_key r) st = Some r"
        by (simp add: get_iff ok_keys [OF Cons.prems(1)])
      from upsert_place [OF this, of now d] obtain r1 where
        "get_by_identity_key (er_identity_key r) ?st = Some r1" "er_received_sequence r1 = er_received_sequence r"
        by blast
      with ih show ?thesis by (metis get_iff ok_keys upsert_ok Cons.prems(1))
    qed
    moreover have "es_timeline st \<le> es_timeline ?st" by (simp add: upsert_fields)
    ultimately show ?thesis using ih by force
  qed
qed simp

section \<open>Streamed text\<close>

lemma delta_upsert:
  assumes "get_by_identity_key k st = Some r" "text_at key (er_normalized_payload r) = Some s"
    and "identity_key d = k" "dr_phase d = Delta" "key \<in> {''body'', ''text''}"
    and "text_at key (dr_normalized_payload d) \<noteq> None"
  shows "\<exists>r'. get_by_identity_key k (upsert_event_in_tx now d st) = Some r'
    \<and> text_at key (er_normalized_payload r') = Some (s @ the (stream_delta_of (dr_normalized_payload d)))"
proof -
  obtain b where "text_at key (dr_normalized_payload d) = Some b" using assms(6) by blast
  from text_at_incoming [OF assms(4,5) this] obtain t where
    t: "stream_delta_of (dr_normalized_payload d) = Some t"
       "text_at key (streaming_merge_incoming_payload d) = Some t" by blast
  from text_at_merge [OF assms(5,2) t(2)] assms(1,3,4) t(1) show ?thesis
    by (simp add: get_upsert new_row_def merge_existing_streaming_payload_def merged_text_def terminal_phase_def)
qed

section \<open>The raw table\<close>

definition raw_ok :: "event_store \<Rightarrow> bool" where
  "raw_ok st \<longleftrightarrow> (\<forall>r\<in>set (es_raw st). rp_id r \<le> es_raw_ids st)"

lemma raw_upsert_ok: "raw_ok st \<Longrightarrow> raw_ok (upsert_event_in_tx now d st)"
  by (auto simp: raw_ok_def upsert_fields raw_row_def)

lemma raw_upsert:
  assumes "raw_ok st"
  shows "list_raw_payloads_for_identity k (upsert_event_in_tx now d st) = list_raw_payloads_for_identity k st @
    (if identity_key d = k then [raw_row now (es_raw_ids st + 1) (next_raw_sequence st) d] else [])"
proof -
  let ?x = "raw_row now (es_raw_ids st + 1) (next_raw_sequence st) d"
    and ?rows = "filter (\<lambda>r. rp_identity_key r = k) (es_raw st)"
  have x: "rp_id ?x = es_raw_ids st + 1" "rp_raw_sequence ?x = sql_next rp_raw_sequence (es_raw st)"
    "rp_identity_key ?x = identity_key d" by (simp_all add: raw_row_def next_raw_sequence_def)
  have "\<forall>y\<in>set ?rows. rp_id y < rp_id ?x" using assms by (auto simp: raw_ok_def x)
  then have id: "sort_key rp_id (?rows @ [?x]) = sort_key rp_id ?rows @ [?x]" by (rule sort_key_snoc)
  have "\<forall>y\<in>set (sort_key rp_id ?rows). rp_raw_sequence y < rp_raw_sequence ?x"
    using sql_next_greater [of _ "es_raw st" rp_raw_sequence] by (simp add: x)
  from sort_key_snoc [OF this] id show ?thesis
    by (simp add: list_raw_payloads_for_identity_def upsert_fields x del: sort_key_simps)
qed

section \<open>Recovery\<close>













































definition empty_store :: event_store where
  "empty_store = \<lparr>es_events = [], es_raw = [], es_timeline = 0, es_raw_ids = 0\<rparr>"



section \<open>Properties\<close>

text \<open>
  A stored event keeps its place: whatever is upserted later, the row under its identity key keeps
  its id, provider, creation time, received sequence and, once it has one, its timeline number, and
  every event stored under a new key is numbered after everything that was there.
\<close>

lemma stored_event_keeps_its_place:
  assumes "events_ok st"
  shows "(get_by_identity_key k st = Some r \<longrightarrow>
      (\<exists>r'. get_by_identity_key k (upsert_run ds st) = Some r' \<and> er_id r' = er_id r
        \<and> er_provider r' = er_provider r \<and> er_received_sequence r' = er_received_sequence r
        \<and> er_created_at r' = er_created_at r
        \<and> (er_timeline_seq r \<noteq> None \<longrightarrow> er_timeline_seq r' = er_timeline_seq r)))
    \<and> (get_by_identity_key k st = None \<and> get_by_identity_key k (upsert_run ds st) = Some r' \<longrightarrow>
      (\<exists>n. er_timeline_seq r' = Some n \<and> es_timeline st < n)
      \<and> (\<forall>r\<in>set (es_events st). er_received_sequence r < er_received_sequence r'))
    \<and> events_ok (upsert_run ds st)"
proof (intro conjI impI)
  assume "get_by_identity_key k st = Some r"
  then show "\<exists>r'. get_by_identity_key k (upsert_run ds st) = Some r' \<and> er_id r' = er_id r
        \<and> er_provider r' = er_provider r \<and> er_received_sequence r' = er_received_sequence r
        \<and> er_created_at r' = er_created_at r
        \<and> (er_timeline_seq r \<noteq> None \<longrightarrow> er_timeline_seq r' = er_timeline_seq r)"
    by (rule run_place)
next
  assume new: "get_by_identity_key k st = None \<and> get_by_identity_key k (upsert_run ds st) = Some r'"
  note n = run_new [OF assms new [THEN conjunct1] new [THEN conjunct2]]
  show "\<exists>n. er_timeline_seq r' = Some n \<and> es_timeline st < n" using n by (rule conjunct1)
  show "\<forall>r\<in>set (es_events st). er_received_sequence r < er_received_sequence r'" using n by (rule conjunct2)
next
  show "events_ok (upsert_run ds st)" using assms by (rule upsert_run_ok)
qed

text \<open>
  Streamed text accumulates: once an item's row holds text, any sequence of deltas for that item
  leaves exactly that text followed by the deltas, in order, in its body (or text).
\<close>

lemma streamed_text_accumulates:
  assumes "get_by_identity_key k st = Some r" "text_at key (er_normalized_payload r) = Some s"
    and "key \<in> {''body'', ''text''}"
    and "\<forall>(now, d)\<in>set ds. identity_key d = k \<and> dr_phase d = Delta \<and> text_at key (dr_normalized_payload d) \<noteq> None"
  shows "\<exists>r'. get_by_identity_key k (upsert_run ds st) = Some r' \<and> text_at key (er_normalized_payload r')
    = Some (s @ concat (map (\<lambda>(now, d). the (stream_delta_of (dr_normalized_payload d))) ds))"
  using assms
proof (induction ds arbitrary: st r s)
  case (Cons x ds)
  obtain now d where x: "x = (now, d)" by (cases x)
  with Cons.prems(4) have "identity_key d = k" "dr_phase d = Delta" "text_at key (dr_normalized_payload d) \<noteq> None"
    by auto
  from delta_upsert [OF Cons.prems(1,2) this(1,2) Cons.prems(3) this(3)] obtain r1 where
    "get_by_identity_key k (upsert_event_in_tx now d st) = Some r1"
    "text_at key (er_normalized_payload r1) = Some (s @ the (stream_delta_of (dr_normalized_payload d)))" by blast
  from Cons.IH [OF this Cons.prems(3)] Cons.prems(4) show ?case by (auto simp: x)
qed simp

text \<open>
  No raw record is lost: the raw payloads listed for an identity key are those it had followed by
  the verbatim payload of every draft upserted under it, in order, merged or not.
\<close>

lemma no_raw_record_is_lost:
  assumes "raw_ok st"
  shows "map rp_raw_json (list_raw_payloads_for_identity k (upsert_run ds st)) =
    map rp_raw_json (list_raw_payloads_for_identity k st)
    @ map (\<lambda>(now, d). dr_raw_json d) (filter (\<lambda>(now, d). identity_key d = k) ds)"
  using assms
proof (induction ds arbitrary: st)
  case (Cons x ds)
  obtain now d where x: "x = (now, d)" by (cases x)
  from Cons.IH [OF raw_upsert_ok [OF Cons.prems], of now d] show ?case
    by (simp add: x raw_upsert [OF Cons.prems] raw_row_def)
qed simp


definition demo_delta :: "string \<Rightarrow> ProviderEventDraft" where
  "demo_delta body = \<lparr>dr_provider = ''claude'', dr_provider_event_id = None, dr_provider_item_id = Some ''m1'',
     dr_provider_thread_id = Some ''s1'', dr_provider_turn_id = None, dr_parent_provider_item_id = None,
     dr_parent_provider_thread_id = None, dr_workspace_id = None, dr_chat_thread_id = Some 7,
     dr_process_id = Some 3, dr_phase = Delta, dr_kind = AssistantOutput, dr_provider_subtype = None,
     dr_provider_sequence = None, dr_occurred_at_ms = 5, dr_normalized_payload = obj [(''body'', JStr body)],
     dr_raw_json = JStr body, dr_schema_version = 1, dr_adapter_version = ''v1''\<rparr>"


lemma demo_key [simp]: "identity_key (demo_delta b) = ''claude:s1:m1:stream''"
  by (simp add: identity_key_def demo_delta_def phase_key_def)

lemma demo_body [simp]: "text_at ''body'' (dr_normalized_payload (demo_delta b)) = Some b"
  "stream_delta_of (dr_normalized_payload (demo_delta b)) = Some b"
  by (simp_all add: text_at_def demo_delta_def stream_delta_of_def)

lemma get_empty [simp]: "get_by_identity_key k empty_store = None"
  by (simp add: get_by_identity_key_def empty_store_def)


end
