(* ===== verification/Redaction.thy ===== *)
theory Redaction
  imports Json
begin

text \<open>
  Redaction of secrets from text that is logged or shown (\<open>crates/core/src/redaction.rs\<close>): a first
  pass over quoted keys, then one over words. Indices are byte positions, as in the source, and every
  character the code looks for is ASCII. One loop of the code does not always end: it is a
  \<open>partial_function\<close>, and \<open>None\<close> is not returning.
\<close>

section \<open>Which keys are sensitive\<close>

definition trim_matches :: "char list \<Rightarrow> string \<Rightarrow> string" where
  "trim_matches cs s = rev (dropWhile (\<lambda>c. c \<in> set cs) (rev (dropWhile (\<lambda>c. c \<in> set cs) s)))"

definition marks :: "char list" where
  "marks = [CHR 0x27, CHR 0x22, CHR '':'', CHR '','', CHR ''{'', CHR ''}'', CHR ''['', CHR '']'']"

definition sensitive_names :: "string list" where
  "sensitive_names = [''token'', ''api_key'', ''key'', ''password'', ''secret'']"

definition normalized_key :: "string \<Rightarrow> string" where
  "normalized_key key = to_ascii_lowercase (map (\<lambda>c. if c = CHR ''-'' then CHR ''_'' else c)
     (dropWhile (\<lambda>c. c = CHR ''-'') (trim_matches marks key)))"

definition is_sensitive_key_or_flag :: "string \<Rightarrow> bool" where
  "is_sensitive_key_or_flag key =
     (let n = normalized_key key in \<exists>name\<in>set sensitive_names. n = name \<or> suffix (CHR ''_'' # name) n)"

definition is_bearer_marker :: "string \<Rightarrow> bool" where
  "is_bearer_marker part \<longleftrightarrow> to_ascii_lowercase (trim_matches marks part) = ''bearer''"

definition is_flag_secret :: "string \<Rightarrow> bool" where
  "is_flag_secret part \<longleftrightarrow> prefix ''--'' part \<and> is_sensitive_key_or_flag (dropWhile (\<lambda>c. c = CHR ''-'') part)"

definition strip_last :: "char \<Rightarrow> string \<Rightarrow> string option" where
  "strip_last c s = (if s \<noteq> [] \<and> last s = c then Some (butlast s) else None)"

definition is_sensitive_key_marker :: "string \<Rightarrow> bool" where
  "is_sensitive_key_marker part =
     (let marker = unwrap_or (or_else (strip_last (CHR ''='') part) (strip_last (CHR '':'') part)) part
      in length marker \<noteq> length part \<and> is_sensitive_key_or_flag marker)"

section \<open>Quoted keys and their values\<close>

text \<open>The scan of \<open>quoted_string_end\<close> from just behind the opening quote.\<close>

fun quote_scan :: "bool \<Rightarrow> nat \<Rightarrow> string \<Rightarrow> nat option" where
  "quote_scan escaped n [] = None"
| "quote_scan escaped n (c # s) =
     (if escaped then quote_scan False (Suc n) s
      else if c = CHR 0x5C then quote_scan True (Suc n) s
      else if c = CHR 0x22 then Some n
      else quote_scan False (Suc n) s)"

definition quoted_string_end :: "string \<Rightarrow> nat \<Rightarrow> nat option" where
  "quoted_string_end v q = quote_scan False (q + 1) (drop (q + 1) v)"

definition decode_json_string_key :: "(string \<Rightarrow> string option) \<Rightarrow> string \<Rightarrow> string" where
  "decode_json_string_key from_str key = unwrap_or (from_str (CHR 0x22 # key @ [CHR 0x22])) key"

definition skip_ascii_whitespace :: "string \<Rightarrow> nat \<Rightarrow> nat option" where
  "skip_ascii_whitespace v i = map_option (\<lambda>k. i + k) (position (\<lambda>c. \<not> is_ascii_whitespace c) (drop i v))"

text \<open>The scan of \<open>structured_value_end\<close>: depth, inside a string, after a backslash.\<close>

fun value_scan :: "nat \<Rightarrow> bool \<Rightarrow> bool \<Rightarrow> nat \<Rightarrow> string \<Rightarrow> nat option" where
  "value_scan depth in_string escaped n [] = None"
| "value_scan depth in_string escaped n (c # s) =
     (if in_string then
        (if escaped then value_scan depth True False (Suc n) s
         else if c = CHR 0x5C then value_scan depth True True (Suc n) s
         else if c = CHR 0x22 then value_scan depth False False (Suc n) s
         else value_scan depth True False (Suc n) s)
      else if c = CHR 0x22 then value_scan depth True escaped (Suc n) s
      else if c = CHR ''{'' \<or> c = CHR ''['' then value_scan (Suc depth) False escaped (Suc n) s
      else if (c = CHR ''}'' \<or> c = CHR '']'') \<and> 0 < depth then
        (if depth = 1 then Some (n + 1) else value_scan (depth - 1) False escaped (Suc n) s)
      else if (c = CHR '','' \<or> c = CHR ''}'' \<or> c = CHR '']'' \<or> c = CHR 0x0A \<or> c = CHR 0x0D) \<and> depth = 0
        then Some n
      else value_scan depth False escaped (Suc n) s)"

definition structured_value_end :: "string \<Rightarrow> nat \<Rightarrow> nat" where
  "structured_value_end v i =
     (if length v \<le> i then i
      else if v ! i = CHR 0x22 then (case quoted_string_end v i of Some e \<Rightarrow> e + 1 | None \<Rightarrow> length v)
      else unwrap_or (value_scan 0 False False i (drop i v)) (length v))"

definition slice :: "string \<Rightarrow> nat \<Rightarrow> nat \<Rightarrow> string" where
  "slice v i j = take (j - i) (drop i v)"

lemma quote_scan_bounds: "quote_scan e n s = Some k \<Longrightarrow> n \<le> k \<and> k < n + length s"
  by (induction e n s rule: quote_scan.induct) (auto split: if_splits)

lemma quoted_string_end_bounds: "quoted_string_end v q = Some e \<Longrightarrow> q < e \<and> e < length v"
  using quote_scan_bounds [of False "q + 1" "drop (q + 1) v" e] by (auto simp: quoted_string_end_def)

lemma value_scan_bounds: "value_scan d b e n s = Some k \<Longrightarrow> n \<le> k \<and> k \<le> n + length s"
  by (induction d b e n s rule: value_scan.induct) (auto split: if_splits)

lemma structured_value_end_ge: "i \<le> structured_value_end v i"
  using value_scan_bounds [of 0 False False i "drop i v"] quoted_string_end_bounds [of v i]
  by (fastforce simp: structured_value_end_def unwrap_or_def split: option.splits)

lemma skip_ascii_whitespace_bounds: "skip_ascii_whitespace v i = Some k \<Longrightarrow> i \<le> k \<and> k < length v"
  using position_Some [of _ "drop i v"] by (fastforce simp: skip_ascii_whitespace_def)

text \<open>The loop of \<open>redact_structured_secrets\<close> from a byte index on.\<close>

function structured_from :: "(string \<Rightarrow> string option) \<Rightarrow> string \<Rightarrow> nat \<Rightarrow> string" where
  "structured_from from_str v i =
     (if length v \<le> i then []
      else (case position (\<lambda>c. c = CHR 0x22) (drop i v) of None \<Rightarrow> drop i v
        | Some offset \<Rightarrow>
          (let key_start = i + offset in
           slice v i key_start @
           (case quoted_string_end v key_start of None \<Rightarrow> drop key_start v
            | Some key_end \<Rightarrow>
              (let decoded_key = decode_json_string_key from_str (slice v (key_start + 1) key_end);
                   after_key = key_end + 1 in
               case skip_ascii_whitespace v after_key of
                 None \<Rightarrow> slice v key_start after_key @ structured_from from_str v after_key
               | Some colon_index \<Rightarrow>
                 if v ! colon_index \<noteq> CHR '':'' \<or> \<not> is_sensitive_key_or_flag decoded_key
                 then slice v key_start after_key @ structured_from from_str v after_key
                 else (let value_start = unwrap_or (skip_ascii_whitespace v (colon_index + 1)) (length v) in
                   slice v key_start value_start @ ''[redacted]''
                   @ structured_from from_str v (structured_value_end v value_start)))))))"
  by pat_completeness auto
termination
proof (relation "measure (\<lambda>(_, v, i). length v - i)")
  fix v :: string and i offset key_start key_end after_key colon_index value_start
  assume "\<not> length v \<le> i" "key_start = i + offset" "quoted_string_end v key_start = Some key_end"
    "after_key = key_end + 1" "skip_ascii_whitespace v after_key = Some colon_index"
    "value_start = unwrap_or (skip_ascii_whitespace v (colon_index + 1)) (length v)"
  moreover from this have "i < value_start"
    using quoted_string_end_bounds [of v key_start key_end] skip_ascii_whitespace_bounds [of v after_key colon_index]
      skip_ascii_whitespace_bounds [of v "colon_index + 1"]
    by (fastforce simp: unwrap_or_def split: option.splits)
  ultimately show "((from_str, v, structured_value_end v value_start), (from_str, v, i))
      \<in> measure (\<lambda>(_, v, i). length v - i)" for from_str :: "string \<Rightarrow> string option"
    using structured_value_end_ge [of value_start v] by simp
qed (use quoted_string_end_bounds in fastforce)+

declare structured_from.simps [simp del]

definition redact_structured_secrets :: "(string \<Rightarrow> string option) \<Rightarrow> string \<Rightarrow> string" where
  "redact_structured_secrets from_str v = structured_from from_str v 0"

section \<open>Words\<close>

fun split_loop :: "bool option \<Rightarrow> string \<Rightarrow> string \<Rightarrow> string list" where
  "split_loop w cur [] = (if cur = [] then [] else [rev cur])"
| "split_loop None cur (c # s) = split_loop (Some (is_whitespace c)) (c # cur) s"
| "split_loop (Some w) cur (c # s) =
     (if is_whitespace c \<noteq> w then rev cur # split_loop (Some (is_whitespace c)) [c] s
      else split_loop (Some w) (c # cur) s)"

definition split_preserving_whitespace :: "string \<Rightarrow> string list" where
  "split_preserving_whitespace v = split_loop None [] v"

section \<open>Assignments inside a word\<close>

definition key_delimiters :: "char list" where
  "key_delimiters = [CHR 0x22, CHR 0x27, CHR '' '', CHR '','', CHR ''{'', CHR ''['', CHR '';'',
     CHR ''?'', CHR ''&'', CHR ''#'']"

definition is_separator :: "char \<Rightarrow> bool" where
  "is_separator c \<longleftrightarrow> c = CHR ''='' \<or> c = CHR '':''"

definition key_start_of :: "string \<Rightarrow> nat \<Rightarrow> nat" where
  "key_start_of part sep = (case rposition (\<lambda>c. c \<in> set key_delimiters) (take sep part) of
     Some k \<Rightarrow> k + 1 | None \<Rightarrow> 0)"

definition find_embedded_assignment_secret :: "string \<Rightarrow> nat \<Rightarrow> (nat \<times> nat \<times> nat) option" where
  "find_embedded_assignment_secret part start =
     find_map (\<lambda>sep. if is_separator (part ! sep) then
         (let key_start = key_start_of part sep; key = slice part key_start sep in
          if key_start < start then None
          else if key \<noteq> [] \<and> sep + 1 < length part \<and> is_sensitive_key_or_flag key
            then Some (key_start, sep, sep + 1) else None)
       else None) [start..<length part]"

definition embedded_assignment_value_end :: "string \<Rightarrow> nat \<Rightarrow> nat" where
  "embedded_assignment_value_end part value_start =
     (let quote_or_whitespace_end = (case position (\<lambda>c. is_whitespace c \<or>
              c \<in> set [CHR 0x22, CHR 0x27, CHR ''&'', CHR ''#'']) (drop value_start part) of
            Some k \<Rightarrow> value_start + k | None \<Rightarrow> length part);
          next_assignment_start = map_option (\<lambda>(key_start, _, _). unwrap_or
            (rposition (\<lambda>c. c \<in> set [CHR '','', CHR '';'', CHR ''&'', CHR ''#'']) (take key_start part)) key_start)
            (find_embedded_assignment_secret part value_start)
      in case next_assignment_start of Some i \<Rightarrow> min i quote_or_whitespace_end
         | None \<Rightarrow> quote_or_whitespace_end)"

text \<open>The \<open>while let\<close> loop: the output so far, the cursor and whether anything was found.\<close>

partial_function (option) embedded_loop :: "string \<Rightarrow> string \<Rightarrow> nat \<Rightarrow> bool \<Rightarrow> string option option" where
  "embedded_loop part output cursor changed =
     (case find_embedded_assignment_secret part cursor of
        None \<Rightarrow> Some (if changed then Some (output @ drop cursor part) else None)
      | Some (_, _, value_start) \<Rightarrow>
          embedded_loop part (output @ slice part cursor value_start @ ''[redacted]'')
            (embedded_assignment_value_end part value_start) True)"

definition redact_embedded_assignment_secret :: "string \<Rightarrow> string option option" where
  "redact_embedded_assignment_secret part = embedded_loop part [] 0 False"

definition split_once :: "char \<Rightarrow> string \<Rightarrow> (string \<times> string) option" where
  "split_once c s = map_option (\<lambda>k. (take k s, drop (k + 1) s)) (position (\<lambda>d. d = c) s)"

definition embedding_chars :: "char list" where
  "embedding_chars = [CHR ''{'', CHR ''['', CHR '','', CHR ''?'', CHR ''&'', CHR ''#'']"

definition redact_assignment_secret :: "string \<Rightarrow> string option option" where
  "redact_assignment_secret part =
     (if \<exists>c\<in>set part. c \<in> set embedding_chars then redact_embedded_assignment_secret part
      else Some (find_map (\<lambda>sep. case split_once sep part of None \<Rightarrow> None
        | Some (key, v) \<Rightarrow> if v \<noteq> [] \<and> is_sensitive_key_or_flag key
            then Some (key @ [sep] @ ''[redacted]'') else None) [CHR ''='', CHR '':'']))"

section \<open>The whole text\<close>

text \<open>One word that is not behind a marker: what is written, and whether the next one is redacted.\<close>

definition redact_word :: "string \<Rightarrow> (string \<times> bool) option" where
  "redact_word part =
     (if is_bearer_marker part then Some (part, True)
      else map_option (\<lambda>r. case r of Some redacted \<Rightarrow> (redacted, False)
        | None \<Rightarrow> (part, is_sensitive_key_marker part \<or> is_flag_secret part)) (redact_assignment_secret part))"

fun redact_parts :: "bool \<Rightarrow> string list \<Rightarrow> string option" where
  "redact_parts redact_next [] = Some []"
| "redact_parts redact_next (part # parts) =
     (if list_all is_whitespace part then map_option ((@) part) (redact_parts redact_next parts)
      else if redact_next then map_option ((@) ''[redacted]'') (redact_parts False parts)
      else (case redact_word part of None \<Rightarrow> None
        | Some (written, next) \<Rightarrow> map_option ((@) written) (redact_parts next parts)))"

definition redact_sensitive_text :: "(string \<Rightarrow> string option) \<Rightarrow> string \<Rightarrow> string option" where
  "redact_sensitive_text from_str v =
     redact_parts False (split_preserving_whitespace (redact_structured_secrets from_str v))"

section \<open>Returning\<close>

lemma structured_no_quote:
  assumes "CHR 0x22 \<notin> set v"
  shows "redact_structured_secrets from_str v = v"
proof -
  have "position (\<lambda>c. c = CHR 0x22) v = None" using assms by (auto simp: position_None)
  then show ?thesis
    unfolding redact_structured_secrets_def by (subst structured_from.simps) (simp only: drop_0, simp)
qed

lemma split_loop_concat: "concat (split_loop w cur s) = rev cur @ s"
  by (induction w cur s rule: split_loop.induct) auto

lemma split_chars: "part \<in> set (split_preserving_whitespace v) \<Longrightarrow> set part \<subseteq> set v"
proof -
  assume "part \<in> set (split_preserving_whitespace v)"
  then have "set part \<subseteq> set (concat (split_loop None [] v))"
    by (auto simp: split_preserving_whitespace_def)
  then show ?thesis by (simp add: split_loop_concat)
qed

lemma find_embedded_Some:
  assumes "find_embedded_assignment_secret part start = Some (k, sep, i)"
  shows "start \<le> k \<and> k < sep \<and> i = sep + 1 \<and> i < length part \<and> is_separator (part ! sep) \<and> k = key_start_of part sep"
proof -
  from find_map_Some [OF assms [unfolded find_embedded_assignment_secret_def]]
  obtain n where "n \<in> set [start..<length part]"
    "(if is_separator (part ! n) then
         (let key_start = key_start_of part n; key = slice part key_start n in
          if key_start < start then None
          else if key \<noteq> [] \<and> n + 1 < length part \<and> is_sensitive_key_or_flag key
            then Some (key_start, n, n + 1) else None)
       else None) = Some (k, sep, i)" by blast
  then show ?thesis by (auto simp: Let_def slice_def split: if_splits)
qed

text \<open>Where every delimiter that can start a key also ends a value, the cursor moves forward.\<close>

definition nesting_chars :: "char list" where
  "nesting_chars = [CHR 0x22, CHR 0x27, CHR '' '', CHR ''{'', CHR ''['', CHR ''?'']"

lemma value_end_ge:
  assumes part: "\<forall>c\<in>set part. c \<notin> set nesting_chars" and i: "0 < i" "is_separator (part ! (i - 1))"
  shows "min i (length part) \<le> embedded_assignment_value_end part i"
proof -
  have quote: "min i (length part) \<le> (case position P (drop i part) of Some k \<Rightarrow> i + k | None \<Rightarrow> length part)" for P
    by (auto split: option.split)
  show ?thesis
  proof (cases "find_embedded_assignment_secret part i")
    case None
    then show ?thesis using quote by (simp add: embedded_assignment_value_end_def Let_def)
  next
    case (Some x)
    obtain k sep j where x: "x = (k, sep, j)" by (cases x)
    from find_embedded_Some [OF Some [unfolded x]]
    have k: "i \<le> k" "k < sep" "sep < length part" "k = key_start_of part sep" by auto
    with i obtain d where d: "rposition (\<lambda>c. c \<in> set key_delimiters) (take sep part) = Some d" "k = d + 1"
      by (auto simp: key_start_of_def split: option.splits)
    have pd: "part ! d \<in> set key_delimiters" and dl: "d < length part"
      using rposition_Some [OF d(1)] k by auto
    have "part ! d \<in> set [CHR '','', CHR '';'', CHR ''&'', CHR ''#'']"
      using pd part nth_mem [OF dl] by (auto simp: key_delimiters_def nesting_chars_def)
    then have "rposition (\<lambda>c. c \<in> set [CHR '','', CHR '';'', CHR ''&'', CHR ''#'']) (take k part) = Some d"
      using dl by (simp add: d(2) rposition_def take_Suc_conv_app_nth)
    moreover have "d \<noteq> i - 1" using pd i(2) by (auto simp: key_delimiters_def is_separator_def)
    then have "i \<le> d" using k(1) d(2) by simp
    ultimately show ?thesis using quote Some
      by (simp add: x embedded_assignment_value_end_def Let_def)
  qed
qed

lemma embedded_loop_returns:
  assumes "\<forall>c\<in>set part. c \<notin> set nesting_chars"
  shows "embedded_loop part out cursor changed \<noteq> None"
proof (induction "length part - cursor" arbitrary: out cursor changed rule: less_induct)
  case less
  show ?case
  proof (cases "find_embedded_assignment_secret part cursor")
    case None
    then show ?thesis by (simp add: embedded_loop.simps)
  next
    case (Some x)
    obtain k sep i where x: "x = (k, sep, i)" by (cases x)
    from find_embedded_Some [OF Some [unfolded x]]
    have b: "cursor < i" "i < length part" "is_separator (part ! (i - 1))" by auto
    with value_end_ge [OF assms _ b(3)] have "i \<le> embedded_assignment_value_end part i" by simp
    with b have "length part - embedded_assignment_value_end part i < length part - cursor" by simp
    from less [OF this] show ?thesis by (simp add: embedded_loop.simps [of part out] Some x)
  qed
qed

lemma redact_word_returns:
  assumes "\<forall>c\<in>set part. c \<notin> set nesting_chars"
  shows "redact_word part \<noteq> None"
proof -
  have "redact_assignment_secret part \<noteq> None"
    using embedded_loop_returns [OF assms, of "[]" 0 False]
    by (simp add: redact_assignment_secret_def redact_embedded_assignment_secret_def)
  then show ?thesis by (auto simp: redact_word_def simp del: not_None_eq)
qed

lemma redact_parts_returns:
  "\<forall>part\<in>set parts. list_all is_whitespace part \<or> redact_word part \<noteq> None \<Longrightarrow> redact_parts n parts \<noteq> None"
  by (induction n parts rule: redact_parts.induct) (auto split: option.splits)

lemma split_loop_kinds: "part \<in> set (split_loop (Some b) cur s) \<Longrightarrow> \<forall>c\<in>set cur. is_whitespace c = b \<Longrightarrow>
    \<exists>b'. \<forall>c\<in>set part. is_whitespace c = b'"
proof (induction s arbitrary: b cur)
  case Nil
  then show ?case by (intro exI [of _ b]) (simp split: if_splits)
next
  case (Cons c s)
  show ?case
  proof (cases "is_whitespace c = b")
    case True
    with Cons.prems show ?thesis by (intro Cons.IH [of b "c # cur"]) simp_all
  next
    case False
    with Cons.prems have "part = rev cur \<or> part \<in> set (split_loop (Some (is_whitespace c)) [c] s)" by simp
    then show ?thesis
    proof
      assume "part = rev cur"
      with Cons.prems(2) show ?thesis by (intro exI [of _ b]) simp
    next
      assume "part \<in> set (split_loop (Some (is_whitespace c)) [c] s)"
      then show ?thesis by (rule Cons.IH) simp
    qed
  qed
qed

lemma split_kinds:
  assumes "part \<in> set (split_preserving_whitespace v)"
  shows "list_all is_whitespace part \<or> list_all (\<lambda>c. \<not> is_whitespace c) part"
proof (cases v)
  case Nil
  with assms show ?thesis by (simp add: split_preserving_whitespace_def)
next
  case (Cons c s)
  with assms have "part \<in> set (split_loop (Some (is_whitespace c)) [c] s)" by (simp add: split_preserving_whitespace_def)
  then obtain b' where "\<forall>c\<in>set part. is_whitespace c = b'" using split_loop_kinds by fastforce
  then show ?thesis by (cases b') (simp_all add: list_all_iff)
qed

section \<open>Not returning\<close>

text \<open>A cursor that the loop body maps to itself, with something found there, is never left.\<close>

lemma embedded_loop_stuck:
  assumes found: "find_embedded_assignment_secret part cursor = Some (k, sep, i)"
    and cycle: "embedded_assignment_value_end part i = cursor"
  shows "embedded_loop part out cursor changed = None"
proof -
  have "embedded_loop p out' c changed' = Some r \<Longrightarrow> \<not> (p = part \<and> c = cursor)" for p out' c changed' r
    by (rule embedded_loop.raw_induct [where P = "\<lambda>p _ c _ _. \<not> (p = part \<and> c = cursor)", rotated], assumption)
      (use found cycle in \<open>fastforce split: option.splits\<close>)
  then show ?thesis by (cases "embedded_loop part out cursor changed") blast+
qed

section \<open>Secrets do not show\<close>




















section \<open>Properties\<close>

text \<open>
  C11. Redaction returns on every text without quotes, braces, brackets and question marks, whatever
  assignments, lists and flags it holds.
\<close>

theorem redaction_returns:
  assumes "\<forall>c\<in>set v. c \<notin> set [CHR 0x22, CHR 0x27, CHR ''{'', CHR ''['', CHR ''?'']"
  shows "\<exists>redacted. redact_sensitive_text from_str v = Some redacted"
proof -
  have "list_all is_whitespace part \<or> redact_word part \<noteq> None" if part: "part \<in> set (split_preserving_whitespace v)" for part
  proof (cases "list_all is_whitespace part")
    case False
    have sp: "is_whitespace (CHR '' '')" by code_simp
    from False split_kinds [OF part] have "\<forall>c\<in>set part. \<not> is_whitespace c" by (auto simp: list_all_iff)
    then have "\<forall>c\<in>set part. c \<notin> set nesting_chars"
      using assms split_chars [OF part] sp by (fastforce simp: nesting_chars_def)
    then show ?thesis using redact_word_returns by blast
  qed simp
  then have "redact_parts False (split_preserving_whitespace v) \<noteq> None"
    by (intro redact_parts_returns ballI)
  moreover have "CHR 0x22 \<notin> set v" using assms by auto
  ultimately show ?thesis by (simp add: redact_sensitive_text_def structured_no_quote)
qed

text \<open>
  Redaction never returns on the URL \<open>https://a/b?x=1&token=v?key=2\<close>: the value of the first
  secret is taken to end at the ampersand in front of it, so the loop over the assignments of a word
  goes back to where it was, over and over.
\<close>

lemma nested_url_hangs:
  "redact_sensitive_text from_str ''https://a/b?x=1&token=v?key=2'' = None"
proof -
  let ?url = "''https://a/b?x=1&token=v?key=2''"
  have "find_embedded_assignment_secret ?url 0 = Some (16, 21, 22)" by code_simp
  moreover have e: "embedded_assignment_value_end ?url 22 = 15" by code_simp
  moreover have f: "find_embedded_assignment_secret ?url 15 = Some (16, 21, 22)" by code_simp
  ultimately have "redact_embedded_assignment_secret ?url = None"
    using embedded_loop_stuck [OF f e]
    by (simp add: redact_embedded_assignment_secret_def embedded_loop.simps [of ?url "[]" 0])
  moreover have "\<exists>c\<in>set ?url. c \<in> set embedding_chars" by (simp add: embedding_chars_def)
  moreover have "\<not> is_bearer_marker ?url" by code_simp
  ultimately have word: "redact_word ?url = None"
    by (simp only: redact_word_def redact_assignment_secret_def if_True if_False option.map)
  have "split_preserving_whitespace ?url = [?url]" "\<not> list_all is_whitespace ?url" by code_simp+
  moreover have "redact_structured_secrets from_str ?url = ?url" by (rule structured_no_quote) simp
  ultimately show ?thesis using word by (simp add: redact_sensitive_text_def)
qed


text \<open>A marker that is itself redacted hides the word \<open>Bearer\<close> and lets the secret behind it through.\<close>

lemma bearer_behind_marker_shows:
  "redact_sensitive_text from_str ''token: Bearer abc'' = Some ''token: [redacted] abc''"
proof -
  have "redact_structured_secrets from_str ''token: Bearer abc'' = ''token: Bearer abc''"
    by (rule structured_no_quote) simp
  moreover have "redact_parts False (split_preserving_whitespace ''token: Bearer abc'') = Some ''token: [redacted] abc''"
    by code_simp
  ultimately show ?thesis by (simp add: redact_sensitive_text_def)
qed

theorem redaction_returns_witness:
  "\<exists>r. redact_sensitive_text (\<lambda>_. None) ''a,token=b;key=c --password d'' = Some r"
proof -
  have "\<forall>c\<in>set ''a,token=b;key=c --password d''. c \<notin> set [CHR 0x22, CHR 0x27, CHR ''{'', CHR ''['', CHR ''?'']"
    by simp
  then show ?thesis by (rule redaction_returns)
qed


end
