(* ===== verification/Harness_Metadata.thy ===== *)
theory Harness_Metadata
  imports Prelude
begin

text \<open>
  The launch options of a session as one line of metadata (\<open>non_interactive_harness_metadata\<close> and the
  readers of \<open>crates/core/src/archcar/session.rs\<close>): entries \<open>key=value\<close> separated by semicolons, each
  value stripped of what would end its entry. The lemmas show that reading gives back what was
  written and that no option can add an entry of its own.
\<close>

definition FORCED_APPROVAL_MODE :: string where
  "FORCED_APPROVAL_MODE = ''never''"

record SessionHarnessOptions =
  ho_plan_mode :: bool
  ho_fast_mode :: bool
  ho_model :: "string option"
  ho_approval_mode :: "string option"
  ho_reasoning_mode :: "string option"
  ho_effort_mode :: "string option"
  ho_codex_personality :: "string option"
  ho_codex_goals :: "string option"
  ho_codex_skills :: "string option"

definition normalize_agent_harness_options :: "SessionHarnessOptions \<Rightarrow> SessionHarnessOptions" where
  "normalize_agent_harness_options options = options\<lparr>ho_approval_mode := Some FORCED_APPROVAL_MODE\<rparr>"

definition sanitize_harness_text :: "string option \<Rightarrow> string option" where
  "sanitize_harness_text value = trimmed_nonempty value"

definition replace_char :: "char \<Rightarrow> char \<Rightarrow> string \<Rightarrow> string" where
  "replace_char a b s = map (\<lambda>c. if c = a then b else c) s"

definition sanitize_metadata_value :: "string \<Rightarrow> string" where
  "sanitize_metadata_value value = replace_char (CHR 0x0A) (CHR '' '') (replace_char (CHR '';'') (CHR '','') value)"

definition metadata_entry :: "string \<Rightarrow> string option \<Rightarrow> string list" where
  "metadata_entry key value = (case sanitize_harness_text value of None \<Rightarrow> []
     | Some v \<Rightarrow> [key @ ''='' @ sanitize_metadata_value v])"

definition metadata_entries :: "string \<Rightarrow> SessionHarnessOptions \<Rightarrow> string list" where
  "metadata_entries harness_name h =
     [''harness='' @ harness_name]
     @ (if ho_plan_mode h then [''plan=true''] else [])
     @ (if ho_fast_mode h then [''fast=true''] else [])
     @ metadata_entry ''model'' (ho_model h)
     @ [''approval='' @ FORCED_APPROVAL_MODE]
     @ metadata_entry ''reasoning'' (ho_reasoning_mode h)
     @ metadata_entry ''effort'' (ho_effort_mode h)
     @ metadata_entry ''personality'' (ho_codex_personality h)"

definition non_interactive_harness_metadata :: "string \<Rightarrow> SessionHarnessOptions \<Rightarrow> string option" where
  "non_interactive_harness_metadata harness_name h = Some (join '';'' (metadata_entries harness_name h))"

definition metadata_value :: "string option \<Rightarrow> string \<Rightarrow> string option" where
  "metadata_value metadata key = Option.bind metadata
     (\<lambda>m. find_map (strip_prefix (key @ ''='')) (split_on CHR '';'' m))"

definition model_from_harness_metadata :: "string option \<Rightarrow> string option" where
  "model_from_harness_metadata metadata = metadata_value metadata ''model''"

definition approval_from_harness_metadata :: "string option \<Rightarrow> string option" where
  "approval_from_harness_metadata metadata = Some FORCED_APPROVAL_MODE"

definition reasoning_from_harness_metadata :: "string option \<Rightarrow> string option" where
  "reasoning_from_harness_metadata metadata = metadata_value metadata ''reasoning''"

definition effort_from_harness_metadata :: "string option \<Rightarrow> string option" where
  "effort_from_harness_metadata metadata = metadata_value metadata ''effort''"

definition fast_from_harness_metadata :: "string option \<Rightarrow> bool" where
  "fast_from_harness_metadata metadata = (case metadata_value metadata ''fast'' of None \<Rightarrow> False
     | Some value \<Rightarrow> to_ascii_lowercase value = ''true'')"

definition personality_from_harness_metadata :: "string option \<Rightarrow> string option" where
  "personality_from_harness_metadata metadata = metadata_value metadata ''personality''"

definition codex_sandbox_for_approval :: "string option \<Rightarrow> string option" where
  "codex_sandbox_for_approval approval_policy = Some ''danger-full-access''"

definition provider_native_process :: "string option \<Rightarrow> bool" where
  "provider_native_process metadata \<longleftrightarrow>
     metadata_value metadata ''harness'' \<in> {Some ''codex-app-server'', Some ''claude-stream-json''}"

section \<open>Lemmas\<close>

lemma sanitized_no_semicolon: "CHR '';'' \<notin> set (sanitize_metadata_value v)"
  by (auto simp: sanitize_metadata_value_def replace_char_def)

lemma split_on_plain: "c \<notin> set s \<Longrightarrow> split_on c s = [s]"
  by (induction s) auto

lemma split_on_append: "c \<notin> set s \<Longrightarrow> split_on c (s @ c # t) = s # split_on c t"
  by (induction s) auto

lemma split_on_join: "ss \<noteq> [] \<Longrightarrow> \<forall>s\<in>set ss. c \<notin> set s \<Longrightarrow> split_on c (join [c] ss) = ss"
  by (induction "[c]" ss rule: join.induct) (simp_all add: split_on_plain split_on_append)

lemma entry_no_semicolon: "CHR '';'' \<notin> set key \<Longrightarrow> s \<in> set (metadata_entry key value) \<Longrightarrow> CHR '';'' \<notin> set s"
  using sanitized_no_semicolon by (auto simp: metadata_entry_def split: option.splits)

lemma entries_no_semicolon:
  assumes "CHR '';'' \<notin> set harness_name"
  shows "\<forall>s\<in>set (metadata_entries harness_name h). CHR '';'' \<notin> set s"
  using assms
  by (auto simp: metadata_entries_def FORCED_APPROVAL_MODE_def dest: entry_no_semicolon [rotated] split: if_splits)

lemma written_entries:
  "CHR '';'' \<notin> set harness_name \<Longrightarrow>
   metadata_value (non_interactive_harness_metadata harness_name h) key
     = find_map (strip_prefix (key @ ''='')) (metadata_entries harness_name h)"
  using split_on_join [OF _ entries_no_semicolon, of harness_name h]
  by (simp add: metadata_value_def non_interactive_harness_metadata_def metadata_entries_def)

lemma strip_prefix_key:
  assumes "CHR ''='' \<notin> set key" and "CHR ''='' \<notin> set k"
  shows "strip_prefix (key @ ''='') (k @ ''='' @ v) = (if k = key then Some v else None)"
proof (cases "prefix (key @ ''='') (k @ ''='' @ v)")
  case True
  then obtain rest where "k @ ''='' @ v = key @ ''='' @ rest" by (auto simp: prefix_def)
  then have "takeWhile (\<lambda>c. c \<noteq> CHR ''='') (k @ CHR ''='' # v) = takeWhile (\<lambda>c. c \<noteq> CHR ''='') (key @ CHR ''='' # rest)"
    by simp
  moreover have "takeWhile (\<lambda>c. c \<noteq> CHR ''='') k = k" "takeWhile (\<lambda>c. c \<noteq> CHR ''='') key = key"
    using assms by (auto simp: takeWhile_eq_all_conv)
  ultimately have "k = key" by (simp add: takeWhile_tail)
  then show ?thesis by (simp add: strip_prefix_def)
next
  case False
  then show ?thesis by (auto simp: strip_prefix_def)
qed

definition entry_pairs :: "string \<Rightarrow> SessionHarnessOptions \<Rightarrow> (string \<times> string) list" where
  "entry_pairs harness_name h =
     (let value = (\<lambda>k v. case sanitize_harness_text v of None \<Rightarrow> [] | Some t \<Rightarrow> [(k, sanitize_metadata_value t)])
      in (''harness'', harness_name) # (if ho_plan_mode h then [(''plan'', ''true'')] else [])
       @ (if ho_fast_mode h then [(''fast'', ''true'')] else []) @ value ''model'' (ho_model h)
       @ (''approval'', FORCED_APPROVAL_MODE) # value ''reasoning'' (ho_reasoning_mode h)
       @ value ''effort'' (ho_effort_mode h) @ value ''personality'' (ho_codex_personality h))"

lemma entries_are_pairs: "metadata_entries harness_name h = map (\<lambda>(k, v). k @ ''='' @ v) (entry_pairs harness_name h)"
  by (simp add: metadata_entries_def entry_pairs_def metadata_entry_def split: option.splits)

lemma pair_keys: "(k, v) \<in> set (entry_pairs harness_name h) \<Longrightarrow> CHR ''='' \<notin> set k"
  by (auto simp: entry_pairs_def Let_def split: option.splits if_splits)

lemma find_map_pairs:
  "CHR ''='' \<notin> set key \<Longrightarrow> \<forall>(k, v)\<in>set ps. CHR ''='' \<notin> set k \<Longrightarrow>
     find_map (strip_prefix (key @ ''='')) (map (\<lambda>(k, v). k @ ''='' @ v) ps) = map_of ps key"
proof (induction ps)
  case (Cons p ps)
  obtain k v where p: "p = (k, v)" by (metis surj_pair)
  have "strip_prefix (key @ ''='') (k @ ''='' @ v) = (if k = key then Some v else None)"
    by (rule strip_prefix_key) (use Cons.prems p in auto)
  with Cons p show ?case by (auto simp del: append_Cons append_Nil simp add: append_Cons [symmetric])
qed simp

lemma metadata_value_written:
  assumes "CHR '';'' \<notin> set harness_name" and "CHR ''='' \<notin> set key"
  shows "metadata_value (non_interactive_harness_metadata harness_name h) key = map_of (entry_pairs harness_name h) key"
  unfolding written_entries [OF assms(1)] entries_are_pairs
  by (rule find_map_pairs [OF assms(2)]) (auto dest: pair_keys)

lemma map_of_value: "map_of (case v of None \<Rightarrow> [] | Some t \<Rightarrow> [(k, f t)]) key =
    (if k = key then map_option f v else None)"
  by (simp split: option.split)

section \<open>Properties\<close>

text \<open>
  Harness metadata reads back what was written: whatever text the model, effort, reasoning and
  personality options hold, reading an option gives that option's trimmed text with semicolons and
  line feeds replaced, never another option's or one smuggled in; the approval mode is always the
  forced one, and the process is recognised by the name it was written under.
\<close>

lemma harness_metadata_round_trip:
  assumes "CHR '';'' \<notin> set harness_name"
  shows "let m = non_interactive_harness_metadata harness_name h;
             value = (\<lambda>v. map_option sanitize_metadata_value (sanitize_harness_text v))
    in model_from_harness_metadata m = value (ho_model h)
     \<and> reasoning_from_harness_metadata m = value (ho_reasoning_mode h)
     \<and> effort_from_harness_metadata m = value (ho_effort_mode h)
     \<and> personality_from_harness_metadata m = value (ho_codex_personality h)
     \<and> fast_from_harness_metadata m = ho_fast_mode h
     \<and> metadata_value m ''approval'' = Some FORCED_APPROVAL_MODE
     \<and> metadata_value m ''harness'' = Some harness_name"
proof -
  let ?m = "non_interactive_harness_metadata harness_name h"
  have read: "metadata_value ?m key = map_of (entry_pairs harness_name h) key" if "CHR ''='' \<notin> set key" for key
    using assms that by (rule metadata_value_written)
  have lower: "to_ascii_lowercase ''true'' = ''true''" by code_simp
  note pairs = entry_pairs_def Let_def map_of_value map_add_def
  have "map_of (entry_pairs harness_name h) ''fast'' = (if ho_fast_mode h then Some ''true'' else None)"
    by (simp add: pairs)
  then have "fast_from_harness_metadata ?m = ho_fast_mode h"
    by (simp add: fast_from_harness_metadata_def read lower)
  then show ?thesis
    by (simp add: Let_def model_from_harness_metadata_def reasoning_from_harness_metadata_def
      effort_from_harness_metadata_def personality_from_harness_metadata_def read pairs split: option.splits)
qed

end
