(* ===== verification/Codex_Wire.thy ===== *)
theory Codex_Wire
  imports Harness_Contract
begin

text \<open>
  The wire format of \<open>codex app-server\<close> (\<open>crates/core/src/provider_adapters/codex_app_server.rs\<close>):
  the JSON-RPC requests the daemon writes, the JSONL messages it reads, and the translation of a
  message into a provider event: its name, category, kind, phase, ids, title and body. A path is its
  text; a JSON pointer is the list of its keys, which are all alphabetic here, so that a pointer never
  indexes an array.

  Parameters: \<open>from_str\<close> is \<open>serde_json::from_str\<close>, \<open>b64\<close> the \<open>base64\<close> crate's standard decoder.
\<close>

section \<open>Bytes and text\<close>

text \<open>\<open>str::from_utf8\<close>: the well-formed byte sequences.\<close>

fun utf8_valid :: "string \<Rightarrow> bool" where
  "utf8_valid [] = True"
| "utf8_valid (a # s) =
     (if in_range 0 0x7F a then utf8_valid s
      else (case s of [] \<Rightarrow> False
        | b # s2 \<Rightarrow>
          if in_range 0xC2 0xDF a then in_range 0x80 0xBF b \<and> utf8_valid s2
          else (case s2 of [] \<Rightarrow> False
            | c # s3 \<Rightarrow>
              if in_range 0xE0 0xEF a
              then (if in_range 0xE0 0xE0 a then in_range 0xA0 0xBF b
                    else if in_range 0xED 0xED a then in_range 0x80 0x9F b
                    else in_range 0x80 0xBF b)
                \<and> in_range 0x80 0xBF c \<and> utf8_valid s3
              else (case s3 of [] \<Rightarrow> False
                | d # s4 \<Rightarrow>
                  in_range 0xF0 0xF4 a
                  \<and> (if in_range 0xF0 0xF0 a then in_range 0x90 0xBF b
                     else if in_range 0xF4 0xF4 a then in_range 0x80 0x8F b
                     else in_range 0x80 0xBF b)
                  \<and> in_range 0x80 0xBF c \<and> in_range 0x80 0xBF d \<and> utf8_valid s4))))"

fun camel_from :: "bool \<Rightarrow> string \<Rightarrow> string" where
  "camel_from previous [] = []"
| "camel_from previous (ch # s) =
     (if is_ascii_uppercase ch \<and> previous then [CHR ''_'', ch] else [ch])
     @ camel_from (is_ascii_lowercase ch \<or> is_ascii_digit ch) s"

definition split_camel_segments :: "string \<Rightarrow> string" where
  "split_camel_segments value = camel_from False value"

definition method_tokens :: "string \<Rightarrow> string list" where
  "method_tokens name = filter (\<lambda>t. t \<noteq> [])
     (split_when (\<lambda>c. \<not> is_ascii_alphanumeric c) (to_ascii_lowercase (split_camel_segments name)))"

definition has_any :: "string list \<Rightarrow> string list \<Rightarrow> bool" where
  "has_any tokens needles \<longleftrightarrow> list_ex (\<lambda>n. n \<in> set tokens) needles"

definition status_contains_any :: "string \<Rightarrow> string list \<Rightarrow> bool" where
  "status_contains_any status needles \<longleftrightarrow> list_ex (\<lambda>n. contains_str status n) needles"

section \<open>Reading JSON\<close>

definition strings_of :: "json list \<Rightarrow> string list" where
  "strings_of vs = List.map_filter as_str vs"

definition text_of_value :: "json \<Rightarrow> string option" where
  "text_of_value v = or_else (as_str v)
     (or_else (case as_array v of None \<Rightarrow> None
        | Some vs \<Rightarrow> (let parts = strings_of vs in if parts = [] then None else Some (join [CHR 0x0A] parts)))
     (or_else (map_option show_int (as_i64 v)) (map_option show_nat (as_u64 v))))"

definition string_at_any :: "json \<Rightarrow> string list list \<Rightarrow> string option" where
  "string_at_any v pointers = find_map (\<lambda>p. Option.bind (jpath v p) text_of_value) pointers"

definition value_at_any :: "json \<Rightarrow> string list list \<Rightarrow> json option" where
  "value_at_any v pointers = find_map (jpath v) pointers"

definition str_at_any :: "json \<Rightarrow> string list list \<Rightarrow> string option" where
  "str_at_any v pointers = find_map (string_at v) pointers"

definition number_at_any :: "json \<Rightarrow> string list list \<Rightarrow> nat option" where
  "number_at_any v pointers = find_map (\<lambda>p. Option.bind (jpath v p) as_u64) pointers"

definition nonblank :: "string \<Rightarrow> string option" where
  "nonblank s = (if trim s = [] then None else Some s)"

fun display_value :: "json \<Rightarrow> string option" where
  "display_value JNull = None"
| "display_value (JStr s) = nonblank s"
| "display_value (JArr vs) = nonblank
     (if length (strings_of vs) = length vs then join [CHR 0x0A] (strings_of vs) else json_pretty 0 (JArr vs))"
| "display_value (JObj kvs) = nonblank (json_pretty 0 (JObj kvs))"
| "display_value v = nonblank (json_to_string v)"

definition json_rpc_id_to_string :: "json \<Rightarrow> string" where
  "json_rpc_id_to_string i = (case i of JStr s \<Rightarrow> s | _ \<Rightarrow> json_to_string i)"

section \<open>Requests\<close>

definition CODEX_APP_SERVER_PROVIDER :: string where
  "CODEX_APP_SERVER_PROVIDER = ''codex''"

definition CODEX_REASONING_SUMMARY :: string where
  "CODEX_REASONING_SUMMARY = ''detailed''"

definition insert_string :: "string \<Rightarrow> string option \<Rightarrow> (string \<times> json) list \<Rightarrow> (string \<times> json) list" where
  "insert_string key value m = (case value of None \<Rightarrow> m | Some s \<Rightarrow> bt_insert key (JStr s) m)"

datatype CodexAppServerUserInput = InputText string

fun user_input_value :: "CodexAppServerUserInput \<Rightarrow> json" where
  "user_input_value (InputText s) = obj [(''type'', JStr ''text''), (''text'', JStr s)]"

record CodexAppServerInitializeParams =
  ip_client_name :: string
  ip_client_title :: "string option"
  ip_client_version :: "string option"
  ip_workspace_root :: "string option"

record CodexAppServerThreadStartParams =
  ts_model :: "string option"
  ts_cwd :: "string option"
  ts_approval_policy :: "string option"
  ts_sandbox :: "string option"
  ts_service_name :: "string option"

record CodexAppServerTurnStartParams =
  tp_thread_id :: string
  tp_input :: "CodexAppServerUserInput list"
  tp_cwd :: "string option"
  tp_approval_policy :: "string option"
  tp_sandbox_policy :: "json option"
  tp_model :: "string option"
  tp_effort :: "string option"
  tp_summary :: "string option"
  tp_personality :: "string option"
  tp_fast_mode :: bool

record CodexAppServerTurnSteerParams =
  sp_thread_id :: string
  sp_input :: "CodexAppServerUserInput list"
  sp_expected_turn_id :: "string option"

record CodexAppServerTurnInterruptParams =
  xp_thread_id :: string
  xp_turn_id :: string

definition initialize_params_value :: "CodexAppServerInitializeParams \<Rightarrow> json" where
  "initialize_params_value p = obj [(''clientInfo'',
     JObj (insert_string ''version'' (ip_client_version p)
          (insert_string ''title'' (ip_client_title p) [(''name'', JStr (ip_client_name p))])))]"

definition thread_start_value :: "CodexAppServerThreadStartParams \<Rightarrow> json" where
  "thread_start_value p = JObj (insert_string ''serviceName'' (ts_service_name p)
     (bt_insert ''config'' (obj [(''model_reasoning_summary'', JStr CODEX_REASONING_SUMMARY)])
     (insert_string ''sandbox'' (ts_sandbox p)
     (insert_string ''approvalPolicy'' (ts_approval_policy p)
     (insert_string ''cwd'' (ts_cwd p)
     (insert_string ''model'' (ts_model p) []))))))"

definition turn_start_value :: "CodexAppServerTurnStartParams \<Rightarrow> json" where
  "turn_start_value p = (let m =
       insert_string ''personality'' (tp_personality p)
      (insert_string ''summary'' (tp_summary p)
      (insert_string ''effort'' (tp_effort p)
      (insert_string ''model'' (tp_model p)
      ((case tp_sandbox_policy p of None \<Rightarrow> (\<lambda>m. m) | Some v \<Rightarrow> bt_insert ''sandboxPolicy'' v)
      (insert_string ''approvalPolicy'' (tp_approval_policy p)
      (insert_string ''cwd'' (tp_cwd p)
      (bt_of [(''threadId'', JStr (tp_thread_id p)), (''input'', JArr (map user_input_value (tp_input p)))])))))))
    in JObj (if tp_fast_mode p
       then bt_insert ''config'' (obj [(''model_reasoning_summary'', JStr CODEX_REASONING_SUMMARY),
              (''service_tier'', JStr ''fast'')]) m
       else m))"

definition turn_steer_value :: "CodexAppServerTurnSteerParams \<Rightarrow> json" where
  "turn_steer_value p = JObj (insert_string ''expectedTurnId'' (sp_expected_turn_id p)
     (bt_of [(''threadId'', JStr (sp_thread_id p)), (''input'', JArr (map user_input_value (sp_input p)))]))"

definition turn_interrupt_value :: "CodexAppServerTurnInterruptParams \<Rightarrow> json" where
  "turn_interrupt_value p = obj [(''threadId'', JStr (xp_thread_id p)), (''turnId'', JStr (xp_turn_id p))]"

definition request_value :: "nat \<Rightarrow> string \<Rightarrow> json \<Rightarrow> json" where
  "request_value request_id verb params =
     obj [(''id'', JInt (int request_id)), (''method'', JStr verb), (''params'', params)]"

definition write_jsonl :: "json \<Rightarrow> string" where
  "write_jsonl v = encode_line v"

definition write_initialize_request_with_id :: "nat \<Rightarrow> CodexAppServerInitializeParams \<Rightarrow> string" where
  "write_initialize_request_with_id i p = write_jsonl (request_value i ''initialize'' (initialize_params_value p))"

definition write_initialized_notification :: string where
  "write_initialized_notification = write_jsonl (obj [(''method'', JStr ''initialized''), (''params'', obj [])])"

definition write_thread_start_request_with_id :: "nat \<Rightarrow> CodexAppServerThreadStartParams \<Rightarrow> string" where
  "write_thread_start_request_with_id i p = write_jsonl (request_value i ''thread/start'' (thread_start_value p))"

definition write_turn_start_request_with_id :: "nat \<Rightarrow> CodexAppServerTurnStartParams \<Rightarrow> string" where
  "write_turn_start_request_with_id i p = write_jsonl (request_value i ''turn/start'' (turn_start_value p))"

definition write_turn_steer_request_with_id :: "nat \<Rightarrow> CodexAppServerTurnSteerParams \<Rightarrow> string" where
  "write_turn_steer_request_with_id i p = write_jsonl (request_value i ''turn/steer'' (turn_steer_value p))"

definition write_turn_interrupt_request_with_id :: "nat \<Rightarrow> CodexAppServerTurnInterruptParams \<Rightarrow> string" where
  "write_turn_interrupt_request_with_id i p = write_jsonl (request_value i ''turn/interrupt'' (turn_interrupt_value p))"

section \<open>Messages\<close>

datatype CodexAppServerMessageKind = Notification | Request | Response | Unknown

fun message_kind_str :: "CodexAppServerMessageKind \<Rightarrow> string" where
  "message_kind_str Notification = ''notification''"
| "message_kind_str Request = ''request''"
| "message_kind_str Response = ''response''"
| "message_kind_str Unknown = ''unknown''"

record CodexAppServerMessage =
  xm_raw_json :: string
  xm_value :: json
  xm_message_kind :: CodexAppServerMessageKind
  xm_method :: "string option"
  xm_id :: "json option"

definition message_kind_of :: "string option \<Rightarrow> json option \<Rightarrow> CodexAppServerMessageKind" where
  "message_kind_of m i = (case (m \<noteq> None, i \<noteq> None) of
      (True, True) \<Rightarrow> Request | (True, False) \<Rightarrow> Notification
    | (False, True) \<Rightarrow> Response | (False, False) \<Rightarrow> Unknown)"

definition parse_jsonl_message :: "(string \<Rightarrow> json option) \<Rightarrow> string \<Rightarrow> nat \<Rightarrow> string + CodexAppServerMessage" where
  "parse_jsonl_message from_str raw line_number = (case from_str raw of
      None \<Rightarrow> Inl (''invalid codex app-server JSONL at line '' @ show_nat line_number)
    | Some value \<Rightarrow>
      (let m = Option.bind (jget value ''method'') as_str; i = jget value ''id''
       in Inr \<lparr>xm_raw_json = raw, xm_value = value, xm_message_kind = message_kind_of m i,
               xm_method = m, xm_id = i\<rparr>))"

text \<open>\<open>BufRead::read_line\<close> on what is left of the stream: a line with its line feed.\<close>

definition read_line :: "string \<Rightarrow> string \<times> string" where
  "read_line s = (let w = takeWhile (\<lambda>c. c \<noteq> CHR 0x0A) s; r = dropWhile (\<lambda>c. c \<noteq> CHR 0x0A) s
     in case r of [] \<Rightarrow> (w, []) | c # r' \<Rightarrow> (w @ [c], r'))"

definition trim_line_end :: "string \<Rightarrow> string" where
  "trim_line_end s = rev (dropWhile (\<lambda>c. c = CHR 0x0D \<or> c = CHR 0x0A) (rev s))"

lemma read_line_shorter:
  assumes "s \<noteq> []"
  shows "length (snd (read_line s)) < length s"
proof (cases "dropWhile (\<lambda>c. c \<noteq> CHR 0x0A) s")
  case Nil
  with assms show ?thesis by (simp only: read_line_def Let_def list.case snd_conv) simp
next
  case (Cons c r)
  have "length (dropWhile (\<lambda>c. c \<noteq> CHR 0x0A) s) \<le> length s" by (rule length_dropWhile_le)
  with Cons have "length r < length s" by simp
  moreover have "snd (read_line s) = r" by (simp only: read_line_def Let_def Cons list.case snd_conv)
  ultimately show ?thesis by simp
qed

lemma read_line_measure: "(line, rest) = read_line s \<Longrightarrow> s \<noteq> [] \<Longrightarrow> length rest < length s"
  using read_line_shorter [of s] by (cases "read_line s") auto

function read_jsonl_messages_from :: "(string \<Rightarrow> json option) \<Rightarrow> nat \<Rightarrow> string \<Rightarrow> string + CodexAppServerMessage list" where
  "read_jsonl_messages_from from_str n s =
     (if s = [] then Inr []
      else (let (line, rest) = read_line s; raw = trim_line_end line in
        if trim raw = [] then read_jsonl_messages_from from_str (Suc n) rest
        else (case parse_jsonl_message from_str raw (Suc n) of
            Inl e \<Rightarrow> Inl e
          | Inr m \<Rightarrow> (case read_jsonl_messages_from from_str (Suc n) rest of
              Inl e \<Rightarrow> Inl e | Inr ms \<Rightarrow> Inr (m # ms)))))"
  by pat_completeness auto
termination
  by (relation "measure (\<lambda>(_, _, s). length s)") (simp_all only: wf_measure in_measure split_conv, (rule read_line_measure; assumption)+)

declare read_jsonl_messages_from.simps [simp del]

definition read_jsonl_messages :: "(string \<Rightarrow> json option) \<Rightarrow> string \<Rightarrow> string + CodexAppServerMessage list" where
  "read_jsonl_messages from_str s = read_jsonl_messages_from from_str 0 s"

function read_jsonl_message :: "(string \<Rightarrow> json option) \<Rightarrow> nat \<Rightarrow> string \<Rightarrow>
    (string + CodexAppServerMessage option) \<times> nat \<times> string" where
  "read_jsonl_message from_str n s =
     (if s = [] then (Inr None, n, [])
      else (let (line, rest) = read_line s; raw = trim_line_end line in
        if trim raw = [] then read_jsonl_message from_str (Suc n) rest
        else (case parse_jsonl_message from_str raw (Suc n) of
            Inl e \<Rightarrow> Inl e | Inr m \<Rightarrow> Inr (Some m), Suc n, rest)))"
  by pat_completeness auto
termination
  by (relation "measure (\<lambda>(_, _, s). length s)") (simp_all only: wf_measure in_measure split_conv, (rule read_line_measure; assumption)+)

declare read_jsonl_message.simps [simp del]

definition codex_event_name :: "string \<Rightarrow> CodexAppServerMessageKind \<Rightarrow> json \<Rightarrow> string" where
  "codex_event_name verb kind payload =
     (let plain = (if verb \<noteq> [] then verb
            else (case kind of Response \<Rightarrow> ''response'' | Unknown \<Rightarrow> ''unknown'' | _ \<Rightarrow> ''unnamed''))
      in case string_at_any payload [[''params'', ''item'', ''type'']] of
           None \<Rightarrow> plain
         | Some item_type \<Rightarrow>
           (case map_option (\<lambda>v. hd (split_on CHR ''/'' v)) (strip_prefix ''item/'' verb) of
              Some phase \<Rightarrow>
                if phase = ''started'' \<or> phase = ''completed''
                then ''item/'' @ item_type @ ''/'' @ phase else plain
            | None \<Rightarrow>
                if strip_prefix ''rawResponseItem/'' verb = Some ''completed''
                then ''rawResponseItem/'' @ item_type @ ''/completed'' else plain))"

section \<open>Categories\<close>

datatype CodexProviderEventCategory =
    AccountAuth | ThreadSessionLifecycle | GoalsTasks | Turns | UserInput | AssistantOutput
  | PlanningReasoning | CommandProcessExecution | TerminalBackgroundRuntime | Filesystem
  | DiffsFileChanges | Tools | Mcp | SkillsPluginsHooks | ApprovalsPermissions
  | SubagentsCollaboration | WebBrowserMedia | EnvironmentConfigModel | LimitsFailures | Unknown

definition CODEX_APP_SERVER_CAPABILITY_COVERAGE :: "(CodexProviderEventCategory \<times> string) list" where
  "CODEX_APP_SERVER_CAPABILITY_COVERAGE = [
     (AccountAuth, ''account/auth''),
     (ThreadSessionLifecycle, ''thread/session lifecycle''),
     (GoalsTasks, ''goals/tasks''),
     (Turns, ''turns''),
     (UserInput, ''user input''),
     (AssistantOutput, ''assistant output''),
     (PlanningReasoning, ''planning/reasoning''),
     (CommandProcessExecution, ''command/process execution''),
     (TerminalBackgroundRuntime, ''terminal/background runtime''),
     (Filesystem, ''filesystem''),
     (DiffsFileChanges, ''diffs/file changes''),
     (Tools, ''tools''),
     (Mcp, ''MCP''),
     (SkillsPluginsHooks, ''skills/plugins/hooks''),
     (ApprovalsPermissions, ''approvals/permissions''),
     (SubagentsCollaboration, ''subagents/collaboration''),
     (WebBrowserMedia, ''web/browser/media''),
     (EnvironmentConfigModel, ''environment/config/model''),
     (LimitsFailures, ''limits/failures''),
     (CodexProviderEventCategory.Unknown, ''unknown events'')]"

definition classify_tokens :: "string list \<Rightarrow> CodexProviderEventCategory" where
  "classify_tokens tokens =
     (if has_any tokens [''auth'', ''account'', ''login'', ''logout'', ''signin'', ''userinfo''] then AccountAuth
      else if has_any tokens [''thread'', ''session'', ''conversation'', ''resume'', ''initialize'', ''initialized''] then ThreadSessionLifecycle
      else if has_any tokens [''goal'', ''goals'', ''task'', ''tasks'', ''todo'', ''todos''] then GoalsTasks
      else if has_any tokens [''turn'', ''turns''] then Turns
      else if has_any tokens [''user'', ''input'', ''prompt'', ''composer''] then UserInput
      else if has_any tokens [''plan'', ''planning'', ''reasoning'', ''thought'', ''analysis''] then PlanningReasoning
      else if has_any tokens [''approval'', ''approvals'', ''permission'', ''permissions'', ''sandbox'', ''policy''] then ApprovalsPermissions
      else if has_any tokens [''command'', ''exec'', ''execution'', ''process'', ''subprocess''] then CommandProcessExecution
      else if has_any tokens [''search''] then WebBrowserMedia
      else if has_any tokens [''tool'', ''tools'', ''toolcall''] then Tools
      else if has_any tokens [''assistant'', ''answer'', ''message'', ''response''] \<or> tokens = [''output''] then AssistantOutput
      else if has_any tokens [''terminal'', ''background'', ''runtime'', ''shell'', ''pty''] then TerminalBackgroundRuntime
      else if has_any tokens [''diff'', ''patch'', ''change'', ''changes'', ''edit'', ''edited''] then DiffsFileChanges
      else if has_any tokens [''file'', ''files'', ''filesystem'', ''fs'', ''directory'', ''path''] then Filesystem
      else if has_any tokens [''mcp''] then Mcp
      else if has_any tokens [''skill'', ''skills'', ''plugin'', ''plugins'', ''hook'', ''hooks''] then SkillsPluginsHooks
      else if has_any tokens [''subagent'', ''subagents'', ''collaboration'', ''delegate'', ''worker''] then SubagentsCollaboration
      else if has_any tokens [''web'', ''browser'', ''media'', ''image'', ''screenshot''] then WebBrowserMedia
      else if has_any tokens [''environment'', ''env'', ''config'', ''model'', ''settings''] then EnvironmentConfigModel
      else if has_any tokens [''limit'', ''limits'', ''failure'', ''failures'', ''error'', ''cancel'', ''cancelled''] then LimitsFailures
      else CodexProviderEventCategory.Unknown)"

definition classify_codex_method :: "string \<Rightarrow> CodexAppServerMessageKind \<Rightarrow> CodexProviderEventCategory" where
  "classify_codex_method verb kind =
     (if kind = Response \<and> verb = ''response'' then CodexProviderEventCategory.Unknown
      else if verb = [] then CodexProviderEventCategory.Unknown
      else classify_tokens (method_tokens verb))"

fun codex_category_to_provider_kind :: "CodexProviderEventCategory \<Rightarrow> ProviderEventKind" where
  "codex_category_to_provider_kind AccountAuth = ProviderEventKind.AccountAuth"
| "codex_category_to_provider_kind ThreadSessionLifecycle = ThreadSession"
| "codex_category_to_provider_kind GoalsTasks = GoalTask"
| "codex_category_to_provider_kind Turns = Turn"
| "codex_category_to_provider_kind UserInput = ProviderEventKind.UserInput"
| "codex_category_to_provider_kind AssistantOutput = ProviderEventKind.AssistantOutput"
| "codex_category_to_provider_kind PlanningReasoning = ProviderEventKind.PlanningReasoning"
| "codex_category_to_provider_kind CommandProcessExecution = CommandProcess"
| "codex_category_to_provider_kind TerminalBackgroundRuntime = TerminalRuntime"
| "codex_category_to_provider_kind Filesystem = FileSystem"
| "codex_category_to_provider_kind DiffsFileChanges = DiffFileChange"
| "codex_category_to_provider_kind Tools = Tool"
| "codex_category_to_provider_kind Mcp = ProviderEventKind.Mcp"
| "codex_category_to_provider_kind SkillsPluginsHooks = SkillPluginHook"
| "codex_category_to_provider_kind ApprovalsPermissions = ApprovalPermission"
| "codex_category_to_provider_kind SubagentsCollaboration = SubagentCollaboration"
| "codex_category_to_provider_kind WebBrowserMedia = ProviderEventKind.WebBrowserMedia"
| "codex_category_to_provider_kind EnvironmentConfigModel = ProviderEventKind.EnvironmentConfigModel"
| "codex_category_to_provider_kind LimitsFailures = LimitFailure"
| "codex_category_to_provider_kind CodexProviderEventCategory.Unknown = ProviderEventKind.Unknown"

definition codex_phase_for :: "string \<Rightarrow> CodexAppServerMessageKind \<Rightarrow> ProviderEventPhase" where
  "codex_phase_for name kind = (let tokens = method_tokens name in
     if has_any tokens [''error'', ''failed'', ''failure''] then ProviderEventPhase.Failed
     else if has_any tokens [''declined'', ''denied'', ''rejected''] then Declined
     else if has_any tokens [''interrupt'', ''interrupted'', ''cancel'', ''cancelled''] then ProviderEventPhase.Interrupted
     else if has_any tokens [''delta'', ''partial'', ''chunk''] then Delta
     else if has_any tokens [''progress'', ''running'', ''stdout'', ''stderr''] then Progress
     else if has_any tokens [''completed'', ''complete'', ''done'', ''finished'', ''finish'', ''stop'', ''stopped'',
                    ''exit'', ''exited'', ''closed'', ''result'']
       \<or> kind = Response then Completed
     else if has_any tokens [''started'', ''start'', ''begin'', ''opened'', ''created'', ''request'']
       \<or> kind = Request then Started
     else ProviderEventPhase.Unknown)"

definition codex_dynamic_tool_name :: "string \<Rightarrow> json \<Rightarrow> string option" where
  "codex_dynamic_tool_name name payload =
     (if string_at_any payload [[''params'', ''item'', ''type'']] = Some ''dynamicToolCall'' \<or> name = ''item/tool/call''
      then string_at_any payload [[''params'', ''item'', ''tool''], [''params'', ''tool'']] else None)"

definition codex_local_tool_action_kind_and_subtype :: "string \<Rightarrow> (ProviderEventKind \<times> string) option" where
  "codex_local_tool_action_kind_and_subtype tool_name = (let n = to_ascii_lowercase (trim tool_name) in
     if n \<in> {''bash'', ''shell'', ''exec'', ''exec_command''} then Some (CommandProcess, ''command'')
     else if n \<in> {''read'', ''ls'', ''glob'', ''grep''} then Some (FileSystem, ''read'')
     else if n \<in> {''edit'', ''multiedit'', ''notebookedit'', ''apply_patch'', ''patch''} then Some (FileSystem, ''edit'')
     else if n \<in> {''write'', ''create''} then Some (FileSystem, ''write'')
     else None)"

definition codex_canonical_kind_and_subtype :: "CodexProviderEventCategory \<Rightarrow> string \<Rightarrow> json \<Rightarrow>
    ProviderEventKind \<times> string option" where
  "codex_canonical_kind_and_subtype category name payload =
     (let item_type = string_at_any payload [[''params'', ''item'', ''type'']] in
      if item_type = Some ''local_shell_call'' then (CommandProcess, Some name)
      else if item_type \<in> {Some ''tool_search_call'', Some ''tool_search_output'', Some ''web_search_call'', Some ''webSearch''}
      then (ProviderEventKind.WebBrowserMedia, Some name)
      else (case Option.bind (codex_dynamic_tool_name name payload) codex_local_tool_action_kind_and_subtype of
          Some (kind, subtype) \<Rightarrow> (kind, Some subtype)
        | None \<Rightarrow> (codex_category_to_provider_kind category, Some name)))"

section \<open>Titles and bodies\<close>

definition item_type :: "json \<Rightarrow> string option" where
  "item_type payload = string_at_any payload [[''params'', ''item'', ''type'']]"

definition command_text :: "json \<Rightarrow> string option" where
  "command_text value = nonblank (case value of JStr s \<Rightarrow> s
     | JArr parts \<Rightarrow> join '' '' (strings_of parts) | v \<Rightarrow> json_to_string v)"

definition command_from_payload :: "json \<Rightarrow> string option" where
  "command_from_payload payload = Option.bind (jpath payload [''params'', ''item'', ''command'']) command_text"

definition local_shell_command_from_payload :: "json \<Rightarrow> string option" where
  "local_shell_command_from_payload payload =
     Option.bind (jpath payload [''params'', ''item'', ''action'', ''command'']) command_text"

definition local_shell_body_from_payload :: "json \<Rightarrow> string option" where
  "local_shell_body_from_payload payload = local_shell_command_from_payload payload"

definition command_body_from_payload :: "json \<Rightarrow> string option" where
  "command_body_from_payload payload = Option.bind (command_from_payload payload) (\<lambda>command.
     Some (case string_at_any payload [[''params'', ''item'', ''aggregatedOutput'']] of
       Some output \<Rightarrow> if trim output \<noteq> [] then command @ [CHR 0x0A] @ output else command
     | None \<Rightarrow> command))"

definition reasoning_body_from_payload :: "json \<Rightarrow> string option" where
  "reasoning_body_from_payload payload =
     (let parts = filter (\<lambda>part. trim part \<noteq> []) (List.map_filter (\<lambda>p. Option.bind (jpath payload p) display_value)
            [[''params'', ''item'', ''summary''], [''params'', ''item'', ''content''], [''params'', ''item'', ''text'']])
      in if parts = [] then None else Some (join [CHR 0x0A] parts))"

definition process_body_from_payload :: "(string \<Rightarrow> string option) \<Rightarrow> json \<Rightarrow> string option" where
  "process_body_from_payload b64 payload =
     (let stdout = trim (unwrap_or (string_at_any payload [[''params'', ''stdout'']]) []);
          stderr = trim (unwrap_or (string_at_any payload [[''params'', ''stderr'']]) []);
          parts = filter (\<lambda>p. p \<noteq> []) [stdout, stderr]
      in if parts = []
         then Option.bind (Option.bind (string_at payload [''params'', ''data'']) b64)
                (\<lambda>bytes. if utf8_valid bytes then Some bytes else None)
         else Some (join [CHR 0x0A] parts))"

definition file_change_body_from_payload :: "json \<Rightarrow> string option" where
  "file_change_body_from_payload payload =
     Option.bind (Option.bind (jpath payload [''params'', ''item'', ''changes'']) as_array) (\<lambda>changes.
       let ls = List.map_filter (\<lambda>change. map_option
              (\<lambda>path. unwrap_or (Option.bind (jget change ''kind'') as_str) ''changed'' @ '' '' @ path)
              (Option.bind (jget change ''path'') as_str)) changes
       in if ls = [] then None else Some (join [CHR 0x0A] ls))"

definition tool_body_from_payload :: "json \<Rightarrow> string option" where
  "tool_body_from_payload payload = Option.bind (value_at_any payload
       [[''params'', ''item'', ''error''], [''params'', ''item'', ''result''],
        [''params'', ''item'', ''arguments''], [''params'', ''item'', ''query''],
        [''params'', ''item'', ''path'']]) display_value"

definition search_body_from_payload :: "json \<Rightarrow> string option" where
  "search_body_from_payload payload = Option.bind (value_at_any payload
       [[''params'', ''item'', ''tools''], [''params'', ''item'', ''output''],
        [''params'', ''item'', ''arguments''], [''params'', ''item'', ''query'']]) display_value"

definition web_search_body_from_payload :: "json \<Rightarrow> string option" where
  "web_search_body_from_payload payload = Option.bind (value_at_any payload
       [[''params'', ''item'', ''action''], [''params'', ''item'', ''query'']]) display_value"

definition tool_title_from_payload :: "json \<Rightarrow> string option" where
  "tool_title_from_payload payload = string_at_any payload
       [[''params'', ''item'', ''tool''], [''params'', ''item'', ''server''],
        [''params'', ''item'', ''action''], [''params'', ''item'', ''path'']]"

definition is_mcp_startup_status_event :: "string \<Rightarrow> bool" where
  "is_mcp_startup_status_event name \<longleftrightarrow> name = ''mcpServer/startupStatus/updated''"

definition mcp_error :: "json \<Rightarrow> string option" where
  "mcp_error payload = string_at_any payload
       [[''params'', ''error'', ''message''], [''params'', ''error''], [''params'', ''failureReason''],
        [''params'', ''failure_reason'']]"

definition codex_mcp_startup_status_phase :: "json \<Rightarrow> ProviderEventPhase" where
  "codex_mcp_startup_status_phase payload =
     (let status = to_ascii_lowercase (unwrap_or (string_at_any payload [[''params'', ''status'']]) [])
      in if (\<exists>v\<in>set_option (mcp_error payload). trim v \<noteq> [])
            \<or> status_contains_any status [''fail'', ''error'', ''unavailable'']
         then ProviderEventPhase.Failed
         else if status_contains_any status [''cancel'', ''cancelled'', ''canceled''] then ProviderEventPhase.Interrupted
         else if status_contains_any status [''ready'', ''loaded'', ''complete'', ''completed'', ''success'',
                ''connected'', ''running'', ''disabled'', ''skipped'', ''stopped'']
         then Completed else Progress)"

definition codex_mcp_startup_status_title :: "json \<Rightarrow> string" where
  "codex_mcp_startup_status_title payload = (case codex_mcp_startup_status_phase payload of
      ProviderEventPhase.Failed \<Rightarrow> ''MCP failed'' | Completed \<Rightarrow> ''MCP loaded'' | _ \<Rightarrow> ''MCP loading'')"

definition codex_mcp_startup_status_body :: "json \<Rightarrow> ProviderEventPhase \<Rightarrow> string" where
  "codex_mcp_startup_status_body payload phase =
     (if phase = Progress then []
      else (let server = trim (unwrap_or (string_at_any payload [[''params'', ''name''], [''params'', ''serverName'']]) []);
                status = trim (unwrap_or (string_at_any payload [[''params'', ''status'']]) []);
                error = trim (unwrap_or (mcp_error payload) []);
                parts = (if server \<noteq> [] \<and> status \<noteq> [] then [server @ '': '' @ status]
                         else if server \<noteq> [] then [server]
                         else if status \<noteq> [] then [status] else [])
            in join [CHR 0x0A] (parts @ (if error \<noteq> [] then [error] else []))))"

definition kind_title :: "ProviderEventKind \<Rightarrow> string \<Rightarrow> string" where
  "kind_title kind name = (case kind of
      ProviderEventKind.AssistantOutput \<Rightarrow> ''Assistant''
    | ProviderEventKind.PlanningReasoning \<Rightarrow> ''Reasoning''
    | CommandProcess \<Rightarrow> ''Command''
    | DiffFileChange \<Rightarrow> ''File changes''
    | Tool \<Rightarrow> ''Tool''
    | ProviderEventKind.Mcp \<Rightarrow> ''MCP tool''
    | ApprovalPermission \<Rightarrow> ''Approval''
    | LimitFailure \<Rightarrow> ''Provider event''
    | _ \<Rightarrow> name)"

definition item_title :: "string \<Rightarrow> json \<Rightarrow> string option" where
  "item_title t payload =
     (if t = ''agentMessage'' then Some ''Assistant''
      else if t = ''userMessage'' then Some ''User input''
      else if t = ''reasoning'' then Some ''Reasoning''
      else if t = ''plan'' then Some ''Plan''
      else if t = ''commandExecution'' then Some (unwrap_or (command_from_payload payload) ''Command'')
      else if t = ''local_shell_call'' then Some (unwrap_or (local_shell_command_from_payload payload) ''Process'')
      else if t = ''fileChange'' then Some ''File changes''
      else if t = ''mcpToolCall'' then Some (unwrap_or (tool_title_from_payload payload) ''MCP tool'')
      else if t = ''dynamicToolCall'' then Some (unwrap_or (tool_title_from_payload payload) ''Dynamic tool'')
      else if t = ''tool_search_call'' then Some ''Search''
      else if t = ''tool_search_output'' then Some ''Search output''
      else if t = ''web_search_call'' \<or> t = ''webSearch'' then Some ''Web search''
      else if t = ''imageView'' then Some ''Image''
      else if t = ''enteredReviewMode'' \<or> t = ''exitedReviewMode'' then Some ''Review''
      else if t = ''contextCompaction'' then Some ''Context compaction''
      else None)"

definition codex_event_title :: "string \<Rightarrow> ProviderEventKind \<Rightarrow> json \<Rightarrow> string" where
  "codex_event_title name kind payload =
     (if is_mcp_startup_status_event name then codex_mcp_startup_status_title payload
      else unwrap_or (Option.bind (item_type payload) (\<lambda>t. item_title t payload)) (kind_title kind name))"

definition codex_payload_body :: "(string \<Rightarrow> string option) \<Rightarrow> json \<Rightarrow> string" where
  "codex_payload_body b64 payload = (let t = item_type payload in
     if t = Some ''reasoning'' then unwrap_or (reasoning_body_from_payload payload) []
     else if t = Some ''commandExecution'' then unwrap_or (command_body_from_payload payload) []
     else if t = Some ''local_shell_call'' then unwrap_or (local_shell_body_from_payload payload) []
     else if t = Some ''fileChange'' then unwrap_or (file_change_body_from_payload payload) []
     else if t = Some ''tool_search_call'' \<or> t = Some ''tool_search_output''
     then unwrap_or (search_body_from_payload payload) []
     else if t = Some ''web_search_call'' then unwrap_or (web_search_body_from_payload payload) []
     else if t \<in> {Some ''mcpToolCall'', Some ''dynamicToolCall'', Some ''webSearch'', Some ''imageView''}
     then unwrap_or (tool_body_from_payload payload) []
     else unwrap_or
       (or_else (string_at_any payload
          [[''params'', ''item'', ''text''], [''params'', ''item'', ''review''],
        [''params'', ''item'', ''summary''], [''params'', ''item'', ''content''],
        [''params'', ''item'', ''aggregatedOutput''], [''params'', ''item'', ''result''],
        [''params'', ''item'', ''error'', ''message''], [''params'', ''item'', ''status''],
        [''params'', ''error'', ''message''], [''error'', ''message'']])
       (or_else (command_body_from_payload payload)
       (or_else (local_shell_body_from_payload payload)
       (or_else (process_body_from_payload b64 payload)
       (or_else (file_change_body_from_payload payload)
       (or_else (search_body_from_payload payload)
                (tool_body_from_payload payload))))))) [])"

section \<open>Provider events\<close>

record CodexProviderEventDraft =
  cd_provider :: string
  cd_message_kind :: CodexAppServerMessageKind
  cd_category :: CodexProviderEventCategory
  cd_name :: string
  cd_correlation_id :: "string option"
  cd_raw_json :: string
  cd_payload :: json

definition to_provider_event_draft :: "CodexAppServerMessage \<Rightarrow> CodexProviderEventDraft" where
  "to_provider_event_draft m =
     (let name = codex_event_name (unwrap_or (xm_method m) []) (xm_message_kind m) (xm_value m)
      in \<lparr>cd_provider = CODEX_APP_SERVER_PROVIDER, cd_message_kind = xm_message_kind m,
          cd_category = classify_codex_method name (xm_message_kind m), cd_name = name,
          cd_correlation_id = map_option json_rpc_id_to_string (xm_id m),
          cd_raw_json = xm_raw_json m, cd_payload = xm_value m\<rparr>)"

definition codex_provider_item_id :: "string \<Rightarrow> json \<Rightarrow> string option" where
  "codex_provider_item_id name payload =
     (if is_mcp_startup_status_event name
      then Some (''mcp-startup-status:'' @ unwrap_or (string_at_any payload [[''params'', ''name''], [''params'', ''serverName'']]) ''unknown'')
      else string_at_any payload
       [[''params'', ''item'', ''id''], [''params'', ''item'', ''call_id''], [''params'', ''itemId''],
        [''params'', ''item_id''], [''params'', ''message'', ''id''], [''params'', ''toolCall'', ''id''],
        [''params'', ''tool_call'', ''id''], [''params'', ''callId''], [''params'', ''processId''],
        [''params'', ''process_id''], [''result'', ''item'', ''id''], [''result'', ''message'', ''id'']])"

definition codex_body :: "(string \<Rightarrow> string option) \<Rightarrow> string \<Rightarrow> ProviderEventPhase \<Rightarrow> json \<Rightarrow> string" where
  "codex_body b64 name phase payload =
     (let body = unwrap_or (string_at_any payload
            [[''params'', ''text''], [''params'', ''delta''], [''params'', ''message'', ''text''],
        [''params'', ''message'', ''content''], [''result'', ''text''], [''result'', ''message'']]) []
      in if is_mcp_startup_status_event name then codex_mcp_startup_status_body payload phase
         else if body = [] then codex_payload_body b64 payload else body)"

definition i64_try_from :: "nat \<Rightarrow> int option" where
  "i64_try_from n = (if n < 2 ^ 63 then Some (int n) else None)"

definition codex_provider_event :: "(string \<Rightarrow> json option) \<Rightarrow> (string \<Rightarrow> string option) \<Rightarrow>
    ProviderEventContext \<Rightarrow> CodexProviderEventDraft \<Rightarrow> ProviderEventDraft" where
  "codex_provider_event from_str b64 context d =
     (let payload = cd_payload d; name = cd_name d;
          (kind, subtype) = codex_canonical_kind_and_subtype (cd_category d) name payload;
          phase = (if is_mcp_startup_status_event name then codex_mcp_startup_status_phase payload
                   else codex_phase_for name (cd_message_kind d));
          body = codex_body b64 name phase payload
      in \<lparr>dr_provider = cd_provider d,
          dr_provider_event_id = or_else (cd_correlation_id d) (string_at_any payload
            [[''params'', ''event'', ''id''], [''params'', ''eventId''], [''params'', ''event_id''],
        [''params'', ''id''], [''result'', ''id'']]),
          dr_provider_item_id = codex_provider_item_id name payload,
          dr_provider_thread_id = string_at_any payload
            [[''params'', ''thread'', ''id''], [''params'', ''threadId''], [''params'', ''thread_id''],
        [''params'', ''session'', ''id''], [''params'', ''sessionId''], [''params'', ''session_id''],
        [''result'', ''threadId''], [''result'', ''thread_id'']],
          dr_provider_turn_id = string_at_any payload
            [[''params'', ''turn'', ''id''], [''params'', ''turnId''], [''params'', ''turn_id''],
        [''result'', ''turnId''], [''result'', ''turn_id'']],
          dr_parent_provider_item_id = string_at_any payload
            [[''params'', ''parent'', ''id''], [''params'', ''parentItemId''], [''params'', ''parent_item_id''],
        [''params'', ''parent'', ''item_id'']],
          dr_parent_provider_thread_id = string_at_any payload
            [[''params'', ''parentThreadId''], [''params'', ''parent_thread_id''],
        [''params'', ''parent'', ''thread_id'']],
          dr_workspace_id = pc_workspace_id context, dr_chat_thread_id = pc_chat_thread_id context,
          dr_process_id = pc_process_id context,
          dr_phase = phase, dr_kind = kind, dr_provider_subtype = subtype,
          dr_provider_sequence = Option.bind (number_at_any payload
            [[''params'', ''sequence''], [''params'', ''seq''], [''result'', ''sequence''], [''result'', ''seq'']]) i64_try_from,
          dr_occurred_at_ms = pc_occurred_at_ms context,
          dr_normalized_payload = obj [
            (''title'', JStr (codex_event_title name kind payload)), (''body'', JStr body),
            (''stream_delta'', if phase = Delta then JStr body else JNull),
            (''message_kind'', JStr (message_kind_str (cd_message_kind d)))],
          dr_raw_json = unwrap_or (from_str (cd_raw_json d)) (JStr (cd_raw_json d)),
          dr_schema_version = pc_schema_version context, dr_adapter_version = pc_adapter_version context\<rparr>)"

end
