(* ===== verification/Codex_Adapter.thy ===== *)
theory Codex_Adapter
  imports Codex_Wire
begin

text \<open>
  The Codex adapter (\<open>CodexManagedAdapter\<close> in \<open>crates/core/src/provider_adapters/codex_app_server.rs\<close>)
  and the synchronous client of the same file: inputs become \<open>turn/start\<close> or, while a turn is active,
  \<open>turn/steer\<close> requests; responses, turn notifications and the server's own requests become effects.
  A hash map is an ordered association list, its order never observed.

  Parameters: \<open>from_str\<close> is \<open>serde_json::from_str\<close>, \<open>b64\<close> the \<open>base64\<close> crate's decoder, \<open>now_ms\<close> the
  wall clock while a record is read.
\<close>

section \<open>Descriptor\<close>

definition CODEX_EXTENDED_FEATURES :: "(HarnessFeature \<times> SupportMode) list" where
  "CODEX_EXTENDED_FEATURES = [
     (ThreadScopedSession, Native), (InputAcknowledgement, Native), (Queueing, Native),
     (HarnessFeature.Interrupt, Native), (Resume, Native), (CrashRecovery, Native),
     (SessionControls, Native), (ProviderInteractions, Native)]"

definition CODEX_OPTIONAL_CAPABILITIES :: "(HarnessCapability \<times> SupportMode) list" where
  "CODEX_OPTIONAL_CAPABILITIES = [(Goals, Native), (NativeSlashCommands, Native)]"

definition CODEX_MANAGED_HARNESS_DESCRIPTOR :: HarnessDescriptor where
  "CODEX_MANAGED_HARNESS_DESCRIPTOR = \<lparr>hd_contract_version = MANAGED_HARNESS_CONTRACT_VERSION,
     hd_kind = ''codex'', hd_provider_key = CODEX_APP_SERVER_PROVIDER, hd_display_name = ''Codex'',
     hd_default_executable = ''codex'',
     hd_preflight = \<lparr>ps_command = [''codex'', ''login'', ''status''], ps_auth_guidance = ''Run `codex login`.''\<rparr>,
     hd_core_features = CORE_HARNESS_FEATURES, hd_extended_features = CODEX_EXTENDED_FEATURES,
     hd_optional_capabilities = CODEX_OPTIONAL_CAPABILITIES\<rparr>"

definition CODEX_PLAN_PERMISSION_MODE :: string where
  "CODEX_PLAN_PERMISSION_MODE = ''plan''"

section \<open>State\<close>

record CodexManagedAdapter =
  ca_context :: HarnessAdapterContext
  ca_next_request_id :: nat
  ca_pending_inputs :: "(nat \<times> string) list"
  ca_active_input_id :: "string option"
  ca_active_turn_id :: "string option"
  ca_completed_turns :: "string list"
  ca_pending_interactions :: "(string \<times> string) list"
  ca_plan_mode :: bool

definition codex_new :: "HarnessAdapterContext \<Rightarrow> CodexManagedAdapter" where
  "codex_new context = \<lparr>ca_context = context, ca_next_request_id = 1, ca_pending_inputs = [],
     ca_active_input_id = None, ca_active_turn_id = None, ca_completed_turns = [],
     ca_pending_interactions = [], ca_plan_mode = False\<rparr>"

definition set_active_turn_id :: "string option \<Rightarrow> CodexManagedAdapter \<Rightarrow> CodexManagedAdapter" where
  "set_active_turn_id turn_id s = s\<lparr>ca_active_turn_id := turn_id\<rparr>"

definition set_native_session_id :: "string option \<Rightarrow> CodexManagedAdapter \<Rightarrow> CodexManagedAdapter" where
  "set_native_session_id i s = s\<lparr>ca_context := (ca_context s)\<lparr>ac_native_session_id := i\<rparr>\<rparr>"

definition take_request_id :: "CodexManagedAdapter \<Rightarrow> nat \<times> CodexManagedAdapter" where
  "take_request_id s = (ca_next_request_id s,
     s\<lparr>ca_next_request_id := saturating_add (ca_next_request_id s) 1\<rparr>)"

definition codex_provider_context :: "nat \<Rightarrow> CodexManagedAdapter \<Rightarrow> ProviderEventContext" where
  "codex_provider_context now_ms s = runtime_context now_ms None (Some (ac_thread_id (ca_context s)))
     (Some (ac_session_id (ca_context s))) ''codex-app-server''"

definition codex_write :: "string option \<Rightarrow> string \<Rightarrow> NativeWrite" where
  "codex_write local_input_id payload = \<lparr>nw_provider_key = CODEX_APP_SERVER_PROVIDER,
     nw_local_input_id = local_input_id, nw_payload = payload\<rparr>"

definition map_remove :: "'k \<Rightarrow> ('k \<times> 'v) list \<Rightarrow> ('k \<times> 'v) list" where
  "map_remove k m = filter (\<lambda>(a, _). a \<noteq> k) m"

section \<open>Interactions\<close>

definition codex_interaction_kind :: "string \<Rightarrow> ProviderInteractionKind option" where
  "codex_interaction_kind verb =
     (if verb = ''item/tool/requestUserInput'' then Some UserQuestion
      else if verb \<in> {''applyPatchApproval'', ''execCommandApproval'', ''item/commandExecution/requestApproval'',
                      ''item/fileChange/requestApproval'', ''item/permissions/requestApproval''}
      then Some ProviderInteractionKind.Permission else None)"

definition codex_approval_title :: "string \<Rightarrow> string" where
  "codex_approval_title verb =
     (if verb \<in> {''applyPatchApproval'', ''item/fileChange/requestApproval''} then ''Apply changes?''
      else if verb \<in> {''execCommandApproval'', ''item/commandExecution/requestApproval''} then ''Run command?''
      else if verb = ''item/permissions/requestApproval'' then ''Grant permission?'' else verb)"

definition codex_approval_detail :: "json \<Rightarrow> string" where
  "codex_approval_detail params = (case Option.bind (jget params ''command'') as_array of
      Some command \<Rightarrow> join '' '' (strings_of command)
    | None \<Rightarrow> unwrap_or (find_map (\<lambda>k. Option.bind (jget params k) as_str)
        [''reason'', ''explanation'', ''cwd'', ''path'']) [])"

definition codex_questions :: "json \<Rightarrow> InteractionQuestion list" where
  "codex_questions params = map (\<lambda>(index, q).
       \<lparr>iq_id = unwrap_or (string_at q [''id'']) (''question-'' @ show_nat (index + 1)),
        iq_header = unwrap_or (string_at q [''header'']) [],
        iq_question = unwrap_or (string_at q [''question'']) [],
        iq_options = map (\<lambda>opt. \<lparr>io_label = unwrap_or (string_at opt [''label'']) [],
             io_description = unwrap_or (string_at opt [''description'']) []\<rparr>)
           (jarray_at q [''options'']),
        iq_allow_other = unwrap_or (Option.bind (jget q ''isOther'') as_bool) False,
        iq_multi_select = False\<rparr>)
     (List.enumerate 0 (jarray_at params [''questions'']))"

fun codex_review_decision :: "ProviderInteractionResolution \<Rightarrow> json" where
  "codex_review_decision Approve = JStr ''approved''"
| "codex_review_decision ApproveForSession = JStr ''approved_for_session''"
| "codex_review_decision (Deny _) = JStr ''denied''"
| "codex_review_decision Defer = JStr ''denied''"
| "codex_review_decision (Answer _) = JStr ''approved''"

definition codex_answers :: "ProviderInteractionResolution \<Rightarrow> json" where
  "codex_answers resolution = (case resolution of
      Answer given \<Rightarrow> obj (map (\<lambda>a. (ia_question_id a, obj [(''answers'', JArr (map JStr (ia_values a)))])) given)
    | _ \<Rightarrow> obj [])"

fun codex_request_id_string :: "json \<Rightarrow> string option" where
  "codex_request_id_string (JInt i) = Some (show_int i)"
| "codex_request_id_string (JFloat s _) = Some s"
| "codex_request_id_string (JStr s) = Some s"
| "codex_request_id_string _ = None"

definition codex_request_id_value :: "string \<Rightarrow> json" where
  "codex_request_id_value native_id = (case parse_u64 native_id of
     Some n \<Rightarrow> JInt (int n) | None \<Rightarrow> JStr native_id)"

definition request_interaction :: "CodexAppServerMessage \<Rightarrow> CodexManagedAdapter \<Rightarrow>
    ProviderInteractionDraft option \<times> CodexManagedAdapter" where
  "request_interaction m s =
     (case Option.bind (xm_method m) (\<lambda>verb. Option.bind (codex_interaction_kind verb) (\<lambda>kind.
        Option.bind (xm_id m) (\<lambda>i. map_option (\<lambda>native_id. (verb, kind, native_id)) (codex_request_id_string i)))) of
        None \<Rightarrow> (None, s)
      | Some (verb, kind, native_id) \<Rightarrow>
        (let params = unwrap_or (jget (xm_value m) ''params'') JNull;
             questions = (if kind = UserQuestion then codex_questions params else []);
             (title, detail) = (if kind = UserQuestion
               then (case questions of [] \<Rightarrow> ''Question'' | q # _ \<Rightarrow> iq_header q, join [CHR 0x0A] (map iq_question questions))
               else (codex_approval_title verb, codex_approval_detail params))
         in (Some \<lparr>id_provider_key = CODEX_APP_SERVER_PROVIDER, id_workspace = ac_workspace (ca_context s),
               id_thread_id = ac_thread_id (ca_context s), id_session_id = ac_session_id (ca_context s),
               id_native_session_id = ac_native_session_id (ca_context s), id_native_id = native_id,
               id_kind = kind, id_title = title, id_detail = detail, id_questions = questions,
               id_auto_resolution_ms = (if kind = UserQuestion
                 then Option.bind (jget params ''autoResolutionMs'') as_u64 else None),
               id_native_request = xm_value m\<rparr>,
             s\<lparr>ca_pending_interactions := bt_insert native_id verb (ca_pending_interactions s)\<rparr>)))"

definition interaction_response :: "string \<Rightarrow> ProviderInteractionResolution \<Rightarrow> CodexManagedAdapter \<Rightarrow>
    NativeWrite option \<times> CodexManagedAdapter" where
  "interaction_response native_id resolution s =
     (case map_of (ca_pending_interactions s) native_id of None \<Rightarrow> (None, s)
      | Some verb \<Rightarrow>
        (let s' = s\<lparr>ca_pending_interactions := map_remove native_id (ca_pending_interactions s)\<rparr>
         in case codex_interaction_kind verb of None \<Rightarrow> (None, s')
          | Some kind \<Rightarrow>
            (let answer = (if kind = UserQuestion then obj [(''answers'', codex_answers resolution)]
                           else obj [(''decision'', codex_review_decision resolution)])
             in (Some (codex_write None (encode_line (obj [(''jsonrpc'', JStr ''2.0''),
                   (''id'', codex_request_id_value native_id), (''result'', answer)]))), s'))))"

section \<open>Input\<close>

definition steer_payload :: "string \<Rightarrow> nat \<Rightarrow> string \<Rightarrow> string \<Rightarrow> string" where
  "steer_payload thread_id request_id content turn_id = write_turn_steer_request_with_id request_id
     \<lparr>sp_thread_id = thread_id, sp_input = [InputText content], sp_expected_turn_id = Some turn_id\<rparr>"

definition start_payload :: "string \<Rightarrow> nat \<Rightarrow> string \<Rightarrow> CodexManagedAdapter \<Rightarrow> string" where
  "start_payload thread_id request_id content s = (let controls = ac_controls (ca_context s) in
     write_turn_start_request_with_id request_id
     \<lparr>tp_thread_id = thread_id, tp_input = [InputText content], tp_cwd = None,
      tp_approval_policy = dc_permission_mode controls,
      tp_sandbox_policy = (if ca_plan_mode s then Some (obj [(''type'', JStr ''readOnly'')]) else None),
      tp_model = dc_model controls, tp_effort = dc_effort controls, tp_summary = None, tp_personality = None,
      tp_fast_mode = unwrap_or (dc_fast_mode controls) False\<rparr>)"

definition codex_encode_input :: "HarnessInput \<Rightarrow> CodexManagedAdapter \<Rightarrow> (string + NativeWrite) \<times> CodexManagedAdapter" where
  "codex_encode_input input s0 = (case ac_native_session_id (ca_context s0) of
      None \<Rightarrow> (Inl ''Codex app-server thread is not initialized yet'', s0)
    | Some thread_id \<Rightarrow>
      (let (request_id, s) = take_request_id s0; local_input_id = hi_local_input_id input;
           pending = bt_insert request_id local_input_id (ca_pending_inputs s)
       in case ca_active_turn_id s of
          None \<Rightarrow>
            if ca_active_input_id s \<noteq> None then (Inl ''Codex turn start is still pending'', s)
            else (Inr (codex_write (Some local_input_id) (start_payload thread_id request_id (hi_content input) s)),
                  s\<lparr>ca_pending_inputs := pending, ca_active_input_id := Some local_input_id\<rparr>)
        | Some turn_id \<Rightarrow>
            (Inr (codex_write (Some local_input_id) (steer_payload thread_id request_id (hi_content input) turn_id)),
             s\<lparr>ca_pending_inputs := pending\<rparr>)))"

section \<open>Observing the app server\<close>

definition managed_codex_thread_id :: "json \<Rightarrow> string option" where
  "managed_codex_thread_id v = str_at_any v [[''result'', ''thread'', ''id''], [''result'', ''threadId''],
     [''params'', ''thread'', ''id''], [''params'', ''threadId'']]"

definition managed_codex_turn_id :: "json \<Rightarrow> string option" where
  "managed_codex_turn_id v = str_at_any v [[''params'', ''turn'', ''id''], [''params'', ''turnId''],
     [''result'', ''turn'', ''id''], [''result'', ''turnId'']]"

definition managed_codex_turn_status :: "json \<Rightarrow> HarnessTurnStatus" where
  "managed_codex_turn_status v =
     (let status = str_at_any v [[''params'', ''status''], [''params'', ''turn'', ''status''],
            [''params'', ''finalStatus''], [''params'', ''final_status''],
            [''result'', ''status''], [''result'', ''turn'', ''status'']]
      in if status \<in> {Some ''failed'', Some ''error''} then HarnessTurnStatus.Failed
         else if status \<in> {Some ''interrupted'', Some ''cancelled'', Some ''canceled''} then HarnessTurnStatus.Interrupted
         else if status = Some ''deferred'' then Deferred else Success)"

text \<open>The steps of one message, in the order the loop body takes them.\<close>

definition observe_response :: "CodexAppServerMessage \<Rightarrow> CodexManagedAdapter \<Rightarrow> HarnessEffect list \<times> CodexManagedAdapter" where
  "observe_response m s = (case Option.bind (Option.bind (xm_id m) as_u64)
        (\<lambda>request_id. map_option (Pair request_id) (map_of (ca_pending_inputs s) request_id)) of
      None \<Rightarrow> ([], s)
    | Some (request_id, local_input_id) \<Rightarrow>
      (let s1 = s\<lparr>ca_pending_inputs := map_remove request_id (ca_pending_inputs s)\<rparr>
       in if jget (xm_value m) ''error'' = None then ([InputAcknowledged local_input_id], s1)
          else if ca_active_turn_id s1 = None \<and> ca_active_input_id s1 = Some local_input_id
          then ([TurnCompleted local_input_id HarnessTurnStatus.Failed, Ready], s1\<lparr>ca_active_input_id := None\<rparr>)
          else ([TurnCompleted local_input_id HarnessTurnStatus.Failed], s1)))"

definition observe_thread_id :: "CodexAppServerMessage \<Rightarrow> CodexManagedAdapter \<Rightarrow> HarnessEffect list \<times> CodexManagedAdapter" where
  "observe_thread_id m s = (case managed_codex_thread_id (xm_value m) of None \<Rightarrow> ([], s)
    | Some i \<Rightarrow> if ac_native_session_id (ca_context s) = Some i then ([], s)
        else ([HarnessEffect.Initialized i (dc_model (ac_controls (ca_context s))), Ready], set_native_session_id (Some i) s))"

definition observe_request :: "CodexAppServerMessage \<Rightarrow> CodexManagedAdapter \<Rightarrow> HarnessEffect list \<times> CodexManagedAdapter" where
  "observe_request m s = (let (draft, s') = request_interaction m s
     in (case draft of None \<Rightarrow> [] | Some d \<Rightarrow> [InteractionRequested d], s'))"

definition observe_turn_id :: "CodexAppServerMessage \<Rightarrow> CodexManagedAdapter \<Rightarrow> CodexManagedAdapter" where
  "observe_turn_id m s = (case managed_codex_turn_id (xm_value m) of None \<Rightarrow> s
     | Some t \<Rightarrow> s\<lparr>ca_active_turn_id := Some t\<rparr>)"

definition observe_turn_started :: "CodexAppServerMessage \<Rightarrow> CodexManagedAdapter \<Rightarrow> HarnessEffect list" where
  "observe_turn_started m s = (if xm_method m = Some ''turn/started''
     then (case ca_active_input_id s of None \<Rightarrow> [] | Some i \<Rightarrow> [TurnStarted i]) else [])"

definition completion_key :: "CodexAppServerMessage \<Rightarrow> CodexManagedAdapter \<Rightarrow> string" where
  "completion_key m s = unwrap_or (or_else (managed_codex_turn_id (xm_value m)) (ca_active_turn_id s)) (xm_raw_json m)"

definition observe_turn_completed :: "CodexAppServerMessage \<Rightarrow> CodexManagedAdapter \<Rightarrow> HarnessEffect list \<times> CodexManagedAdapter" where
  "observe_turn_completed m s =
     (if xm_method m \<noteq> Some ''turn/completed'' then ([], s)
      else (let key = completion_key m s; status = managed_codex_turn_status (xm_value m) in
        if key \<in> set (ca_completed_turns s) then ([], s\<lparr>ca_active_turn_id := None\<rparr>)
        else ((case ca_active_input_id s of Some i \<Rightarrow> [TurnCompleted i status] | None \<Rightarrow> [TurnSettled status]) @ [Ready],
              s\<lparr>ca_completed_turns := key # ca_completed_turns s, ca_active_input_id := None,
                ca_active_turn_id := None\<rparr>)))"

definition observed_event :: "(string \<Rightarrow> json option) \<Rightarrow> (string \<Rightarrow> string option) \<Rightarrow> nat \<Rightarrow> CodexAppServerMessage \<Rightarrow>
    string option \<Rightarrow> CodexManagedAdapter \<Rightarrow> ProviderEventDraft" where
  "observed_event from_str b64 now_ms m turn_id s =
     (let d = codex_provider_event from_str b64 (codex_provider_context now_ms s) (to_provider_event_draft m)
      in d\<lparr>dr_provider_thread_id := or_else (dr_provider_thread_id d) (ac_native_session_id (ca_context s)),
           dr_provider_turn_id := or_else (dr_provider_turn_id d) turn_id\<rparr>)"

definition codex_observe_message :: "(string \<Rightarrow> json option) \<Rightarrow> (string \<Rightarrow> string option) \<Rightarrow> nat \<Rightarrow>
    CodexAppServerMessage \<Rightarrow> CodexManagedAdapter \<Rightarrow> HarnessEffect list \<times> CodexManagedAdapter" where
  "codex_observe_message from_str b64 now_ms m s0 =
     (let (e1, s1) = observe_response m s0; (e2, s2) = observe_thread_id m s1;
          (e3, s3) = observe_request m s2; s4 = observe_turn_id m s3;
          event_turn_id = or_else (managed_codex_turn_id (xm_value m)) (ca_active_turn_id s4);
          e4 = observe_turn_started m s4; (e5, s5) = observe_turn_completed m s4
      in (e1 @ e2 @ e3 @ e4 @ e5 @ [ProviderEvent (observed_event from_str b64 now_ms m event_turn_id s5)], s5))"

fun codex_observe_lines :: "(string \<Rightarrow> json option) \<Rightarrow> (string \<Rightarrow> string option) \<Rightarrow> nat \<Rightarrow> nat \<Rightarrow> string list \<Rightarrow>
    CodexManagedAdapter \<Rightarrow> (string + HarnessEffect list) \<times> CodexManagedAdapter" where
  "codex_observe_lines from_str b64 now_ms n [] s = (Inr [], s)"
| "codex_observe_lines from_str b64 now_ms n (line # ls) s =
     (case parse_jsonl_message from_str line n of
        Inl e \<Rightarrow> (Inl e, s)
      | Inr m \<Rightarrow> (let (es, s1) = codex_observe_message from_str b64 now_ms m s;
                     (r, s2) = codex_observe_lines from_str b64 now_ms (Suc n) ls s1
                 in (case r of Inl e \<Rightarrow> Inl e | Inr es' \<Rightarrow> Inr (es @ es'), s2)))"

definition codex_observe_native :: "(string \<Rightarrow> json option) \<Rightarrow> (string \<Rightarrow> string option) \<Rightarrow> nat \<Rightarrow> NativeRecord \<Rightarrow>
    CodexManagedAdapter \<Rightarrow> (string + HarnessEffect list) \<times> CodexManagedAdapter" where
  "codex_observe_native from_str b64 now_ms r s =
     (if nr_provider_key r \<noteq> CODEX_APP_SERVER_PROVIDER
      then (Inl (''Codex adapter received native record for '' @ nr_provider_key r), s)
      else if \<not> utf8_valid (nr_payload r) then (Inl ''decode Codex app-server JSONL'', s)
      else codex_observe_lines from_str b64 now_ms 1 (filter (\<lambda>l. trim l \<noteq> []) (str_lines (nr_payload r))) s)"

section \<open>Controls and recovery\<close>

definition set_controls :: "(DesiredHarnessControls \<Rightarrow> DesiredHarnessControls) \<Rightarrow> CodexManagedAdapter \<Rightarrow>
    HarnessControlPlan \<times> CodexManagedAdapter" where
  "set_controls f s = (let controls = f (ac_controls (ca_context s))
     in (HarnessControlPlan.RestartRequired controls, s\<lparr>ca_context := (ca_context s)\<lparr>ac_controls := controls\<rparr>\<rparr>))"

definition codex_plan_control :: "HarnessControl \<Rightarrow> CodexManagedAdapter \<Rightarrow> HarnessControlPlan \<times> CodexManagedAdapter" where
  "codex_plan_control control s = (case control of
      HarnessControl.Interrupt \<Rightarrow>
        (case (ac_native_session_id (ca_context s), ca_active_turn_id s) of
           (Some thread_id, Some turn_id) \<Rightarrow>
             (let (request_id, s') = take_request_id s
              in (HarnessControlPlan.NativeWrite (codex_write None (write_turn_interrupt_request_with_id request_id
                    \<lparr>xp_thread_id = thread_id, xp_turn_id = turn_id\<rparr>)), s'))
         | _ \<Rightarrow> (HarnessControlPlan.Unsupported ''no active Codex turn is available to interrupt'', s))
    | Kill \<Rightarrow> (HarnessControlPlan.Signal TerminateProcessGroup, s)
    | SetModel model \<Rightarrow> set_controls (\<lambda>c. c\<lparr>dc_model := model\<rparr>) s
    | SetEffort effort \<Rightarrow> set_controls (\<lambda>c. c\<lparr>dc_effort := effort\<rparr>) s
    | SetFastMode fast \<Rightarrow> set_controls (\<lambda>c. c\<lparr>dc_fast_mode := Some fast\<rparr>) s
    | SetPermissionMode mode \<Rightarrow>
        if mode = Some CODEX_PLAN_PERMISSION_MODE then (Applied, s\<lparr>ca_plan_mode := True\<rparr>)
        else if ca_plan_mode s then (Applied, s\<lparr>ca_plan_mode := False\<rparr>)
        else set_controls (\<lambda>c. c\<lparr>dc_permission_mode := mode\<rparr>) s
    | ResolveInteraction native_id resolution \<Rightarrow>
        (let (w, s') = interaction_response native_id resolution s
         in (case w of Some write \<Rightarrow> HarnessControlPlan.NativeWrite write
              | None \<Rightarrow> HarnessControlPlan.Unsupported (''no pending Codex request '' @ native_id @ '' to answer''), s')))"

definition managed_recovery_plan :: "HarnessAdapterContext \<Rightarrow> HarnessRecoveryPlan" where
  "managed_recovery_plan context = (case ac_native_session_id context of
      Some i \<Rightarrow> RestartAndResume i (ac_controls context)
    | None \<Rightarrow> Fail ''Codex session has no native thread id to resume'')"

definition codex_recovery_plan :: "HarnessRecoveryCause \<Rightarrow> CodexManagedAdapter \<Rightarrow> HarnessRecoveryPlan" where
  "codex_recovery_plan cause s = managed_recovery_plan (ca_context s)"

section \<open>The synchronous client\<close>

record CodexAppServerClient =
  ac_stdin :: string
  ac_stdout :: string
  ac_next_request_id :: nat
  ac_next_read_line :: nat

definition client_new :: "string \<Rightarrow> CodexAppServerClient" where
  "client_new stdout = \<lparr>ac_stdin = [], ac_stdout = stdout, ac_next_request_id = 1, ac_next_read_line = 0\<rparr>"

definition client_write :: "string \<Rightarrow> CodexAppServerClient \<Rightarrow> CodexAppServerClient" where
  "client_write bytes c = c\<lparr>ac_stdin := ac_stdin c @ bytes\<rparr>"

definition client_request :: "(nat \<Rightarrow> string) \<Rightarrow> CodexAppServerClient \<Rightarrow> nat \<times> CodexAppServerClient" where
  "client_request line c = (ac_next_request_id c,
     client_write (line (ac_next_request_id c)) (c\<lparr>ac_next_request_id := ac_next_request_id c + 1\<rparr>))"

definition client_initialize :: "CodexAppServerInitializeParams \<Rightarrow> CodexAppServerClient \<Rightarrow> nat \<times> CodexAppServerClient" where
  "client_initialize p = client_request (\<lambda>i. write_initialize_request_with_id i p @ write_initialized_notification)"

definition send_request :: "string \<Rightarrow> json \<Rightarrow> CodexAppServerClient \<Rightarrow> nat \<times> CodexAppServerClient" where
  "send_request verb params = client_request (\<lambda>i. write_jsonl (request_value i verb params))"

definition send_thread_start :: "CodexAppServerThreadStartParams \<Rightarrow> CodexAppServerClient \<Rightarrow> nat \<times> CodexAppServerClient" where
  "send_thread_start p = client_request (\<lambda>i. write_thread_start_request_with_id i p)"

definition send_turn_start :: "CodexAppServerTurnStartParams \<Rightarrow> CodexAppServerClient \<Rightarrow> nat \<times> CodexAppServerClient" where
  "send_turn_start p = client_request (\<lambda>i. write_turn_start_request_with_id i p)"

definition send_notification :: "string \<Rightarrow> json \<Rightarrow> CodexAppServerClient \<Rightarrow> CodexAppServerClient" where
  "send_notification verb params = client_write (write_jsonl (obj [(''method'', JStr verb), (''params'', params)]))"

definition send_response :: "json \<Rightarrow> json \<Rightarrow> CodexAppServerClient \<Rightarrow> CodexAppServerClient" where
  "send_response i result = client_write (write_jsonl (obj [(''id'', i), (''result'', result)]))"

definition send_error_response :: "json \<Rightarrow> int \<Rightarrow> string \<Rightarrow> CodexAppServerClient \<Rightarrow> CodexAppServerClient" where
  "send_error_response i code message = client_write (write_jsonl (obj [(''id'', i),
     (''error'', obj [(''code'', JInt code), (''message'', JStr message)])]))"

definition read_message :: "(string \<Rightarrow> json option) \<Rightarrow> CodexAppServerClient \<Rightarrow>
    (string + CodexAppServerMessage option) \<times> CodexAppServerClient" where
  "read_message from_str c = (let (r, n, rest) = read_jsonl_message from_str (ac_next_read_line c) (ac_stdout c)
     in (r, c\<lparr>ac_stdout := rest, ac_next_read_line := n\<rparr>))"

section \<open>Answering a request under its own id\<close>

text \<open>
  C12. An ask is answered under the id codex gave it, once: the answer to a request whose id is a number the
  code can hold, or a string that is not one, carries that very id, and a second answer finds nothing to
  answer. A string of digits comes back as a number instead.
\<close>

theorem codex_answer_carries_request_id:
  assumes ask: "xm_method m = Some verb" "codex_interaction_kind verb = Some kind" "xm_id m = Some request_id"
    and i: "(\<exists>n < 2 ^ 64. request_id = JInt (int n)) \<or> (\<exists>s. request_id = JStr s \<and> parse_u64 s = None)"
  shows "\<exists>d s1 s2 body. request_interaction m s = (Some d, s1)
    \<and> interaction_response (id_native_id d) r s1 = (Some (codex_write None (encode_line
         (obj [(''jsonrpc'', JStr ''2.0''), (''id'', request_id), (''result'', body)]))), s2)
    \<and> interaction_response (id_native_id d) r' s2 = (None, s2)
    \<and> codex_request_id_value (the (codex_request_id_string (JStr (show_nat 7)))) = JInt 7"
proof -
  from i obtain native where native: "codex_request_id_string request_id = Some native"
    "codex_request_id_value native = request_id"
    by (auto simp: codex_request_id_value_def show_int_def parse_u64_show)
  have gone: "map_of (map_remove native xs) native = None" for xs :: "(string \<times> string) list"
    by (auto simp: map_remove_def map_of_eq_None_iff)
  show ?thesis using native
    by (auto simp: request_interaction_def interaction_response_def ask Let_def gone codex_request_id_value_def
      parse_u64_show bt_insert_lookup split: prod.splits if_splits)
qed

theorem codex_answer_carries_request_id_witness:
  "\<exists>d s1 s2 body. request_interaction \<lparr>xm_raw_json = [], xm_value = obj [], xm_message_kind = Request,
       xm_method = Some ''execCommandApproval'', xm_id = Some (JInt 0)\<rparr> (codex_new \<lparr>ac_session_id = 1, ac_thread_id = 2,
       ac_workspace = ''w'', ac_native_session_id = None, ac_controls = \<lparr>dc_model = None, dc_effort = None,
       dc_permission_mode = None, dc_fast_mode = None\<rparr>\<rparr>) = (Some d, s1)
    \<and> interaction_response (id_native_id d) Approve s1 = (Some (codex_write None (encode_line
         (obj [(''jsonrpc'', JStr ''2.0''), (''id'', JInt 0), (''result'', body)]))), s2)"
  using codex_answer_carries_request_id [where verb = "''execCommandApproval''" and kind = ProviderInteractionKind.Permission
    and request_id = "JInt 0" and r = Approve and r' = Approve and m = "\<lparr>xm_raw_json = [], xm_value = obj [],
       xm_message_kind = Request, xm_method = Some ''execCommandApproval'', xm_id = Some (JInt 0)\<rparr>"]
  by (fastforce simp: codex_interaction_kind_def)


section \<open>A turn completes once\<close>

definition ends_turn :: "HarnessEffect \<Rightarrow> bool" where
  "ends_turn e = (case e of TurnCompleted _ _ \<Rightarrow> True | TurnSettled _ \<Rightarrow> True | _ \<Rightarrow> False)"

lemma completed_kept [simp]:
  "ca_completed_turns (snd (observe_response m s)) = ca_completed_turns s"
  "ca_completed_turns (snd (observe_thread_id m s)) = ca_completed_turns s"
  "ca_completed_turns (snd (observe_request m s)) = ca_completed_turns s"
  "ca_completed_turns (observe_turn_id m s) = ca_completed_turns s"
  "ca_completed_turns (set_native_session_id i s) = ca_completed_turns s"
  by (auto simp: observe_response_def observe_thread_id_def observe_request_def request_interaction_def observe_turn_id_def
    set_native_session_id_def Let_def split: option.split prod.split)

lemma completed_grows:
  "set (ca_completed_turns s) \<subseteq> set (ca_completed_turns (snd (codex_observe_message fs b64 now m s)))"
  by (auto simp: codex_observe_message_def observe_turn_completed_def Let_def case_prod_beta)

lemma completed_grows_lines:
  "set (ca_completed_turns s) \<subseteq> set (ca_completed_turns (snd (codex_observe_lines fs b64 now n ls s)))"
proof (induction ls arbitrary: n s)
  case (Cons line ls)
  show ?case
  proof (cases "parse_jsonl_message fs line n")
    case (Inr m)
    from completed_grows [of s fs b64 now m] Cons [of "snd (codex_observe_message fs b64 now m s)" "Suc n"] show ?thesis
      by (auto simp: Inr case_prod_beta Let_def)
  qed simp
qed simp

lemma completion_recorded:
  assumes "xm_method m = Some ''turn/completed''" and "managed_codex_turn_id (xm_value m) = Some t"
  shows "t \<in> set (ca_completed_turns (snd (codex_observe_message fs b64 now m s)))"
  using assms by (auto simp: codex_observe_message_def observe_turn_completed_def completion_key_def Let_def case_prod_beta)

text \<open>
  The completion of a turn is reported at most once: after a \<open>turn/completed\<close> notification, whatever
  lines follow, the same notification again ends no turn.
\<close>

lemma codex_turn_completes_once:
  assumes "xm_method m = Some ''turn/completed''" and "managed_codex_turn_id (xm_value m) = Some t" and "xm_id m = None"
    and "codex_observe_message fs b64 now m s0 = (es, s1)" and "codex_observe_lines fs b64 now' n ls s1 = (r, s2)"
  shows "filter ends_turn (fst (codex_observe_message fs b64 now'' m s2)) = []"
proof -
  have "t \<in> set (ca_completed_turns s2)"
    using completion_recorded [OF assms(1,2), of fs b64 now s0] completed_grows_lines [of s1 fs b64 now' n ls] assms(4,5) by auto
  then show ?thesis using assms(1-3)
    by (auto simp: codex_observe_message_def observe_turn_completed_def completion_key_def observe_response_def
      observe_thread_id_def observe_request_def request_interaction_def observe_turn_started_def ends_turn_def
      Let_def case_prod_beta split: option.splits)
qed

section \<open>Reading at once and one by one\<close>

lemma read_all_step:
  "read_jsonl_messages_from fs n s = (case read_jsonl_message fs n s of
      (Inl e, _) \<Rightarrow> Inl e
    | (Inr None, _) \<Rightarrow> Inr []
    | (Inr (Some m), k, rest) \<Rightarrow> (case read_jsonl_messages_from fs k rest of Inl e \<Rightarrow> Inl e | Inr ms \<Rightarrow> Inr (m # ms)))"
proof (induction fs n s rule: read_jsonl_message.induct)
  case (1 fs n s)
  show ?case
  proof (cases "s = []")
    case False
    obtain line rest where l: "read_line s = (line, rest)" by (metis surj_pair)
    show ?thesis
    proof (cases "trim (trim_line_end line) = []")
      case True
      with 1 [OF False l [symmetric] refl refl] show ?thesis
        by (simp add: read_jsonl_messages_from.simps [of fs n s] read_jsonl_message.simps [of fs n s] False l)
    next
      case t: False
      show ?thesis
        by (simp add: read_jsonl_messages_from.simps [of fs n s] read_jsonl_message.simps [of fs n s] False l t split: sum.split)
    qed
  qed (simp add: read_jsonl_messages_from.simps read_jsonl_message.simps)
qed

lemma read_message_shorter:
  "read_jsonl_message fs n s = (Inr (Some m), k, rest) \<Longrightarrow> length rest < length s"
proof (induction fs n s rule: read_jsonl_message.induct)
  case (1 fs n s)
  show ?case
  proof (cases "s = []")
    case False
    obtain line r where l: "read_line s = (line, r)" by (metis surj_pair)
    have r: "length r < length s" using read_line_measure [OF l [symmetric] False] .
    show ?thesis
    proof (cases "trim (trim_line_end line) = []")
      case True
      with "1.prems" l have "read_jsonl_message fs (Suc n) r = (Inr (Some m), k, rest)"
        by (simp add: read_jsonl_message.simps [of fs n s] False)
      from "1.IH" [OF False l [symmetric] refl refl True this] r show ?thesis by simp
    next
      case t: False
      with "1.prems" l r show ?thesis
        by (simp add: read_jsonl_message.simps [of fs n s] False split: sum.splits)
    qed
  qed (use "1.prems" in \<open>simp add: read_jsonl_message.simps\<close>)
qed

text \<open>A client reading message after message, at most as many as the fuel.\<close>

fun read_until_end :: "(string \<Rightarrow> json option) \<Rightarrow> nat \<Rightarrow> CodexAppServerClient \<Rightarrow>
    (string + CodexAppServerMessage list) option" where
  "read_until_end fs 0 c = None"
| "read_until_end fs (Suc fuel) c = (case read_message fs c of
     (Inl e, _) \<Rightarrow> Some (Inl e)
   | (Inr None, _) \<Rightarrow> Some (Inr [])
   | (Inr (Some m), c') \<Rightarrow> (case read_until_end fs fuel c' of
        None \<Rightarrow> None | Some (Inl e) \<Rightarrow> Some (Inl e) | Some (Inr ms) \<Rightarrow> Some (Inr (m # ms))))"

text \<open>
  C13. The two readers of the agent's output agree: a client that reads message after message until the
  end, line numbers and all, gets the messages, or the error at the first bad line, that reading the whole
  output at once gives, and it gets to the end.
\<close>

theorem codex_readers_agree:
  "read_until_end fs (Suc (length output)) (client_new output) = Some (read_jsonl_messages fs output)"
proof -
  have "length (ac_stdout c) < fuel \<Longrightarrow>
      read_until_end fs fuel c = Some (read_jsonl_messages_from fs (ac_next_read_line c) (ac_stdout c))" for fuel c
  proof (induction fuel arbitrary: c)
    case (Suc fuel)
    obtain r k rest where read: "read_jsonl_message fs (ac_next_read_line c) (ac_stdout c) = (r, k, rest)" by (metis surj_pair)
    show ?case
    proof (cases "\<exists>m. r = Inr (Some m)")
      case True
      then obtain m where m: "r = Inr (Some m)" by blast
      from read_message_shorter [OF read [unfolded m]] Suc.prems have "length rest < fuel" by simp
      with Suc.IH [of "c\<lparr>ac_stdout := rest, ac_next_read_line := k\<rparr>"] read m show ?thesis
        by (simp add: read_message_def read_all_step [of fs "ac_next_read_line c"] split: sum.split)
    next
      case False
      with read show ?thesis
        by (cases r) (auto simp: read_message_def read_all_step [of fs "ac_next_read_line c"] split: option.split)
    qed
  qed simp
  from this [of "client_new output" "Suc (length output)"] show ?thesis
    by (simp add: client_new_def read_jsonl_messages_def)
qed

end
