(* ===== verification/Session_Runtime.thy ===== *)
theory Session_Runtime
  imports Session_State Turn_Ledger Provider_Inputs Provider_Interactions Provider_Events Chat_Queue
    Chat_Store Redaction Harness_Metadata Codex_Adapter
begin

text \<open>
  What the provider session loops share (\<open>crates/core/src/archcar/session.rs\<close> and
  \<open>runtime_session_store.rs\<close>): the snapshot of a session the daemon reads, the events a session sends,
  the application of an adapter's effects, and the bookkeeping of an input around its write.

  The world of a session is the record \<open>runtime\<close>: the snapshot behind its lock, the tables, the events
  sent and the bytes written to the agent. What a step reads from outside is the record \<open>env\<close>: the clocks,
  fresh ids, the hash of an ask, and what the agent's stdin, the plan file and the database (by the name of the call) report when they fail. A step holds
  the snapshot's lock throughout; log lines, and failures of calls whose result the code drops, are left out.
\<close>

named_theorems runtime_simps \<open>what a helper leaves of the world as it was\<close>

section \<open>Data\<close>

datatype ProcessStatus = Running | Stopped | Exited

fun process_status_str :: "ProcessStatus \<Rightarrow> string" where
  "process_status_str Running = ''running''"
| "process_status_str Stopped = ''stopped''"
| "process_status_str Exited = ''exited''"

record SessionCapabilitySupport =
  sc_name :: string
  sc_mode :: string
  sc_reason :: "string option"

record SessionHarnessCapabilities =
  hc_contract_version :: nat
  hc_tier :: string
  hc_required :: "string list"
  hc_extended :: "SessionCapabilitySupport list"
  hc_optional :: "SessionCapabilitySupport list"
  hc_observed_native :: "string list"

record SessionSnapshot =
  sn_session_id :: int
  sn_thread_id :: int
  sn_workspace :: string
  sn_kind :: string
  sn_pid :: nat
  sn_status :: ProcessStatus
  sn_runtime_state :: AgentSessionState
  sn_ready :: bool
  sn_capabilities :: "SessionHarnessCapabilities option"
  sn_screen :: string
  sn_turns :: TurnGenerations

text \<open>Of the events, those a session or the daemon's session handling sends.\<close>

datatype ArchcarEvent =
    SessionSpawnQueued string string
  | SessionStarted int int string string nat bool bool "AgentSessionState option"
  | SessionReady int int
  | SessionCapabilitiesChanged int int SessionHarnessCapabilities
  | TurnCompletedEvent int int "string option" "nat option"
  | SessionScreenUpdated int
  | SessionMessagesUpdated int
  | ChatQueueUpdated int
  | ChatPlanUpdated int bool "string option"
  | SessionExited int "int option"
  | SessionError "int option" "int option" string
  | ProviderInteractionRequested ProviderInteractionRecord
  | ProviderInteractionResolved ProviderInteractionRecord

datatype SessionCommand =
    SendInput string "string option" ArchcarInputKind ArchcarInputDelivery
  | SendQueuedInput QueuedChatInputRecord
  | ApplyControl HarnessControl
  | Resize nat nat
  | InterruptTurn
  | Kill

fun split_queued_claim :: "SessionCommand \<Rightarrow> SessionCommand \<times> QueuedChatInputRecord option" where
  "split_queued_claim (SendQueuedInput claim) =
     (SendInput (qi_input claim) (qi_visible_input claim) (qi_input_kind claim) Auto, Some claim)"
| "split_queued_claim command = (command, None)"

record ThreadRow =
  th_id :: int
  th_provider :: string
  th_native_thread_id :: "string option"
  th_plan_path :: "string option"
  th_plan_mode :: bool
  th_approval_mode :: "string option"
  th_harness_metadata :: "string option"

record ProcessRow =
  pw_id :: int
  pw_is_session :: bool
  pw_pid :: nat
  pw_status :: ProcessStatus
  pw_exit_code :: "int option"
  pw_ended_at :: "string option"
  pw_log :: string

record runtime =
  rt_snapshot :: SessionSnapshot
  rt_inputs :: "ProviderInputRecord list"
  rt_interactions :: interactions
  rt_events :: event_store
  rt_queue :: queue
  rt_chat :: chat_store
  rt_threads :: "ThreadRow list"
  rt_processes :: "ProcessRow list"
  rt_sent :: "ArchcarEvent list"
  rt_stdin :: "string list"
  rt_killed :: bool

record env =
  env_now :: string
  env_millis :: nat
  env_mono :: nat
  env_uuid :: string
  env_fingerprint :: "ProviderInteractionDraft \<Rightarrow> string"
  env_from_str :: "string \<Rightarrow> json option"
  env_json_key :: "string \<Rightarrow> string option"
  env_b64 :: "string \<Rightarrow> string option"
  env_harness :: "string \<Rightarrow> HarnessDescriptor option"
  env_stdin :: "string \<Rightarrow> string option"
  env_plan_file :: "string \<Rightarrow> string \<Rightarrow> string option"
  env_db :: "string \<Rightarrow> string option"

definition send :: "ArchcarEvent \<Rightarrow> runtime \<Rightarrow> runtime" where
  "send e rt = rt\<lparr>rt_sent := rt_sent rt @ [e]\<rparr>"

definition session_error :: "SessionSnapshot \<Rightarrow> string \<Rightarrow> ArchcarEvent" where
  "session_error started message = SessionError (Some (sn_session_id started)) (Some (sn_thread_id started)) message"

definition update_snapshot :: "(SessionSnapshot \<Rightarrow> SessionSnapshot) \<Rightarrow> runtime \<Rightarrow> runtime" where
  "update_snapshot f rt = rt\<lparr>rt_snapshot := f (rt_snapshot rt)\<rparr>"

section \<open>Input text\<close>

definition CODEX_RECOVERY_CURRENT_USER_MESSAGE_HEADER :: string where
  "CODEX_RECOVERY_CURRENT_USER_MESSAGE_HEADER = ''Current user message:''"

definition compose_first_turn_input :: "string option \<Rightarrow> string \<Rightarrow> bool \<Rightarrow> string" where
  "compose_first_turn_input general visible first_turn =
     (case (if first_turn then trimmed_nonempty general else None) of
        Some g \<Rightarrow> g @ [CHR 0x0A, CHR 0x0A] @ visible | None \<Rightarrow> visible)"

definition compose_recovered_thread_input :: "string option \<Rightarrow> string \<Rightarrow> string" where
  "compose_recovered_thread_input recovery input = (case trimmed_nonempty recovery of
      None \<Rightarrow> input
    | Some r \<Rightarrow> r @ [CHR 0x0A, CHR 0x0A] @ CODEX_RECOVERY_CURRENT_USER_MESSAGE_HEADER @ [CHR 0x0A] @ input)"

definition user_input_identity_suffix :: "nat \<Rightarrow> string" where
  "user_input_identity_suffix sequence = ''input-'' @ show_nat sequence"

definition provider_input_local_id :: "int \<Rightarrow> nat \<Rightarrow> string" where
  "provider_input_local_id session_id sequence = ''session-'' @ show_int session_id @ ''-input-'' @ show_nat sequence"

definition next_turn_request_id :: "nat \<Rightarrow> nat" where
  "next_turn_request_id sequence = saturating_add sequence 10"

definition next_fallback_request_id :: "nat \<Rightarrow> nat" where
  "next_fallback_request_id sequence = saturating_add sequence 2000000"

fun input_kind_storage_label :: "ArchcarInputKind \<Rightarrow> string" where
  "input_kind_storage_label ArchcarInputKind.User = ''user''"
| "input_kind_storage_label ArchcarInputKind.ReviewPrompt = ''review_prompt''"
| "input_kind_storage_label ArchcarInputKind.ControlCommand = ''control_command''"
| "input_kind_storage_label RawTerminal = ''raw_terminal''"

fun delivery_str :: "ArchcarInputDelivery \<Rightarrow> string" where
  "delivery_str Auto = ''auto''"
| "delivery_str Immediate = ''immediate''"

fun harness_turn_status_label :: "HarnessTurnStatus \<Rightarrow> string" where
  "harness_turn_status_label Success = ''success''"
| "harness_turn_status_label HarnessTurnStatus.Failed = ''failed''"
| "harness_turn_status_label HarnessTurnStatus.Interrupted = ''interrupted''"
| "harness_turn_status_label Deferred = ''deferred''"

text \<open>Redaction may not return; then neither does the log text.\<close>

definition format_input_audit_log :: "(string \<Rightarrow> string option) \<Rightarrow> string \<Rightarrow> int \<Rightarrow> string \<Rightarrow> ArchcarInputKind \<Rightarrow>
    string option" where
  "format_input_audit_log json_key workspace session_id input kind = (case kind of
      ArchcarInputKind.ReviewPrompt \<Rightarrow> map_option (\<lambda>r. [CHR 0x0A] @ ''[staged review prompt]'' @ [CHR 0x0A] @ r
          @ [CHR 0x0A] @ ''[/staged review prompt]'' @ [CHR 0x0A]) (redact_sensitive_text json_key input)
    | ArchcarInputKind.User \<Rightarrow> map_option (\<lambda>r. [CHR 0x0A] @ ''[user input '' @ workspace @ ''#'' @ show_int session_id @ '']''
          @ [CHR 0x0A] @ r @ [CHR 0x0A] @ ''[/user input]'' @ [CHR 0x0A]) (redact_sensitive_text json_key input)
    | _ \<Rightarrow> Some [])"

section \<open>The snapshot\<close>

definition mark_session_busy_for_input :: "nat \<Rightarrow> SessionSnapshot \<Rightarrow> SessionSnapshot" where
  "mark_session_busy_for_input now_ms s = s\<lparr>sn_ready := False, sn_runtime_state := AgentSessionState.Running,
     sn_turns := busy_mark now_ms (sn_turns s)\<rparr>"

definition note_snapshot_input :: "string \<Rightarrow> SessionSnapshot \<Rightarrow> SessionSnapshot" where
  "note_snapshot_input i s = s\<lparr>sn_turns := note_input i (sn_turns s)\<rparr>"

definition note_snapshot_input_taken :: "string \<Rightarrow> SessionSnapshot \<Rightarrow> SessionSnapshot" where
  "note_snapshot_input_taken i s = s\<lparr>sn_turns := note_input_taken i (sn_turns s)\<rparr>"

definition mark_snapshot_ready :: "SessionSnapshot \<Rightarrow> SessionSnapshot" where
  "mark_snapshot_ready s = s\<lparr>sn_ready := True, sn_runtime_state := AgentSessionState.WaitingForInput\<rparr>"

definition mark_snapshot_awaiting_input :: "SessionSnapshot \<Rightarrow> SessionSnapshot" where
  "mark_snapshot_awaiting_input s = s\<lparr>sn_ready := False, sn_runtime_state := AgentSessionState.WaitingForInput\<rparr>"

definition mark_snapshot_running_not_ready :: "SessionSnapshot \<Rightarrow> SessionSnapshot" where
  "mark_snapshot_running_not_ready s = s\<lparr>sn_status := Running, sn_ready := False,
     sn_runtime_state := AgentSessionState.Running\<rparr>"

definition mark_snapshot_exited :: "int option \<Rightarrow> SessionSnapshot \<Rightarrow> SessionSnapshot" where
  "mark_snapshot_exited exit_code s = s\<lparr>sn_status := Exited,
     sn_runtime_state := sm_state (mark_exited (from_state (sn_runtime_state s)) exit_code)\<rparr>"

definition process_lifecycle_ready :: "string \<Rightarrow> bool" where
  "process_lifecycle_ready kind \<longleftrightarrow> kind = ''codex'' \<or> kind = ''shell''"

section \<open>Tables\<close>

definition update_chat_thread_native_id :: "int \<Rightarrow> string \<Rightarrow> runtime \<Rightarrow> (string + ThreadRow) \<times> runtime" where
  "update_chat_thread_native_id t native rt =
     (let n = trim native in
      if n = [] then (Inl ''native thread id is required'', rt)
      else (let rows = update_where (\<lambda>r. th_id r = t) (\<lambda>r. r\<lparr>th_native_thread_id := Some n\<rparr>) (rt_threads rt)
            in (case find (\<lambda>r. th_id r = t) rows of None \<Rightarrow> Inl ''chat thread not found'' | Some r \<Rightarrow> Inr r,
                rt\<lparr>rt_threads := rows\<rparr>)))"

definition set_thread_plan_path :: "int \<Rightarrow> string option \<Rightarrow> ThreadRow list \<Rightarrow> ThreadRow list" where
  "set_thread_plan_path t path threads = update_where (\<lambda>r. th_id r = t) (\<lambda>r. r\<lparr>th_plan_path := path\<rparr>) threads"

definition update_chat_thread_harness_metadata :: "int \<Rightarrow> string option \<Rightarrow> runtime \<Rightarrow> runtime" where
  "update_chat_thread_harness_metadata t metadata rt =
     rt\<lparr>rt_threads := update_where (\<lambda>r. th_id r = t) (\<lambda>r. r\<lparr>th_harness_metadata := metadata\<rparr>) (rt_threads rt)\<rparr>"

definition append_session_process_output :: "int \<Rightarrow> string \<Rightarrow> runtime \<Rightarrow> (string + unit) \<times> runtime" where
  "append_session_process_output p output rt =
     (if output = [] then (Inr (), rt)
      else (case find (\<lambda>r. pw_id r = p) (rt_processes rt) of
          None \<Rightarrow> (Inl ''process not found'', rt)
        | Some r \<Rightarrow> if \<not> pw_is_session r then (Inl (''process '' @ show_int p @ '' is not a session process''), rt)
            else (Inr (), rt\<lparr>rt_processes := update_where (\<lambda>r. pw_id r = p)
                    (\<lambda>r. r\<lparr>pw_log := pw_log r @ output\<rparr>) (rt_processes rt)\<rparr>)))"

definition mark_session_process_exited :: "string \<Rightarrow> int \<Rightarrow> int option \<Rightarrow> runtime \<Rightarrow> runtime" where
  "mark_session_process_exited now p exit_code rt = rt\<lparr>rt_processes := update_where (\<lambda>r. pw_id r = p)
     (\<lambda>r. r\<lparr>pw_status := Exited, pw_ended_at := Some now, pw_exit_code := exit_code\<rparr>) (rt_processes rt)\<rparr>"

text \<open>Messages and provider events are numbered from one timeline.\<close>

definition append_message :: "string \<Rightarrow> int \<Rightarrow> string \<Rightarrow> string \<Rightarrow> string \<Rightarrow> runtime \<Rightarrow> runtime" where
  "append_message now t role content src rt =
     (let (_, chat) = append_chat_message now t role content src ((rt_chat rt)\<lparr>cs_timeline := es_timeline (rt_events rt)\<rparr>)
      in rt\<lparr>rt_chat := chat, rt_events := (rt_events rt)\<lparr>es_timeline := cs_timeline chat\<rparr>\<rparr>)"

definition append_input_and_audit_log :: "string \<Rightarrow> int \<Rightarrow> int \<Rightarrow> string \<Rightarrow> string \<Rightarrow> string \<Rightarrow> string \<Rightarrow> runtime \<Rightarrow> runtime" where
  "append_input_and_audit_log now t p role input src audit_log rt =
     (let rt1 = append_message now t role input src rt
      in if audit_log \<noteq> [] then snd (append_session_process_output p audit_log rt1) else rt1)"

definition format_provider_native_raw_output :: "string \<Rightarrow> string \<Rightarrow> string" where
  "format_provider_native_raw_output transport raw =
     (let marker = (if transport = ''codex-app-server'' then ''codex-app-server jsonl'' else transport)
      in ''['' @ marker @ '']'' @ [CHR 0x0A] @ raw @ [CHR 0x0A] @ ''[/'' @ marker @ '']'' @ [CHR 0x0A])"

definition append_provider_native_output :: "int \<Rightarrow> string \<Rightarrow> string \<Rightarrow> runtime \<Rightarrow> runtime" where
  "append_provider_native_output p transport raw rt = (if raw = [] then rt
     else snd (append_session_process_output p (format_provider_native_raw_output transport raw) rt))"

definition append_provider_event :: "env \<Rightarrow> ProviderEventDraft \<Rightarrow> runtime \<Rightarrow> runtime" where
  "append_provider_event en d rt = rt\<lparr>rt_events := snd (upsert_event (env_now en) d (rt_events rt))\<rparr>"

definition max_runtime_input_provider_sequence :: "int \<Rightarrow> runtime \<Rightarrow> string + nat" where
  "max_runtime_input_provider_sequence p rt =
     (case max_provider_sequence_for_process_subtypes p ProviderEventKind.UserInput
        [''user_send'', ''staged_review_send'', ''control_command'', ''user_input'', ''review_prompt''] (rt_events rt) of
        Inl e \<Rightarrow> Inl e | Inr m \<Rightarrow> Inr (unwrap_or m 0))"

text \<open>Marks on the provider-input table, with what the store reports.\<close>

definition with_inputs :: "(ProviderInputRecord list \<Rightarrow> 'a \<times> ProviderInputRecord list) \<Rightarrow> runtime \<Rightarrow> 'a \<times> runtime" where
  "with_inputs f rt = (let (a, rows) = f (rt_inputs rt) in (a, rt\<lparr>rt_inputs := rows\<rparr>))"

definition save_plan_row :: "env \<Rightarrow> int \<Rightarrow> string \<Rightarrow> string \<Rightarrow> ThreadRow list \<Rightarrow> (string + string) \<times> ThreadRow list" where
  "save_plan_row en t interaction_id plan threads =
     (if find (\<lambda>r. th_id r = t) threads = None then (Inl ''chat thread not found'', threads)
      else (let relative = ''.context/plans/thread-'' @ show_int t @ ''-'' @ hd (split_on CHR ''-'' interaction_id) @ ''.md''
            in case env_plan_file en relative plan of
                 Some e \<Rightarrow> (Inl e, threads)
               | None \<Rightarrow> (Inr relative, set_thread_plan_path t (Some relative) threads)))"

definition save_chat_plan :: "env \<Rightarrow> int \<Rightarrow> string \<Rightarrow> string \<Rightarrow> runtime \<Rightarrow> (string + string) \<times> runtime" where
  "save_chat_plan en t interaction_id plan rt =
     (let (r, threads) = save_plan_row en t interaction_id plan (rt_threads rt) in (r, rt\<lparr>rt_threads := threads\<rparr>))"

definition save_interaction_plan :: "env \<Rightarrow> ProviderInteractionRecord \<Rightarrow> string \<Rightarrow> runtime \<Rightarrow>
    ProviderInteractionRecord option \<times> runtime" where
  "save_interaction_plan en interaction plan rt =
     (case save_chat_plan en (id_thread_id (pi_request interaction)) (pi_id interaction) plan rt of
        (Inl e, rt1) \<Rightarrow> (None, rt1)
      | (Inr path, rt1) \<Rightarrow>
        (let rows = attach_plan_path (pi_id interaction) path (rt_interactions rt1)
         in (get_interaction (pi_id interaction) rows, rt1\<lparr>rt_interactions := rows\<rparr>)))"

section \<open>Runtime events\<close>

record RuntimeProviderEventInput =
  re_kind :: string
  re_session_id :: int
  re_thread_id :: int
  re_identity_suffix :: "string option"
  re_provider_sequence :: "nat option"
  re_phase :: ProviderEventPhase
  re_event_kind :: ProviderEventKind
  re_subtype :: string
  re_title :: string
  re_body :: string

definition runtime_provider_event :: "env \<Rightarrow> RuntimeProviderEventInput \<Rightarrow> ProviderEventDraft" where
  "runtime_provider_event en input =
     (let suffix = (case re_identity_suffix input of None \<Rightarrow> [] | Some s \<Rightarrow> '':'' @ s)
      in \<lparr>dr_provider = re_kind input,
          dr_provider_event_id = Some (''archcar:'' @ show_int (re_session_id input) @ '':'' @ re_subtype input @ suffix),
          dr_provider_item_id = Some (''archcar-session-'' @ show_int (re_session_id input) @ ''-'' @ re_subtype input @ suffix),
          dr_provider_thread_id = Some (show_int (re_thread_id input)), dr_provider_turn_id = None,
          dr_parent_provider_item_id = None, dr_parent_provider_thread_id = None, dr_workspace_id = None,
          dr_chat_thread_id = Some (re_thread_id input), dr_process_id = Some (re_session_id input),
          dr_phase = re_phase input, dr_kind = re_event_kind input, dr_provider_subtype = Some (re_subtype input),
          dr_provider_sequence = map_option as_column (re_provider_sequence input),
          dr_occurred_at_ms = env_millis en,
          dr_normalized_payload = obj [(''title'', JStr (re_title input)), (''body'', JStr (re_body input))],
          dr_raw_json = obj [(''source'', JStr ''archcar''), (''session_id'', JInt (re_session_id input)),
            (''thread_id'', JInt (re_thread_id input)), (''identity_suffix'', jopt_str (re_identity_suffix input)),
            (''kind'', JStr (''SessionKind('' @ re_kind input @ '')'')), (''phase'', JStr (phase_str (re_phase input))),
            (''event_kind'', JStr (kind_str (re_event_kind input))), (''subtype'', JStr (re_subtype input)),
            (''title'', JStr (re_title input)), (''body'', JStr (re_body input))],
          dr_schema_version = 1, dr_adapter_version = ''archcar-runtime''\<rparr>)"

definition append_runtime_provider_event :: "env \<Rightarrow> ProviderEventDraft \<Rightarrow> runtime \<Rightarrow> runtime" where
  "append_runtime_provider_event en event rt = append_provider_event en event rt"

definition mark_provider_session_failed :: "env \<Rightarrow> SessionSnapshot \<Rightarrow> string \<Rightarrow> runtime \<Rightarrow> runtime" where
  "mark_provider_session_failed en started err rt =
     (let event = runtime_provider_event en \<lparr>re_kind = sn_kind started, re_session_id = sn_session_id started,
            re_thread_id = sn_thread_id started, re_identity_suffix = None, re_provider_sequence = None,
            re_phase = ProviderEventPhase.Failed, re_event_kind = ThreadSession, re_subtype = ''session_error'',
            re_title = ''Session error'', re_body = err\<rparr>;
          rt1 = append_runtime_provider_event en event rt;
          rt2 = update_snapshot (\<lambda>s. s\<lparr>sn_ready := False, sn_runtime_state := AgentSessionState.Failed\<rparr>) rt1
      in send (session_error started err) rt2)"

section \<open>Capabilities\<close>

fun capability_str :: "HarnessCapability \<Rightarrow> string" where
  "capability_str Goals = ''goals''"
| "capability_str NativeSlashCommands = ''native_slash_commands''"

fun support_mode_str :: "SupportMode \<Rightarrow> string" where
  "support_mode_str Native = ''native''"
| "support_mode_str SupportMode.RestartRequired = ''restart_required''"
| "support_mode_str SupportMode.Emulated = ''emulated''"
| "support_mode_str (SupportMode.Unsupported _) = ''unsupported''"

fun support_reason :: "SupportMode \<Rightarrow> string option" where
  "support_reason (SupportMode.Unsupported reason) = Some reason"
| "support_reason _ = None"

fun tier_str :: "HarnessTier \<Rightarrow> string" where
  "tier_str Full = ''full''"
| "tier_str Partial = ''partial''"
| "tier_str Basic = ''basic''"

definition session_harness_capabilities_for_descriptor :: "HarnessDescriptor \<Rightarrow> string list \<Rightarrow> SessionHarnessCapabilities" where
  "session_harness_capabilities_for_descriptor d observed = \<lparr>
     hc_contract_version = hd_contract_version d, hc_tier = tier_str (tier d),
     hc_required = map feature_str (hd_core_features d),
     hc_extended = map (\<lambda>(f, s). \<lparr>sc_name = feature_str f, sc_mode = support_mode_str s, sc_reason = support_reason s\<rparr>)
       (hd_extended_features d),
     hc_optional = map (\<lambda>(c, s). \<lparr>sc_name = capability_str c, sc_mode = support_mode_str s, sc_reason = support_reason s\<rparr>)
       (hd_optional_capabilities d),
     hc_observed_native = observed\<rparr>"

definition capabilities_for_kind :: "env \<Rightarrow> string \<Rightarrow> string list \<Rightarrow> SessionHarnessCapabilities option" where
  "capabilities_for_kind en kind observed =
     map_option (\<lambda>d. session_harness_capabilities_for_descriptor d observed) (env_harness en kind)"

section \<open>Completing turns and applying effects\<close>

definition send_turn_completed :: "env \<Rightarrow> SessionSnapshot \<Rightarrow> FinishedTurn \<Rightarrow> string option \<Rightarrow> nat option \<Rightarrow>
    runtime \<Rightarrow> nat option \<times> runtime" where
  "send_turn_completed en started turn status carried rt =
     (let (measured, turns) = finish_timed turn (env_mono en) (sn_turns (rt_snapshot rt));
          duration = or_else carried measured;
          rt1 = update_snapshot (\<lambda>s. s\<lparr>sn_turns := turns\<rparr>) rt
      in (duration, send (TurnCompletedEvent (sn_session_id started) (sn_thread_id started) status duration) rt1))"

text \<open>The locals the loops keep beside the world: the native id, and the duration a completion reported.\<close>

record loop_locals =
  ll_native_thread_id :: "string option"
  ll_pending_duration :: "nat option"

definition apply_interaction :: "env \<Rightarrow> SessionSnapshot \<Rightarrow> ProviderInteractionDraft \<Rightarrow> runtime \<Rightarrow> runtime" where
  "apply_interaction en started draft rt =
     (let plan = (if id_kind draft = PlanApproval \<and> trim (id_detail draft) \<noteq> [] then Some (id_detail draft) else None);
          (r, rows) = register (env_fingerprint en) (env_now en) (env_uuid en) draft (rt_interactions rt);
          rt1 = rt\<lparr>rt_interactions := rows\<rparr>
      in case r of
           Inl err \<Rightarrow> send (session_error started (''Provider interaction registration failed: '' @ err)) rt1
         | Inr interaction \<Rightarrow>
           (case plan of
              None \<Rightarrow> send (ProviderInteractionRequested interaction) rt1
            | Some plan_text \<Rightarrow>
              (let (saved, rt2) = save_interaction_plan en interaction plan_text rt1
               in send (ProviderInteractionRequested (unwrap_or saved interaction)) rt2)))"

definition apply_harness_effect :: "env \<Rightarrow> SessionSnapshot \<Rightarrow> HarnessEffect \<Rightarrow> loop_locals \<times> runtime \<Rightarrow>
    loop_locals \<times> runtime" where
  "apply_harness_effect en started effect = (\<lambda>(l, rt).
     let sid = sn_session_id started; tid = sn_thread_id started in
     case effect of
       HarnessEffect.Initialized native model \<Rightarrow>
         (l\<lparr>ll_native_thread_id := Some native\<rparr>, snd (update_chat_thread_native_id tid native rt))
     | Ready \<Rightarrow> (l, send (SessionReady sid tid) (update_snapshot mark_snapshot_ready rt))
     | InputAcknowledged i \<Rightarrow>
         (let (r, rt1) = with_inputs (mark_acknowledged (env_now en) i None) (update_snapshot (note_snapshot_input_taken i) rt)
          in (l, case r of Inl err \<Rightarrow> send (session_error started
                    (''Provider input acknowledgement persistence failed: '' @ err)) rt1
                 | Inr _ \<Rightarrow> rt1))
     | TurnCompleted i status \<Rightarrow>
         (let (r, rt1) = with_inputs (mark_terminal (env_now en) i) rt
          in case r of
               Inl err \<Rightarrow> (l, send (session_error started (''Provider input terminal persistence failed: '' @ err)) rt1)
             | Inr _ \<Rightarrow>
               (let (duration, rt2) = send_turn_completed en started (Input i) (Some (harness_turn_status_label status)) None rt1
                in (l\<lparr>ll_pending_duration := duration\<rparr>, rt2)))
     | TurnSettled status \<Rightarrow>
         (l\<lparr>ll_pending_duration := None\<rparr>,
          snd (send_turn_completed en started Settled (Some (harness_turn_status_label status)) (ll_pending_duration l) rt))
     | ProviderEvent draft \<Rightarrow> (l, send (SessionMessagesUpdated tid) (append_runtime_provider_event en draft rt))
     | InteractionRequested draft \<Rightarrow> (l, apply_interaction en started draft rt)
     | Warning message \<Rightarrow> (l, send (session_error started message) rt)
     | Fatal message \<Rightarrow> (l, mark_provider_session_failed en started message rt)
     | CapabilitiesObserved observed \<Rightarrow>
         (l, case capabilities_for_kind en (sn_kind started) observed of None \<Rightarrow> rt
             | Some c \<Rightarrow> send (SessionCapabilitiesChanged sid tid c)
                 (update_snapshot (\<lambda>s. s\<lparr>sn_capabilities := Some c\<rparr>) rt))
     | TurnStarted i \<Rightarrow> (l, update_snapshot (note_snapshot_input_taken i) rt)
     | Retry _ _ \<Rightarrow> (l, rt)
     | RateLimited _ _ \<Rightarrow> (l, rt)
     | InteractionResolved _ \<Rightarrow> (l, rt)
     | ResumeRequired \<Rightarrow> (l, rt))"

text \<open>An effect whose pending duration the caller drops.\<close>

definition apply_effect_now :: "env \<Rightarrow> SessionSnapshot \<Rightarrow> HarnessEffect \<Rightarrow> string option \<times> runtime \<Rightarrow> string option \<times> runtime" where
  "apply_effect_now en started effect = (\<lambda>(native, rt).
     let (l, rt1) = apply_harness_effect en started effect (\<lparr>ll_native_thread_id = native, ll_pending_duration = None\<rparr>, rt)
     in (ll_native_thread_id l, rt1))"

definition retire_failed_codex_input :: "env \<Rightarrow> SessionSnapshot \<Rightarrow> string \<Rightarrow> string option \<times> runtime \<Rightarrow> string option \<times> runtime" where
  "retire_failed_codex_input en started i = (\<lambda>(native, rt).
     let rt1 = update_snapshot (\<lambda>s. s\<lparr>sn_turns := retire_input i (sn_turns s)\<rparr>) rt
     in if latest_turn_completed (sn_turns (rt_snapshot rt1)) then apply_effect_now en started Ready (native, rt1)
        else (native, update_snapshot mark_snapshot_running_not_ready rt1))"

section \<open>The input's bookkeeping\<close>

definition enqueue_provider_input :: "env \<Rightarrow> SessionSnapshot \<Rightarrow> string \<Rightarrow> string \<Rightarrow> string option \<Rightarrow> ArchcarInputKind \<Rightarrow>
    ArchcarInputDelivery \<Rightarrow> string option \<Rightarrow> runtime \<Rightarrow> (string + unit) \<times> runtime" where
  "enqueue_provider_input en started local_input_id input visible kind delivery native rt =
     (case env_db en ''enqueue'' of Some err \<Rightarrow> (Inl err, rt)
      | None \<Rightarrow> (Inr (), snd (with_inputs (enqueue (env_now en) \<lparr>pin_id = local_input_id, pin_provider = sn_kind started,
          pin_thread_id = sn_thread_id started, pin_process_id = sn_session_id started, pin_native_session_id = native,
          pin_input_kind = input_kind_storage_label kind, pin_delivery = delivery_str delivery,
          pin_provider_input = input, pin_visible_input = visible\<rparr>) rt)))"

definition requeue_failed_queued_handoff :: "env \<Rightarrow> QueuedChatInputRecord option \<Rightarrow> runtime \<Rightarrow> runtime" where
  "requeue_failed_queued_handoff en claimed rt = (case claimed of None \<Rightarrow> rt
     | Some claim \<Rightarrow> (case env_db en ''requeue'' of Some _ \<Rightarrow> rt
         | None \<Rightarrow> send (ChatQueueUpdated (qi_thread_id claim))
             (rt\<lparr>rt_queue := requeue_claimed_chat_input_front (env_now en) claim (rt_queue rt)\<rparr>)))"

fun input_role_source :: "ArchcarInputKind \<Rightarrow> string \<times> string \<times> string" where
  "input_role_source ArchcarInputKind.User = (''user'', ''user_send'', ''User input'')"
| "input_role_source ArchcarInputKind.ReviewPrompt = (''user'', ''staged_review_send'', ''Review prompt'')"
| "input_role_source ArchcarInputKind.ControlCommand = (''system'', ''control_command'', ''Control command'')"
| "input_role_source RawTerminal = (''system'', ''raw_terminal'', ''Raw terminal input'')"

text \<open>\<open>None\<close>: the redaction of the audit log never returns.\<close>

definition persist_runtime_user_input :: "env \<Rightarrow> SessionSnapshot \<Rightarrow> string \<Rightarrow> string option \<Rightarrow> ArchcarInputKind \<Rightarrow> nat \<Rightarrow>
    runtime \<Rightarrow> runtime option" where
  "persist_runtime_user_input en started input visible kind sequence rt =
     (let persisted = unwrap_or visible input; (role, src, title) = input_role_source kind
      in map_option (\<lambda>log_text.
           let rt1 = append_input_and_audit_log (env_now en) (sn_thread_id started) (sn_session_id started)
                       role persisted src log_text rt
           in append_runtime_provider_event en (runtime_provider_event en
                \<lparr>re_kind = sn_kind started, re_session_id = sn_session_id started, re_thread_id = sn_thread_id started,
                 re_identity_suffix = Some (user_input_identity_suffix sequence), re_provider_sequence = Some sequence,
                 re_phase = ProviderEventPhase.Started, re_event_kind = ProviderEventKind.UserInput,
                 re_subtype = src, re_title = title, re_body = persisted\<rparr>) rt1)
         (format_input_audit_log (env_json_key en) (sn_workspace started) (sn_session_id started) persisted kind))"

definition durable_thread_is_first_user_turn :: "env \<Rightarrow> int \<Rightarrow> runtime \<Rightarrow> string + bool" where
  "durable_thread_is_first_user_turn en t rt = (case env_db en ''list_chat_messages'' of
     Some err \<Rightarrow> Inl err | None \<Rightarrow> Inr (thread_is_first_user_turn t (rt_chat rt)))"

section \<open>What the helpers leave alone\<close>

lemma send_fields [runtime_simps]:
  "rt_snapshot (send e rt) = rt_snapshot rt" "rt_inputs (send e rt) = rt_inputs rt"
  "rt_interactions (send e rt) = rt_interactions rt" "rt_events (send e rt) = rt_events rt"
  "rt_queue (send e rt) = rt_queue rt" "rt_stdin (send e rt) = rt_stdin rt" "rt_chat (send e rt) = rt_chat rt"
  "rt_sent (send e rt) = rt_sent rt @ [e]" "rt_threads (send e rt) = rt_threads rt"
  by (simp_all add: send_def)

lemma update_snapshot_fields [runtime_simps]:
  "rt_snapshot (update_snapshot f rt) = f (rt_snapshot rt)" "rt_inputs (update_snapshot f rt) = rt_inputs rt"
  "rt_interactions (update_snapshot f rt) = rt_interactions rt" "rt_events (update_snapshot f rt) = rt_events rt"
  "rt_queue (update_snapshot f rt) = rt_queue rt" "rt_stdin (update_snapshot f rt) = rt_stdin rt"
  "rt_chat (update_snapshot f rt) = rt_chat rt" "rt_sent (update_snapshot f rt) = rt_sent rt"
  by (simp_all add: update_snapshot_def)

lemma with_inputs_fields [runtime_simps]:
  "fst (with_inputs f rt) = fst (f (rt_inputs rt))" "rt_inputs (snd (with_inputs f rt)) = snd (f (rt_inputs rt))"
  "rt_snapshot (snd (with_inputs f rt)) = rt_snapshot rt"
  "rt_interactions (snd (with_inputs f rt)) = rt_interactions rt" "rt_queue (snd (with_inputs f rt)) = rt_queue rt"
  "rt_stdin (snd (with_inputs f rt)) = rt_stdin rt" "rt_sent (snd (with_inputs f rt)) = rt_sent rt"
  by (simp_all add: with_inputs_def split: prod.split)

lemma append_session_process_output_fields [runtime_simps]:
  "rt_snapshot (snd (append_session_process_output p o' rt)) = rt_snapshot rt"
  "rt_inputs (snd (append_session_process_output p o' rt)) = rt_inputs rt"
  "rt_interactions (snd (append_session_process_output p o' rt)) = rt_interactions rt"
  "rt_queue (snd (append_session_process_output p o' rt)) = rt_queue rt"
  "rt_stdin (snd (append_session_process_output p o' rt)) = rt_stdin rt"
  "rt_sent (snd (append_session_process_output p o' rt)) = rt_sent rt"
  by (simp_all add: append_session_process_output_def split: option.split)

lemma append_provider_native_output_fields [runtime_simps]:
  "rt_snapshot (append_provider_native_output p t raw rt) = rt_snapshot rt"
  "rt_inputs (append_provider_native_output p t raw rt) = rt_inputs rt"
  "rt_interactions (append_provider_native_output p t raw rt) = rt_interactions rt"
  "rt_queue (append_provider_native_output p t raw rt) = rt_queue rt"
  "rt_stdin (append_provider_native_output p t raw rt) = rt_stdin rt"
  "rt_sent (append_provider_native_output p t raw rt) = rt_sent rt"
  by (simp_all add: append_provider_native_output_def runtime_simps)

lemma append_provider_event_fields [runtime_simps]:
  "rt_snapshot (append_provider_event en d rt) = rt_snapshot rt" "rt_inputs (append_provider_event en d rt) = rt_inputs rt"
  "rt_interactions (append_provider_event en d rt) = rt_interactions rt"
  "rt_queue (append_provider_event en d rt) = rt_queue rt" "rt_stdin (append_provider_event en d rt) = rt_stdin rt"
  "rt_sent (append_provider_event en d rt) = rt_sent rt"
  by (simp_all add: append_provider_event_def)

lemma append_input_and_audit_log_fields [runtime_simps]:
  "rt_snapshot (append_input_and_audit_log now t p role i src a rt) = rt_snapshot rt"
  "rt_inputs (append_input_and_audit_log now t p role i src a rt) = rt_inputs rt"
  "rt_interactions (append_input_and_audit_log now t p role i src a rt) = rt_interactions rt"
  "rt_queue (append_input_and_audit_log now t p role i src a rt) = rt_queue rt"
  "rt_stdin (append_input_and_audit_log now t p role i src a rt) = rt_stdin rt"
  "rt_sent (append_input_and_audit_log now t p role i src a rt) = rt_sent rt"
  by (simp_all add: append_input_and_audit_log_def append_message_def Let_def runtime_simps split: prod.split)

lemma persist_runtime_user_input_fields:
  assumes "persist_runtime_user_input en started input visible kind n rt = Some rt'"
  shows "rt_snapshot rt' = rt_snapshot rt" "rt_inputs rt' = rt_inputs rt" "rt_interactions rt' = rt_interactions rt"
    "rt_queue rt' = rt_queue rt" "rt_stdin rt' = rt_stdin rt" "rt_sent rt' = rt_sent rt"
  using assms by (auto simp: persist_runtime_user_input_def append_runtime_provider_event_def Let_def runtime_simps
    split: prod.splits)

lemma update_chat_thread_native_id_fields [runtime_simps]:
  "rt_snapshot (snd (update_chat_thread_native_id t i rt)) = rt_snapshot rt"
  "rt_inputs (snd (update_chat_thread_native_id t i rt)) = rt_inputs rt"
  "rt_interactions (snd (update_chat_thread_native_id t i rt)) = rt_interactions rt"
  "rt_queue (snd (update_chat_thread_native_id t i rt)) = rt_queue rt"
  "rt_stdin (snd (update_chat_thread_native_id t i rt)) = rt_stdin rt"
  "rt_sent (snd (update_chat_thread_native_id t i rt)) = rt_sent rt"
  by (simp_all add: update_chat_thread_native_id_def Let_def)

lemma mark_provider_session_failed_fields [runtime_simps]:
  "rt_snapshot (mark_provider_session_failed en started err rt) =
     (rt_snapshot rt)\<lparr>sn_ready := False, sn_runtime_state := AgentSessionState.Failed\<rparr>"
  "rt_inputs (mark_provider_session_failed en started err rt) = rt_inputs rt"
  "rt_interactions (mark_provider_session_failed en started err rt) = rt_interactions rt"
  "rt_queue (mark_provider_session_failed en started err rt) = rt_queue rt"
  "rt_stdin (mark_provider_session_failed en started err rt) = rt_stdin rt"
  "rt_sent (mark_provider_session_failed en started err rt) = rt_sent rt @ [session_error started err]"
  by (simp_all add: mark_provider_session_failed_def append_runtime_provider_event_def Let_def runtime_simps)

lemma requeue_fields [runtime_simps]:
  "rt_snapshot (requeue_failed_queued_handoff en c rt) = rt_snapshot rt"
  "rt_inputs (requeue_failed_queued_handoff en c rt) = rt_inputs rt"
  "rt_interactions (requeue_failed_queued_handoff en c rt) = rt_interactions rt"
  "rt_stdin (requeue_failed_queued_handoff en c rt) = rt_stdin rt"
  by (simp_all add: requeue_failed_queued_handoff_def send_def split: option.split)

lemma send_turn_completed_fields [runtime_simps]:
  "rt_snapshot (snd (send_turn_completed en started turn status c rt)) =
     (rt_snapshot rt)\<lparr>sn_turns := snd (finish_timed turn (env_mono en) (sn_turns (rt_snapshot rt)))\<rparr>"
  "rt_inputs (snd (send_turn_completed en started turn status c rt)) = rt_inputs rt"
  "rt_interactions (snd (send_turn_completed en started turn status c rt)) = rt_interactions rt"
  "rt_queue (snd (send_turn_completed en started turn status c rt)) = rt_queue rt"
  "rt_stdin (snd (send_turn_completed en started turn status c rt)) = rt_stdin rt"
  by (simp_all add: send_turn_completed_def Let_def runtime_simps split: prod.split)

end
