(* ===== verification/Provider_Loop.thy ===== *)
theory Provider_Loop
  imports Session_Runtime
begin

text \<open>
  What the session loops of codex, Claude and the ACP agents share (\<open>crates/core/src/archcar/session.rs\<close>):
  the connection to the agent's process, writing to it, applying an adapter's effects and control plans
  through it, giving an input back that could not be handed over, and the end of a session. A loop's
  state is a pair of its locals and the world \<open>runtime\<close>; what is shared does not look at the locals.
\<close>

section \<open>The connection\<close>

record ProviderProcessConnection =
  pc_native_thread_id :: "string option"
  pc_next_read_line :: nat
  pc_cwd :: string
  pc_model :: "string option"
  pc_approval_policy :: "string option"
  pc_reasoning_mode :: "string option"
  pc_effort_mode :: "string option"
  pc_personality :: "string option"
  pc_fast_mode :: bool
  pc_pending_recovery_context :: "string option"

text \<open>A write to the agent's stdin: \<open>Some\<close> the error when it fails.\<close>

definition write_stdin :: "env \<Rightarrow> string \<Rightarrow> runtime \<Rightarrow> string option \<times> runtime" where
  "write_stdin en bytes rt = (case env_stdin en bytes of Some e \<Rightarrow> (Some e, rt)
     | None \<Rightarrow> (None, rt\<lparr>rt_stdin := rt_stdin rt @ [bytes]\<rparr>))"

definition kill_child :: "runtime \<Rightarrow> runtime" where
  "kill_child rt = rt\<lparr>rt_killed := True\<rparr>"

text \<open>An effect applied with the connection's native id, which it may set.\<close>

definition connection_effect :: "env \<Rightarrow> SessionSnapshot \<Rightarrow> HarnessEffect \<Rightarrow> ProviderProcessConnection \<times> runtime \<Rightarrow>
    ProviderProcessConnection \<times> runtime" where
  "connection_effect en started effect = (\<lambda>(c, rt).
     let (native, rt1) = apply_effect_now en started effect (pc_native_thread_id c, rt)
     in (c\<lparr>pc_native_thread_id := native\<rparr>, rt1))"

section \<open>Failing and giving back\<close>

definition loop_fail :: "env \<Rightarrow> SessionSnapshot \<Rightarrow> string \<Rightarrow> 'l \<times> runtime \<Rightarrow> 'l \<times> runtime" where
  "loop_fail en started err = (\<lambda>(l, rt). (l, mark_provider_session_failed en started err rt))"

text \<open>A handoff that failed before or while writing: the claim goes back, then the session is marked failed.\<close>

definition give_back :: "env \<Rightarrow> SessionSnapshot \<Rightarrow> QueuedChatInputRecord option \<Rightarrow> string \<Rightarrow> 'l \<times> runtime \<Rightarrow> 'l \<times> runtime" where
  "give_back en started claim err = (\<lambda>(l, rt).
     loop_fail en started err (l, requeue_failed_queued_handoff en claim rt))"

definition is_first_turn :: "env \<Rightarrow> SessionSnapshot \<Rightarrow> ArchcarInputKind \<Rightarrow> runtime \<Rightarrow> string + bool" where
  "is_first_turn en started kind rt = (if kind = ArchcarInputKind.ControlCommand then Inr False
     else durable_thread_is_first_user_turn en (sn_thread_id started) rt)"

section \<open>Controls\<close>

definition apply_provider_connection_controls :: "DesiredHarnessControls \<Rightarrow> ProviderProcessConnection \<Rightarrow> ProviderProcessConnection" where
  "apply_provider_connection_controls controls c = c\<lparr>
     pc_model := sanitize_harness_text (dc_model controls),
     pc_effort_mode := sanitize_harness_text (dc_effort controls),
     pc_fast_mode := unwrap_or (dc_fast_mode controls) (pc_fast_mode c),
     pc_approval_policy := Some FORCED_APPROVAL_MODE\<rparr>"

definition provider_connection_harness_metadata :: "string \<Rightarrow> ProviderProcessConnection \<Rightarrow> string option" where
  "provider_connection_harness_metadata harness_name c = non_interactive_harness_metadata harness_name
     \<lparr>ho_plan_mode = False, ho_fast_mode = pc_fast_mode c, ho_model = pc_model c, ho_approval_mode = pc_approval_policy c,
      ho_reasoning_mode = pc_reasoning_mode c, ho_effort_mode = pc_effort_mode c,
      ho_codex_personality = pc_personality c, ho_codex_goals = None, ho_codex_skills = None\<rparr>"

text \<open>Signals to the process group are I/O; they change nothing here.\<close>

definition apply_provider_control_plan :: "env \<Rightarrow> SessionSnapshot \<Rightarrow> string \<Rightarrow> HarnessControlPlan \<Rightarrow>
    ProviderProcessConnection \<times> runtime \<Rightarrow> ProviderProcessConnection \<times> runtime" where
  "apply_provider_control_plan en started harness_name plan = (\<lambda>(c, rt).
     case plan of
       Applied \<Rightarrow> (c, rt)
     | HarnessControlPlan.NativeWrite w \<Rightarrow>
         (case write_stdin en (nw_payload w) rt of
            (Some err, rt1) \<Rightarrow> loop_fail en started (''Provider control write failed: '' @ err) (c, kill_child rt1)
          | (None, rt1) \<Rightarrow> (c, rt1))
     | HarnessControlPlan.Signal _ \<Rightarrow> (c, rt)
     | HarnessControlPlan.RestartRequired controls \<Rightarrow>
         (let c1 = apply_provider_connection_controls controls c
          in (c1, send (SessionMessagesUpdated (sn_thread_id started))
               (update_chat_thread_harness_metadata (sn_thread_id started)
                  (provider_connection_harness_metadata harness_name c1) rt)))
     | HarnessControlPlan.Emulated effect \<Rightarrow> connection_effect en started effect (c, rt)
     | HarnessControlPlan.Unsupported reason \<Rightarrow> (c, send (session_error started reason) rt))"

section \<open>The end of a session\<close>

definition session_exit :: "env \<Rightarrow> SessionSnapshot \<Rightarrow> int option \<Rightarrow> runtime \<Rightarrow> runtime" where
  "session_exit en started code rt = send (SessionExited (sn_session_id started) code)
     (update_snapshot (mark_snapshot_exited code) (mark_session_process_exited (env_now en) (sn_session_id started) code rt))"

section \<open>Lemmas\<close>

lemmas mark_snapshot_defs = mark_snapshot_ready_def mark_snapshot_running_not_ready_def mark_session_busy_for_input_def
  note_snapshot_input_def note_snapshot_input_taken_def mark_snapshot_exited_def

lemma write_stdin_cases:
  obtains (failed) e where "write_stdin en bytes rt = (Some e, rt)"
  | (written) "write_stdin en bytes rt = (None, rt\<lparr>rt_stdin := rt_stdin rt @ [bytes]\<rparr>)"
  by (cases "env_stdin en bytes") (auto simp: write_stdin_def)

lemma kill_child_fields [runtime_simps]:
  "rt_snapshot (kill_child rt) = rt_snapshot rt" "rt_inputs (kill_child rt) = rt_inputs rt"
  "rt_interactions (kill_child rt) = rt_interactions rt" "rt_queue (kill_child rt) = rt_queue rt"
  "rt_stdin (kill_child rt) = rt_stdin rt" "rt_sent (kill_child rt) = rt_sent rt"
  by (simp_all add: kill_child_def)

lemma give_back_fields:
  assumes "give_back en started (Some claim) err (l, rt) = (l', rt')" and "env_db en ''requeue'' = None"
  shows "l' = l" "rt_queue rt' = requeue_claimed_chat_input_front (env_now en) claim (rt_queue rt)"
    "rt_sent rt' = rt_sent rt @ [ChatQueueUpdated (qi_thread_id claim), session_error started err]"
    "rt_snapshot rt' = (rt_snapshot rt)\<lparr>sn_ready := False, sn_runtime_state := AgentSessionState.Failed\<rparr>"
  using assms by (auto simp: give_back_def loop_fail_def requeue_failed_queued_handoff_def runtime_simps)

lemma enqueue_provider_input_fields:
  assumes "enqueue_provider_input en started i input v k d n rt = (r, rt')"
  shows "rt_snapshot rt' = rt_snapshot rt" "rt_queue rt' = rt_queue rt" "rt_stdin rt' = rt_stdin rt"
    "rt_sent rt' = rt_sent rt" "rt_interactions rt' = rt_interactions rt"
    "inputs_ok (rt_inputs rt) \<Longrightarrow> inputs_ok (rt_inputs rt')"
  using assms
  by (auto simp: enqueue_provider_input_def runtime_simps enqueue_def inputs_ok_def keyed_def Let_def get_input_def
    find_None_iff pir_id_def split: option.splits)

text \<open>What an accepted mark leaves the row at.\<close>

lemma update_state_accepted:
  assumes ok: "inputs_ok rows" and run: "update_state now i st a e rows = (Inr (), rows')"
  shows "state_of i rows' = Some st"
proof -
  let ?p = "\<lambda>r. pir_id r = i \<and> pir_state r \<in> set (valid_prior_states st)"
  from run have "count_where ?p rows = 1" by (auto simp: update_state_def Let_def split: if_splits)
  then obtain r where r: "r \<in> set rows" "?p r" using count_where_pos [of ?p rows] by auto
  then have "get_input i rows = Some r"
    using ok unfolding get_input_def inputs_ok_def by (metis keyed_find)
  moreover have "rows' = snd (update_state now i st a e rows)" by (simp add: run)
  ultimately show ?thesis using r(2) by (simp add: state_of_def get_update_state)
qed

lemma loop_fail_fields:
  "loop_fail en started err (l, rt) = (l, mark_provider_session_failed en started err rt)"
  by (simp add: loop_fail_def)

text \<open>Whether the agent was killed.\<close>

lemma killed_kept [runtime_simps]:
  "rt_killed (update_snapshot f rt) = rt_killed rt" "rt_killed (snd (with_inputs g rt)) = rt_killed rt"
  "rt_killed (kill_child rt)" "rt_killed (snd (append_session_process_output p out rt)) = rt_killed rt"
  "rt_killed (send e rt) = rt_killed rt" "rt_killed (append_provider_native_output p t raw rt) = rt_killed rt"
  "rt_killed (mark_provider_session_failed en started err rt) = rt_killed rt"
  "rt_killed (requeue_failed_queued_handoff en claim rt) = rt_killed rt"
  by (simp_all add: update_snapshot_def with_inputs_def kill_child_def send_def append_provider_native_output_def
    append_session_process_output_def mark_provider_session_failed_def append_runtime_provider_event_def
    append_provider_event_def requeue_failed_queued_handoff_def Let_def split: prod.split option.split)

lemma killed_enqueue: "enqueue_provider_input en started i input v k d n rt = (r, rt') \<Longrightarrow> rt_killed rt' = rt_killed rt"
  by (auto simp: enqueue_provider_input_def runtime_simps split: option.splits)

lemma killed_persist: "persist_runtime_user_input en started input v k n rt = Some rt' \<Longrightarrow> rt_killed rt' = rt_killed rt"
  by (auto simp: persist_runtime_user_input_def append_input_and_audit_log_def append_message_def append_runtime_provider_event_def
    append_provider_event_def Let_def runtime_simps split: prod.splits if_splits)

lemma control_plan_keeps:
  assumes "\<And>e. plan \<noteq> HarnessControlPlan.Emulated e"
  shows "rt_inputs (snd (apply_provider_control_plan en started name plan (c, rt))) = rt_inputs rt"
    "rt_interactions (snd (apply_provider_control_plan en started name plan (c, rt))) = rt_interactions rt"
    "rt_queue (snd (apply_provider_control_plan en started name plan (c, rt))) = rt_queue rt"
    "sn_turns (rt_snapshot (snd (apply_provider_control_plan en started name plan (c, rt)))) = sn_turns (rt_snapshot rt)"
    "pc_native_thread_id (fst (apply_provider_control_plan en started name plan (c, rt))) = pc_native_thread_id c"
    "pc_next_read_line (fst (apply_provider_control_plan en started name plan (c, rt))) = pc_next_read_line c"
  using assms
  by (cases plan; simp add: apply_provider_control_plan_def write_stdin_def loop_fail_def runtime_simps Let_def
    update_chat_thread_harness_metadata_def apply_provider_connection_controls_def split: option.split)+

lemma control_plan_ready:
  fixes rt :: runtime
  assumes "\<And>e. plan \<noteq> HarnessControlPlan.Emulated e"
  shows "sn_ready (rt_snapshot (snd (apply_provider_control_plan en started name plan (c, rt)))) \<Longrightarrow> sn_ready (rt_snapshot rt)"
    "rt_killed rt \<Longrightarrow> rt_killed (snd (apply_provider_control_plan en started name plan (c, rt)))"
  using assms
  by (cases plan; simp add: apply_provider_control_plan_def write_stdin_def loop_fail_def runtime_simps Let_def
    update_chat_thread_harness_metadata_def split: option.splits)+

lemma control_plan_writes:
  assumes "\<And>e. plan \<noteq> HarnessControlPlan.Emulated e"
  shows "rt_stdin (snd (apply_provider_control_plan en started name plan (c, rt))) = rt_stdin rt
    \<or> (\<exists>w. plan = HarnessControlPlan.NativeWrite w
         \<and> rt_stdin (snd (apply_provider_control_plan en started name plan (c, rt))) = rt_stdin rt @ [nw_payload w])"
  using assms
  by (cases plan; simp add: apply_provider_control_plan_def write_stdin_def loop_fail_def runtime_simps Let_def
    update_chat_thread_harness_metadata_def split: option.split)

lemmas control_plan_facts = control_plan_keeps control_plan_ready control_plan_writes

lemma control_plan_fields:
  assumes "apply_provider_control_plan en started name plan (c, rt) = (c', rt')" and "\<And>e. plan \<noteq> HarnessControlPlan.Emulated e"
  shows "rt_inputs rt' = rt_inputs rt" "rt_interactions rt' = rt_interactions rt" "rt_queue rt' = rt_queue rt"
    "sn_turns (rt_snapshot rt') = sn_turns (rt_snapshot rt)" "pc_native_thread_id c' = pc_native_thread_id c"
    "pc_next_read_line c' = pc_next_read_line c"
    "sn_ready (rt_snapshot rt') \<Longrightarrow> sn_ready (rt_snapshot rt)" "rt_killed rt \<Longrightarrow> rt_killed rt'"
    "rt_stdin rt' = rt_stdin rt \<or> (\<exists>w. plan = HarnessControlPlan.NativeWrite w \<and> rt_stdin rt' = rt_stdin rt @ [nw_payload w])"
  using control_plan_facts [OF assms(2), where en = en and started = started and name = name and c = c and rt = rt] by (simp_all add: assms(1))

lemma killed_effect: "rt_killed (snd (connection_effect en started effect (c, rt))) = rt_killed rt"
proof -
  have interaction: "rt_killed (apply_interaction en started draft rt) = rt_killed rt" for draft rt
    by (simp add: apply_interaction_def save_interaction_plan_def save_chat_plan_def Let_def case_prod_beta runtime_simps split: sum.split)
  have "rt_killed (snd (apply_harness_effect en started effect (l, rt))) = rt_killed rt" for l
    by (cases effect; simp add: apply_harness_effect_def Let_def case_prod_beta runtime_simps interaction send_turn_completed_def
      append_runtime_provider_event_def append_provider_event_def update_chat_thread_native_id_def split: sum.split option.split)
  then show ?thesis by (simp add: connection_effect_def apply_effect_now_def case_prod_beta)
qed

section \<open>What an effect changes\<close>

definition asked_kinds :: "interactions \<Rightarrow> ProviderInteractionKind set" where
  "asked_kinds rows = (\<lambda>r. id_kind (pi_request r)) ` set rows"

lemma asked_kinds_update: "(\<And>r. pi_request (f r) = pi_request r) \<Longrightarrow> asked_kinds (update_where p f rows) = asked_kinds rows"
proof -
  assume "\<And>r. pi_request (f r) = pi_request r"
  then have "map (\<lambda>r. id_kind (pi_request r)) (update_where p f rows) = map (\<lambda>r. id_kind (pi_request r)) rows"
    by (simp add: update_where_def)
  then show ?thesis unfolding asked_kinds_def by (metis list.set_map)
qed

lemma asked_kinds_register: "asked_kinds (snd (register fp now u draft rows)) \<subseteq> insert (id_kind draft) (asked_kinds rows)"
  by (auto simp: register_def asked_kinds_def Let_def split: option.split)

lemma save_interaction_plan_fields:
  "rt_queue (snd (save_interaction_plan en i plan rt)) = rt_queue rt" "rt_stdin (snd (save_interaction_plan en i plan rt)) = rt_stdin rt"
  "rt_snapshot (snd (save_interaction_plan en i plan rt)) = rt_snapshot rt"
  "asked_kinds (rt_interactions (snd (save_interaction_plan en i plan rt))) = asked_kinds (rt_interactions rt)"
  by (auto simp: save_interaction_plan_def save_chat_plan_def attach_plan_path_def Let_def asked_kinds_update
    split: prod.split sum.split)

lemma apply_interaction_fields:
  "rt_queue (apply_interaction en started draft rt) = rt_queue rt" "rt_stdin (apply_interaction en started draft rt) = rt_stdin rt"
  "rt_snapshot (apply_interaction en started draft rt) = rt_snapshot rt"
  "asked_kinds (rt_interactions (apply_interaction en started draft rt)) \<subseteq> insert (id_kind draft) (asked_kinds (rt_interactions rt))"
  using asked_kinds_register [of "env_fingerprint en" "env_now en" "env_uuid en" draft "rt_interactions rt"]
  by (auto simp: apply_interaction_def Let_def case_prod_beta runtime_simps save_interaction_plan_fields split: sum.split)

lemma effect_keeps:
  "rt_queue (snd (apply_harness_effect en started effect (l, rt))) = rt_queue rt"
  "rt_stdin (snd (apply_harness_effect en started effect (l, rt))) = rt_stdin rt"
  by (cases effect; simp add: apply_harness_effect_def Let_def case_prod_beta runtime_simps apply_interaction_fields
    append_runtime_provider_event_def split: sum.split option.split)+

lemma effect_ready:
  "sn_ready (rt_snapshot (snd (apply_harness_effect en started effect (l, rt)))) \<Longrightarrow> sn_ready (rt_snapshot rt) \<or> effect = Ready"
  by (cases effect; simp add: apply_harness_effect_def Let_def case_prod_beta runtime_simps apply_interaction_fields
    append_runtime_provider_event_def mark_snapshot_defs split: sum.splits option.splits)

lemma effect_ledger:
  "ledger_ok (sn_turns (rt_snapshot rt)) \<Longrightarrow> ledger_ok (sn_turns (rt_snapshot (snd (apply_harness_effect en started effect (l, rt)))))"
  by (cases effect; simp add: apply_harness_effect_def Let_def case_prod_beta runtime_simps apply_interaction_fields
    append_runtime_provider_event_def mark_snapshot_defs finish_timed_ok note_input_taken_ok split: sum.split option.split)

lemma effect_asks:
  "asked_kinds (rt_interactions (snd (apply_harness_effect en started effect (l, rt))))
     \<subseteq> {k. \<exists>d. effect = InteractionRequested d \<and> k = id_kind d} \<union> asked_kinds (rt_interactions rt)"
  using apply_interaction_fields(4) [of en started _ rt]
  by (cases effect; simp add: apply_harness_effect_def Let_def case_prod_beta runtime_simps
    append_runtime_provider_event_def split: sum.split option.split)

lemma connection_effect_fields:
  assumes "connection_effect en started effect (c, rt) = (c', rt')"
  shows "rt_queue rt' = rt_queue rt" "rt_stdin rt' = rt_stdin rt"
    "sn_ready (rt_snapshot rt') \<Longrightarrow> sn_ready (rt_snapshot rt) \<or> effect = Ready"
    "asked_kinds (rt_interactions rt') \<subseteq> {k. \<exists>d. effect = InteractionRequested d \<and> k = id_kind d} \<union> asked_kinds (rt_interactions rt)"
    "ledger_ok (sn_turns (rt_snapshot rt)) \<Longrightarrow> ledger_ok (sn_turns (rt_snapshot rt'))"
proof -
  let ?l = "\<lparr>ll_native_thread_id = pc_native_thread_id c, ll_pending_duration = None\<rparr>"
  obtain l1 where run: "apply_harness_effect en started effect (?l, rt) = (l1, rt')"
    using assms by (auto simp: connection_effect_def apply_effect_now_def split: prod.splits)
  note f = effect_keeps [of en started effect ?l rt] effect_ready [of en started effect ?l rt]
    effect_asks [of en started effect ?l rt] effect_ledger [of rt en started effect ?l]
  show "rt_queue rt' = rt_queue rt" "rt_stdin rt' = rt_stdin rt"
    "sn_ready (rt_snapshot rt') \<Longrightarrow> sn_ready (rt_snapshot rt) \<or> effect = Ready"
    "asked_kinds (rt_interactions rt') \<subseteq> {k. \<exists>d. effect = InteractionRequested d \<and> k = id_kind d} \<union> asked_kinds (rt_interactions rt)"
    "ledger_ok (sn_turns (rt_snapshot rt)) \<Longrightarrow> ledger_ok (sn_turns (rt_snapshot rt'))"
    using f by (simp_all add: run)
qed

section \<open>Claims are never lost\<close>

text \<open>
  The interface of a loop towards the inputs claimed for it: each step leaves the queue's rows in place,
  and a claim it reads, or held before, either reaches the agent, is held, or is back in the queue, as
  long as putting it back works. Then so it is for a whole life of the loop.
\<close>

definition queued_as :: "QueuedChatInputRecord \<Rightarrow> queue \<Rightarrow> bool" where
  "queued_as claim rows \<longleftrightarrow> (\<exists>r\<in>set rows. qi_thread_id r = qi_thread_id claim \<and> payload_of r = payload_of claim)"

inductive loop_path :: "('e \<Rightarrow> 's \<Rightarrow> 's \<Rightarrow> bool) \<Rightarrow> 'e list \<Rightarrow> 's \<Rightarrow> 's \<Rightarrow> bool" for stepped where
  path_nil: "loop_path stepped [] st st"
| path_step: "stepped e st st1 \<Longrightarrow> loop_path stepped es st1 st2 \<Longrightarrow> loop_path stepped (e # es) st st2"

inductive_cases path_nilE [elim!]: "loop_path stepped [] st st'"
inductive_cases path_stepE: "loop_path stepped (e # es) st st'"

lemma path_invariant:
  assumes "loop_path stepped es st st'" and "P st" and "\<And>e st st'. stepped e st st' \<Longrightarrow> P st \<Longrightarrow> P st'"
  shows "P st'"
  using assms by (induction rule: loop_path.induct) auto

locale claim_loop =
  fixes stepped :: "'e \<Rightarrow> 's \<Rightarrow> 's \<Rightarrow> bool" and queue_of :: "'s \<Rightarrow> queue" and held :: "'s \<Rightarrow> QueuedChatInputRecord list"
    and claim_of :: "'e \<Rightarrow> QueuedChatInputRecord option" and reached_agent :: "QueuedChatInputRecord \<Rightarrow> 's \<Rightarrow> 's \<Rightarrow> bool"
    and can_requeue :: "'e \<Rightarrow> bool"
  assumes rows_stay: "stepped e st st' \<Longrightarrow> \<exists>rows. queue_of st' = queue_of st @ rows"
    and claim_placed: "stepped e st st' \<Longrightarrow> can_requeue e \<Longrightarrow> claim_of e = Some claim \<or> claim \<in> set (held st) \<Longrightarrow>
      reached_agent claim st st' \<or> claim \<in> set (held st') \<or> queued_as claim (queue_of st')"
begin

lemma queued_stays: "stepped e st st' \<Longrightarrow> queued_as claim (queue_of st) \<Longrightarrow> queued_as claim (queue_of st')"
  using rows_stay [of e st st'] by (auto simp: queued_as_def)

lemma claim_accounted:
  assumes "loop_path stepped es st st'" and "\<forall>e\<in>set es. can_requeue e"
    and "claim \<in> set (held st) \<or> queued_as claim (queue_of st) \<or> (\<exists>e\<in>set es. claim_of e = Some claim)"
  shows "claim \<in> set (held st') \<or> queued_as claim (queue_of st')
    \<or> (\<exists>es1 e es2 st1 st2. es = es1 @ e # es2 \<and> loop_path stepped es1 st st1 \<and> stepped e st1 st2 \<and> reached_agent claim st1 st2)"
  using assms
proof (induction rule: loop_path.induct)
  case (path_step e st st1 es st2)
  show ?case
  proof (cases "reached_agent claim st st1")
    case True
    with path_step.hyps show ?thesis
      by (metis append_Nil loop_path.path_nil)
  next
    case False
    with path_step claim_placed [OF path_step.hyps(1)] queued_stays [OF path_step.hyps(1)]
    have "claim \<in> set (held st1) \<or> queued_as claim (queue_of st1) \<or> (\<exists>e\<in>set es. claim_of e = Some claim)" by auto
    with path_step.IH path_step.prems have "claim \<in> set (held st2) \<or> queued_as claim (queue_of st2)
      \<or> (\<exists>es1 e es2 sa sb. es = es1 @ e # es2 \<and> loop_path stepped es1 st1 sa \<and> stepped e sa sb \<and> reached_agent claim sa sb)"
      by simp
    then show ?thesis using path_step.hyps(1) by (metis append_Cons loop_path.path_step)
  qed
qed simp

end

lemma requeue_failed_queued_handoff_places:
  assumes "env_db en ''requeue'' = None"
  shows "queued_as claim (rt_queue (requeue_failed_queued_handoff en (Some claim) rt))"
  using assms by (simp add: requeue_failed_queued_handoff_def requeue_claimed_chat_input_front_def queued_as_def send_def payload_of_def)

lemma requeue_failed_queued_handoff_rows: "\<exists>rows. rt_queue (requeue_failed_queued_handoff en claim rt) = rt_queue rt @ rows"
  by (simp add: requeue_failed_queued_handoff_def requeue_claimed_chat_input_front_def send_def split: option.split)

lemma give_back_queue:
  "rt_queue (snd (give_back en started claim err (l, rt))) = rt_queue (requeue_failed_queued_handoff en claim rt)"
  "rt_stdin (snd (give_back en started claim err (l, rt))) = rt_stdin rt"
  "rt_interactions (snd (give_back en started claim err (l, rt))) = rt_interactions rt"
  "rt_inputs (snd (give_back en started claim err (l, rt))) = rt_inputs rt"
  "rt_snapshot (snd (give_back en started claim err (l, rt))) =
     (rt_snapshot rt)\<lparr>sn_ready := False, sn_runtime_state := AgentSessionState.Failed\<rparr>"
  "fst (give_back en started claim err (l, rt)) = l"
  by (simp_all add: give_back_def loop_fail_def runtime_simps)

section \<open>A session to try the loops on\<close>

definition example_snapshot :: SessionSnapshot where
  "example_snapshot = \<lparr>sn_session_id = 7, sn_thread_id = 3, sn_workspace = ''w'', sn_kind = ''codex'', sn_pid = 1,
     sn_status = Running, sn_runtime_state = AgentSessionState.WaitingForInput, sn_ready = True, sn_capabilities = None,
     sn_screen = [], sn_turns = ledger_default\<rparr>"

definition example_runtime :: runtime where
  "example_runtime = \<lparr>rt_snapshot = example_snapshot, rt_inputs = [], rt_interactions = [], rt_events = empty_store,
     rt_queue = [], rt_chat = \<lparr>cs_messages = [], cs_events = [], cs_timeline = 0\<rparr>, rt_threads = [], rt_processes = [],
     rt_sent = [], rt_stdin = [], rt_killed = False\<rparr>"

definition example_env :: "(string \<Rightarrow> json option) \<Rightarrow> env" where
  "example_env from_str = \<lparr>env_now = ''now'', env_millis = 5, env_mono = 9, env_uuid = ''u'', env_fingerprint = id_native_id,
     env_from_str = from_str, env_json_key = (\<lambda>_. None), env_b64 = (\<lambda>_. None), env_harness = (\<lambda>_. None),
     env_stdin = (\<lambda>_. None), env_plan_file = (\<lambda>_ _. None), env_db = (\<lambda>_. None)\<rparr>"

definition example_connection :: ProviderProcessConnection where
  "example_connection = \<lparr>pc_native_thread_id = Some ''n'', pc_next_read_line = 0, pc_cwd = ''/w'', pc_model = None,
     pc_approval_policy = Some FORCED_APPROVAL_MODE, pc_reasoning_mode = None, pc_effort_mode = None, pc_personality = None,
     pc_fast_mode = False, pc_pending_recovery_context = None\<rparr>"

definition example_claim :: "string \<Rightarrow> QueuedChatInputRecord" where
  "example_claim content = \<lparr>qi_id = 4, qi_thread_id = 3, qi_input = content, qi_visible_input = None,
     qi_input_kind = ArchcarInputKind.User, qi_session_kind = ''codex'', qi_created_at = ''now'', qi_updated_at = ''now''\<rparr>"


end
