(* ===== verification/Codex_Session.thy ===== *)
theory Codex_Session
  imports Provider_Loop
begin

text \<open>
  The session loop of codex (\<open>run_codex_app_server_session_loop\<close> and its helpers in
  \<open>crates/core/src/archcar/session.rs\<close>): the start-up handshake, the requests waiting for a response,
  the inputs each turn took in, steering and its fallback, completions, and the commands the daemon
  sends. One step is one line of the agent, one command, or the agent's exit; the loop's locals are
  the record \<open>codex_loop\<close>, beside the world \<open>runtime\<close>.

  A step that may not return (redaction of the audit log) is an option. Time between steps, the
  poll of the channels and the panics of a poisoned lock are left out.
\<close>

section \<open>Locals\<close>

datatype CodexStartupPhase = InitializePending | ThreadPending | PhaseReady

datatype CodexInputRoute = Start | Steer string

datatype CodexInputRequestKind = StartRequest | AutoSteer | ImmediateSteer | ImmediateFallbackStart

record PendingCodexInputRequest =
  pr_kind :: CodexInputRequestKind
  pr_local_input_id :: string
  pr_input :: string
  pr_turn_id :: "string option"

datatype CodexInputResponseAction = Complete | RetryStart | ReportError

record codex_loop =
  cl_phase :: CodexStartupPhase
  cl_thread_id :: "string option"
  cl_sequence :: nat
  cl_fallback :: nat
  cl_active_turn :: "string option"
  cl_active_inputs :: "(string option \<times> string) list"
  cl_pending :: "(nat \<times> PendingCodexInputRequest) list"
  cl_control :: CodexManagedAdapter
  cl_conn :: ProviderProcessConnection
  cl_general :: "string option"

text \<open>How a step of the loop body ends: it goes on, the body starts over, or the loop returns.\<close>

datatype flow = Go | Again | Stop

type_synonym codex_state = "codex_loop \<times> runtime"

section \<open>Routing\<close>

definition codex_input_route :: "ArchcarInputDelivery \<Rightarrow> string option \<Rightarrow> CodexInputRoute" where
  "codex_input_route delivery active_turn_id =
     (if delivery = Immediate then (case active_turn_id of Some t \<Rightarrow> Steer t | None \<Rightarrow> Start) else Start)"

definition codex_input_response_action :: "PendingCodexInputRequest \<Rightarrow> bool \<Rightarrow> CodexInputResponseAction" where
  "codex_input_response_action p failed =
     (if \<not> failed then Complete
      else if pr_kind p = ImmediateSteer \<or> pr_kind p = AutoSteer then RetryStart else ReportError)"

definition request_kind :: "CodexInputRoute \<Rightarrow> ArchcarInputDelivery \<Rightarrow> CodexInputRequestKind" where
  "request_kind route delivery = (case route of Start \<Rightarrow> StartRequest
     | Steer _ \<Rightarrow> (case delivery of Immediate \<Rightarrow> ImmediateSteer | Auto \<Rightarrow> AutoSteer))"

section \<open>Reading a message\<close>

definition codex_response_id :: "CodexAppServerMessage \<Rightarrow> nat option" where
  "codex_response_id m = Option.bind (xm_id m) as_u64"

definition codex_response_error :: "CodexAppServerMessage \<Rightarrow> string option" where
  "codex_response_error m = map_option (\<lambda>error. unwrap_or
     (or_else (Option.bind (jget error ''message'') as_str) (as_str error)) ''Codex app-server request failed'')
     (jget (xm_value m) ''error'')"

definition trimmed_at_any :: "json \<Rightarrow> string list list \<Rightarrow> string option" where
  "trimmed_at_any v pointers = find_map (\<lambda>p. trimmed_nonempty (string_at v p)) pointers"

definition codex_turn_completed_status :: "CodexAppServerMessage \<Rightarrow> string option" where
  "codex_turn_completed_status m = trimmed_at_any (xm_value m)
     [[''params'', ''status''], [''params'', ''turn'', ''status''], [''params'', ''finalStatus''],
      [''params'', ''final_status''], [''result'', ''status''], [''result'', ''turn'', ''status'']]"

definition codex_turn_id_from_message :: "CodexAppServerMessage \<Rightarrow> string option" where
  "codex_turn_id_from_message m = trimmed_at_any (xm_value m)
     [[''params'', ''turn'', ''id''], [''params'', ''turnId''], [''params'', ''turn_id''],
      [''result'', ''turn'', ''id''], [''result'', ''turnId''], [''result'', ''turn_id'']]"

definition codex_thread_id_from_startup_response :: "CodexAppServerMessage \<Rightarrow> nat \<Rightarrow> string option" where
  "codex_thread_id_from_startup_response m startup_request_id =
     (if codex_response_id m = Some startup_request_id then string_at (xm_value m) [''result'', ''thread'', ''id''] else None)"

definition codex_app_server_provider_event_for_session :: "env \<Rightarrow> CodexAppServerMessage \<Rightarrow> SessionSnapshot \<Rightarrow> ProviderEventDraft" where
  "codex_app_server_provider_event_for_session en m started =
     (let event = codex_provider_event (env_from_str en) (env_b64 en)
            (runtime_context (env_millis en) None (Some (sn_thread_id started)) (Some (sn_session_id started)) ''codex-app-server'')
            (to_provider_event_draft m)
      in event\<lparr>dr_provider_event_id := map_option (\<lambda>i. show_int (sn_session_id started) @ '':'' @ i) (dr_provider_event_id event)\<rparr>)"

definition should_persist_provider_native_event :: "ProviderEventKind \<Rightarrow> bool" where
  "should_persist_provider_native_event kind \<longleftrightarrow> kind \<noteq> ProviderEventKind.UserInput"

definition persist_codex_app_server_message :: "env \<Rightarrow> CodexAppServerMessage \<Rightarrow> SessionSnapshot \<Rightarrow> runtime \<Rightarrow> runtime" where
  "persist_codex_app_server_message en m started rt =
     (let event = codex_app_server_provider_event_for_session en m started
      in if should_persist_provider_native_event (dr_kind event) then append_provider_event en event rt else rt)"

section \<open>Requests\<close>

definition start_codex_app_server_lifecycle :: "env \<Rightarrow> string \<Rightarrow> runtime \<Rightarrow> string option \<times> runtime" where
  "start_codex_app_server_lifecycle en version = write_stdin en (write_initialize_request_with_id 1
     \<lparr>ip_client_name = ''archductor'', ip_client_title = Some ''Archductor'', ip_client_version = Some version,
      ip_workspace_root = None\<rparr>)"

definition startup_request :: "ProviderProcessConnection \<Rightarrow> string" where
  "startup_request c = (case pc_native_thread_id c of
      Some i \<Rightarrow> encode_line (obj [(''id'', JInt 2), (''method'', JStr ''thread/resume''),
        (''params'', obj [(''threadId'', JStr i), (''cwd'', JStr (pc_cwd c)), (''serviceName'', JStr ''archductor'')])])
    | None \<Rightarrow> write_thread_start_request_with_id 2 \<lparr>ts_model = pc_model c, ts_cwd = Some (pc_cwd c),
        ts_approval_policy = pc_approval_policy c, ts_sandbox = codex_sandbox_for_approval (pc_approval_policy c),
        ts_service_name = Some ''archductor''\<rparr>)"

definition continue_codex_app_server_startup_after_initialize :: "env \<Rightarrow> ProviderProcessConnection \<Rightarrow> runtime \<Rightarrow>
    string option \<times> runtime" where
  "continue_codex_app_server_startup_after_initialize en c rt =
     (case write_stdin en write_initialized_notification rt of
        (Some e, rt1) \<Rightarrow> (Some e, rt1) | (None, rt1) \<Rightarrow> write_stdin en (startup_request c) rt1)"

definition codex_turn_effort :: "ProviderProcessConnection \<Rightarrow> string option" where
  "codex_turn_effort c = or_else (pc_effort_mode c) (pc_reasoning_mode c)"

definition codex_turn_start_params :: "ProviderProcessConnection \<Rightarrow> string \<Rightarrow> string \<Rightarrow> CodexAppServerTurnStartParams" where
  "codex_turn_start_params c thread_id input = \<lparr>tp_thread_id = thread_id, tp_input = [InputText input],
     tp_cwd = Some (pc_cwd c), tp_approval_policy = pc_approval_policy c,
     tp_sandbox_policy = map_option (\<lambda>_. obj [(''type'', JStr ''dangerFullAccess'')])
       (codex_sandbox_for_approval (pc_approval_policy c)),
     tp_model = pc_model c, tp_effort = codex_turn_effort c, tp_summary = None,
     tp_personality = pc_personality c, tp_fast_mode = pc_fast_mode c\<rparr>"

text \<open>An effect applied with the connection's native id, which it may set.\<close>

definition codex_effect :: "env \<Rightarrow> SessionSnapshot \<Rightarrow> HarnessEffect \<Rightarrow> codex_state \<Rightarrow> codex_state" where
  "codex_effect en started effect = (\<lambda>(l, rt).
     let (c, rt1) = connection_effect en started effect (cl_conn l, rt) in (l\<lparr>cl_conn := c\<rparr>, rt1))"

definition codex_retire :: "env \<Rightarrow> SessionSnapshot \<Rightarrow> string \<Rightarrow> codex_state \<Rightarrow> codex_state" where
  "codex_retire en started i = (\<lambda>(l, rt).
     let (native, rt1) = retire_failed_codex_input en started i (pc_native_thread_id (cl_conn l), rt)
     in (l\<lparr>cl_conn := (cl_conn l)\<lparr>pc_native_thread_id := native\<rparr>\<rparr>, rt1))"

section \<open>One message of the agent\<close>

text \<open>The handshake: the answer to \<open>initialize\<close>, an error of the thread request, the thread id.\<close>

definition on_initialize_response :: "env \<Rightarrow> SessionSnapshot \<Rightarrow> CodexAppServerMessage \<Rightarrow> codex_state \<Rightarrow> flow \<times> codex_state" where
  "on_initialize_response en started m = (\<lambda>(l, rt).
     if cl_phase l = InitializePending \<and> codex_response_id m = Some 1
     then (case codex_response_error m of
         Some error \<Rightarrow> (Stop, loop_fail en started error (l, kill_child rt))
       | None \<Rightarrow>
         (case continue_codex_app_server_startup_after_initialize en (cl_conn l) rt of
            (Some err, rt1) \<Rightarrow> (Stop, loop_fail en started err (l, kill_child rt1))
          | (None, rt1) \<Rightarrow> (Go, l\<lparr>cl_phase := ThreadPending\<rparr>, rt1)))
     else (Go, l, rt))"

definition on_thread_error :: "env \<Rightarrow> SessionSnapshot \<Rightarrow> CodexAppServerMessage \<Rightarrow> codex_state \<Rightarrow> flow \<times> codex_state" where
  "on_thread_error en started m = (\<lambda>(l, rt).
     if cl_phase l = ThreadPending \<and> codex_response_id m = Some 2
     then (case codex_response_error m of
         Some error \<Rightarrow> (Stop, loop_fail en started error (l, kill_child rt))
       | None \<Rightarrow> (Go, l, rt))
     else (Go, l, rt))"

definition on_thread_id :: "env \<Rightarrow> SessionSnapshot \<Rightarrow> CodexAppServerMessage \<Rightarrow> codex_state \<Rightarrow> codex_state" where
  "on_thread_id en started m = (\<lambda>(l, rt).
     case codex_thread_id_from_startup_response m 2 of None \<Rightarrow> (l, rt)
     | Some native_id \<Rightarrow> codex_effect en started Ready
         (l\<lparr>cl_phase := PhaseReady, cl_thread_id := Some native_id,
            cl_conn := (cl_conn l)\<lparr>pc_native_thread_id := Some native_id\<rparr>\<rparr>,
          snd (update_chat_thread_native_id (sn_thread_id started) native_id rt)))"

text \<open>The response to an input's request.\<close>

definition on_input_taken :: "env \<Rightarrow> SessionSnapshot \<Rightarrow> CodexAppServerMessage \<Rightarrow> nat \<Rightarrow> PendingCodexInputRequest \<Rightarrow>
    codex_state \<Rightarrow> flow \<times> codex_state" where
  "on_input_taken en started m request_id p = (\<lambda>(l, rt).
     case with_inputs (mark_acknowledged (env_now en) (pr_local_input_id p) (Some (show_nat request_id))) rt of
       (Inl err, rt1) \<Rightarrow> (Stop, loop_fail en started (''Codex input acknowledgement persistence failed: '' @ err) (l, rt1))
     | (Inr _, rt1) \<Rightarrow>
       if pr_turn_id p \<noteq> None \<and> pr_turn_id p \<noteq> cl_active_turn l
       then (case with_inputs (mark_terminal (env_now en) (pr_local_input_id p)) rt1 of
           (Inl err, rt2) \<Rightarrow> (Stop, loop_fail en started (''Codex input terminal persistence failed: '' @ err) (l, rt2))
         | (Inr _, rt2) \<Rightarrow> (Go, l, rt2))
       else (Go, l\<lparr>cl_active_inputs := cl_active_inputs l
               @ [(or_else (pr_turn_id p) (codex_turn_id_from_message m), pr_local_input_id p)]\<rparr>, rt1))"

definition on_steer_refused :: "env \<Rightarrow> SessionSnapshot \<Rightarrow> PendingCodexInputRequest \<Rightarrow> codex_state \<Rightarrow> flow \<times> codex_state" where
  "on_steer_refused en started p = (\<lambda>(l, rt).
     case cl_thread_id l of
       None \<Rightarrow> (Again, codex_retire en started (pr_local_input_id p)
         (l, send (session_error started ''Codex app-server thread is not initialized yet'') rt))
     | Some thread_id \<Rightarrow>
       (let fallback = saturating_add (cl_fallback l) 1;
            request_id = next_fallback_request_id fallback;
            l1 = l\<lparr>cl_fallback := fallback\<rparr>;
            rt1 = update_snapshot (\<lambda>s. note_snapshot_input (pr_local_input_id p)
                    (mark_session_busy_for_input (env_mono en) s)) rt;
            line = write_turn_start_request_with_id request_id
                     (codex_turn_start_params (cl_conn l) thread_id (pr_input p))
        in case write_stdin en line rt1 of
             (Some err, rt2) \<Rightarrow> (Stop, loop_fail en started (''Codex immediate turn fallback failed: '' @ err) (l1, kill_child rt2))
           | (None, rt2) \<Rightarrow> (Go, l1\<lparr>cl_pending := bt_insert request_id
                \<lparr>pr_kind = ImmediateFallbackStart, pr_local_input_id = pr_local_input_id p,
                 pr_input = pr_input p, pr_turn_id = None\<rparr> (cl_pending l1)\<rparr>, rt2)))"

definition on_input_rejected :: "env \<Rightarrow> SessionSnapshot \<Rightarrow> string option \<Rightarrow> PendingCodexInputRequest \<Rightarrow> codex_state \<Rightarrow> codex_state" where
  "on_input_rejected en started err p = (\<lambda>(l, rt).
     let rt1 = (case err of Some e \<Rightarrow> snd (with_inputs (mark_failed (env_now en) (pr_local_input_id p) e) rt) | None \<Rightarrow> rt)
     in codex_retire en started (pr_local_input_id p)
          (l, send (session_error started (unwrap_or err ''Codex app-server input request failed'')) rt1))"

definition on_input_response :: "env \<Rightarrow> SessionSnapshot \<Rightarrow> CodexAppServerMessage \<Rightarrow> codex_state \<Rightarrow> flow \<times> codex_state" where
  "on_input_response en started m = (\<lambda>(l, rt).
     case Option.bind (codex_response_id m) (\<lambda>i. map_option (Pair i) (map_of (cl_pending l) i)) of
       None \<Rightarrow> (Go, l, rt)
     | Some (request_id, p) \<Rightarrow>
       (let l1 = l\<lparr>cl_pending := map_remove request_id (cl_pending l)\<rparr>; err = codex_response_error m
        in case codex_input_response_action p (err \<noteq> None) of
             Complete \<Rightarrow> on_input_taken en started m request_id p (l1, rt)
           | RetryStart \<Rightarrow> on_steer_refused en started p (l1, rt)
           | ReportError \<Rightarrow> (Go, on_input_rejected en started err p (l1, rt))))"

text \<open>The end of a turn: the inputs known to have joined it, and steers still waiting that named it.\<close>

definition joined_turn :: "string option \<Rightarrow> string option \<times> string \<Rightarrow> bool" where
  "joined_turn completed = (\<lambda>(turn_id, _). completed = None \<or> turn_id = None \<or> turn_id = completed)"

fun mark_all_terminal :: "env \<Rightarrow> string list \<Rightarrow> runtime \<Rightarrow> string option \<times> runtime" where
  "mark_all_terminal en [] rt = (None, rt)"
| "mark_all_terminal en (i # is) rt = (case with_inputs (mark_terminal (env_now en) i) rt of
     (Inl err, rt1) \<Rightarrow> (Some err, rt1) | (Inr _, rt1) \<Rightarrow> mark_all_terminal en is rt1)"

definition waiting_steers :: "string option \<Rightarrow> codex_loop \<Rightarrow> string list" where
  "waiting_steers completed l = map (pr_local_input_id \<circ> snd)
     (filter (\<lambda>(_, p). pr_turn_id p \<noteq> None \<and> pr_turn_id p = completed) (cl_pending l))"

definition complete_locals :: "string option \<Rightarrow> codex_loop \<Rightarrow> codex_loop" where
  "complete_locals completed l =
     (let l1 = (if completed = None \<or> completed = cl_active_turn l
                then l\<lparr>cl_active_turn := None, cl_control := set_active_turn_id None (cl_control l)\<rparr> else l)
      in l1\<lparr>cl_active_inputs := filter (\<lambda>x. \<not> joined_turn completed x) (cl_active_inputs l)\<rparr>)"

definition on_turn_completed :: "env \<Rightarrow> SessionSnapshot \<Rightarrow> CodexAppServerMessage \<Rightarrow> codex_state \<Rightarrow> flow \<times> codex_state" where
  "on_turn_completed en started m = (\<lambda>(l, rt).
     let completed = codex_turn_id_from_message m;
         finished = map snd (filter (joined_turn completed) (cl_active_inputs l));
         l2 = complete_locals completed l
     in case mark_all_terminal en finished rt of
          (Some err, rt1) \<Rightarrow> (Stop, loop_fail en started (''Codex input terminal persistence failed: '' @ err) (l2, rt1))
        | (None, rt1) \<Rightarrow>
          (let ids = finished @ waiting_steers completed l2;
               turn = (if completed = None \<or> ids = [] then Latest else Inputs ids);
               (_, rt2) = send_turn_completed en started turn (codex_turn_completed_status m) None rt1
           in (Go, if latest_turn_completed (sn_turns (rt_snapshot rt2))
                   then codex_effect en started Ready (l2, rt2) else (l2, rt2))))"

definition on_turn :: "env \<Rightarrow> SessionSnapshot \<Rightarrow> CodexAppServerMessage \<Rightarrow> codex_state \<Rightarrow> flow \<times> codex_state" where
  "on_turn en started m = (\<lambda>(l, rt).
     if xm_method m = Some ''turn/completed'' then on_turn_completed en started m (l, rt)
     else (Go, case codex_turn_id_from_message m of None \<Rightarrow> (l, rt)
            | Some t \<Rightarrow> (l\<lparr>cl_active_turn := Some t, cl_control := set_active_turn_id (Some t) (cl_control l)\<rparr>, rt)))"

text \<open>The stages in order: one that starts over or returns ends the handling of the message.\<close>

fun and_then :: "flow \<times> codex_state \<Rightarrow> (codex_state \<Rightarrow> flow \<times> codex_state) \<Rightarrow> flow \<times> codex_state" where
  "and_then (Go, s) f = f s"
| "and_then (w, s) f = (w, s)"

definition codex_message :: "env \<Rightarrow> SessionSnapshot \<Rightarrow> CodexAppServerMessage \<Rightarrow> codex_state \<Rightarrow> flow \<times> codex_state" where
  "codex_message en started m = (\<lambda>(l, rt).
     and_then (and_then (and_then (and_then
       (on_initialize_response en started m (l, persist_codex_app_server_message en m started rt))
       (on_thread_error en started m))
       (\<lambda>s. on_input_response en started m (on_thread_id en started m s)))
       (on_turn en started m))
       (\<lambda>(l, rt). (Go, l, send (SessionMessagesUpdated (sn_thread_id started)) rt)))"

definition codex_line :: "env \<Rightarrow> SessionSnapshot \<Rightarrow> string \<Rightarrow> codex_state \<Rightarrow> flow \<times> codex_state" where
  "codex_line en started line = (\<lambda>(l, rt).
     let n = pc_next_read_line (cl_conn l) + 1;
         l1 = l\<lparr>cl_conn := (cl_conn l)\<lparr>pc_next_read_line := n\<rparr>\<rparr>;
         rt1 = append_provider_native_output (sn_session_id started) ''codex-app-server'' line rt
     in case parse_jsonl_message (env_from_str en) line n of
          Inl _ \<Rightarrow> (Go, l1, rt1)
        | Inr m \<Rightarrow> codex_message en started m (l1, rt1))"

section \<open>Commands\<close>

definition input_line :: "codex_loop \<Rightarrow> string \<Rightarrow> CodexInputRoute \<Rightarrow> nat \<Rightarrow> string \<Rightarrow> string" where
  "input_line l thread_id route request_id provider_input = (case route of
      Steer expected_turn_id \<Rightarrow> write_turn_steer_request_with_id request_id
        \<lparr>sp_thread_id = thread_id, sp_input = [InputText provider_input], sp_expected_turn_id = Some expected_turn_id\<rparr>
    | Start \<Rightarrow> write_turn_start_request_with_id request_id (codex_turn_start_params (cl_conn l) thread_id provider_input))"

definition after_write :: "env \<Rightarrow> SessionSnapshot \<Rightarrow> nat \<Rightarrow> PendingCodexInputRequest \<Rightarrow> bool \<Rightarrow> string \<Rightarrow> ArchcarInputKind \<Rightarrow>
    nat \<Rightarrow> codex_state \<Rightarrow> codex_state option" where
  "after_write en started request_id p recovered persisted kind sequence = (\<lambda>(l, rt).
     let l1 = l\<lparr>cl_conn := (cl_conn l)\<lparr>pc_pending_recovery_context :=
              (if recovered then None else pc_pending_recovery_context (cl_conn l))\<rparr>,
            cl_pending := bt_insert request_id p (cl_pending l), cl_sequence := sequence\<rparr>
     in map_option (\<lambda>rt1. (l1, send (SessionMessagesUpdated (sn_thread_id started)) rt1))
          (persist_runtime_user_input en started (pr_input p) (Some persisted) kind sequence rt))"

definition codex_write_input :: "env \<Rightarrow> SessionSnapshot \<Rightarrow> QueuedChatInputRecord option \<Rightarrow> string \<Rightarrow> string option \<Rightarrow>
    ArchcarInputKind \<Rightarrow> ArchcarInputDelivery \<Rightarrow> string \<Rightarrow> string \<Rightarrow> codex_state \<Rightarrow> codex_state option" where
  "codex_write_input en started claim input visible kind delivery thread_id composed = (\<lambda>(l, rt).
     let sequence = cl_sequence l + 1; local_id = provider_input_local_id (sn_session_id started) sequence;
         request_id = next_turn_request_id sequence; route = codex_input_route delivery (cl_active_turn l);
         recovery = (if route = Start then pc_pending_recovery_context (cl_conn l) else None);
         provider_input = compose_recovered_thread_input recovery composed
     in case enqueue_provider_input en started local_id input visible kind delivery (pc_native_thread_id (cl_conn l)) rt of
          (Inl err, rt1) \<Rightarrow> Some (give_back en started claim (''Codex input persistence failed: '' @ err) (l, rt1))
        | (Inr _, rt1) \<Rightarrow>
          (let rt2 = update_snapshot (\<lambda>s. note_snapshot_input local_id (mark_session_busy_for_input (env_mono en) s)) rt1
           in case write_stdin en (input_line l thread_id route request_id provider_input) rt2 of
                (Some err, rt3) \<Rightarrow> Some (give_back en started claim (''Codex turn input failed: '' @ err)
                    (l, kill_child (snd (with_inputs (mark_failed (env_now en) local_id err) rt3))))
              | (None, rt3) \<Rightarrow>
                (case with_inputs (mark_written (env_now en) local_id) rt3 of
                   (Inl err, rt4) \<Rightarrow> Some (give_back en started claim
                       (''Codex input written-state persistence failed: '' @ err) (l, kill_child rt4))
                 | (Inr _, rt4) \<Rightarrow> after_write en started request_id
                       \<lparr>pr_kind = request_kind route delivery, pr_local_input_id = local_id, pr_input = provider_input,
                        pr_turn_id = (case route of Steer t \<Rightarrow> Some t | Start \<Rightarrow> None)\<rparr>
                       (recovery \<noteq> None) (unwrap_or visible input) kind sequence (l, rt4))))"

definition codex_send_input :: "env \<Rightarrow> SessionSnapshot \<Rightarrow> QueuedChatInputRecord option \<Rightarrow> string \<Rightarrow> string option \<Rightarrow>
    ArchcarInputKind \<Rightarrow> ArchcarInputDelivery \<Rightarrow> codex_state \<Rightarrow> codex_state option" where
  "codex_send_input en started claim input visible kind delivery = (\<lambda>(l, rt).
     case is_first_turn en started kind rt of
       Inl err \<Rightarrow> Some (give_back en started claim (''Could not prepare Codex input history: '' @ err) (l, rt))
     | Inr first_turn \<Rightarrow>
       (case cl_thread_id l of
          None \<Rightarrow> Some (give_back en started claim ''Codex app-server thread is not initialized yet'' (l, rt))
        | Some thread_id \<Rightarrow> codex_write_input en started claim input visible kind delivery thread_id
            (compose_first_turn_input (cl_general l) input first_turn) (l, rt)))"

definition codex_apply_control :: "env \<Rightarrow> SessionSnapshot \<Rightarrow> HarnessControl \<Rightarrow> codex_state \<Rightarrow> codex_state" where
  "codex_apply_control en started control = (\<lambda>(l, rt).
     let (plan, adapter) = codex_plan_control control (cl_control l);
         (c, rt1) = apply_provider_control_plan en started ''codex-app-server'' plan (cl_conn l, rt)
     in (l\<lparr>cl_control := adapter, cl_conn := c\<rparr>, rt1))"

definition codex_interrupt :: "env \<Rightarrow> SessionSnapshot \<Rightarrow> codex_state \<Rightarrow> codex_state" where
  "codex_interrupt en started = (\<lambda>(l, rt).
     let (l1, rt1) = codex_apply_control en started HarnessControl.Interrupt
           (l\<lparr>cl_control := set_native_session_id (cl_thread_id l) (cl_control l)\<rparr>, rt)
     in (l1, update_snapshot (\<lambda>s. s\<lparr>sn_ready := False, sn_runtime_state := AgentSessionState.Running\<rparr>) rt1))"

text \<open>\<open>None\<close>: the step does not return.\<close>

fun codex_command_split :: "env \<Rightarrow> SessionSnapshot \<Rightarrow> SessionCommand \<times> QueuedChatInputRecord option \<Rightarrow> codex_state \<Rightarrow>
    codex_state option" where
  "codex_command_split en started (SendInput input visible kind delivery, claim) st =
     codex_send_input en started claim input visible kind delivery st"
| "codex_command_split en started (SendQueuedInput _, claim) st = None"
| "codex_command_split en started (SessionCommand.Kill, claim) (l, rt) = Some (l, kill_child rt)"
| "codex_command_split en started (InterruptTurn, claim) st = Some (codex_interrupt en started st)"
| "codex_command_split en started (ApplyControl control, claim) st = Some (codex_apply_control en started control st)"
| "codex_command_split en started (Resize _ _, claim) st = Some st"

definition codex_command :: "env \<Rightarrow> SessionSnapshot \<Rightarrow> SessionCommand \<Rightarrow> codex_state \<Rightarrow> codex_state option" where
  "codex_command en started command st = codex_command_split en started (split_queued_claim command) st"

section \<open>The loop\<close>

definition codex_loop_new :: "SessionSnapshot \<Rightarrow> ProviderProcessConnection \<Rightarrow> string option \<Rightarrow> nat \<Rightarrow> codex_loop" where
  "codex_loop_new started c general sequence = \<lparr>cl_phase = InitializePending, cl_thread_id = pc_native_thread_id c,
     cl_sequence = sequence, cl_fallback = 0, cl_active_turn = None, cl_active_inputs = [], cl_pending = [],
     cl_control = codex_new \<lparr>ac_session_id = sn_session_id started, ac_thread_id = sn_thread_id started,
        ac_workspace = sn_workspace started, ac_native_session_id = pc_native_thread_id c,
        ac_controls = \<lparr>dc_model = pc_model c, dc_effort = pc_effort_mode c, dc_permission_mode = pc_approval_policy c,
           dc_fast_mode = Some (pc_fast_mode c)\<rparr>\<rparr>,
     cl_conn = c, cl_general = general\<rparr>"

definition codex_start :: "env \<Rightarrow> string \<Rightarrow> SessionSnapshot \<Rightarrow> ProviderProcessConnection \<Rightarrow> string + string option \<Rightarrow>
    runtime \<Rightarrow> flow \<times> codex_state" where
  "codex_start en version started c general_prompt rt =
     (let rt0 = (case general_prompt of Inr _ \<Rightarrow> rt
            | Inl err \<Rightarrow> send (session_error started (''Could not resolve general prompt: '' @ err)) rt);
          general = (case general_prompt of Inr g \<Rightarrow> g | Inl _ \<Rightarrow> None);
          rt1 = send (SessionStarted (sn_session_id started) (sn_thread_id started) (sn_workspace started) (sn_kind started)
                  (sn_pid started) False False None) rt0;
          rt2 = append_runtime_provider_event en (runtime_provider_event en \<lparr>re_kind = sn_kind started,
                  re_session_id = sn_session_id started, re_thread_id = sn_thread_id started, re_identity_suffix = None,
                  re_provider_sequence = None, re_phase = ProviderEventPhase.Started, re_event_kind = ThreadSession,
                  re_subtype = ''session_started'', re_title = ''Session started'', re_body = ''codex app-server''\<rparr>) rt1;
          rt3 = append_provider_native_output (sn_session_id started) ''codex-app-server''
                  ''transport started: codex app-server stdio JSONL'' rt2
      in case start_codex_app_server_lifecycle en version rt3 of
           (Some err, rt4) \<Rightarrow> (Stop, loop_fail en started err (codex_loop_new started c general 0, rt4))
         | (None, rt4) \<Rightarrow> (Go, codex_loop_new started c general
             (case max_runtime_input_provider_sequence (sn_session_id started) rt4 of Inr n \<Rightarrow> n | Inl _ \<Rightarrow> 0), rt4))"

text \<open>A life of the loop: what the agent writes and the daemon sends, in the order the loop sees it.\<close>

datatype codex_input = AgentLine env string | Command env SessionCommand

fun codex_run :: "SessionSnapshot \<Rightarrow> codex_input list \<Rightarrow> codex_state \<Rightarrow> codex_state option" where
  "codex_run started [] st = Some st"
| "codex_run started (AgentLine en line # es) st = (case codex_line en started line st of
     (Stop, st1) \<Rightarrow> Some st1 | (_, st1) \<Rightarrow> codex_run started es st1)"
| "codex_run started (Command en command # es) st = (case codex_command en started command st of
     None \<Rightarrow> None | Some st1 \<Rightarrow> codex_run started es st1)"

end
