(* ===== verification/Codex_Facts.thy ===== *)
theory Codex_Facts
  imports Codex_Session
begin

text \<open>
  What the codex loop keeps and what it does with an input (definitions in Codex_Session). An input
  ends in one of two ways: the claim given back, or its request written. The locale
  \<open>codex_relation\<close> lifts a relation every stage of the loop respects to a whole life of it; its
  interpretation \<open>codex_kept\<close> carries the invariants of the pending requests, the turn ledger and the
  interactions.
\<close>

section \<open>Lemmas\<close>

lemma after_write_fields:
  assumes "after_write en started i p recovered persisted kind n (l, rt) = Some (l', rt')"
  shows "rt_snapshot rt' = rt_snapshot rt" "rt_inputs rt' = rt_inputs rt" "rt_queue rt' = rt_queue rt"
    "rt_stdin rt' = rt_stdin rt" "rt_interactions rt' = rt_interactions rt" "cl_pending l' = bt_insert i p (cl_pending l)"
    "cl_sequence l' = n" "cl_active_inputs l' = cl_active_inputs l" "cl_active_turn l' = cl_active_turn l"
    "cl_control l' = cl_control l" "cl_fallback l' = cl_fallback l" "cl_thread_id l' = cl_thread_id l" "cl_phase l' = cl_phase l"
    "rt_sent rt' = rt_sent rt @ [SessionMessagesUpdated (sn_thread_id started)]"
proof -
  obtain rt1 where p: "persist_runtime_user_input en started (pr_input p) (Some persisted) kind n rt = Some rt1"
    and rt': "rt' = send (SessionMessagesUpdated (sn_thread_id started)) rt1"
    using assms by (auto simp: after_write_def Let_def)
  note f = persist_runtime_user_input_fields [OF p]
  show "rt_snapshot rt' = rt_snapshot rt" "rt_inputs rt' = rt_inputs rt" "rt_queue rt' = rt_queue rt"
    "rt_stdin rt' = rt_stdin rt" "rt_interactions rt' = rt_interactions rt"
    "rt_sent rt' = rt_sent rt @ [SessionMessagesUpdated (sn_thread_id started)]"
    by (simp_all add: rt' f runtime_simps)
  show "cl_pending l' = bt_insert i p (cl_pending l)"
    "cl_sequence l' = n" "cl_active_inputs l' = cl_active_inputs l" "cl_active_turn l' = cl_active_turn l"
    "cl_control l' = cl_control l" "cl_fallback l' = cl_fallback l" "cl_thread_id l' = cl_thread_id l" "cl_phase l' = cl_phase l"
    using assms by (auto simp: after_write_def Let_def)
qed

text \<open>The two ways \<open>codex_write_input\<close> ends: the claim given back, or the request written.\<close>

definition input_written :: "env \<Rightarrow> SessionSnapshot \<Rightarrow> string \<Rightarrow> ArchcarInputDelivery \<Rightarrow> string \<Rightarrow> codex_state \<Rightarrow> codex_state \<Rightarrow> bool" where
  "input_written en started input delivery thread_id = (\<lambda>(l, rt) (l', rt').
     let n = cl_sequence l + 1; i = provider_input_local_id (sn_session_id started) n;
         route = codex_input_route delivery (cl_active_turn l); request_id = next_turn_request_id n
     in \<exists>p. rt_stdin rt' = rt_stdin rt @ [input_line l thread_id route request_id (pr_input p)]
       \<and> (\<exists>before. pr_input p = before @ input) \<and> pr_local_input_id p = i \<and> pr_turn_id p = (case route of Steer t \<Rightarrow> Some t | Start \<Rightarrow> None)
       \<and> pr_kind p = request_kind route delivery
       \<and> cl_pending l' = bt_insert request_id p (cl_pending l) \<and> cl_sequence l' = n
       \<and> cl_active_inputs l' = cl_active_inputs l \<and> cl_active_turn l' = cl_active_turn l
       \<and> cl_control l' = cl_control l \<and> cl_fallback l' = cl_fallback l \<and> cl_thread_id l' = cl_thread_id l
       \<and> rt_queue rt' = rt_queue rt \<and> rt_interactions rt' = rt_interactions rt
       \<and> rt_sent rt' = rt_sent rt @ [SessionMessagesUpdated (sn_thread_id started)]
       \<and> (inputs_ok (rt_inputs rt) \<longrightarrow> state_of i (rt_inputs rt') = Some Written)
       \<and> rt_snapshot rt' = note_snapshot_input i (mark_session_busy_for_input (env_mono en) (rt_snapshot rt)))"

definition given_back :: "env \<Rightarrow> SessionSnapshot \<Rightarrow> QueuedChatInputRecord option \<Rightarrow> codex_state \<Rightarrow> codex_state \<Rightarrow> bool" where
  "given_back en started claim = (\<lambda>(l, rt) st'. \<exists>err rt1. st' = give_back en started claim err (l, rt1)
     \<and> rt_queue rt1 = rt_queue rt \<and> rt_sent rt1 = rt_sent rt \<and> rt_interactions rt1 = rt_interactions rt
     \<and> (rt_stdin rt1 = rt_stdin rt \<or> (\<exists>t r i x. rt_stdin rt1 = rt_stdin rt @ [input_line l t r i x]))
     \<and> (ledger_ok (sn_turns (rt_snapshot rt)) \<longrightarrow> ledger_ok (sn_turns (rt_snapshot rt1))))"

lemma given_backI:
  "st' = give_back en started claim err (l, rt1) \<Longrightarrow> rt_queue rt1 = rt_queue rt \<Longrightarrow> rt_sent rt1 = rt_sent rt \<Longrightarrow>
     rt_interactions rt1 = rt_interactions rt \<Longrightarrow>
     rt_stdin rt1 = rt_stdin rt \<or> (\<exists>t r i x. rt_stdin rt1 = rt_stdin rt @ [input_line l t r i x]) \<Longrightarrow>
     (ledger_ok (sn_turns (rt_snapshot rt)) \<Longrightarrow> ledger_ok (sn_turns (rt_snapshot rt1))) \<Longrightarrow>
     given_back en started claim (l, rt) st'"
  unfolding given_back_def split_conv by (intro exI [of _ err] exI [of _ rt1] conjI impI)

lemma write_input_cases:
  assumes run: "codex_write_input en started claim input visible kind delivery thread_id composed (l, rt) = Some st'"
  shows "given_back en started claim (l, rt) st' \<or> input_written en started composed delivery thread_id (l, rt) st'"
proof -
  obtain l' rt' where st': "st' = (l', rt')" by (metis surj_pair)
  let ?n = "cl_sequence l + 1"
  let ?i = "provider_input_local_id (sn_session_id started) ?n"
  let ?route = "codex_input_route delivery (cl_active_turn l)"
  let ?rec = "if ?route = Start then pc_pending_recovery_context (cl_conn l) else None"
  let ?text = "compose_recovered_thread_input ?rec composed"
  let ?p = "\<lparr>pr_kind = request_kind ?route delivery, pr_local_input_id = ?i, pr_input = ?text,
     pr_turn_id = (case ?route of Steer t \<Rightarrow> Some t | Start \<Rightarrow> None)\<rparr>"
  obtain r rt1 where enq: "enqueue_provider_input en started ?i input visible kind delivery
      (pc_native_thread_id (cl_conn l)) rt = (r, rt1)" by (metis surj_pair)
  note e = enqueue_provider_input_fields [OF enq]
  show ?thesis
  proof (cases r)
    case (Inl err)
    with run enq have "st' = give_back en started claim (''Codex input persistence failed: '' @ err) (l, rt1)"
      by (simp add: codex_write_input_def Let_def)
    then have "given_back en started claim (l, rt) st'" by (rule given_backI) (simp_all add: e)
    then show ?thesis ..
  next
    case (Inr u)
    let ?rt2 = "update_snapshot (\<lambda>s. note_snapshot_input ?i (mark_session_busy_for_input (env_mono en) s)) rt1"
    let ?line = "input_line l thread_id ?route (next_turn_request_id ?n) ?text"
    show ?thesis
    proof (cases rule: write_stdin_cases [of en ?line ?rt2])
      case (failed err)
      with run enq Inr have "st' = give_back en started claim (''Codex turn input failed: '' @ err)
          (l, kill_child (snd (with_inputs (mark_failed (env_now en) ?i err) ?rt2)))"
        by (simp add: codex_write_input_def Let_def)
      then have "given_back en started claim (l, rt) st'" by (rule given_backI) (auto simp: e runtime_simps mark_snapshot_defs busy_mark_ok note_input_ok)
      then show ?thesis ..
    next
      case written
      let ?rt3 = "?rt2\<lparr>rt_stdin := rt_stdin ?rt2 @ [?line]\<rparr>"
      obtain w rows where mark: "mark_written (env_now en) ?i (rt_inputs rt1) = (w, rows)" by (metis surj_pair)
      have wi: "with_inputs (mark_written (env_now en) ?i) ?rt3 = (w, ?rt3\<lparr>rt_inputs := rows\<rparr>)"
        using mark by (simp add: with_inputs_def runtime_simps)
      show ?thesis
      proof (cases w)
        case (Inl err)
        with run enq Inr written wi have "st' = give_back en started claim
            (''Codex input written-state persistence failed: '' @ err) (l, kill_child (?rt3\<lparr>rt_inputs := rows\<rparr>))"
          by (simp add: codex_write_input_def Let_def)
        then have "given_back en started claim (l, rt) st'" by (rule given_backI) (auto simp: e runtime_simps mark_snapshot_defs busy_mark_ok note_input_ok)
        then show ?thesis ..
      next
        case ok: (Inr u')
        with run enq Inr written wi have aw: "after_write en started (next_turn_request_id ?n) ?p (?rec \<noteq> None)
            (unwrap_or visible input) kind ?n (l, ?rt3\<lparr>rt_inputs := rows\<rparr>) = Some (l', rt')"
          unfolding st' by (simp add: codex_write_input_def Let_def)
        note a = after_write_fields [OF aw]
        have "state_of ?i rows = Some Written" if "inputs_ok (rt_inputs rt)"
          using mark ok e(6) [OF that] by (auto simp: mark_written_def intro: update_state_accepted)
        moreover have "\<exists>before. ?text = before @ composed"
          by (simp add: compose_recovered_thread_input_def split: option.split)
        ultimately show ?thesis using a e unfolding st' input_written_def
          by (auto simp: Let_def runtime_simps intro!: exI [of _ ?p])
      qed
    qed
  qed
qed

lemma composed_input:
  assumes "input_written en started (compose_first_turn_input general input first) delivery thread_id st st'"
  shows "input_written en started input delivery thread_id st st'"
proof -
  have "\<exists>b. compose_first_turn_input general input first = b @ input"
    by (simp add: compose_first_turn_input_def split: option.split)
  then obtain b where b: "compose_first_turn_input general input first = b @ input" ..
  have "\<exists>before. x = before @ input" if "\<exists>before. x = before @ b @ input" for x :: string
    using that by (metis append.assoc)
  with assms show ?thesis unfolding b input_written_def Let_def split_beta by blast
qed

lemma send_input_cases:
  assumes "codex_send_input en started claim input visible kind delivery (l, rt) = Some st'"
  shows "given_back en started claim (l, rt) st'
    \<or> (\<exists>thread_id. cl_thread_id l = Some thread_id \<and> input_written en started input delivery thread_id (l, rt) st')"
  using assms
  by (auto simp: codex_send_input_def given_back_def split: sum.splits option.splits dest!: write_input_cases dest: composed_input)

section \<open>What a step keeps\<close>

text \<open>
  A relation between the state before and after that every stage of the loop respects holds for a
  whole life of it.
\<close>

locale codex_relation =
  fixes started :: SessionSnapshot and R :: "codex_state \<Rightarrow> codex_state \<Rightarrow> bool"
  assumes keeps_refl: "R st st"
    and keeps_trans: "R a b \<Longrightarrow> R b c \<Longrightarrow> R a c"
    and keeps_line_read: "R (l, rt) (l\<lparr>cl_conn := (cl_conn l)\<lparr>pc_next_read_line := n\<rparr>\<rparr>, append_provider_native_output p t raw rt)"
    and keeps_event: "R (l, rt) (l, append_provider_event en d rt)"
    and keeps_initialize: "on_initialize_response en started m st = (w, st1) \<Longrightarrow> R st st1"
    and keeps_thread_error: "on_thread_error en started m st = (w, st1) \<Longrightarrow> R st st1"
    and keeps_thread_id: "R st (on_thread_id en started m st)"
    and keeps_response: "on_input_response en started m st = (w, st1) \<Longrightarrow> R st st1"
    and keeps_turn: "on_turn en started m st = (w, st1) \<Longrightarrow> R st st1"
    and keeps_updated: "R (l, rt) (l, send (SessionMessagesUpdated i) rt)"
    and keeps_command: "codex_command en started command st = Some st1 \<Longrightarrow> R st st1"
begin

lemma keeps_and_then:
  assumes "R a (snd x)" and "\<And>w st1. f (snd x) = (w, st1) \<Longrightarrow> R (snd x) st1"
  shows "R a (snd (and_then x f))"
proof -
  obtain w st where x: "x = (w, st)" by (metis surj_pair)
  obtain w' st' where f: "f st = (w', st')" by (metis surj_pair)
  show ?thesis
  proof (cases w)
    case Go
    with x f have "snd (and_then x f) = st'" by simp
    with assms x f keeps_trans [of a st st'] show ?thesis by simp
  qed (use assms x in simp_all)
qed

lemma keeps_message: "R st (snd (codex_message en started m st))"
proof -
  obtain l rt where st: "st = (l, rt)" by (metis surj_pair)
  let ?rt = "persist_codex_app_server_message en m started rt"
  have "R (l, rt) (l, ?rt)"
    using keeps_event keeps_refl by (simp add: persist_codex_app_server_message_def Let_def)
  then have "R (l, rt) (snd (on_initialize_response en started m (l, ?rt)))"
    by (rule keeps_trans) (metis keeps_initialize prod.collapse)
  then show ?thesis unfolding st codex_message_def split_conv
    by (intro keeps_and_then)
      (auto dest!: keeps_thread_error keeps_turn simp: keeps_updated split: prod.splits
        intro: keeps_trans [OF keeps_thread_id keeps_response])
qed

lemma keeps_line: "R st (snd (codex_line en started line st))"
proof -
  obtain l rt where st: "st = (l, rt)" by (metis surj_pair)
  let ?n = "pc_next_read_line (cl_conn l) + 1"
  let ?st = "(l\<lparr>cl_conn := (cl_conn l)\<lparr>pc_next_read_line := ?n\<rparr>\<rparr>,
    append_provider_native_output (sn_session_id started) ''codex-app-server'' line rt)"
  have read: "R st ?st" unfolding st by (rule keeps_line_read)
  show ?thesis
  proof (cases "parse_jsonl_message (env_from_str en) line ?n")
    case (Inl e)
    then have "snd (codex_line en started line st) = ?st" by (simp add: st codex_line_def Let_def)
    with read show ?thesis by simp
  next
    case (Inr m)
    then have "codex_line en started line st = codex_message en started m ?st"
      by (simp add: st codex_line_def Let_def)
    with keeps_trans [OF read keeps_message] show ?thesis by simp
  qed
qed

lemma keeps_run: "codex_run started es st = Some st1 \<Longrightarrow> R st st1"
proof (induction es arbitrary: st)
  case (Cons e es)
  show ?case
  proof (cases e)
    case (AgentLine en line)
    obtain w st2 where l: "codex_line en started line st = (w, st2)" by (metis surj_pair)
    with keeps_line [of st en line] have "R st st2" by simp
    with Cons AgentLine l keeps_trans show ?thesis by (cases w) auto
  next
    case (Command en command)
    with Cons.prems obtain st2 where c: "codex_command en started command st = Some st2"
      and run: "codex_run started es st2 = Some st1" by (auto split: option.splits)
    show ?thesis by (rule keeps_trans [OF keeps_command [OF c] Cons.IH [OF run]])
  qed
qed (simp add: keeps_refl)

end

section \<open>What the codex loop keeps\<close>

definition input_id_up_to :: "nat \<Rightarrow> nat \<Rightarrow> bool" where
  "input_id_up_to n i \<longleftrightarrow> (\<exists>k. 1 \<le> k \<and> k \<le> n \<and> i = next_turn_request_id k)"

definition fallback_id_up_to :: "nat \<Rightarrow> nat \<Rightarrow> bool" where
  "fallback_id_up_to n i \<longleftrightarrow> (\<exists>k. 1 \<le> k \<and> k \<le> n \<and> i = next_fallback_request_id k)"

definition ids_ok :: "codex_loop \<Rightarrow> bool" where
  "ids_ok l \<longleftrightarrow> bt_sorted (cl_pending l) \<and> cl_fallback l \<le> u64_max
     \<and> (\<forall>i\<in>fst ` set (cl_pending l). input_id_up_to (cl_sequence l) i \<or> fallback_id_up_to (cl_fallback l) i)"

lemma id_up_to_mono: "input_id_up_to m i \<Longrightarrow> m \<le> n \<Longrightarrow> input_id_up_to n i"
  "fallback_id_up_to m i \<Longrightarrow> m \<le> n \<Longrightarrow> fallback_id_up_to n i"
  unfolding input_id_up_to_def fallback_id_up_to_def using le_trans by blast+

lemma id_up_to_new: "input_id_up_to (Suc n) (next_turn_request_id (Suc n))"
  "1 \<le> n \<Longrightarrow> fallback_id_up_to n (next_fallback_request_id n)"
  by (auto simp: input_id_up_to_def fallback_id_up_to_def)

definition codex_kept :: "codex_state \<Rightarrow> codex_state \<Rightarrow> bool" where
  "codex_kept = (\<lambda>(l, rt) (l', rt').
     rt_interactions rt' = rt_interactions rt
     \<and> (ca_pending_interactions (cl_control l) = [] \<longrightarrow> ca_pending_interactions (cl_control l') = [])
     \<and> (ids_ok l \<longrightarrow> ids_ok l')
     \<and> (ledger_ok (sn_turns (rt_snapshot rt)) \<longrightarrow> ledger_ok (sn_turns (rt_snapshot rt'))))"

lemma ready_effect:
  "codex_effect en started Ready (l, rt) =
     (l, send (SessionReady (sn_session_id started) (sn_thread_id started)) (update_snapshot mark_snapshot_ready rt))"
  by (simp add: codex_effect_def connection_effect_def apply_effect_now_def apply_harness_effect_def Let_def)

lemma codex_retire_cases:
  "codex_retire en started i (l, rt) =
     (let rt1 = update_snapshot (\<lambda>s. s\<lparr>sn_turns := retire_input i (sn_turns s)\<rparr>) rt
      in if latest_turn_completed (retire_input i (sn_turns (rt_snapshot rt)))
         then codex_effect en started Ready (l, rt1) else (l, update_snapshot mark_snapshot_running_not_ready rt1))"
  by (simp add: codex_retire_def retire_failed_codex_input_def codex_effect_def connection_effect_def Let_def runtime_simps split: prod.split)

lemma ids_ok_conn [simp]: "ids_ok (l\<lparr>cl_conn := c\<rparr>) = ids_ok l" "ids_ok (l\<lparr>cl_phase := p\<rparr>) = ids_ok l"
  "ids_ok (l\<lparr>cl_thread_id := t\<rparr>) = ids_ok l" "ids_ok (l\<lparr>cl_active_turn := t\<rparr>) = ids_ok l"
  "ids_ok (l\<lparr>cl_control := ct\<rparr>) = ids_ok l" "ids_ok (l\<lparr>cl_active_inputs := a\<rparr>) = ids_ok l"
  by (simp_all add: ids_ok_def)

lemma ids_ok_remove: "ids_ok l \<Longrightarrow> ids_ok (l\<lparr>cl_pending := map_remove i (cl_pending l)\<rparr>)"
  by (auto simp: ids_ok_def map_remove_def intro: bt_filter_sorted)

lemma ids_ok_start:
  assumes "ids_ok l" and "cl_pending l' = bt_insert (next_turn_request_id (cl_sequence l + 1)) p (cl_pending l)"
    and "cl_sequence l' = cl_sequence l + 1" and "cl_fallback l' = cl_fallback l"
  shows "ids_ok l'"
  using assms id_up_to_new(1) [of "cl_sequence l"]
  by (auto simp: ids_ok_def bt_insert_keys intro: id_up_to_mono(1))

lemma ids_ok_fallback:
  assumes "ids_ok l"
  shows "ids_ok (l\<lparr>cl_fallback := saturating_add (cl_fallback l) 1\<rparr>)"
    "ids_ok (l\<lparr>cl_fallback := saturating_add (cl_fallback l) 1,
       cl_pending := bt_insert (next_fallback_request_id (saturating_add (cl_fallback l) 1)) p (cl_pending l)\<rparr>)"
proof -
  let ?n = "saturating_add (cl_fallback l) 1"
  have n: "cl_fallback l \<le> ?n" "?n \<le> u64_max" "1 \<le> ?n"
    using assms by (auto simp: ids_ok_def saturating_add_def)
  with assms show "ids_ok (l\<lparr>cl_fallback := ?n\<rparr>)"
    by (auto simp: ids_ok_def intro: id_up_to_mono(2))
  with n id_up_to_new(2) [of ?n] show "ids_ok (l\<lparr>cl_fallback := ?n,
      cl_pending := bt_insert (next_fallback_request_id ?n) p (cl_pending l)\<rparr>)"
    by (auto simp: ids_ok_def bt_insert_keys)
qed

lemma codex_kept_retire: "codex_kept (l, rt) (codex_retire en started i (l, rt))"
  by (auto simp: codex_kept_def codex_retire_cases ready_effect Let_def runtime_simps mark_snapshot_defs retire_input_ok)

lemma codex_kept_trans: "codex_kept a b \<Longrightarrow> codex_kept b c \<Longrightarrow> codex_kept a c"
  by (auto simp: codex_kept_def split: prod.splits)

lemma codex_keptI:
  assumes "rt_interactions rt' = rt_interactions rt"
    and "ca_pending_interactions (cl_control l) = [] \<Longrightarrow> ca_pending_interactions (cl_control l') = []"
    and "ids_ok l \<Longrightarrow> ids_ok l'"
    and "ledger_ok (sn_turns (rt_snapshot rt)) \<Longrightarrow> ledger_ok (sn_turns (rt_snapshot rt'))"
  shows "codex_kept (l, rt) (l', rt')"
  using assms by (simp add: codex_kept_def)

lemma codex_kept_fail:
  "codex_kept st (l, rt) \<Longrightarrow> codex_kept st (loop_fail en started err (l, rt))"
  "codex_kept st (l, rt) \<Longrightarrow> codex_kept st (l, kill_child rt)"
  "codex_kept st (l, rt) \<Longrightarrow> codex_kept st (l, send e rt)"
  by (auto simp: codex_kept_def loop_fail_fields runtime_simps split: prod.splits)

lemma codex_kept_same:
  "codex_kept (l, rt) (l\<lparr>cl_conn := c\<rparr>, rt)" "codex_kept (l, rt) (l\<lparr>cl_conn := c, cl_phase := p\<rparr>, rt)"
  "codex_kept (l, rt) (l\<lparr>cl_phase := p\<rparr>, rt)" "codex_kept (l, rt) (l, rt\<lparr>rt_stdin := b\<rparr>)" "codex_kept (l, rt) (l, rt)"
  "codex_kept (l, rt) (l, snd (with_inputs f rt))"
  by (auto simp: codex_kept_def runtime_simps)

lemma codex_kept_ready: "codex_kept (l, rt) (codex_effect en started Ready (l, rt))"
  by (auto simp: codex_kept_def ready_effect runtime_simps mark_snapshot_defs)

lemma kept_write_stdin: "write_stdin en bytes rt = (r, rt') \<Longrightarrow> codex_kept (l, rt) (l, rt')"
  by (cases rule: write_stdin_cases [of en bytes rt]) (auto simp: codex_kept_same)

lemma kept_initialize:
  assumes "on_initialize_response en started m st = (w, st1)"
  shows "codex_kept st st1"
proof -
  obtain l rt where st: "st = (l, rt)" by (metis surj_pair)
  have "codex_kept (l, rt) (l', rt')" if "continue_codex_app_server_startup_after_initialize en c rt = (r, rt')"
    and "l' = l \<or> l' = l\<lparr>cl_phase := ThreadPending\<rparr>" for r rt' c l'
    using that by (auto simp: continue_codex_app_server_startup_after_initialize_def split: prod.splits option.splits
      dest!: kept_write_stdin [where l = l] intro: codex_kept_trans codex_kept_same)
  with assms show ?thesis unfolding st
    by (auto simp: on_initialize_response_def codex_kept_same split: if_splits option.splits prod.splits
      intro!: codex_kept_fail)
qed

lemma kept_thread_error: "on_thread_error en started m st = (w, st1) \<Longrightarrow> codex_kept st st1"
  by (cases st) (auto simp: on_thread_error_def codex_kept_same split: if_splits option.splits intro!: codex_kept_fail)

lemma kept_thread_id: "codex_kept st (on_thread_id en started m st)"
proof -
  obtain l rt where st: "st = (l, rt)" by (metis surj_pair)
  have "codex_kept (l, rt) (l\<lparr>cl_phase := PhaseReady, cl_thread_id := Some i,
      cl_conn := (cl_conn l)\<lparr>pc_native_thread_id := Some i\<rparr>\<rparr>, snd (update_chat_thread_native_id t i rt))" for i t
    by (simp add: codex_kept_def runtime_simps)
  note kept = codex_kept_trans [OF this codex_kept_ready]
  show ?thesis unfolding st
    by (simp add: on_thread_id_def codex_kept_same kept split: option.splits)
qed

lemma ca_set_fields [simp]: "ca_pending_interactions (set_active_turn_id t c) = ca_pending_interactions c"
  "ca_pending_interactions (set_native_session_id t c) = ca_pending_interactions c"
  by (simp_all add: set_active_turn_id_def set_native_session_id_def)

lemma codex_kept_locals:
  assumes "cl_pending l' = cl_pending l" and "cl_sequence l' = cl_sequence l" and "cl_fallback l' = cl_fallback l"
    and "ca_pending_interactions (cl_control l') = ca_pending_interactions (cl_control l)"
  shows "codex_kept (l, rt) (l', rt)"
  using assms by (auto simp: codex_kept_def ids_ok_def)

lemma kept_input_taken:
  assumes "on_input_taken en started m i p (l, rt) = (w, st1)"
  shows "codex_kept (l, rt) st1"
  using assms
  by (auto simp: on_input_taken_def codex_kept_def loop_fail_fields runtime_simps with_inputs_def
    split: prod.splits sum.splits if_splits)

lemma kept_steer_refused:
  assumes "on_steer_refused en started p (l, rt) = (w, st1)"
  shows "codex_kept (l, rt) st1"
proof (cases "cl_thread_id l")
  case None
  with assms show ?thesis
    by (auto simp: on_steer_refused_def runtime_simps intro: codex_kept_trans [OF codex_kept_fail(3) [OF codex_kept_same(5)] codex_kept_retire])
next
  case (Some t)
  show ?thesis
  proof (cases st1)
    case (Pair l' rt')
    with assms Some show ?thesis
      by (auto simp: on_steer_refused_def write_stdin_def codex_kept_def loop_fail_fields Let_def runtime_simps
        mark_snapshot_defs ids_ok_fallback ids_ok_fallback [simplified] intro!: busy_mark_ok note_input_ok split: option.splits)
  qed
qed

lemma kept_input_rejected: "codex_kept (l, rt) (on_input_rejected en started err p (l, rt))"
proof -
  have "codex_kept (l, rt) (l, send e (case err of Some e \<Rightarrow> snd (with_inputs (f e) rt) | None \<Rightarrow> rt))" for e f
    by (auto simp: codex_kept_same split: option.split intro: codex_kept_fail(3))
  note kept = codex_kept_trans [OF this codex_kept_retire]
  show ?thesis
    unfolding on_input_rejected_def Let_def split_conv by (rule kept)
qed

lemma kept_response:
  assumes "on_input_response en started m st = (w, st1)"
  shows "codex_kept st st1"
proof -
  obtain l rt where st: "st = (l, rt)" by (metis surj_pair)
  have "codex_kept (l, rt) (l\<lparr>cl_pending := map_remove i (cl_pending l)\<rparr>, rt)" for i
    by (simp add: codex_kept_def ids_ok_remove)
  note trans = codex_kept_trans [OF this]
  note kept = kept_input_taken [THEN trans] kept_steer_refused [THEN trans] kept_input_rejected [THEN trans]
  show ?thesis using assms unfolding st
    by (auto simp: on_input_response_def Let_def codex_kept_same kept split: option.splits CodexInputResponseAction.splits
      dest: kept(1,2))
qed

lemma kept_all_terminal: "mark_all_terminal en is rt = (r, rt') \<Longrightarrow> codex_kept (l, rt) (l, rt')"
  by (induction en "is" rt arbitrary: r rt' rule: mark_all_terminal.induct)
    (auto simp: codex_kept_def runtime_simps with_inputs_def split: prod.splits sum.splits)

lemma kept_turn_completed:
  assumes "on_turn_completed en started m (l, rt) = (w, st1)"
  shows "codex_kept (l, rt) st1"
proof -
  let ?done = "codex_turn_id_from_message m"
  let ?l2 = "complete_locals ?done l"
  let ?finished = "map snd (filter (joined_turn ?done) (cl_active_inputs l))"
  obtain r rt1 where run: "mark_all_terminal en ?finished rt = (r, rt1)" by (metis surj_pair)
  have l2: "codex_kept (l, rt1) (?l2, rt1)" for rt1
    by (rule codex_kept_locals) (simp_all add: complete_locals_def Let_def)
  have kept: "codex_kept (l, rt) (?l2, rt1)" by (rule codex_kept_trans [OF kept_all_terminal [OF run] l2])
  have turn: "codex_kept (?l2, rt1) (?l2, snd (send_turn_completed en started t s c rt1))" for t s c
    by (simp add: codex_kept_def runtime_simps finish_timed_ok)
  note kept = kept codex_kept_fail(1) [OF kept] codex_kept_trans [OF kept turn]
    codex_kept_trans [OF kept codex_kept_trans [OF turn codex_kept_ready]]
  show ?thesis
  proof (cases r)
    case None
    with assms run kept show ?thesis
      by (auto simp: on_turn_completed_def Let_def case_prod_beta split: if_splits)
  next
    case (Some err)
    with assms run kept show ?thesis
      by (auto simp: on_turn_completed_def Let_def)
  qed
qed

lemma kept_turn: "on_turn en started m st = (w, st1) \<Longrightarrow> codex_kept st st1"
  by (cases st) (auto simp: on_turn_def kept_turn_completed codex_kept_same split: if_splits option.splits
    intro!: codex_kept_locals)

lemma kept_plan_control:
  "ca_pending_interactions c = [] \<Longrightarrow> ca_pending_interactions (snd (codex_plan_control control c)) = []"
  by (cases control) (auto simp: codex_plan_control_def interaction_response_def Let_def set_controls_def take_request_id_def
    split: option.splits)

lemma kept_send_input:
  assumes "codex_send_input en started claim input visible kind delivery (l, rt) = Some st1"
  shows "codex_kept (l, rt) st1"
  using send_input_cases [OF assms]
proof (elim disjE exE conjE)
  assume "given_back en started claim (l, rt) st1"
  then show ?thesis
    by (auto simp: given_back_def codex_kept_def give_back_def loop_fail_fields runtime_simps)
next
  fix t assume w: "input_written en started input delivery t (l, rt) st1"
  obtain l' rt' where st1: "st1 = (l', rt')" by (metis surj_pair)
  show ?thesis using w unfolding st1
    by (intro codex_keptI)
      (auto simp: input_written_def Let_def mark_snapshot_defs busy_mark_ok note_input_ok elim!: ids_ok_start)
qed

lemma plan_not_emulated: "fst (codex_plan_control control c) \<noteq> HarnessControlPlan.Emulated e"
  by (cases control) (auto simp: codex_plan_control_def Let_def set_controls_def take_request_id_def split: option.splits prod.splits)

lemma kept_apply_control: "codex_kept (l, rt) (codex_apply_control en started control (l, rt))"
proof -
  let ?plan = "fst (codex_plan_control control (cl_control l))"
  obtain c rt1 where run: "apply_provider_control_plan en started ''codex-app-server'' ?plan (cl_conn l, rt) = (c, rt1)"
    by (metis surj_pair)
  have "codex_apply_control en started control (l, rt) =
      (l\<lparr>cl_control := snd (codex_plan_control control (cl_control l)), cl_conn := c\<rparr>, rt1)"
    using run by (simp add: codex_apply_control_def case_prod_beta)
  with control_plan_fields [OF run plan_not_emulated] show ?thesis
    by (auto simp: codex_kept_def kept_plan_control ids_ok_def)
qed

lemma kept_interrupt: "codex_kept st (codex_interrupt en started st)"
proof -
  obtain l rt where st: "st = (l, rt)" by (metis surj_pair)
  let ?l = "l\<lparr>cl_control := set_native_session_id (cl_thread_id l) (cl_control l)\<rparr>"
  have "codex_kept (l, rt) (?l, rt)" by (rule codex_kept_locals) simp_all
  note step = codex_kept_trans [OF this kept_apply_control]
  have mark: "codex_kept (l, rt) (l, update_snapshot (\<lambda>s. s\<lparr>sn_ready := False, sn_runtime_state := r\<rparr>) rt)" for l rt r
    by (simp add: codex_kept_def runtime_simps)
  obtain l1 rt1 where run: "codex_apply_control en started HarnessControl.Interrupt (?l, rt) = (l1, rt1)" by (metis surj_pair)
  from codex_kept_trans [OF step [of en started HarnessControl.Interrupt, unfolded run] mark] show ?thesis
    by (simp add: st codex_interrupt_def run)
qed

lemma kept_command:
  assumes "codex_command en started command st = Some st1"
  shows "codex_kept st st1"
proof -
  obtain l rt where st: "st = (l, rt)" by (metis surj_pair)
  show ?thesis using assms unfolding st codex_command_def
    by (cases command) (auto simp: codex_kept_same kept_send_input kept_apply_control kept_interrupt intro: codex_kept_fail(2))
qed

interpretation codex_kept: codex_relation started codex_kept
proof (unfold_locales, goal_cases)
  case (1 st)
  show ?case by (cases st) (simp add: codex_kept_same)
next
  case (2 a b c)
  then show ?case by (rule codex_kept_trans)
next
  case (3 l rt n p t raw)
  show ?case by (simp add: codex_kept_def runtime_simps)
next
  case (4 l rt en d)
  show ?case by (simp add: codex_kept_def runtime_simps)
qed (simp_all add: kept_initialize kept_thread_error kept_thread_id kept_response kept_turn kept_command
  codex_kept_fail codex_kept_same)

definition example_loop :: codex_loop where
  "example_loop = (codex_loop_new example_snapshot example_connection None 0)\<lparr>cl_phase := PhaseReady\<rparr>"

section \<open>Properties\<close>

lemma requeued_row: "\<exists>r. requeue_claimed_chat_input_front now claim rows = rows @ [r]
    \<and> qi_thread_id r = qi_thread_id claim \<and> payload_of r = payload_of claim
    \<and> (qi_id r = qi_id claim \<or> (\<forall>x\<in>set rows. qi_id r < qi_id x))"
proof -
  have "restore_id claim rows < qi_id x" if "restore_id claim rows \<noteq> qi_id claim" "x \<in> set rows" for x
    using that min_id_lower [OF that(2)] by (auto simp: restore_id_def split: if_splits)
  then show ?thesis by (auto simp: requeue_claimed_chat_input_front_def payload_of_def)
qed

text \<open>
  C14. A queued input handed to the loop is never lost, where the store takes it back when asked to:
  either a request that ends in its text is written to the agent, waits under its id and the queue stays
  as it is, or it is back in the queue, as one more row of its thread with the same text, visible text
  and kind, under its own id where that is free and else before every row, with the session marked failed
  and both announced.
\<close>

theorem queued_input_delivered_or_requeued:
  assumes run: "codex_command en started (SendQueuedInput claim) (l, rt) = Some (l', rt')"
    and db: "env_db en ''requeue'' = None"
  shows "(\<exists>t p before. cl_thread_id l = Some t \<and> pr_input p = before @ qi_input claim \<and> rt_queue rt' = rt_queue rt
       \<and> rt_stdin rt' = rt_stdin rt @ [write_turn_start_request_with_id (next_turn_request_id (cl_sequence l + 1))
            (codex_turn_start_params (cl_conn l) t (pr_input p))]
       \<and> pr_local_input_id p = provider_input_local_id (sn_session_id started) (cl_sequence l + 1)
       \<and> cl_pending l' = bt_insert (next_turn_request_id (cl_sequence l + 1)) p (cl_pending l)
       \<and> sn_ready (rt_snapshot rt') = False)
    \<or> (l' = l \<and> rt_queue rt' = requeue_claimed_chat_input_front (env_now en) claim (rt_queue rt)
       \<and> (\<exists>r. rt_queue rt' = rt_queue rt @ [r] \<and> qi_thread_id r = qi_thread_id claim \<and> payload_of r = payload_of claim
            \<and> (qi_id r = qi_id claim \<or> (\<forall>x\<in>set (rt_queue rt). qi_id r < qi_id x)))
       \<and> (\<exists>err. rt_sent rt' = rt_sent rt @ [ChatQueueUpdated (qi_thread_id claim), session_error started err])
       \<and> sn_runtime_state (rt_snapshot rt') = AgentSessionState.Failed \<and> \<not> sn_ready (rt_snapshot rt'))"
proof -
  from run have "codex_send_input en started (Some claim) (qi_input claim) (qi_visible_input claim)
      (qi_input_kind claim) Auto (l, rt) = Some (l', rt')" by (simp add: codex_command_def)
  from send_input_cases [OF this] show ?thesis
  proof (elim disjE exE conjE)
    assume "given_back en started (Some claim) (l, rt) (l', rt')"
    then obtain err rt1 where "give_back en started (Some claim) err (l, rt1) = (l', rt')"
      and "rt_queue rt1 = rt_queue rt" "rt_sent rt1 = rt_sent rt"
      by (auto simp: given_back_def)
    with give_back_fields [OF this(1) db] requeued_row [of "env_now en" claim "rt_queue rt"] show ?thesis by auto
  next
    fix t assume "cl_thread_id l = Some t" "input_written en started (qi_input claim) Auto t (l, rt) (l', rt')"
    then show ?thesis
      by (auto simp: input_written_def Let_def codex_input_route_def input_line_def mark_snapshot_defs)
  qed
qed

theorem queued_input_delivered_or_requeued_witness:
  "\<exists>l' rt'. codex_command (example_env (\<lambda>_. None)) example_snapshot (SendQueuedInput (example_claim ''hi''))
       (example_loop\<lparr>cl_thread_id := None\<rparr>, example_runtime) = Some (l', rt')
     \<and> rt_queue rt' = requeue_claimed_chat_input_front ''now'' (example_claim ''hi'') []"
proof -
  let ?run = "codex_command (example_env (\<lambda>_. None)) example_snapshot (SendQueuedInput (example_claim ''hi''))
       (example_loop\<lparr>cl_thread_id := None\<rparr>, example_runtime)"
  have "?run \<noteq> None"
    by (simp add: codex_command_def codex_send_input_def is_first_turn_def durable_thread_is_first_user_turn_def
      example_claim_def example_env_def example_loop_def)
  then obtain l' rt' where run: "?run = Some (l', rt')" by auto
  from queued_input_delivered_or_requeued [OF run] run show ?thesis
    by (intro exI [of _ l'] exI [of _ rt']) (auto simp: example_env_def example_loop_def example_runtime_def)
qed

text \<open>
  Plan mode does not reach the agent: after the daemon told the loop to switch codex to plan mode, the
  adapter knows, and yet every turn the loop starts asks for full access to the machine, as before. The
  read-only sandbox is only in the adapter's own requests, which the loop never sends.
\<close>

lemma codex_plan_mode_turns_run_unsandboxed:
  "\<exists>l'. codex_command en started (ApplyControl (SetPermissionMode (Some CODEX_PLAN_PERMISSION_MODE))) (l, rt) = Some (l', rt)
     \<and> ca_plan_mode (cl_control l')
     \<and> tp_sandbox_policy (codex_turn_start_params (cl_conn l') t x) = Some (obj [(''type'', JStr ''dangerFullAccess'')])
     \<and> input_line l' t Start i x = input_line l t Start i x"
  by (simp add: codex_command_def codex_apply_control_def codex_plan_control_def apply_provider_control_plan_def
    codex_turn_start_params_def codex_sandbox_for_approval_def input_line_def)

lemma reached_kept:
  assumes "codex_run started es (codex_loop_new started c general n, rt) = Some (l', rt')"
  shows "rt_interactions rt' = rt_interactions rt" "ca_pending_interactions (cl_control l') = []" "ids_ok l'"
    "ledger_ok (sn_turns (rt_snapshot rt)) \<Longrightarrow> ledger_ok (sn_turns (rt_snapshot rt'))"
proof -
  have "codex_kept (codex_loop_new started c general n, rt) (l', rt')" by (rule codex_kept.keeps_run [OF assms])
  then show "rt_interactions rt' = rt_interactions rt" "ca_pending_interactions (cl_control l') = []" "ids_ok l'"
    "ledger_ok (sn_turns (rt_snapshot rt)) \<Longrightarrow> ledger_ok (sn_turns (rt_snapshot rt'))"
    by (simp_all add: codex_kept_def codex_loop_new_def codex_new_def ids_ok_def bt_sorted_def)
qed

text \<open>
  Whatever the agent writes and the daemon sends, no ask of a codex session is ever registered, and an
  answer to one, by any id, is refused with an error: the loop gives the agent's requests to no one.
\<close>

lemma codex_asks_never_surface:
  assumes "codex_run started es (codex_loop_new started c general n, rt) = Some (l', rt')"
  shows "rt_interactions rt' = rt_interactions rt
    \<and> codex_command en started (ApplyControl (ResolveInteraction native resolution)) (l', rt') = Some (l', send
        (session_error started (''no pending Codex request '' @ native @ '' to answer'')) rt')"
  using reached_kept [OF assms]
  by (simp add: codex_command_def codex_apply_control_def codex_plan_control_def apply_provider_control_plan_def
    interaction_response_def)

text \<open>An approval the agent asks for, as the line and what its parser makes of it.\<close>

definition example_ask :: "string \<Rightarrow> json option" where
  "example_ask s = (if s = ''ask'' then Some (obj [(''id'', JInt 0), (''method'', JStr ''item/commandExecution/requestApproval''),
     (''params'', obj [(''command'', JArr [JStr ''rm''])])]) else None)"

text \<open>
  C15. The ids of requests do not collide: at any point of a session of fewer than 1999990 inputs, the id
  the next input's request gets, and the id the next refused steer is retried under, belong to no waiting
  request, and neither is one of the handshake's.
\<close>

theorem codex_request_ids_are_fresh:
  assumes "codex_run started es (codex_loop_new started c general n, rt) = Some (l', rt')"
    and "cl_sequence l' < 1999990" and "cl_fallback l' < 2 ^ 63"
  shows "next_turn_request_id (cl_sequence l' + 1) \<notin> {1, 2} \<union> fst ` set (cl_pending l')
    \<and> next_fallback_request_id (saturating_add (cl_fallback l') 1) \<notin> {1, 2} \<union> fst ` set (cl_pending l')
    \<and> next_turn_request_id (cl_sequence l' + 1) \<noteq> next_fallback_request_id (saturating_add (cl_fallback l') 1)"
proof -
  have ok: "ids_ok l'" by (rule reached_kept [OF assms(1)])
  have "i \<le> cl_sequence l' + 10 \<or> 2000001 \<le> i \<and> i \<le> cl_fallback l' + 2000000" if "i \<in> fst ` set (cl_pending l')" for i
    using ok that assms(2,3) unfolding ids_ok_def input_id_up_to_def fallback_id_up_to_def
    by (force simp: next_turn_request_id_def next_fallback_request_id_def saturating_add_def)
  moreover have "next_turn_request_id (cl_sequence l' + 1) = cl_sequence l' + 11"
    "next_fallback_request_id (saturating_add (cl_fallback l') 1) = cl_fallback l' + 2000001"
    using assms(2,3) by (simp_all add: next_turn_request_id_def next_fallback_request_id_def saturating_add_def)
  ultimately show ?thesis using assms(2) by fastforce
qed

theorem codex_request_ids_are_fresh_witness:
  "\<exists>l' rt'. codex_run example_snapshot [] (codex_loop_new example_snapshot example_connection None 0, example_runtime) = Some (l', rt')
     \<and> next_turn_request_id (cl_sequence l' + 1) \<notin> {1, 2} \<union> fst ` set (cl_pending l')"
proof -
  let ?l = "codex_loop_new example_snapshot example_connection None 0"
  have run: "codex_run example_snapshot [] (?l, example_runtime) = Some (?l, example_runtime)" by simp
  from codex_request_ids_are_fresh [OF run] run show ?thesis by (auto simp: codex_loop_new_def)
qed

lemma first_enqueue_marked:
  assumes "enqueue_provider_input en started i input v k d n rt = (Inr (), rt')" and "rt_inputs rt = []"
  shows "\<exists>rows. mark_written now i (rt_inputs rt') = (Inr (), rows)"
  using assms
  by (auto simp: enqueue_provider_input_def with_inputs_def enqueue_def get_input_def mark_written_def update_state_def
    pir_id_def Let_def count_where_def split: option.splits)

lemma healthy_input_reaches_write:
  assumes "cl_thread_id l = Some t" and "rt_inputs rt = []" and "env_stdin en = (\<lambda>_. None)" and "env_db en = (\<lambda>_. None)"
    and "qi_input_kind claim = ArchcarInputKind.User"
  shows "\<exists>i p rec n rt2. codex_command en started (SendQueuedInput claim) (l, rt) =
      after_write en started i p rec (unwrap_or (qi_visible_input claim) (qi_input claim)) ArchcarInputKind.User n (l, rt2)
    \<and> rt_queue rt2 = rt_queue rt"
proof -
  let ?i = "provider_input_local_id (sn_session_id started) (cl_sequence l + 1)"
  obtain rt1 where enq: "enqueue_provider_input en started ?i (qi_input claim) (qi_visible_input claim) ArchcarInputKind.User Auto
      (pc_native_thread_id (cl_conn l)) rt = (Inr (), rt1)"
    by (simp add: enqueue_provider_input_def assms)
  obtain rows where "mark_written (env_now en) ?i (rt_inputs rt1) = (Inr (), rows)"
    using first_enqueue_marked [OF enq] assms by blast
  with enq enqueue_provider_input_fields(2) [OF enq] show ?thesis
    by (simp add: codex_command_def codex_send_input_def is_first_turn_def durable_thread_is_first_user_turn_def
      codex_write_input_def write_stdin_def with_inputs_def update_snapshot_def codex_input_route_def Let_def assms)
      (intro exI conjI, rule refl, simp)
qed

text \<open>
  One message hangs a session for good: on a healthy loop, a first message that is the URL
  \<open>https://a/b?x=1&token=v?key=2\<close> is written to the agent, and the step never returns.
\<close>

lemma user_url_hangs_session:
  assumes "cl_thread_id l = Some t" and "rt_inputs rt = []" and "env_stdin en = (\<lambda>_. None)" and "env_db en = (\<lambda>_. None)"
    and "qi_input claim = ''https://a/b?x=1&token=v?key=2''" and "qi_visible_input claim = None"
    and "qi_input_kind claim = ArchcarInputKind.User"
  shows "codex_command en started (SendQueuedInput claim) (l, rt) = None"
  using healthy_input_reaches_write [OF assms(1-4,7), of started] assms(5,6)
  by (auto simp: after_write_def persist_runtime_user_input_def format_input_audit_log_def nested_url_hangs)

text \<open>
  Interrupting an idle session makes it busy: with no turn active nothing is written to the agent and the
  session reports that there is nothing to interrupt, and yet it is marked as running and not ready, with
  its turns all completed, so no completion will come to make it ready again.
\<close>

lemma idle_interrupt_leaves_session_busy:
  assumes "ca_active_turn_id (cl_control l) = None" and "latest_turn_completed (sn_turns (rt_snapshot rt))"
  shows "\<exists>l' rt'. codex_command en started InterruptTurn (l, rt) = Some (l', rt')
    \<and> rt_stdin rt' = rt_stdin rt
    \<and> rt_sent rt' = rt_sent rt @ [session_error started ''no active Codex turn is available to interrupt'']
    \<and> \<not> sn_ready (rt_snapshot rt') \<and> sn_runtime_state (rt_snapshot rt') = AgentSessionState.Running
    \<and> latest_turn_completed (sn_turns (rt_snapshot rt'))"
  using assms
  by (auto simp: codex_command_def codex_interrupt_def codex_apply_control_def codex_plan_control_def set_native_session_id_def
    apply_provider_control_plan_def runtime_simps split: option.split)

end
