(* ===== verification/Codex_Framing.thy ===== *)
theory Codex_Framing
  imports Codex_Facts
begin

text \<open>
  The framing of what the codex loop writes to the agent: each writer of Codex_Wire, the adapter's
  control writes and its answers make one line, and so does every write of a whole life of the loop, a
  second interpretation of \<open>codex_relation\<close>.
\<close>

section \<open>Framing of what the loop writes\<close>

definition framed :: "string \<Rightarrow> bool" where
  "framed b \<longleftrightarrow> (\<exists>v. b = json_to_string v @ [CHR 0x0A] \<and> CHR 0x0A \<notin> set (json_to_string v))"

named_theorems framed_intros \<open>the lines the loop writes are framed\<close>

lemma framed_encode: "one_line v \<Longrightarrow> framed (encode_line v)"
  by (auto simp: framed_def encode_line_def printed_no_newline)

declare one_line_bt_insert(2) [simp]

lemma one_line_insert_string [simp]: "one_line_members m \<Longrightarrow> one_line_members (insert_string k v m)"
  by (simp add: insert_string_def split: option.split)

lemma one_line_bt_of [simp]: "(\<forall>(k, v)\<in>set kvs. one_line v) \<Longrightarrow> one_line_members (bt_of kvs)"
  using one_line_obj [of kvs] by (simp add: obj_def)

lemma one_line_inputs [simp]: "one_line_list (map user_input_value is)"
proof (induction "is")
  case (Cons i "is")
  then show ?case by (cases i) simp
qed simp

lemma turn_start_one_line:
  "(\<And>v. tp_sandbox_policy p = Some v \<Longrightarrow> one_line v) \<Longrightarrow> framed (write_turn_start_request_with_id i p)"
  by (auto simp: write_turn_start_request_with_id_def write_jsonl_def request_value_def turn_start_value_def Let_def
    intro!: framed_encode split: option.split)

lemma codex_turn_start_framed [framed_intros]: "framed (write_turn_start_request_with_id i (codex_turn_start_params c t x))"
  by (rule turn_start_one_line) (auto simp: codex_turn_start_params_def)

lemma framed_lines [framed_intros]:
  "framed (write_turn_steer_request_with_id i p2)" "framed (write_turn_interrupt_request_with_id i p3)"
  "framed (write_initialize_request_with_id i p4)" "framed write_initialized_notification"
  "framed (write_thread_start_request_with_id i p5)" "framed (startup_request c)"
  by (auto simp: write_turn_steer_request_with_id_def write_turn_interrupt_request_with_id_def startup_request_def
    write_initialize_request_with_id_def write_initialized_notification_def write_thread_start_request_with_id_def
    write_jsonl_def request_value_def turn_steer_value_def turn_interrupt_value_def initialize_params_value_def
    thread_start_value_def intro!: framed_encode split: option.split)

lemma input_line_framed [framed_intros]: "framed (input_line l t r i x)"
  by (auto simp: input_line_def intro: framed_intros split: CodexInputRoute.split)

lemma one_line_strings [simp]: "one_line_list (map JStr xs)"
  by (induction xs) simp_all

lemma answer_parts [simp]:
  "one_line (codex_review_decision r)" "one_line (codex_answers r)" "one_line (codex_request_id_value native)"
  by (cases r, simp_all) (auto simp: codex_answers_def codex_request_id_value_def split: option.split
    ProviderInteractionResolution.split)

lemma answer_framed:
  assumes "interaction_response native r s = (Some w, s')"
  shows "framed (nw_payload w)"
proof -
  obtain answer where "w = codex_write None (encode_line (obj [(''jsonrpc'', JStr ''2.0''),
      (''id'', codex_request_id_value native), (''result'', answer)]))" "one_line answer"
    using assms unfolding interaction_response_def Let_def
    by (auto split: option.splits if_splits)
  then show ?thesis by (simp add: codex_write_def framed_encode)
qed

lemma plan_framed:
  "fst (codex_plan_control control c) = HarnessControlPlan.NativeWrite w \<Longrightarrow> framed (nw_payload w)"
  by (cases control) (auto simp: codex_plan_control_def Let_def take_request_id_def set_controls_def codex_write_def
    intro: framed_intros dest: answer_framed split: option.splits prod.splits if_splits)

text \<open>What a step writes, framed.\<close>

definition writes_framed :: "codex_state \<Rightarrow> codex_state \<Rightarrow> bool" where
  "writes_framed = (\<lambda>(l, rt) (l', rt'). \<exists>bs. rt_stdin rt' = rt_stdin rt @ bs \<and> (\<forall>b\<in>set bs. framed b))"

lemma writes_refl: "rt_stdin rt' = rt_stdin rt \<Longrightarrow> writes_framed (l, rt) (l', rt')"
  by (simp add: writes_framed_def)

lemma writes_one: "rt_stdin rt' = rt_stdin rt @ [b] \<Longrightarrow> framed b \<Longrightarrow> writes_framed (l, rt) (l', rt')"
  by (auto simp: writes_framed_def)

lemma writes_trans: "writes_framed a b \<Longrightarrow> writes_framed b c \<Longrightarrow> writes_framed a c"
  by (fastforce simp: writes_framed_def split: prod.splits)

lemma writes_stdin: "write_stdin en b rt = (r, rt') \<Longrightarrow> framed b \<Longrightarrow> writes_framed (l, rt) (l', rt')"
  by (cases rule: write_stdin_cases [of en b rt]) (auto intro: writes_refl writes_one)

lemma stdin_kept [runtime_simps]:
  "rt_stdin (snd (loop_fail en started e (l, rt))) = rt_stdin rt"
  "rt_stdin (snd (codex_effect en started Ready (l, rt))) = rt_stdin rt"
  "rt_stdin (snd (codex_retire en started i (l, rt))) = rt_stdin rt"
  by (simp_all add: loop_fail_fields ready_effect codex_retire_cases runtime_simps Let_def)

lemma writes_same: "rt_stdin (snd st1) = rt_stdin rt \<Longrightarrow> writes_framed (l, rt) st1"
  by (cases st1) (simp add: writes_refl)

lemma writes_startup:
  assumes "continue_codex_app_server_startup_after_initialize en c rt = (r, rt')"
  shows "writes_framed (l, rt) (l', rt')"
proof -
  obtain e rt1 where first: "write_stdin en write_initialized_notification rt = (e, rt1)" by (metis surj_pair)
  note w = writes_stdin [OF first framed_lines(4), of l l']
  show ?thesis
  proof (cases e)
    case None
    with assms first have "write_stdin en (startup_request c) rt1 = (r, rt')"
      by (simp add: continue_codex_app_server_startup_after_initialize_def)
    from writes_trans [OF w writes_stdin [OF this framed_lines(6)]] show ?thesis .
  next
    case (Some x)
    with assms first w show ?thesis by (simp add: continue_codex_app_server_startup_after_initialize_def)
  qed
qed

lemma writes_initialize:
  assumes "on_initialize_response en started m st = (w, st1)"
  shows "writes_framed st st1"
proof -
  obtain l rt where st: "st = (l, rt)" by (metis surj_pair)
  obtain r rt1 where run: "continue_codex_app_server_startup_after_initialize en (cl_conn l) rt = (r, rt1)" by (metis surj_pair)
  note w = writes_startup [OF run, of l]
  have "writes_framed (l, rt) (loop_fail en started e (l, kill_child rt1))" for e
    by (rule writes_trans [OF w [of l]]) (simp add: writes_same runtime_simps)
  with assms run w show ?thesis unfolding st
    by (auto simp: on_initialize_response_def runtime_simps split: if_splits option.splits intro: writes_same)
qed

lemma writes_response:
  assumes "on_input_response en started m st = (w, st1)"
  shows "writes_framed st st1"
proof -
  obtain l rt where st: "st = (l, rt)" by (metis surj_pair)
  have taken: "writes_framed (l, rt) st2" if "on_input_taken en started m i p (l0, rt) = (w', st2)" for i p w' st2 l0
    using that by (auto simp: on_input_taken_def with_inputs_def loop_fail_fields runtime_simps
      split: prod.splits sum.splits if_splits intro: writes_same)
  have refused: "writes_framed (l, rt) st2" if run: "on_steer_refused en started p (l0, rt) = (w', st2)" for p w' st2 l0
  proof (cases "cl_thread_id l0")
    case None
    with run show ?thesis by (auto simp: on_steer_refused_def runtime_simps intro: writes_same)
  next
    case (Some t)
    with run show ?thesis
      by (auto simp: on_steer_refused_def Let_def write_stdin_def loop_fail_fields runtime_simps
        intro: writes_refl writes_one framed_intros split: option.splits)
  qed
  have rejected: "writes_framed (l, rt) (on_input_rejected en started e p (l0, rt))" for e p l0
    by (simp add: on_input_rejected_def Let_def runtime_simps writes_same split: option.split)
  show ?thesis using assms unfolding st
    by (auto simp: on_input_response_def Let_def writes_refl rejected split: option.splits CodexInputResponseAction.splits
      dest: taken refused)
qed

lemma stdin_all_terminal: "mark_all_terminal en is rt = (r, rt') \<Longrightarrow> rt_stdin rt' = rt_stdin rt"
  by (induction en "is" rt arbitrary: r rt' rule: mark_all_terminal.induct)
    (auto simp: runtime_simps with_inputs_def split: prod.splits sum.splits)

lemma writes_turn: "on_turn en started m st = (w, st1) \<Longrightarrow> writes_framed st st1"
proof -
  assume run: "on_turn en started m st = (w, st1)"
  obtain l rt where st: "st = (l, rt)" by (metis surj_pair)
  let ?ids = "map snd (filter (joined_turn (codex_turn_id_from_message m)) (cl_active_inputs l))"
  obtain r rt1 where all: "mark_all_terminal en ?ids rt = (r, rt1)" by (metis surj_pair)
  from run all stdin_all_terminal [OF all] show ?thesis unfolding st
    by (cases r) (auto simp: on_turn_def on_turn_completed_def Let_def case_prod_beta runtime_simps writes_refl
      split: if_splits option.splits intro!: writes_same)
qed

lemma writes_send_input:
  assumes "codex_send_input en started claim input visible kind delivery (l, rt) = Some st1"
  shows "writes_framed (l, rt) st1"
  using send_input_cases [OF assms]
proof (elim disjE exE conjE)
  assume "given_back en started claim (l, rt) st1"
  then show ?thesis
    by (auto simp: given_back_def give_back_def loop_fail_fields runtime_simps writes_refl intro: writes_one framed_intros)
next
  fix t assume "input_written en started input delivery t (l, rt) st1"
  then show ?thesis
    by (auto simp: input_written_def Let_def split: prod.splits intro: writes_one framed_intros)
qed

lemma writes_apply_control: "writes_framed (l, rt) (codex_apply_control en started control (l', rt))"
proof -
  let ?plan = "fst (codex_plan_control control (cl_control l'))"
  obtain c rt1 where run: "apply_provider_control_plan en started ''codex-app-server'' ?plan (cl_conn l', rt) = (c, rt1)"
    by (metis surj_pair)
  have "codex_apply_control en started control (l', rt) =
      (l'\<lparr>cl_control := snd (codex_plan_control control (cl_control l')), cl_conn := c\<rparr>, rt1)"
    using run by (simp add: codex_apply_control_def case_prod_beta)
  with control_plan_fields(9) [OF run plan_not_emulated] show ?thesis
    by (auto intro: writes_refl writes_one plan_framed)
qed

lemma writes_command:
  assumes "codex_command en started command st = Some st1"
  shows "writes_framed st st1"
proof -
  obtain l rt where st: "st = (l, rt)" by (metis surj_pair)
  obtain l1 rt1 where run: "codex_apply_control en started HarnessControl.Interrupt
      (l\<lparr>cl_control := set_native_session_id (cl_thread_id l) (cl_control l)\<rparr>, rt) = (l1, rt1)" by (metis surj_pair)
  have "writes_framed (l, rt) (l1, rt1)" using writes_apply_control [of l rt en started HarnessControl.Interrupt] run by metis
  then have interrupt: "writes_framed (l, rt) (codex_interrupt en started (l, rt))"
    by (simp add: codex_interrupt_def run writes_framed_def runtime_simps)
  show ?thesis using assms interrupt unfolding st codex_command_def
    by (cases command) (auto simp: writes_send_input writes_apply_control runtime_simps writes_refl)
qed

interpretation writes: codex_relation started writes_framed
proof (unfold_locales, goal_cases)
  case (1 st)
  show ?case by (cases st) (simp add: writes_refl)
next
  case (2 a b c)
  then show ?case by (rule writes_trans)
next
  case (6 en m st w st1)
  then show ?case by (auto simp: on_thread_error_def loop_fail_fields runtime_simps writes_refl
    split: prod.splits if_splits option.splits intro: writes_same)
next
  case (7 st en m)
  show ?case by (cases st) (simp add: on_thread_id_def runtime_simps writes_same split: option.split)
qed (simp_all add: writes_initialize writes_response writes_turn writes_command writes_refl runtime_simps)




end
