(* ===== verification/Daemon.thy ===== *)
theory Daemon
  imports Session_Runtime
begin

text \<open>
  How the daemon hands queued inputs to sessions (\<open>crates/core/src/archcar/server.rs\<close>): the look-ups of
  a thread's session, the readiness a send must respect, the drain of a thread's queue under its guard,
  and the daemon's reaction to a session's events. A session is its handle: the snapshot and the
  channel of commands the session's loop has still to read.

  Not modelled here: what restoring a session from the store and starting one do (\<open>restored\<close> is the
  state the former leaves, the latter is recorded as asked for), naming, summaries and pull requests.
\<close>

record SessionHandle =
  sh_snapshot :: SessionSnapshot
  sh_commands :: "SessionCommand list"
  sh_open :: bool

record server =
  sv_sessions :: "(int \<times> SessionHandle) list"
  sv_queue :: queue
  sv_interactions :: interactions
  sv_threads :: "ThreadRow list"
  sv_draining :: "int list"
  sv_reruns :: "int list"
  sv_sent :: "ArchcarEvent list"
  sv_starting :: "(string \<times> int \<times> string) list"
  sv_shutting_down :: bool

definition broadcast :: "ArchcarEvent \<Rightarrow> server \<Rightarrow> server" where
  "broadcast e sv = sv\<lparr>sv_sent := sv_sent sv @ [e]\<rparr>"

definition kind_tracks_turns :: "env \<Rightarrow> string \<Rightarrow> bool" where
  "kind_tracks_turns en kind \<longleftrightarrow> env_harness en kind \<noteq> None"

definition validate_send_input_delivery :: "env \<Rightarrow> SessionSnapshot \<Rightarrow> ArchcarInputKind \<Rightarrow> ArchcarInputDelivery \<Rightarrow> string + unit" where
  "validate_send_input_delivery en snapshot kind delivery =
     (if kind = RawTerminal \<and> sn_kind snapshot \<noteq> ''shell''
      then Inl ''raw terminal input is only supported for shell sessions''
      else if delivery = Immediate then Inr ()
      else if kind_tracks_turns en (sn_kind snapshot) \<and> \<not> sn_ready snapshot
      then Inl (sn_kind snapshot @ '' session '' @ show_int (sn_session_id snapshot)
        @ '' is not ready for automatic input; use immediate delivery to steer the active turn, or, for an agent that cannot be steered, to send right after it'')
      else Inr ())"

section \<open>Looking up a session\<close>

definition is_live :: "int \<Rightarrow> string \<Rightarrow> SessionSnapshot \<Rightarrow> bool" where
  "is_live thread_id kind s \<longleftrightarrow> sn_thread_id s = thread_id \<and> sn_kind s = kind \<and> sn_status s = Running"

definition live_session_handle_for_session :: "int \<Rightarrow> server \<Rightarrow> SessionHandle option" where
  "live_session_handle_for_session session_id sv = map_of (sv_sessions sv) session_id"

definition live_session_handle_for_thread :: "int \<Rightarrow> string \<Rightarrow> server \<Rightarrow> int option" where
  "live_session_handle_for_thread thread_id kind sv =
     map_option fst (find (\<lambda>(_, h). is_live thread_id kind (sh_snapshot h)) (sv_sessions sv))"

definition ready_session_handle_for_thread :: "int \<Rightarrow> string \<Rightarrow> server \<Rightarrow> int option" where
  "ready_session_handle_for_thread thread_id kind sv = map_option fst
     (find (\<lambda>(_, h). is_live thread_id kind (sh_snapshot h) \<and> sn_ready (sh_snapshot h)) (sv_sessions sv))"

definition update_handle :: "int \<Rightarrow> (SessionHandle \<Rightarrow> SessionHandle) \<Rightarrow> server \<Rightarrow> server" where
  "update_handle i f sv = sv\<lparr>sv_sessions := map (\<lambda>(j, h). (j, if j = i then f h else h)) (sv_sessions sv)\<rparr>"

section \<open>Readiness\<close>

definition note_session_not_ready_for_queue :: "env \<Rightarrow> SessionSnapshot \<Rightarrow> (bool \<times> AgentSessionState) option \<times> SessionSnapshot" where
  "note_session_not_ready_for_queue en s =
     (if \<not> kind_tracks_turns en (sn_kind s) then (None, s)
      else (Some (sn_ready s, sn_runtime_state s), mark_session_busy_for_input (env_mono en) s))"

definition restore_session_readiness :: "(bool \<times> AgentSessionState) option \<Rightarrow> SessionSnapshot \<Rightarrow> SessionSnapshot" where
  "restore_session_readiness before s = (case before of None \<Rightarrow> s
     | Some (ready, runtime_state) \<Rightarrow>
         if \<not> sn_ready s \<and> sn_runtime_state s = AgentSessionState.Running
         then s\<lparr>sn_ready := ready, sn_runtime_state := runtime_state\<rparr> else s)"

definition turn_boundary_mark :: "int \<Rightarrow> SessionSnapshot \<Rightarrow> SessionSnapshot" where
  "turn_boundary_mark thread_id s =
     (if sn_thread_id s = thread_id \<and> sn_kind s \<in> {''codex'', ''claude''} \<and> sn_status s = Running
         \<and> latest_turn_completed (sn_turns s)
      then s\<lparr>sn_ready := True, sn_runtime_state := AgentSessionState.WaitingForInput\<rparr> else s)"

definition mark_session_ready_at_turn_boundary :: "int \<Rightarrow> int \<Rightarrow> server \<Rightarrow> server" where
  "mark_session_ready_at_turn_boundary session_id thread_id sv =
     update_handle session_id (\<lambda>h. h\<lparr>sh_snapshot := turn_boundary_mark thread_id (sh_snapshot h)\<rparr>) sv"

section \<open>Draining a thread's queue\<close>

text \<open>The workspace of a thread, where the store knows both: \<open>workspace_of\<close>.\<close>

definition workspace_needing_session_for_queue :: "(int \<Rightarrow> string option) \<Rightarrow> int \<Rightarrow> string \<Rightarrow> server \<Rightarrow> string option" where
  "workspace_needing_session_for_queue workspace_of thread_id kind sv =
     (if kind \<notin> {''codex'', ''claude''} then None
      else if live_session_handle_for_thread thread_id kind sv \<noteq> None then None
      else workspace_of thread_id)"

definition start_session_for_queued_thread :: "(int \<Rightarrow> string option) \<Rightarrow> int \<Rightarrow> string \<Rightarrow> server \<Rightarrow> server" where
  "start_session_for_queued_thread workspace_of thread_id kind sv =
     (case workspace_needing_session_for_queue workspace_of thread_id kind sv of None \<Rightarrow> sv
      | Some workspace \<Rightarrow> sv\<lparr>sv_starting := sv_starting sv @ [(workspace, thread_id, kind)]\<rparr>)"

text \<open>Handing a claimed input to the session: busy first, then the command; undone if the channel is closed.\<close>

definition hand_over :: "env \<Rightarrow> int \<Rightarrow> int \<Rightarrow> QueuedChatInputRecord \<Rightarrow> server \<Rightarrow> server" where
  "hand_over en session_id thread_id claim sv =
     (case map_of (sv_sessions sv) session_id of None \<Rightarrow> sv
      | Some h \<Rightarrow>
        (let (before, s1) = note_session_not_ready_for_queue en (sh_snapshot h)
         in if sh_open h
            then broadcast (ChatQueueUpdated thread_id) (update_handle session_id
                   (\<lambda>h. h\<lparr>sh_snapshot := s1, sh_commands := sh_commands h @ [SendQueuedInput claim]\<rparr>) sv)
            else (let sv1 = update_handle session_id
                        (\<lambda>h. h\<lparr>sh_snapshot := restore_session_readiness before s1\<rparr>) sv
                  in case env_db en ''requeue'' of Some _ \<Rightarrow> sv1
                     | None \<Rightarrow> sv1\<lparr>sv_queue := requeue_claimed_chat_input_front (env_now en) claim (sv_queue sv1)\<rparr>)))"

definition drain_queued_input_once :: "env \<Rightarrow> (int \<Rightarrow> string option) \<Rightarrow> (server \<Rightarrow> server) \<Rightarrow> int \<Rightarrow> server \<Rightarrow> server" where
  "drain_queued_input_once en workspace_of restored thread_id sv =
     (case peek_next_queued_chat_input thread_id (sv_queue sv) of None \<Rightarrow> sv
      | Some queued \<Rightarrow>
        if qi_input_kind queued = RawTerminal then sv
        else
        (let kind = qi_session_kind queued;
             (handle, sv1) = (case ready_session_handle_for_thread thread_id kind sv of
                 Some i \<Rightarrow> (Some i, sv)
               | None \<Rightarrow> if workspace_of thread_id = None then (None, sv)
                   else (ready_session_handle_for_thread thread_id kind (restored sv), restored sv))
         in case handle of
              None \<Rightarrow> start_session_for_queued_thread workspace_of thread_id kind sv1
            | Some i \<Rightarrow>
              (case map_option (\<lambda>h. validate_send_input_delivery en (sh_snapshot h) (qi_input_kind queued) Auto)
                      (map_of (sv_sessions sv1) i) of
                 Some (Inr _) \<Rightarrow>
                   (case claim_next_queued_chat_input thread_id (sv_queue sv1) of
                      (None, q) \<Rightarrow> sv1
                    | (Some claim, q) \<Rightarrow> hand_over en i thread_id claim (sv1\<lparr>sv_queue := q\<rparr>))
               | _ \<Rightarrow> sv1)))"

section \<open>The drain guard\<close>

text \<open>
  Any number of threads of the daemon call the drain; each critical section of the server's lock is one
  atomic step. A caller either takes the guard or records a rerun and leaves; the one holding the guard
  drains, looks for a rerun, and on finding none drops the guard.
\<close>

datatype drain_pc = Begin | Draining | Checking | Dropping | Done

definition guard_begin :: "int \<Rightarrow> server \<Rightarrow> bool \<times> server" where
  "guard_begin thread_id sv =
     (if thread_id \<in> set (sv_draining sv)
      then (False, sv\<lparr>sv_reruns := List.insert thread_id (sv_reruns sv)\<rparr>)
      else (True, sv\<lparr>sv_draining := thread_id # sv_draining sv, sv_reruns := removeAll thread_id (sv_reruns sv)\<rparr>))"

definition guard_drop :: "int \<Rightarrow> server \<Rightarrow> server" where
  "guard_drop thread_id sv = sv\<lparr>sv_draining := removeAll thread_id (sv_draining sv)\<rparr>"

definition take_rerun :: "int \<Rightarrow> server \<Rightarrow> bool \<times> server" where
  "take_rerun thread_id sv = (thread_id \<in> set (sv_reruns sv), sv\<lparr>sv_reruns := removeAll thread_id (sv_reruns sv)\<rparr>)"

fun caller_step :: "(server \<Rightarrow> server) \<Rightarrow> int \<Rightarrow> drain_pc \<Rightarrow> server \<Rightarrow> drain_pc \<times> server" where
  "caller_step drain t Begin sv = (let (taken, sv1) = guard_begin t sv in (if taken then Draining else Done, sv1))"
| "caller_step drain t Draining sv = (Checking, drain sv)"
| "caller_step drain t Checking sv = (let (rerun, sv1) = take_rerun t sv in (if rerun then Draining else Dropping, sv1))"
| "caller_step drain t Dropping sv = (Done, guard_drop t sv)"
| "caller_step drain t Done sv = (Done, sv)"

text \<open>
  A schedule: a caller takes its next step, or something else changes the server, an input put in the
  queue, say. Every caller drains the queue of a chat thread of its own choice, \<open>thread_of\<close>; \<open>drains\<close> is the drain of
  each thread.
\<close>

datatype move = Caller nat | Change "server \<Rightarrow> server"

fun schedule_run :: "(int \<Rightarrow> server \<Rightarrow> server) \<Rightarrow> (nat \<Rightarrow> int) \<Rightarrow> move list \<Rightarrow> (nat \<Rightarrow> drain_pc) \<times> server
    \<Rightarrow> (nat \<Rightarrow> drain_pc) \<times> server" where
  "schedule_run drains thread_of [] w = w"
| "schedule_run drains thread_of (Caller c # ms) (pc, sv) =
     (let (p, sv1) = caller_step (drains (thread_of c)) (thread_of c) (pc c) sv
      in schedule_run drains thread_of ms (pc(c := p), sv1))"
| "schedule_run drains thread_of (Change f # ms) (pc, sv) = schedule_run drains thread_of ms (pc, f sv)"

text \<open>One caller alone, to its end: \<open>drain_queued_input_for_thread\<close> called while nothing else runs.\<close>

definition drain_queued_input_for_thread :: "env \<Rightarrow> (int \<Rightarrow> string option) \<Rightarrow> (server \<Rightarrow> server) \<Rightarrow> int \<Rightarrow> server \<Rightarrow> server" where
  "drain_queued_input_for_thread en workspace_of restored t sv =
     snd (schedule_run (drain_queued_input_once en workspace_of restored) (\<lambda>_. t)
       [Caller 0, Caller 0, Caller 0, Caller 0] (\<lambda>_. Begin, sv))"

section \<open>Events of a session\<close>

definition expire_pending_interactions_for_session :: "string \<Rightarrow> int \<Rightarrow> server \<Rightarrow> server" where
  "expire_pending_interactions_for_session now session_id sv = fold
     (\<lambda>r sv. (let rows = expire now (pi_id r) (sv_interactions sv)
              in case get_interaction (pi_id r) rows of None \<Rightarrow> sv\<lparr>sv_interactions := rows\<rparr>
                 | Some x \<Rightarrow> broadcast (ProviderInteractionResolved x) (sv\<lparr>sv_interactions := rows\<rparr>)))
     (filter (\<lambda>r. id_session_id (pi_request r) = session_id) (list_interactions None True (sv_interactions sv))) sv"

text \<open>
  A plan to approve at the end of a codex turn in plan mode. What the daemon reads of the thread is the
  record \<open>plan_view\<close>: its mode, its provider, native id and workspace, the last text of the
  assistant as the projection shows it, and the hash of a plan.
\<close>

record plan_view =
  pv_plan_mode :: "int \<Rightarrow> bool"
  pv_thread :: "int \<Rightarrow> (string \<times> string option \<times> string) option"
  pv_latest_text :: "int \<Rightarrow> string option"
  pv_fingerprint :: "string \<Rightarrow> string"

definition plan_draft :: "plan_view \<Rightarrow> int \<Rightarrow> int \<Rightarrow> string option \<Rightarrow> string \<Rightarrow> string \<Rightarrow> ProviderInteractionDraft" where
  "plan_draft pv thread_id session_id native workspace plan = \<lparr>id_provider_key = ''codex'', id_workspace = workspace,
     id_thread_id = thread_id, id_session_id = session_id, id_native_session_id = native,
     id_native_id = ''codex-plan-'' @ show_int thread_id @ ''-'' @ pv_fingerprint pv plan,
     id_kind = PlanApproval, id_title = ''Plan ready for review'', id_detail = plan, id_questions = [],
     id_auto_resolution_ms = None, id_native_request = obj [(''source'', JStr ''codex-plan-turn'')]\<rparr>"

definition announce_plan :: "env \<Rightarrow> int \<Rightarrow> string \<Rightarrow> ProviderInteractionRecord \<Rightarrow> server \<Rightarrow> server" where
  "announce_plan en thread_id plan interaction sv =
     (case save_plan_row en thread_id (pi_id interaction) plan (sv_threads sv) of
        (Inl e, threads) \<Rightarrow> broadcast (ProviderInteractionRequested interaction) (sv\<lparr>sv_threads := threads\<rparr>)
      | (Inr path, threads) \<Rightarrow>
          (let rows = attach_plan_path (pi_id interaction) path (sv_interactions sv)
           in broadcast (ProviderInteractionRequested (unwrap_or (get_interaction (pi_id interaction) rows) interaction))
                (sv\<lparr>sv_threads := threads, sv_interactions := rows\<rparr>)))"

definition raise_codex_plan_approval :: "env \<Rightarrow> plan_view \<Rightarrow> int \<Rightarrow> int \<Rightarrow> server \<Rightarrow> server" where
  "raise_codex_plan_approval en pv thread_id session_id sv =
     (if \<not> pv_plan_mode pv thread_id then sv
      else (case pv_thread pv thread_id of None \<Rightarrow> sv
        | Some (provider, native, workspace) \<Rightarrow>
          if provider \<noteq> ''codex'' then sv
          else if list_ex (\<lambda>r. id_kind (pi_request r) = PlanApproval) (list_interactions (Some thread_id) True (sv_interactions sv))
          then sv
          else (case pv_latest_text pv thread_id of None \<Rightarrow> sv
            | Some plan \<Rightarrow>
              (case register (env_fingerprint en) (env_now en) (env_uuid en)
                      (plan_draft pv thread_id session_id native workspace plan) (sv_interactions sv) of
                 (Inl e, rows) \<Rightarrow> sv\<lparr>sv_interactions := rows\<rparr>
               | (Inr interaction, rows) \<Rightarrow> announce_plan en thread_id plan interaction (sv\<lparr>sv_interactions := rows\<rparr>)))))"

definition drain_thread_of :: "ArchcarEvent \<Rightarrow> int option" where
  "drain_thread_of event = (case event of SessionReady _ t \<Rightarrow> Some t | TurnCompletedEvent _ t _ _ \<Rightarrow> Some t | _ \<Rightarrow> None)"

definition handle_session_event :: "env \<Rightarrow> plan_view \<Rightarrow> (int \<Rightarrow> string option) \<Rightarrow> (server \<Rightarrow> server) \<Rightarrow> ArchcarEvent \<Rightarrow> server \<Rightarrow> server" where
  "handle_session_event en pv workspace_of restored event sv =
     (let sv1 = (case event of
            TurnCompletedEvent s t _ _ \<Rightarrow> raise_codex_plan_approval en pv t s (mark_session_ready_at_turn_boundary s t sv)
          | _ \<Rightarrow> sv);
          sv2 = (case event of SessionExited s _ \<Rightarrow> expire_pending_interactions_for_session (env_now en) s sv1 | _ \<Rightarrow> sv1);
          sv3 = (case event of SessionExited s _ \<Rightarrow> sv2\<lparr>sv_sessions := filter (\<lambda>(i, _). i \<noteq> s) (sv_sessions sv2)\<rparr> | _ \<Rightarrow> sv2);
          sv4 = broadcast event sv3
      in case drain_thread_of event of None \<Rightarrow> sv4
         | Some t \<Rightarrow> drain_queued_input_for_thread en workspace_of restored t sv4)"


section \<open>The guard\<close>

definition holds_guard :: "drain_pc \<Rightarrow> bool" where
  "holds_guard p \<longleftrightarrow> p \<in> {Draining, Checking, Dropping}"

definition guard_ok :: "(nat \<Rightarrow> int) \<Rightarrow> (nat \<Rightarrow> drain_pc) \<times> server \<Rightarrow> bool" where
  "guard_ok thread_of = (\<lambda>(pc, sv).
     (\<forall>a b. holds_guard (pc a) \<and> holds_guard (pc b) \<and> thread_of a = thread_of b \<longrightarrow> a = b)
     \<and> (\<forall>t. t \<in> set (sv_draining sv) \<longleftrightarrow> (\<exists>a. thread_of a = t \<and> holds_guard (pc a))))"

text \<open>The moves that leave the guard to its callers.\<close>

definition keeps_guard :: "(server \<Rightarrow> server) \<Rightarrow> bool" where
  "keeps_guard f \<longleftrightarrow> (\<forall>sv. sv_draining (f sv) = sv_draining sv)"

lemma guard_ok_same:
  assumes "holds_guard p = holds_guard (pc c)" and "sv_draining sv1 = sv_draining sv"
  shows "guard_ok th (pc(c := p), sv1) = guard_ok th (pc, sv)"
proof -
  have "holds_guard ((pc(c := p)) a) = holds_guard (pc a)" for a using assms(1) by simp
  then show ?thesis using assms(2) unfolding guard_ok_def split_conv by presburger
qed

lemma caller_step_guard:
  assumes ok: "guard_ok th (pc, sv)" and drain: "keeps_guard drain" and step: "caller_step drain (th c) (pc c) sv = (p, sv1)"
  shows "guard_ok th (pc(c := p), sv1)"
proof (cases "pc c")
  case Begin
  show ?thesis
  proof (cases "th c \<in> set (sv_draining sv)")
    case True
    with step Begin have "p = Done" "sv_draining sv1 = sv_draining sv" by (auto simp: guard_begin_def)
    with ok Begin show ?thesis by (simp add: guard_ok_same holds_guard_def)
  next
    case False
    with step Begin have p: "p = Draining" "sv_draining sv1 = th c # sv_draining sv" by (auto simp: guard_begin_def)
    have "\<not> holds_guard (pc a)" if "th a = th c" for a using ok False that by (auto simp: guard_ok_def)
    moreover have "holds_guard ((pc(c := p)) a) \<longleftrightarrow> a = c \<or> holds_guard (pc a)" for a by (simp add: p(1) holds_guard_def)
    ultimately show ?thesis using ok p(2) unfolding guard_ok_def by auto
  qed
next
  case Dropping
  then have held: "holds_guard (pc c)" by (simp add: holds_guard_def)
  have other: "\<not> holds_guard (pc a)" if "a \<noteq> c" "th a = th c" for a using ok held that by (auto simp: guard_ok_def)
  have p: "p = Done" "set (sv_draining sv1) = set (sv_draining sv) - {th c}" using step Dropping by (auto simp: guard_drop_def)
  have "holds_guard ((pc(c := p)) a) \<longleftrightarrow> a \<noteq> c \<and> holds_guard (pc a)" for a by (simp add: p(1) holds_guard_def)
  then show ?thesis using ok other p(2) unfolding guard_ok_def by auto
next
  case Draining
  with step drain have "p = Checking" "sv_draining sv1 = sv_draining sv" by (auto simp: keeps_guard_def)
  with ok Draining show ?thesis by (simp add: guard_ok_same holds_guard_def)
next
  case Checking
  with step have "p = Draining \<or> p = Dropping" "sv_draining sv1 = sv_draining sv"
    by (auto simp: take_rerun_def split: if_splits)
  with ok Checking show ?thesis by (auto simp: guard_ok_same holds_guard_def)
next
  case Done
  with step ok show ?thesis by (simp add: fun_upd_idem)
qed

lemma schedule_guard:
  assumes "guard_ok th (pc, sv)" and "\<And>t. keeps_guard (drains t)" and "\<forall>f. Change f \<in> set ms \<longrightarrow> keeps_guard f"
  shows "guard_ok th (schedule_run drains th ms (pc, sv))"
  using assms
proof (induction ms arbitrary: pc sv)
  case (Cons m ms)
  show ?case
  proof (cases m)
    case (Caller c)
    obtain p sv1 where step: "caller_step (drains (th c)) (th c) (pc c) sv = (p, sv1)" by (metis surj_pair)
    with Cons Caller caller_step_guard [OF Cons.prems(1,2) step] show ?thesis by simp
  next
    case (Change f)
    with Cons.prems have "guard_ok th (pc, f sv)" by (auto simp: guard_ok_def keeps_guard_def)
    with Cons Change show ?thesis by simp
  qed
qed simp

lemma update_handle_draining [simp]: "sv_draining (update_handle i f sv) = sv_draining sv"
  "sv_queue (update_handle i f sv) = sv_queue sv"
  by (simp_all add: update_handle_def)

lemma hand_over_draining [simp]: "sv_draining (hand_over en i t claim sv) = sv_draining sv"
  by (simp add: hand_over_def broadcast_def Let_def case_prod_beta split: option.split)

lemma start_session_draining [simp]: "sv_draining (start_session_for_queued_thread workspace_of t kind sv) = sv_draining sv"
  by (simp add: start_session_for_queued_thread_def split: option.split)

lemma drain_keeps_guard:
  assumes "keeps_guard restored"
  shows "keeps_guard (drain_queued_input_once en workspace_of restored t)"
proof -
  have r: "sv_draining (restored sv) = sv_draining sv" for sv using assms by (simp add: keeps_guard_def)
  show ?thesis unfolding keeps_guard_def drain_queued_input_once_def Let_def case_prod_beta
    by (simp add: r split: option.split sum.split)
qed

text \<open>
  C17. Drains of one thread exclude each other: whatever the interleaving of callers, each draining a thread of its own choice, and
  whatever else happens to the server in between, at most one caller of a thread is past the guard, and the server's record
  names exactly the threads that have such a caller; so one drain neither lets a second of its thread in nor frees another thread.
\<close>

theorem drain_guard_is_exclusive:
  assumes "sv_draining sv = []" and "\<And>t. keeps_guard (restored t)" and "\<forall>f. Change f \<in> set ms \<longrightarrow> keeps_guard f"
    and "schedule_run (\<lambda>t. drain_queued_input_once en workspace_of (restored t) t) thread_of ms (\<lambda>_. Begin, sv) = (pc, sv')"
  shows "(\<forall>a b. pc a \<in> {Draining, Checking, Dropping} \<and> pc b \<in> {Draining, Checking, Dropping} \<and> thread_of a = thread_of b
        \<longrightarrow> a = b)
    \<and> (\<forall>t. t \<in> set (sv_draining sv') \<longleftrightarrow> (\<exists>a. thread_of a = t \<and> pc a \<in> {Draining, Checking, Dropping}))"
proof -
  have "guard_ok thread_of (\<lambda>_. Begin, sv)" using assms(1) by (simp add: guard_ok_def holds_guard_def)
  from schedule_guard [where drains = "\<lambda>t. drain_queued_input_once en workspace_of (restored t) t",
      OF this drain_keeps_guard [OF assms(2)] assms(3)]
  have "guard_ok thread_of (pc, sv')" by (simp add: assms(4))
  then show ?thesis unfolding guard_ok_def holds_guard_def by simp
qed

section \<open>A server to try the drain on\<close>

definition example_handle :: SessionHandle where
  "example_handle = \<lparr>sh_snapshot = \<lparr>sn_session_id = 7, sn_thread_id = 3, sn_workspace = ''w'', sn_kind = ''codex'', sn_pid = 1,
      sn_status = Running, sn_runtime_state = AgentSessionState.WaitingForInput, sn_ready = True, sn_capabilities = None,
      sn_screen = [], sn_turns = ledger_default\<rparr>, sh_commands = [], sh_open = True\<rparr>"

definition example_server :: server where
  "example_server = \<lparr>sv_sessions = [(7, example_handle)], sv_queue = [], sv_interactions = [], sv_threads = [], sv_draining = [],
     sv_reruns = [], sv_sent = [], sv_starting = [], sv_shutting_down = False\<rparr>"

definition daemon_env :: env where
  "daemon_env = \<lparr>env_now = ''now'', env_millis = 5, env_mono = 9, env_uuid = ''u'', env_fingerprint = id_native_id,
     env_from_str = (\<lambda>_. None), env_json_key = (\<lambda>_. None), env_b64 = (\<lambda>_. None),
     env_harness = (\<lambda>k. if k = ''codex'' then Some CODEX_MANAGED_HARNESS_DESCRIPTOR else None),
     env_stdin = (\<lambda>_. None), env_plan_file = (\<lambda>_ _. None), env_db = (\<lambda>_. None)\<rparr>"

text \<open>An input of the example's thread put in its queue.\<close>

definition example_input :: "string \<Rightarrow> QueuedChatInputRecord" where
  "example_input content = \<lparr>qi_id = 1, qi_thread_id = 3, qi_input = content, qi_visible_input = None,
     qi_input_kind = ArchcarInputKind.User, qi_session_kind = ''codex'', qi_created_at = ''now'', qi_updated_at = ''now''\<rparr>"

definition arrive :: "string \<Rightarrow> server \<Rightarrow> server" where
  "arrive content sv = sv\<lparr>sv_queue := sv_queue sv @ [example_input content]\<rparr>"

text \<open>
  A wake-up can be lost: a caller that asks for a drain after the running drain has looked for reruns
  and before it has dropped its guard is turned away, and the request it recorded is seen by nobody. Its
  input stays in the queue of an idle session that is ready for it, with no drain running, though the
  same input drained by the same caller alone is handed over.
\<close>

lemma drain_wakeup_can_be_lost:
  "\<exists>pc sv. schedule_run (drain_queued_input_once daemon_env workspace_of (\<lambda>s. s)) (\<lambda>_. 3)
       [Caller 0, Caller 0, Caller 0, Change (arrive content), Caller 1, Caller 0] (\<lambda>_. Begin, example_server) = (pc, sv)
     \<and> pc 0 = Done \<and> pc 1 = Done \<and> sv_draining sv = [] \<and> sv_reruns sv = [3]
     \<and> sv_queue sv = [example_input content] \<and> sv_sessions sv = [(7, example_handle)]
     \<and> (\<exists>h. map_of (sv_sessions (drain_queued_input_for_thread daemon_env workspace_of (\<lambda>s. s) 3 sv)) 7 = Some h
          \<and> sh_commands h = [SendQueuedInput (example_input content)])"
proof -
  have empty: "drain_queued_input_once daemon_env workspace_of (\<lambda>s. s) 3 sv = sv" if "sv_queue sv = []" for sv
    using that by (simp add: drain_queued_input_once_def peek_next_queued_chat_input_def list_queued_chat_inputs_def)
  have run: "schedule_run (drain_queued_input_once daemon_env workspace_of (\<lambda>s. s)) (\<lambda>_. 3)
       [Caller 0, Caller 0, Caller 0, Change (arrive content), Caller 1, Caller 0] (\<lambda>_. Begin, example_server)
     = ((\<lambda>_. Begin)(1 := Done, 0 := Done), example_server\<lparr>sv_queue := [example_input content], sv_reruns := [3]\<rparr>)"
    by (simp add: empty guard_begin_def take_rerun_def guard_drop_def arrive_def example_server_def)
  let ?sv = "example_server\<lparr>sv_queue := [example_input content], sv_reruns := [3]\<rparr>"
  let ?sv1 = "drain_queued_input_once daemon_env workspace_of (\<lambda>s. s) 3 (?sv\<lparr>sv_draining := [3], sv_reruns := []\<rparr>)"
  have "sv_sessions ?sv1 = [(7, example_handle\<lparr>sh_commands := [SendQueuedInput (example_input content)],
       sh_snapshot := mark_session_busy_for_input 9 (sh_snapshot example_handle)\<rparr>)]" "sv_reruns ?sv1 = []"
    by (simp_all add: drain_queued_input_once_def peek_next_queued_chat_input_def list_queued_chat_inputs_def
      ready_session_handle_for_thread_def is_live_def validate_send_input_delivery_def claim_next_queued_chat_input_def
      hand_over_def note_session_not_ready_for_queue_def kind_tracks_turns_def update_handle_def broadcast_def
      delete_where_def Let_def example_server_def example_handle_def example_input_def daemon_env_def)
  then show ?thesis unfolding run
    by (simp add: drain_queued_input_for_thread_def guard_begin_def take_rerun_def guard_drop_def example_server_def)
qed




lemma start_session_keeps [simp]:
  "sv_sessions (start_session_for_queued_thread workspace_of t kind sv) = sv_sessions sv"
  "sv_queue (start_session_for_queued_thread workspace_of t kind sv) = sv_queue sv"
  by (simp_all add: start_session_for_queued_thread_def split: option.split)





theorem drain_guard_is_exclusive_witness:
  "\<exists>pc sv'. schedule_run (\<lambda>t. drain_queued_input_once daemon_env (\<lambda>_. None) (\<lambda>s. s) t) (\<lambda>c. if c = 2 then 4 else 3)
       [Caller 0, Caller 2, Change (arrive ''hi''), Caller 1, Caller 0] (\<lambda>_. Begin, example_server) = (pc, sv')
     \<and> (\<forall>t. t \<in> set (sv_draining sv') \<longleftrightarrow> (\<exists>a. (if a = 2 then 4 else 3) = t \<and> pc a \<in> {Draining, Checking, Dropping}))"
proof -
  let ?ms = "[Caller 0, Caller 2, Change (arrive ''hi''), Caller 1, Caller 0]"
  let ?th = "\<lambda>c :: nat. if c = 2 then 4 else 3 :: int"
  obtain pc sv' where run: "schedule_run (\<lambda>t. drain_queued_input_once daemon_env (\<lambda>_. None) (\<lambda>s. s) t) ?th ?ms
      (\<lambda>_. Begin, example_server) = (pc, sv')" by (metis surj_pair)
  have "sv_draining example_server = []" "keeps_guard (\<lambda>s. s)" "\<forall>f. Change f \<in> set ?ms \<longrightarrow> keeps_guard f"
    by (auto simp: example_server_def keeps_guard_def arrive_def)
  from drain_guard_is_exclusive [OF this run] run show ?thesis by blast
qed

end
