(* ===== verification/Handoff.thy ===== *)
theory Handoff
  imports Daemon Codex_Facts
begin

text \<open>
  The daemon and the codex loop together (\<open>crates/core/src/archcar/server.rs\<close> and \<open>session.rs\<close>): both
  hold the session's snapshot, the daemon marks it when it hands an input over and the loop when it
  writes the input, and the marks are undone separately.
\<close>

text \<open>What a rejected start leaves of the ledger, when the daemon had marked the session busy for it too.\<close>

lemma retire_second_mark:
  assumes ok: "ledger_ok t" and idle: "latest_turn_completed t"
  shows "retire_input i (note_input i (busy_mark b (busy_mark a t))) = u \<Longrightarrow>
    \<not> latest_turn_completed u \<and> tg_started u = Suc (Suc (tg_completed u))"
proof -
  have c: "tg_completed t = tg_started t" using idle by (simp add: latest_turn_completed_def)
  have bound: "\<forall>g\<in>set (generations_of i t). g \<le> tg_started t" using generations_of_bound [OF ok] by blast
  assume u: "retire_input i (note_input i (busy_mark b (busy_mark a t))) = u"
  let ?t = "note_input i (busy_mark b (busy_mark a t))"
  have gens: "generations_of i ?t = generations_of i t @ [Suc (Suc (tg_started t))]"
    by (simp add: generations_of_def note_input_def busy_mark_def note_started_def)
  have "tg_retired t = []" using ok c by (cases "tg_retired t") (auto simp: ledger_ok_def)
  then have "catch_up (tg_started t) (tg_retired t @ filter (\<lambda>g. tg_started t < g) (generations_of i t) @ [Suc (Suc (tg_started t))])
      = (tg_started t, [Suc (Suc (tg_started t))])"
    using bound by (subst catch_up.simps) (auto simp: filter_empty_conv not_less)
  with u gens c show ?thesis
    by (auto simp: retire_input_def catch_up_over_retired_def Let_def latest_turn_completed_def
      note_input_def busy_mark_def note_started_def)
qed

text \<open>
  A start the agent rejects leaves the session busy for good: when the daemon hands a queued input to an
  idle session, both it and the loop mark the session busy, two turns in all. The rejected request retires
  the loop's alone, so the session stays marked as running a turn that never began: it is not ready, the
  mark at a turn boundary does not apply, and the next drain finds no session to hand an input to.
\<close>

lemma rejected_start_leaves_session_busy:
  assumes idle: "ledger_ok (sn_turns s)" "latest_turn_completed (sn_turns s)"
    and handed: "env_harness en (sn_kind s) \<noteq> None" "rt_snapshot rt = snd (note_session_not_ready_for_queue en s)"
    and written: "codex_command en started (SendQueuedInput claim) (l, rt) = Some (l', rt')" "rt_queue rt' = rt_queue rt"
      "env_db en ''requeue'' = None"
    and rejected: "codex_response_id m = Some (next_turn_request_id (cl_sequence l + 1))" "codex_response_error m = Some e"
      "on_input_response en started m (l', rt') = (w, l2, rt2)"
    and server: "sv_sessions sv = [(i, h)]" "sh_snapshot h = rt_snapshot rt2"
  shows "\<not> latest_turn_completed (sn_turns (rt_snapshot rt2)) \<and> \<not> sn_ready (rt_snapshot rt2)
    \<and> sn_runtime_state (rt_snapshot rt2) = AgentSessionState.Running
    \<and> turn_boundary_mark t (rt_snapshot rt2) = rt_snapshot rt2
    \<and> ready_session_handle_for_thread t kind sv = None"
proof -
  let ?n = "cl_sequence l + 1"
  let ?i = "provider_input_local_id (sn_session_id started) ?n"
  from written(1) have "codex_send_input en started (Some claim) (qi_input claim) (qi_visible_input claim)
      (qi_input_kind claim) Auto (l, rt) = Some (l', rt')" by (simp add: codex_command_def)
  moreover have "\<not> given_back en started (Some claim) (l, rt) (l', rt')"
  proof
    assume "given_back en started (Some claim) (l, rt) (l', rt')"
    then obtain err rt1 where returned: "give_back en started (Some claim) err (l, rt1) = (l', rt')"
      and queue: "rt_queue rt1 = rt_queue rt" by (auto simp: given_back_def)
    with queue give_back_fields(2) [OF returned written(3)] written(2) show False
      by (simp add: requeue_claimed_chat_input_front_def)
  qed
  ultimately obtain t' where "input_written en started (qi_input claim) Auto t' (l, rt) (l', rt')"
    using send_input_cases by blast
  then obtain p where p: "pr_local_input_id p = ?i" "pr_kind p = StartRequest"
    and pending: "cl_pending l' = bt_insert (next_turn_request_id ?n) p (cl_pending l)"
    and snapshot: "rt_snapshot rt' = note_snapshot_input ?i (mark_session_busy_for_input (env_mono en) (rt_snapshot rt))"
    by (auto simp: input_written_def Let_def codex_input_route_def request_kind_def)
  let ?u = "retire_input ?i (sn_turns (rt_snapshot rt'))"
  have turns: "sn_turns (rt_snapshot rt') = note_input ?i (busy_mark (env_mono en) (busy_mark (env_mono en) (sn_turns s)))"
    using handed by (simp add: snapshot note_session_not_ready_for_queue_def kind_tracks_turns_def mark_snapshot_defs)
  have live: "\<not> latest_turn_completed ?u" using retire_second_mark [OF idle] turns by simp
  have "rt_snapshot rt2 = mark_snapshot_running_not_ready ((rt_snapshot rt')\<lparr>sn_turns := ?u\<rparr>)"
    using rejected live
    by (simp add: on_input_response_def pending bt_insert_lookup p codex_input_response_action_def on_input_rejected_def
      codex_retire_cases runtime_simps Let_def) (auto simp: runtime_simps)
  with live server show ?thesis
    by (auto simp: mark_snapshot_running_not_ready_def turn_boundary_mark_def ready_session_handle_for_thread_def)
qed

lemma example_input_written:
  "\<exists>l' rt'. codex_command daemon_env example_snapshot (SendQueuedInput (example_claim ''hi'')) (example_loop,
       example_runtime\<lparr>rt_snapshot := snd (note_session_not_ready_for_queue daemon_env example_snapshot)\<rparr>) = Some (l', rt')
    \<and> rt_queue rt' = rt_queue example_runtime"
proof -
  let ?rt = "example_runtime\<lparr>rt_snapshot := snd (note_session_not_ready_for_queue daemon_env example_snapshot)\<rparr>"
  have "redact_sensitive_text (\<lambda>_. None) ''hi'' = Some ''hi''" by code_simp
  moreover have "cl_thread_id example_loop = Some ''n''" "rt_inputs ?rt = []"
    by (simp_all add: example_loop_def codex_loop_new_def example_connection_def example_runtime_def)
  ultimately show ?thesis
    using healthy_input_reaches_write [of example_loop "''n''" ?rt daemon_env "example_claim ''hi''" example_snapshot]
    by (auto simp: after_write_def persist_runtime_user_input_def format_input_audit_log_def daemon_env_def example_claim_def
      example_runtime_def append_runtime_provider_event_def runtime_simps Let_def)
qed

definition example_rejection :: CodexAppServerMessage where
  "example_rejection = \<lparr>xm_raw_json = [], xm_value = obj [(''id'', JInt 11),
     (''error'', obj [(''message'', JStr ''overloaded'')])], xm_message_kind = Response, xm_method = None,
     xm_id = Some (JInt 11)\<rparr>"

end
