(* ===== verification/Claude_Session.thy ===== *)
theory Claude_Session
  imports Provider_Loop Claude_Adapter
begin

text \<open>
  The session loop of Claude (\<open>run_claude_stream_session_loop\<close> and its helpers in
  \<open>crates/core/src/archcar/session.rs\<close>): the start of the transport, the lines the agent streams, with
  the asks the loop answers itself, the inputs and controls of the daemon, and the restart of the
  transport a control change asks for. One step is one line of the agent, one command, or the end of an
  iteration of the loop, where a restart may run.

  Left to the environment: whether the replacement of the agent's process can be spawned with the
  arguments it is given, and its pid (\<open>spawn\<close>); the settings for the hooks, which name the executable.
\<close>

section \<open>State\<close>

record claude_loop =
  ul_adapter :: ClaudeManagedAdapter
  ul_conn :: ProviderProcessConnection
  ul_sequence :: nat
  ul_pending_restart :: bool
  ul_kill_requested :: bool
  ul_general :: "string option"

type_synonym claude_state = "claude_loop \<times> runtime"

definition CLAUDE_PLAN_PERMISSION_MODE :: string where "CLAUDE_PLAN_PERMISSION_MODE = ''plan''"

definition CLAUDE_DEFAULT_PERMISSION_MODE :: string where "CLAUDE_DEFAULT_PERMISSION_MODE = ''bypassPermissions''"

section \<open>The thread's modes\<close>

definition chat_thread_plan_mode :: "env \<Rightarrow> int \<Rightarrow> ThreadRow list \<Rightarrow> string + bool" where
  "chat_thread_plan_mode en t threads = (case env_db en ''chat_thread_plan_mode'' of Some err \<Rightarrow> Inl err
     | None \<Rightarrow> Inr (case find (\<lambda>r. th_id r = t) threads of None \<Rightarrow> False | Some r \<Rightarrow> th_plan_mode r))"

definition set_chat_thread_plan_mode :: "env \<Rightarrow> int \<Rightarrow> bool \<Rightarrow> ThreadRow list \<Rightarrow> (string + unit) \<times> ThreadRow list" where
  "set_chat_thread_plan_mode en t plan_mode threads = (case env_db en ''set_chat_thread_plan_mode'' of
      Some err \<Rightarrow> (Inl err, threads)
    | None \<Rightarrow> (Inr (), update_where (\<lambda>r. th_id r = t) (\<lambda>r. r\<lparr>th_plan_mode := plan_mode\<rparr>) threads))"

definition chat_thread_approval_mode :: "env \<Rightarrow> int \<Rightarrow> ThreadRow list \<Rightarrow> string + string option" where
  "chat_thread_approval_mode en t threads = (case env_db en ''chat_thread_approval_mode'' of Some err \<Rightarrow> Inl err
     | None \<Rightarrow> Inr (case find (\<lambda>r. th_id r = t) threads of None \<Rightarrow> None | Some r \<Rightarrow> th_approval_mode r))"

definition set_chat_thread_approval_mode :: "env \<Rightarrow> int \<Rightarrow> string option \<Rightarrow> ThreadRow list \<Rightarrow> (string + unit) \<times> ThreadRow list" where
  "set_chat_thread_approval_mode en t mode threads = (case env_db en ''set_chat_thread_approval_mode'' of
      Some err \<Rightarrow> (Inl err, threads)
    | None \<Rightarrow> (Inr (), update_where (\<lambda>r. th_id r = t) (\<lambda>r. r\<lparr>th_approval_mode := mode\<rparr>) threads))"

definition claude_permission_mode_for_thread :: "env \<Rightarrow> int \<Rightarrow> ThreadRow list \<Rightarrow> string" where
  "claude_permission_mode_for_thread en t threads =
     (if chat_thread_plan_mode en t threads = Inr True then CLAUDE_PLAN_PERMISSION_MODE
      else (case chat_thread_approval_mode en t threads of
          Inr mode \<Rightarrow> unwrap_or mode CLAUDE_DEFAULT_PERMISSION_MODE
        | Inl _ \<Rightarrow> CLAUDE_DEFAULT_PERMISSION_MODE))"

definition thread_plans :: "env \<Rightarrow> int \<Rightarrow> ThreadRow list \<Rightarrow> bool" where
  "thread_plans en t threads = (case chat_thread_plan_mode en t threads of Inr b \<Rightarrow> b | Inl _ \<Rightarrow> False)"

section \<open>Applying controls and effects\<close>

text \<open>The adapter as the loop makes it, at the start and after a restart.\<close>

definition claude_adapter_for :: "env \<Rightarrow> SessionSnapshot \<Rightarrow> ProviderProcessConnection \<Rightarrow> runtime \<Rightarrow> ClaudeManagedAdapter" where
  "claude_adapter_for en started c rt =
     (let a = claude_new \<lparr>ac_session_id = sn_session_id started, ac_thread_id = sn_thread_id started,
            ac_workspace = sn_workspace started, ac_native_session_id = pc_native_thread_id c,
            ac_controls = \<lparr>dc_model = pc_model c, dc_effort = pc_effort_mode c, dc_permission_mode = pc_approval_policy c,
              dc_fast_mode = Some (pc_fast_mode c)\<rparr>\<rparr>
      in a\<lparr>cm_tracker := note_transport_started (cm_tracker a),
           cm_plan_mode := thread_plans en (sn_thread_id started) (rt_threads rt)\<rparr>)"

definition claude_effect :: "env \<Rightarrow> SessionSnapshot \<Rightarrow> HarnessEffect \<Rightarrow> claude_state \<Rightarrow> claude_state" where
  "claude_effect en started effect = (\<lambda>(l, rt).
     let (c, rt1) = connection_effect en started effect (ul_conn l, rt) in (l\<lparr>ul_conn := c\<rparr>, rt1))"

definition claude_apply_control :: "env \<Rightarrow> SessionSnapshot \<Rightarrow> HarnessControl \<Rightarrow> claude_state \<Rightarrow> claude_state" where
  "claude_apply_control en started control = (\<lambda>(l, rt).
     let (plan, adapter) = claude_plan_control control (ul_adapter l);
         (c, rt1) = apply_provider_control_plan en started ''claude-stream-json'' plan (ul_conn l, rt)
     in (l\<lparr>ul_adapter := adapter, ul_conn := c\<rparr>, rt1))"

text \<open>Of the effects of a line, an ask the adapter has an answer for is answered, and shown to no one.\<close>

definition claude_line_effect :: "env \<Rightarrow> SessionSnapshot \<Rightarrow> HarnessEffect \<Rightarrow> claude_state \<Rightarrow> claude_state" where
  "claude_line_effect en started effect = (\<lambda>(l, rt). case effect of
      InteractionRequested draft \<Rightarrow>
        (case auto_resolution_for draft (ul_adapter l) of
           Some resolution \<Rightarrow> claude_apply_control en started (ResolveInteraction (id_native_id draft) resolution) (l, rt)
         | None \<Rightarrow> claude_effect en started effect (l, update_snapshot mark_snapshot_awaiting_input rt))
    | _ \<Rightarrow> claude_effect en started effect (l, rt))"

fun claude_line_effects :: "env \<Rightarrow> SessionSnapshot \<Rightarrow> HarnessEffect list \<Rightarrow> claude_state \<Rightarrow> claude_state" where
  "claude_line_effects en started [] st = st"
| "claude_line_effects en started (e # es) st = claude_line_effects en started es (claude_line_effect en started e st)"

definition claude_line :: "env \<Rightarrow> SessionSnapshot \<Rightarrow> string \<Rightarrow> claude_state \<Rightarrow> claude_state" where
  "claude_line en started line = (\<lambda>(l, rt).
     let rt1 = append_provider_native_output (sn_session_id started) ''claude-stream-json'' line rt;
         (r, adapter) = claude_observe_native (env_from_str en) (env_millis en)
           \<lparr>nr_provider_key = ''claude'', nr_payload = line\<rparr> (ul_adapter l);
         l1 = l\<lparr>ul_adapter := adapter\<rparr>
     in case r of Inl _ \<Rightarrow> (l1, rt1) | Inr effects \<Rightarrow> claude_line_effects en started effects (l1, rt1))"

section \<open>Inputs\<close>

definition claude_write_native :: "env \<Rightarrow> string + NativeWrite \<Rightarrow> runtime \<Rightarrow> string option \<times> runtime" where
  "claude_write_native en native_write rt = (case native_write of
      Inl err \<Rightarrow> (Some err, rt)
    | Inr w \<Rightarrow> if nw_provider_key w \<noteq> ''claude'' then (Some (''Claude adapter encoded input for '' @ nw_provider_key w), rt)
        else write_stdin en (nw_payload w) rt)"

definition settle_adapter :: "string \<Rightarrow> claude_loop \<Rightarrow> claude_loop" where
  "settle_adapter i l = l\<lparr>ul_adapter := (ul_adapter l)\<lparr>cm_tracker := settle_failed_input_write i (cm_tracker (ul_adapter l))\<rparr>\<rparr>"

definition claude_write_input :: "env \<Rightarrow> SessionSnapshot \<Rightarrow> QueuedChatInputRecord option \<Rightarrow> string \<Rightarrow> string \<Rightarrow>
    ArchcarInputKind \<Rightarrow> ArchcarInputDelivery \<Rightarrow> claude_state \<Rightarrow> claude_state option" where
  "claude_write_input en started claim provider_input persisted kind delivery = (\<lambda>(l, rt).
     let sequence = ul_sequence l + 1; local_id = provider_input_local_id (sn_session_id started) sequence
     in case enqueue_provider_input en started local_id provider_input (Some persisted) kind delivery
               (pc_native_thread_id (ul_conn l)) rt of
          (Inl err, rt1) \<Rightarrow> Some (give_back en started claim (''Claude input persistence failed: '' @ err) (l, rt1))
        | (Inr _, rt1) \<Rightarrow>
          (let rt2 = update_snapshot (\<lambda>s. note_snapshot_input local_id (mark_session_busy_for_input (env_mono en) s)) rt1;
               (native_write, adapter) = claude_encode_input \<lparr>hi_local_input_id = local_id, hi_content = provider_input,
                 hi_visible_content = Some persisted, hi_kind = kind, hi_delivery = delivery\<rparr> (ul_adapter l);
               l1 = l\<lparr>ul_adapter := adapter\<rparr>
           in case claude_write_native en native_write rt2 of
                (Some err, rt3) \<Rightarrow> Some (give_back en started claim (''Claude stream input failed: '' @ err)
                    (settle_adapter local_id l1, kill_child (snd (with_inputs (mark_failed (env_now en) local_id err) rt3))))
              | (None, rt3) \<Rightarrow>
                (case with_inputs (mark_written (env_now en) local_id) rt3 of
                   (Inl err, rt4) \<Rightarrow> Some (give_back en started claim
                       (''Claude input written-state persistence failed: '' @ err) (settle_adapter local_id l1, kill_child rt4))
                 | (Inr _, rt4) \<Rightarrow> map_option (Pair (l1\<lparr>ul_sequence := sequence\<rparr>))
                     (persist_runtime_user_input en started provider_input (Some persisted) kind sequence rt4))))"

definition claude_send_input :: "env \<Rightarrow> SessionSnapshot \<Rightarrow> QueuedChatInputRecord option \<Rightarrow> string \<Rightarrow> string option \<Rightarrow>
    ArchcarInputKind \<Rightarrow> ArchcarInputDelivery \<Rightarrow> claude_state \<Rightarrow> claude_state option" where
  "claude_send_input en started claim input visible kind delivery = (\<lambda>(l, rt).
     case is_first_turn en started kind rt of
       Inl err \<Rightarrow> Some (give_back en started claim (''Could not prepare Claude input history: '' @ err) (l, rt))
     | Inr first_turn \<Rightarrow> claude_write_input en started claim (compose_first_turn_input (ul_general l) input first_turn)
         (unwrap_or visible input) kind delivery (l, rt))"

section \<open>Commands\<close>

definition restart_required :: "HarnessControlPlan \<Rightarrow> bool" where
  "restart_required plan = (case plan of HarnessControlPlan.RestartRequired _ \<Rightarrow> True | _ \<Rightarrow> False)"

text \<open>\<open>None\<close>: the step does not return.\<close>

fun claude_command_split :: "env \<Rightarrow> SessionSnapshot \<Rightarrow> SessionCommand \<times> QueuedChatInputRecord option \<Rightarrow> claude_state \<Rightarrow>
    claude_state option" where
  "claude_command_split en started (SendInput input visible kind delivery, claim) st =
     claude_send_input en started claim input visible kind delivery st"
| "claude_command_split en started (SendQueuedInput _, claim) st = None"
| "claude_command_split en started (SessionCommand.Kill, claim) (l, rt) =
     Some (l\<lparr>ul_kill_requested := True, ul_pending_restart := False\<rparr>, kill_child rt)"
| "claude_command_split en started (InterruptTurn, claim) st = Some (claude_apply_control en started HarnessControl.Interrupt st)"
| "claude_command_split en started (ApplyControl control, claim) st =
     (let (l1, rt1) = claude_apply_control en started control st
      in Some (if restart_required (fst (claude_plan_control control (ul_adapter (fst st))))
               then l1\<lparr>ul_pending_restart := True\<rparr> else l1, rt1))"
| "claude_command_split en started (Resize _ _, claim) st = Some st"

definition claude_command :: "env \<Rightarrow> SessionSnapshot \<Rightarrow> SessionCommand \<Rightarrow> claude_state \<Rightarrow> claude_state option" where
  "claude_command en started command st = claude_command_split en started (split_queued_claim command) st"

section \<open>Restarting the transport\<close>

definition claude_restart_allowed :: "bool \<Rightarrow> bool \<Rightarrow> bool \<Rightarrow> bool" where
  "claude_restart_allowed pending_restart kill_requested idle \<longleftrightarrow> pending_restart \<and> \<not> kill_requested \<and> idle"

definition claude_stream_connection_effort :: "ProviderProcessConnection \<Rightarrow> string option" where
  "claude_stream_connection_effort c = or_else (pc_effort_mode c)
     (if pc_fast_mode c then Some ''low'' else pc_reasoning_mode c)"

definition restart_args :: "string option \<Rightarrow> string \<Rightarrow> string \<Rightarrow> ProviderProcessConnection \<Rightarrow> string list" where
  "restart_args hook_settings native permission_mode c = build_claude_stream_args
     \<lparr>lc_persistent_input = True, lc_replay_user_messages = True, lc_resume = Some native,
      lc_permission_mode = Some permission_mode, lc_permission_prompt_tool = Some ''stdio'', lc_model = pc_model c,
      lc_effort = claude_stream_connection_effort c, lc_append_system_prompt = None, lc_settings_json = hook_settings\<rparr>"

text \<open>The old process is killed first; a new one starts alive, its stdin its own.\<close>

definition restart_claude_stream_connection :: "string option \<Rightarrow> (string list \<Rightarrow> string + nat) \<Rightarrow> string \<Rightarrow>
    ProviderProcessConnection \<times> runtime \<Rightarrow> (string + nat) \<times> ProviderProcessConnection \<times> runtime" where
  "restart_claude_stream_connection hook_settings spawn permission_mode = (\<lambda>(c, rt).
     case pc_native_thread_id c of
       None \<Rightarrow> (Inl ''Claude session has no native session id to resume'', c, rt)
     | Some native \<Rightarrow>
       (case spawn (restart_args hook_settings native permission_mode c) of
          Inl err \<Rightarrow> (Inl (''restart Claude stream-json process: '' @ err), c, kill_child rt)
        | Inr pid \<Rightarrow> (Inr pid, c\<lparr>pc_next_read_line := 0\<rparr>, rt\<lparr>rt_killed := False\<rparr>)))"

definition update_session_process_pid :: "int \<Rightarrow> nat \<Rightarrow> runtime \<Rightarrow> (string + unit) \<times> runtime" where
  "update_session_process_pid p pid rt =
     (if \<not> pid > 0 then (Inl ''session process id is required'', rt)
      else (let running = (\<lambda>r. pw_id r = p \<and> pw_is_session r \<and> pw_status r = Running)
            in if list_ex running (rt_processes rt)
               then (Inr (), rt\<lparr>rt_processes := update_where running (\<lambda>r. r\<lparr>pw_pid := pid\<rparr>) (rt_processes rt)\<rparr>)
               else (Inl (''no running session process #'' @ show_int p), rt)))"

definition claude_restarted :: "env \<Rightarrow> SessionSnapshot \<Rightarrow> nat \<Rightarrow> claude_state \<Rightarrow> claude_state" where
  "claude_restarted en started pid = (\<lambda>(l, rt).
     let l1 = l\<lparr>ul_pending_restart := False, ul_adapter := claude_adapter_for en started (ul_conn l) rt\<rparr>;
         rt1 = append_provider_native_output (sn_session_id started) ''claude-stream-json''
                 ''transport restarted: claude -p stream-json'' rt;
         rt2 = snd (update_session_process_pid (sn_session_id started) pid rt1);
         rt3 = update_snapshot (\<lambda>s. s\<lparr>sn_pid := pid, sn_ready := True, sn_runtime_state := AgentSessionState.WaitingForInput\<rparr>) rt2
     in (l1, send (SessionReady (sn_session_id started) (sn_thread_id started)) rt3))"

definition claude_iteration_end :: "env \<Rightarrow> string option \<Rightarrow> (string list \<Rightarrow> string + nat) \<Rightarrow> SessionSnapshot \<Rightarrow>
    claude_state \<Rightarrow> claude_state" where
  "claude_iteration_end en hook_settings spawn started = (\<lambda>(l, rt).
     if \<not> claude_restart_allowed (ul_pending_restart l) (ul_kill_requested l) (tracker_ready (cm_tracker (ul_adapter l)))
     then (l, rt)
     else (let permission_mode = (case env_db en ''open'' of
                  Some _ \<Rightarrow> CLAUDE_DEFAULT_PERMISSION_MODE
                | None \<Rightarrow> claude_permission_mode_for_thread en (sn_thread_id started) (rt_threads rt))
       in case restart_claude_stream_connection hook_settings spawn permission_mode (ul_conn l, rt) of
            (Inr pid, c, rt1) \<Rightarrow> claude_restarted en started pid (l\<lparr>ul_conn := c\<rparr>, rt1)
          | (Inl err, c, rt1) \<Rightarrow> loop_fail en started (''Claude stream restart failed: '' @ err)
              (l\<lparr>ul_conn := c\<rparr>, kill_child rt1)))"

section \<open>The loop\<close>

definition claude_start :: "env \<Rightarrow> SessionSnapshot \<Rightarrow> ProviderProcessConnection \<Rightarrow> string + string option \<Rightarrow> runtime \<Rightarrow> claude_state" where
  "claude_start en started c general_prompt rt =
     (let rt0 = (case general_prompt of Inr _ \<Rightarrow> rt
            | Inl err \<Rightarrow> send (session_error started (''Could not resolve general prompt: '' @ err)) rt);
          rt1 = send (SessionStarted (sn_session_id started) (sn_thread_id started) (sn_workspace started) (sn_kind started)
                  (sn_pid started) False False None) rt0;
          rt2 = append_provider_native_output (sn_session_id started) ''claude-stream-json''
                  ''transport started: claude -p stream-json'' rt1
      in claude_effect en started Ready
           (\<lparr>ul_adapter = claude_adapter_for en started c rt2, ul_conn = c,
             ul_sequence = (case max_runtime_input_provider_sequence (sn_session_id started) rt2 of Inr n \<Rightarrow> n | Inl _ \<Rightarrow> 0),
             ul_pending_restart = False, ul_kill_requested = False,
             ul_general = (case general_prompt of Inr g \<Rightarrow> g | Inl _ \<Rightarrow> None)\<rparr>, rt2))"

text \<open>A life of the loop, in the order the loop sees what happens. Nothing is read after the agent's exit.\<close>

datatype claude_input =
    ClaudeLine env string
  | ClaudeCommand env SessionCommand
  | ClaudeIterationEnd env "string option" "string list \<Rightarrow> string + nat"

fun claude_step :: "SessionSnapshot \<Rightarrow> claude_input \<Rightarrow> claude_state \<Rightarrow> claude_state option" where
  "claude_step started (ClaudeLine en line) st = Some (claude_line en started line st)"
| "claude_step started (ClaudeCommand en command) st = claude_command en started command st"
| "claude_step started (ClaudeIterationEnd en hook_settings spawn) st = Some (claude_iteration_end en hook_settings spawn started st)"

fun claude_run :: "SessionSnapshot \<Rightarrow> claude_input list \<Rightarrow> claude_state \<Rightarrow> claude_state option" where
  "claude_run started [] st = Some st"
| "claude_run started (e # es) st = Option.bind (claude_step started e st) (claude_run started es)"

end
