(* ===== verification/Daemon_Requests.thy ===== *)
theory Daemon_Requests
  imports Daemon Claude_Session
begin

text \<open>
  The requests of a client that reach sessions, queues and interactions (\<open>dispatch_request\<close> and its handlers in
  \<open>crates/core/src/archcar/server.rs\<close>): sending and interrupting, the controls and the modes of a thread,
  the queue, and the answers to what an agent asks, with what approving a plan sets off.

  What is not code of these handlers is the record \<open>daemon_ports\<close>: the workspace of a thread, restoring a session
  an earlier daemon left, the decoration of a message, and the names shown for agents. Naming a chat
  after its first message is left out.
\<close>

section \<open>Requests and responses\<close>

text \<open>Of the requests, those modelled here; of the responses, those they get.\<close>

datatype ArchcarRequest =
    SendInput int string "string option" ArchcarInputKind ArchcarInputDelivery
  | InterruptTurn int
  | KillSession int
  | ResizeSession int nat nat
  | SetSessionModel int "string option"
  | SetSessionEffort int "string option"
  | SetSessionFastMode int bool
  | SetSessionPermissionMode int string
  | QueueChatInput int string "string option" ArchcarInputKind string bool
  | ListQueuedChatInputs int
  | RemoveQueuedChatInput int
  | MoveQueuedChatInput int bool
  | SetChatPlanMode int bool
  | SetChatApprovalMode int string
  | RegisterProviderInteraction ProviderInteractionDraft
  | GetProviderInteraction string
  | ListProviderInteractions "int option" bool
  | ResolveProviderInteraction string ProviderInteractionResolution
  | ConsumeProviderInteraction string json

datatype ArchcarResponse =
    Ack
  | Error string
  | QueuedChatInput QueuedChatInputRecord
  | QueuedChatInputs int "QueuedChatInputRecord list"
  | ChatPlan int bool "string option"
  | ProviderInteraction ProviderInteractionRecord
  | ProviderInteractions "ProviderInteractionRecord list"

record daemon_ports =
  dp_workspace_of :: "int \<Rightarrow> string option"
  dp_restored_for_queue :: "server \<Rightarrow> server"
  dp_restore :: "int \<Rightarrow> server \<Rightarrow> (string + unit) \<times> server"
  dp_decorate :: "int \<Rightarrow> string \<Rightarrow> string + string option"
  dp_display_name :: "string \<Rightarrow> string"

section \<open>Reaching a session\<close>

definition load_or_restore_session_handle :: "daemon_ports \<Rightarrow> int \<Rightarrow> server \<Rightarrow> (string + SessionHandle option) \<times> server" where
  "load_or_restore_session_handle dp i sv = (case map_of (sv_sessions sv) i of
      Some h \<Rightarrow> (Inr (Some h), sv)
    | None \<Rightarrow> (case dp_restore dp i sv of (Inl err, sv1) \<Rightarrow> (Inl err, sv1)
        | (Inr _, sv1) \<Rightarrow> (Inr (map_of (sv_sessions sv1) i), sv1)))"

text \<open>\<open>command_tx.send\<close>: into the channel of the session's loop, unless the loop has ended.\<close>

definition send_command :: "int \<Rightarrow> SessionCommand \<Rightarrow> server \<Rightarrow> (string + unit) \<times> server" where
  "send_command i command sv = (case map_of (sv_sessions sv) i of
      Some h \<Rightarrow> if sh_open h then (Inr (), update_handle i (\<lambda>h. h\<lparr>sh_commands := sh_commands h @ [command]\<rparr>) sv)
        else (Inl ''sending on a closed channel'', sv)
    | None \<Rightarrow> (Inl ''sending on a closed channel'', sv))"

definition acked :: "(string + unit) \<times> server \<Rightarrow> ArchcarResponse \<times> server" where
  "acked = (\<lambda>(r, sv). (case r of Inr _ \<Rightarrow> Ack | Inl err \<Rightarrow> Error err, sv))"

text \<open>What a handler does with the session of an id, once found.\<close>

definition with_session :: "daemon_ports \<Rightarrow> int \<Rightarrow> (SessionHandle \<Rightarrow> server \<Rightarrow> ArchcarResponse \<times> server) \<Rightarrow> server \<Rightarrow>
    ArchcarResponse \<times> server" where
  "with_session dp i f sv = (case load_or_restore_session_handle dp i sv of
      (Inr (Some h), sv1) \<Rightarrow> f h sv1
    | (Inr None, sv1) \<Rightarrow> (Error (''unknown session '' @ show_int i), sv1)
    | (Inl err, sv1) \<Rightarrow> (Error err, sv1))"

definition send_session_control :: "daemon_ports \<Rightarrow> int \<Rightarrow> HarnessControl \<Rightarrow> server \<Rightarrow> ArchcarResponse \<times> server" where
  "send_session_control dp i control = with_session dp i (\<lambda>_ sv. acked (send_command i (ApplyControl control) sv))"

definition send_input :: "env \<Rightarrow> daemon_ports \<Rightarrow> int \<Rightarrow> string \<Rightarrow> string option \<Rightarrow> ArchcarInputKind \<Rightarrow> ArchcarInputDelivery \<Rightarrow>
    server \<Rightarrow> ArchcarResponse \<times> server" where
  "send_input en dp i input visible kind delivery = with_session dp i (\<lambda>h sv.
     case validate_send_input_delivery en (sh_snapshot h) kind delivery of
       Inl err \<Rightarrow> (Error err, sv)
     | Inr _ \<Rightarrow> acked (send_command i (SessionCommand.SendInput input visible kind delivery) sv))"

definition interrupt_turn :: "env \<Rightarrow> daemon_ports \<Rightarrow> int \<Rightarrow> server \<Rightarrow> ArchcarResponse \<times> server" where
  "interrupt_turn en dp i = with_session dp i (\<lambda>h sv.
     let kind = sn_kind (sh_snapshot h)
     in if case env_harness en kind of Some d \<Rightarrow> supports d HarnessFeature.Interrupt | None \<Rightarrow> False
        then acked (send_command i SessionCommand.InterruptTurn sv)
        else (Error (''interrupt_turn is not supported for '' @ dp_display_name dp kind @ '' sessions''), sv))"

section \<open>Modes\<close>

definition stored_approval_mode :: "string \<Rightarrow> string option" where
  "stored_approval_mode mode =
     (if mode = CLAUDE_DEFAULT_PERMISSION_MODE \<or> mode = CLAUDE_PLAN_PERMISSION_MODE then None else Some mode)"

definition set_session_permission_mode :: "env \<Rightarrow> daemon_ports \<Rightarrow> int \<Rightarrow> string \<Rightarrow> server \<Rightarrow> ArchcarResponse \<times> server" where
  "set_session_permission_mode en dp i mode sv =
     (let (effective, sv1) =
        (if mode = CLAUDE_PLAN_PERMISSION_MODE then (mode, sv)
         else (case load_or_restore_session_handle dp i sv of
             (Inr (Some h), sv1) \<Rightarrow>
               (let t = sn_thread_id (sh_snapshot h)
                in if sn_kind (sh_snapshot h) \<noteq> ''claude'' \<or> env_db en ''open'' \<noteq> None then (mode, sv1)
                   else (case set_chat_thread_approval_mode en t (stored_approval_mode mode) (sv_threads sv1) of
                       (Inr _, threads) \<Rightarrow> (claude_permission_mode_for_thread en t threads, sv1\<lparr>sv_threads := threads\<rparr>)
                     | (Inl _, threads) \<Rightarrow> (mode, sv1)))
           | (_, sv1) \<Rightarrow> (mode, sv1)))
      in send_session_control dp i (SetPermissionMode (Some effective)) sv1)"

text \<open>A control to the live session of a thread, if it has one; that its loop may have ended is ignored.\<close>

definition control_live_session :: "int \<Rightarrow> string \<Rightarrow> HarnessControl \<Rightarrow> server \<Rightarrow> server" where
  "control_live_session t kind control sv = (case live_session_handle_for_thread t kind sv of
      None \<Rightarrow> sv | Some i \<Rightarrow> snd (send_command i (ApplyControl control) sv))"

definition chat_thread_plan_path :: "env \<Rightarrow> int \<Rightarrow> ThreadRow list \<Rightarrow> string + string option" where
  "chat_thread_plan_path en t threads = (case env_db en ''chat_thread_plan_path'' of Some err \<Rightarrow> Inl err
     | None \<Rightarrow> Inr (case find (\<lambda>r. th_id r = t) threads of None \<Rightarrow> None | Some r \<Rightarrow> th_plan_path r))"

definition set_chat_plan_mode :: "env \<Rightarrow> int \<Rightarrow> bool \<Rightarrow> server \<Rightarrow> ArchcarResponse \<times> server" where
  "set_chat_plan_mode en t plan_mode sv = (case env_db en ''open'' of
      Some err \<Rightarrow> (Error err, sv)
    | None \<Rightarrow> (case set_chat_thread_plan_mode en t plan_mode (sv_threads sv) of
        (Inl err, _) \<Rightarrow> (Error err, sv)
      | (Inr _, threads) \<Rightarrow>
        (let sv1 = sv\<lparr>sv_threads := threads\<rparr>;
             sv2 = control_live_session t ''claude''
                     (SetPermissionMode (Some (claude_permission_mode_for_thread en t threads))) sv1;
             sv3 = control_live_session t ''codex''
                     (SetPermissionMode (Some (if plan_mode then CODEX_PLAN_PERMISSION_MODE else ''default''))) sv2;
             plan_path = (case chat_thread_plan_path en t threads of Inr p \<Rightarrow> p | Inl _ \<Rightarrow> None)
         in (ChatPlan t plan_mode plan_path, broadcast (ChatPlanUpdated t plan_mode plan_path) sv3))))"

definition set_chat_approval_mode :: "env \<Rightarrow> int \<Rightarrow> string \<Rightarrow> server \<Rightarrow> ArchcarResponse \<times> server" where
  "set_chat_approval_mode en t mode sv = (case env_db en ''open'' of
      Some err \<Rightarrow> (Error err, sv)
    | None \<Rightarrow> (case set_chat_thread_approval_mode en t (stored_approval_mode mode) (sv_threads sv) of
        (Inl err, _) \<Rightarrow> (Error err, sv)
      | (Inr _, threads) \<Rightarrow> (Ack, control_live_session t ''claude''
          (SetPermissionMode (Some (claude_permission_mode_for_thread en t threads))) (sv\<lparr>sv_threads := threads\<rparr>))))"

section \<open>The queue\<close>

definition drain_thread :: "env \<Rightarrow> daemon_ports \<Rightarrow> int \<Rightarrow> server \<Rightarrow> server" where
  "drain_thread en dp t = drain_queued_input_for_thread en (dp_workspace_of dp) (dp_restored_for_queue dp) t"

text \<open>The text a human message is queued with, and the text shown for it.\<close>

definition decorated_input :: "daemon_ports \<Rightarrow> int \<Rightarrow> string \<Rightarrow> string option \<Rightarrow> ArchcarInputKind \<Rightarrow> bool \<Rightarrow>
    string + string \<times> string option" where
  "decorated_input dp t input visible kind verbatim =
     (if kind = ArchcarInputKind.User \<and> \<not> verbatim
      then (case dp_decorate dp t input of
          Inl err \<Rightarrow> Inl err
        | Inr (Some decorated) \<Rightarrow> Inr (decorated, Some (unwrap_or visible input))
        | Inr None \<Rightarrow> Inr (input, visible))
      else Inr (input, visible))"

definition queue_row_for :: "env \<Rightarrow> daemon_ports \<Rightarrow> int \<Rightarrow> string \<Rightarrow> string option \<Rightarrow> ArchcarInputKind \<Rightarrow> string \<Rightarrow> bool \<Rightarrow>
    server \<Rightarrow> (string + QueuedChatInputRecord) \<times> queue" where
  "queue_row_for en dp t input visible kind session_kind verbatim sv =
     (case find (\<lambda>r. th_id r = t) (sv_threads sv) of
        None \<Rightarrow> (Inl ''chat thread not found'', sv_queue sv)
      | Some thread \<Rightarrow>
        if th_provider thread \<noteq> session_kind
        then (Inl (''chat thread '' @ show_int t @ '' is not a '' @ dp_display_name dp session_kind @ '' thread''), sv_queue sv)
        else if env_harness en session_kind = None
        then (Inl (dp_display_name dp session_kind @ '' sessions are not managed, so chat input cannot be queued for them''), sv_queue sv)
        else if kind = RawTerminal then (Inl ''raw terminal input cannot be queued'', sv_queue sv)
        else (case decorated_input dp t input visible kind verbatim of
            Inl err \<Rightarrow> (Inl err, sv_queue sv)
          | Inr (text, shown) \<Rightarrow> enqueue_chat_input (env_now en) t text shown kind session_kind (sv_queue sv)))"

definition queue_chat_input :: "env \<Rightarrow> daemon_ports \<Rightarrow> int \<Rightarrow> string \<Rightarrow> string option \<Rightarrow> ArchcarInputKind \<Rightarrow> string \<Rightarrow> bool \<Rightarrow>
    server \<Rightarrow> ArchcarResponse \<times> server" where
  "queue_chat_input en dp t input visible kind session_kind verbatim sv =
     (case env_db en ''open'' of Some err \<Rightarrow> (Error err, sv)
      | None \<Rightarrow> (case queue_row_for en dp t input visible kind session_kind verbatim sv of
          (Inl err, _) \<Rightarrow> (Error err, sv)
        | (Inr queued, rows) \<Rightarrow> (QueuedChatInput queued,
            drain_thread en dp t (broadcast (ChatQueueUpdated t) (sv\<lparr>sv_queue := rows\<rparr>)))))"

definition remove_queued_chat_input :: "env \<Rightarrow> int \<Rightarrow> server \<Rightarrow> ArchcarResponse \<times> server" where
  "remove_queued_chat_input en queue_id sv = (case env_db en ''open'' of
      Some err \<Rightarrow> (Error err, sv)
    | None \<Rightarrow> (case delete_queued_chat_input queue_id (sv_queue sv) of
        (None, _) \<Rightarrow> (Error (''unknown queued chat input '' @ show_int queue_id), sv)
      | (Some input, rows) \<Rightarrow> (QueuedChatInput input, broadcast (ChatQueueUpdated (qi_thread_id input)) (sv\<lparr>sv_queue := rows\<rparr>))))"

definition move_queued_chat_input_request :: "env \<Rightarrow> int \<Rightarrow> bool \<Rightarrow> server \<Rightarrow> ArchcarResponse \<times> server" where
  "move_queued_chat_input_request en queue_id up sv = (case env_db en ''open'' of
      Some err \<Rightarrow> (Error err, sv)
    | None \<Rightarrow> (case move_queued_chat_input (env_now en) queue_id up (sv_queue sv) of
        (None, _) \<Rightarrow> (Ack, sv)
      | (Some t, rows) \<Rightarrow> (QueuedChatInputs t (list_queued_chat_inputs t rows),
          broadcast (ChatQueueUpdated t) (sv\<lparr>sv_queue := rows\<rparr>))))"

section \<open>Answers\<close>

definition session_kind_for_provider :: "string \<Rightarrow> string" where
  "session_kind_for_provider provider_key = (if provider_key = ''claude'' then ''claude'' else ''codex'')"

definition start_building_approved_plan :: "env \<Rightarrow> daemon_ports \<Rightarrow> ProviderInteractionRecord \<Rightarrow> server \<Rightarrow> server" where
  "start_building_approved_plan en dp interaction sv =
     (let t = id_thread_id (pi_request interaction) in
      if env_db en ''open'' \<noteq> None then sv
      else (let sv1 = broadcast (ChatPlanUpdated t False (pi_plan_path interaction))
                        (sv\<lparr>sv_threads := snd (set_chat_thread_plan_mode en t False (sv_threads sv))\<rparr>)
        in case pi_plan_path interaction of None \<Rightarrow> sv1
           | Some plan_path \<Rightarrow>
             (case enqueue_chat_input (env_now en) t (''Implement the plan at '' @ plan_path @ ''.'')
                     (Some ''Implement the approved plan'') ArchcarInputKind.User
                     (session_kind_for_provider (id_provider_key (pi_request interaction))) (sv_queue sv1) of
                (Inl _, _) \<Rightarrow> sv1
              | (Inr _, rows) \<Rightarrow> drain_thread en dp t (broadcast (ChatQueueUpdated t) (sv1\<lparr>sv_queue := rows\<rparr>)))))"

definition deliver_interaction_resolution :: "env \<Rightarrow> daemon_ports \<Rightarrow> ProviderInteractionRecord \<Rightarrow>
    ProviderInteractionResolution \<Rightarrow> server \<Rightarrow> server" where
  "deliver_interaction_resolution en dp interaction resolution sv =
     (case live_session_handle_for_session (id_session_id (pi_request interaction)) sv of None \<Rightarrow> sv
      | Some h \<Rightarrow>
        (case send_command (id_session_id (pi_request interaction))
                (ApplyControl (ResolveInteraction (id_native_id (pi_request interaction)) resolution)) sv of
           (Inl _, sv1) \<Rightarrow> sv1
         | (Inr _, sv1) \<Rightarrow>
             if id_kind (pi_request interaction) = PlanApproval \<and> resolution \<in> {Approve, ApproveForSession}
             then start_building_approved_plan en dp interaction sv1 else sv1))"

definition resolve_provider_interaction :: "env \<Rightarrow> daemon_ports \<Rightarrow> string \<Rightarrow> ProviderInteractionResolution \<Rightarrow> server \<Rightarrow>
    ArchcarResponse \<times> server" where
  "resolve_provider_interaction en dp i resolution sv = (case resolve (env_now en) i resolution (sv_interactions sv) of
      (Inl err, rows) \<Rightarrow> (Error err, sv\<lparr>sv_interactions := rows\<rparr>)
    | (Inr interaction, rows) \<Rightarrow> (ProviderInteraction interaction, broadcast (ProviderInteractionResolved interaction)
        (deliver_interaction_resolution en dp interaction resolution (sv\<lparr>sv_interactions := rows\<rparr>))))"

definition register_provider_interaction :: "env \<Rightarrow> ProviderInteractionDraft \<Rightarrow> server \<Rightarrow> ArchcarResponse \<times> server" where
  "register_provider_interaction en draft sv =
     (case register (env_fingerprint en) (env_now en) (env_uuid en) draft (sv_interactions sv) of
        (Inl err, rows) \<Rightarrow> (Error err, sv\<lparr>sv_interactions := rows\<rparr>)
      | (Inr interaction, rows) \<Rightarrow> (ProviderInteraction interaction,
          broadcast (ProviderInteractionRequested interaction) (sv\<lparr>sv_interactions := rows\<rparr>)))"

definition consume_provider_interaction :: "env \<Rightarrow> string \<Rightarrow> json \<Rightarrow> server \<Rightarrow> ArchcarResponse \<times> server" where
  "consume_provider_interaction en i native_response sv =
     (let (r, rows) = consume_resolution (env_now en) i native_response (sv_interactions sv)
      in (case r of Inl err \<Rightarrow> Error err | Inr interaction \<Rightarrow> ProviderInteraction interaction, sv\<lparr>sv_interactions := rows\<rparr>))"

section \<open>Dispatch\<close>

fun archcar_request_is_mutating :: "ArchcarRequest \<Rightarrow> bool" where
  "archcar_request_is_mutating (ListQueuedChatInputs _) \<longleftrightarrow> False"
| "archcar_request_is_mutating _ \<longleftrightarrow> True"

fun handle_request :: "env \<Rightarrow> daemon_ports \<Rightarrow> ArchcarRequest \<Rightarrow> server \<Rightarrow> ArchcarResponse \<times> server" where
  "handle_request en dp (SendInput i input visible kind delivery) sv = send_input en dp i input visible kind delivery sv"
| "handle_request en dp (InterruptTurn i) sv = interrupt_turn en dp i sv"
| "handle_request en dp (KillSession i) sv = with_session dp i (\<lambda>_ sv. acked (send_command i SessionCommand.Kill sv)) sv"
| "handle_request en dp (ResizeSession i rows cols) sv =
     with_session dp i (\<lambda>_ sv. acked (send_command i (SessionCommand.Resize rows cols) sv)) sv"
| "handle_request en dp (SetSessionModel i model) sv = send_session_control dp i (SetModel model) sv"
| "handle_request en dp (SetSessionEffort i effort) sv = send_session_control dp i (SetEffort effort) sv"
| "handle_request en dp (SetSessionFastMode i fast) sv = send_session_control dp i (SetFastMode fast) sv"
| "handle_request en dp (SetSessionPermissionMode i mode) sv = set_session_permission_mode en dp i mode sv"
| "handle_request en dp (QueueChatInput t input visible kind session_kind verbatim) sv =
     queue_chat_input en dp t input visible kind session_kind verbatim sv"
| "handle_request en dp (ListQueuedChatInputs t) sv = (case env_db en ''open'' of Some err \<Rightarrow> (Error err, sv)
     | None \<Rightarrow> (QueuedChatInputs t (list_queued_chat_inputs t (sv_queue sv)), sv))"
| "handle_request en dp (RemoveQueuedChatInput queue_id) sv = remove_queued_chat_input en queue_id sv"
| "handle_request en dp (MoveQueuedChatInput queue_id up) sv = move_queued_chat_input_request en queue_id up sv"
| "handle_request en dp (SetChatPlanMode t plan_mode) sv = set_chat_plan_mode en t plan_mode sv"
| "handle_request en dp (SetChatApprovalMode t mode) sv = set_chat_approval_mode en t mode sv"
| "handle_request en dp (RegisterProviderInteraction draft) sv = register_provider_interaction en draft sv"
| "handle_request en dp (GetProviderInteraction i) sv = (case get_interaction i (sv_interactions sv) of
     Some interaction \<Rightarrow> (ProviderInteraction interaction, sv)
   | None \<Rightarrow> (Error (''unknown provider interaction '' @ i), sv))"
| "handle_request en dp (ListProviderInteractions t pending_only) sv =
     (ProviderInteractions (list_interactions t pending_only (sv_interactions sv)), sv)"
| "handle_request en dp (ResolveProviderInteraction i resolution) sv = resolve_provider_interaction en dp i resolution sv"
| "handle_request en dp (ConsumeProviderInteraction i native_response) sv = consume_provider_interaction en i native_response sv"

definition dispatch_request :: "env \<Rightarrow> daemon_ports \<Rightarrow> ArchcarRequest \<Rightarrow> server \<Rightarrow> ArchcarResponse \<times> server" where
  "dispatch_request en dp request sv =
     (if archcar_request_is_mutating request \<and> sv_shutting_down sv then (Error ''archcar is shutting down'', sv)
      else handle_request en dp request sv)"

end
