(* ===== verification/Claude_Facts.thy ===== *)
theory Claude_Facts
  imports Claude_Session
begin

text \<open>
  What the Claude loop keeps and what it does with inputs, asks and restarts (definitions in
  Claude_Session).
\<close>

section \<open>An input\<close>

text \<open>The transport is up or the agent has said so.\<close>

definition live :: "ClaudeTurnTracker \<Rightarrow> bool" where
  "live t \<longleftrightarrow> tr_initialized t \<or> tr_transport_started t"

definition claude_user_line :: "string \<Rightarrow> string" where
  "claude_user_line content = encode_line (encode_claude_user_message content)"

definition claude_given_back :: "env \<Rightarrow> SessionSnapshot \<Rightarrow> QueuedChatInputRecord option \<Rightarrow> claude_state \<Rightarrow> claude_state \<Rightarrow> bool" where
  "claude_given_back en started claim = (\<lambda>(l, rt) st'. \<exists>err l1 rt1. st' = give_back en started claim err (l1, rt1)
     \<and> rt_queue rt1 = rt_queue rt \<and> rt_interactions rt1 = rt_interactions rt
     \<and> (rt_stdin rt1 = rt_stdin rt \<or> (\<exists>x. rt_stdin rt1 = rt_stdin rt @ [claude_user_line x]))
     \<and> ul_kill_requested l1 = ul_kill_requested l \<and> ul_pending_restart l1 = ul_pending_restart l
     \<and> cm_plan_mode (ul_adapter l1) = cm_plan_mode (ul_adapter l)
     \<and> (rt_killed rt \<longrightarrow> rt_killed rt1) \<and> (live (cm_tracker (ul_adapter l)) \<longrightarrow> live (cm_tracker (ul_adapter l1)))
     \<and> (ledger_ok (sn_turns (rt_snapshot rt)) \<longrightarrow> ledger_ok (sn_turns (rt_snapshot rt1))))"

definition claude_written :: "env \<Rightarrow> SessionSnapshot \<Rightarrow> string \<Rightarrow> claude_state \<Rightarrow> claude_state \<Rightarrow> bool" where
  "claude_written en started content = (\<lambda>(l, rt) (l', rt').
     let i = provider_input_local_id (sn_session_id started) (ul_sequence l + 1)
     in rt_stdin rt' = rt_stdin rt @ [claude_user_line content] \<and> rt_queue rt' = rt_queue rt
      \<and> rt_interactions rt' = rt_interactions rt \<and> ul_sequence l' = ul_sequence l + 1
      \<and> (\<exists>v. cm_tracker (ul_adapter l') = note_input_written i content v (cm_tracker (ul_adapter l)))
      \<and> ul_kill_requested l' = ul_kill_requested l \<and> ul_pending_restart l' = ul_pending_restart l
      \<and> cm_plan_mode (ul_adapter l') = cm_plan_mode (ul_adapter l) \<and> rt_killed rt' = rt_killed rt
      \<and> (inputs_ok (rt_inputs rt) \<longrightarrow> state_of i (rt_inputs rt') = Some Written)
      \<and> rt_snapshot rt' = note_snapshot_input i (mark_session_busy_for_input (env_mono en) (rt_snapshot rt)))"

lemma claude_given_backI:
  assumes "st' = give_back en started claim err (l1, rt1)" and "rt_queue rt1 = rt_queue rt"
    and "rt_interactions rt1 = rt_interactions rt"
    and "rt_stdin rt1 = rt_stdin rt \<or> (\<exists>x. rt_stdin rt1 = rt_stdin rt @ [claude_user_line x])"
    and "ul_kill_requested l1 = ul_kill_requested l" and "ul_pending_restart l1 = ul_pending_restart l"
    and "cm_plan_mode (ul_adapter l1) = cm_plan_mode (ul_adapter l)" and "rt_killed rt \<Longrightarrow> rt_killed rt1"
    and "live (cm_tracker (ul_adapter l)) \<Longrightarrow> live (cm_tracker (ul_adapter l1))" and "ledger_ok (sn_turns (rt_snapshot rt)) \<Longrightarrow> ledger_ok (sn_turns (rt_snapshot rt1))"
  shows "claude_given_back en started claim (l, rt) st'"
  using assms unfolding claude_given_back_def split_conv by blast

lemma claude_write_cases:
  assumes run: "claude_write_input en started claim content persisted kind delivery (l, rt) = Some st'"
  shows "claude_given_back en started claim (l, rt) st' \<or> claude_written en started content (l, rt) st'"
proof -
  obtain l' rt' where st': "st' = (l', rt')" by (metis surj_pair)
  let ?n = "ul_sequence l + 1"
  let ?i = "provider_input_local_id (sn_session_id started) ?n"
  obtain r rt1 where enq: "enqueue_provider_input en started ?i content (Some persisted) kind delivery
      (pc_native_thread_id (ul_conn l)) rt = (r, rt1)" by (metis surj_pair)
  note e = enqueue_provider_input_fields [OF enq] killed_enqueue [OF enq]
  show ?thesis
  proof (cases r)
    case (Inl err)
    with run enq have "st' = give_back en started claim (''Claude input persistence failed: '' @ err) (l, rt1)"
      by (simp add: claude_write_input_def Let_def)
    then have "claude_given_back en started claim (l, rt) st'" by (rule claude_given_backI) (simp_all add: e)
    then show ?thesis ..
  next
    case (Inr u)
    let ?rt2 = "update_snapshot (\<lambda>s. note_snapshot_input ?i (mark_session_busy_for_input (env_mono en) s)) rt1"
    let ?a = "(ul_adapter l)\<lparr>cm_tracker := note_input_written ?i content (Some persisted) (cm_tracker (ul_adapter l))\<rparr>"
    let ?l1 = "l\<lparr>ul_adapter := ?a\<rparr>"
    let ?line = "claude_user_line content"
    have ledger: "ledger_ok (sn_turns (rt_snapshot rt)) \<Longrightarrow> ledger_ok (sn_turns (rt_snapshot ?rt2))"
      by (simp add: runtime_simps e mark_snapshot_defs busy_mark_ok note_input_ok)
    show ?thesis
    proof (cases rule: write_stdin_cases [of en ?line ?rt2])
      case (failed err)
      with run enq Inr have "st' = give_back en started claim (''Claude stream input failed: '' @ err)
          (settle_adapter ?i ?l1, kill_child (snd (with_inputs (mark_failed (env_now en) ?i err) ?rt2)))"
        by (simp add: claude_write_input_def claude_encode_input_def claude_write_native_def claude_user_line_def Let_def)
      then have "claude_given_back en started claim (l, rt) st'"
        by (rule claude_given_backI) (use ledger in \<open>simp_all add: e runtime_simps settle_adapter_def live_def settle_failed_input_write_def note_input_written_def Let_def\<close>)
      then show ?thesis ..
    next
      case written
      let ?rt3 = "?rt2\<lparr>rt_stdin := rt_stdin ?rt2 @ [?line]\<rparr>"
      obtain w rows where mark: "mark_written (env_now en) ?i (rt_inputs rt1) = (w, rows)" by (metis surj_pair)
      have wi: "with_inputs (mark_written (env_now en) ?i) ?rt3 = (w, ?rt3\<lparr>rt_inputs := rows\<rparr>)"
        using mark by (simp add: with_inputs_def runtime_simps)
      show ?thesis
      proof (cases w)
        case (Inl err)
        with run enq Inr written wi have "st' = give_back en started claim
            (''Claude input written-state persistence failed: '' @ err) (settle_adapter ?i ?l1, kill_child (?rt3\<lparr>rt_inputs := rows\<rparr>))"
          by (simp add: claude_write_input_def claude_encode_input_def claude_write_native_def claude_user_line_def Let_def)
        then have "claude_given_back en started claim (l, rt) st'"
          by (rule claude_given_backI) (use ledger in \<open>auto simp: e runtime_simps settle_adapter_def live_def settle_failed_input_write_def note_input_written_def Let_def\<close>)
        then show ?thesis ..
      next
        case ok: (Inr u')
        with run enq Inr written wi have p: "persist_runtime_user_input en started content (Some persisted) kind ?n
              (?rt3\<lparr>rt_inputs := rows\<rparr>) = Some rt'" and l': "l' = ?l1\<lparr>ul_sequence := ?n\<rparr>"
          unfolding st'
          by (auto simp: claude_write_input_def claude_encode_input_def claude_write_native_def claude_user_line_def Let_def)
        have "state_of ?i rows = Some Written" if "inputs_ok (rt_inputs rt)"
          using mark ok e(6) [OF that] by (auto simp: mark_written_def intro: update_state_accepted)
        with persist_runtime_user_input_fields [OF p] killed_persist [OF p] e l' show ?thesis
          unfolding st' claude_written_def by (auto simp: Let_def runtime_simps)
      qed
    qed
  qed
qed

lemma claude_send_cases:
  assumes "claude_send_input en started claim input visible kind delivery (l, rt) = Some st'"
  shows "claude_given_back en started claim (l, rt) st'
    \<or> (\<exists>content. suffix input content \<and> claude_written en started content (l, rt) st')"
proof (cases "is_first_turn en started kind rt")
  case (Inl err)
  with assms have "st' = give_back en started claim (''Could not prepare Claude input history: '' @ err) (l, rt)"
    by (simp add: claude_send_input_def)
  then have "claude_given_back en started claim (l, rt) st'" by (rule claude_given_backI) simp_all
  then show ?thesis ..
next
  case (Inr first)
  have "suffix input (compose_first_turn_input (ul_general l) input first)"
    by (auto simp: compose_first_turn_input_def suffix_def split: option.split)
  with assms Inr show ?thesis
    by (auto simp: claude_send_input_def dest!: claude_write_cases)
qed

section \<open>Controls and effects\<close>

lemma claude_plan_control_fields [simp]:
  "cm_tracker (snd (claude_plan_control control s)) = cm_tracker s"
  "fst (claude_plan_control control s) \<noteq> HarnessControlPlan.Emulated e"
  by (cases control; simp add: claude_plan_control_def restart_with_def set_control_def control_response_for_def
    set_permission_mode_write_def Let_def split: option.split)+

lemma claude_apply_control_fields:
  assumes "claude_apply_control en started control (l, rt) = (l', rt')"
  shows "rt_queue rt' = rt_queue rt" "rt_interactions rt' = rt_interactions rt"
    "cm_tracker (ul_adapter l') = cm_tracker (ul_adapter l)" "ul_kill_requested l' = ul_kill_requested l"
    "ul_pending_restart l' = ul_pending_restart l" "sn_ready (rt_snapshot rt') \<Longrightarrow> sn_ready (rt_snapshot rt)"
    "rt_killed rt \<Longrightarrow> rt_killed rt'" "sn_turns (rt_snapshot rt') = sn_turns (rt_snapshot rt)"
    "ul_adapter l' = snd (claude_plan_control control (ul_adapter l))" "ul_general l' = ul_general l" "ul_sequence l' = ul_sequence l"
proof -
  let ?plan = "fst (claude_plan_control control (ul_adapter l))"
  obtain c where run: "apply_provider_control_plan en started ''claude-stream-json'' ?plan (ul_conn l, rt) = (c, rt')"
    and l': "l' = l\<lparr>ul_adapter := snd (claude_plan_control control (ul_adapter l)), ul_conn := c\<rparr>"
    using assms by (auto simp: claude_apply_control_def case_prod_beta) (metis surjective_pairing)
  note f = control_plan_fields [OF run claude_plan_control_fields(2)]
  show "rt_queue rt' = rt_queue rt" "rt_interactions rt' = rt_interactions rt"
    "cm_tracker (ul_adapter l') = cm_tracker (ul_adapter l)" "ul_kill_requested l' = ul_kill_requested l"
    "ul_pending_restart l' = ul_pending_restart l" "sn_ready (rt_snapshot rt') \<Longrightarrow> sn_ready (rt_snapshot rt)"
    "rt_killed rt \<Longrightarrow> rt_killed rt'" "sn_turns (rt_snapshot rt') = sn_turns (rt_snapshot rt)"
    "ul_adapter l' = snd (claude_plan_control control (ul_adapter l))" "ul_general l' = ul_general l" "ul_sequence l' = ul_sequence l"
    using f by (simp_all add: l')
qed

lemma permission_always_answered:
  "id_kind draft = ProviderInteractionKind.Permission \<Longrightarrow> auto_resolution_for draft s \<noteq> None"
  by (simp add: auto_resolution_for_def Let_def)

text \<open>What handling the effects of a line leaves: no queue change, no permission ask, the tracker as it was.\<close>

definition effects_kept :: "HarnessEffect list \<Rightarrow> claude_state \<Rightarrow> claude_state \<Rightarrow> bool" where
  "effects_kept es = (\<lambda>(l, rt) (l', rt'). rt_queue rt' = rt_queue rt
     \<and> cm_tracker (ul_adapter l') = cm_tracker (ul_adapter l)
     \<and> ul_kill_requested l' = ul_kill_requested l \<and> ul_pending_restart l' = ul_pending_restart l
     \<and> (rt_killed rt \<longrightarrow> rt_killed rt')
     \<and> asked_kinds (rt_interactions rt') - {PlanApproval, UserQuestion} \<subseteq> asked_kinds (rt_interactions rt)
     \<and> (sn_ready (rt_snapshot rt') \<longrightarrow> sn_ready (rt_snapshot rt) \<or> Ready \<in> set es)
     \<and> (ledger_ok (sn_turns (rt_snapshot rt)) \<longrightarrow> ledger_ok (sn_turns (rt_snapshot rt'))))"

lemma effects_kept_one: "effects_kept [e] (l, rt) (claude_line_effect en started e (l, rt))"
proof -
  have effect: "effects_kept [e] (l, rt) (claude_effect en started e (l, f rt))"
    if "f = id \<or> f = update_snapshot mark_snapshot_awaiting_input" and "\<And>d. e = InteractionRequested d \<Longrightarrow> id_kind d \<noteq> ProviderInteractionKind.Permission" for f
  proof -
    obtain c' rt' where run: "connection_effect en started e (ul_conn l, f rt) = (c', rt')" by (metis surj_pair)
    have "id_kind d = PlanApproval \<or> id_kind d = UserQuestion" if "e = InteractionRequested d" for d
      using \<open>\<And>d. e = InteractionRequested d \<Longrightarrow> _\<close> [OF that] by (cases "id_kind d") auto
    with connection_effect_fields [OF run] killed_effect [of en started e "ul_conn l" "f rt"] that(1) show ?thesis
      by (auto simp: effects_kept_def claude_effect_def run runtime_simps mark_snapshot_awaiting_input_def)
  qed
  show ?thesis
  proof (cases e)
    case (InteractionRequested d)
    show ?thesis
    proof (cases "auto_resolution_for d (ul_adapter l)")
      case None
      with permission_always_answered [of d "ul_adapter l"] InteractionRequested
        effect [of "update_snapshot mark_snapshot_awaiting_input"] show ?thesis
        by (auto simp: claude_line_effect_def)
    next
      case (Some r)
      obtain l' rt' where run: "claude_apply_control en started (ResolveInteraction (id_native_id d) r) (l, rt) = (l', rt')"
        by (metis surj_pair)
      from claude_apply_control_fields [OF run] show ?thesis
        by (auto simp: effects_kept_def claude_line_effect_def InteractionRequested Some run)
    qed
  qed (use effect [of id] in \<open>simp_all add: claude_line_effect_def\<close>)
qed

lemma effects_kept_all: "effects_kept es st (claude_line_effects en started es st)"
proof (induction es arbitrary: st)
  case Nil
  show ?case by (cases st) (simp add: effects_kept_def)
next
  case (Cons e es)
  obtain l rt where st: "st = (l, rt)" by (metis surj_pair)
  obtain l1 rt1 where st1: "claude_line_effect en started e (l, rt) = (l1, rt1)" by (metis surj_pair)
  obtain l2 rt2 where st2: "claude_line_effects en started es (l1, rt1) = (l2, rt2)" by (metis surj_pair)
  from effects_kept_one [of e l rt en started, unfolded st1] Cons.IH [of "(l1, rt1)", unfolded st2] show ?case
    by (auto simp: effects_kept_def st st1 st2)
qed

section \<open>Ready means idle\<close>

lemma tracker_ready_iff: "tracker_ready t \<longleftrightarrow> live t \<and> tracked t = []"
  by (auto simp: tracker_ready_def live_def tracked_def split: option.splits)

text \<open>What observing does to readiness: \<open>Ready\<close> is only said of an idle tracker, and an idle one stays idle.\<close>

definition idle_kept :: "HarnessEffect list \<Rightarrow> ClaudeManagedAdapter \<Rightarrow> ClaudeManagedAdapter \<Rightarrow> bool" where
  "idle_kept es s s' \<longleftrightarrow> (live (cm_tracker s) \<longrightarrow> live (cm_tracker s'))
     \<and> (tracker_ready (cm_tracker s) \<or> Ready \<in> set es \<longrightarrow> tracker_ready (cm_tracker s'))"

lemma idle_keptI:
  assumes "conserves es s s'" and "live (cm_tracker s) \<Longrightarrow> live (cm_tracker s')"
    and "Ready \<in> set es \<Longrightarrow> tracker_ready (cm_tracker s')"
  shows "idle_kept es s s'"
  using assms by (auto simp: idle_kept_def tracker_ready_iff conserves_def)

lemma idle_kept_trans: "idle_kept es s s1 \<Longrightarrow> idle_kept fs s1 s2 \<Longrightarrow> idle_kept (es @ fs) s s2"
  by (auto simp: idle_kept_def)

lemma idle_kept_refl [simp]: "idle_kept [] s s"
  by (simp add: idle_kept_def)

lemma live_steps [simp]:
  "live (snd (note_replayed_user text t)) = live t" "live (snd (note_terminal_result r st t)) = live t"
  "live (snd (note_provider_turn_started t)) = live t" "live (note_initialized t)"
  by (auto simp: note_replayed_user_def note_terminal_result_def note_provider_turn_started_def replay_into_turn_def
    start_active_def pop_into_active_def note_initialized_def live_def Let_def case_prod_beta split: option.split list.split)

lemma ready_not_in [simp]:
  "Ready \<notin> set (fst (note_replayed_user text t))" "Ready \<notin> set (fst (note_terminal_result r st t))"
  "Ready \<notin> set (fst (note_provider_turn_started t))"
  by (auto simp: note_replayed_user_def note_terminal_result_def note_provider_turn_started_def replay_into_turn_def
    echo_active_def start_active_def Let_def case_prod_beta split: option.splits if_splits)

lemma ready_in_ready_if [simp]: "Ready \<in> set (ready_if t) \<longleftrightarrow> tracker_ready t"
  by (simp add: ready_if_def)

lemma idle_kept_signal: "on_signal event s = (es, s') \<Longrightarrow> idle_kept es s s'"
  by (rule idle_keptI [OF on_signal_conserves]) (auto simp: on_signal_def Let_def case_prod_beta split: option.splits ClaudeLifecycleSignal.splits)

lemma idle_kept_turn_start: "on_turn_start event s = (es, s') \<Longrightarrow> idle_kept es s s'"
  by (rule idle_keptI [OF on_turn_start_conserves]) (auto simp: on_turn_start_def case_prod_beta split: if_splits)

lemma idle_kept_limits: "on_limits event s = (es, s') \<Longrightarrow> idle_kept es s s'"
  by (rule idle_keptI [OF on_limits_conserves]) (auto simp: on_limits_def Let_def case_prod_beta split: if_splits)

lemma idle_kept_event: "observe_event now event s = (es, s') \<Longrightarrow> idle_kept es s s'"
proof (cases "ce_kind event = Result \<and> result_completed (claude_terminal_result_id event) (cm_tracker s)")
  case False
  assume run: "observe_event now event s = (es, s')"
  obtain es1 s1 where 1: "on_signal event s = (es1, s1)" by (metis surj_pair)
  obtain es2 s2 where 2: "on_turn_start event s1 = (es2, s2)" by (metis surj_pair)
  obtain es3 s3 where 3: "on_limits event s2 = (es3, s3)" by (metis surj_pair)
  obtain shown where "es = shown @ es1 @ es2 @ es3" "Ready \<notin> set shown" "s' = s3"
    using run unfolding observe_event_def if_not_P [OF False] Let_def 1 2 3 prod.case
    by (auto simp: image_iff split: if_splits)
  moreover have "idle_kept (es1 @ es2 @ es3) s s3"
    by (rule idle_kept_trans [OF idle_kept_signal [OF 1] idle_kept_trans [OF idle_kept_turn_start [OF 2] idle_kept_limits [OF 3]]])
  ultimately show ?thesis by (simp add: idle_kept_def)
qed (simp add: observe_event_def)

lemma idle_kept_line: "observe_line from_str now line s = (r, s') \<Longrightarrow> idle_kept (ok_effects r) s s'"
proof -
  assume run: "observe_line from_str now line s = (r, s')"
  obtain d s1 where c: "control_request_interaction from_str line s = (d, s1)" by (metis surj_pair)
  note t = control_request_tracker [OF c]
  have event: "idle_kept es s s2" if "observe_event now event (s1\<lparr>cm_parser := p\<rparr>) = (es, s2)" for event es s2 p
    using idle_kept_event [OF that] t by (simp add: idle_kept_def)
  show ?thesis using run t
    by (auto simp: observe_line_def c idle_kept_def split: option.splits prod.splits sum.splits
      dest: event [unfolded idle_kept_def])
qed

lemma idle_kept_lines:
  "claude_observe_lines from_str now ls effects s = (Inr es, s') \<Longrightarrow> Ready \<in> set effects \<longrightarrow> tracker_ready (cm_tracker s) \<Longrightarrow>
     idle_kept es s s'"
proof (induction from_str now ls effects s rule: claude_observe_lines.induct)
  case (2 from_str now line ls effects s)
  then obtain fs s1 where line: "observe_line from_str now line s = (Inr fs, s1)"
    and rest: "claude_observe_lines from_str now ls (effects @ fs) s1 = (Inr es, s')"
    by (auto split: prod.splits sum.splits)
  note k = idle_kept_line [OF line]
  have "idle_kept es s1 s'"
    using "2.IH" [OF line [symmetric] refl rest] k "2.prems"(2) by (auto simp: idle_kept_def)
  with k show ?case by (auto simp: idle_kept_def)
qed (auto simp: idle_kept_def)

lemma lines_live: "claude_observe_lines from_str now ls effects s = (r, s') \<Longrightarrow> live (cm_tracker s) \<Longrightarrow> live (cm_tracker s')"
proof (induction from_str now ls effects s rule: claude_observe_lines.induct)
  case (2 from_str now line ls effects s)
  obtain q s1 where line: "observe_line from_str now line s = (q, s1)" by (metis surj_pair)
  with idle_kept_line [OF line] 2 show ?case by (cases q) (auto simp: idle_kept_def)
qed simp

lemma idle_kept_native:
  assumes "claude_observe_native from_str now r s = (res, s')"
  shows "live (cm_tracker s) \<Longrightarrow> live (cm_tracker s')" "tracker_ready (cm_tracker s) \<Longrightarrow> tracker_ready (cm_tracker s')"
    "Ready \<in> set (ok_effects res) \<Longrightarrow> tracker_ready (cm_tracker s')"
proof -
  have run: "s' = s \<and> (\<exists>e. res = Inl e) \<or> (\<exists>ls. claude_observe_lines from_str now ls [] s = (res, s'))"
    using assms by (auto simp: claude_observe_native_def split: if_splits)
  then show l: "live (cm_tracker s) \<Longrightarrow> live (cm_tracker s')" using lines_live by blast
  show "tracker_ready (cm_tracker s) \<Longrightarrow> tracker_ready (cm_tracker s')"
    using run l by (auto simp: tracker_ready_iff dest!: observe_lines_conserves)
  show "tracker_ready (cm_tracker s')" if "Ready \<in> set (ok_effects res)"
    using run that by (cases res) (auto dest!: idle_kept_lines simp: idle_kept_def)
qed

section \<open>What a step keeps\<close>

definition claude_kept :: "claude_state \<Rightarrow> claude_state \<Rightarrow> bool" where
  "claude_kept = (\<lambda>(l, rt) (l', rt').
     (\<exists>rows. rt_queue rt' = rt_queue rt @ rows)
     \<and> asked_kinds (rt_interactions rt') - {PlanApproval, UserQuestion} \<subseteq> asked_kinds (rt_interactions rt)
     \<and> (live (cm_tracker (ul_adapter l)) \<longrightarrow> live (cm_tracker (ul_adapter l')))
     \<and> ((sn_ready (rt_snapshot rt) \<longrightarrow> tracker_ready (cm_tracker (ul_adapter l))) \<longrightarrow> sn_ready (rt_snapshot rt')
           \<longrightarrow> tracker_ready (cm_tracker (ul_adapter l')))
     \<and> (ul_kill_requested l \<and> rt_killed rt \<longrightarrow> ul_kill_requested l' \<and> rt_killed rt')
     \<and> (ledger_ok (sn_turns (rt_snapshot rt)) \<longrightarrow> ledger_ok (sn_turns (rt_snapshot rt'))))"

lemma claude_kept_refl: "claude_kept st st"
  by (cases st) (simp add: claude_kept_def)

lemma claude_kept_trans:
  assumes "claude_kept a b" and "claude_kept b c"
  shows "claude_kept a c"
proof -
  obtain la ra lb rb lc rc where st: "a = (la, ra)" "b = (lb, rb)" "c = (lc, rc)" by (metis surj_pair)
  note ab = assms(1) [unfolded claude_kept_def st split_conv] and bc = assms(2) [unfolded claude_kept_def st split_conv]
  obtain r1 r2 where "rt_queue rb = rt_queue ra @ r1" "rt_queue rc = rt_queue rb @ r2" using ab bc by (elim conjE exE)
  then have "\<exists>rows. rt_queue rc = rt_queue ra @ rows" by simp
  moreover have "asked_kinds (rt_interactions rc) - {PlanApproval, UserQuestion} \<subseteq> asked_kinds (rt_interactions ra)"
    using ab [THEN conjunct2, THEN conjunct1] bc [THEN conjunct2, THEN conjunct1] by blast
  moreover note rest = ab [THEN conjunct2, THEN conjunct2] bc [THEN conjunct2, THEN conjunct2]
  ultimately show ?thesis unfolding claude_kept_def st split_conv
    by (intro conjI) (assumption | use rest in argo)+
qed

lemma claude_kept_line: "claude_kept st (claude_line en started line st)"
proof -
  obtain l rt where st: "st = (l, rt)" by (metis surj_pair)
  let ?rt1 = "append_provider_native_output (sn_session_id started) ''claude-stream-json'' line rt"
  obtain r a where obs: "claude_observe_native (env_from_str en) (env_millis en)
      \<lparr>nr_provider_key = ''claude'', nr_payload = line\<rparr> (ul_adapter l) = (r, a)" by (metis surj_pair)
  note idle = idle_kept_native [OF obs]
  let ?l1 = "l\<lparr>ul_adapter := a\<rparr>"
  show ?thesis
  proof (cases r)
    case (Inl e)
    with obs idle show ?thesis
      by (auto simp: st claude_line_def claude_kept_def runtime_simps Let_def)
  next
    case (Inr es)
    obtain l' rt' where run: "claude_line_effects en started es (?l1, ?rt1) = (l', rt')" by (metis surj_pair)
    from effects_kept_all [of es "(?l1, ?rt1)" en started, unfolded run] idle Inr have "claude_kept (l, rt) (l', rt')"
      by (auto simp: effects_kept_def claude_kept_def runtime_simps)
    with obs Inr run show ?thesis by (simp add: st claude_line_def Let_def)
  qed
qed

lemma claude_kept_send:
  assumes "claude_send_input en started claim input visible kind delivery (l, rt) = Some st'"
  shows "claude_kept (l, rt) st'"
  using claude_send_cases [OF assms]
proof (elim disjE exE conjE)
  assume "claude_given_back en started claim (l, rt) st'"
  then obtain err l1 rt1 where st': "st' = give_back en started claim err (l1, rt1)" and rt1: "rt_queue rt1 = rt_queue rt"
    "rt_interactions rt1 = rt_interactions rt" "ul_kill_requested l1 = ul_kill_requested l" "rt_killed rt \<longrightarrow> rt_killed rt1"
    "ledger_ok (sn_turns (rt_snapshot rt)) \<longrightarrow> ledger_ok (sn_turns (rt_snapshot rt1))"
    "live (cm_tracker (ul_adapter l)) \<longrightarrow> live (cm_tracker (ul_adapter l1))"
    unfolding claude_given_back_def split_conv by blast
  obtain rt' where eq: "give_back en started claim err (l1, rt1) = (l1, rt')" and "rt_killed rt' = rt_killed rt1"
    by (simp add: give_back_def loop_fail_def runtime_simps)
  with give_back_queue [of en started claim err l1 rt1] requeue_failed_queued_handoff_rows [of en claim rt1] rt1
  show ?thesis by (auto simp: st' eq claude_kept_def)
next
  fix content assume "claude_written en started content (l, rt) st'"
  then show ?thesis
    by (auto simp: claude_written_def claude_kept_def Let_def mark_snapshot_defs busy_mark_ok note_input_ok note_input_written_def live_def)
qed

lemma claude_kept_control:
  assumes "claude_apply_control en started control (l, rt) = (l', rt')"
  shows "claude_kept (l, rt) (l'\<lparr>ul_pending_restart := b\<rparr>, rt')"
  using claude_apply_control_fields [OF assms] by (simp add: claude_kept_def)

lemma claude_kept_command:
  assumes "claude_command en started command st = Some st'"
  shows "claude_kept st st'"
proof -
  obtain l rt where st: "st = (l, rt)" by (metis surj_pair)
  obtain l1 rt1 where i: "claude_apply_control en started HarnessControl.Interrupt (l, rt) = (l1, rt1)" by (metis surj_pair)
  have same: "claude_kept (l, rt) (l1, rt1)"
    using claude_kept_control [OF i, of "ul_pending_restart l1"] by simp
  show ?thesis
  proof (cases command)
    case (ApplyControl control)
    obtain l2 rt2 where c: "claude_apply_control en started control (l, rt) = (l2, rt2)" by (metis surj_pair)
    from claude_kept_control [OF c, of True] claude_kept_control [OF c, of "ul_pending_restart l2"] assms c ApplyControl
    show ?thesis by (auto simp: st claude_command_def split: if_splits)
  next
    case Kill
    with assms show ?thesis by (auto simp: st claude_command_def claude_kept_def runtime_simps)
  next
    case InterruptTurn
    with assms i same show ?thesis by (simp add: st claude_command_def)
  next
    case (Resize a b)
    with assms claude_kept_refl show ?thesis by (auto simp: st claude_command_def)
  qed (use assms in \<open>auto simp: st claude_command_def intro: claude_kept_send\<close>)
qed

lemma restarted_adapter_ready: "tracker_ready (cm_tracker (claude_adapter_for en started c rt))"
  "live (cm_tracker (claude_adapter_for en started c rt))"
  by (simp_all add: claude_adapter_for_def claude_new_def tracker_default_def note_transport_started_def tracker_ready_def live_def Let_def)

lemma restarted_adapter_plan: "cm_plan_mode (claude_adapter_for en started c rt) = thread_plans en (sn_thread_id started) (rt_threads rt)"
  by (simp add: claude_adapter_for_def Let_def)

lemma update_session_process_pid_fields [runtime_simps]:
  "rt_queue (snd (update_session_process_pid p pid rt)) = rt_queue rt"
  "rt_interactions (snd (update_session_process_pid p pid rt)) = rt_interactions rt"
  "rt_snapshot (snd (update_session_process_pid p pid rt)) = rt_snapshot rt"
  "rt_stdin (snd (update_session_process_pid p pid rt)) = rt_stdin rt"
  "rt_sent (snd (update_session_process_pid p pid rt)) = rt_sent rt"
  by (simp_all add: update_session_process_pid_def Let_def)

lemma claude_kept_iteration: "claude_kept st (claude_iteration_end en hooks spawn started st)"
proof -
  obtain l rt where st: "st = (l, rt)" by (metis surj_pair)
  show ?thesis
  proof (cases "claude_restart_allowed (ul_pending_restart l) (ul_kill_requested l) (tracker_ready (cm_tracker (ul_adapter l)))")
    case True
    then have "\<not> ul_kill_requested l" "live (cm_tracker (ul_adapter l))"
      by (simp_all add: claude_restart_allowed_def tracker_ready_iff)
    with True show ?thesis
      by (auto simp: st claude_iteration_end_def restart_claude_stream_connection_def claude_kept_def claude_restarted_def
        restarted_adapter_ready loop_fail_def runtime_simps Let_def split: option.split sum.split)
  qed (simp add: st claude_iteration_end_def claude_kept_refl)
qed

lemma claude_kept_step: "claude_step started e st = Some st' \<Longrightarrow> claude_kept st st'"
  by (cases e) (auto intro: claude_kept_line claude_kept_command claude_kept_iteration)

lemma claude_run_path: "claude_run started es st = Some st' \<longleftrightarrow> loop_path (\<lambda>e a b. claude_step started e a = Some b) es st st'"
  by (induction es arbitrary: st)
    (auto simp: bind_eq_Some_conv intro: loop_path.intros elim: path_stepE)

lemma claude_kept_run: "claude_run started es st = Some st' \<Longrightarrow> claude_kept st st'"
proof (induction es arbitrary: st)
  case (Cons e es)
  then show ?case by (auto simp: bind_eq_Some_conv intro: claude_kept_trans [OF claude_kept_step])
qed (simp add: claude_kept_refl)

section \<open>No claim is lost\<close>

fun claude_claim :: "claude_input \<Rightarrow> QueuedChatInputRecord option" where
  "claude_claim (ClaudeCommand _ (SendQueuedInput claim)) = Some claim"
| "claude_claim _ = None"

fun claude_can_requeue :: "claude_input \<Rightarrow> bool" where
  "claude_can_requeue (ClaudeCommand en _) \<longleftrightarrow> env_db en ''requeue'' = None"
| "claude_can_requeue _ \<longleftrightarrow> True"

definition claude_told :: "QueuedChatInputRecord \<Rightarrow> claude_state \<Rightarrow> claude_state \<Rightarrow> bool" where
  "claude_told claim st st' \<longleftrightarrow> (\<exists>content. suffix (qi_input claim) content
     \<and> rt_stdin (snd st') = rt_stdin (snd st) @ [claude_user_line content])"

lemma claude_claim_placed:
  assumes "claude_step started e st = Some st'" and "claude_can_requeue e" and "claude_claim e = Some claim"
  shows "claude_told claim st st' \<or> queued_as claim (rt_queue (snd st'))"
proof -
  obtain l rt where st: "st = (l, rt)" by (metis surj_pair)
  obtain en where e: "e = ClaudeCommand en (SendQueuedInput claim)" using assms(3)
    by (cases e rule: claude_claim.cases) auto
  with assms have "claude_send_input en started (Some claim) (qi_input claim) (qi_visible_input claim) (qi_input_kind claim) Auto (l, rt) = Some st'"
    and db: "env_db en ''requeue'' = None" by (simp_all add: claude_command_def st)
  from claude_send_cases [OF this(1)] show ?thesis
  proof (elim disjE exE conjE)
    assume "claude_given_back en started (Some claim) (l, rt) st'"
    then obtain err l1 rt1 where "st' = give_back en started (Some claim) err (l1, rt1)"
      unfolding claude_given_back_def split_conv by blast
    then show ?thesis by (simp add: give_back_queue requeue_failed_queued_handoff_places [OF db])
  next
    fix content assume "suffix (qi_input claim) content" "claude_written en started content (l, rt) st'"
    then show ?thesis by (cases st') (auto simp: claude_told_def claude_written_def st Let_def)
  qed
qed

interpretation claude_claims: claim_loop "\<lambda>e a b. claude_step started e a = Some b" "\<lambda>st. rt_queue (snd st)" "\<lambda>_. []"
    claude_claim claude_told claude_can_requeue for started
proof (unfold_locales, goal_cases)
  case (1 e st st')
  from claude_kept_step [OF 1] show ?case by (cases st; cases st') (auto simp: claude_kept_def)
next
  case (2 e st st' claim)
  then show ?case using claude_claim_placed by auto
qed

section \<open>The start\<close>

lemma ready_connection_effect: "connection_effect en started Ready (c, rt) =
    (c, send (SessionReady (sn_session_id started) (sn_thread_id started)) (update_snapshot mark_snapshot_ready rt))"
  by (simp add: connection_effect_def apply_effect_now_def apply_harness_effect_def Let_def)

lemma claude_start_fields:
  assumes "claude_start en started c general rt = (l, rt')"
  shows "tracker_ready (cm_tracker (ul_adapter l))" "\<not> ul_kill_requested l" "\<not> ul_pending_restart l" "ul_conn l = c"
    "rt_stdin rt' = rt_stdin rt" "rt_queue rt' = rt_queue rt" "rt_interactions rt' = rt_interactions rt"
  using assms by (auto simp: claude_start_def claude_effect_def ready_connection_effect Let_def restarted_adapter_ready
    runtime_simps split: sum.split)

section \<open>An ask of the agent\<close>

lemma claude_ask_line:
  assumes "str_lines line = [line]" and "trim line \<noteq> []" and "split_parallel_tool_results (env_from_str en) line = [line]"
    and "control_request_interaction (env_from_str en) line (ul_adapter l) = (Some draft, s1)"
  shows "claude_line en started line (l, rt) = claude_line_effect en started (InteractionRequested draft)
    (l\<lparr>ul_adapter := s1\<rparr>, append_provider_native_output (sn_session_id started) ''claude-stream-json'' line rt)"
  using assms by (simp add: claude_line_def claude_observe_native_def observe_line_def Let_def)

lemma claude_answered_ask:
  assumes "auto_resolution_for draft (ul_adapter l) = Some resolution" and "env_stdin en = (\<lambda>_. None)"
    and "cm_pending_interactions (ul_adapter l) (id_native_id draft) = Some asked"
  shows "\<exists>l'. claude_line_effect en started (InteractionRequested draft) (l, rt) =
    (l', rt\<lparr>rt_stdin := rt_stdin rt @ [encode_line (obj [(''type'', JStr ''control_response''),
       (''response'', obj [(''subtype'', JStr ''success''), (''request_id'', JStr (id_native_id draft)),
          (''response'', control_response asked resolution)])])]\<rparr>)
    \<and> cm_plan_mode (ul_adapter l') = cm_plan_mode (ul_adapter l) \<and> cm_tracker (ul_adapter l') = cm_tracker (ul_adapter l)"
  using assms
  by (simp add: claude_line_effect_def claude_apply_control_def claude_plan_control_def control_response_for_def
    apply_provider_control_plan_def write_stdin_def claude_native_write_def Let_def)

lemma permission_ask:
  assumes "from_str line = Some value" and "string_at value [''type''] = Some ''control_request''"
    and "string_at value [''request_id''] = Some i" and "string_at value [''request'', ''subtype''] = Some ''can_use_tool''"
    and "string_at value [''request'', ''tool_name''] = Some tool" and "tool \<notin> {''ExitPlanMode'', ''AskUserQuestion''}"
  shows "\<exists>draft. control_request_interaction from_str line s = (Some draft, s\<lparr>cm_pending_interactions :=
      (cm_pending_interactions s)(i \<mapsto> unwrap_or (jpath value [''request'', ''input'']) JNull)\<rparr>)
    \<and> id_kind draft = ProviderInteractionKind.Permission \<and> id_native_request draft = value \<and> id_native_id draft = i"
  using assms by (simp add: control_request_interaction_def claude_interaction_kind_def Let_def)

text \<open>An environment whose agent reads nothing more.\<close>

definition broken_env :: env where
  "broken_env = (example_env (\<lambda>_. None))\<lparr>env_stdin := \<lambda>_. Some ''Broken pipe''\<rparr>"

section \<open>Properties\<close>

text \<open>
  C19. A queued input the Claude loop reads is never lost: over any life of the session it has been written
  to the agent, as a user message that ends with it, or it is back in the queue of its thread, as long as the
  database takes it back.
\<close>

theorem claude_claims_accounted:
  assumes "claude_run started es st = Some st'" and "\<forall>e\<in>set es. claude_can_requeue e"
    and "ClaudeCommand en (SendQueuedInput claim) \<in> set es"
  shows "queued_as claim (rt_queue (snd st'))
    \<or> (\<exists>es1 e es2 st1 st2 content. es = es1 @ e # es2 \<and> claude_run started es1 st = Some st1
         \<and> claude_step started e st1 = Some st2 \<and> suffix (qi_input claim) content
         \<and> rt_stdin (snd st2) = rt_stdin (snd st1) @ [encode_line (encode_claude_user_message content)])"
proof -
  have "\<exists>e\<in>set es. claude_claim e = Some claim" using assms(3) by force
  then consider "queued_as claim (rt_queue (snd st'))"
    | es1 e es2 st1 st2 where "es = es1 @ e # es2" "claude_run started es1 st = Some st1"
        "claude_step started e st1 = Some st2" "claude_told claim st1 st2"
    using claude_claims.claim_accounted [OF iffD1 [OF claude_run_path assms(1)] assms(2), of claim]
    by (auto simp: claude_run_path [symmetric])
  then show ?thesis
  proof cases
    case (2 es1 e es2 st1 st2)
    then show ?thesis unfolding claude_told_def claude_user_line_def by blast
  qed simp
qed

theorem claude_claims_accounted_witness:
  "\<exists>st'. claude_run example_snapshot [ClaudeCommand broken_env (SendQueuedInput (example_claim ''hi''))]
       (claude_start (example_env (\<lambda>_. None)) example_snapshot example_connection (Inr None) example_runtime) = Some st'
     \<and> queued_as (example_claim ''hi'') (rt_queue (snd st'))"
proof -
  obtain l rt where start: "claude_start (example_env (\<lambda>_. None)) example_snapshot example_connection (Inr None) example_runtime = (l, rt)"
    by (metis surj_pair)
  obtain st' where st': "claude_command broken_env example_snapshot (SendQueuedInput (example_claim ''hi'')) (l, rt) = Some st'"
    "rt_stdin (snd st') = rt_stdin rt"
    by (simp add: claude_command_def claude_send_input_def is_first_turn_def durable_thread_is_first_user_turn_def example_claim_def
      broken_env_def example_env_def claude_write_input_def claude_encode_input_def claude_write_native_def write_stdin_def
      enqueue_provider_input_def give_back_queue runtime_simps Let_def)
  then have run: "claude_run example_snapshot [ClaudeCommand broken_env (SendQueuedInput (example_claim ''hi''))] (l, rt) = Some st'"
    by simp
  have "queued_as (example_claim ''hi'') (rt_queue (snd st'))"
    using claude_claims_accounted [OF run, of broken_env "example_claim ''hi''"] st'
    by (auto simp: broken_env_def example_env_def Cons_eq_append_conv)
  with run start show ?thesis by auto
qed

text \<open>
  C20. A Claude session says it is ready only when it is idle: at any point of a life of the loop, if the
  snapshot is ready then the adapter waits for no input and no turn is running, so an input sent on that
  reading is not merged into someone else's turn.
\<close>

theorem claude_ready_means_idle:
  assumes "claude_run started es (claude_start en started c general rt) = Some (l', rt')"
    and "sn_ready (rt_snapshot rt')"
  shows "tracked (cm_tracker (ul_adapter l')) = []"
proof -
  obtain l0 rt0 where start: "claude_start en started c general rt = (l0, rt0)" by (metis surj_pair)
  with claude_start_fields [OF start] claude_kept_run [OF assms(1) [unfolded start]] assms(2) show ?thesis
    by (auto simp: claude_kept_def tracker_ready_iff)
qed

theorem claude_ready_means_idle_witness:
  "\<exists>l' rt'. claude_run example_snapshot []
       (claude_start (example_env (\<lambda>_. None)) example_snapshot example_connection (Inr None) example_runtime) = Some (l', rt')
     \<and> sn_ready (rt_snapshot rt') \<and> tracked (cm_tracker (ul_adapter l')) = []"
proof -
  obtain l rt where start: "claude_start (example_env (\<lambda>_. None)) example_snapshot example_connection (Inr None) example_runtime = (l, rt)"
    by (metis surj_pair)
  then have ready: "sn_ready (rt_snapshot rt)"
    by (auto simp: claude_start_def claude_effect_def ready_connection_effect runtime_simps mark_snapshot_defs Let_def)
  have "claude_run example_snapshot []
      (claude_start (example_env (\<lambda>_. None)) example_snapshot example_connection (Inr None) example_runtime) = Some (l, rt)"
    by (simp add: start)
  from claude_ready_means_idle [OF this ready] ready start show ?thesis by simp
qed

text \<open>
  C21. A kill is final: once the loop has read it, nothing the agent says and no control the daemon asks for,
  in any order, starts a replacement process. The old one stays killed and the end of an iteration
  changes nothing.
\<close>

theorem claude_kill_is_final:
  assumes "claude_command en started SessionCommand.Kill st = Some st1" and "claude_run started es st1 = Some (l', rt')"
  shows "rt_killed rt' \<and> claude_iteration_end en' hooks spawn started (l', rt') = (l', rt')"
proof -
  obtain l rt where st: "st = (l, rt)" by (metis surj_pair)
  with assms(1) have "st1 = (l\<lparr>ul_kill_requested := True, ul_pending_restart := False\<rparr>, kill_child rt)"
    by (simp add: claude_command_def)
  with claude_kept_run [OF assms(2)] show ?thesis
    by (simp add: claude_kept_def runtime_simps claude_iteration_end_def claude_restart_allowed_def)
qed

theorem claude_kill_is_final_witness:
  "\<exists>st1 l' rt'. claude_command broken_env example_snapshot SessionCommand.Kill
       (claude_start (example_env (\<lambda>_. None)) example_snapshot example_connection (Inr None) example_runtime) = Some st1
     \<and> claude_run example_snapshot [ClaudeCommand broken_env (ApplyControl (SetModel None))] st1 = Some (l', rt')
     \<and> ul_pending_restart l' \<and> claude_iteration_end broken_env None (\<lambda>_. Inr 5) example_snapshot (l', rt') = (l', rt')"
proof -
  obtain l rt where start: "claude_start (example_env (\<lambda>_. None)) example_snapshot example_connection (Inr None) example_runtime = (l, rt)"
    by (metis surj_pair)
  let ?st1 = "(l\<lparr>ul_kill_requested := True, ul_pending_restart := False\<rparr>, kill_child rt)"
  have kill: "claude_command broken_env example_snapshot SessionCommand.Kill (l, rt) = Some ?st1"
    by (simp add: claude_command_def)
  obtain l' rt' where run: "claude_run example_snapshot [ClaudeCommand broken_env (ApplyControl (SetModel None))] ?st1 = Some (l', rt')"
    and p: "ul_pending_restart l'"
    by (simp add: claude_command_def claude_plan_control_def restart_with_def restart_required_def case_prod_beta)
  from claude_kill_is_final [OF kill run, of broken_env None "\<lambda>_. Inr 5"] kill run p start show ?thesis by auto
qed

text \<open>
  Asking for another model, effort or speed before the first message ends a new Claude session: Claude says
  its session id only after it has read a message, the loop is idle and so restarts at once, and
  without an id there is nothing to resume. The process is killed and the session failed, whatever the
  replacement would have done.
\<close>

lemma claude_early_control_ends_session:
  assumes "pc_native_thread_id c = None" and "control \<in> {SetModel m, SetEffort e, SetFastMode f}"
  shows "\<exists>l' rt'. claude_run started [ClaudeCommand en (ApplyControl control), ClaudeIterationEnd en hooks spawn]
      (claude_start en0 started c general rt) = Some (l', rt')
    \<and> rt_killed rt' \<and> rt_stdin rt' = rt_stdin rt
    \<and> sn_runtime_state (rt_snapshot rt') = AgentSessionState.Failed \<and> \<not> sn_ready (rt_snapshot rt')
    \<and> last (rt_sent rt') = session_error started
         ''Claude stream restart failed: Claude session has no native session id to resume''"
proof -
  obtain l0 rt0 where start: "claude_start en0 started c general rt = (l0, rt0)" by (metis surj_pair)
  note s = claude_start_fields [OF start]
  obtain l1 rt1 where c: "claude_apply_control en started control (l0, rt0) = (l1, rt1)" by (metis surj_pair)
  have plan: "fst (claude_plan_control control (ul_adapter l0)) = HarnessControlPlan.RestartRequired
      (ac_controls (cm_context (snd (claude_plan_control control (ul_adapter l0)))))"
    using assms(2) by (auto simp: claude_plan_control_def restart_with_def)
  then have s1: "pc_native_thread_id (ul_conn l1) = None" "rt_stdin rt1 = rt_stdin rt0"
    using c s(4) assms(1) by (auto simp: claude_apply_control_def case_prod_beta apply_provider_control_plan_def
      apply_provider_connection_controls_def update_chat_thread_harness_metadata_def Let_def runtime_simps)
  with claude_apply_control_fields [OF c] s plan c show ?thesis
    by (simp add: start claude_command_def restart_required_def claude_iteration_end_def claude_restart_allowed_def
      restart_claude_stream_connection_def loop_fail_def runtime_simps)
qed

text \<open>
  Opting a thread in to approving each tool call has no effect on a Claude session that is not planning:
  the permission mode of the thread is the one asked for, and yet every ask for a tool is approved
  by the loop at once. It is never registered, no event is sent and the session does not wait for the user.
\<close>

lemma claude_supervised_tool_runs_unasked:
  assumes thread: "chat_thread_plan_mode en (sn_thread_id started) (rt_threads rt) = Inr False"
      "chat_thread_approval_mode en (sn_thread_id started) (rt_threads rt) = Inr (Some mode)"
    and adapter: "\<not> cm_plan_mode (ul_adapter l)" and stdin: "env_stdin en = (\<lambda>_. None)"
    and line: "str_lines line = [line]" "trim line \<noteq> []" "split_parallel_tool_results (env_from_str en) line = [line]"
    and ask: "env_from_str en line = Some value" "string_at value [''type''] = Some ''control_request''"
      "string_at value [''request_id''] = Some i" "string_at value [''request'', ''subtype''] = Some ''can_use_tool''"
      "string_at value [''request'', ''tool_name''] = Some tool" "tool \<notin> {''ExitPlanMode'', ''AskUserQuestion''}"
  shows "claude_permission_mode_for_thread en (sn_thread_id started) (rt_threads rt) = mode
    \<and> (\<exists>l' rt'. claude_line en started line (l, rt) = (l', rt')
       \<and> rt_stdin rt' = rt_stdin rt @ [encode_line (obj [(''type'', JStr ''control_response''),
           (''response'', obj [(''subtype'', JStr ''success''), (''request_id'', JStr i),
              (''response'', obj [(''behavior'', JStr ''allow''),
                 (''updatedInput'', unwrap_or (jpath value [''request'', ''input'']) JNull)])])])]
       \<and> rt_interactions rt' = rt_interactions rt \<and> rt_sent rt' = rt_sent rt \<and> rt_snapshot rt' = rt_snapshot rt)"
proof -
  obtain draft where d: "control_request_interaction (env_from_str en) line (ul_adapter l) = (Some draft, (ul_adapter l)
      \<lparr>cm_pending_interactions := (cm_pending_interactions (ul_adapter l))(i \<mapsto> unwrap_or (jpath value [''request'', ''input'']) JNull)\<rparr>)"
    "id_kind draft = ProviderInteractionKind.Permission" "id_native_id draft = i"
    using permission_ask [of "env_from_str en" line "value" i tool "ul_adapter l"] ask by blast
  let ?s1 = "(ul_adapter l)\<lparr>cm_pending_interactions :=
      (cm_pending_interactions (ul_adapter l))(i \<mapsto> unwrap_or (jpath value [''request'', ''input'']) JNull)\<rparr>"
  have "auto_resolution_for draft ?s1 = Some Approve" using d adapter by (simp add: auto_resolution_for_def Let_def)
  with claude_answered_ask [of draft "l\<lparr>ul_adapter := ?s1\<rparr>" Approve en _ started] stdin d
    claude_ask_line [OF line d(1)] thread show ?thesis
    by (fastforce simp: claude_permission_mode_for_thread_def control_response_def runtime_simps)
qed

definition example_tool_ask :: json where
  "example_tool_ask = JObj [(''request'', JObj [(''subtype'', JStr ''can_use_tool''), (''tool_name'', JStr ''Bash'')]),
     (''request_id'', JStr ''q1''), (''type'', JStr ''control_request'')]"

text \<open>
  A restart a control change asked for, once the session is idle, resumes the same Claude session under the
  permission mode its thread has now; afterwards the process row and the snapshot both name the new process,
  so what stops the workspace stops this agent, the adapter plans exactly when the thread does, the
  session is ready, and the numbering of inputs goes on.
\<close>

lemma claude_restart_resumes:
  assumes allowed: "claude_restart_allowed (ul_pending_restart l) (ul_kill_requested l) (tracker_ready (cm_tracker (ul_adapter l)))"
    and native: "pc_native_thread_id (ul_conn l) = Some n" and db: "env_db en = (\<lambda>_. None)"
    and spawn: "spawn (restart_args hooks n (claude_permission_mode_for_thread en (sn_thread_id started) (rt_threads rt)) (ul_conn l)) = Inr pid"
    and pid: "0 < pid"
    and row: "r \<in> set (rt_processes rt)" "pw_id r = sn_session_id started" "pw_is_session r" "pw_status r = Running"
  shows "\<exists>l' rt'. claude_iteration_end en hooks spawn started (l, rt) = (l', rt')
    \<and> (\<forall>r'\<in>set (rt_processes rt'). pw_id r' = sn_session_id started \<and> pw_is_session r' \<and> pw_status r' = Running \<longrightarrow> pw_pid r' = pid)
    \<and> sn_pid (rt_snapshot rt') = pid \<and> sn_ready (rt_snapshot rt') \<and> tracker_ready (cm_tracker (ul_adapter l'))
    \<and> cm_plan_mode (ul_adapter l') = thread_plans en (sn_thread_id started) (rt_threads rt)
    \<and> \<not> ul_pending_restart l' \<and> ul_sequence l' = ul_sequence l \<and> rt_stdin rt' = rt_stdin rt \<and> \<not> rt_killed rt'"
proof -
  let ?running = "\<lambda>x. pw_id x = sn_session_id started \<and> pw_is_session x \<and> pw_status x = Running"
  let ?rt1 = "append_provider_native_output (sn_session_id started) ''claude-stream-json''
      ''transport restarted: claude -p stream-json'' (rt\<lparr>rt_killed := False\<rparr>)"
  have "list_ex ?running (rt_processes ?rt1)"
  proof -
    have "\<exists>x\<in>set (update_where q (\<lambda>r. r\<lparr>pw_log := pw_log r @ o'\<rparr>) (rt_processes rt)). ?running x" for q o'
      using row by (intro bexI [of _ "if q r then r\<lparr>pw_log := pw_log r @ o'\<rparr> else r"]) (auto simp: update_where_def)
    with row show ?thesis
      by (auto simp: append_provider_native_output_def append_session_process_output_def list_ex_iff split: option.split)
  qed
  then have "snd (update_session_process_pid (sn_session_id started) pid ?rt1) =
      ?rt1\<lparr>rt_processes := update_where ?running (\<lambda>r. r\<lparr>pw_pid := pid\<rparr>) (rt_processes ?rt1)\<rparr>"
    using pid by (simp add: update_session_process_pid_def)
  then show ?thesis using allowed native db spawn
    by (auto simp: claude_iteration_end_def restart_claude_stream_connection_def claude_restarted_def restarted_adapter_ready
      restarted_adapter_plan runtime_simps update_where_def Let_def)
      (auto simp: send_def update_snapshot_def split: if_splits)
qed

end
