(* ===== verification/Answers.thy ===== *)
theory Answers
  imports Daemon_Requests Claude_Facts
begin

text \<open>
  What an answer to an agent's ask does, across the daemon and the loop of the session that asked: the
  requests of Daemon_Requests on the one side, the Claude loop on the other.
\<close>

section \<open>Lemmas\<close>

lemma update_handle_lookup:
  "map_of (sv_sessions (update_handle i f sv)) k = map_option (\<lambda>h. if k = i then f h else h) (map_of (sv_sessions sv) k)"
proof -
  have "map_of (map (\<lambda>(j, h). (j, if j = i then f h else h)) xs) k = map_option (\<lambda>h. if k = i then f h else h) (map_of xs k)" for xs
    by (induction xs) auto
  then show ?thesis by (simp add: update_handle_def)
qed

lemma broadcast_fields [simp]:
  "sv_sessions (broadcast e sv) = sv_sessions sv" "sv_queue (broadcast e sv) = sv_queue sv"
  "sv_interactions (broadcast e sv) = sv_interactions sv" "sv_threads (broadcast e sv) = sv_threads sv"
  "sv_sent (broadcast e sv) = sv_sent sv @ [e]"
  by (simp_all add: broadcast_def)

lemma update_handle_fields [simp]:
  "sv_queue (update_handle i f sv) = sv_queue sv" "sv_interactions (update_handle i f sv) = sv_interactions sv"
  "sv_threads (update_handle i f sv) = sv_threads sv" "sv_sent (update_handle i f sv) = sv_sent sv"
  by (simp_all add: update_handle_def)

text \<open>Restoring a session left by an earlier daemon leaves the sessions there are, their threads and their asks alone.\<close>

definition restore_adds :: "(server \<Rightarrow> server) \<Rightarrow> bool" where
  "restore_adds restored \<longleftrightarrow> (\<forall>sv. (\<forall>i h. map_of (sv_sessions sv) i = Some h \<longrightarrow> map_of (sv_sessions (restored sv)) i = Some h)
     \<and> sv_threads (restored sv) = sv_threads sv \<and> sv_interactions (restored sv) = sv_interactions sv
     \<and> (\<exists>es. sv_sent (restored sv) = sv_sent sv @ es))"

text \<open>What a drain does to a session: claims handed to it, nothing else.\<close>

definition claims_only :: "server \<Rightarrow> server \<Rightarrow> bool" where
  "claims_only sv sv' \<longleftrightarrow> (\<forall>i h. map_of (sv_sessions sv) i = Some h \<longrightarrow>
       (\<exists>h' cs. map_of (sv_sessions sv') i = Some h' \<and> sh_commands h' = sh_commands h @ map SendQueuedInput cs))
     \<and> sv_threads sv' = sv_threads sv \<and> sv_interactions sv' = sv_interactions sv
     \<and> (\<exists>es. sv_sent sv' = sv_sent sv @ es)"

lemma claims_only_refl: "sv_sessions sv' = sv_sessions sv \<Longrightarrow> sv_threads sv' = sv_threads sv \<Longrightarrow>
    sv_interactions sv' = sv_interactions sv \<Longrightarrow> sv_sent sv' = sv_sent sv \<Longrightarrow> claims_only sv sv'"
  unfolding claims_only_def by (metis append_Nil2 list.map(1))

lemma claims_only_trans:
  assumes "claims_only a b" and "claims_only b c"
  shows "claims_only a c"
proof -
  have "\<exists>h' cs. map_of (sv_sessions c) i = Some h' \<and> sh_commands h' = sh_commands h @ map SendQueuedInput cs"
    if "map_of (sv_sessions a) i = Some h" for i h
    using assms that unfolding claims_only_def by (metis append_assoc map_append)
  with assms show ?thesis unfolding claims_only_def by (metis append_assoc)
qed

lemma claims_only_restored: "restore_adds restored \<Longrightarrow> claims_only sv (restored sv)"
  unfolding restore_adds_def claims_only_def by (metis append_Nil2 list.map(1))

lemma claims_only_hand_over: "claims_only sv (hand_over en i t claim sv)"
proof (cases "map_of (sv_sessions sv) i")
  case None
  then show ?thesis by (simp add: hand_over_def claims_only_refl)
next
  case (Some h)
  obtain b s1 where n: "note_session_not_ready_for_queue en (sh_snapshot h) = (b, s1)" by (metis surj_pair)
  have handed: "claims_only sv (broadcast e (update_handle i
      (\<lambda>h. h\<lparr>sh_snapshot := x, sh_commands := sh_commands h @ [SendQueuedInput claim]\<rparr>) sv))" for e x
    unfolding claims_only_def by (auto simp: update_handle_lookup intro: exI [of _ "[claim]"] exI [of _ "[]"])
  have kept: "claims_only sv (update_handle i (\<lambda>h. h\<lparr>sh_snapshot := x\<rparr>) sv)"
    "claims_only sv ((update_handle i (\<lambda>h. h\<lparr>sh_snapshot := x\<rparr>) sv)\<lparr>sv_queue := q\<rparr>)" for x q
    unfolding claims_only_def by (auto simp: update_handle_lookup intro: exI [of _ "[]"])
  show ?thesis using Some n handed kept
    by (simp add: hand_over_def Let_def split: option.split)
qed

lemma claims_only_once:
  assumes "restore_adds restored"
  shows "claims_only sv (drain_queued_input_once en workspace_of restored t sv)"
proof -
  have starting: "claims_only sv (start_session_for_queued_thread workspace_of t k sv)" for sv k
    by (simp add: start_session_for_queued_thread_def claims_only_refl split: option.split)
  have queue: "claims_only sv (sv\<lparr>sv_queue := q\<rparr>)" for sv q by (simp add: claims_only_refl)
  note steps = claims_only_restored [OF assms] starting claims_only_trans [OF claims_only_restored [OF assms] starting]
    claims_only_trans [OF queue claims_only_hand_over]
    claims_only_trans [OF claims_only_restored [OF assms] claims_only_trans [OF queue claims_only_hand_over]]
    claims_only_refl
  show ?thesis
    by (auto simp: drain_queued_input_once_def Let_def steps split: option.splits prod.splits sum.splits)
qed

lemma claims_only_drain:
  assumes "restore_adds (dp_restored_for_queue dp)"
  shows "claims_only sv (drain_thread en dp t sv)"
proof -
  let ?drain = "drain_queued_input_once en (dp_workspace_of dp) (dp_restored_for_queue dp)"
  have step: "claims_only sv (snd (caller_step (?drain t) t p sv))" for p sv
    by (cases p) (auto simp: guard_begin_def take_rerun_def guard_drop_def claims_only_once [OF assms] intro: claims_only_refl)
  have moves: "claims_only sv (snd (schedule_run ?drain (\<lambda>_. t) ms (pc, sv)))" if "\<forall>m\<in>set ms. \<exists>c. m = Caller c" for ms pc sv
    using that
  proof (induction ms arbitrary: pc sv)
    case (Cons m ms)
    then obtain c where "m = Caller c" by auto
    with Cons claims_only_trans [OF step [of sv "pc c"]] show ?case by (simp add: case_prod_beta)
  qed (simp add: claims_only_refl)
  show ?thesis unfolding drain_thread_def drain_queued_input_for_thread_def by (rule moves) simp
qed

text \<open>The state in which building starts: the thread no longer plans, and that is announced.\<close>

definition planning_ended :: "env \<Rightarrow> ProviderInteractionRecord \<Rightarrow> server \<Rightarrow> server" where
  "planning_ended en interaction sv = (let t = id_thread_id (pi_request interaction) in
     broadcast (ChatPlanUpdated t False (pi_plan_path interaction))
       (sv\<lparr>sv_threads := snd (set_chat_thread_plan_mode en t False (sv_threads sv))\<rparr>))"

lemma claims_only_build:
  assumes "restore_adds (dp_restored_for_queue dp)" and "env_db en = (\<lambda>_. None)"
  shows "claims_only (planning_ended en interaction sv) (start_building_approved_plan en dp interaction sv)"
proof -
  let ?sv1 = "planning_ended en interaction sv"
  have "claims_only ?sv1 (broadcast e (?sv1\<lparr>sv_queue := q\<rparr>))" for e q
    unfolding claims_only_def by (auto intro: exI [of _ "[]"])
  from claims_only_trans [OF this claims_only_drain [OF assms(1)]] show ?thesis
    using assms(2)
    by (auto simp: start_building_approved_plan_def planning_ended_def Let_def claims_only_refl split: option.split prod.split sum.split)
qed

lemma thread_plans_cleared:
  assumes "env_db en = (\<lambda>_. None)"
  shows "\<not> thread_plans en t (snd (set_chat_thread_plan_mode en t False threads))"
proof -
  have "find (\<lambda>r. th_id r = t) (update_where (\<lambda>r. th_id r = t) (\<lambda>r. r\<lparr>th_plan_mode := False\<rparr>) threads) =
      map_option (\<lambda>r. if th_id r = t then r\<lparr>th_plan_mode := False\<rparr> else r) (find (\<lambda>r. th_id r = t) threads)"
    by (rule update_where_find) simp
  with assms show ?thesis
    by (auto simp: thread_plans_def chat_thread_plan_mode_def set_chat_thread_plan_mode_def find_Some_iff split: option.split)
qed

lemma send_command_open:
  "map_of (sv_sessions sv) i = Some h \<Longrightarrow> sh_open h \<Longrightarrow> send_command i c sv =
     (Inr (), update_handle i (\<lambda>h. h\<lparr>sh_commands := sh_commands h @ [c]\<rparr>) sv)"
  by (simp add: send_command_def)

text \<open>An answer delivered to a live session: the answer, then claims for whoever the queue serves.\<close>

lemma answer_delivered:
  assumes "restore_adds (dp_restored_for_queue dp)" and "env_db en = (\<lambda>_. None)"
    and "map_of (sv_sessions sv) (id_session_id (pi_request interaction)) = Some h" and "sh_open h"
    and "deliver_interaction_resolution en dp interaction resolution sv = sv1"
  shows "\<exists>h1 cs. map_of (sv_sessions sv1) (id_session_id (pi_request interaction)) = Some h1
      \<and> sh_commands h1 = sh_commands h @ ApplyControl (ResolveInteraction (id_native_id (pi_request interaction)) resolution)
          # map SendQueuedInput cs"
    and "sv_interactions sv1 = sv_interactions sv"
    and "id_kind (pi_request interaction) = PlanApproval \<Longrightarrow> resolution \<in> {Approve, ApproveForSession} \<Longrightarrow>
      \<not> thread_plans en (id_thread_id (pi_request interaction)) (sv_threads sv1)
      \<and> ChatPlanUpdated (id_thread_id (pi_request interaction)) False (pi_plan_path interaction) \<in> set (sv_sent sv1)"
proof -
  let ?s = "id_session_id (pi_request interaction)"
  let ?c = "ApplyControl (ResolveInteraction (id_native_id (pi_request interaction)) resolution)"
  let ?sv0 = "update_handle ?s (\<lambda>h. h\<lparr>sh_commands := sh_commands h @ [?c]\<rparr>) sv"
  let ?builds = "id_kind (pi_request interaction) = PlanApproval \<and> resolution \<in> {Approve, ApproveForSession}"
  have sv1: "sv1 = (if ?builds then start_building_approved_plan en dp interaction ?sv0 else ?sv0)"
    using assms(3-5) by (simp add: deliver_interaction_resolution_def live_session_handle_for_session_def send_command_open)
  have look: "map_of (sv_sessions ?sv0) ?s = Some (h\<lparr>sh_commands := sh_commands h @ [?c]\<rparr>)"
    using assms(3) by (simp add: update_handle_lookup)
  show commands: "\<exists>h1 cs. map_of (sv_sessions sv1) ?s = Some h1 \<and> sh_commands h1 = sh_commands h @ ?c # map SendQueuedInput cs"
    and "sv_interactions sv1 = sv_interactions sv"
    and "id_kind (pi_request interaction) = PlanApproval \<Longrightarrow> resolution \<in> {Approve, ApproveForSession} \<Longrightarrow>
      \<not> thread_plans en (id_thread_id (pi_request interaction)) (sv_threads sv1)
      \<and> ChatPlanUpdated (id_thread_id (pi_request interaction)) False (pi_plan_path interaction) \<in> set (sv_sent sv1)"
  proof -
    let ?sv2 = "planning_ended en interaction ?sv0"
    let ?sv3 = "start_building_approved_plan en dp interaction ?sv0"
    have built: "claims_only ?sv2 ?sv3" by (rule claims_only_build [OF assms(1,2)])
    have ended: "sv_sessions ?sv2 = sv_sessions ?sv0" "sv_interactions ?sv2 = sv_interactions sv"
      "\<not> thread_plans en (id_thread_id (pi_request interaction)) (sv_threads ?sv2)"
      "ChatPlanUpdated (id_thread_id (pi_request interaction)) False (pi_plan_path interaction) \<in> set (sv_sent ?sv2)"
      using thread_plans_cleared [OF assms(2)] by (simp_all add: planning_ended_def Let_def)
    have look2: "map_of (sv_sessions ?sv2) ?s = Some (h\<lparr>sh_commands := sh_commands h @ [?c]\<rparr>)"
      using look ended(1) by simp
    obtain h3 cs where "map_of (sv_sessions ?sv3) ?s = Some h3" "sh_commands h3 = (sh_commands h @ [?c]) @ map SendQueuedInput cs"
      using built look2 unfolding claims_only_def by fastforce
    then have commands3: "\<exists>h1 cs. map_of (sv_sessions ?sv3) ?s = Some h1 \<and> sh_commands h1 = sh_commands h @ ?c # map SendQueuedInput cs"
      by auto
    have rest3: "sv_interactions ?sv3 = sv_interactions ?sv2" "sv_threads ?sv3 = sv_threads ?sv2" "\<exists>es. sv_sent ?sv3 = sv_sent ?sv2 @ es"
      using built unfolding claims_only_def by blast+
    show "\<exists>h1 cs. map_of (sv_sessions sv1) ?s = Some h1 \<and> sh_commands h1 = sh_commands h @ ?c # map SendQueuedInput cs"
    proof (cases ?builds)
      case True
      then have "sv1 = ?sv3" using sv1 by simp
      with commands3 show ?thesis by (simp only:)
    next
      case False
      then have "sv1 = ?sv0" using sv1 by argo
      with look show ?thesis by (intro exI [of _ "h\<lparr>sh_commands := sh_commands h @ [?c]\<rparr>"] exI [of _ "[]"]) simp
    qed
    show "sv_interactions sv1 = sv_interactions sv"
      unfolding sv1 using rest3(1) ended(2) by simp
    assume "id_kind (pi_request interaction) = PlanApproval" "resolution \<in> {Approve, ApproveForSession}"
    then have "sv1 = ?sv3" using sv1 by simp
    with rest3(2,3) ended(3,4) show "\<not> thread_plans en (id_thread_id (pi_request interaction)) (sv_threads sv1)
      \<and> ChatPlanUpdated (id_thread_id (pi_request interaction)) False (pi_plan_path interaction) \<in> set (sv_sent sv1)"
      by auto
  qed
qed

text \<open>Answers and claims do not change the mode the Claude adapter is in.\<close>

lemma claude_given_back_plan_mode:
  assumes "claude_given_back en started claim (l, rt) st'"
  shows "cm_plan_mode (ul_adapter (fst st')) = cm_plan_mode (ul_adapter l)"
proof -
  obtain err l1 rt1 where "st' = give_back en started claim err (l1, rt1)" "cm_plan_mode (ul_adapter l1) = cm_plan_mode (ul_adapter l)"
    using assms unfolding claude_given_back_def split_conv by blast
  then show ?thesis by (simp add: give_back_def loop_fail_def)
qed

lemma claude_written_plan_mode:
  "claude_written en started content (l, rt) st' \<Longrightarrow> cm_plan_mode (ul_adapter (fst st')) = cm_plan_mode (ul_adapter l)"
  by (cases st') (simp add: claude_written_def Let_def)

lemma claude_answer_keeps_plan_mode:
  assumes "claude_run started (map (ClaudeCommand en) (ApplyControl (ResolveInteraction i r) # map SendQueuedInput cs)) (l, rt) = Some (l', rt')"
  shows "cm_plan_mode (ul_adapter l') = cm_plan_mode (ul_adapter l)"
proof -
  have claims: "claude_run started (map (ClaudeCommand en) (map SendQueuedInput cs)) st = Some st' \<Longrightarrow>
      cm_plan_mode (ul_adapter (fst st')) = cm_plan_mode (ul_adapter (fst st))" for st st'
  proof (induction cs arbitrary: st)
    case (Cons c cs)
    then obtain st1 where send: "claude_command en started (SendQueuedInput c) st = Some st1"
      and rest: "claude_run started (map (ClaudeCommand en) (map SendQueuedInput cs)) st1 = Some st'"
      by (auto simp: bind_eq_Some_conv)
    obtain l rt where st: "st = (l, rt)" by (metis surj_pair)
    have "claude_send_input en started (Some c) (qi_input c) (qi_visible_input c) (qi_input_kind c) Auto (l, rt) = Some st1"
      using send by (simp add: st claude_command_def split: option.splits)
    then have "cm_plan_mode (ul_adapter (fst st1)) = cm_plan_mode (ul_adapter l)"
      by (meson claude_send_cases claude_given_back_plan_mode claude_written_plan_mode)
    with Cons.IH [OF rest] st show ?case by simp
  qed simp
  obtain l1 rt1 where c: "claude_apply_control en started (ResolveInteraction i r) (l, rt) = (l1, rt1)" by (metis surj_pair)
  have "cm_plan_mode (ul_adapter l1) = cm_plan_mode (ul_adapter l)"
    using claude_apply_control_fields(9) [OF c] by (simp add: claude_plan_control_def control_response_for_def)
  moreover have "claude_command en started (ApplyControl (ResolveInteraction i r)) (l, rt) = Some (l1, rt1)"
    using c by (simp add: claude_command_def claude_plan_control_def control_response_for_def restart_required_def)
  ultimately show ?thesis using assms claims [of "(l1, rt1)" "(l', rt')"] by simp
qed

text \<open>A plan a Claude session asks about, and the server that session is live in.\<close>

definition example_plan_ask :: "ProviderInteractionStatus \<Rightarrow> ProviderInteractionRecord" where
  "example_plan_ask status = \<lparr>pi_id = ''a'', pi_request = \<lparr>id_provider_key = ''claude'', id_workspace = ''w'', id_thread_id = 3,
     id_session_id = 7, id_native_session_id = None, id_native_id = ''q1'', id_kind = PlanApproval, id_title = ''plan'', id_detail = [],
     id_questions = [], id_auto_resolution_ms = None, id_native_request = JNull\<rparr>, pi_plan_path = None, pi_request_fingerprint = ''f'',
     pi_status = status, pi_resolution = None, pi_native_response = None, pi_error = None, pi_created_at = ''now'',
     pi_resolved_at = None, pi_consumed_at = None\<rparr>"

definition example_ports :: daemon_ports where
  "example_ports = \<lparr>dp_workspace_of = (\<lambda>_. None), dp_restored_for_queue = (\<lambda>sv. sv), dp_restore = (\<lambda>_ sv. (Inr (), sv)),
     dp_decorate = (\<lambda>_ _. Inr None), dp_display_name = (\<lambda>kind. kind)\<rparr>"

lemma example_ports_restore: "restore_adds (dp_restored_for_queue example_ports)"
  unfolding restore_adds_def example_ports_def by (auto intro: exI [of _ "[]"])

section \<open>Properties\<close>

text \<open>
  C24. Approving a plan does not let Claude build it: the thread no longer plans, and that is announced to every
  client, but what the daemon sends to the session is the answer and inputs, never the new mode. After the
  loop has carried all of it out its adapter still plans, and refuses every tool that would change a
  file, as if the plan had not been approved.
\<close>

theorem approved_plan_still_denies_edits:
  assumes "restore_adds (dp_restored_for_queue dp)" and "env_db en = (\<lambda>_. None)"
    and "id_kind (pi_request interaction) = PlanApproval"
    and "map_of (sv_sessions sv) (id_session_id (pi_request interaction)) = Some h" and "sh_open h"
    and "deliver_interaction_resolution en dp interaction Approve sv = sv1" and "cm_plan_mode (ul_adapter l)"
  shows "\<not> thread_plans en (id_thread_id (pi_request interaction)) (sv_threads sv1)
    \<and> (\<exists>h1 cs. map_of (sv_sessions sv1) (id_session_id (pi_request interaction)) = Some h1
       \<and> sh_commands h1 = sh_commands h @ cs
       \<and> (\<forall>l' rt' draft tool. claude_run started (map (ClaudeCommand en1) cs) (l, rt) = Some (l', rt')
            \<and> id_kind draft = ProviderInteractionKind.Permission
            \<and> string_at (id_native_request draft) [''request'', ''tool_name''] = Some tool \<and> claude_tool_mutates_workspace tool
            \<longrightarrow> (\<exists>why. auto_resolution_for draft (ul_adapter l') = Some (Deny (Some why)))))"
proof -
  obtain h1 cs where h1: "map_of (sv_sessions sv1) (id_session_id (pi_request interaction)) = Some h1"
    "sh_commands h1 = sh_commands h @ ApplyControl (ResolveInteraction (id_native_id (pi_request interaction)) Approve) # map SendQueuedInput cs"
    using answer_delivered(1) [OF assms(1,2,4-6)] by blast
  have "\<exists>why. auto_resolution_for draft (ul_adapter l') = Some (Deny (Some why))"
    if "claude_run started (map (ClaudeCommand en1) (ApplyControl (ResolveInteraction (id_native_id (pi_request interaction)) Approve)
        # map SendQueuedInput cs)) (l, rt) = Some (l', rt')"
      "id_kind draft = ProviderInteractionKind.Permission"
      "string_at (id_native_request draft) [''request'', ''tool_name''] = Some tool" "claude_tool_mutates_workspace tool"
    for l' rt' draft tool
    using claude_answer_keeps_plan_mode [OF that(1)] that(2-4) assms(7) by (simp add: auto_resolution_for_def)
  with h1 answer_delivered(3) [OF assms(1,2,4-6) assms(3)] show ?thesis by blast
qed

theorem approved_plan_still_denies_edits_witness:
  "\<exists>sv1. deliver_interaction_resolution daemon_env example_ports (example_plan_ask Pending) Approve example_server = sv1
     \<and> \<not> thread_plans daemon_env 3 (sv_threads sv1)
     \<and> (\<exists>h1 cs. map_of (sv_sessions sv1) 7 = Some h1 \<and> sh_commands h1 = cs)"
proof -
  let ?l = "\<lparr>ul_adapter = (claude_adapter_for daemon_env example_snapshot example_connection example_runtime)\<lparr>cm_plan_mode := True\<rparr>,
     ul_conn = example_connection, ul_sequence = 0, ul_pending_restart = False, ul_kill_requested = False, ul_general = None\<rparr>"
  have db: "env_db daemon_env = (\<lambda>_. None)" by (simp add: daemon_env_def)
  have ask: "id_kind (pi_request (example_plan_ask Pending)) = PlanApproval"
    "map_of (sv_sessions example_server) (id_session_id (pi_request (example_plan_ask Pending))) = Some example_handle"
    "sh_open example_handle" "cm_plan_mode (ul_adapter ?l)"
    by (simp_all add: example_plan_ask_def example_server_def example_handle_def)
  from approved_plan_still_denies_edits [OF example_ports_restore db ask(1-3) refl ask(4)]
  show ?thesis by (simp add: example_plan_ask_def) blast
qed

text \<open>
  An ask is not settled by its first answer: answering it again, after it was denied, say, returns the
  stored record unchanged and still sends the new answer to the agent; approving a plan a second time
  around ends planning for the thread although the store goes on saying it was refused.
\<close>

lemma late_answer_overrides_refusal:
  assumes "restore_adds (dp_restored_for_queue dp)" and "env_db en = (\<lambda>_. None)" and "\<not> sv_shutting_down sv"
    and "get_interaction i (sv_interactions sv) = Some interaction" and "pi_status interaction = ProviderInteractionStatus.Denied"
    and "map_of (sv_sessions sv) (id_session_id (pi_request interaction)) = Some h" and "sh_open h"
  shows "\<exists>sv1 h1 cs. dispatch_request en dp (ResolveProviderInteraction i Approve) sv = (ProviderInteraction interaction, sv1)
    \<and> sv_interactions sv1 = sv_interactions sv
    \<and> map_of (sv_sessions sv1) (id_session_id (pi_request interaction)) = Some h1
    \<and> sh_commands h1 = sh_commands h @ ApplyControl (ResolveInteraction (id_native_id (pi_request interaction)) Approve)
        # map SendQueuedInput cs
    \<and> (id_kind (pi_request interaction) = PlanApproval \<longrightarrow>
         \<not> thread_plans en (id_thread_id (pi_request interaction)) (sv_threads sv1))"
proof -
  have "resolve (env_now en) i Approve (sv_interactions sv) = (Inr interaction, sv_interactions sv)"
    using assms(4,5) by (simp add: resolve_def)
  then have run: "dispatch_request en dp (ResolveProviderInteraction i Approve) sv = (ProviderInteraction interaction,
      broadcast (ProviderInteractionResolved interaction) (deliver_interaction_resolution en dp interaction Approve sv))"
    using assms(3) by (simp add: dispatch_request_def resolve_provider_interaction_def)
  note d = answer_delivered [OF assms(1,2,6,7) refl, of Approve]
  show ?thesis using run d by fastforce
qed

end
