(* ===== verification/Acp_Session.thy ===== *)
theory Acp_Session
  imports Provider_Loop Acp_Adapter
begin

text \<open>
  The loop that drives an agent over the Agent Client Protocol (\<open>run_acp_session_loop\<close> and its helpers in
  \<open>crates/core/src/archcar/session.rs\<close>). ACP takes one prompt at a time and none before \<open>session/new\<close> has been
  answered, so the loop holds inputs back; when it ends, what it holds and what is still unread in its
  channel goes to the thread's queue.

  The loop's locals are the record \<open>acp_loop\<close>, with the receiving end of the command channel, to which the
  daemon adds at any time, and where the loop is: looping, leaving (past its last iteration, before the
  release), drained (the release has found the channel empty, and the receiver is not dropped yet), or
  ended, when sends to it fail.
\<close>

section \<open>State\<close>

datatype acp_phase = Looping | Leaving | Drained | Ended

record acp_loop =
  al_adapter :: AcpAdapter
  al_conn :: ProviderProcessConnection
  al_sequence :: nat
  al_session_new_sent :: bool
  al_held :: "(SessionCommand \<times> QueuedChatInputRecord option) list"
  al_channel :: "SessionCommand list"
  al_general :: "string option"
  al_phase :: acp_phase

type_synonym acp_state = "acp_loop \<times> runtime"

definition acp_harness_name :: "SessionSnapshot \<Rightarrow> string" where
  "acp_harness_name started = sn_kind started @ ''-acp''"

definition acp_effect :: "env \<Rightarrow> SessionSnapshot \<Rightarrow> HarnessEffect \<Rightarrow> acp_state \<Rightarrow> acp_state" where
  "acp_effect en started effect = (\<lambda>(l, rt).
     let (c, rt1) = connection_effect en started effect (al_conn l, rt) in (l\<lparr>al_conn := c\<rparr>, rt1))"

definition acp_apply_control :: "env \<Rightarrow> SessionSnapshot \<Rightarrow> HarnessControl \<Rightarrow> acp_state \<Rightarrow> acp_state" where
  "acp_apply_control en started control = (\<lambda>(l, rt).
     let (plan, adapter) = acp_plan_control (env_from_str en) control (al_adapter l);
         (c, rt1) = apply_provider_control_plan en started (acp_harness_name started) plan (al_conn l, rt)
     in (l\<lparr>al_adapter := adapter, al_conn := c\<rparr>, rt1))"

section \<open>Output\<close>

text \<open>The effects of one line, with the duration a completion reports carried to the settle of the same line.\<close>

fun acp_line_effects :: "env \<Rightarrow> SessionSnapshot \<Rightarrow> HarnessEffect list \<Rightarrow> loop_locals \<times> runtime \<Rightarrow> loop_locals \<times> runtime" where
  "acp_line_effects en started [] st = st"
| "acp_line_effects en started (e # es) (ll, rt) =
     (let rt1 = (case e of InteractionRequested _ \<Rightarrow> update_snapshot mark_snapshot_awaiting_input rt | _ \<Rightarrow> rt)
      in acp_line_effects en started es (apply_harness_effect en started e (ll, rt1)))"

definition is_fatal :: "HarnessEffect \<Rightarrow> bool" where
  "is_fatal e \<longleftrightarrow> (case e of Fatal _ \<Rightarrow> True | _ \<Rightarrow> False)"

text \<open>True: a fatal error before there was a session.\<close>

definition acp_line :: "env \<Rightarrow> SessionSnapshot \<Rightarrow> string \<Rightarrow> acp_state \<Rightarrow> bool \<times> acp_state" where
  "acp_line en started line = (\<lambda>(l, rt).
     let rt1 = append_provider_native_output (sn_session_id started) (acp_harness_name started) line rt;
         (r, adapter) = acp_observe_native (env_from_str en) (\<lambda>_. env_millis en)
           \<lparr>nr_provider_key = sn_kind started, nr_payload = line\<rparr> (al_adapter l);
         l1 = l\<lparr>al_adapter := adapter\<rparr>
     in case r of Inl _ \<Rightarrow> (False, l1, rt1)
        | Inr effects \<Rightarrow>
          (let (ll, rt2) = acp_line_effects en started effects
                 (\<lparr>ll_native_thread_id = pc_native_thread_id (al_conn l1), ll_pending_duration = None\<rparr>, rt1)
           in (list_ex is_fatal effects \<and> \<not> is_established adapter,
               l1\<lparr>al_conn := (al_conn l1)\<lparr>pc_native_thread_id := ll_native_thread_id ll\<rparr>\<rparr>, rt2)))"

fun drain_acp_stdout :: "env \<Rightarrow> SessionSnapshot \<Rightarrow> string list \<Rightarrow> acp_state \<Rightarrow> bool \<times> acp_state" where
  "drain_acp_stdout en started [] st = (False, st)"
| "drain_acp_stdout en started (line # ls) st =
     (let (failed, st1) = acp_line en started line st
      in if failed then (True, st1) else drain_acp_stdout en started ls st1)"

definition end_failed_acp_session :: "env \<Rightarrow> SessionSnapshot \<Rightarrow> int option \<Rightarrow> runtime \<Rightarrow> runtime" where
  "end_failed_acp_session en started code rt =
     send (SessionExited (sn_session_id started) code)
       (update_snapshot (\<lambda>s. s\<lparr>sn_status := Exited, sn_ready := False, sn_runtime_state := AgentSessionState.Failed\<rparr>)
         (mark_session_process_exited (env_now en) (sn_session_id started) code (kill_child rt)))"

text \<open>What is read at the top of an iteration; \<open>code\<close> is what the killed agent exits with.\<close>

definition acp_output :: "env \<Rightarrow> SessionSnapshot \<Rightarrow> string list \<Rightarrow> int option \<Rightarrow> acp_state \<Rightarrow> acp_state" where
  "acp_output en started ls code st = (case drain_acp_stdout en started ls st of
      (True, l, rt) \<Rightarrow> (l\<lparr>al_phase := Leaving\<rparr>, end_failed_acp_session en started code rt)
    | (False, l, rt) \<Rightarrow> (l, rt))"

section \<open>The handshake\<close>

definition acp_fail_and_leave :: "env \<Rightarrow> SessionSnapshot \<Rightarrow> string \<Rightarrow> acp_state \<Rightarrow> acp_state" where
  "acp_fail_and_leave en started err = (\<lambda>(l, rt). loop_fail en started err (l\<lparr>al_phase := Leaving\<rparr>, rt))"

definition acp_handshake :: "env \<Rightarrow> SessionSnapshot \<Rightarrow> acp_state \<Rightarrow> acp_state" where
  "acp_handshake en started = (\<lambda>(l, rt).
     if \<not> al_session_new_sent l \<and> acp_initialized (al_adapter l)
     then (case write_stdin en (nw_payload (session_new_request (pc_cwd (al_conn l)) (al_adapter l))) rt of
          (None, rt1) \<Rightarrow> (l\<lparr>al_session_new_sent := True\<rparr>, rt1)
        | (Some err, rt1) \<Rightarrow> acp_fail_and_leave en started (''ACP session/new failed: '' @ err) (l, kill_child rt1))
     else (l, rt))"

section \<open>Inputs\<close>

text \<open>The prompt is recorded in the transcript before it is written.\<close>

definition acp_prompt :: "env \<Rightarrow> SessionSnapshot \<Rightarrow> QueuedChatInputRecord option \<Rightarrow> HarnessInput \<Rightarrow> acp_state \<Rightarrow> acp_state" where
  "acp_prompt en started claim input = (\<lambda>(l, rt).
     let (native_write, adapter) = acp_encode_input input (al_adapter l); l1 = l\<lparr>al_adapter := adapter\<rparr>;
         (written, rt1) = (case native_write of Inl err \<Rightarrow> (Some err, rt) | Inr w \<Rightarrow> write_stdin en (nw_payload w) rt)
     in case written of
          Some err \<Rightarrow> give_back en started claim (''ACP prompt write failed: '' @ err)
            (l1, kill_child (snd (with_inputs (mark_failed (env_now en) (hi_local_input_id input) err) rt1)))
        | None \<Rightarrow>
          (case with_inputs (mark_written (env_now en) (hi_local_input_id input)) rt1 of
             (Inl err, rt2) \<Rightarrow> give_back en started claim (''ACP input written-state persistence failed: '' @ err)
                 (l1, kill_child rt2)
           | (Inr _, rt2) \<Rightarrow> acp_effect en started (TurnStarted (hi_local_input_id input))
                 (acp_effect en started (InputAcknowledged (hi_local_input_id input)) (l1, rt2))))"

text \<open>\<open>None\<close>: the step does not return.\<close>

definition acp_write_input :: "env \<Rightarrow> SessionSnapshot \<Rightarrow> QueuedChatInputRecord option \<Rightarrow> string \<Rightarrow> string \<Rightarrow>
    ArchcarInputKind \<Rightarrow> ArchcarInputDelivery \<Rightarrow> acp_state \<Rightarrow> acp_state option" where
  "acp_write_input en started claim provider_input persisted kind delivery = (\<lambda>(l, rt).
     let sequence = al_sequence l + 1; local_id = provider_input_local_id (sn_session_id started) sequence
     in case enqueue_provider_input en started local_id provider_input (Some persisted) kind delivery
               (pc_native_thread_id (al_conn l)) rt of
          (Inl err, rt1) \<Rightarrow> Some (give_back en started claim (''ACP input persistence failed: '' @ err) (l, rt1))
        | (Inr _, rt1) \<Rightarrow>
          (let rt2 = update_snapshot (\<lambda>s. note_snapshot_input local_id (mark_session_busy_for_input (env_mono en) s)) rt1
           in map_option (\<lambda>rt3. acp_prompt en started claim
                  \<lparr>hi_local_input_id = local_id, hi_content = provider_input, hi_visible_content = Some persisted,
                    hi_kind = kind, hi_delivery = delivery\<rparr> (l\<lparr>al_sequence := sequence\<rparr>, rt3))
                (persist_runtime_user_input en started provider_input (Some persisted) kind sequence rt2)))"

definition acp_send_input :: "env \<Rightarrow> SessionSnapshot \<Rightarrow> QueuedChatInputRecord option \<Rightarrow> string \<Rightarrow> string option \<Rightarrow>
    ArchcarInputKind \<Rightarrow> ArchcarInputDelivery \<Rightarrow> acp_state \<Rightarrow> acp_state option" where
  "acp_send_input en started claim input visible kind delivery = (\<lambda>(l, rt).
     case is_first_turn en started kind rt of
       Inl err \<Rightarrow> Some (give_back en started claim (''Could not prepare ACP input history: '' @ err) (l, rt))
     | Inr first_turn \<Rightarrow> acp_write_input en started claim (compose_first_turn_input (al_general l) input first_turn)
         (unwrap_or visible input) kind delivery (l, rt))"

section \<open>Commands\<close>

text \<open>Inputs held back come first, once the agent takes one; then the channel.\<close>

definition acp_next :: "acp_loop \<Rightarrow> ((SessionCommand \<times> QueuedChatInputRecord option) \<times> acp_loop) option" where
  "acp_next l =
     (if can_accept_prompt (al_adapter l) \<and> al_held l \<noteq> [] then Some (hd (al_held l), l\<lparr>al_held := tl (al_held l)\<rparr>)
      else (case al_channel l of [] \<Rightarrow> None
        | command # rest \<Rightarrow> Some (split_queued_claim command, l\<lparr>al_channel := rest\<rparr>)))"

fun acp_command :: "env \<Rightarrow> SessionSnapshot \<Rightarrow> SessionCommand \<times> QueuedChatInputRecord option \<Rightarrow> acp_state \<Rightarrow>
    acp_state option" where
  "acp_command en started (SendInput input visible kind delivery, claim) (l, rt) =
     (if \<not> can_accept_prompt (al_adapter l)
      then Some (l\<lparr>al_held := al_held l @ [(SendInput input visible kind delivery, claim)]\<rparr>, rt)
      else acp_send_input en started claim input visible kind delivery (l, rt))"
| "acp_command en started (SendQueuedInput _, claim) (l, rt) = None"
| "acp_command en started (SessionCommand.Kill, claim) (l, rt) = Some (l, kill_child rt)"
| "acp_command en started (InterruptTurn, claim) (l, rt) = Some (acp_apply_control en started HarnessControl.Interrupt (l, rt))"
| "acp_command en started (ApplyControl control, claim) (l, rt) = Some (acp_apply_control en started control (l, rt))"
| "acp_command en started (Resize _ _, claim) (l, rt) = Some (l, rt)"

definition acp_take :: "env \<Rightarrow> SessionSnapshot \<Rightarrow> acp_state \<Rightarrow> acp_state option" where
  "acp_take en started = (\<lambda>(l, rt). case acp_next l of None \<Rightarrow> Some (l, rt)
     | Some (command, l1) \<Rightarrow> acp_command en started command (l1, rt))"

section \<open>The end\<close>

definition acp_exit :: "env \<Rightarrow> SessionSnapshot \<Rightarrow> string list \<Rightarrow> int option \<Rightarrow> acp_state \<Rightarrow> acp_state" where
  "acp_exit en started ls code st = (case snd (drain_acp_stdout en started ls st) of
      (l, rt) \<Rightarrow> (l\<lparr>al_phase := Leaving\<rparr>, session_exit en started code rt))"

fun release_input :: "env \<Rightarrow> SessionSnapshot \<Rightarrow> SessionCommand \<times> QueuedChatInputRecord option \<Rightarrow> runtime \<Rightarrow> runtime" where
  "release_input en started (_, Some claim) rt = requeue_failed_queued_handoff en (Some claim) rt"
| "release_input en started (SendInput input visible kind _, None) rt =
     (case (case env_db en ''open'' of Some err \<Rightarrow> (Inl err, rt_queue rt)
            | None \<Rightarrow> enqueue_chat_input (env_now en) (sn_thread_id started) input visible kind (sn_kind started) (rt_queue rt)) of
        (Inr _, rows) \<Rightarrow> send (ChatQueueUpdated (sn_thread_id started)) (rt\<lparr>rt_queue := rows\<rparr>)
      | (Inl err, _) \<Rightarrow> send (session_error started
          (''A message was not delivered: the session ended and it could not be queued: '' @ err)) rt)"
| "release_input en started (_, None) rt = rt"

text \<open>\<open>try_iter\<close> reads until it finds the channel empty; what is sent after that stays in the channel.\<close>

definition release_held_acp_inputs :: "env \<Rightarrow> SessionSnapshot \<Rightarrow> acp_state \<Rightarrow> acp_state" where
  "release_held_acp_inputs en started = (\<lambda>(l, rt).
     (l\<lparr>al_held := [], al_channel := [], al_phase := Drained\<rparr>,
      fold (release_input en started) (al_held l @ map split_queued_claim (al_channel l)) rt))"

text \<open>The loop returns and its receiver is dropped, with what is in the channel.\<close>

definition drop_commands :: "acp_loop \<Rightarrow> acp_loop" where
  "drop_commands l = l\<lparr>al_channel := [], al_phase := Ended\<rparr>"

section \<open>The loop\<close>

definition acp_start :: "env \<Rightarrow> SessionSnapshot \<Rightarrow> ProviderProcessConnection \<Rightarrow> string + string option \<Rightarrow> runtime \<Rightarrow> acp_state" where
  "acp_start en started c general_prompt rt =
     (let rt0 = (case general_prompt of Inr _ \<Rightarrow> rt
            | Inl err \<Rightarrow> send (session_error started (''Could not resolve general prompt: '' @ err)) rt);
          rt1 = send (SessionStarted (sn_session_id started) (sn_thread_id started) (sn_workspace started) (sn_kind started)
                  (sn_pid started) False False None) rt0;
          rt2 = append_provider_native_output (sn_session_id started) (acp_harness_name started)
                  ''transport started: acp over stdio'' rt1;
          adapter = acp_new (sn_kind started) \<lparr>ac_session_id = sn_session_id started, ac_thread_id = sn_thread_id started,
            ac_workspace = sn_workspace started, ac_native_session_id = pc_native_thread_id c,
            ac_controls = \<lparr>dc_model = pc_model c, dc_effort = pc_effort_mode c, dc_permission_mode = pc_approval_policy c,
              dc_fast_mode = Some (pc_fast_mode c)\<rparr>\<rparr>;
          l = \<lparr>al_adapter = adapter, al_conn = c,
             al_sequence = (case max_runtime_input_provider_sequence (sn_session_id started) rt2 of Inr n \<Rightarrow> n | Inl _ \<Rightarrow> 0),
             al_session_new_sent = False, al_held = [], al_channel = [],
             al_general = (case general_prompt of Inr g \<Rightarrow> g | Inl _ \<Rightarrow> None), al_phase = Looping\<rparr>
      in case write_stdin en (nw_payload (initialize_request adapter)) rt2 of
           (None, rt3) \<Rightarrow> (l, rt3)
         | (Some err, rt3) \<Rightarrow> acp_fail_and_leave en started (''ACP initialize failed: '' @ err) (l, kill_child rt3))"

text \<open>
  A life of the loop in the order things happen: commands arrive as long as the loop has not ended, the
  loop reads, writes \<open>session/new\<close>, takes commands and polls the agent while it loops, releases what
  it holds once it leaves, and returns. \<open>None\<close>: the step cannot be taken, or does not return.
\<close>

datatype acp_input =
    AcpArrives SessionCommand
  | AcpOutput env "string list" "int option"
  | AcpHandshake env
  | AcpTake env
  | AcpExits env "string list" "int option"
  | AcpPollFails env string
  | AcpRelease env
  | AcpReturns

fun acp_loop_step :: "SessionSnapshot \<Rightarrow> acp_input \<Rightarrow> acp_state \<Rightarrow> acp_state option" where
  "acp_loop_step started (AcpArrives command) (l, rt) =
     (if al_phase l = Ended then None else Some (l\<lparr>al_channel := al_channel l @ [command]\<rparr>, rt))"
| "acp_loop_step started (AcpOutput en ls code) (l, rt) =
     (if al_phase l = Looping then Some (acp_output en started ls code (l, rt)) else None)"
| "acp_loop_step started (AcpHandshake en) (l, rt) = (if al_phase l = Looping then Some (acp_handshake en started (l, rt)) else None)"
| "acp_loop_step started (AcpTake en) (l, rt) = (if al_phase l = Looping then acp_take en started (l, rt) else None)"
| "acp_loop_step started (AcpExits en ls code) (l, rt) =
     (if al_phase l = Looping then Some (acp_exit en started ls code (l, rt)) else None)"
| "acp_loop_step started (AcpPollFails en err) (l, rt) =
     (if al_phase l = Looping then Some (acp_fail_and_leave en started err (l, rt)) else None)"
| "acp_loop_step started (AcpRelease en) (l, rt) =
     (if al_phase l = Leaving then Some (release_held_acp_inputs en started (l, rt)) else None)"
| "acp_loop_step started AcpReturns (l, rt) = (if al_phase l = Drained then Some (drop_commands l, rt) else None)"

fun acp_loop_run :: "SessionSnapshot \<Rightarrow> acp_input list \<Rightarrow> acp_state \<Rightarrow> acp_state option" where
  "acp_loop_run started [] st = Some st"
| "acp_loop_run started (e # es) st = Option.bind (acp_loop_step started e st) (acp_loop_run started es)"

end
