(* ===== verification/Acp_Facts.thy ===== *)
theory Acp_Facts
  imports Acp_Session
begin

text \<open>
  What the ACP loop does over a life of its session: every input handed to it is written, or held, or back in
  the queue; inputs are taken in the order they arrived; the session is ready only once the agent
  has one; and what the code does when the agent refuses a session, when a prompt cannot be written, and
  when several inputs are put back.
\<close>

section \<open>Steps\<close>

text \<open>What the loop was handed and has not dealt with, in the order it will.\<close>

definition acp_waiting :: "acp_loop \<Rightarrow> (SessionCommand \<times> QueuedChatInputRecord option) list" where
  "acp_waiting l = al_held l @ map split_queued_claim (al_channel l)"

fun is_send :: "SessionCommand \<times> QueuedChatInputRecord option \<Rightarrow> bool" where
  "is_send (SendInput _ _ _ _, _) \<longleftrightarrow> True"
| "is_send _ \<longleftrightarrow> False"

definition acp_prompt_line :: "string \<Rightarrow> int \<Rightarrow> string \<Rightarrow> string" where
  "acp_prompt_line session_id request_id content = encode_line (obj [(''jsonrpc'', JStr ''2.0''), (''id'', JInt request_id),
     (''method'', JStr ''session/prompt''),
     (''params'', obj [(''sessionId'', JStr session_id),
       (''prompt'', JArr [obj [(''type'', JStr ''text''), (''text'', JStr content)]])])])"

text \<open>The input went out as a prompt; it is the one in flight.\<close>

definition acp_written :: "string \<Rightarrow> acp_state \<Rightarrow> acp_state \<Rightarrow> bool" where
  "acp_written input = (\<lambda>(l, rt) (l', rt'). \<exists>content session_id. suffix input content
     \<and> acp_session_id (al_adapter l) = Some session_id
     \<and> rt_stdin rt' = rt_stdin rt @ [acp_prompt_line session_id (acp_next_request_id (al_adapter l)) content]
     \<and> \<not> can_accept_prompt (al_adapter l') \<and> \<not> sn_ready (rt_snapshot rt') \<and> rt_queue rt' = rt_queue rt)"

text \<open>The input was given back: its claim is where the queue's rows are, and nothing reached the agent.\<close>

definition acp_given_back :: "env \<Rightarrow> QueuedChatInputRecord option \<Rightarrow> acp_state \<Rightarrow> acp_state \<Rightarrow> bool" where
  "acp_given_back en claim = (\<lambda>(l, rt) (l', rt'). \<exists>rt1. rt_queue rt1 = rt_queue rt
     \<and> rt_queue rt' = rt_queue (requeue_failed_queued_handoff en claim rt1)
     \<and> (rt_stdin rt' = rt_stdin rt \<or> (\<exists>session_id content. acp_session_id (al_adapter l) = Some session_id
          \<and> rt_stdin rt' = rt_stdin rt @ [acp_prompt_line session_id (acp_next_request_id (al_adapter l)) content] \<and> rt_killed rt'))
     \<and> \<not> sn_ready (rt_snapshot rt') \<and> sn_runtime_state (rt_snapshot rt') = AgentSessionState.Failed)"

text \<open>What neither kind of step changes of the loop, and what of the adapter only grows.\<close>

definition pending_established :: "AcpAdapter \<Rightarrow> bool" where
  "pending_established a \<longleftrightarrow> acp_pending a = None \<or> is_established a"

definition adapter_grows :: "AcpAdapter \<Rightarrow> AcpAdapter \<Rightarrow> bool" where
  "adapter_grows a b \<longleftrightarrow> (is_established a \<longrightarrow> is_established b) \<and> (pending_established a \<longrightarrow> pending_established b)"

lemma adapter_grows_refl: "acp_pending b = acp_pending a \<Longrightarrow> acp_session_id b = acp_session_id a \<Longrightarrow> adapter_grows a b"
  by (simp add: adapter_grows_def pending_established_def is_established_def)

lemma adapter_grows_trans: "adapter_grows a b \<Longrightarrow> adapter_grows b c \<Longrightarrow> adapter_grows a c"
  by (simp add: adapter_grows_def)

lemma encode_accepted:
  assumes "can_accept_prompt s"
  obtains w session_id where "acp_session_id s = Some session_id"
    "acp_encode_input i s = (Inr w, s\<lparr>acp_next_request_id := acp_next_request_id s + 1,
       acp_pending := Some \<lparr>pt_request_id = acp_next_request_id s, pt_local_input_id = hi_local_input_id i, pt_completed = False\<rparr>\<rparr>)"
    "nw_payload w = acp_prompt_line session_id (acp_next_request_id s) (hi_content i)"
proof -
  from assms obtain session_id where "acp_session_id s = Some session_id"
    by (auto simp: can_accept_prompt_def is_established_def)
  with assms that show ?thesis by (simp add: acp_encode_input_def Let_def acp_write_def acp_prompt_line_def)
qed

lemma acp_effect_fields:
  assumes "acp_effect en started effect (l, rt) = (l', rt')"
  shows "al_adapter l' = al_adapter l" "al_held l' = al_held l" "al_channel l' = al_channel l" "al_phase l' = al_phase l"
    "al_general l' = al_general l" "al_sequence l' = al_sequence l"
    "rt_queue rt' = rt_queue rt" "rt_stdin rt' = rt_stdin rt" "sn_ready (rt_snapshot rt') \<Longrightarrow> sn_ready (rt_snapshot rt) \<or> effect = Ready"
    "rt_killed rt' = rt_killed rt"
proof -
  obtain c rt1 where e: "connection_effect en started effect (al_conn l, rt) = (c, rt1)" by (metis surj_pair)
  with assms have "l' = l\<lparr>al_conn := c\<rparr>" "rt' = rt1" by (simp_all add: acp_effect_def)
  then show "al_adapter l' = al_adapter l" "al_held l' = al_held l" "al_channel l' = al_channel l" "al_phase l' = al_phase l"
    "al_general l' = al_general l" "al_sequence l' = al_sequence l"
    "rt_queue rt' = rt_queue rt" "rt_stdin rt' = rt_stdin rt" "sn_ready (rt_snapshot rt') \<Longrightarrow> sn_ready (rt_snapshot rt) \<or> effect = Ready"
    "rt_killed rt' = rt_killed rt"
    using connection_effect_fields(1-3) [OF e] killed_effect [of en started effect "al_conn l" rt] e by auto
qed

lemma persist_fields:
  assumes "persist_runtime_user_input en started input v k n rt = Some rt'"
  shows "rt_snapshot rt' = rt_snapshot rt" "rt_queue rt' = rt_queue rt" "rt_stdin rt' = rt_stdin rt"
  using assms
  by (auto simp: persist_runtime_user_input_def append_input_and_audit_log_def append_message_def append_runtime_provider_event_def
    append_provider_event_def Let_def runtime_simps split: prod.splits if_splits)

text \<open>What a send does of the loop's own state.\<close>

definition acp_kept_locals :: "acp_loop \<Rightarrow> acp_loop \<Rightarrow> bool" where
  "acp_kept_locals l l' \<longleftrightarrow> al_held l' = al_held l \<and> al_channel l' = al_channel l \<and> al_phase l' = al_phase l
     \<and> al_general l' = al_general l \<and> adapter_grows (al_adapter l) (al_adapter l')"

lemma acp_prompt_cases:
  assumes accept: "can_accept_prompt (al_adapter l)" and busy: "\<not> sn_ready (rt_snapshot rt)"
    and run: "acp_prompt en started claim input (l, rt) = (l', rt')"
  shows "acp_kept_locals l l'"
    "acp_given_back en claim (l, rt) (l', rt') \<or> acp_written (hi_content input) (l, rt) (l', rt')"
proof -
  from encode_accepted [OF accept, of input] obtain w session_id where sid: "acp_session_id (al_adapter l) = Some session_id"
    and enc: "acp_encode_input input (al_adapter l) = (Inr w, (al_adapter l)\<lparr>acp_next_request_id := acp_next_request_id (al_adapter l) + 1,
       acp_pending := Some \<lparr>pt_request_id = acp_next_request_id (al_adapter l), pt_local_input_id = hi_local_input_id input,
         pt_completed = False\<rparr>\<rparr>)" (is "_ = (_, ?a)")
    and w: "nw_payload w = acp_prompt_line session_id (acp_next_request_id (al_adapter l)) (hi_content input)"
    by metis
  have a: "adapter_grows (al_adapter l) ?a" "\<not> can_accept_prompt ?a"
    using sid by (simp_all add: adapter_grows_def pending_established_def is_established_def can_accept_prompt_def)
  have "acp_kept_locals l l' \<and> (acp_given_back en claim (l, rt) (l', rt') \<or> acp_written (hi_content input) (l, rt) (l', rt'))"
  proof (cases "env_stdin en (nw_payload w)")
    case (Some err)
    let ?rt1 = "kill_child (snd (with_inputs (mark_failed (env_now en) (hi_local_input_id input) err) rt))"
    have "(l', rt') = give_back en started claim (''ACP prompt write failed: '' @ err) (l\<lparr>al_adapter := ?a\<rparr>, ?rt1)"
      using run Some by (simp add: acp_prompt_def enc write_stdin_def)
    then have g: "l' = l\<lparr>al_adapter := ?a\<rparr>" "rt_queue rt' = rt_queue (requeue_failed_queued_handoff en claim ?rt1)"
      "rt_stdin rt' = rt_stdin ?rt1" "\<not> sn_ready (rt_snapshot rt')" "sn_runtime_state (rt_snapshot rt') = AgentSessionState.Failed"
      by (simp_all add: give_back_def loop_fail_def runtime_simps)
    then show ?thesis using a
      by (auto simp: acp_kept_locals_def acp_given_back_def runtime_simps intro!: exI [of _ ?rt1])
  next
    case None
    let ?rt1 = "rt\<lparr>rt_stdin := rt_stdin rt @ [nw_payload w]\<rparr>"
    obtain r rt2 where mark: "with_inputs (mark_written (env_now en) (hi_local_input_id input)) ?rt1 = (r, rt2)" by (metis surj_pair)
    have rt2: "rt_queue rt2 = rt_queue rt" "rt_stdin rt2 = rt_stdin ?rt1" "rt_snapshot rt2 = rt_snapshot rt"
      using mark by (auto simp: with_inputs_def split: prod.splits)
    show ?thesis
    proof (cases r)
      case (Inl err)
      have "(l', rt') = give_back en started claim (''ACP input written-state persistence failed: '' @ err) (l\<lparr>al_adapter := ?a\<rparr>, kill_child rt2)"
        using run None mark Inl by (simp add: acp_prompt_def enc write_stdin_def)
      then have g: "l' = l\<lparr>al_adapter := ?a\<rparr>" "rt_queue rt' = rt_queue (requeue_failed_queued_handoff en claim (kill_child rt2))"
        "rt_stdin rt' = rt_stdin (kill_child rt2)" "\<not> sn_ready (rt_snapshot rt')"
        "sn_runtime_state (rt_snapshot rt') = AgentSessionState.Failed" "rt_killed rt'"
        by (simp_all add: give_back_def loop_fail_def runtime_simps)
      then show ?thesis using a rt2 w sid
        by (auto simp: acp_kept_locals_def acp_given_back_def runtime_simps intro!: exI [of _ "kill_child rt2"])
    next
      case (Inr u)
      obtain l1 rt3 where e1: "acp_effect en started (InputAcknowledged (hi_local_input_id input)) (l\<lparr>al_adapter := ?a\<rparr>, rt2) = (l1, rt3)"
        by (metis surj_pair)
      have e2: "acp_effect en started (TurnStarted (hi_local_input_id input)) (l1, rt3) = (l', rt')"
        using run None mark Inr e1 by (simp add: acp_prompt_def enc write_stdin_def)
      note f = acp_effect_fields [OF e1] acp_effect_fields [OF e2]
      then show ?thesis using a rt2 w sid busy by (auto simp: acp_kept_locals_def acp_written_def)
    qed
  qed
  then show "acp_kept_locals l l'"
    "acp_given_back en claim (l, rt) (l', rt') \<or> acp_written (hi_content input) (l, rt) (l', rt')" by simp_all
qed

text \<open>What a send can come to: given back, written, or never returning.\<close>

definition acp_dealt :: "env \<Rightarrow> QueuedChatInputRecord option \<Rightarrow> string \<Rightarrow> acp_state \<Rightarrow> acp_state \<Rightarrow> bool" where
  "acp_dealt en claim input st st' \<longleftrightarrow> acp_kept_locals (fst st) (fst st')
     \<and> (acp_given_back en claim st st' \<or> acp_written input st st')"

lemma acp_kept_locals_refl [simp]: "acp_kept_locals l l"
  by (simp add: acp_kept_locals_def adapter_grows_refl)

lemma acp_given_backI:
  assumes "(l', rt') = give_back en started claim err (l, rt1)" and "rt_queue rt1 = rt_queue rt" and "rt_stdin rt1 = rt_stdin rt"
  shows "acp_given_back en claim (l, rt) (l', rt')" "l' = l"
proof -
  from assms(1) have "l' = l" "rt_queue rt' = rt_queue (requeue_failed_queued_handoff en claim rt1)" "rt_stdin rt' = rt_stdin rt1"
    "\<not> sn_ready (rt_snapshot rt')" "sn_runtime_state (rt_snapshot rt') = AgentSessionState.Failed"
    by (simp_all add: give_back_def loop_fail_def runtime_simps)
  then show "acp_given_back en claim (l, rt) (l', rt')" "l' = l"
    using assms(2,3) by (auto simp: acp_given_back_def intro!: exI [of _ rt1])
qed

lemma acp_write_cases:
  assumes accept: "can_accept_prompt (al_adapter l)"
    and run: "acp_write_input en started claim content persisted kind delivery (l, rt) = Some st'"
  shows "acp_dealt en claim content (l, rt) st'"
proof -
  let ?i = "provider_input_local_id (sn_session_id started) (al_sequence l + 1)"
  obtain l' rt' where st': "st' = (l', rt')" by (metis surj_pair)
  obtain r rt1 where enq: "enqueue_provider_input en started ?i content (Some persisted) kind delivery
      (pc_native_thread_id (al_conn l)) rt = (r, rt1)" by (metis surj_pair)
  note e = enqueue_provider_input_fields [OF enq]
  show ?thesis
  proof (cases r)
    case (Inl err)
    with run enq have "(l', rt') = give_back en started claim (''ACP input persistence failed: '' @ err) (l, rt1)"
      by (simp add: acp_write_input_def st')
    from acp_given_backI [OF this e(2,3)] show ?thesis by (simp add: acp_dealt_def st')
  next
    case (Inr u)
    let ?rt2 = "update_snapshot (\<lambda>s. note_snapshot_input ?i (mark_session_busy_for_input (env_mono en) s)) rt1"
    let ?in = "\<lparr>hi_local_input_id = ?i, hi_content = content, hi_visible_content = Some persisted, hi_kind = kind, hi_delivery = delivery\<rparr>"
    from run enq Inr obtain rt3 where rt3: "persist_runtime_user_input en started content (Some persisted) kind (al_sequence l + 1) ?rt2 = Some rt3"
      and prompt: "acp_prompt en started claim ?in (l\<lparr>al_sequence := al_sequence l + 1\<rparr>, rt3) = (l', rt')"
      by (auto simp: acp_write_input_def st' Let_def)
    have busy: "\<not> sn_ready (rt_snapshot rt3)"
      using persist_fields(1) [OF rt3] by (simp add: runtime_simps mark_snapshot_defs)
    have same: "rt_queue rt3 = rt_queue rt" "rt_stdin rt3 = rt_stdin rt"
      using persist_fields(2,3) [OF rt3] e(2,3) by (simp_all add: runtime_simps)
    have accept': "can_accept_prompt (al_adapter (l\<lparr>al_sequence := al_sequence l + 1\<rparr>))" using accept by simp
    from acp_prompt_cases [OF accept' busy prompt] same show ?thesis
      by (auto simp: acp_dealt_def st' acp_kept_locals_def acp_given_back_def acp_written_def)
  qed
qed

lemma acp_written_suffix: "suffix input content \<Longrightarrow> acp_written content st st' \<Longrightarrow> acp_written input st st'"
  by (cases st; cases st') (auto simp: acp_written_def intro: suffix_order.trans)

lemma acp_send_cases:
  assumes "can_accept_prompt (al_adapter l)" and "acp_send_input en started claim input visible kind delivery (l, rt) = Some st'"
  shows "acp_dealt en claim input (l, rt) st'"
proof (cases "is_first_turn en started kind rt")
  case (Inl err)
  obtain l' rt' where st': "st' = (l', rt')" by (metis surj_pair)
  from assms(2) Inl have "(l', rt') = give_back en started claim (''Could not prepare ACP input history: '' @ err) (l, rt)"
    by (simp add: acp_send_input_def st')
  from acp_given_backI [OF this refl refl] show ?thesis by (simp add: acp_dealt_def st')
next
  case (Inr first)
  have "suffix input (compose_first_turn_input (al_general l) input first)"
    by (auto simp: compose_first_turn_input_def suffix_def split: option.split)
  moreover have "acp_dealt en claim (compose_first_turn_input (al_general l) input first) (l, rt) st'"
    using assms Inr by (intro acp_write_cases) (auto simp: acp_send_input_def)
  ultimately show ?thesis by (auto simp: acp_dealt_def intro: acp_written_suffix)
qed

section \<open>Controls and output\<close>

lemma acp_plan_not_emulated: "fst (acp_plan_control f control s) \<noteq> HarnessControlPlan.Emulated e"
  by (cases control) (auto simp: acp_plan_control_def Let_def split: option.split)

lemma acp_plan_adapter:
  "acp_pending (snd (acp_plan_control f control s)) = acp_pending s"
  "acp_session_id (snd (acp_plan_control f control s)) = acp_session_id s"
  by (cases control; simp add: acp_plan_control_def Let_def split: option.split)+

lemma acp_apply_control_fields:
  assumes "acp_apply_control en started control (l, rt) = (l', rt')"
  shows "acp_kept_locals l l'" "can_accept_prompt (al_adapter l') = can_accept_prompt (al_adapter l)"
    "is_established (al_adapter l') = is_established (al_adapter l)"
    "rt_queue rt' = rt_queue rt" "sn_ready (rt_snapshot rt') \<Longrightarrow> sn_ready (rt_snapshot rt)"
proof -
  obtain plan a where plan: "acp_plan_control (env_from_str en) control (al_adapter l) = (plan, a)" by (metis surj_pair)
  obtain c rt1 where run: "apply_provider_control_plan en started (acp_harness_name started) plan (al_conn l, rt) = (c, rt1)"
    by (metis surj_pair)
  have eq: "l' = l\<lparr>al_adapter := a, al_conn := c\<rparr>" "rt' = rt1" using assms plan run by (simp_all add: acp_apply_control_def)
  have "plan \<noteq> HarnessControlPlan.Emulated e" for e
    using acp_plan_not_emulated [of "env_from_str en" control "al_adapter l" e] by (simp add: plan)
  note f = control_plan_fields [OF run this]
  have a: "acp_pending a = acp_pending (al_adapter l)" "acp_session_id a = acp_session_id (al_adapter l)"
    using acp_plan_adapter [of "env_from_str en" control "al_adapter l"] by (simp_all add: plan)
  show "acp_kept_locals l l'" "can_accept_prompt (al_adapter l') = can_accept_prompt (al_adapter l)"
    "is_established (al_adapter l') = is_established (al_adapter l)"
    "rt_queue rt' = rt_queue rt" "sn_ready (rt_snapshot rt') \<Longrightarrow> sn_ready (rt_snapshot rt)"
    using f(3,7) a by (auto simp: eq acp_kept_locals_def adapter_grows_refl can_accept_prompt_def is_established_def)
qed

lemma observe_message_grows:
  assumes "observe_message clock m s = (es, s')"
  shows "adapter_grows s s'" "Ready \<in> set es \<Longrightarrow> pending_established s \<Longrightarrow> is_established s'"
proof -
  have "adapter_grows s s' \<and> (Ready \<in> set es \<longrightarrow> pending_established s \<longrightarrow> is_established s')"
    using assms
    by (auto simp: observe_message_def handle_session_update_def handle_permission_request_def handle_initialize_response_def
      handle_session_new_response_def handle_prompt_response_def Let_def adapter_grows_def pending_established_def is_established_def
      split: option.splits if_splits prod.splits dest!: acp_event_fields)
  then show "adapter_grows s s'" "Ready \<in> set es \<Longrightarrow> pending_established s \<Longrightarrow> is_established s'" by auto
qed

lemma observe_lines_grows:
  "observe_lines from_str clock ls s = (es, s') \<Longrightarrow>
     adapter_grows s s' \<and> (Ready \<in> set es \<longrightarrow> pending_established s \<longrightarrow> is_established s')"
proof (induction ls arbitrary: s es s')
  case (Cons line ls)
  obtain es1 s1 where one: "(if trim line = [] then ([], s)
      else case from_str (trim line) of None \<Rightarrow> ([], s) | Some m \<Rightarrow> observe_message clock m s) = (es1, s1)"
    by (metis surj_pair)
  obtain fs s2 where rest: "observe_lines from_str clock ls s1 = (fs, s2)" by (metis surj_pair)
  have step: "adapter_grows s s1 \<and> (Ready \<in> set es1 \<longrightarrow> pending_established s \<longrightarrow> is_established s1)"
    using one observe_message_grows by (auto simp: adapter_grows_refl split: if_splits option.splits)
  have "es = es1 @ fs" "s' = s2" using Cons.prems by (simp_all add: one rest del: trim_idem)
  with step Cons.IH [OF rest] show ?case by (auto simp: adapter_grows_def)
qed (simp add: adapter_grows_refl)

lemma acp_line_effects_fields:
  assumes "acp_line_effects en started es (ll, rt) = (ll', rt')"
  shows "rt_queue rt' = rt_queue rt \<and> rt_stdin rt' = rt_stdin rt
    \<and> (sn_ready (rt_snapshot rt') \<longrightarrow> sn_ready (rt_snapshot rt) \<or> Ready \<in> set es)"
  using assms
proof (induction es arbitrary: ll rt)
  case (Cons e es)
  let ?rt1 = "case e of InteractionRequested _ \<Rightarrow> update_snapshot mark_snapshot_awaiting_input rt | _ \<Rightarrow> rt"
  obtain ll2 rt2 where step: "apply_harness_effect en started e (ll, ?rt1) = (ll2, rt2)" by (metis surj_pair)
  from Cons.prems have "acp_line_effects en started es (ll2, rt2) = (ll', rt')" by (simp add: step)
  note ih = Cons.IH [OF this]
  have "rt_queue ?rt1 = rt_queue rt" "rt_stdin ?rt1 = rt_stdin rt" "sn_ready (rt_snapshot ?rt1) \<longrightarrow> sn_ready (rt_snapshot rt)"
    by (simp_all add: runtime_simps mark_snapshot_awaiting_input_def split: HarnessEffect.split)
  with ih effect_keeps [of en started e ll ?rt1] effect_ready [of en started e ll ?rt1] show ?case
    by (auto simp: step)
qed simp

text \<open>Reading output leaves what waits alone, and makes the session ready only once there is one.\<close>

definition acp_sound :: "acp_state \<Rightarrow> bool" where
  "acp_sound = (\<lambda>(l, rt). pending_established (al_adapter l) \<and> (sn_ready (rt_snapshot rt) \<longrightarrow> is_established (al_adapter l)))"

definition acp_read :: "acp_state \<Rightarrow> acp_state \<Rightarrow> bool" where
  "acp_read = (\<lambda>(l, rt) (l', rt'). acp_kept_locals l l' \<and> rt_queue rt' = rt_queue rt \<and> rt_stdin rt' = rt_stdin rt
     \<and> (acp_sound (l, rt) \<longrightarrow> acp_sound (l', rt')))"

lemma acp_read_trans: "acp_read a b \<Longrightarrow> acp_read b c \<Longrightarrow> acp_read a c"
  by (cases a; cases b; cases c) (auto simp: acp_read_def acp_kept_locals_def intro: adapter_grows_trans)

lemma acp_read_line: "acp_read st (snd (acp_line en started line st))"
proof -
  obtain l rt where st: "st = (l, rt)" by (metis surj_pair)
  let ?rt1 = "append_provider_native_output (sn_session_id started) (acp_harness_name started) line rt"
  obtain es a where obs: "observe_lines (env_from_str en) (\<lambda>_. env_millis en) (str_lines line) (al_adapter l) = (es, a)"
    by (metis surj_pair)
  obtain ll rt2 where run: "acp_line_effects en started es
      (\<lparr>ll_native_thread_id = pc_native_thread_id (al_conn l), ll_pending_duration = None\<rparr>, ?rt1) = (ll, rt2)"
    by (metis surj_pair)
  have eq: "snd (acp_line en started line st) =
      (l\<lparr>al_adapter := a, al_conn := (al_conn l)\<lparr>pc_native_thread_id := ll_native_thread_id ll\<rparr>\<rparr>, rt2)"
    by (simp add: st acp_line_def acp_observe_native_def obs run)
  note o = observe_lines_grows [OF obs]
  note f = acp_line_effects_fields [OF run]
  have "acp_kept_locals l (l\<lparr>al_adapter := a, al_conn := (al_conn l)\<lparr>pc_native_thread_id := ll_native_thread_id ll\<rparr>\<rparr>)"
    using o by (simp add: acp_kept_locals_def)
  moreover have "rt_queue rt2 = rt_queue rt" "rt_stdin rt2 = rt_stdin rt" using f by (simp_all add: runtime_simps)
  moreover have "is_established a" if "sn_ready (rt_snapshot rt2)" "acp_sound (l, rt)"
    using that o f by (auto simp: acp_sound_def runtime_simps adapter_grows_def)
  moreover have "pending_established a" if "acp_sound (l, rt)" using that o by (simp add: acp_sound_def adapter_grows_def)
  ultimately show ?thesis unfolding eq by (simp add: st acp_read_def acp_sound_def)
qed

lemma acp_read_drain: "acp_read st (snd (drain_acp_stdout en started ls st))"
proof (induction ls arbitrary: st)
  case Nil
  show ?case by (cases st) (simp add: acp_read_def)
next
  case (Cons line ls)
  obtain failed st1 where line: "acp_line en started line st = (failed, st1)" by (metis surj_pair)
  with acp_read_line [of st en started line] have "acp_read st st1" by simp
  with Cons.IH [of st1] line show ?case by (auto intro: acp_read_trans)
qed

section \<open>The release\<close>

lemma release_input_rows: "\<exists>rows. rt_queue (release_input en started x rt) = rt_queue rt @ rows"
  using requeue_failed_queued_handoff_rows [of en _ rt]
  by (cases "(en, started, x, rt)" rule: release_input.cases)
    (auto simp: enqueue_chat_input_def Let_def send_def split: option.split sum.split)

lemma release_rows: "\<exists>rows. rt_queue (fold (release_input en started) xs rt) = rt_queue rt @ rows"
proof (induction xs arbitrary: rt)
  case (Cons x xs)
  from release_input_rows [of en started x rt] Cons [of "release_input en started x rt"] show ?case by auto
qed simp

text \<open>Where a released input is: a claim under its thread, a send of a client under the session's.\<close>

fun released_to :: "SessionSnapshot \<Rightarrow> SessionCommand \<times> QueuedChatInputRecord option \<Rightarrow> queue \<Rightarrow> bool" where
  "released_to started (_, Some claim) rows \<longleftrightarrow> queued_as claim rows"
| "released_to started (SendInput input visible kind _, None) rows \<longleftrightarrow>
     (\<exists>r\<in>set rows. qi_thread_id r = sn_thread_id started \<and> payload_of r = (trim input, visible, kind, sn_kind started))"
| "released_to started (_, None) rows \<longleftrightarrow> True"

fun sendable :: "SessionCommand \<times> QueuedChatInputRecord option \<Rightarrow> bool" where
  "sendable (SendInput input visible kind _, None) \<longleftrightarrow> trim input \<noteq> []"
| "sendable _ \<longleftrightarrow> True"

lemma released_stays: "released_to started x rows \<Longrightarrow> released_to started x (rows @ later)"
  by (cases "(started, x, rows)" rule: released_to.cases) (auto simp: queued_as_def)

lemma release_input_places:
  assumes "env_db en = (\<lambda>_. None)" and "sendable x"
  shows "released_to started x (rt_queue (release_input en started x rt))"
  using assms requeue_failed_queued_handoff_places [of en _ rt]
  by (cases "(en, started, x, rt)" rule: release_input.cases)
    (auto simp: enqueue_chat_input_def Let_def send_def payload_of_def)

lemma release_places:
  assumes "env_db en = (\<lambda>_. None)" and "x \<in> set xs" and "sendable x"
  shows "released_to started x (rt_queue (fold (release_input en started) xs rt))"
  using assms(2)
proof (induction xs arbitrary: rt)
  case (Cons y xs)
  show ?case
  proof (cases "x = y")
    case True
    obtain rows where "rt_queue (fold (release_input en started) xs (release_input en started y rt)) =
        rt_queue (release_input en started y rt) @ rows"
      using release_rows by blast
    with release_input_places [OF assms(1,3)] True show ?thesis by (simp add: released_stays)
  next
    case False
    with Cons show ?thesis by simp
  qed
qed simp

lemma release_snapshot: "sn_ready (rt_snapshot (fold (release_input en started) xs rt)) = sn_ready (rt_snapshot rt)"
proof (induction xs arbitrary: rt)
  case (Cons x xs)
  have "sn_ready (rt_snapshot (release_input en started x rt)) = sn_ready (rt_snapshot rt)"
    by (cases "(en, started, x, rt)" rule: release_input.cases)
      (auto simp: requeue_failed_queued_handoff_def runtime_simps split: option.split sum.split prod.split)
  with Cons show ?case by simp
qed simp

section \<open>A step\<close>

lemma acp_next_cases:
  assumes "acp_next l = Some (x, l1)"
  shows "acp_kept_locals l (l\<lparr>al_adapter := al_adapter l1\<rparr>)" "al_adapter l1 = al_adapter l" "al_phase l1 = al_phase l"
    "al_general l1 = al_general l"
    "(can_accept_prompt (al_adapter l) \<and> al_held l = x # al_held l1 \<and> al_channel l1 = al_channel l)
     \<or> (al_held l1 = al_held l \<and> (\<exists>c. al_channel l = c # al_channel l1 \<and> x = split_queued_claim c)
         \<and> (can_accept_prompt (al_adapter l) \<longrightarrow> al_held l = []))"
  using assms by (auto simp: acp_next_def neq_Nil_conv split: if_splits list.splits)

lemma split_never_queued: "fst (split_queued_claim c) \<noteq> SendQueuedInput claim"
  by (cases c) auto

fun input_of :: "SessionCommand \<times> QueuedChatInputRecord option \<Rightarrow> string" where
  "input_of (SendInput input _ _ _, _) = input"
| "input_of _ = []"

lemma acp_command_cases:
  assumes "acp_command en started x (l, rt) = Some st'"
  obtains (held) "is_send x" "\<not> can_accept_prompt (al_adapter l)" "st' = (l\<lparr>al_held := al_held l @ [x]\<rparr>, rt)"
  | (dealt) "is_send x" "can_accept_prompt (al_adapter l)" "acp_dealt en (snd x) (input_of x) (l, rt) st'"
  | (other) l' rt' where "\<not> is_send x" "st' = (l', rt')" "acp_kept_locals l l'" "rt_queue rt' = rt_queue rt"
      "is_established (al_adapter l') = is_established (al_adapter l)" "sn_ready (rt_snapshot rt') \<Longrightarrow> sn_ready (rt_snapshot rt)"
proof (cases "(en, started, x, (l, rt))" rule: acp_command.cases)
  case (1 en1 started1 input visible kind delivery claim l1 rt1)
  show thesis
  proof (cases "can_accept_prompt (al_adapter l)")
    case True
    with 1 assms have "acp_send_input en started claim input visible kind delivery (l, rt) = Some st'" by simp
    from acp_send_cases [OF True this] True 1 dealt show thesis by simp
  next
    case False
    with 1 assms held show thesis by simp
  qed
next
  case (4 en1 started1 claim l1 rt1)
  obtain l' rt' where run: "acp_apply_control en started HarnessControl.Interrupt (l, rt) = (l', rt')" by (metis surj_pair)
  with 4 assms acp_apply_control_fields [OF run] other [of l' rt'] show thesis by simp
next
  case (5 en1 started1 control claim l1 rt1)
  obtain l' rt' where run: "acp_apply_control en started control (l, rt) = (l', rt')" by (metis surj_pair)
  with 5 assms acp_apply_control_fields [OF run] other [of l' rt'] show thesis by simp
qed (use assms other in \<open>auto simp: runtime_simps\<close>)

text \<open>The sends that wait keep their order: a pass leaves them as they are, or deals with the first of them.\<close>

definition acp_sends :: "acp_loop \<Rightarrow> (SessionCommand \<times> QueuedChatInputRecord option) list" where
  "acp_sends l = filter is_send (acp_waiting l)"

lemma acp_take_cases:
  assumes "acp_take en started (l, rt) = Some (l', rt')"
  shows "(acp_sends l' = acp_sends l \<and> set (acp_waiting l') \<subseteq> set (acp_waiting l) \<and> (\<forall>x\<in>set (acp_waiting l). is_send x \<longrightarrow> x \<in> set (acp_waiting l'))
        \<and> rt_queue rt' = rt_queue rt \<and> (acp_sound (l, rt) \<longrightarrow> acp_sound (l', rt')) \<and> al_phase l' = al_phase l)
    \<or> (\<exists>x. is_send x \<and> can_accept_prompt (al_adapter l) \<and> acp_waiting l = x # acp_waiting l'
        \<and> al_phase l' = al_phase l \<and> acp_dealt en (snd x) (input_of x) (l, rt) (l\<lparr>al_adapter := al_adapter l'\<rparr>, rt'))"
proof (cases "acp_next l")
  case None
  with assms show ?thesis by (simp add: acp_take_def)
next
  case (Some y)
  obtain x l1 where y: "y = (x, l1)" by (metis surj_pair)
  with Some assms have run: "acp_command en started x (l1, rt) = Some (l', rt')" by (simp add: acp_take_def)
  note n = acp_next_cases [OF Some [unfolded y]]
  from run show ?thesis
  proof (cases rule: acp_command_cases)
    case held
    with n have "acp_waiting l' = acp_waiting l" by (auto simp: acp_waiting_def)
    with held n(2,3) show ?thesis by (auto simp: acp_sends_def acp_sound_def)
  next
    case dealt
    then have "acp_kept_locals l1 l'" by (simp add: acp_dealt_def)
    with n dealt(1,2) have "acp_waiting l = x # acp_waiting l'" "al_phase l' = al_phase l"
      by (auto simp: acp_waiting_def acp_kept_locals_def)
    moreover have "acp_dealt en (snd x) (input_of x) (l, rt) (l\<lparr>al_adapter := al_adapter l'\<rparr>, rt')"
      using dealt(3) n(2) by (auto simp: acp_dealt_def acp_given_back_def acp_written_def acp_kept_locals_def)
    ultimately show ?thesis using dealt(1,2) n(2) by (intro disjI2 exI [of _ x]) simp
  next
    case (other l2 rt2)
    then have eq: "al_held l' = al_held l1" "al_channel l' = al_channel l1" "al_phase l' = al_phase l1"
      "adapter_grows (al_adapter l) (al_adapter l')"
      using n(2) by (simp_all add: acp_kept_locals_def)
    with n(5) have w: "acp_sends l' = acp_sends l" "set (acp_waiting l') \<subseteq> set (acp_waiting l)"
      "\<forall>z\<in>set (acp_waiting l). is_send z \<longrightarrow> z \<in> set (acp_waiting l')"
      using other(1) by (auto simp: acp_sends_def acp_waiting_def)
    with eq other n(2,3) show ?thesis by (auto simp: acp_sound_def adapter_grows_def)
  qed
qed

text \<open>The queue only grows, and soundness holds, over every step.\<close>

lemma acp_dealt_facts:
  assumes "acp_dealt en claim input (l, rt) (l', rt')"
  shows "\<exists>rows. rt_queue rt' = rt_queue rt @ rows" "acp_sound (l, rt) \<Longrightarrow> acp_sound (l', rt')"
proof -
  have "\<exists>rows. rt_queue rt' = rt_queue rt @ rows" if "rt_queue rt1 = rt_queue rt"
      "rt_queue rt' = rt_queue (requeue_failed_queued_handoff en claim rt1)" for rt1
    using that requeue_failed_queued_handoff_rows [of en claim rt1] by simp
  then show "\<exists>rows. rt_queue rt' = rt_queue rt @ rows"
    using assms unfolding acp_dealt_def acp_given_back_def acp_written_def by auto
  show "acp_sound (l, rt) \<Longrightarrow> acp_sound (l', rt')"
    using assms by (auto simp: acp_dealt_def acp_given_back_def acp_written_def acp_sound_def acp_kept_locals_def adapter_grows_def)
qed

lemma acp_take_facts:
  assumes "acp_take en started (l, rt) = Some (l', rt')"
  shows "\<exists>rows. rt_queue rt' = rt_queue rt @ rows" "acp_sound (l, rt) \<Longrightarrow> acp_sound (l', rt')"
  using acp_take_cases [OF assms] acp_dealt_facts
  by (fastforce simp: acp_sound_def)+

lemma acp_output_facts:
  assumes "acp_output en started ls code (l, rt) = (l', rt')"
  shows "acp_waiting l' = acp_waiting l" "rt_queue rt' = rt_queue rt" "acp_sound (l, rt) \<Longrightarrow> acp_sound (l', rt')"
proof -
  obtain b l1 rt1 where run: "drain_acp_stdout en started ls (l, rt) = (b, l1, rt1)" by (metis surj_pair)
  with acp_read_drain [of "(l, rt)" en started ls] have r: "acp_read (l, rt) (l1, rt1)" by simp
  show "acp_waiting l' = acp_waiting l" "rt_queue rt' = rt_queue rt" "acp_sound (l, rt) \<Longrightarrow> acp_sound (l', rt')"
    using assms run r
    by (cases b; auto simp: acp_output_def acp_read_def acp_kept_locals_def acp_waiting_def end_failed_acp_session_def
      runtime_simps acp_sound_def mark_session_process_exited_def update_snapshot_def send_def kill_child_def)+
qed

lemma acp_exit_facts:
  assumes "acp_exit en started ls code (l, rt) = (l', rt')"
  shows "acp_waiting l' = acp_waiting l" "rt_queue rt' = rt_queue rt" "acp_sound (l, rt) \<Longrightarrow> acp_sound (l', rt')" "al_phase l' = Leaving"
proof -
  obtain b l1 rt1 where run: "drain_acp_stdout en started ls (l, rt) = (b, l1, rt1)" by (metis surj_pair)
  with acp_read_drain [of "(l, rt)" en started ls] have r: "acp_read (l, rt) (l1, rt1)" by simp
  show "acp_waiting l' = acp_waiting l" "rt_queue rt' = rt_queue rt" "acp_sound (l, rt) \<Longrightarrow> acp_sound (l', rt')" "al_phase l' = Leaving"
    using assms run r
    by (auto simp: acp_exit_def acp_read_def acp_kept_locals_def acp_waiting_def session_exit_def mark_snapshot_exited_def
      acp_sound_def mark_session_process_exited_def update_snapshot_def send_def)
qed

lemma acp_handshake_facts:
  assumes "acp_handshake en started (l, rt) = (l', rt')"
  shows "acp_waiting l' = acp_waiting l" "rt_queue rt' = rt_queue rt" "acp_sound (l, rt) \<Longrightarrow> acp_sound (l', rt')"
  using assms
  by (auto simp: acp_handshake_def acp_fail_and_leave_def loop_fail_def write_stdin_def acp_waiting_def acp_sound_def runtime_simps
    split: if_splits option.splits)

lemma acp_step_facts:
  assumes "acp_loop_step started e st = Some st'"
  shows "\<exists>rows. rt_queue (snd st') = rt_queue (snd st) @ rows" "acp_sound st \<Longrightarrow> acp_sound st'"
proof -
  obtain l rt l' rt' where st: "st = (l, rt)" "st' = (l', rt')" by (metis surj_pair)
  have "(\<exists>rows. rt_queue rt' = rt_queue rt @ rows) \<and> (acp_sound (l, rt) \<longrightarrow> acp_sound (l', rt'))"
  proof (cases e)
    case (AcpArrives c)
    with assms show ?thesis by (auto simp: st acp_sound_def split: if_splits)
  next
    case (AcpOutput en ls code)
    with assms acp_output_facts [of en started ls code l rt l' rt'] show ?thesis by (auto simp: st split: if_splits)
  next
    case (AcpHandshake en)
    with assms acp_handshake_facts [of en started l rt l' rt'] show ?thesis by (auto simp: st split: if_splits)
  next
    case (AcpTake en)
    with assms acp_take_facts [of en started l rt l' rt'] show ?thesis by (auto simp: st split: if_splits)
  next
    case (AcpExits en ls code)
    with assms acp_exit_facts [of en started ls code l rt l' rt'] show ?thesis by (auto simp: st split: if_splits)
  next
    case (AcpPollFails en err)
    with assms show ?thesis
      by (auto simp: st acp_fail_and_leave_def loop_fail_def runtime_simps acp_sound_def split: if_splits)
  next
    case (AcpRelease en)
    with assms release_rows [of en started "acp_waiting l" rt] release_snapshot [of en started "acp_waiting l" rt]
    show ?thesis by (auto simp: st release_held_acp_inputs_def acp_waiting_def acp_sound_def split: if_splits)
  next
    case AcpReturns
    with assms show ?thesis by (auto simp: st drop_commands_def acp_sound_def split: if_splits)
  qed
  then show "\<exists>rows. rt_queue (snd st') = rt_queue (snd st) @ rows" "acp_sound st \<Longrightarrow> acp_sound st'"
    by (simp_all add: st)
qed

section \<open>Claims\<close>

definition claim_in :: "SessionCommand \<times> QueuedChatInputRecord option \<Rightarrow> QueuedChatInputRecord option" where
  "claim_in x = (case snd x of None \<Rightarrow> None
     | Some claim \<Rightarrow> if x = split_queued_claim (SendQueuedInput claim) then Some claim else None)"

definition acp_held_claims :: "acp_loop \<Rightarrow> QueuedChatInputRecord list" where
  "acp_held_claims l = List.map_filter claim_in (acp_waiting l)"

fun acp_claim :: "acp_input \<Rightarrow> QueuedChatInputRecord option" where
  "acp_claim (AcpArrives (SendQueuedInput claim)) = Some claim"
| "acp_claim _ = None"

fun acp_can_requeue :: "acp_input \<Rightarrow> bool" where
  "acp_can_requeue (AcpTake en) \<longleftrightarrow> env_db en ''requeue'' = None"
| "acp_can_requeue (AcpRelease en) \<longleftrightarrow> env_db en ''requeue'' = None"
| "acp_can_requeue _ \<longleftrightarrow> True"

text \<open>The agent was sent the input of a claim as a prompt.\<close>

definition acp_told :: "QueuedChatInputRecord \<Rightarrow> acp_state \<Rightarrow> acp_state \<Rightarrow> bool" where
  "acp_told claim st st' \<longleftrightarrow> (\<exists>content session_id request_id. suffix (qi_input claim) content
     \<and> rt_stdin (snd st') = rt_stdin (snd st) @ [acp_prompt_line session_id request_id content])"

text \<open>The claim was still in the channel of a loop that returned: it had been sent after the release.\<close>

definition acp_dropped :: "QueuedChatInputRecord \<Rightarrow> acp_state \<Rightarrow> acp_state \<Rightarrow> bool" where
  "acp_dropped claim st st' \<longleftrightarrow> al_phase (fst st) = Drained \<and> al_phase (fst st') = Ended
     \<and> claim \<in> set (acp_held_claims (fst st))"

lemma claim_in_Some: "claim_in x = Some claim \<longleftrightarrow> x = split_queued_claim (SendQueuedInput claim)"
  by (auto simp: claim_in_def split: option.split)

lemma held_claims_iff: "claim \<in> set (acp_held_claims l) \<longleftrightarrow> split_queued_claim (SendQueuedInput claim) \<in> set (acp_waiting l)"
proof -
  have "claim \<in> set (List.map_filter claim_in xs) \<longleftrightarrow> (\<exists>x\<in>set xs. claim_in x = Some claim)" for xs
    by (force simp: List.map_filter_def)
  then show ?thesis by (simp only: acp_held_claims_def claim_in_Some) blast
qed

lemma released_claim:
  assumes "env_db en ''requeue'' = None" and "split_queued_claim (SendQueuedInput claim) \<in> set xs"
  shows "released_to started (split_queued_claim (SendQueuedInput claim)) (rt_queue (fold (release_input en started) xs rt))"
  using assms(2)
proof (induction xs arbitrary: rt)
  case (Cons y xs)
  show ?case
  proof (cases "split_queued_claim (SendQueuedInput claim) = y")
    case True
    obtain rows where "rt_queue (fold (release_input en started) xs (release_input en started y rt)) =
        rt_queue (release_input en started y rt) @ rows"
      using release_rows by blast
    then show ?thesis unfolding True [symmetric]
      using requeue_failed_queued_handoff_places [OF assms(1), of claim rt] by (auto simp: queued_as_def)
  next
    case False
    with Cons show ?thesis by simp
  qed
qed simp

lemma acp_take_claim:
  assumes run: "acp_take en started (l, rt) = Some (l', rt')" and db: "env_db en ''requeue'' = None"
    and held: "claim \<in> set (acp_held_claims l)"
  shows "acp_told claim (l, rt) (l', rt') \<or> claim \<in> set (acp_held_claims l') \<or> queued_as claim (rt_queue rt')"
  using acp_take_cases [OF run]
proof (elim disjE exE conjE)
  assume "\<forall>x\<in>set (acp_waiting l). is_send x \<longrightarrow> x \<in> set (acp_waiting l')"
  with held show ?thesis by (simp add: held_claims_iff)
next
  fix x assume w: "acp_waiting l = x # acp_waiting l'"
    and d: "acp_dealt en (snd x) (input_of x) (l, rt) (l\<lparr>al_adapter := al_adapter l'\<rparr>, rt')"
  show ?thesis
  proof (cases "x = split_queued_claim (SendQueuedInput claim)")
    case True
    have "queued_as claim (rt_queue (requeue_failed_queued_handoff en (Some claim) rt1))" for rt1
      using requeue_failed_queued_handoff_places [of en claim rt1] by (simp add: db)
    with d True show ?thesis
      by (auto simp: acp_dealt_def acp_given_back_def acp_written_def acp_told_def)
  next
    case False
    with held w show ?thesis by (simp add: held_claims_iff)
  qed
qed

lemma acp_claim_placed:
  assumes "acp_loop_step started e (l, rt) = Some (l', rt')" and "acp_can_requeue e"
    and "acp_claim e = Some claim \<or> claim \<in> set (acp_held_claims l)"
  shows "acp_told claim (l, rt) (l', rt') \<or> acp_dropped claim (l, rt) (l', rt')
    \<or> claim \<in> set (acp_held_claims l') \<or> queued_as claim (rt_queue rt')"
proof (cases e)
  case (AcpArrives c)
  with assms show ?thesis by (cases c) (auto simp: held_claims_iff acp_waiting_def split: if_splits)
next
  case (AcpOutput en ls code)
  with assms acp_output_facts(1) [of en started ls code l rt l' rt'] show ?thesis by (auto simp: held_claims_iff split: if_splits)
next
  case (AcpHandshake en)
  with assms acp_handshake_facts(1) [of en started l rt l' rt'] show ?thesis by (auto simp: held_claims_iff split: if_splits)
next
  case (AcpTake en)
  with assms acp_take_claim [of en started l rt l' rt' claim] show ?thesis by (auto split: if_splits)
next
  case (AcpExits en ls code)
  with assms acp_exit_facts(1) [of en started ls code l rt l' rt'] show ?thesis by (auto simp: held_claims_iff split: if_splits)
next
  case (AcpPollFails en err)
  with assms show ?thesis
    by (auto simp: acp_fail_and_leave_def loop_fail_def held_claims_iff acp_waiting_def split: if_splits)
next
  case (AcpRelease en)
  with assms have "released_to started (split_queued_claim (SendQueuedInput claim))
      (rt_queue (fold (release_input en started) (acp_waiting l) rt))"
    by (intro released_claim) (auto simp: held_claims_iff)
  with AcpRelease assms show ?thesis by (auto simp: release_held_acp_inputs_def acp_waiting_def split: if_splits)
next
  case AcpReturns
  with assms show ?thesis by (auto simp: acp_dropped_def drop_commands_def split: if_splits)
qed

interpretation acp_claims: claim_loop "\<lambda>e a b. acp_loop_step started e a = Some b" "\<lambda>st. rt_queue (snd st)"
    "\<lambda>st. acp_held_claims (fst st)" acp_claim
    "\<lambda>claim st st'. acp_told claim st st' \<or> acp_dropped claim st st'" acp_can_requeue for started
proof (unfold_locales, goal_cases)
  case (1 e st st')
  then show ?case by (rule acp_step_facts(1))
next
  case (2 e st st' claim)
  then show ?case using acp_claim_placed [of started e "fst st" "snd st" "fst st'" "snd st'" claim] by auto
qed

lemma acp_run_path: "acp_loop_run started es st = Some st' \<longleftrightarrow> loop_path (\<lambda>e a b. acp_loop_step started e a = Some b) es st st'"
proof (induction es arbitrary: st)
  case (Cons e es)
  then show ?case by (auto simp: bind_eq_Some_conv intro: loop_path.path_step elim!: path_stepE)
qed (auto intro: loop_path.path_nil)

lemma acp_run_append: "acp_loop_run started (es @ fs) st = Option.bind (acp_loop_run started es st) (acp_loop_run started fs)"
  by (induction es arbitrary: st) (auto split: bind_splits)

lemma acp_run_snoc: "acp_loop_run started (es @ [e]) st = Option.bind (acp_loop_run started es st) (acp_loop_step started e)"
  by (simp add: acp_run_append) (simp split: bind_split)

lemma acp_sound_run: "acp_loop_run started es st = Some st' \<Longrightarrow> acp_sound st \<Longrightarrow> acp_sound st'"
  unfolding acp_run_path by (erule path_invariant) (auto dest: acp_step_facts(2))

section \<open>Life and death of the loop\<close>

text \<open>A drained loop holds nothing back, and nothing waits in a loop that has ended.\<close>

definition nothing_left :: "acp_state \<Rightarrow> bool" where
  "nothing_left st \<longleftrightarrow> (al_phase (fst st) \<in> {Drained, Ended} \<longrightarrow> al_held (fst st) = [])
     \<and> (al_phase (fst st) = Ended \<longrightarrow> al_channel (fst st) = [])"

lemma ended_run: "acp_loop_run started es st = Some st' \<Longrightarrow> al_phase (fst st) = Ended \<Longrightarrow> st' = st"
  by (cases st; cases es) (auto elim: acp_loop_step.elims split: bind_splits if_splits)

lemma acp_take_phase: "acp_take en started (l, rt) = Some (l', rt') \<Longrightarrow> al_phase l' = al_phase l"
  using acp_take_cases by blast

lemma drain_phase:
  assumes "drain_acp_stdout en started ls (l, rt) = (b, l1, rt1)"
  shows "al_phase l1 = al_phase l"
  using acp_read_drain [of "(l, rt)" en started ls] assms by (simp add: acp_read_def acp_kept_locals_def)

lemma nothing_left_step: "acp_loop_step started e st = Some st' \<Longrightarrow> nothing_left st \<Longrightarrow> nothing_left st'"
proof -
  assume step: "acp_loop_step started e st = Some st'" and kept: "nothing_left st"
  obtain l rt l' rt' where st: "st = (l, rt)" "st' = (l', rt')" by (metis surj_pair)
  show "nothing_left st'"
  proof (cases e)
    case (AcpOutput en ls code)
    with step show ?thesis
      by (auto simp: st nothing_left_def acp_output_def dest: drain_phase split: if_splits prod.splits bool.splits)
  next
    case (AcpTake en)
    with step show ?thesis by (auto simp: st nothing_left_def dest: acp_take_phase split: if_splits)
  next
    case (AcpExits en ls code)
    with step acp_exit_facts(4) [of en started ls code l rt l' rt'] show ?thesis
      by (auto simp: st nothing_left_def split: if_splits)
  qed (use step kept in \<open>auto simp: st nothing_left_def acp_handshake_def acp_fail_and_leave_def loop_fail_def
      release_held_acp_inputs_def drop_commands_def acp_waiting_def split: if_splits option.splits prod.splits\<close>)
qed

lemma drained_step:
  assumes "acp_loop_step started e st = Some st'" and "al_phase (fst st') = Drained" and "claim \<in> set (acp_held_claims (fst st'))"
  shows "al_phase (fst st) = Drained \<and> (e = AcpArrives (SendQueuedInput claim) \<or> claim \<in> set (acp_held_claims (fst st)))"
proof -
  obtain l rt l' rt' where st: "st = (l, rt)" "st' = (l', rt')" by (metis surj_pair)
  show ?thesis
  proof (cases e)
    case (AcpArrives c)
    with assms show ?thesis
      by (cases c) (auto simp: st held_claims_iff acp_waiting_def split: if_splits)
  next
    case (AcpOutput en ls code)
    with assms show ?thesis
      by (auto simp: st acp_output_def dest: drain_phase split: if_splits prod.splits bool.splits)
  next
    case (AcpTake en)
    with assms show ?thesis by (auto simp: st dest: acp_take_phase split: if_splits)
  next
    case (AcpExits en ls code)
    with assms acp_exit_facts(4) [of en started ls code l rt l' rt'] show ?thesis by (auto simp: st split: if_splits)
  qed (use assms in \<open>auto simp: st acp_handshake_def acp_fail_and_leave_def loop_fail_def held_claims_iff
      release_held_acp_inputs_def drop_commands_def acp_waiting_def write_stdin_def split: if_splits option.splits prod.splits\<close>)
qed

lemma nothing_left_run: "acp_loop_run started es st = Some st' \<Longrightarrow> nothing_left st \<Longrightarrow> nothing_left st'"
  unfolding acp_run_path by (erule path_invariant) (auto dest: nothing_left_step)

lemma acp_start_fields:
  assumes "acp_start en started c general rt = (l, rt')"
  shows "acp_waiting l = []" "acp_pending (al_adapter l) = None" "acp_session_id (al_adapter l) = pc_native_thread_id c"
    "rt_queue rt' = rt_queue rt" "sn_ready (rt_snapshot rt') \<Longrightarrow> sn_ready (rt_snapshot rt)"
    "al_phase l \<in> {Looping, Leaving}"
  using assms
  by (auto simp: acp_start_def Let_def acp_fail_and_leave_def loop_fail_def write_stdin_def acp_new_def acp_waiting_def
    runtime_simps split: option.splits sum.splits)

text \<open>A claim a drained loop holds was sent to it after the release.\<close>

lemma drained_holds_late:
  assumes "acp_loop_run started es st = Some st'" and "al_phase (fst st) \<noteq> Drained"
    and "al_phase (fst st') = Drained" and "claim \<in> set (acp_held_claims (fst st'))"
  shows "\<exists>es1 es2 st1. es = es1 @ AcpArrives (SendQueuedInput claim) # es2 \<and> acp_loop_run started es1 st = Some st1
    \<and> al_phase (fst st1) = Drained"
  using assms
proof (induction es arbitrary: st' rule: rev_induct)
  case (snoc e es)
  then obtain st1 where run: "acp_loop_run started es st = Some st1" "acp_loop_step started e st1 = Some st'"
    unfolding acp_run_snoc bind_eq_Some_conv by blast
  from drained_step [OF run(2) snoc.prems(3,4)] have d: "al_phase (fst st1) = Drained"
    "e = AcpArrives (SendQueuedInput claim) \<or> claim \<in> set (acp_held_claims (fst st1))" by simp_all
  from d(2) show ?case
  proof
    assume "e = AcpArrives (SendQueuedInput claim)"
    with run(1) d(1) show ?thesis by blast
  next
    assume "claim \<in> set (acp_held_claims (fst st1))"
    from snoc.IH [OF run(1) snoc.prems(2) d(1) this] show ?thesis by fastforce
  qed
qed simp

lemma release_eq: "release_held_acp_inputs en started (l, rt) =
    (l\<lparr>al_held := [], al_channel := [], al_phase := Drained\<rparr>, fold (release_input en started) (acp_waiting l) rt)"
  by (simp add: release_held_acp_inputs_def acp_waiting_def)

section \<open>A refused session\<close>

text \<open>The answer to \<open>session/new\<close> without a session id.\<close>

definition session_refused :: "json \<Rightarrow> bool" where
  "session_refused m \<longleftrightarrow> as_str (jindex m ''method'') = None \<and> as_i64 (jindex m ''id'') = Some 2
     \<and> as_str (jindex (jindex m ''result'') ''sessionId'') = None"

lemma refused_line:
  assumes "str_lines line = [line]" and "trim line \<noteq> []" and "env_from_str en (trim line) = Some m" and "session_refused m"
    and "\<not> is_established (al_adapter l)"
  shows "\<exists>l1 rt1. drain_acp_stdout en started (line # ls) (l, rt) = (True, l1, rt1) \<and> acp_read (l, rt) (l1, rt1)
    \<and> (\<exists>err. session_error started err \<in> set (rt_sent rt1))"
proof -
  obtain why where obs: "observe_lines (env_from_str en) (\<lambda>_. env_millis en) (str_lines line) (al_adapter l) = ([Fatal why], al_adapter l)"
    using assms by (simp add: observe_message_def handle_session_new_response_def session_refused_def)
  obtain failed l1 rt1 where run: "acp_line en started line (l, rt) = (failed, l1, rt1)" by (metis surj_pair)
  have failed: "failed" "session_error started why \<in> set (rt_sent rt1)"
    using run assms(5) unfolding acp_line_def acp_observe_native_def split_conv Let_def NativeRecord.simps obs
    by (auto simp: is_fatal_def apply_harness_effect_def mark_provider_session_failed_def Let_def runtime_simps)
  then have "drain_acp_stdout en started (line # ls) (l, rt) = (True, l1, rt1)" by (simp add: run)
  moreover have "acp_read (l, rt) (l1, rt1)" using acp_read_line [of "(l, rt)" en started line] by (simp add: run)
  ultimately show ?thesis using failed(2) by blast
qed

lemma exited_process: "\<forall>r\<in>set (rt_processes (mark_session_process_exited now p code rt)). pw_id r = p \<longrightarrow> pw_status r = Exited"
proof -
  have "\<forall>r\<in>set (update_where (\<lambda>r. pw_id r = p) f rows). pw_id r = p \<longrightarrow> pw_status r = Exited"
    if "\<forall>r. pw_status (f r) = Exited \<and> pw_id (f r) = pw_id r" for f and rows :: "ProcessRow list"
    using that by (auto simp: update_where_def)
  from this [of "\<lambda>r. r\<lparr>pw_status := Exited, pw_ended_at := Some now, pw_exit_code := code\<rparr>" "rt_processes rt"]
  show ?thesis by (simp add: mark_session_process_exited_def)
qed

lemma release_processes: "rt_processes (fold (release_input en started) xs rt) = rt_processes rt
  \<and> sn_status (rt_snapshot (fold (release_input en started) xs rt)) = sn_status (rt_snapshot rt)
  \<and> sn_runtime_state (rt_snapshot (fold (release_input en started) xs rt)) = sn_runtime_state (rt_snapshot rt)
  \<and> rt_killed (fold (release_input en started) xs rt) = rt_killed rt \<and> rt_stdin (fold (release_input en started) xs rt) = rt_stdin rt
  \<and> set (rt_sent rt) \<subseteq> set (rt_sent (fold (release_input en started) xs rt))"
proof (induction xs arbitrary: rt)
  case (Cons x xs)
  have "rt_processes (release_input en started x rt) = rt_processes rt
      \<and> sn_status (rt_snapshot (release_input en started x rt)) = sn_status (rt_snapshot rt)
      \<and> sn_runtime_state (rt_snapshot (release_input en started x rt)) = sn_runtime_state (rt_snapshot rt)
      \<and> rt_killed (release_input en started x rt) = rt_killed rt \<and> rt_stdin (release_input en started x rt) = rt_stdin rt
      \<and> set (rt_sent rt) \<subseteq> set (rt_sent (release_input en started x rt))"
    by (cases "(en, started, x, rt)" rule: release_input.cases)
      (auto simp: requeue_failed_queued_handoff_def send_def split: option.split sum.split prod.split)
  with Cons [of "release_input en started x rt"] show ?case by auto
qed simp

section \<open>The transcript of a prompt that was not written\<close>

lemma persist_user_input_shows:
  assumes "keyed cm_id (cs_messages (rt_chat rt))" and "persist_runtime_user_input en started input v ArchcarInputKind.User n rt = Some rt'"
  shows "\<exists>m\<in>set (cs_messages (rt_chat rt')). cm_thread_id m = sn_thread_id started \<and> cm_role m = ''user''"
proof -
  let ?st = "(rt_chat rt)\<lparr>cs_timeline := es_timeline (rt_events rt)\<rparr>"
  obtain r st' where app: "append_chat_message (env_now en) (sn_thread_id started) ''user'' (unwrap_or v input) ''user_send'' ?st = (r, st')"
    by (metis surj_pair)
  have "keyed cm_id (cs_messages ?st)" using assms(1) by simp
  from appended_message_is_shown [OF this app]
  have "r \<in> set (cs_messages st')" "cm_thread_id r = sn_thread_id started" "cm_role r = ''user''" by simp_all
  moreover have "rt_chat rt' = st'"
    using assms(2) app by (auto simp: persist_runtime_user_input_def append_input_and_audit_log_def append_message_def
      append_session_process_output_def append_runtime_provider_event_def append_provider_event_def Let_def
      split: option.splits if_splits)
  ultimately show ?thesis by auto
qed

lemma user_message_not_first: "m \<in> set (cs_messages st) \<Longrightarrow> cm_thread_id m = t \<Longrightarrow> cm_role m = ''user'' \<Longrightarrow> \<not> thread_is_first_user_turn t st"
  by (auto simp: thread_is_first_user_turn_def list_chat_messages_def list_ex_iff)

lemma give_back_chat: "rt_chat (snd (give_back en started claim err (l, rt))) = rt_chat rt" "rt_killed (snd (give_back en started claim err (l, rt))) = rt_killed rt"
  by (simp_all add: give_back_def loop_fail_def runtime_simps mark_provider_session_failed_def append_runtime_provider_event_def
    append_provider_event_def update_snapshot_def send_def requeue_failed_queued_handoff_def Let_def split: option.split)

section \<open>Properties\<close>

text \<open>
  C22. An input claimed from the queue for an ACP session is accounted for over any life of the loop, from
  its start to its end, whatever of the store fails but the call that takes a claim back: each claim the
  daemon handed over has been written to the agent as a prompt that ends in its text, or is back in the
  queue of its thread, or is still held by a loop that has not ended, or was sent after the release had
  emptied the channel of a loop that then returned, which loses it.
\<close>

theorem acp_claims_accounted:
  assumes "acp_loop_run started es (acp_start en started c general rt) = Some (l', rt')"
    and "\<forall>e\<in>set es. acp_can_requeue e" and "AcpArrives (SendQueuedInput claim) \<in> set es"
  shows "queued_as claim (rt_queue rt') \<or> (al_phase l' \<noteq> Ended \<and> claim \<in> set (acp_held_claims l'))
    \<or> (\<exists>es1 e es2 st1 st2 content session_id request_id. es = es1 @ e # es2
         \<and> acp_loop_run started es1 (acp_start en started c general rt) = Some st1
         \<and> acp_loop_step started e st1 = Some st2 \<and> suffix (qi_input claim) content
         \<and> rt_stdin (snd st2) = rt_stdin (snd st1) @ [acp_prompt_line session_id request_id content])
    \<or> (al_phase l' = Ended \<and> (\<exists>es1 es2 st1. es = es1 @ AcpArrives (SendQueuedInput claim) # es2
         \<and> acp_loop_run started es1 (acp_start en started c general rt) = Some st1 \<and> al_phase (fst st1) = Drained))"
proof -
  let ?st = "acp_start en started c general rt"
  have start: "al_phase (fst ?st) \<in> {Looping, Leaving}"
    using acp_start_fields(6) [of en started c general rt] by (metis prod.collapse)
  then have "nothing_left ?st" by (auto simp: nothing_left_def)
  with nothing_left_run [OF assms(1)] have "al_phase l' = Ended \<Longrightarrow> acp_held_claims l' = []"
    by (simp add: nothing_left_def acp_held_claims_def acp_waiting_def)
  then have held: "claim \<in> set (acp_held_claims l') \<Longrightarrow> al_phase l' \<noteq> Ended" by auto
  have "\<exists>e\<in>set es. acp_claim e = Some claim" using assms(3) by force
  from acp_claims.claim_accounted [OF iffD1 [OF acp_run_path assms(1)] assms(2), of claim, simplified acp_run_path [symmetric]] this
  consider "claim \<in> set (acp_held_claims l')" | "queued_as claim (rt_queue rt')"
    | es1 e es2 st1 st2 where "es = es1 @ e # es2" "acp_loop_run started es1 ?st = Some st1"
        "acp_loop_step started e st1 = Some st2" "acp_told claim st1 st2 \<or> acp_dropped claim st1 st2"
    unfolding acp_run_path [symmetric] fst_conv snd_conv by blast
  then show ?thesis
  proof cases
    case 1
    with held show ?thesis by simp
  next
    case 3
    show ?thesis
    proof (cases "acp_told claim st1 st2")
      case True
      with 3 show ?thesis unfolding acp_told_def by blast
    next
      case False
      with 3 have d: "al_phase (fst st1) = Drained" "al_phase (fst st2) = Ended" "claim \<in> set (acp_held_claims (fst st1))"
        by (simp_all add: acp_dropped_def)
      have "acp_loop_run started es2 st2 = Some (l', rt')"
        using assms(1) 3(1-3) by (simp add: acp_run_append)
      from ended_run [OF this d(2)] d(2) have "al_phase l' = Ended" by (metis fst_conv)
      moreover from drained_holds_late [OF 3(2) _ d(1,3)] start obtain fs gs st0
        where "es1 = fs @ AcpArrives (SendQueuedInput claim) # gs" "acp_loop_run started fs ?st = Some st0"
          "al_phase (fst st0) = Drained" by auto
      moreover from this 3(1) have "es = fs @ AcpArrives (SendQueuedInput claim) # (gs @ e # es2)" by simp
      ultimately show ?thesis by blast
    qed
  qed simp
qed

text \<open>
  C23. The loop deals with what it is sent in the order it was sent. Every step leaves the waiting sends as
  they are, in the same order, with what arrives behind them; or, when the agent can take a prompt, deals
  with the first of them, by writing it or by giving it up, which puts a claim back in the queue and drops
  a message a client sent directly, with the session failed; or is the release, which goes through all of
  them in that order; or the return of the loop, which drops what came after the release. The order in
  the queue after a release is that of the row ids it gave.
\<close>

theorem acp_inputs_in_order:
  assumes "acp_loop_step started e (l, rt) = Some (l', rt')"
  shows "(\<exists>arrived. acp_sends l' = acp_sends l @ arrived
        \<and> arrived = (case e of AcpArrives command \<Rightarrow> filter is_send [split_queued_claim command] | _ \<Rightarrow> []))
    \<or> (\<exists>en x. e = AcpTake en \<and> can_accept_prompt (al_adapter l) \<and> acp_sends l = x # acp_sends l'
        \<and> (acp_written (input_of x) (l, rt) (l', rt') \<or> acp_given_back en (snd x) (l, rt) (l', rt')))
    \<or> (\<exists>en. e = AcpRelease en \<and> acp_sends l' = [] \<and> rt' = fold (release_input en started) (acp_waiting l) rt)
    \<or> (e = AcpReturns \<and> al_phase l = Drained \<and> acp_sends l' = filter is_send (al_held l) \<and> rt' = rt)"
proof (cases e)
  case (AcpTake en)
  with assms have "acp_take en started (l, rt) = Some (l', rt')" by (auto split: if_splits)
  from acp_take_cases [OF this] show ?thesis
  proof (elim disjE exE conjE)
    assume "acp_sends l' = acp_sends l"
    with AcpTake show ?thesis by simp
  next
    fix x assume x: "is_send x" "can_accept_prompt (al_adapter l)" "acp_waiting l = x # acp_waiting l'"
      "acp_dealt en (snd x) (input_of x) (l, rt) (l\<lparr>al_adapter := al_adapter l'\<rparr>, rt')"
    have "acp_written (input_of x) (l, rt) (l\<lparr>al_adapter := al_adapter l'\<rparr>, rt') = acp_written (input_of x) (l, rt) (l', rt')"
      "acp_given_back en (snd x) (l, rt) (l\<lparr>al_adapter := al_adapter l'\<rparr>, rt') = acp_given_back en (snd x) (l, rt) (l', rt')"
      by (simp_all add: acp_written_def acp_given_back_def)
    with x(4) have "acp_written (input_of x) (l, rt) (l', rt') \<or> acp_given_back en (snd x) (l, rt) (l', rt')"
      unfolding acp_dealt_def by blast
    with x(1-3) AcpTake show ?thesis by (intro disjI2 [OF disjI1] exI [of _ en] exI [of _ x]) (simp add: acp_sends_def)
  qed
next
  case (AcpArrives c)
  with assms show ?thesis by (auto simp: acp_sends_def acp_waiting_def split: if_splits)
next
  case (AcpOutput en ls code)
  with assms acp_output_facts(1) [of en started ls code l rt l' rt'] show ?thesis by (auto simp: acp_sends_def split: if_splits)
next
  case (AcpHandshake en)
  with assms acp_handshake_facts(1) [of en started l rt l' rt'] show ?thesis by (auto simp: acp_sends_def split: if_splits)
next
  case (AcpExits en ls code)
  with assms acp_exit_facts(1) [of en started ls code l rt l' rt'] show ?thesis by (auto simp: acp_sends_def split: if_splits)
next
  case (AcpPollFails en err)
  with assms show ?thesis
    by (auto simp: acp_fail_and_leave_def loop_fail_def acp_sends_def acp_waiting_def split: if_splits)
next
  case (AcpRelease en)
  with assms show ?thesis by (auto simp: release_eq acp_sends_def acp_waiting_def split: if_splits)
next
  case AcpReturns
  with assms show ?thesis by (auto simp: drop_commands_def acp_sends_def acp_waiting_def split: if_splits)
qed

text \<open>
  An ACP session that was not ready when its agent was started is ready only once the agent has
  answered \<open>session/new\<close>: at any point of a life of the loop in which the snapshot is ready, the adapter
  has the session an input will be sent to.
\<close>

lemma acp_ready_needs_session:
  assumes "acp_loop_run started es (acp_start en started c general rt) = Some (l', rt')"
    and "\<not> sn_ready (rt_snapshot rt)" and "sn_ready (rt_snapshot rt')"
  shows "is_established (al_adapter l')"
proof -
  obtain l0 rt0 where start: "acp_start en started c general rt = (l0, rt0)" by (metis surj_pair)
  with acp_start_fields [OF start] assms(2) have "acp_sound (acp_start en started c general rt)"
    by (auto simp: acp_sound_def pending_established_def)
  with acp_sound_run [OF assms(1)] assms(3) show ?thesis by (simp add: acp_sound_def)
qed

text \<open>
  The release puts everything the loop was sent and has not dealt with in the queue: each claim under
  its own thread, each message a client sent directly under the thread of the session, as long as it has
  any text; nothing is left waiting, and nothing is written to the agent.
\<close>

lemma acp_release_returns_everything:
  assumes "acp_loop_step started (AcpRelease en) (l, rt) = Some (l', rt')" and "env_db en = (\<lambda>_. None)"
  shows "(\<forall>x\<in>set (acp_waiting l). sendable x \<longrightarrow> released_to started x (rt_queue rt'))
    \<and> acp_waiting l' = [] \<and> rt_stdin rt' = rt_stdin rt"
proof -
  have eq: "rt' = fold (release_input en started) (acp_waiting l) rt" "acp_waiting l' = []"
    using assms(1) by (auto simp: release_held_acp_inputs_def acp_waiting_def split: if_splits)
  with release_places [OF assms(2)] release_processes [of en started "acp_waiting l" rt] show ?thesis by simp
qed

text \<open>
  A claim sent to a loop whose release has found the channel empty, before it returns, is lost: the send
  succeeds, so the daemon does not take the claim back, and the loop drops it, neither written nor queued.
\<close>

lemma acp_late_claim_is_lost:
  assumes "al_phase l = Leaving"
  shows "\<exists>l' rt'. acp_loop_run started [AcpRelease en, AcpArrives (SendQueuedInput claim), AcpReturns] (l, rt) = Some (l', rt')
    \<and> acp_waiting l' = [] \<and> rt' = fold (release_input en started) (acp_waiting l) rt"
  using assms by (simp add: release_eq drop_commands_def acp_waiting_def)

text \<open>
  An agent that refuses \<open>session/new\<close> does not leave a session behind that looks alive: reading the
  refusal kills it, ends the loop with the process row exited, the snapshot exited and failed, and both
  the reason and the exit announced; what had been sent to the session meanwhile goes to the queue.
\<close>

lemma acp_refused_session_ends:
  assumes "al_phase l = Looping" and "\<not> is_established (al_adapter l)"
    and "str_lines line = [line]" and "trim line \<noteq> []" and "env_from_str en (trim line) = Some m" and "session_refused m"
    and "env_db en' = (\<lambda>_. None)"
  shows "\<exists>l' rt'. acp_loop_run started [AcpOutput en (line # ls) code, AcpRelease en', AcpReturns] (l, rt) = Some (l', rt')
    \<and> al_phase l' = Ended \<and> rt_killed rt' \<and> rt_stdin rt' = rt_stdin rt
    \<and> sn_status (rt_snapshot rt') = Exited \<and> \<not> sn_ready (rt_snapshot rt')
    \<and> sn_runtime_state (rt_snapshot rt') = AgentSessionState.Failed
    \<and> (\<forall>r\<in>set (rt_processes rt'). pw_id r = sn_session_id started \<longrightarrow> pw_status r = Exited)
    \<and> SessionExited (sn_session_id started) code \<in> set (rt_sent rt') \<and> (\<exists>err. session_error started err \<in> set (rt_sent rt'))
    \<and> (\<forall>x\<in>set (acp_waiting l). sendable x \<longrightarrow> released_to started x (rt_queue rt'))"
proof -
  from refused_line [OF assms(3-6,2), of started ls rt] obtain l1 rt1 err
    where drain: "drain_acp_stdout en started (line # ls) (l, rt) = (True, l1, rt1)" and read: "acp_read (l, rt) (l1, rt1)"
      and err: "session_error started err \<in> set (rt_sent rt1)"
    by auto
  let ?l2 = "l1\<lparr>al_phase := Leaving\<rparr>" and ?rt2 = "end_failed_acp_session en started code rt1"
  have "acp_loop_step started (AcpOutput en (line # ls) code) (l, rt) = Some (?l2, ?rt2)"
    using assms(1) drain by (simp add: acp_output_def del: drain_acp_stdout.simps)
  moreover have waiting: "acp_waiting ?l2 = acp_waiting l"
    using read by (simp add: acp_read_def acp_kept_locals_def acp_waiting_def)
  let ?rt3 = "fold (release_input en' started) (acp_waiting l) ?rt2"
  have "acp_loop_step started (AcpRelease en') (?l2, ?rt2) = Some (?l2\<lparr>al_held := [], al_channel := [], al_phase := Drained\<rparr>, ?rt3)"
    by (simp add: release_eq waiting)
  moreover have "acp_loop_step started AcpReturns (?l2\<lparr>al_held := [], al_channel := [], al_phase := Drained\<rparr>, ?rt3) =
      Some (?l2\<lparr>al_held := [], al_channel := [], al_phase := Ended\<rparr>, ?rt3)"
    by (simp add: drop_commands_def)
  ultimately have run: "acp_loop_run started [AcpOutput en (line # ls) code, AcpRelease en', AcpReturns] (l, rt) =
      Some (?l2\<lparr>al_held := [], al_channel := [], al_phase := Ended\<rparr>, ?rt3)"
    by simp
  have rt2: "rt_killed ?rt2" "rt_stdin ?rt2 = rt_stdin rt" "sn_status (rt_snapshot ?rt2) = Exited" "\<not> sn_ready (rt_snapshot ?rt2)"
    "sn_runtime_state (rt_snapshot ?rt2) = AgentSessionState.Failed" "SessionExited (sn_session_id started) code \<in> set (rt_sent ?rt2)"
    "session_error started err \<in> set (rt_sent ?rt2)"
    "\<forall>r\<in>set (rt_processes ?rt2). pw_id r = sn_session_id started \<longrightarrow> pw_status r = Exited"
    using read err exited_process [of "env_now en" "sn_session_id started" code "kill_child rt1"]
    by (simp_all add: end_failed_acp_session_def acp_read_def send_def update_snapshot_def mark_session_process_exited_def kill_child_def)
  show ?thesis
    using run rt2 release_processes [of en' started "acp_waiting l" ?rt2] release_snapshot [of en' started "acp_waiting l" ?rt2]
      release_places [OF assms(7)]
    by (intro exI conjI) (assumption | simp | blast)+
qed

text \<open>
  A first message that could not be written takes the thread's general prompt with it: the transcript
  has the message already when the write fails, so the thread no longer counts as new. The agent is
  killed and the claim is back in the queue, but whatever session delivers it next sends the message
  without the general prompt, which no agent has ever been sent.
\<close>

lemma acp_failed_write_loses_general_prompt:
  assumes "can_accept_prompt (al_adapter l)" and "env_db en = (\<lambda>_. None)" and "env_stdin en = (\<lambda>_. Some err)"
    and "keyed cm_id (cs_messages (rt_chat rt))" and "thread_is_first_user_turn (sn_thread_id started) (rt_chat rt)"
    and "qi_input_kind claim = ArchcarInputKind.User"
    and "redact_sensitive_text (env_json_key en) (unwrap_or (qi_visible_input claim) (qi_input claim)) \<noteq> None"
  shows "\<exists>l' rt'. acp_command en started (split_queued_claim (SendQueuedInput claim)) (l, rt) = Some (l', rt')
    \<and> rt_stdin rt' = rt_stdin rt \<and> rt_killed rt' \<and> queued_as claim (rt_queue rt')
    \<and> (\<forall>l2 rt2 en2 started2. rt_chat rt2 = rt_chat rt' \<and> sn_thread_id started2 = sn_thread_id started \<and> env_db en2 = (\<lambda>_. None) \<longrightarrow>
         acp_send_input en2 started2 (Some claim) (qi_input claim) (qi_visible_input claim) ArchcarInputKind.User Auto (l2, rt2)
         = acp_write_input en2 started2 (Some claim) (qi_input claim) (unwrap_or (qi_visible_input claim) (qi_input claim))
             ArchcarInputKind.User Auto (l2, rt2))"
proof -
  let ?shown = "unwrap_or (qi_visible_input claim) (qi_input claim)"
  let ?content = "compose_first_turn_input (al_general l) (qi_input claim) True"
  let ?i = "provider_input_local_id (sn_session_id started) (Suc (al_sequence l))"
  let ?in = "\<lparr>hi_local_input_id = ?i, hi_content = ?content, hi_visible_content = Some ?shown, hi_kind = ArchcarInputKind.User, hi_delivery = Auto\<rparr>"
  obtain rt1 where enq: "enqueue_provider_input en started ?i ?content (Some ?shown) ArchcarInputKind.User Auto
      (pc_native_thread_id (al_conn l)) rt = (Inr (), rt1)"
    by (simp add: enqueue_provider_input_def assms(2))
  let ?rt2 = "update_snapshot (\<lambda>s. note_snapshot_input ?i (mark_session_busy_for_input (env_mono en) s)) rt1"
  have chat2: "rt_chat ?rt2 = rt_chat rt"
    using enq by (auto simp: enqueue_provider_input_def assms(2) with_inputs_def update_snapshot_def split: prod.splits)
  have "persist_runtime_user_input en started ?content (Some ?shown) ArchcarInputKind.User (Suc (al_sequence l)) ?rt2 \<noteq> None"
    using assms(7) by (simp add: persist_runtime_user_input_def format_input_audit_log_def Let_def)
  then obtain rt3 where rt3: "persist_runtime_user_input en started ?content (Some ?shown) ArchcarInputKind.User (Suc (al_sequence l)) ?rt2 = Some rt3"
    by blast
  from encode_accepted [OF assms(1), of ?in] obtain w a where enc: "acp_encode_input ?in (al_adapter l) = (Inr w, a)" by metis
  let ?l4 = "l\<lparr>al_sequence := Suc (al_sequence l), al_adapter := a\<rparr>"
  let ?rt4 = "kill_child (snd (with_inputs (mark_failed (env_now en) ?i err) rt3))"
  obtain l' rt' where gb: "give_back en started (Some claim) (''ACP prompt write failed: '' @ err) (?l4, ?rt4) = (l', rt')" by (metis surj_pair)
  have "acp_prompt en started (Some claim) ?in (l\<lparr>al_sequence := Suc (al_sequence l)\<rparr>, rt3) = (l', rt')"
    using gb by (simp add: acp_prompt_def enc write_stdin_def assms(3))
  then have run: "acp_command en started (split_queued_claim (SendQueuedInput claim)) (l, rt) = Some (l', rt')"
    using assms(1,2,5,6) enq rt3
    by (simp add: acp_send_input_def is_first_turn_def durable_thread_is_first_user_turn_def acp_write_input_def Let_def)
  have stdin: "rt_stdin ?rt4 = rt_stdin rt"
    using enqueue_provider_input_fields(3) [OF enq] persist_fields(3) [OF rt3] by (simp add: runtime_simps)
  note gave = give_back_queue [of en started "Some claim" "''ACP prompt write failed: '' @ err" ?l4 ?rt4, unfolded gb snd_conv]
    give_back_chat [of en started "Some claim" "''ACP prompt write failed: '' @ err" ?l4 ?rt4, unfolded gb snd_conv]
  have "queued_as claim (rt_queue rt')"
    unfolding gave(1) using requeue_failed_queued_handoff_places [of en claim] by (simp add: assms(2))
  moreover have "rt_chat rt' = rt_chat rt3" unfolding gave by (simp add: kill_child_def with_inputs_def case_prod_beta)
  moreover have "keyed cm_id (cs_messages (rt_chat ?rt2))" unfolding chat2 by (rule assms(4))
  ultimately have "\<not> thread_is_first_user_turn (sn_thread_id started) (rt_chat rt')" "queued_as claim (rt_queue rt')"
    using persist_user_input_shows [OF _ rt3] user_message_not_first by auto
  note told = this
  have "rt_stdin rt' = rt_stdin rt" "rt_killed rt'" unfolding gave stdin by (simp_all add: kill_child_def)
  moreover have "acp_send_input en2 started2 (Some claim) (qi_input claim) (qi_visible_input claim) ArchcarInputKind.User Auto (l2, rt2)
      = acp_write_input en2 started2 (Some claim) (qi_input claim) (unwrap_or (qi_visible_input claim) (qi_input claim))
             ArchcarInputKind.User Auto (l2, rt2)"
    if "rt_chat rt2 = rt_chat rt'" "sn_thread_id started2 = sn_thread_id started" "env_db en2 = (\<lambda>_. None)" for l2 rt2 en2 started2
    using that told(1)
    by (simp add: acp_send_input_def is_first_turn_def durable_thread_is_first_user_turn_def compose_first_turn_input_def)
  ultimately show ?thesis using run told(2) by blast
qed

text \<open>
  Inputs put back at the end can change places: row ids are reused once the table is empty, so two inputs
  of a thread claimed one after the other can carry the same id, and when an ending session gives both
  back the one sent later is queued in front of the one sent first.
\<close>

lemma acp_release_can_reverse:
  assumes "al_phase l = Looping" and "acp_waiting l = []" and "rt_queue rt = []" and "env_db en = (\<lambda>_. None)"
  shows "\<exists>first second l' rt'.
      claim_next_queued_chat_input 7 (snd (enqueue_chat_input ''0'' 7 ''first'' None ArchcarInputKind.User ''codex'' [])) = (Some first, [])
    \<and> claim_next_queued_chat_input 7 (snd (enqueue_chat_input ''0'' 7 ''second'' None ArchcarInputKind.User ''codex'' [])) = (Some second, [])
    \<and> acp_loop_run started [AcpArrives (SendQueuedInput first), AcpArrives (SendQueuedInput second), AcpExits en [] code, AcpRelease en]
        (l, rt) = Some (l', rt')
    \<and> map qi_input (list_queued_chat_inputs 7 (rt_queue rt')) = [''second'', ''first'']"
proof -
  have claimed: "claim_next_queued_chat_input 7 (snd (enqueue_chat_input ''0'' 7 input None ArchcarInputKind.User ''codex'' [])) =
      (Some (queue_row 1 input), [])" if "trim input = input" "input \<noteq> []" for input
    using that by (simp add: enqueue_chat_input_def next_row_id_def sql_next_def claim_next_queued_chat_input_def
      peek_next_queued_chat_input_def list_queued_chat_inputs_def queue_row_def delete_where_def Let_def)
  let ?c = "\<lambda>input. split_queued_claim (SendQueuedInput (queue_row 1 input))"
  let ?l1 = "l\<lparr>al_channel := al_channel l @ [SendQueuedInput (queue_row 1 ''first''), SendQueuedInput (queue_row 1 ''second'')], al_phase := Leaving\<rparr>"
  let ?rt1 = "session_exit en started code rt"
  have w: "al_held l = []" "al_channel l = []" using assms(2) by (simp_all add: acp_waiting_def)
  have run: "acp_loop_run started [AcpArrives (SendQueuedInput (queue_row 1 ''first'')), AcpArrives (SendQueuedInput (queue_row 1 ''second'')),
      AcpExits en [] code, AcpRelease en] (l, rt) = Some (release_held_acp_inputs en started (?l1, ?rt1))"
    using assms(1) by (simp add: acp_exit_def)
  have "rt_queue ?rt1 = []" using assms(3) by (simp add: session_exit_def mark_session_process_exited_def update_snapshot_def send_def)
  then have "map qi_input (list_queued_chat_inputs 7 (rt_queue (snd (release_held_acp_inputs en started (?l1, ?rt1))))) = [''second'', ''first'']"
    by (simp add: release_held_acp_inputs_def w requeue_failed_queued_handoff_def assms(4) send_def queue_row_def
      requeue_claimed_chat_input_front_def restore_id_def min_id_def list_queued_chat_inputs_def)
  with run claimed [of "''first''"] claimed [of "''second''"] show ?thesis
    by (intro exI [of _ "queue_row 1 ''first''"] exI [of _ "queue_row 1 ''second''"]
      exI [of _ "fst (release_held_acp_inputs en started (?l1, ?rt1))"] exI [of _ "snd (release_held_acp_inputs en started (?l1, ?rt1))"])
      (simp add: text_simps)
qed

section \<open>The properties at a session\<close>

text \<open>A session whose agent has just been started, over a pipe that takes what is written to it.\<close>

abbreviation demo_env :: env where "demo_env \<equiv> example_env (\<lambda>_. None)"

definition demo_acp :: acp_state where
  "demo_acp = acp_start demo_env example_snapshot example_connection (Inr None)
     (example_runtime\<lparr>rt_snapshot := example_snapshot\<lparr>sn_ready := False\<rparr>\<rparr>)"

lemma demo_acp_fields:
  "al_phase (fst demo_acp) = Looping" "acp_waiting (fst demo_acp) = []" "rt_queue (snd demo_acp) = []"
  "can_accept_prompt (al_adapter (fst demo_acp))" "acp_session_id (al_adapter (fst demo_acp)) = Some ''n''"
  "rt_chat (snd demo_acp) = rt_chat example_runtime" "rt_killed (snd demo_acp) = False" "al_general (fst demo_acp) = None"
  by (simp_all add: demo_acp_def acp_start_def write_stdin_def example_env_def acp_new_def acp_waiting_def example_runtime_def
    can_accept_prompt_def is_established_def example_connection_def runtime_simps append_provider_native_output_def
    append_session_process_output_def send_def Let_def)

definition demo_new_acp :: acp_state where
  "demo_new_acp = acp_start demo_env example_snapshot (example_connection\<lparr>pc_native_thread_id := None\<rparr>) (Inr None)
     (example_runtime\<lparr>rt_snapshot := example_snapshot\<lparr>sn_ready := False\<rparr>\<rparr>)"

text \<open>An agent whose line is the answer \<open>session/new\<close> gets, with a session id or without.\<close>

definition answering_env :: "(string \<times> json) list \<Rightarrow> env" where
  "answering_env result = example_env (\<lambda>_. Some (JObj [(''id'', JInt 2), (''result'', JObj result)]))"

definition demo_client_send :: SessionCommand where
  "demo_client_send = SendInput ''hi'' None ArchcarInputKind.User Immediate"

lemma demo_new_acp_fields: "al_phase (fst demo_new_acp) = Looping" "\<not> is_established (al_adapter (fst demo_new_acp))"
  by (simp_all add: demo_new_acp_def acp_start_def write_stdin_def example_env_def acp_new_def is_established_def Let_def)

theorem acp_claims_accounted_witness:
  "\<exists>l' rt'. acp_loop_run example_snapshot [AcpArrives (SendQueuedInput (example_claim ''hi'')), AcpPollFails demo_env ''gone'', AcpRelease demo_env, AcpReturns]
       demo_acp = Some (l', rt') \<and> queued_as (example_claim ''hi'') (rt_queue rt')"
proof -
  let ?es = "[AcpArrives (SendQueuedInput (example_claim ''hi'')), AcpPollFails demo_env ''gone'', AcpRelease demo_env, AcpReturns]"
  obtain l rt where d: "demo_acp = (l, rt)" by (metis surj_pair)
  have phase: "al_phase l = Looping" using demo_acp_fields(1) by (simp add: d)
  have stdin: "rt_stdin (fold (release_input demo_env example_snapshot) xs rt1) = rt_stdin rt1" for xs rt1
    using release_processes by simp
  obtain l' rt' where run: "acp_loop_run example_snapshot ?es demo_acp = Some (l', rt')" and ended: "al_phase l' = Ended"
    using phase by (simp add: d acp_fail_and_leave_def loop_fail_def release_eq drop_commands_def)
  have requeue: "\<forall>e\<in>set ?es. acp_can_requeue e" by (simp add: example_env_def)
  have steps: "rt_stdin (snd st2) = rt_stdin (snd st1)" if "?es = es1 @ e # es2" "acp_loop_run example_snapshot es1 demo_acp = Some st1"
      "acp_loop_step example_snapshot e st1 = Some st2" for es1 e es2 st1 st2
  proof -
    obtain l1 rt1 where "st1 = (l1, rt1)" by (metis surj_pair)
    moreover have "e \<in> set ?es" unfolding that(1) by simp
    ultimately show ?thesis using that(3) stdin
      by (auto simp: acp_fail_and_leave_def loop_fail_def release_eq runtime_simps split: if_splits)
  qed
  have told: "\<not> (\<exists>es1 e es2 st1 st2 content session_id request_id. ?es = es1 @ e # es2
      \<and> acp_loop_run example_snapshot es1 demo_acp = Some st1 \<and> acp_loop_step example_snapshot e st1 = Some st2
      \<and> suffix (qi_input (example_claim ''hi'')) content
      \<and> rt_stdin (snd st2) = rt_stdin (snd st1) @ [acp_prompt_line session_id request_id content])"
  proof (intro notI, elim exE conjE)
    fix es1 e es2 st1 st2 content session_id request_id
    assume "?es = es1 @ e # es2" "acp_loop_run example_snapshot es1 demo_acp = Some st1"
      "acp_loop_step example_snapshot e st1 = Some st2"
      and sent: "rt_stdin (snd st2) = rt_stdin (snd st1) @ [acp_prompt_line session_id request_id content]"
    from steps [OF this(1-3)] sent show False by simp
  qed
  have "es1 = []" if "?es = es1 @ AcpArrives c # es2" for es1 c es2
    using that by (auto simp: Cons_eq_append_conv)
  then have late: "\<not> (\<exists>es1 es2 st1. ?es = es1 @ AcpArrives (SendQueuedInput (example_claim ''hi'')) # es2
      \<and> acp_loop_run example_snapshot es1 demo_acp = Some st1 \<and> al_phase (fst st1) = Drained)"
  proof (intro notI, elim exE conjE)
    fix es1 es2 st1
    assume first: "\<And>es1 c es2. ?es = es1 @ AcpArrives c # es2 \<Longrightarrow> es1 = []"
      and es: "?es = es1 @ AcpArrives (SendQueuedInput (example_claim ''hi'')) # es2"
      and st1: "acp_loop_run example_snapshot es1 demo_acp = Some st1" "al_phase (fst st1) = Drained"
    from first [OF es] st1 phase show False by (auto simp: d)
  qed
  have "AcpArrives (SendQueuedInput (example_claim ''hi'')) \<in> set ?es" by simp
  from acp_claims_accounted [OF run [unfolded demo_acp_def] requeue this, folded demo_acp_def] told late ended
  have "queued_as (example_claim ''hi'') (rt_queue rt')" by blast
  with run show ?thesis by blast
qed

theorem acp_inputs_in_order_witness:
  "\<exists>l' rt'. acp_loop_step example_snapshot (AcpTake (demo_env\<lparr>env_db := \<lambda>_. Some ''locked''\<rparr>))
       ((fst demo_acp)\<lparr>al_channel := [demo_client_send]\<rparr>, snd demo_acp) = Some (l', rt') \<and> acp_sends l' = []"
proof -
  let ?en = "demo_env\<lparr>env_db := \<lambda>_. Some ''locked''\<rparr>" and ?l = "(fst demo_acp)\<lparr>al_channel := [demo_client_send]\<rparr>"
  have held: "al_held (fst demo_acp) = []" "al_phase (fst demo_acp) = Looping" "can_accept_prompt (al_adapter (fst demo_acp))"
    using demo_acp_fields(1-4) by (simp_all add: acp_waiting_def)
  then obtain l' rt' where step: "acp_loop_step example_snapshot (AcpTake ?en) (?l, snd demo_acp) = Some (l', rt')"
    and sends: "acp_sends ?l = [split_queued_claim demo_client_send]" "acp_sends l' = []"
    by (auto simp: acp_take_def acp_next_def demo_client_send_def acp_send_input_def is_first_turn_def
      durable_thread_is_first_user_turn_def acp_sends_def acp_waiting_def give_back_def loop_fail_def)
  from acp_inputs_in_order [OF step] step sends show ?thesis by auto
qed

end
