(* ===== verification/Projection.thy ===== *)
theory Projection
  imports Provider_Events Redaction "HOL-Library.Product_Lexorder"
begin

text \<open>
  \<open>provider_projection.rs\<close>: the timeline of a chat. Stored events become projection events, those of one
  item are merged under its canonical id, and each becomes a card with a title, a body, a state and, for
  tools, the redacted payload.

  A \<open>HashMap\<close> is a partial map. Redaction may not return (see Redaction), so what redacts is an option
  whose \<open>None\<close> is not returning. Parameters: \<open>key_of\<close> decodes the text of a JSON string for the redactor,
  \<open>content_hash\<close> is the standard library's default hasher, whose algorithm it leaves open.
\<close>

section \<open>Categories, states, render classes\<close>

datatype ProviderProjectionCategory =
    UserMessage | AssistantMessage | Plan | Reasoning | Command | Process | FileRead | FileWrite | FilePatch
  | FileDiff | SearchOutput | McpTool | NativeTool | Skill | Plugin | Hook | Subagent | NestedTranscript
  | BackgroundTerminal | BackgroundTask | Approval | Question | Web | Image | Usage | Cost | Context
  | RateLimit | Error | Status | Unknown

datatype ProviderProjectionStatus = Pending | Running | Complete | Failed | Canceled

datatype ProviderProjectionStreamState = Snapshot | Streaming | Complete

datatype ProjectionRenderClass =
    UserChat | AssistantChat | PlanCard | ReasoningCard | CommandCard | ProcessCard | FileCard | DiffCard
  | ToolCard | SkillCard | PluginCard | HookCard | SubagentCard | NestedTranscriptCard | BackgroundCard
  | PromptCard | WebCard | ImageCard | UsageCard | WarningCard | ErrorCard | StatusCard | FallbackCard

fun projection_status_str :: "ProviderProjectionStatus \<Rightarrow> string" where
  "projection_status_str Pending = ''pending''"
| "projection_status_str Running = ''running''"
| "projection_status_str ProviderProjectionStatus.Complete = ''complete''"
| "projection_status_str Failed = ''failed''"
| "projection_status_str Canceled = ''canceled''"

fun stream_state_str :: "ProviderProjectionStreamState \<Rightarrow> string" where
  "stream_state_str Snapshot = ''snapshot''"
| "stream_state_str Streaming = ''streaming''"
| "stream_state_str ProviderProjectionStreamState.Complete = ''complete''"

fun render_class_str :: "ProjectionRenderClass \<Rightarrow> string" where
  "render_class_str UserChat = ''user_chat''"
| "render_class_str AssistantChat = ''assistant_chat''"
| "render_class_str PlanCard = ''plan_card''"
| "render_class_str ReasoningCard = ''reasoning_card''"
| "render_class_str CommandCard = ''command_card''"
| "render_class_str ProcessCard = ''process_card''"
| "render_class_str FileCard = ''file_card''"
| "render_class_str DiffCard = ''diff_card''"
| "render_class_str ToolCard = ''tool_card''"
| "render_class_str SkillCard = ''skill_card''"
| "render_class_str PluginCard = ''plugin_card''"
| "render_class_str HookCard = ''hook_card''"
| "render_class_str SubagentCard = ''subagent_card''"
| "render_class_str NestedTranscriptCard = ''nested_transcript_card''"
| "render_class_str BackgroundCard = ''background_card''"
| "render_class_str PromptCard = ''prompt_card''"
| "render_class_str WebCard = ''web_card''"
| "render_class_str ImageCard = ''image_card''"
| "render_class_str UsageCard = ''usage_card''"
| "render_class_str WarningCard = ''warning_card''"
| "render_class_str ErrorCard = ''error_card''"
| "render_class_str StatusCard = ''status_card''"
| "render_class_str FallbackCard = ''fallback_card''"

fun role_label :: "ProjectionRenderClass \<Rightarrow> string" where
  "role_label UserChat = ''user''"
| "role_label AssistantChat = ''assistant''"
| "role_label PlanCard = ''plan''"
| "role_label ReasoningCard = ''reasoning''"
| "role_label CommandCard = ''command''"
| "role_label ProcessCard = ''process''"
| "role_label FileCard = ''file''"
| "role_label DiffCard = ''diff''"
| "role_label ToolCard = ''tool''"
| "role_label SkillCard = ''skill''"
| "role_label PluginCard = ''plugin''"
| "role_label HookCard = ''hook''"
| "role_label SubagentCard = ''subagent''"
| "role_label NestedTranscriptCard = ''nested''"
| "role_label BackgroundCard = ''background''"
| "role_label PromptCard = ''prompt''"
| "role_label WebCard = ''web''"
| "role_label ImageCard = ''image''"
| "role_label UsageCard = ''usage''"
| "role_label WarningCard = ''warning''"
| "role_label ErrorCard = ''error''"
| "role_label StatusCard = ''status''"
| "role_label FallbackCard = ''unknown''"

definition BACKGROUND_AGENT_TASK_SUBTYPE :: string where
  "BACKGROUND_AGENT_TASK_SUBTYPE = ''background_task:agent''"

section \<open>Images\<close>

record ProjectionImage =
  im_media_type :: string
  im_bytes :: nat

text \<open>The media type and the base64 data of every image block, in document order.\<close>

fun collect_image_blocks :: "json \<Rightarrow> (string \<times> string) list"
  and collect_in_values :: "json list \<Rightarrow> (string \<times> string) list"
  and collect_in_entries :: "(string \<times> json) list \<Rightarrow> (string \<times> string) list" where
  "collect_image_blocks (JObj entries) =
     (case (if Option.bind (map_of entries ''type'') as_str = Some ''image''
            then string_at (JObj entries) [''source'', ''data''] else None) of
        Some data \<Rightarrow> [(unwrap_or (string_at (JObj entries) [''source'', ''media_type'']) ''image/png'', data)]
      | None \<Rightarrow> collect_in_entries entries)"
| "collect_image_blocks (JArr values) = collect_in_values values"
| "collect_image_blocks _ = []"
| "collect_in_values [] = []"
| "collect_in_values (v # vs) = collect_image_blocks v @ collect_in_values vs"
| "collect_in_entries [] = []"
| "collect_in_entries ((_, v) # kvs) = collect_image_blocks v @ collect_in_entries kvs"

text \<open>The subtraction is on \<open>usize\<close>: it wraps around where the padding is longer than the data.\<close>

definition base64_decoded_len :: "string \<Rightarrow> nat" where
  "base64_decoded_len data =
     (let trimmed = trim_end data; padding = length (takeWhile (\<lambda>b. b = CHR ''='') (rev trimmed))
      in (length trimmed div 4 * 3 + 2 ^ 64 - min padding 2) mod 2 ^ 64)"

definition projection_images :: "json \<Rightarrow> ProjectionImage list" where
  "projection_images v = map (\<lambda>(media_type, data).
     \<lparr>im_media_type = media_type, im_bytes = base64_decoded_len data\<rparr>) (collect_image_blocks v)"

definition projection_image_data :: "json \<Rightarrow> nat \<Rightarrow> (string \<times> string) option" where
  "projection_image_data v index = (let found = collect_image_blocks v
     in if index < length found then Some (found ! index) else None)"

section \<open>Events and items\<close>

record ProviderProjectionEvent =
  pe_canonical_id :: string
  pe_sequence :: nat
  pe_timeline_seq :: "int option"
  pe_category :: ProviderProjectionCategory
  pe_title :: string
  pe_body :: string
  pe_status :: ProviderProjectionStatus
  pe_stream_state :: ProviderProjectionStreamState
  pe_parent_id :: "string option"
  pe_nested_thread_id :: "string option"
  pe_raw_payload :: "json option"
  pe_images :: "ProjectionImage list"
  pe_background_agent :: bool

record ProviderProjectionItem =
  pi_id :: string
  pi_sequence :: nat
  pi_timeline_seq :: "int option"
  pi_category :: ProviderProjectionCategory
  pi_render_class :: ProjectionRenderClass
  pi_title :: string
  pi_body :: string
  pi_status :: ProviderProjectionStatus
  pi_stream_state :: ProviderProjectionStreamState
  pi_parent_id :: "string option"
  pi_nested_thread_id :: "string option"
  pi_raw_payload :: "string option"
  pi_inspectable :: bool
  pi_images :: "ProjectionImage list"
  pi_background_agent :: bool

record ProviderProjectionItemSignature =
  is_id :: string
  is_category :: ProviderProjectionCategory
  is_render_class :: ProjectionRenderClass
  is_status :: ProviderProjectionStatus
  is_stream_state :: ProviderProjectionStreamState
  is_parent_id :: "string option"
  is_nested_thread_id :: "string option"
  is_content_hash :: nat

record ProviderProjectionSignature =
  ps_item_ids :: "string list"
  ps_items :: "ProviderProjectionItemSignature list"

record ProviderProjection =
  pp_items :: "ProviderProjectionItem list"
  pp_signature :: ProviderProjectionSignature

section \<open>From a record to an event\<close>

definition subtype_contains_any :: "string \<Rightarrow> string list \<Rightarrow> bool" where
  "subtype_contains_any subtype needles \<longleftrightarrow> list_ex (contains_str subtype) needles"

fun category_for :: "ProviderEventKind \<Rightarrow> string \<Rightarrow> ProviderProjectionCategory" where
  "category_for UserInput subtype = UserMessage"
| "category_for AssistantOutput subtype = AssistantMessage"
| "category_for PlanningReasoning subtype = (if contains_str subtype ''plan'' then Plan else Reasoning)"
| "category_for CommandProcess subtype =
     (if subtype_contains_any subtype [''process/'', ''local_shell_call''] then Process else Command)"
| "category_for TerminalRuntime subtype = BackgroundTerminal"
| "category_for FileSystem subtype =
     (if subtype_contains_any subtype [''write'', ''create''] then FileWrite
      else if subtype_contains_any subtype [''patch'', ''edit''] then FilePatch else FileRead)"
| "category_for DiffFileChange subtype = FileDiff"
| "category_for Tool subtype = NativeTool"
| "category_for Mcp subtype = McpTool"
| "category_for SkillPluginHook subtype =
     (if contains_str subtype ''plugin'' then Plugin else if contains_str subtype ''hook'' then Hook else Skill)"
| "category_for ApprovalPermission subtype = Approval"
| "category_for SubagentCollaboration subtype =
     (if contains_str subtype ''nested_transcript'' then NestedTranscript else Subagent)"
| "category_for WebBrowserMedia subtype =
     (if subtype_contains_any subtype [''tool_search'', ''search_output''] then SearchOutput
      else if contains_str subtype ''image_note'' then Status
      else if subtype_contains_any subtype [''image'', ''media''] then Image else Web)"
| "category_for LimitFailure subtype =
     (if subtype_contains_any subtype [''rate'', ''limit''] then RateLimit
      else if contains_str subtype ''usage'' then Usage else Error)"
| "category_for GoalTask subtype = (if contains_str subtype ''background_task'' then BackgroundTask else Status)"
| "category_for ThreadSession subtype = Status"
| "category_for Turn subtype = Status"
| "category_for AccountAuth subtype = Status"
| "category_for EnvironmentConfigModel subtype = Status"
| "category_for ProviderEventKind.Unknown subtype = ProviderProjectionCategory.Unknown"

definition provider_projection_category :: "ProviderEventKind \<Rightarrow> string option \<Rightarrow> ProviderProjectionCategory" where
  "provider_projection_category kind provider_subtype =
     category_for kind (to_ascii_lowercase (trim (unwrap_or provider_subtype [])))"

definition provider_projection_category_uses_raw_payload :: "ProviderProjectionCategory \<Rightarrow> bool" where
  "provider_projection_category_uses_raw_payload c \<longleftrightarrow> c \<in> {Command, Process, FileRead, FileWrite,
     FilePatch, FileDiff, SearchOutput, McpTool, NativeTool, Skill, Plugin, Hook, Subagent, NestedTranscript,
     BackgroundTerminal, BackgroundTask, Approval, Question, Web, Image, RateLimit, Error,
     ProviderProjectionCategory.Unknown}"

fun provider_projection_status :: "ProviderEventPhase \<Rightarrow> ProviderProjectionStatus" where
  "provider_projection_status ProviderEventPhase.Started = Running"
| "provider_projection_status ProviderEventPhase.Progress = Running"
| "provider_projection_status ProviderEventPhase.Delta = Running"
| "provider_projection_status ProviderEventPhase.Completed = ProviderProjectionStatus.Complete"
| "provider_projection_status ProviderEventPhase.Failed = Failed"
| "provider_projection_status ProviderEventPhase.Declined = Canceled"
| "provider_projection_status ProviderEventPhase.Interrupted = Canceled"
| "provider_projection_status ProviderEventPhase.Unknown = Pending"

fun provider_projection_stream_state :: "ProviderEventPhase \<Rightarrow> ProviderProjectionStreamState" where
  "provider_projection_stream_state ProviderEventPhase.Started = Streaming"
| "provider_projection_stream_state ProviderEventPhase.Progress = Streaming"
| "provider_projection_stream_state ProviderEventPhase.Delta = Streaming"
| "provider_projection_stream_state ProviderEventPhase.Completed = ProviderProjectionStreamState.Complete"
| "provider_projection_stream_state ProviderEventPhase.Failed = ProviderProjectionStreamState.Complete"
| "provider_projection_stream_state ProviderEventPhase.Declined = ProviderProjectionStreamState.Complete"
| "provider_projection_stream_state ProviderEventPhase.Interrupted = ProviderProjectionStreamState.Complete"
| "provider_projection_stream_state ProviderEventPhase.Unknown = Snapshot"

definition provider_projection_canonical_id :: "ProviderEventRecord \<Rightarrow> string" where
  "provider_projection_canonical_id r =
     (let thread_id = unwrap_or (or_else (er_provider_thread_id r) (er_parent_provider_thread_id r)) ''-'';
          under = er_provider r @ '':'' @ thread_id
      in case (if er_kind r = ProviderEventKind.Turn then er_provider_turn_id r else None) of
        Some turn_id \<Rightarrow> under @ '':turn:'' @ turn_id
      | None \<Rightarrow> (case er_provider_item_id r of
          Some item_id \<Rightarrow> under @ '':'' @ item_id
        | None \<Rightarrow> (case er_provider_event_id r of
            Some event_id \<Rightarrow> under @ '':event:'' @ event_id
          | None \<Rightarrow> er_identity_key r)))"

definition provider_projection_parent_id :: "ProviderEventRecord \<Rightarrow> string option" where
  "provider_projection_parent_id r = map_option (\<lambda>parent.
     er_provider r @ '':'' @ unwrap_or (or_else (er_parent_provider_thread_id r) (er_provider_thread_id r)) ''-''
     @ '':'' @ parent) (er_parent_provider_item_id r)"

section \<open>How long a turn took\<close>

definition provider_projection_record_sequence :: "ProviderEventRecord \<Rightarrow> nat" where
  "provider_projection_record_sequence r = nat (unwrap_or (er_provider_sequence r) (er_received_sequence r))"

definition provider_projection_record_order :: "ProviderEventRecord \<Rightarrow> nat \<times> string" where
  "provider_projection_record_order r = (provider_projection_record_sequence r, provider_projection_canonical_id r)"

definition provider_event_phase_is_active :: "ProviderEventPhase \<Rightarrow> bool" where
  "provider_event_phase_is_active phase \<longleftrightarrow> phase \<in> {ProviderEventPhase.Started, ProviderEventPhase.Delta, ProviderEventPhase.Progress}"

definition provider_event_phase_is_terminal :: "ProviderEventPhase \<Rightarrow> bool" where
  "provider_event_phase_is_terminal phase \<longleftrightarrow> phase \<in> {ProviderEventPhase.Completed, ProviderEventPhase.Failed, ProviderEventPhase.Declined, ProviderEventPhase.Interrupted}"

text \<open>One turn record: where a turn started first, and how long after that it ended last.\<close>

definition turn_duration_step ::
    "ProviderEventRecord \<Rightarrow> (string \<rightharpoonup> nat) \<times> (string \<rightharpoonup> nat) \<Rightarrow> (string \<rightharpoonup> nat) \<times> (string \<rightharpoonup> nat)" where
  "turn_duration_step r = (\<lambda>(starts, durations).
     let key = provider_projection_canonical_id r; at = nat (er_occurred_at_ms r)
     in if provider_event_phase_is_active (er_phase r)
        then (starts(key \<mapsto> (case starts key of None \<Rightarrow> at | Some started_at \<Rightarrow> min started_at at)), durations)
        else if provider_event_phase_is_terminal (er_phase r)
        then (case starts key of
            Some started_at \<Rightarrow> (starts, durations(key \<mapsto> at - started_at))
          | None \<Rightarrow> (starts, durations))
        else (starts, durations))"

definition provider_turn_durations :: "ProviderEventRecord list \<Rightarrow> string \<rightharpoonup> nat" where
  "provider_turn_durations records = snd (fold turn_duration_step
     (sort_key provider_projection_record_order (filter (\<lambda>r. er_kind r = ProviderEventKind.Turn) records))
     (Map.empty, Map.empty))"

fun provider_turn_terminal_label :: "ProviderEventPhase \<Rightarrow> string" where
  "provider_turn_terminal_label ProviderEventPhase.Failed = ''Failed''"
| "provider_turn_terminal_label ProviderEventPhase.Declined = ''Declined''"
| "provider_turn_terminal_label ProviderEventPhase.Interrupted = ''Interrupted''"
| "provider_turn_terminal_label _ = ''Completed''"

text \<open>
  \<open>f64\<close> arithmetic, exactly: the quotient of two numbers rounded to 53 bits, half to even, as a
  mantissa over a power of two; \<open>{:.1}\<close> prints the value held, rounded to a tenth, half to even.
\<close>

definition round_half_even :: "nat \<Rightarrow> nat \<Rightarrow> nat" where
  "round_half_even a b = (let q = a div b; r = a mod b
     in if b < 2 * r \<or> (b = 2 * r \<and> odd q) then q + 1 else q)"

definition one_decimal :: "nat \<Rightarrow> nat \<Rightarrow> string" where
  "one_decimal mantissa denominator = (let tenths = round_half_even (10 * mantissa) denominator
     in show_nat (tenths div 10) @ ''.'' @ show_nat (tenths mod 10))"

fun bit_length :: "nat \<Rightarrow> nat" where
  "bit_length n = (if n = 0 then 0 else Suc (bit_length (n div 2)))"

declare bit_length.simps [simp del]

text \<open>\<open>seconds\<close> is between 1 and 60, so its exponent is that of its whole part.\<close>

definition seconds_one_decimal :: "nat \<Rightarrow> string" where
  "seconds_one_decimal duration_ms = (let d = 2 ^ (53 - bit_length (duration_ms div 1000))
     in one_decimal (round_half_even (duration_ms * d) 1000) d)"

definition padded2 :: "nat \<Rightarrow> string" where
  "padded2 n = (if n < 10 then ''0'' @ show_nat n else show_nat n)"

definition format_provider_turn_duration :: "nat \<Rightarrow> string" where
  "format_provider_turn_duration duration_ms =
     (if duration_ms < 1000 then show_nat duration_ms @ ''ms''
      else if duration_ms < 60000 then seconds_one_decimal duration_ms @ ''s''
      else (let total_seconds = duration_ms div 1000
        in show_nat (total_seconds div 60) @ ''m '' @ padded2 (total_seconds mod 60) @ ''s''))"

definition provider_projection_record_body :: "ProviderEventRecord \<Rightarrow> nat option \<Rightarrow> string" where
  "provider_projection_record_body r turn_duration_ms =
     (case (if er_kind r = ProviderEventKind.Turn \<and> provider_event_phase_is_terminal (er_phase r)
            then turn_duration_ms else None) of
        Some duration_ms \<Rightarrow>
          provider_turn_terminal_label (er_phase r) @ '' in '' @ format_provider_turn_duration duration_ms
      | None \<Rightarrow> unwrap_or (Option.bind (or_else (jget (er_normalized_payload r) ''body'')
          (jget (er_normalized_payload r) ''text'')) as_str) [])"

definition provider_projection_event_from_record :: "ProviderEventRecord \<Rightarrow> nat option \<Rightarrow> ProviderProjectionEvent" where
  "provider_projection_event_from_record r turn_duration_ms =
     (let category = provider_projection_category (er_kind r) (er_provider_subtype r)
      in \<lparr>pe_canonical_id = provider_projection_canonical_id r,
          pe_sequence = nat (er_received_sequence r),
          pe_timeline_seq = er_timeline_seq r,
          pe_category = category,
          pe_title = unwrap_or (Option.bind (jget (er_normalized_payload r) ''title'') as_str) [],
          pe_body = provider_projection_record_body r turn_duration_ms,
          pe_status = provider_projection_status (er_phase r),
          pe_stream_state = provider_projection_stream_state (er_phase r),
          pe_parent_id = provider_projection_parent_id r,
          pe_nested_thread_id = er_parent_provider_thread_id r,
          pe_raw_payload = (if provider_projection_category_uses_raw_payload category
            then Some (er_raw_json r) else None),
          pe_images = projection_images (er_raw_json r),
          pe_background_agent = (er_provider_subtype r = Some BACKGROUND_AGENT_TASK_SUBTYPE)\<rparr>)"

section \<open>From an event to an item\<close>

fun render_class_for_category :: "ProviderProjectionCategory \<Rightarrow> ProjectionRenderClass" where
  "render_class_for_category UserMessage = UserChat"
| "render_class_for_category AssistantMessage = AssistantChat"
| "render_class_for_category Plan = PlanCard"
| "render_class_for_category Reasoning = ReasoningCard"
| "render_class_for_category Command = CommandCard"
| "render_class_for_category Process = ProcessCard"
| "render_class_for_category FileRead = FileCard"
| "render_class_for_category FileWrite = FileCard"
| "render_class_for_category FilePatch = FileCard"
| "render_class_for_category FileDiff = DiffCard"
| "render_class_for_category SearchOutput = ToolCard"
| "render_class_for_category McpTool = ToolCard"
| "render_class_for_category NativeTool = ToolCard"
| "render_class_for_category Skill = SkillCard"
| "render_class_for_category Plugin = PluginCard"
| "render_class_for_category Hook = HookCard"
| "render_class_for_category Subagent = SubagentCard"
| "render_class_for_category NestedTranscript = NestedTranscriptCard"
| "render_class_for_category BackgroundTerminal = BackgroundCard"
| "render_class_for_category BackgroundTask = BackgroundCard"
| "render_class_for_category Approval = PromptCard"
| "render_class_for_category Question = PromptCard"
| "render_class_for_category Web = WebCard"
| "render_class_for_category Image = ImageCard"
| "render_class_for_category Usage = UsageCard"
| "render_class_for_category Cost = UsageCard"
| "render_class_for_category Context = UsageCard"
| "render_class_for_category RateLimit = WarningCard"
| "render_class_for_category Error = ErrorCard"
| "render_class_for_category Status = StatusCard"
| "render_class_for_category ProviderProjectionCategory.Unknown = FallbackCard"

fun default_title :: "ProviderProjectionCategory \<Rightarrow> string" where
  "default_title UserMessage = ''User''"
| "default_title AssistantMessage = ''Assistant''"
| "default_title Plan = ''Plan''"
| "default_title Reasoning = ''Reasoning''"
| "default_title Command = ''Command''"
| "default_title Process = ''Process''"
| "default_title FileRead = ''File read''"
| "default_title FileWrite = ''File write''"
| "default_title FilePatch = ''Patch''"
| "default_title FileDiff = ''Diff''"
| "default_title SearchOutput = ''Search output''"
| "default_title McpTool = ''MCP tool''"
| "default_title NativeTool = ''Native tool''"
| "default_title Skill = ''Skill''"
| "default_title Plugin = ''Plugin''"
| "default_title Hook = ''Hook''"
| "default_title Subagent = ''Subagent''"
| "default_title NestedTranscript = ''Nested transcript''"
| "default_title BackgroundTerminal = ''Background terminal''"
| "default_title BackgroundTask = ''Background task''"
| "default_title Approval = ''Approval''"
| "default_title Question = ''Question''"
| "default_title Web = ''Web''"
| "default_title Image = ''Image''"
| "default_title Usage = ''Usage''"
| "default_title Cost = ''Cost''"
| "default_title Context = ''Context''"
| "default_title RateLimit = ''Rate limit''"
| "default_title Error = ''Error''"
| "default_title Status = ''Status''"
| "default_title ProviderProjectionCategory.Unknown = ''Unknown provider event''"

definition projection_title :: "ProviderProjectionCategory \<Rightarrow> string \<Rightarrow> string" where
  "projection_title c title = (if trim title \<noteq> [] then trim title else default_title c)"

definition canonical_projection_id :: "ProviderProjectionEvent \<Rightarrow> string" where
  "canonical_projection_id e = (let id = trim (pe_canonical_id e)
     in if id = [] then ''missing-canonical-id-'' @ show_nat (pe_sequence e) else id)"

definition secret_like_key :: "string \<Rightarrow> bool" where
  "secret_like_key key0 \<longleftrightarrow>
     (let key = to_ascii_lowercase (map (\<lambda>c. if c = CHR ''-'' \<or> c = CHR ''.'' then CHR ''_'' else c) (trim key0))
      in list_ex (contains_str key) [''token'', ''secret'', ''password'', ''api_key'', ''apikey'', ''access_key'',
           ''private_key'', ''credential'']
         \<or> key = ''auth'' \<or> suffix ''_auth'' key
         \<or> key \<in> {''authorization'', ''proxy_authorization'', ''www_authorization'', ''authorization_header'',
             ''auth_header'', ''bearer''})"

text \<open>\<open>None\<close>: redacting one of the texts does not return.\<close>

fun redact_json_value :: "(string \<Rightarrow> string option) \<Rightarrow> json \<Rightarrow> json option"
  and redact_values :: "(string \<Rightarrow> string option) \<Rightarrow> json list \<Rightarrow> json list option"
  and redact_entries :: "(string \<Rightarrow> string option) \<Rightarrow> (string \<times> json) list \<Rightarrow> (string \<times> json) list option" where
  "redact_json_value key_of (JObj entries) = map_option JObj (redact_entries key_of entries)"
| "redact_json_value key_of (JArr values) = map_option JArr (redact_values key_of values)"
| "redact_json_value key_of (JStr s) = map_option JStr (redact_sensitive_text key_of s)"
| "redact_json_value key_of other = Some other"
| "redact_values key_of [] = Some []"
| "redact_values key_of (v # vs) = (case redact_json_value key_of v of None \<Rightarrow> None
     | Some w \<Rightarrow> map_option (Cons w) (redact_values key_of vs))"
| "redact_entries key_of [] = Some []"
| "redact_entries key_of ((key, v) # kvs) =
     (case (if secret_like_key key then Some (JStr ''[redacted]'') else redact_json_value key_of v) of None \<Rightarrow> None
      | Some w \<Rightarrow> map_option (Cons (key, w)) (redact_entries key_of kvs))"

definition redacted_payload_display :: "(string \<Rightarrow> string option) \<Rightarrow> json \<Rightarrow> string option" where
  "redacted_payload_display key_of payload = map_option (json_pretty 0) (redact_json_value key_of payload)"

definition always_inspectable :: "ProjectionRenderClass \<Rightarrow> bool" where
  "always_inspectable c \<longleftrightarrow> c \<in> {FallbackCard, ToolCard, CommandCard, FileCard, DiffCard, SubagentCard,
     NestedTranscriptCard}"

definition projection_item_from_event ::
    "(string \<Rightarrow> string option) \<Rightarrow> string \<Rightarrow> ProviderProjectionEvent \<Rightarrow> ProviderProjectionItem option" where
  "projection_item_from_event key_of item_id e =
     (let render_class = render_class_for_category (pe_category e);
          titled = pe_category e = Reasoning \<and> trim (pe_body e) = [] \<and> trim (pe_title e) \<noteq> []
            \<and> trim (pe_title e) \<noteq> ''Reasoning'';
          body = (if titled then pe_title e else pe_body e);
          title_source = (if titled then [] else pe_title e)
      in map_option (\<lambda>display.
           let raw_payload = (case display of Some payload \<Rightarrow> if trim payload = [] then None else Some payload
                 | None \<Rightarrow> None)
           in \<lparr>pi_id = item_id, pi_sequence = pe_sequence e, pi_timeline_seq = pe_timeline_seq e,
               pi_category = pe_category e, pi_render_class = render_class,
               pi_title = projection_title (pe_category e) title_source, pi_body = body,
               pi_status = pe_status e, pi_stream_state = pe_stream_state e, pi_parent_id = pe_parent_id e,
               pi_nested_thread_id = pe_nested_thread_id e, pi_raw_payload = raw_payload,
               pi_inspectable = (raw_payload \<noteq> None \<or> always_inspectable render_class),
               pi_images = pe_images e, pi_background_agent = pe_background_agent e\<rparr>)
         (case pe_raw_payload e of None \<Rightarrow> Some None
          | Some payload \<Rightarrow> map_option Some (redacted_payload_display key_of payload)))"

section \<open>The projection\<close>

definition projection_item_signature :: "(ProviderProjectionItem \<Rightarrow> nat) \<Rightarrow> ProviderProjectionItem \<Rightarrow> ProviderProjectionItemSignature" where
  "projection_item_signature content_hash i =
     \<lparr>is_id = pi_id i, is_category = pi_category i, is_render_class = pi_render_class i, is_status = pi_status i,
      is_stream_state = pi_stream_state i, is_parent_id = pi_parent_id i, is_nested_thread_id = pi_nested_thread_id i,
      is_content_hash = content_hash i\<rparr>"

text \<open>The hash is of the title, the body, the payload and the images, in this order.\<close>

definition projection_item_content_hash ::
    "(string \<times> string \<times> string option \<times> ProjectionImage list \<Rightarrow> nat) \<Rightarrow> ProviderProjectionItem \<Rightarrow> nat" where
  "projection_item_content_hash hash i = hash (pi_title i, pi_body i, pi_raw_payload i, pi_images i)"

definition projection_signature ::
    "(string \<times> string \<times> string option \<times> ProjectionImage list \<Rightarrow> nat) \<Rightarrow> ProviderProjectionItem list \<Rightarrow>
     ProviderProjectionSignature" where
  "projection_signature hash items =
     \<lparr>ps_item_ids = map pi_id items,
      ps_items = map (projection_item_signature (projection_item_content_hash hash)) items\<rparr>"

definition event_order :: "ProviderProjectionEvent \<Rightarrow> nat \<times> string" where
  "event_order e = (pe_sequence e, pe_canonical_id e)"

definition item_order :: "ProviderProjectionItem \<Rightarrow> nat \<times> string" where
  "item_order i = (pi_sequence i, pi_id i)"

text \<open>An event for an item that is there already: what the newer card takes over from the older one.\<close>

definition merge_item :: "ProviderProjectionItem \<Rightarrow> ProviderProjectionItem \<Rightarrow> ProviderProjectionItem" where
  "merge_item there item =
     (let body = (if trim (pi_body item) = [] \<and> trim (pi_body there) \<noteq> [] then pi_body there else pi_body item);
          images = (if pi_images item = [] then pi_images there else pi_images item)
      in item\<lparr>pi_body := body, pi_images := images, pi_sequence := pi_sequence there,
           pi_timeline_seq := or_else (pi_timeline_seq there) (pi_timeline_seq item),
           pi_background_agent := (pi_background_agent there \<or> pi_background_agent item)\<rparr>)"

type_synonym projecting = "ProviderProjectionItem list \<times> (string \<rightharpoonup> nat)"

definition project_event ::
    "(string \<Rightarrow> string option) \<Rightarrow> ProviderProjectionEvent \<Rightarrow> projecting option \<Rightarrow> projecting option" where
  "project_event key_of e st =
     (case st of None \<Rightarrow> None
      | Some (items, positions) \<Rightarrow>
          (let id = canonical_projection_id e
           in map_option (\<lambda>item. case positions id of
               Some index \<Rightarrow> (items[index := merge_item (items ! index) item], positions)
             | None \<Rightarrow> (items @ [item], positions(id \<mapsto> length items)))
           (projection_item_from_event key_of id e)))"

definition render_provider_event_projection ::
    "(string \<Rightarrow> string option) \<Rightarrow> (string \<times> string \<times> string option \<times> ProjectionImage list \<Rightarrow> nat) \<Rightarrow>
     ProviderProjectionEvent list \<Rightarrow> ProviderProjection option" where
  "render_provider_event_projection key_of hash events =
     map_option (\<lambda>(items, _). let sorted = sort_key item_order items
         in \<lparr>pp_items = sorted, pp_signature = projection_signature hash sorted\<rparr>)
       (fold (project_event key_of) (sort_key event_order events) (Some ([], Map.empty)))"

definition provider_projection_from_records ::
    "(string \<Rightarrow> string option) \<Rightarrow> (string \<times> string \<times> string option \<times> ProjectionImage list \<Rightarrow> nat) \<Rightarrow>
     ProviderEventRecord list \<Rightarrow> ProviderProjection option" where
  "provider_projection_from_records key_of hash records =
     (let turn_durations = provider_turn_durations records
      in render_provider_event_projection key_of hash (map (\<lambda>r. provider_projection_event_from_record r
           (turn_durations (provider_projection_canonical_id r))) records))"

section \<open>What a client shows of it\<close>

fun drop_echoed_from :: "string list \<Rightarrow> ProviderProjectionItem list \<Rightarrow> ProviderProjectionItem list" where
  "drop_echoed_from turn_user_bodies [] = []"
| "drop_echoed_from turn_user_bodies (i # is) =
     (if pi_render_class i = UserChat then
        (let body = trim (pi_body i)
         in if body \<noteq> [] \<and> body \<in> set turn_user_bodies then drop_echoed_from turn_user_bodies is
            else i # drop_echoed_from (turn_user_bodies @ [body]) is)
      else if pi_render_class i = AssistantChat then i # drop_echoed_from [] is
      else i # drop_echoed_from turn_user_bodies is)"

definition drop_echoed_user_messages :: "ProviderProjectionItem list \<Rightarrow> ProviderProjectionItem list" where
  "drop_echoed_user_messages items = drop_echoed_from [] items"

definition provider_projection_item_is_parser_noise :: "ProviderProjectionItem \<Rightarrow> bool" where
  "provider_projection_item_is_parser_noise i \<longleftrightarrow> pi_category i = Skill \<or> pi_category i = FileDiff
     \<or> (pi_category i = McpTool \<and> (trim (pi_title i) = ''MCP loading'' \<or> trim (pi_title i) = ''MCP loaded''))"

definition provider_projection_item_is_relevant_chat_event :: "ProviderProjectionItem \<Rightarrow> bool" where
  "provider_projection_item_is_relevant_chat_event i \<longleftrightarrow>
     \<not> provider_projection_item_is_parser_noise i
     \<and> (case pi_render_class i of
          FallbackCard \<Rightarrow> False
        | StatusCard \<Rightarrow> pi_status i = Failed \<or> pi_status i = Canceled
            \<or> (pi_title i = ''Turn'' \<and> trim (pi_body i) \<noteq> [])
        | AssistantChat \<Rightarrow> trim (pi_body i) \<noteq> []
        | ReasoningCard \<Rightarrow> trim (pi_body i) \<noteq> []
        | NestedTranscriptCard \<Rightarrow> trim (pi_body i) \<noteq> []
        | _ \<Rightarrow> True)"

definition provider_projection_item_is_pending_interaction_event :: "ProviderProjectionItem \<Rightarrow> bool" where
  "provider_projection_item_is_pending_interaction_event i \<longleftrightarrow>
     (pi_category i = Approval \<or> pi_category i = Question) \<and> (pi_status i = Pending \<or> pi_status i = Running)"

definition provider_projection_item_text :: "ProviderProjectionItem \<Rightarrow> string" where
  "provider_projection_item_text i =
     (if pi_render_class i = UserChat \<or> pi_render_class i = AssistantChat then pi_body i
      else if trim (pi_body i) \<noteq> []
      then pi_title i @ (if pi_title i = [] then [] else [CHR 0x0A]) @ pi_body i else pi_title i)"

end
