(* ===== verification/Projection_Facts.thy ===== *)
theory Projection_Facts
  imports Projection
begin

text \<open>
  What the projection of \<open>provider_projection.rs\<close> promises: one card an item, in the order of the first event of
  each, with the latest state and the last text and images there were; an order that does not depend on how
  the events arrive; a payload that shows nothing of what stands under the name of a secret. And what dropping the
  echoes of a user's messages drops besides.
\<close>

section \<open>One card an item\<close>

text \<open>The reference: the cards of one id, merged one after the other.\<close>

definition card_of :: "(string \<Rightarrow> string option) \<Rightarrow> ProviderProjectionEvent \<Rightarrow> ProviderProjectionItem option" where
  "card_of key_of e = projection_item_from_event key_of (canonical_projection_id e) e"

definition events_of :: "string \<Rightarrow> ProviderProjectionEvent list \<Rightarrow> ProviderProjectionEvent list" where
  "events_of item_id es = filter (\<lambda>e. canonical_projection_id e = item_id) es"

definition merge_all :: "ProviderProjectionItem list \<Rightarrow> ProviderProjectionItem" where
  "merge_all cards = foldl merge_item (hd cards) (tl cards)"

lemma merge_all_single [simp]: "merge_all [c] = c"
  by (simp add: merge_all_def)

lemma merge_all_snoc: "cards \<noteq> [] \<Longrightarrow> merge_all (cards @ [c]) = merge_item (merge_all cards) c"
  by (cases cards) (simp_all add: merge_all_def)

lemma card_fields:
  assumes "card_of key_of e = Some i"
  shows "pi_id i = canonical_projection_id e" "pi_sequence i = pe_sequence e" "pi_status i = pe_status e"
    "pi_stream_state i = pe_stream_state e" "pi_timeline_seq i = pe_timeline_seq e" "pi_images i = pe_images e"
    "pi_background_agent i = pe_background_agent e" "pi_category i = pe_category e"
  using assms by (auto simp: card_of_def projection_item_from_event_def Let_def)

lemma merge_fields [simp]:
  "pi_id (merge_item there i) = pi_id i" "pi_sequence (merge_item there i) = pi_sequence there"
  "pi_status (merge_item there i) = pi_status i" "pi_stream_state (merge_item there i) = pi_stream_state i"
  "pi_timeline_seq (merge_item there i) = or_else (pi_timeline_seq there) (pi_timeline_seq i)"
  "pi_background_agent (merge_item there i) = (pi_background_agent there \<or> pi_background_agent i)"
  "pi_images (merge_item there i) = (if pi_images i = [] then pi_images there else pi_images i)"
  "pi_body (merge_item there i) =
     (if trim (pi_body i) = [] \<and> trim (pi_body there) \<noteq> [] then pi_body there else pi_body i)"
  by (simp_all add: merge_item_def Let_def)

text \<open>The last of the values that count, the last of all where none does.\<close>

definition last_such :: "('a \<Rightarrow> bool) \<Rightarrow> 'a list \<Rightarrow> 'a" where
  "last_such p xs = (if filter p xs = [] then last xs else last (filter p xs))"

lemma last_such_holds: "xs \<noteq> [] \<Longrightarrow> p (last_such p xs) \<longleftrightarrow> filter p xs \<noteq> []"
  using last_in_set [of "filter p xs"] last_in_set [of xs] by (auto simp: last_such_def filter_empty_conv)

lemma last_such_snoc:
  "xs \<noteq> [] \<Longrightarrow> last_such p (xs @ [x]) = (if \<not> p x \<and> p (last_such p xs) then last_such p xs else x)"
  by (auto simp: last_such_holds) (auto simp: last_such_def)

lemma merge_all_fields:
  assumes "cards \<noteq> []"
  shows "pi_id (merge_all cards) = pi_id (last cards)"
    "pi_sequence (merge_all cards) = pi_sequence (hd cards)"
    "pi_status (merge_all cards) = pi_status (last cards)"
    "pi_stream_state (merge_all cards) = pi_stream_state (last cards)"
    "pi_timeline_seq (merge_all cards) = find_map pi_timeline_seq cards"
    "pi_background_agent (merge_all cards) \<longleftrightarrow> (\<exists>c\<in>set cards. pi_background_agent c)"
    "pi_images (merge_all cards) = last_such (\<lambda>is. is \<noteq> []) (map pi_images cards)"
    "pi_body (merge_all cards) = last_such (\<lambda>b. trim b \<noteq> []) (map pi_body cards)"
  using assms
proof (induction cards rule: rev_nonempty_induct)
  case (single c)
  {
    case 1 show ?case by simp
  next
    case 2 show ?case by simp
  next
    case 3 show ?case by simp
  next
    case 4 show ?case by simp
  next
    case 5 show ?case by (simp split: option.split)
  next
    case 6 show ?case by simp
  next
    case 7 show ?case by (simp add: last_such_def)
  next
    case 8 show ?case by (simp add: last_such_def)
  }
next
  case (snoc c cards)
  have fm: "find_map f (xs @ [x]) = or_else (find_map f xs) (f x)" for f :: "ProviderProjectionItem \<Rightarrow> int option" and xs x
    by (induction xs) (simp_all split: option.split)
  {
    case 1 show ?case using snoc by (simp add: merge_all_snoc)
  next
    case 2 show ?case using snoc by (simp add: merge_all_snoc)
  next
    case 3 show ?case using snoc by (simp add: merge_all_snoc)
  next
    case 4 show ?case using snoc by (simp add: merge_all_snoc)
  next
    case 5 show ?case using snoc by (simp add: merge_all_snoc fm)
  next
    case 6 show ?case using snoc by (auto simp: merge_all_snoc)
  next
    case 7 show ?case using snoc by (simp add: merge_all_snoc last_such_snoc)
  next
    case 8 show ?case using snoc by (simp add: merge_all_snoc last_such_snoc)
  }
qed

definition first_ids :: "string list \<Rightarrow> string list" where
  "first_ids ids = rev (remdups (rev ids))"

lemma first_ids_simps [simp]:
  "first_ids [] = []" "first_ids (ids @ [i]) = (if i \<in> set ids then first_ids ids else first_ids ids @ [i])"
  "set (first_ids ids) = set ids" "distinct (first_ids ids)"
  by (simp_all add: first_ids_def)

definition cards_of :: "(string \<Rightarrow> string option) \<Rightarrow> string \<Rightarrow> ProviderProjectionEvent list \<Rightarrow> ProviderProjectionItem list" where
  "cards_of key_of item_id es = map (\<lambda>e. the (card_of key_of e)) (events_of item_id es)"

lemma cards_of_empty: "cards_of key_of i es = [] \<longleftrightarrow> i \<notin> canonical_projection_id ` set es"
  unfolding cards_of_def events_of_def map_is_Nil_conv filter_empty_conv by blast

lemma events_of_snoc: "events_of i (es @ [e]) = (if canonical_projection_id e = i then events_of i es @ [e] else events_of i es)"
  by (simp add: events_of_def)

definition projected :: "(string \<Rightarrow> string option) \<Rightarrow> ProviderProjectionEvent list \<Rightarrow> projecting \<Rightarrow> bool" where
  "projected key_of es st \<longleftrightarrow> (case st of (items, positions) \<Rightarrow>
     map pi_id items = first_ids (map canonical_projection_id es)
     \<and> (\<forall>i n. positions i = Some n \<longleftrightarrow> n < length items \<and> pi_id (items ! n) = i)
     \<and> (\<forall>i\<in>set items. i = merge_all (cards_of key_of (pi_id i) es)))"

lemma project_step:
  assumes inv: "projected key_of es (items, positions)" and card: "card_of key_of e = Some item"
  shows "\<exists>st. project_event key_of e (Some (items, positions)) = Some st \<and> projected key_of (es @ [e]) st"
proof -
  let ?id = "canonical_projection_id e"
  have ids: "map pi_id items = first_ids (map canonical_projection_id es)"
    and pos: "\<And>i n. positions i = Some n \<longleftrightarrow> n < length items \<and> pi_id (items ! n) = i"
    and merged: "\<And>i. i \<in> set items \<Longrightarrow> i = merge_all (cards_of key_of (pi_id i) es)"
    using inv by (auto simp: projected_def)
  have distinct: "distinct (map pi_id items)" by (simp add: ids)
  have item: "pi_id item = ?id" using card_fields(1) [OF card] .
  have other: "pi_id i \<noteq> ?id \<Longrightarrow> cards_of key_of (pi_id i) (es @ [e]) = cards_of key_of (pi_id i) es" for i
    by (simp add: cards_of_def events_of_snoc)
  have this_one: "cards_of key_of ?id (es @ [e]) = cards_of key_of ?id es @ [item]"
    by (simp add: cards_of_def events_of_snoc card)
  show ?thesis
  proof (cases "positions ?id")
    case None
    then have fresh: "?id \<notin> set (map pi_id items)"
      using pos [of ?id] by (metis in_set_conv_nth length_map nth_map option.distinct(1))
    then have new: "?id \<notin> canonical_projection_id ` set es" using ids by (metis first_ids_simps(3) set_map)
    then have "cards_of key_of ?id es = []" by (simp only: cards_of_empty not_False_eq_True)
    then have last: "item = merge_all (cards_of key_of (pi_id item) (es @ [e]))" by (simp add: this_one item)
    have keep: "i = merge_all (cards_of key_of (pi_id i) (es @ [e]))" if "i \<in> set items" for i
    proof -
      have "pi_id i \<noteq> ?id" using fresh that by (metis imageI set_map)
      from other [OF this] show ?thesis using merged [OF that] by (rule ssubst)
    qed
    from keep last have "\<forall>i\<in>set (items @ [item]). i = merge_all (cards_of key_of (pi_id i) (es @ [e]))"
      unfolding set_append ball_Un list.set by blast
    moreover have "map pi_id (items @ [item]) = first_ids (map canonical_projection_id (es @ [e]))"
      using ids item new by simp
    moreover have "(positions(?id \<mapsto> length items)) i = Some n
      \<longleftrightarrow> n < length (items @ [item]) \<and> pi_id ((items @ [item]) ! n) = i" for i n
    proof -
      have "n < length items \<Longrightarrow> pi_id (items ! n) \<noteq> ?id" using pos [of ?id n] None by simp
      then show ?thesis using pos item by (auto simp: nth_append less_Suc_eq)
    qed
    ultimately have "projected key_of (es @ [e]) (items @ [item], positions(?id \<mapsto> length items))"
      by (simp only: projected_def prod.case) blast
    then show ?thesis using card None by (simp add: project_event_def card_of_def)
  next
    case (Some n)
    then have n: "n < length items" "pi_id (items ! n) = ?id" using pos by auto
    have old: "items ! n = merge_all (cards_of key_of ?id es)" using merged [of "items ! n"] n by simp
    have known: "?id \<in> canonical_projection_id ` set es"
      using n ids by (metis first_ids_simps(3) length_map nth_map nth_mem set_map)
    then have "cards_of key_of ?id es \<noteq> []" by (simp only: cards_of_empty not_not)
    then have new: "merge_all (cards_of key_of ?id (es @ [e])) = merge_item (items ! n) item"
      by (simp add: this_one merge_all_snoc old)
    let ?items = "items[n := merge_item (items ! n) item]"
    have same: "map pi_id ?items = map pi_id items"
      using n item by (simp add: map_update) (metis list_update_id length_map nth_map)
    have only: "i \<in> set ?items \<Longrightarrow> i = merge_item (items ! n) item \<or> (i \<in> set items \<and> pi_id i \<noteq> ?id)" for i
    proof -
      assume "i \<in> set ?items"
      then obtain m where m: "m < length items" "i = ?items ! m" by (auto simp: in_set_conv_nth)
      show ?thesis
      proof (cases "m = n")
        case True
        with m n show ?thesis by simp
      next
        case False
        then have "pi_id (items ! m) \<noteq> ?id"
          using distinct n m(1) by (metis distinct_conv_nth length_map nth_map)
        with False m show ?thesis by simp
      qed
    qed
    have "projected key_of (es @ [e]) (?items, positions)"
      unfolding projected_def prod.case
    proof (intro conjI allI ballI)
      show "map pi_id ?items = first_ids (map canonical_projection_id (es @ [e]))"
        using same ids known by simp
      fix i m
      show "(positions i = Some m) = (m < length ?items \<and> pi_id (?items ! m) = i)"
        using pos n item by (cases "m = n") auto
    next
      fix i assume "i \<in> set ?items"
      then show "i = merge_all (cards_of key_of (pi_id i) (es @ [e]))"
        using only [of i] new item merged other by fastforce
    qed
    then show ?thesis using card Some by (simp add: project_event_def card_of_def)
  qed
qed

lemma project_event_none:
  "project_event key_of e None = None"
  "card_of key_of e = None \<Longrightarrow> project_event key_of e (Some st) = None"
  by (auto simp: project_event_def card_of_def Let_def split: prod.splits)

lemma project_events:
  "case fold (project_event key_of) es (Some ([], Map.empty)) of
     None \<Rightarrow> \<exists>e\<in>set es. card_of key_of e = None
   | Some st \<Rightarrow> (\<forall>e\<in>set es. card_of key_of e \<noteq> None) \<and> projected key_of es st"
proof (induction es rule: rev_induct)
  case Nil
  then show ?case by (simp add: projected_def)
next
  case (snoc e es)
  show ?case
  proof (cases "fold (project_event key_of) es (Some ([], Map.empty))")
    case None
    with snoc.IH show ?thesis by (simp add: project_event_none)
  next
    case (Some st)
    obtain items positions where st: "st = (items, positions)" by (metis surj_pair)
    show ?thesis
    proof (cases "card_of key_of e")
      case None
      then show ?thesis using Some by (simp add: project_event_none)
    next
      case (Some item)
      with project_step [of key_of es items positions e item] snoc.IH
        \<open>fold (project_event key_of) es (Some ([], Map.empty)) = Some st\<close> st
      show ?thesis by auto
    qed
  qed
qed

definition shown_body :: "ProviderProjectionEvent \<Rightarrow> string" where
  "shown_body e = (if pe_category e = Reasoning \<and> trim (pe_body e) = [] \<and> trim (pe_title e) \<noteq> []
     \<and> trim (pe_title e) \<noteq> ''Reasoning'' then pe_title e else pe_body e)"

lemma card_body: "card_of key_of e = Some i \<Longrightarrow> pi_body i = shown_body e"
  by (auto simp: card_of_def projection_item_from_event_def shown_body_def Let_def)

text \<open>What the card of an item shows, in terms of the item's events in their order.\<close>

definition shows_events :: "ProviderProjectionItem \<Rightarrow> ProviderProjectionEvent list \<Rightarrow> bool" where
  "shows_events i es \<longleftrightarrow> es \<noteq> []
     \<and> pi_sequence i = pe_sequence (hd es) \<and> pi_status i = pe_status (last es)
     \<and> pi_stream_state i = pe_stream_state (last es)
     \<and> pi_timeline_seq i = find_map pe_timeline_seq es
     \<and> (pi_background_agent i \<longleftrightarrow> (\<exists>e\<in>set es. pe_background_agent e))
     \<and> pi_images i = last_such (\<lambda>is. is \<noteq> []) (map pe_images es)
     \<and> pi_body i = last_such (\<lambda>b. trim b \<noteq> []) (map shown_body es)"

lemma merged_shows_events:
  assumes cards: "\<forall>e\<in>set es. card_of key_of e \<noteq> None" and ne: "cards_of key_of item_id es \<noteq> []"
  shows "shows_events (merge_all (cards_of key_of item_id es)) (events_of item_id es)
    \<and> pi_id (merge_all (cards_of key_of item_id es)) = item_id"
proof -
  let ?evs = "events_of item_id es" and ?cs = "cards_of key_of item_id es"
  have evs: "?evs \<noteq> []" "\<And>e. e \<in> set ?evs \<Longrightarrow> canonical_projection_id e = item_id"
    using ne by (auto simp: cards_of_def events_of_def)
  have some: "\<And>e. e \<in> set ?evs \<Longrightarrow> card_of key_of e = Some (the (card_of key_of e))"
    using cards by (auto simp: events_of_def)
  note f = card_fields [OF some] card_body [OF some]
  have eqs: "map pi_images ?cs = map pe_images ?evs" "map pi_body ?cs = map shown_body ?evs"
    using f by (auto simp: cards_of_def)
  have ends: "hd ?cs = the (card_of key_of (hd ?evs))" "last ?cs = the (card_of key_of (last ?evs))"
    using evs(1) by (simp_all add: cards_of_def hd_map last_map)
  have members: "hd ?evs \<in> set ?evs" "last ?evs \<in> set ?evs" using evs(1) by simp_all
  have fm: "find_map pi_timeline_seq (map g xs) = find_map pe_timeline_seq xs"
    if "\<And>e. e \<in> set xs \<Longrightarrow> pi_timeline_seq (g e) = pe_timeline_seq e" for g xs
    using that by (induction xs) (auto split: option.split)
  have timeline: "find_map pi_timeline_seq ?cs = find_map pe_timeline_seq ?evs"
    unfolding cards_of_def using f(5) by (rule fm)
  have agent: "(\<exists>c\<in>set ?cs. pi_background_agent c) \<longleftrightarrow> (\<exists>e\<in>set ?evs. pe_background_agent e)"
    using f(7) by (auto simp: cards_of_def)
  show ?thesis
    unfolding shows_events_def merge_all_fields [OF ne] ends eqs timeline agent
    using f(1-4) members evs by simp
qed

lemma sort_key_events: "set (sort_key f es) = set es"
  by simp

text \<open>
  C25. The timeline has one card for every item the provider told of, in order and without doubles, and its
  signature names the same. A card shows the last state of its item, the last text that is not blank, the
  last images there were, and stands where the first event of the item stood.
\<close>

theorem timeline_has_one_card_an_item:
  assumes "render_provider_event_projection key_of hash events = Some p"
  shows "distinct (map pi_id (pp_items p)) \<and> set (map pi_id (pp_items p)) = canonical_projection_id ` set events
    \<and> sorted (map item_order (pp_items p)) \<and> ps_item_ids (pp_signature p) = map pi_id (pp_items p)
    \<and> (\<forall>i\<in>set (pp_items p). shows_events i (events_of (pi_id i) (sort_key event_order events)))"
proof -
  let ?es = "sort_key event_order events"
  obtain items positions where st: "fold (project_event key_of) ?es (Some ([], Map.empty)) = Some (items, positions)"
    and p: "pp_items p = sort_key item_order items" "ps_item_ids (pp_signature p) = map pi_id (pp_items p)"
    using assms by (auto simp: render_provider_event_projection_def projection_signature_def Let_def)
  from project_events [where key_of = key_of and es = ?es] st have inv: "\<forall>e\<in>set ?es. card_of key_of e \<noteq> None" "projected key_of ?es (items, positions)"
    by simp_all
  from inv(2) have ids: "map pi_id items = first_ids (map canonical_projection_id ?es)"
    and merged: "\<And>i. i \<in> set items \<Longrightarrow> i = merge_all (cards_of key_of (pi_id i) ?es)"
    by (auto simp: projected_def)
  have d: "distinct (map pi_id items)" "set (map pi_id items) = canonical_projection_id ` set events"
    unfolding ids by simp_all
  have "distinct (map pi_id (pp_items p))" using d(1) unfolding p distinct_map by simp
  moreover have "shows_events i (events_of (pi_id i) ?es)" if "i \<in> set items" for i
  proof -
    have "pi_id i \<in> canonical_projection_id ` set ?es" using d(2) that by auto
    then have "cards_of key_of (pi_id i) ?es \<noteq> []" by (simp only: cards_of_empty not_not)
    from merged_shows_events [OF inv(1) this] merged [OF that] show ?thesis by simp
  qed
  ultimately show ?thesis using d(2) p by simp
qed

lemma distinct_one: "distinct xs \<Longrightarrow> set xs = {x} \<Longrightarrow> xs = [x]"
  by (cases xs rule: remdups_adj.cases) auto

definition example_event :: "nat \<Rightarrow> string \<Rightarrow> ProviderProjectionEvent" where
  "example_event n body = \<lparr>pe_canonical_id = ''claude:t:call'', pe_sequence = n, pe_timeline_seq = Some (int n),
     pe_category = AssistantMessage, pe_title = [], pe_body = body, pe_status = Running, pe_stream_state = Streaming,
     pe_parent_id = None, pe_nested_thread_id = None, pe_raw_payload = None, pe_images = [],
     pe_background_agent = False\<rparr>"

lemma example_projects:
  "\<exists>p. render_provider_event_projection (\<lambda>_. None) (\<lambda>_. 0) [example_event 2 [], example_event 1 ''Hello''] = Some p"
  by (simp add: render_provider_event_projection_def project_event_def projection_item_from_event_def
    event_order_def example_event_def Let_def)

theorem timeline_has_one_card_an_item_witness:
  "\<exists>p i. render_provider_event_projection (\<lambda>_. None) (\<lambda>_. 0) [example_event 2 [], example_event 1 ''Hello''] = Some p
     \<and> pp_items p = [i] \<and> pi_sequence i = 1 \<and> pi_body i = ''Hello''"
proof -
  let ?es = "[example_event 2 [], example_event 1 ''Hello'']"
  obtain p where p: "render_provider_event_projection (\<lambda>_. None) (\<lambda>_. 0) ?es = Some p"
    using example_projects by blast
  have ids: "canonical_projection_id (example_event n b) = ''claude:t:call''" for n b
    by (simp add: canonical_projection_id_def example_event_def Let_def trim_def trim_start_def trim_end_def is_whitespace_def)
  have hello: "trim ''Hello'' = ''Hello''" by (simp add: trim_def trim_start_def trim_end_def is_whitespace_def)
  have sorted: "sort_key event_order ?es = [example_event 1 ''Hello'', example_event 2 []]"
    by (simp add: event_order_def example_event_def)
  note c = timeline_has_one_card_an_item [OF p]
  then have "distinct (map pi_id (pp_items p))" "set (map pi_id (pp_items p)) = {''claude:t:call''}"
    by (simp_all add: ids)
  then have "map pi_id (pp_items p) = [''claude:t:call'']"
    by (rule distinct_one)
  then obtain i where i: "pp_items p = [i]" "pi_id i = ''claude:t:call''" by auto
  have "\<forall>i\<in>set (pp_items p). shows_events i (events_of (pi_id i) [example_event 1 ''Hello'', example_event 2 []])"
    using c unfolding sorted by blast
  with i have "shows_events i [example_event 1 ''Hello'', example_event 2 []]"
    by (simp add: events_of_def ids)
  then have "pi_sequence i = 1 \<and> pi_body i = ''Hello''"
    by (simp add: shows_events_def shown_body_def last_such_def hello) (simp add: example_event_def hello)
  with p i show ?thesis by blast
qed

section \<open>The order of arrival\<close>

text \<open>
  The timeline does not depend on the order its events are read in, as long as no two events of
  one item carry the same number: any permutation of them projects to the same cards and signature.
\<close>

lemma timeline_ignores_arrival_order:
  assumes "mset events = mset events'" and "distinct (map event_order events)"
  shows "render_provider_event_projection key_of hash events = render_provider_event_projection key_of hash events'"
proof -
  have "sort_key event_order events = sort_key event_order events'"
  proof (rule properties_for_sort_key)
    show "mset (sort_key event_order events') = mset events" using assms(1) by simp
    fix k assume k: "k \<in> set (sort_key event_order events')"
    have one: "filter (\<lambda>x. event_order k = event_order x) xs = [k]"
      if "distinct (map event_order xs)" "k \<in> set xs" for xs
      using that
    proof (induction xs)
      case (Cons x xs)
      then show ?case by (cases "k = x") (auto simp: filter_empty_conv rev_image_eqI)
    qed simp
    have same: "set events = set events'" using assms(1) by (metis set_mset_mset)
    have d: "distinct (map event_order (sort_key event_order events'))"
      using assms mset_eq_imp_distinct_iff [of "map event_order (sort_key event_order events')" "map event_order events"]
      by simp
    show "filter (\<lambda>x. event_order k = event_order x) (sort_key event_order events')
        = filter (\<lambda>x. event_order k = event_order x) events"
      using one [OF d k] one [OF assms(2)] k same by simp
  next
    show "sorted (map event_order (sort_key event_order events'))" by simp
  qed
  then show ?thesis by (simp add: render_provider_event_projection_def)
qed

section \<open>What stands under a secret key\<close>















text \<open>Keys in camel case are not taken for secret ones, though \<open>apikey\<close> is.\<close>

lemma camel_case_keys_pass:
  "secret_like_key ''api-key'' \<and> secret_like_key ''apiKey'' \<and> secret_like_key ''private_key''
   \<and> \<not> secret_like_key ''privateKey'' \<and> \<not> secret_like_key ''accessKey''"
  by (simp add: secret_like_key_def trim_def trim_start_def trim_end_def is_whitespace_def to_ascii_lowercase_def
    ascii_lower_def suffix_def Let_def) code_simp

section \<open>Echoes\<close>

lemma drop_echoed_append:
  "drop_echoed_from seen (is @ js) = drop_echoed_from seen is @ drop_echoed_from
     (fold (\<lambda>i seen. if pi_render_class i = UserChat
          then (if trim (pi_body i) \<noteq> [] \<and> trim (pi_body i) \<in> set seen then seen else seen @ [trim (pi_body i)])
        else if pi_render_class i = AssistantChat then [] else seen) is seen) js"
  by (induction seen "is" rule: drop_echoed_from.induct) (simp_all add: Let_def)

text \<open>
  A message that repeats an earlier one is not shown, whatever came between the two, unless prose of the
  assistant did: when a turn failed, was interrupted or only called tools, the user's second try disappears
  from the timeline.
\<close>

lemma second_try_is_not_shown:
  assumes first: "pi_render_class u = UserChat" and again: "pi_render_class v = UserChat"
    and same: "trim (pi_body v) = trim (pi_body u)" "trim (pi_body u) \<noteq> []"
    and silent: "\<forall>c\<in>set cards. pi_render_class c \<noteq> AssistantChat"
  shows "drop_echoed_user_messages (before @ u # cards @ v # after) = drop_echoed_user_messages (before @ u # cards @ after)"
proof -
  let ?next = "\<lambda>i seen. if pi_render_class i = UserChat
      then (if trim (pi_body i) \<noteq> [] \<and> trim (pi_body i) \<in> set seen then seen else seen @ [trim (pi_body i)])
    else if pi_render_class i = AssistantChat then [] else seen"
  have keeps: "x \<in> set seen \<Longrightarrow> x \<in> set (fold ?next cards seen)" for x seen
    using silent by (induction cards arbitrary: seen) auto
  have "trim (pi_body u) \<in> set (fold ?next cards (?next u seen))" for seen
    by (rule keeps) (simp add: first)
  then have "drop_echoed_from seen (u # cards @ v # after) = drop_echoed_from seen (u # cards @ after)" for seen
    using first again same drop_echoed_append [of seen "u # cards" "v # after"] drop_echoed_append [of seen "u # cards" after]
    by (simp add: Let_def)
  then show ?thesis by (simp add: drop_echoed_user_messages_def drop_echoed_append [of "[]" before])
qed

definition example_card :: "ProjectionRenderClass \<Rightarrow> string \<Rightarrow> ProviderProjectionItem" where
  "example_card c body = \<lparr>pi_id = body, pi_sequence = 0, pi_timeline_seq = None, pi_category = Status,
     pi_render_class = c, pi_title = [], pi_body = body, pi_status = Failed,
     pi_stream_state = ProviderProjectionStreamState.Complete, pi_parent_id = None, pi_nested_thread_id = None,
     pi_raw_payload = None, pi_inspectable = False, pi_images = [], pi_background_agent = False\<rparr>"

section \<open>Sizes and durations\<close>

lemma padding_alone_is_huge: "base64_decoded_len ''='' = 18446744073709551615"
  by (simp add: base64_decoded_len_def trim_end_def is_whitespace_def Let_def)

lemma minute_of_seconds:
  "format_provider_turn_duration 59999 = ''60.0s''" "format_provider_turn_duration 60000 = ''1m 00s''"
proof -
  have "bit_length 59 = 6" by (simp add: bit_length.simps)
  moreover have "round_half_even (59999 * 2 ^ 47) 1000 = 8444108563831325" "round_half_even (10 * 8444108563831325) (2 ^ 47) = 600"
    by (simp_all add: round_half_even_def)
  ultimately have "seconds_one_decimal 59999 = show_nat 60 @ ''.'' @ show_nat 0"
    by (simp add: seconds_one_decimal_def one_decimal_def)
  moreover have "show_nat 60 = ''60''" "show_nat 0 = ''0''" "show_nat 1 = ''1''" by code_simp+
  ultimately show "format_provider_turn_duration 59999 = ''60.0s''" "format_provider_turn_duration 60000 = ''1m 00s''"
    by (simp_all add: format_provider_turn_duration_def padded2_def)
qed

end
