(* ===== verification/Civil_Time.thy ===== *)
theory Civil_Time
  imports Prelude
begin

text \<open>
  The times of \<open>chat_transcript.rs\<close>: the civil-date algorithms, the RFC 3339 timestamps a transcript
  shows and the ones it is asked with. Days and years are \<open>int\<close> (\<open>i64\<close> in the code; the values that reach
  it stay far inside). Every quotient the algorithms take is of non-negative numbers or Euclidean, so
  \<open>div\<close> and \<open>mod\<close> are the code's operations.

  The theorems give the algorithms a reference they have to agree with: the calendar as one counts it, a day
  at a time.
\<close>

section \<open>Civil dates\<close>

definition days_from_civil :: "int \<Rightarrow> int \<Rightarrow> int \<Rightarrow> int" where
  "days_from_civil year month day =
     (let year = (if month \<le> 2 then year - 1 else year);
          era = year div 400;
          yoe = year - era * 400;
          mp = (month + 9) mod 12;
          doy = (153 * mp + 2) div 5 + day - 1;
          doe = yoe * 365 + yoe div 4 - yoe div 100 + doy
      in era * 146097 + doe - 719468)"

definition civil_from_days :: "int \<Rightarrow> int \<times> int \<times> int" where
  "civil_from_days days =
     (let z = days + 719468;
          era = z div 146097;
          doe = z - era * 146097;
          yoe = (doe - doe div 1460 + doe div 36524 - doe div 146096) div 365;
          doy = doe - (365 * yoe + yoe div 4 - yoe div 100);
          mp = (5 * doy + 2) div 153;
          day = doy - (153 * mp + 2) div 5 + 1;
          month = (if mp < 10 then mp + 3 else mp - 9);
          year = yoe + era * 400 + (if month \<le> 2 then 1 else 0)
      in (year, month, day))"

section \<open>Timestamps\<close>

text \<open>\<open>{n:04}\<close> and \<open>{n:02}\<close>: at least so many digits.\<close>

definition zero_padded :: "nat \<Rightarrow> nat \<Rightarrow> string" where
  "zero_padded w n = replicate (w - length (show_nat n)) (CHR ''0'') @ show_nat n"

definition rfc3339_from_ms :: "nat \<Rightarrow> string" where
  "rfc3339_from_ms ms =
     (let secs = ms div 1000; days = int (secs div 86400); rem = secs mod 86400;
          (year, month, day) = civil_from_days days
      in zero_padded 4 (nat year) @ ''-'' @ zero_padded 2 (nat month) @ ''-'' @ zero_padded 2 (nat day)
         @ ''T'' @ zero_padded 2 (rem div 3600) @ '':'' @ zero_padded 2 (rem mod 3600 div 60)
         @ '':'' @ zero_padded 2 (rem mod 60) @ ''Z'')"

text \<open>\<open>str::parse::<i64>\<close> of a text too short to overflow: a sign, then digits.\<close>

definition parse_i64 :: "string \<Rightarrow> int option" where
  "parse_i64 s = (case s of [] \<Rightarrow> None
     | c # r \<Rightarrow>
         (let d = (if c = CHR ''+'' \<or> c = CHR ''-'' then r else s)
          in if d \<noteq> [] \<and> list_all is_ascii_digit d
             then Some (if c = CHR ''-'' then - int (digits_value d) else int (digits_value d)) else None))"

definition num_at :: "string \<Rightarrow> nat \<Rightarrow> nat \<Rightarrow> int option" where
  "num_at s from to = (if to \<le> length s then parse_i64 (take (to - from) (drop from s)) else None)"

text \<open>
  What reading a timestamp comes to. Slicing a text inside a character panics: \<open>&rest[..1]\<close> when the suffix
  starts with a character of several bytes, \<open>&rest[3..4]\<close> when one reaches over its fourth byte.
\<close>

datatype parsed_time = Panics | Parsed "nat option"

definition is_ascii :: "char \<Rightarrow> bool" where
  "is_ascii c \<longleftrightarrow> of_char c < (128 :: nat)"

datatype parsed_offset = Offset_panics | Offset "int option"

definition offset_secs :: "string \<Rightarrow> parsed_offset" where
  "offset_secs rest =
     (if rest = ''Z'' \<or> rest = ''z'' then Offset (Some 0)
      else if length rest \<noteq> 6 then Offset None
      else if \<not> is_ascii (rest ! 0) then Offset_panics
      else if rest ! 0 \<noteq> CHR ''+'' \<and> rest ! 0 \<noteq> CHR ''-'' then Offset None
      else if \<not> is_ascii (rest ! 3) then Offset_panics
      else if rest ! 3 \<noteq> CHR '':'' then Offset None
      else (case (num_at rest 1 3, num_at rest 4 6) of
          (Some hours, Some minutes) \<Rightarrow>
            Offset (Some ((if rest ! 0 = CHR ''-'' then - 1 else 1) * (hours * 3600 + minutes * 60)))
        | _ \<Rightarrow> Offset None))"

text \<open>The fraction of a second: its first three digits, with zeros behind, and what follows all its digits.\<close>

definition fraction :: "string \<Rightarrow> int \<times> string" where
  "fraction rest = (case strip_prefix ''.'' rest of
       None \<Rightarrow> (0, rest)
     | Some frac \<Rightarrow>
         (let digits = takeWhile is_ascii_digit frac; three = take 3 digits
          in (int (digits_value (three @ replicate (3 - length three) (CHR ''0''))), drop (length digits) frac)))"

definition parse_rfc3339_ms :: "string \<Rightarrow> parsed_time" where
  "parse_rfc3339_ms text0 =
     (let s = trim text0
      in if s \<noteq> [] \<and> list_all is_ascii_digit s
         then Parsed (map_option (\<lambda>secs. secs * 1000 mod 2 ^ 64) (parse_u64 s))
         else if length s < 19 \<or> s ! 4 \<noteq> CHR ''-'' \<or> s ! 7 \<noteq> CHR ''-'' \<or> s ! 13 \<noteq> CHR '':'' then Parsed None
         else if s ! 10 \<notin> {CHR ''T'', CHR ''t'', CHR '' ''} \<or> s ! 16 \<noteq> CHR '':'' then Parsed None
         else case (num_at s 0 4, num_at s 5 7, num_at s 8 10, num_at s 11 13, num_at s 14 16, num_at s 17 19) of
           (Some year, Some month, Some day, Some hour, Some minute, Some second) \<Rightarrow>
             if \<not> (1 \<le> month \<and> month \<le> 12) \<or> \<not> (1 \<le> day \<and> day \<le> 31) \<or> hour > 23 \<or> minute > 59
             then Parsed None
             else (let (millis, rest) = fraction (drop 19 s)
               in case offset_secs rest of
                 Offset_panics \<Rightarrow> Panics
               | Offset None \<Rightarrow> Parsed None
               | Offset (Some off) \<Rightarrow>
                   (let secs = days_from_civil year month day * 86400 + hour * 3600 + minute * 60 + second - off;
                        ms = secs * 1000 + millis
                    in Parsed (if 0 \<le> ms then Some (nat ms) else None)))
         | _ \<Rightarrow> Parsed None)"

section \<open>The calendar the algorithms follow\<close>

text \<open>The reference: leap years, the lengths of the months, and the day after a day.\<close>

definition leap_year :: "int \<Rightarrow> bool" where
  "leap_year y \<longleftrightarrow> y mod 4 = 0 \<and> (y mod 100 \<noteq> 0 \<or> y mod 400 = 0)"

definition month_length :: "int \<Rightarrow> int \<Rightarrow> int" where
  "month_length y m = (if m = 2 then (if leap_year y then 29 else 28) else if m \<in> {4, 6, 9, 11} then 30 else 31)"

definition valid_date :: "int \<times> int \<times> int \<Rightarrow> bool" where
  "valid_date d = (case d of (y, m, dd) \<Rightarrow> 1 \<le> m \<and> m \<le> 12 \<and> 1 \<le> dd \<and> dd \<le> month_length y m)"

definition next_date :: "int \<times> int \<times> int \<Rightarrow> int \<times> int \<times> int" where
  "next_date d = (case d of (y, m, dd) \<Rightarrow>
     if dd < month_length y m then (y, m, dd + 1) else if m < 12 then (y, m + 1, 1) else (y + 1, 1, 1))"

text \<open>
  Inside an era of 400 years that begin in March, a day is in century \<open>c\<close>, olympiad \<open>b\<close>, year \<open>a\<close> and
  \<open>doy\<close>: every day of the era is of this form, and the code's quotient finds the year of it.
\<close>

definition era_day :: "int \<Rightarrow> int \<Rightarrow> int \<Rightarrow> int \<Rightarrow> bool" where
  "era_day c b a doy \<longleftrightarrow> 0 \<le> c \<and> c \<le> 3 \<and> 0 \<le> b \<and> b \<le> 24 \<and> 0 \<le> a \<and> a \<le> 3 \<and> 0 \<le> doy \<and> doy \<le> 365
     \<and> (doy = 365 \<longrightarrow> a = 3 \<and> (b = 24 \<longrightarrow> c = 3))"

lemma era_day_exists:
  assumes "0 \<le> doe" "doe \<le> 146096"
  shows "\<exists>c b a doy. era_day c b a doy \<and> doe = 36524 * c + 1461 * b + 365 * a + doy"
proof -
  define c where "c = min 3 (doe div 36524)"
  define r1 where "r1 = doe - 36524 * c"
  define b where "b = r1 div 1461"
  define r2 where "r2 = r1 - 1461 * b"
  define a where "a = min 3 (r2 div 365)"
  have c: "0 \<le> c" "c \<le> 3" "0 \<le> r1" "r1 \<le> 36524" "c < 3 \<Longrightarrow> r1 \<le> 36523"
    using assms unfolding c_def r1_def by linarith+
  have b: "0 \<le> b" "b \<le> 24" "0 \<le> r2" "r2 \<le> 1460" "b = 24 \<Longrightarrow> c < 3 \<Longrightarrow> r2 \<le> 1459"
    using c unfolding b_def r2_def by linarith+
  have a: "0 \<le> a" "a \<le> 3" "0 \<le> r2 - 365 * a" "r2 - 365 * a \<le> 365" "r2 - 365 * a = 365 \<Longrightarrow> r2 = 1460 \<and> a = 3"
    using b unfolding a_def by linarith+
  from a(5) b(5) have "r2 - 365 * a = 365 \<longrightarrow> a = 3 \<and> (b = 24 \<longrightarrow> c = 3)" using c(2) by fastforce
  then have "era_day c b a (r2 - 365 * a)" using a b c by (simp add: era_day_def)
  moreover have "doe = 36524 * c + 1461 * b + 365 * a + (r2 - 365 * a)" by (simp add: r1_def r2_def)
  ultimately show ?thesis by blast
qed

lemma era_year:
  assumes d: "era_day c b a doy" and doe: "doe = 36524 * c + 1461 * b + 365 * a + doy"
  shows "(doe - doe div 1460 + doe div 36524 - doe div 146096) div 365 = 100 * c + 4 * b + a"
proof -
  note e = d [unfolded era_day_def]
  define r where "r = 24 * c + b + 365 * a + doy"
  have r: "0 \<le> r" "r < 2920" using e by (auto simp: r_def)
  have doe': "doe = 1460 * (25 * c + b) + r" by (simp add: doe r_def)
  have q1: "doe div 1460 = 25 * c + b + (if 1460 \<le> r then 1 else 0)"
    using r unfolding doe' by auto
  show ?thesis
  proof (cases "doe = 146096")
    case True
    then have "100 * c + 4 * b + a = 399" using e doe by linarith
    then show ?thesis by (simp add: True)
  next
    case False
    have top: "36524 * c + 1461 * b + 365 * a + doy < 36524 * c + 36524"
      using e False doe by (cases "b = 24"; cases "c = 3"; cases "a = 3"; cases "doy = 365") auto
    have q2: "doe div 36524 = c" using top e unfolding doe by linarith
    have q3: "doe div 146096 = 0" using top e False unfolding doe by linarith
    have "doe - doe div 1460 + doe div 36524 - doe div 146096
      = 365 * (100 * c + 4 * b + a) + (doy - (if 1460 \<le> r then 1 else 0))"
      unfolding q1 q2 q3 by (simp add: doe)
    moreover have "0 \<le> doy - (if 1460 \<le> r then 1 else 0)" "doy - (if 1460 \<le> r then 1 else 0) < 365"
      using e by (auto simp: r_def)
    ultimately show ?thesis by simp
  qed
qed

lemma era_day_of_year:
  assumes "era_day c b a doy"
  shows "365 * (100 * c + 4 * b + a) + (100 * c + 4 * b + a) div 4 - (100 * c + 4 * b + a) div 100
    = 36524 * c + 1461 * b + 365 * a"
proof -
  have "(100 * c + 4 * b + a) div 4 = 25 * c + b" "(100 * c + 4 * b + a) div 100 = c"
    using assms by (auto simp: era_day_def)
  then show ?thesis by simp
qed

text \<open>Counted from the first of March: where year \<open>Y\<close> begins, and the date of one of its days.\<close>

definition year_start :: "int \<Rightarrow> int" where
  "year_start Y = 365 * Y + Y div 4 - Y div 100 + Y div 400"

definition year_days :: "int \<Rightarrow> int" where
  "year_days Y = (if leap_year (Y + 1) then 366 else 365)"

definition date_of :: "int \<Rightarrow> int \<Rightarrow> int \<times> int \<times> int" where
  "date_of Y doy = (let mp = (5 * doy + 2) div 153; month = (if mp < 10 then mp + 3 else mp - 9)
     in (Y + (if month \<le> 2 then 1 else 0), month, doy - (153 * mp + 2) div 5 + 1))"

lemma year_split:
  fixes Y :: int
  obtains era c b a where "Y = 400 * era + (100 * c + 4 * b + a)" "0 \<le> c" "c \<le> 3" "0 \<le> b" "b \<le> 24" "0 \<le> a" "a \<le> 3"
proof -
  define era where "era = Y div 400"
  define y where "y = Y mod 400"
  define c where "c = y div 100"
  define b where "b = (y - 100 * c) div 4"
  have y: "0 \<le> y" "y < 400" "Y = 400 * era + y" by (simp_all add: y_def era_def)
  have c: "0 \<le> c" "c \<le> 3" "0 \<le> y - 100 * c" "y - 100 * c < 100" using y unfolding c_def by linarith+
  have "0 \<le> b" "b \<le> 24" "0 \<le> y - 100 * c - 4 * b" "y - 100 * c - 4 * b \<le> 3" using c unfolding b_def by linarith+
  with that [of era c b "y - 100 * c - 4 * b"] y c show ?thesis by simp
qed

lemma leap_year_split:
  assumes "0 \<le> c" "c \<le> 3" "0 \<le> b" "b \<le> 24" "0 \<le> a" "a \<le> (3 :: int)"
  shows "leap_year (400 * era + (100 * c + 4 * b + a) + 1) \<longleftrightarrow> a = 3 \<and> (b = 24 \<longrightarrow> c = 3)"
proof -
  have r: "400 * era + (100 * c + 4 * b + a) + 1 = (a + 1) + 4 * (100 * era + 25 * c + b)" by simp
  have "a = 0 \<or> a = 1 \<or> a = 2 \<or> a = 3" using assms by linarith
  then have four: "(400 * era + (100 * c + 4 * b + a) + 1) mod 4 = 0 \<longleftrightarrow> a = 3"
    unfolding r mod_mult_self2 by auto
  have "400 * era + (100 * c + 4 * b + 3) + 1 = 4 * (b + 1) + 100 * (4 * era + c)" by simp
  then have "(400 * era + (100 * c + 4 * b + 3) + 1) mod 100 = 4 * (b + 1) mod 100" by (simp only: mod_mult_self2)
  also have "\<dots> = (if b = 24 then 0 else 4 * (b + 1))" using assms by (auto intro: mod_pos_pos_trivial)
  finally have hundred: "(400 * era + (100 * c + 4 * b + 3) + 1) mod 100 = 0 \<longleftrightarrow> b = 24" using assms by auto
  have "400 * era + (100 * c + 4 * 24 + 3) + 1 = 100 * (c + 1) + 400 * era" by simp
  then have "(400 * era + (100 * c + 4 * 24 + 3) + 1) mod 400 = 100 * (c + 1) mod 400" by (simp only: mod_mult_self2)
  also have "\<dots> = (if c = 3 then 0 else 100 * (c + 1))" using assms by (auto intro: mod_pos_pos_trivial)
  finally have all: "(400 * era + (100 * c + 4 * 24 + 3) + 1) mod 400 = 0 \<longleftrightarrow> c = 3" using assms by auto
  show ?thesis unfolding leap_year_def four
    by (cases "a = 3"; cases "b = 24") (use hundred all in auto)
qed

lemma year_start_split:
  assumes "0 \<le> c" "c \<le> 3" "0 \<le> b" "b \<le> 24" "0 \<le> a" "a \<le> (3 :: int)"
  shows "year_start (400 * era + (100 * c + 4 * b + a)) = 146097 * era + (36524 * c + 1461 * b + 365 * a)"
proof -
  have "(400 * era + (100 * c + 4 * b + a)) div 4 = 100 * era + 25 * c + b"
    "(400 * era + (100 * c + 4 * b + a)) div 100 = 4 * era + c"
    "(400 * era + (100 * c + 4 * b + a)) div 400 = era" using assms by linarith+
  then show ?thesis by (simp add: year_start_def)
qed

lemma div_succ:
  fixes n k :: int
  assumes "0 < k"
  shows "(n + 1) div k = n div k + (if (n + 1) mod k = 0 then 1 else 0)"
proof -
  have "n + 1 = k * (n div k) + (n mod k + 1)" by simp
  then have "(n + 1) div k = n div k + (n mod k + 1) div k" "(n + 1) mod k = (n mod k + 1) mod k"
    using assms by (metis div_mult_self4 add.commute less_irrefl mult.commute, metis mod_mult_self2 add.commute)
  moreover have "n mod k + 1 = k \<or> n mod k + 1 < k" using assms pos_mod_bound [of k n] by linarith
  moreover have "0 \<le> n mod k" using assms by simp
  ultimately show ?thesis using assms by (auto dest: zdvd_imp_le)
qed

lemma year_start_next: "year_start (Y + 1) = year_start Y + year_days Y"
proof -
  have e4: "(Y + 1) div 4 = Y div 4 + (if (Y + 1) mod 4 = 0 then 1 else 0)" by (rule div_succ) simp
  have e100: "(Y + 1) div 100 = Y div 100 + (if (Y + 1) mod 100 = 0 then 1 else 0)" by (rule div_succ) simp
  have e400: "(Y + 1) div 400 = Y div 400 + (if (Y + 1) mod 400 = 0 then 1 else 0)" by (rule div_succ) simp
  have i: "(Y + 1) mod 400 = 0 \<Longrightarrow> (Y + 1) mod 100 = 0" "(Y + 1) mod 100 = 0 \<Longrightarrow> (Y + 1) mod 4 = 0"
    using mod_mod_cancel [of 100 400 "Y + 1"] mod_mod_cancel [of 4 100 "Y + 1"] by auto
  show ?thesis unfolding year_start_def e4 e100 e400 year_days_def leap_year_def
    by (cases "(Y + 1) mod 400 = 0"; cases "(Y + 1) mod 100 = 0"; cases "(Y + 1) mod 4 = 0")
      (use i in \<open>simp_all only: if_True if_False simp_thms, simp_all\<close>)
qed

lemma day_exists: "\<exists>Y doy. 0 \<le> doy \<and> doy < year_days Y \<and> n = year_start Y + doy"
proof -
  have "0 \<le> n mod 146097" "n mod 146097 \<le> 146096" by simp_all
  then obtain c b a doy where d: "era_day c b a doy" "n mod 146097 = 36524 * c + 1461 * b + 365 * a + doy"
    using era_day_exists by blast
  note e = d(1) [unfolded era_day_def]
  let ?Y = "400 * (n div 146097) + (100 * c + 4 * b + a)"
  have "doy < year_days ?Y" using e leap_year_split [of c b a "n div 146097"] by (auto simp: year_days_def)
  moreover have "n = 146097 * (n div 146097) + n mod 146097" by simp
  then have "n = year_start ?Y + doy" using e year_start_split [of c b a "n div 146097"] d(2) by linarith
  ultimately show ?thesis using e by blast
qed

lemma civil_from_days_of:
  assumes "0 \<le> doy" "doy < year_days Y"
  shows "civil_from_days (year_start Y + doy - 719468) = date_of Y doy"
proof -
  obtain era c b a where Y: "Y = 400 * era + (100 * c + 4 * b + a)"
    "0 \<le> c" "c \<le> 3" "0 \<le> b" "b \<le> 24" "0 \<le> a" "a \<le> 3" by (rule year_split)
  have d: "era_day c b a doy"
    using Y assms leap_year_split [of c b a era] by (auto simp: era_day_def year_days_def split: if_splits)
  let ?doe = "36524 * c + 1461 * b + 365 * a + doy"
  have doe: "0 \<le> ?doe" "?doe < 146097" using d by (auto simp: era_day_def)
  have z: "year_start Y + doy - 719468 + 719468 = 146097 * era + ?doe"
    using year_start_split [of c b a era] Y by simp
  have era: "(146097 * era + ?doe) div 146097 = era" using doe by simp
  have yoe: "(?doe - ?doe div 1460 + ?doe div 36524 - ?doe div 146096) div 365 = 100 * c + 4 * b + a"
    using era_year [OF d refl] .
  have doy: "?doe - (365 * (100 * c + 4 * b + a) + (100 * c + 4 * b + a) div 4 - (100 * c + 4 * b + a) div 100) = doy"
    using era_day_of_year [OF d] by simp
  have sub: "146097 * era + ?doe - era * 146097 = ?doe" by simp
  show ?thesis
    unfolding civil_from_days_def Let_def z era sub yoe doy by (simp add: date_of_def Let_def Y(1))
qed

lemma civil_exists:
  obtains Y doy where "0 \<le> doy" "doy < year_days Y" "z = year_start Y + doy - 719468"
    "civil_from_days z = date_of Y doy"
proof -
  obtain Y doy where d: "0 \<le> doy" "doy < year_days Y" "z + 719468 = year_start Y + doy" using day_exists by blast
  then have "z = year_start Y + doy - 719468" by simp
  with that [of doy Y] civil_from_days_of [OF d(1,2)] d show ?thesis by simp
qed

lemma days_from_date_of:
  assumes "0 \<le> doy" "doy < 367"
  shows "case date_of Y doy of (y, m, d) \<Rightarrow> days_from_civil y m d = year_start Y + doy - 719468"
proof -
  define mp where "mp = (5 * doy + 2) div 153"
  have mp: "0 \<le> mp" "mp \<le> 11" using assms unfolding mp_def by linarith+
  define month where "month = (if mp < 10 then mp + 3 else mp - 9)"
  have month: "(month + 9) mod 12 = mp"
  proof (cases "mp < 10")
    case True
    then have "month + 9 = mp + 12" by (simp add: month_def)
    then show ?thesis using mp by simp
  next
    case False
    then show ?thesis using mp by (simp add: month_def)
  qed
  have year: "(if month \<le> 2 then Y + (if month \<le> 2 then 1 else 0) - 1 else Y + (if month \<le> 2 then 1 else 0)) = Y"
    by simp
  have era: "year_start Y = Y div 400 * 146097 + ((Y - Y div 400 * 400) * 365
      + (Y - Y div 400 * 400) div 4 - (Y - Y div 400 * 400) div 100)"
  proof -
    obtain era c b a where Y: "Y = 400 * era + (100 * c + 4 * b + a)"
      "0 \<le> c" "c \<le> 3" "0 \<le> b" "b \<le> 24" "0 \<le> a" "a \<le> 3" by (rule year_split)
    then have "Y div 400 = era" by linarith
    moreover have "(100 * c + 4 * b + a) div 4 = 25 * c + b" "(100 * c + 4 * b + a) div 100 = c"
      using Y by linarith+
    ultimately show ?thesis using year_start_split [of c b a era] Y by simp
  qed
  have "date_of Y doy = (Y + (if month \<le> 2 then 1 else 0), month, doy - (153 * mp + 2) div 5 + 1)"
    by (simp add: date_of_def Let_def mp_def month_def)
  then show ?thesis
    by (simp only: prod.case days_from_civil_def Let_def month year) (simp add: era)
qed

lemma year_days_bounds: "365 \<le> year_days Y" "year_days Y \<le> 366"
  by (simp_all add: year_days_def)

lemma days_from_civil_from_days: "case civil_from_days z of (y, m, d) \<Rightarrow> days_from_civil y m d = z"
proof -
  obtain Y doy where d: "0 \<le> doy" "doy < year_days Y" "z = year_start Y + doy - 719468"
    "civil_from_days z = date_of Y doy" by (rule civil_exists)
  have "doy < 367" using d(2) year_days_bounds(2) [of Y] by linarith
  then show ?thesis using days_from_date_of [of doy Y] d by simp
qed

text \<open>The months as intervals of days, and what a date in them is.\<close>

lemma date_of_nth:
  assumes "153 * k \<le> 5 * doy + 2" "5 * doy + 2 < 153 * k + 153"
  shows "date_of Y doy = (Y + (if (if k < 10 then k + 3 else k - 9) \<le> 2 then 1 else 0),
    if k < 10 then k + 3 else k - 9, doy - (153 * k + 2) div 5 + 1)"
proof -
  have "(5 * doy + 2) div 153 = k" using assms by linarith
  then show ?thesis by (simp add: date_of_def Let_def)
qed

lemma date_of_months:
  "0 \<le> doy \<Longrightarrow> doy \<le> 30 \<Longrightarrow> date_of Y doy = (Y, 3, doy + 1)"
  "31 \<le> doy \<Longrightarrow> doy \<le> 60 \<Longrightarrow> date_of Y doy = (Y, 4, doy - 30)"
  "61 \<le> doy \<Longrightarrow> doy \<le> 91 \<Longrightarrow> date_of Y doy = (Y, 5, doy - 60)"
  "92 \<le> doy \<Longrightarrow> doy \<le> 121 \<Longrightarrow> date_of Y doy = (Y, 6, doy - 91)"
  "122 \<le> doy \<Longrightarrow> doy \<le> 152 \<Longrightarrow> date_of Y doy = (Y, 7, doy - 121)"
  "153 \<le> doy \<Longrightarrow> doy \<le> 183 \<Longrightarrow> date_of Y doy = (Y, 8, doy - 152)"
  "184 \<le> doy \<Longrightarrow> doy \<le> 213 \<Longrightarrow> date_of Y doy = (Y, 9, doy - 183)"
  "214 \<le> doy \<Longrightarrow> doy \<le> 244 \<Longrightarrow> date_of Y doy = (Y, 10, doy - 213)"
  "245 \<le> doy \<Longrightarrow> doy \<le> 274 \<Longrightarrow> date_of Y doy = (Y, 11, doy - 244)"
  "275 \<le> doy \<Longrightarrow> doy \<le> 305 \<Longrightarrow> date_of Y doy = (Y, 12, doy - 274)"
  "306 \<le> doy \<Longrightarrow> doy \<le> 336 \<Longrightarrow> date_of Y doy = (Y + 1, 1, doy - 305)"
  "337 \<le> doy \<Longrightarrow> doy \<le> 365 \<Longrightarrow> date_of Y doy = (Y + 1, 2, doy - 336)"
  using date_of_nth [of 0 doy Y] date_of_nth [of 1 doy Y] date_of_nth [of 2 doy Y] date_of_nth [of 3 doy Y]
    date_of_nth [of 4 doy Y] date_of_nth [of 5 doy Y] date_of_nth [of 6 doy Y] date_of_nth [of 7 doy Y]
    date_of_nth [of 8 doy Y] date_of_nth [of 9 doy Y] date_of_nth [of 10 doy Y] date_of_nth [of 11 doy Y]
  by simp_all

lemma day_months:
  assumes "0 \<le> doy" "doy < year_days Y"
  obtains (mar) "doy \<le> 30" | (apr) "31 \<le> doy" "doy \<le> 60" | (may) "61 \<le> doy" "doy \<le> 91"
  | (jun) "92 \<le> doy" "doy \<le> 121" | (jul) "122 \<le> doy" "doy \<le> 152" | (aug) "153 \<le> doy" "doy \<le> 183"
  | (sep) "184 \<le> doy" "doy \<le> 213" | (oct) "214 \<le> doy" "doy \<le> 244" | (nov) "245 \<le> doy" "doy \<le> 274"
  | (dec) "275 \<le> doy" "doy \<le> 305" | (jan) "306 \<le> doy" "doy \<le> 336" | (feb) "337 \<le> doy" "doy \<le> 365"
proof -
  have "doy \<le> 365" using assms year_days_bounds(2) [of Y] by linarith
  then consider "doy \<le> 91" | "92 \<le> doy" "doy \<le> 183" | "184 \<le> doy" "doy \<le> 274" | "275 \<le> doy" "doy \<le> 365"
    by linarith
  then show ?thesis
  proof cases
    case 1 then show ?thesis using mar apr may by linarith
  next
    case 2 then show ?thesis using jun jul aug by linarith
  next
    case 3 then show ?thesis using sep oct nov by linarith
  next
    case 4 then show ?thesis using dec jan feb by linarith
  qed
qed

lemma date_of_valid:
  assumes "0 \<le> doy" "doy < year_days Y"
  shows "valid_date (date_of Y doy)"
  by (cases rule: day_months [OF assms])
    (use assms in \<open>simp_all add: date_of_months valid_date_def month_length_def year_days_def split: if_splits\<close>)

lemma next_in_month: "dd < month_length y m \<Longrightarrow> next_date (y, m, dd) = (y, m, dd + 1)"
  by (simp add: next_date_def)

lemma next_at_month_end: "dd = month_length y m \<Longrightarrow> next_date (y, m, dd) = (if m < 12 then (y, m + 1, 1) else (y + 1, 1, 1))"
  by (simp add: next_date_def)

lemma date_of_next:
  assumes "0 \<le> doy" "doy < year_days Y"
  shows "next_date (date_of Y doy) = (if doy + 1 < year_days Y then date_of Y (doy + 1) else date_of (Y + 1) 0)"
proof (cases "doy \<le> 336")
  case True
  consider "doy \<in> {30, 60, 91, 121, 152, 183, 213, 244, 274, 305, 336}"
    | "doy \<notin> {30, 60, 91, 121, 152, 183, 213, 244, 274, 305, 336}" by blast
  then have "next_date (date_of Y doy) = date_of Y (doy + 1)"
  proof cases
    case 1
    then show ?thesis by (auto simp: date_of_months next_date_def month_length_def)
  next
    case 2
    from assms show ?thesis
      by (cases rule: day_months) (use 2 True assms(1) in \<open>simp_all add: date_of_months next_date_def month_length_def\<close>)
  qed
  then show ?thesis using True year_days_bounds(1) [of Y] by simp
next
  case False
  have "date_of (Y + 1) 0 = (Y + 1, 3, 1)" by (simp add: date_of_months)
  with False assms show ?thesis
    by (cases "doy + 1 < year_days Y")
      (simp_all add: date_of_months next_date_def month_length_def year_days_def split: if_splits)
qed

lemma civil_valid: "valid_date (civil_from_days z)"
proof -
  obtain Y doy where d: "0 \<le> doy" "doy < year_days Y" "civil_from_days z = date_of Y doy" by (rule civil_exists)
  then show ?thesis using date_of_valid by simp
qed

text \<open>
  C29. The civil dates are the calendar: day 0 is the first of January 1970, and the date of each following
  day is the next date of the proleptic Gregorian calendar, leap years included.
\<close>

theorem civil_dates_are_the_calendar:
  "civil_from_days 0 = (1970, 1, 1) \<and> civil_from_days (z + 1) = next_date (civil_from_days z)
   \<and> valid_date (civil_from_days z)"
proof -
  obtain Y doy where d: "0 \<le> doy" "doy < year_days Y" "z = year_start Y + doy - 719468"
    "civil_from_days z = date_of Y doy" by (rule civil_exists)
  have "civil_from_days (z + 1) = next_date (date_of Y doy)"
  proof (cases "doy + 1 < year_days Y")
    case True
    have z: "z + 1 = year_start Y + (doy + 1) - 719468" using d(3) by simp
    have "civil_from_days (z + 1) = date_of Y (doy + 1)"
      unfolding z by (rule civil_from_days_of) (use d(1) True in simp_all)
    then show ?thesis using date_of_next [OF d(1,2)] True by simp
  next
    case False
    then have z: "z + 1 = year_start (Y + 1) + 0 - 719468" using d(2,3) by (simp add: year_start_next)
    have "civil_from_days (z + 1) = date_of (Y + 1) 0"
      unfolding z by (rule civil_from_days_of) (use year_days_bounds(1) [of "Y + 1"] in simp_all)
    then show ?thesis using date_of_next [OF d(1,2)] False by simp
  qed
  moreover have "civil_from_days 0 = (1970, 1, 1)" by code_simp
  ultimately show ?thesis using civil_valid [of z] by (simp only: d(4) simp_thms)
qed

lemma valid_date_exists:
  assumes "valid_date (y, m, d)"
  shows "\<exists>Y doy. 0 \<le> doy \<and> doy < year_days Y \<and> date_of Y doy = (y, m, d)"
proof -
  let ?ex = "\<lambda>Y doy. 0 \<le> doy \<and> doy < year_days Y \<and> date_of Y doy = (y, m, d)"
  have len: "365 \<le> year_days y" by (rule year_days_bounds)
  have m: "1 \<le> m" "m \<le> 12" using assms by (simp_all add: valid_date_def)
  have "m \<in> {3, 4, 5} \<or> m \<in> {6, 7, 8} \<or> m \<in> {9, 10, 11} \<or> m \<in> {12, 1, 2}"
    using m by simp presburger
  then have "?ex y (d - 1) \<or> ?ex y (d + 30) \<or> ?ex y (d + 60) \<or> ?ex y (d + 91) \<or> ?ex y (d + 121)
    \<or> ?ex y (d + 152) \<or> ?ex y (d + 183) \<or> ?ex y (d + 213) \<or> ?ex y (d + 244) \<or> ?ex y (d + 274)
    \<or> ?ex (y - 1) (d + 305) \<or> ?ex (y - 1) (d + 336)"
    using assms len
    by (elim disjE insertE) (simp_all add: valid_date_def month_length_def date_of_months year_days_def split: if_splits)
  then show ?thesis by blast
qed

lemma civil_from_days_from_civil:
  assumes "valid_date (y, m, d)"
  shows "civil_from_days (days_from_civil y m d) = (y, m, d)"
proof -
  obtain Y doy where e: "0 \<le> doy" "doy < year_days Y" "date_of Y doy = (y, m, d)"
    using valid_date_exists [OF assms] by blast
  have "doy < 367" using e(2) year_days_bounds(2) [of Y] by linarith
  with days_from_date_of [of doy Y] e have "days_from_civil y m d = year_start Y + doy - 719468" by simp
  then show ?thesis using civil_from_days_of [OF e(1,2)] e(3) by simp
qed

section \<open>Writing a timestamp and reading it\<close>

lemma civil_year:
  assumes "0 \<le> z"
  shows "case civil_from_days z of (y, m, d) \<Rightarrow> 0 \<le> y \<and> (y < 10000 \<longleftrightarrow> z < 2932897)"
proof -
  obtain Y doy where d: "0 \<le> doy" "doy < year_days Y" "z = year_start Y + doy - 719468"
    "civil_from_days z = date_of Y doy" by (rule civil_exists)
  have len: "doy \<le> 365" using d(2) year_days_bounds(2) [of Y] by linarith
  have Y0: "0 \<le> Y" using assms d(1,3) len unfolding year_start_def by linarith
  have year: "fst (date_of Y doy) = (if doy \<le> 305 then Y else Y + 1)"
    using d(1,2) by (cases rule: day_months) (use d(1) in \<open>simp_all add: date_of_months\<close>)
  consider "Y \<le> 9998" | "Y = 9999" | "10000 \<le> Y" by linarith
  then have "(if doy \<le> 305 then Y else Y + 1) < 10000 \<longleftrightarrow> z < 2932897"
  proof cases
    case 1
    then have "z < 2932897" using d(3) len unfolding year_start_def by linarith
    with 1 show ?thesis by simp
  next
    case 2
    then show ?thesis using d(3) by (auto simp: year_start_def)
  next
    case 3
    then have "\<not> z < 2932897" using d(1,3) unfolding year_start_def by linarith
    with 3 show ?thesis by simp
  qed
  then show ?thesis using Y0 year d(4) by (cases "date_of Y doy") (auto split: if_splits)
qed

lemma digits_length: "0 < k \<Longrightarrow> n < 10 ^ k \<Longrightarrow> length (digits_of n) \<le> k"
proof (induction k arbitrary: n)
  case (Suc k)
  show ?case
  proof (cases "n < 10")
    case False
    with Suc.prems have "0 < k" by (cases k) auto
    moreover have "n div 10 < 10 ^ k" using Suc.prems(2) by auto
    ultimately show ?thesis using Suc.IH [of "n div 10"] False by (simp add: digits_of.simps [of n])
  qed (simp add: digits_of.simps [of n])
qed simp

lemma digits_length_ge: "10 ^ k \<le> n \<Longrightarrow> k < length (digits_of n)"
proof (induction k arbitrary: n)
  case 0
  then show ?case using digits_of_digits [of n] by simp
next
  case (Suc k)
  then have "10 ^ k \<le> n div 10" by simp
  moreover have "10 * 1 \<le> (10 :: nat) ^ Suc k" unfolding power_Suc by (intro mult_le_mono) simp_all
  then have "\<not> n < 10" using Suc.prems by linarith
  ultimately show ?case using Suc.IH [of "n div 10"] by (simp add: digits_of.simps [of n])
qed

lemma digits_value_zeros: "digits_value (replicate k (CHR ''0'') @ s) = digits_value s"
  by (induction k) (simp_all add: digits_value_def)

lemma zero_padded_digits: "list_all is_ascii_digit (zero_padded w n) \<and> zero_padded w n \<noteq> [] \<and> digits_value (zero_padded w n) = n"
  using digits_of_digits [of n]
  by (auto simp: zero_padded_def show_nat_def digits_value_zeros digits_value_of list_all_iff is_ascii_digit_def in_range_def)

lemma zero_padded_length: "0 < w \<Longrightarrow> n < 10 ^ w \<Longrightarrow> length (zero_padded w n) = w"
  using digits_length [of w n] by (simp add: zero_padded_def show_nat_def)

lemma zero_padded_2:
  assumes "n < 100"
  shows "\<exists>a b. zero_padded 2 n = [a, b] \<and> is_ascii_digit a \<and> is_ascii_digit b \<and> digits_value [a, b] = n"
proof -
  have "length (zero_padded 2 n) = 2" using assms zero_padded_length [of 2 n] by simp
  then obtain a b where "zero_padded 2 n = [a, b]"
    by (auto simp: numeral_eq_Suc length_Suc_conv)
  with zero_padded_digits [of 2 n] show ?thesis by simp
qed

lemma zero_padded_4:
  assumes "n < 10000"
  obtains a b c d where "zero_padded 4 n = [a, b, c, d]" "list_all is_ascii_digit [a, b, c, d]" "digits_value [a, b, c, d] = n"
proof -
  have "length (zero_padded 4 n) = 4" using assms zero_padded_length [of 4 n] by simp
  then obtain a b c d where "zero_padded 4 n = [a, b, c, d]"
    by (auto simp: numeral_eq_Suc length_Suc_conv)
  with that zero_padded_digits [of 4 n] show ?thesis by simp
qed

lemma digit_no_sign: "is_ascii_digit c \<Longrightarrow> c \<noteq> CHR ''+'' \<and> c \<noteq> CHR ''-'' \<and> \<not> is_whitespace c"
  by (auto simp: is_ascii_digit_def in_range_def is_whitespace_def Let_def)

lemma parse_i64_digits: "list_all is_ascii_digit d \<Longrightarrow> d \<noteq> [] \<Longrightarrow> parse_i64 d = Some (int (digits_value d))"
  by (cases d) (simp_all add: parse_i64_def digit_no_sign Let_def)

text \<open>A timestamp laid out from numbers, and what reading it gives.\<close>

definition behind_year :: "nat \<Rightarrow> nat \<Rightarrow> nat \<Rightarrow> nat \<Rightarrow> nat \<Rightarrow> string" where
  "behind_year m d h n s = ''-'' @ zero_padded 2 m @ ''-'' @ zero_padded 2 d @ ''T'' @ zero_padded 2 h @ '':''
     @ zero_padded 2 n @ '':'' @ zero_padded 2 s @ ''Z''"

lemma behind_year_chars:
  assumes "m < 100" "d < 100" "h < 100" "n < 100" "s < 100"
  obtains m1 m2 d1 d2 h1 h2 n1 n2 s1 s2 where "behind_year m d h n s = [CHR ''-'', m1, m2, CHR ''-'', d1, d2, CHR ''T'',
      h1, h2, CHR '':'', n1, n2, CHR '':'', s1, s2, CHR ''Z'']"
    "list_all is_ascii_digit [m1, m2, d1, d2, h1, h2, n1, n2, s1, s2]"
    "digits_value [m1, m2] = m" "digits_value [d1, d2] = d" "digits_value [h1, h2] = h" "digits_value [n1, n2] = n"
    "digits_value [s1, s2] = s"
proof -
  obtain m1 m2 where m: "zero_padded 2 m = [m1, m2]" "is_ascii_digit m1" "is_ascii_digit m2" "digits_value [m1, m2] = m"
    using zero_padded_2 [OF assms(1)] by blast
  obtain d1 d2 where d: "zero_padded 2 d = [d1, d2]" "is_ascii_digit d1" "is_ascii_digit d2" "digits_value [d1, d2] = d"
    using zero_padded_2 [OF assms(2)] by blast
  obtain h1 h2 where h: "zero_padded 2 h = [h1, h2]" "is_ascii_digit h1" "is_ascii_digit h2" "digits_value [h1, h2] = h"
    using zero_padded_2 [OF assms(3)] by blast
  obtain n1 n2 where n: "zero_padded 2 n = [n1, n2]" "is_ascii_digit n1" "is_ascii_digit n2" "digits_value [n1, n2] = n"
    using zero_padded_2 [OF assms(4)] by blast
  obtain s1 s2 where s: "zero_padded 2 s = [s1, s2]" "is_ascii_digit s1" "is_ascii_digit s2" "digits_value [s1, s2] = s"
    using zero_padded_2 [OF assms(5)] by blast
  show ?thesis
    by (rule that [of m1 m2 d1 d2 h1 h2 n1 n2 s1 s2]) (use m d h n s in \<open>simp_all add: behind_year_def\<close>)
qed

lemma timestamp_text:
  assumes "m < 100" "d < 100" "h < 100" "n < 100" "s < 100"
  shows "trim (zero_padded 4 y @ behind_year m d h n s) = zero_padded 4 y @ behind_year m d h n s"
    "\<not> list_all is_ascii_digit (zero_padded 4 y @ behind_year m d h n s)"
proof -
  obtain c r where c: "zero_padded 4 y = c # r" "is_ascii_digit c"
    using zero_padded_digits [of 4 y] by (cases "zero_padded 4 y") auto
  obtain b where b: "behind_year m d h n s = CHR ''-'' # b @ ''Z''" by (simp add: behind_year_def)
  show "trim (zero_padded 4 y @ behind_year m d h n s) = zero_padded 4 y @ behind_year m d h n s"
    "\<not> list_all is_ascii_digit (zero_padded 4 y @ behind_year m d h n s)"
    using digit_no_sign [OF c(2)] b
    by (simp_all add: c(1) trim_def trim_start_def trim_end_def is_whitespace_def is_ascii_digit_def in_range_def)
qed

lemma timestamp_reads:
  assumes y: "y < 10000" and md: "1 \<le> m" "m \<le> 12" "1 \<le> d" "d \<le> 31" and hns: "h < 24" "n < 60" "s < 60"
    and days: "days_from_civil (int y) (int m) (int d) = int days"
  shows "parse_rfc3339_ms (zero_padded 4 y @ behind_year m d h n s)
    = Parsed (Some ((days * 86400 + h * 3600 + n * 60 + s) * 1000))"
proof -
  have small: "m < 100" "d < 100" "h < 100" "n < 100" "s < 100" using md hns by simp_all
  define S where "S = zero_padded 4 y @ behind_year m d h n s"
  note t = timestamp_text [OF small, of y, folded S_def]
  obtain y1 y2 y3 y4 where y4: "zero_padded 4 y = [y1, y2, y3, y4]" "list_all is_ascii_digit [y1, y2, y3, y4]"
    "digits_value [y1, y2, y3, y4] = y" using y by (rule zero_padded_4)
  obtain m1 m2 d1 d2 h1 h2 n1 n2 s1 s2 where b: "behind_year m d h n s = [CHR ''-'', m1, m2, CHR ''-'', d1, d2, CHR ''T'',
      h1, h2, CHR '':'', n1, n2, CHR '':'', s1, s2, CHR ''Z'']"
    "list_all is_ascii_digit [m1, m2, d1, d2, h1, h2, n1, n2, s1, s2]"
    "digits_value [m1, m2] = m" "digits_value [d1, d2] = d" "digits_value [h1, h2] = h" "digits_value [n1, n2] = n"
    "digits_value [s1, s2] = s" by (rule behind_year_chars [OF small])
  have nums: "num_at S 0 4 = Some (int y)" "num_at S 5 7 = Some (int m)" "num_at S 8 10 = Some (int d)"
    "num_at S 11 13 = Some (int h)" "num_at S 14 16 = Some (int n)" "num_at S 17 19 = Some (int s)"
    using y4 b by (simp_all add: S_def num_at_def parse_i64_digits)
  have layout: "S \<noteq> []" "\<not> length S < 19" "S ! 4 = CHR ''-''" "S ! 7 = CHR ''-''" "S ! 13 = CHR '':''" "S ! 10 = CHR ''T''"
    "S ! 16 = CHR '':''" and rest: "drop 19 S = ''Z''" by (simp_all add: S_def y4(1) b(1))
  have frac: "fraction ''Z'' = (0, ''Z'')" "offset_secs ''Z'' = Offset (Some 0)"
    by (simp_all add: fraction_def strip_prefix_def offset_secs_def)
  have valid: "1 \<le> int m" "int m \<le> 12" "1 \<le> int d" "int d \<le> 31" "\<not> int h > 23" "\<not> int n > 59" using md hns by simp_all
  have seconds: "(days_from_civil (int y) (int m) (int d) * 86400 + int h * 3600 + int n * 60 + int s - 0) * 1000 + 0
      = int ((days * 86400 + h * 3600 + n * 60 + s) * 1000)" using days by simp
  show ?thesis
    unfolding S_def [symmetric] parse_rfc3339_ms_def Let_def t nums rest
    by (simp only: t layout frac option.case prod.case parsed_offset.case valid seconds if_False if_True
      simp_thms insert_iff of_nat_0_le_iff nat_int)
qed

lemma long_year_refused:
  assumes "10000 \<le> y" "m < 100" "d < 100" "h < 100" "n < 100" "s < 100"
  shows "parse_rfc3339_ms (zero_padded 4 y @ behind_year m d h n s) = Parsed None"
proof -
  have "10 ^ 4 \<le> y" using assms(1) by simp
  then have "4 < length (zero_padded 4 y)" using digits_length_ge [of 4 y] by (simp add: zero_padded_def show_nat_def)
  then have "(zero_padded 4 y @ behind_year m d h n s) ! 4 = zero_padded 4 y ! 4" "is_ascii_digit (zero_padded 4 y ! 4)"
    using zero_padded_digits [of 4 y] by (simp_all add: nth_append list_all_length)
  then have "(zero_padded 4 y @ behind_year m d h n s) ! 4 \<noteq> CHR ''-''" using digit_no_sign by simp
  then show ?thesis unfolding parse_rfc3339_ms_def Let_def timestamp_text [OF assms(2-6)]
    by (simp only: timestamp_text [OF assms(2-6)] simp_thms if_False if_True)
qed

lemma clock_parts:
  fixes r :: nat
  shows "r = (r div 3600) * 3600 + (r mod 3600 div 60) * 60 + r mod 60"
proof -
  have "r mod 3600 mod 60 = r mod 60" by (rule mod_mod_cancel) simp
  then show ?thesis using div_mult_mod_eq [of r 3600] div_mult_mod_eq [of "r mod 3600" 60] by linarith
qed

text \<open>
  C30. A transcript shows a time as a timestamp that reads back as that time to the second, for every time
  before the year 10000; a later one, which takes five digits for its year, is refused.
\<close>

theorem shown_time_reads_back:
  "parse_rfc3339_ms (rfc3339_from_ms ms) = Parsed (if ms < 253402300800000 then Some (ms div 1000 * 1000) else None)"
proof -
  define days where "days = ms div 1000 div 86400"
  define rem where "rem = ms div 1000 mod 86400"
  obtain y m d where date: "civil_from_days (int days) = (y, m, d)" by (cases "civil_from_days (int days)")
  have y: "0 \<le> y" "y < 10000 \<longleftrightarrow> ms < 253402300800000"
    using civil_year [of "int days"] date by (simp_all add: days_def) linarith
  have md: "1 \<le> m" "m \<le> 12" "1 \<le> d" "d \<le> 31"
    using civil_valid [of "int days"] date by (auto simp: valid_date_def month_length_def split: if_splits)
  have again: "days_from_civil y m d = int days" using days_from_civil_from_days [of "int days"] date by simp
  have rem: "rem div 3600 < 24" "rem mod 3600 div 60 < 60" "rem mod 60 < 60" unfolding rem_def by linarith+
  have shown: "rfc3339_from_ms ms = zero_padded 4 (nat y)
      @ behind_year (nat m) (nat d) (rem div 3600) (rem mod 3600 div 60) (rem mod 60)"
    by (simp add: rfc3339_from_ms_def Let_def date behind_year_def flip: days_def rem_def)
  show ?thesis
  proof (cases "ms < 253402300800000")
    case True
    have "days * 86400 + rem div 3600 * 3600 + rem mod 3600 div 60 * 60 + rem mod 60 = ms div 1000"
    proof -
      have "ms div 1000 = days * 86400 + rem" by (simp add: days_def rem_def)
      then show ?thesis using clock_parts [of rem] by linarith
    qed
    then show ?thesis unfolding shown using True y md rem again by (subst timestamp_reads [where days = days]) simp_all
  next
    case False
    then show ?thesis unfolding shown using y md rem by (subst long_year_refused) simp_all
  qed
qed

text \<open>
  What the reader lets through: a day the month does not have is one of the next month, a sign in front of
  a number counts, and seconds are not bounded; a suffix of six bytes that starts with a character of two panics.
\<close>

lemma reading_lets_through:
  "parse_rfc3339_ms ''2026-02-31T00:00:00Z'' = parse_rfc3339_ms ''2026-03-03T00:00:00Z''"
  "parse_rfc3339_ms ''2026-01-01T-5:00:00Z'' = parse_rfc3339_ms ''2025-12-31T19:00:00Z''"
  "parse_rfc3339_ms ''2026-01-01T00:00:99Z'' = parse_rfc3339_ms ''2026-01-01T00:01:39Z''"
  "parse_rfc3339_ms (''2026-01-01T00:00:00'' @ [CHR 0xC3, CHR 0xA9] @ ''1234'') = Panics"
  by (simp_all add: parse_rfc3339_ms_def Let_def trim_def trim_start_def trim_end_def is_whitespace_def
    is_ascii_digit_def in_range_def num_at_def parse_i64_def digits_value_def fraction_def strip_prefix_def
    offset_secs_def is_ascii_def days_from_civil_def)

end
