(* ===== verification/Transcript.thy ===== *)
theory Transcript
  imports Projection Civil_Time Claude_Parser
begin

text \<open>
  \<open>chat_transcript.rs\<close>: a chat as turns an operator can read. The cards of the timeline are grouped into turns
  at each message of the user, each card becomes a line, clipped with a mark of what was cut, and the turn
  records of the provider give every turn its outcome.

  What can go wrong is a value: a redaction that does not return, and the slice of \<open>find_pr_urls\<close> that panics
  where a link has the host \<open>pull\<close>. Parameters: those of the projection and \<open>from_str\<close>, which is
  \<open>serde_json::from_str\<close>. A workspace root is the text it displays as.
\<close>

section \<open>Turns and entries\<close>

datatype TurnOutcome = Running | Success | Failed | Interrupted | Unknown

datatype EntryKind = User | Assistant | Thinking | Tool | Prompt | Error | Event

fun turn_outcome_str :: "TurnOutcome \<Rightarrow> string" where
  "turn_outcome_str Running = ''running''"
| "turn_outcome_str Success = ''success''"
| "turn_outcome_str Failed = ''failed''"
| "turn_outcome_str Interrupted = ''interrupted''"
| "turn_outcome_str Unknown = ''unknown''"

record TranscriptEntry =
  te_kind :: EntryKind
  te_at :: "string option"
  te_tool :: "string option"
  te_text :: string
  te_status :: string
  te_result :: "string option"
  te_truncated :: bool
  te_nested :: bool
  te_at_ms :: "nat option"

record TranscriptTurn =
  tt_turn :: nat
  tt_started_at :: "string option"
  tt_ended_at :: "string option"
  tt_outcome :: TurnOutcome
  tt_elided :: nat
  tt_entries :: "TranscriptEntry list"
  tt_pr_urls :: "string list"
  tt_started_ms :: "nat option"
  tt_ended_ms :: "nat option"

record TranscriptOptions =
  to_workspace_root :: "string option"
  to_include_thinking :: bool
  to_full :: bool

definition USER_TEXT_LIMIT :: nat where "USER_TEXT_LIMIT = 200"
definition ASSISTANT_TEXT_LIMIT :: nat where "ASSISTANT_TEXT_LIMIT = 400"
definition TOOL_ARG_LIMIT :: nat where "TOOL_ARG_LIMIT = 80"
definition TOOL_RESULT_LIMIT :: nat where "TOOL_RESULT_LIMIT = 80"
definition DEFAULT_MAX_TURN_ENTRIES :: nat where "DEFAULT_MAX_TURN_ENTRIES = 10"

datatype failure = Redaction_never_returns | Slice_panics

section \<open>Text\<close>

definition one_line_text :: "string \<Rightarrow> string" where
  "one_line_text s = join '' '' (split_whitespace s)"

definition clip :: "string \<Rightarrow> nat \<Rightarrow> bool \<Rightarrow> string \<times> bool" where
  "clip s limit full =
     (let count = chars_count s
      in if full \<or> count \<le> limit then (s, False)
         else (trim_end (chars_take limit s) @ ''...[+'' @ show_nat (count - limit) @ '' chars]'', True))"

definition join_title_body :: "string \<Rightarrow> string \<Rightarrow> string" where
  "join_title_body title body =
     (if trim body = [] then trim title else if trim title = [] then trim body
      else trim title @ '': '' @ trim body)"

definition thinking_marker :: "string \<Rightarrow> string" where
  "thinking_marker body0 =
     (let body = trim body0; chars = show_nat (chars_count body) @ '' chars''
      in case position (\<lambda>c. c = CHR ''~'') body of None \<Rightarrow> chars
         | Some start \<Rightarrow> (let rest = drop start body in case find_str rest ''tokens'' of None \<Rightarrow> chars
             | Some end_at \<Rightarrow> take (end_at + length ''tokens'') rest))"

text \<open>\<open>trim_start_matches\<close> and \<open>trim_end_matches\<close> of a non-empty text: again and again.\<close>

function trim_start_matches :: "string \<Rightarrow> string \<Rightarrow> string" where
  "trim_start_matches pat s =
     (if pat \<noteq> [] \<and> prefix pat s then trim_start_matches pat (drop (length pat) s) else s)"
  by pat_completeness auto

termination by (relation "measure (\<lambda>(_, s). length s)") (auto simp: prefix_def)

declare trim_start_matches.simps [simp del]

definition trim_end_matches :: "string \<Rightarrow> string \<Rightarrow> string" where
  "trim_end_matches pat s = rev (trim_start_matches (rev pat) (rev s))"

text \<open>The bytes as \<open>f64\<close>; dividing by a power of two is exact.\<close>

definition f64_of_nat :: "nat \<Rightarrow> nat" where
  "f64_of_nat n = (if n < 2 ^ 53 then n
     else (let unit = 2 ^ (bit_length n - 53) in round_half_even n unit * unit))"

definition transcript_image_size :: "nat \<Rightarrow> string" where
  "transcript_image_size bytes =
     (if 1024 * 1024 \<le> bytes then one_decimal (f64_of_nat bytes) (1024 * 1024) @ '' MB''
      else if 1024 \<le> bytes then show_nat (bytes div 1024) @ '' KB'' else show_nat bytes @ '' B'')"

definition image_result_marker :: "ProjectionImage list \<Rightarrow> string" where
  "image_result_marker images = join '' '' (map (\<lambda>image.
     ''['' @ im_media_type image @ '' '' @ transcript_image_size (im_bytes image) @ '']'') images)"

section \<open>Pull requests\<close>

definition creates_pull_request :: "ProviderProjectionItem \<Rightarrow> string option \<Rightarrow> bool" where
  "creates_pull_request i full_input \<longleftrightarrow>
     (let names_creation = (\<lambda>s. list_ex (contains_str (to_ascii_lowercase s))
            [''gh pr create'', ''create_pull_request'', ''pull_request_create'', ''createpullrequest''])
      in pi_render_class i \<noteq> UserChat \<and> pi_render_class i \<noteq> AssistantChat
         \<and> (names_creation (pi_title i) \<or> (case full_input of None \<Rightarrow> False | Some s \<Rightarrow> names_creation s)))"

definition ends_link :: "char \<Rightarrow> bool" where
  "ends_link c \<longleftrightarrow> is_whitespace c \<or> c \<in> {CHR 0x22, CHR 0x27, CHR ''<'', CHR ''>'', CHR ''('', CHR '')'',
     CHR ''['', CHR '']'', CHR ''{'', CHR ''}'', CHR '','', CHR 0x60, CHR 0x5C}"

text \<open>The link of one candidate: none, one, or a panic, where \<open>/pull/\<close> begins before the host does.\<close>

definition pr_link :: "string \<Rightarrow> failure + string option" where
  "pr_link url = (case find_str url ''/pull/'' of None \<Rightarrow> Inr None
     | Some pull \<Rightarrow>
         if pull < length ''https://'' then Inl Slice_panics
         else (let digits = length (takeWhile is_ascii_digit (drop (pull + length ''/pull/'') url));
                   path_parts = length (split_on (CHR ''/'') (slice url (length ''https://'') pull))
               in Inr (if 0 < digits \<and> path_parts = 3 then Some (take (pull + length ''/pull/'' + digits) url) else None)))"

function find_pr_urls_from :: "string list \<Rightarrow> string \<Rightarrow> failure + string list" where
  "find_pr_urls_from urls rest = (case find_str rest ''https://'' of None \<Rightarrow> Inr urls
     | Some start \<Rightarrow>
         (let candidate = drop start rest;
              end_at = (case position ends_link candidate of None \<Rightarrow> length candidate | Some n \<Rightarrow> n)
          in case pr_link (take end_at candidate) of
               Inl e \<Rightarrow> Inl e
             | Inr link \<Rightarrow> find_pr_urls_from
                 (case link of None \<Rightarrow> urls | Some url \<Rightarrow> if url \<in> set urls then urls else urls @ [url])
                 (drop (max end_at 1) candidate)))"
  by pat_completeness auto

termination
proof (relation "measure (\<lambda>(_, rest). length rest)")
  fix urls rest start candidate end_at link
  assume "find_str rest ''https://'' = Some start" "candidate = drop start rest"
  then show "((case link of None \<Rightarrow> urls | Some url \<Rightarrow> if url \<in> set urls then urls else urls @ [url],
      drop (max end_at 1) candidate), urls, rest) \<in> measure (\<lambda>(_, rest). length rest)"
    using find_str_Some [of rest "''https://''" start] by auto
qed simp

declare find_pr_urls_from.simps [simp del]

definition find_pr_urls :: "string \<Rightarrow> failure + string list" where
  "find_pr_urls s = find_pr_urls_from [] s"

section \<open>A line for a card\<close>

definition json_input_target :: "(string \<Rightarrow> json option) \<Rightarrow> string \<Rightarrow> string option" where
  "json_input_target from_str body = Option.bind (from_str body) (\<lambda>v. trimmed_nonempty
     (find_map (\<lambda>key. Option.bind (jget v key) as_str)
       [''command'', ''file_path'', ''path'', ''pattern'', ''query'', ''url'', ''description'']))"

definition starts_object :: "string \<Rightarrow> bool" where
  "starts_object s \<longleftrightarrow> prefix ''{'' s"

definition echoes_input :: "(string \<Rightarrow> json option) \<Rightarrow> string \<Rightarrow> string \<Rightarrow> bool" where
  "echoes_input from_str body arg0 \<longleftrightarrow>
     arg0 \<noteq> [] \<and> starts_object body
     \<and> (case from_str body of
          Some (JObj entries) \<Rightarrow>
            map_of entries ''command'' \<noteq> None \<or> map_of entries ''file_path'' \<noteq> None
            \<or> (let arg = one_line_text arg0
               in list_ex (\<lambda>(_, w). case as_str w of None \<Rightarrow> False
                    | Some v0 \<Rightarrow> (let v = one_line_text v0 in v \<noteq> [] \<and> (prefix arg v \<or> prefix v arg))) entries)
        | _ \<Rightarrow> False)"

text \<open>The name of the tool and its argument, out of the title or the call's input.\<close>

definition tool_and_arg :: "string \<Rightarrow> string option \<Rightarrow> string \<times> string" where
  "tool_and_arg title target = (case position is_whitespace title of
       Some k \<Rightarrow> (trim_end_char (CHR '':'') (take k title), trim (drop (k + 1) title))
     | None \<Rightarrow> (trim_end_char (CHR '':'') title, unwrap_or target []))"

definition failed_item :: "ProviderProjectionItem \<Rightarrow> bool" where
  "failed_item i \<longleftrightarrow> pi_status i = ProviderProjectionStatus.Failed \<or> pi_status i = Canceled"

definition tool_entry :: "(string \<Rightarrow> json option) \<Rightarrow> ProviderProjectionItem \<Rightarrow> string option \<Rightarrow> string option \<Rightarrow>
    TranscriptOptions \<Rightarrow> string \<Rightarrow> TranscriptEntry" where
  "tool_entry from_str i target root options status =
     (let relative = (\<lambda>s. case root of Some r \<Rightarrow> replace_str r [] s | None \<Rightarrow> s);
          (tool, arg0) = tool_and_arg (one_line_text (pi_title i)) target;
          body = trim (pi_body i);
          input_target = (if arg0 = [] \<and> starts_object body then json_input_target from_str body else None);
          (arg, result0) = (case input_target of Some t \<Rightarrow> (t, [])
            | None \<Rightarrow> if arg0 = [] \<and> starts_object body then (body, [])
                else if echoes_input from_str body arg0 then (arg0, []) else (arg0, body));
          tool_error = prefix ''<tool_use_error>'' result0;
          result1 = trim_end_matches ''</tool_use_error>'' (trim_start_matches ''<tool_use_error>'' result0);
          (entry_text, arg_clipped) = clip (one_line_text (relative arg)) TOOL_ARG_LIMIT (to_full options);
          (result, result_clipped) =
            (if trim result1 = [] then
               (if pi_images i \<noteq> [] then Some (image_result_marker (pi_images i)) else None, False)
             else (let (shown, clipped) = clip (one_line_text (relative result1)) TOOL_RESULT_LIMIT (to_full options)
               in (Some (if pi_images i = [] then shown else shown @ '' '' @ image_result_marker (pi_images i)), clipped)))
      in \<lparr>te_kind = (if tool_error \<or> failed_item i then Error else Tool), te_at = None,
          te_tool = (if tool \<noteq> [] then Some tool else None), te_text = entry_text,
          te_status = (if tool_error then ''failed'' else status), te_result = result,
          te_truncated = (arg_clipped \<or> result_clipped), te_nested = False, te_at_ms = None\<rparr>)"

definition plain_entry :: "ProviderProjectionItem \<Rightarrow> EntryKind \<Rightarrow> string option \<Rightarrow> string \<times> bool \<Rightarrow> TranscriptEntry" where
  "plain_entry i kind tool t = \<lparr>te_kind = kind, te_at = None, te_tool = tool, te_text = fst t,
     te_status = projection_status_str (pi_status i), te_result = None, te_truncated = snd t,
     te_nested = False, te_at_ms = None\<rparr>"

definition transcript_entry :: "(string \<Rightarrow> json option) \<Rightarrow> ProviderProjectionItem \<Rightarrow> string option \<Rightarrow> string option \<Rightarrow>
    TranscriptOptions \<Rightarrow> TranscriptEntry option" where
  "transcript_entry from_str i target root options =
     (let clip_line = (\<lambda>s limit. clip (one_line_text s) limit (to_full options));
          card = clip_line (join_title_body (pi_title i) (pi_body i)) (TOOL_ARG_LIMIT + TOOL_RESULT_LIMIT);
          tool_line = Some (tool_entry from_str i target root options (projection_status_str (pi_status i)))
      in case pi_render_class i of
           UserChat \<Rightarrow> Some (if trim (pi_body i) = []
             then plain_entry i Event (Some ''Notification'') (''background task update'', False)
             else plain_entry i User None (clip_line (pi_body i) USER_TEXT_LIMIT))
         | AssistantChat \<Rightarrow> Some (plain_entry i Assistant None
             (clip (trim (pi_body i)) ASSISTANT_TEXT_LIMIT (to_full options)))
         | ReasoningCard \<Rightarrow> if to_include_thinking options
             then Some (plain_entry i Thinking None (thinking_marker (pi_body i), False)) else None
         | UsageCard \<Rightarrow> None
         | HookCard \<Rightarrow> if failed_item i then Some (plain_entry i Error None card) else None
         | StatusCard \<Rightarrow> if failed_item i then Some (plain_entry i Error None card) else None
         | PromptCard \<Rightarrow> Some (plain_entry i Prompt None card)
         | ErrorCard \<Rightarrow> Some (plain_entry i Error None card)
         | WarningCard \<Rightarrow> Some (plain_entry i Event (Some ''Warning'') card)
         | PlanCard \<Rightarrow> Some (plain_entry i Event (Some ''Plan'') card)
         | BackgroundCard \<Rightarrow> Some (plain_entry i Event (Some ''Background'') card)
         | _ \<Rightarrow> tool_line)"

section \<open>The turns of a chat\<close>

text \<open>What the records say of an item: when it was first told of, the id of its call, and what calls aim at.\<close>

record transcript_index =
  ti_times :: "string \<rightharpoonup> nat \<times> nat"
  ti_tool_use_ids :: "string \<rightharpoonup> string"
  ti_targets :: "string \<rightharpoonup> string"

definition index_record :: "ProviderEventRecord \<Rightarrow> transcript_index \<Rightarrow> transcript_index" where
  "index_record r x =
     (let at = nat (er_occurred_at_ms r); item = provider_projection_canonical_id r
      in x\<lparr>ti_tool_use_ids := (case er_provider_item_id r of Some item_id \<Rightarrow> (ti_tool_use_ids x)(item \<mapsto> item_id)
             | None \<Rightarrow> ti_tool_use_ids x),
           ti_times := (ti_times x)(item \<mapsto> (case ti_times x item of Some (first_at, last_at) \<Rightarrow> (min first_at at, max last_at at)
             | None \<Rightarrow> (at, at))),
           ti_targets := fold (\<lambda>(use_id, _, target) m. case target of Some t \<Rightarrow> m(use_id \<mapsto> t) | None \<Rightarrow> m)
             (assistant_tool_calls (er_raw_json r)) (ti_targets x)\<rparr>)"

definition transcript_index_of :: "ProviderEventRecord list \<Rightarrow> transcript_index" where
  "transcript_index_of records = fold index_record records
     \<lparr>ti_times = Map.empty, ti_tool_use_ids = Map.empty, ti_targets = Map.empty\<rparr>"

definition new_turn :: "nat \<Rightarrow> nat option \<Rightarrow> TranscriptTurn" where
  "new_turn n at_ms = \<lparr>tt_turn = n, tt_started_at = None, tt_ended_at = None, tt_outcome = Unknown, tt_elided = 0,
     tt_entries = [], tt_pr_urls = [], tt_started_ms = at_ms, tt_ended_ms = None\<rparr>"

definition push_new :: "'a \<Rightarrow> 'a list \<Rightarrow> 'a list" where
  "push_new x xs = (if x \<in> set xs then xs else xs @ [x])"

definition same_line :: "TranscriptEntry \<Rightarrow> TranscriptEntry \<Rightarrow> bool" where
  "same_line a b \<longleftrightarrow> te_kind a = te_kind b \<and> te_tool a = te_tool b \<and> te_text a = te_text b \<and> te_result a = te_result b"

definition push_entry :: "TranscriptEntry \<Rightarrow> TranscriptTurn \<Rightarrow> TranscriptTurn" where
  "push_entry e turn =
     (if tt_entries turn \<noteq> [] \<and> same_line (last (tt_entries turn)) e then turn
      else turn\<lparr>tt_entries := tt_entries turn @ [e]\<rparr>)"

definition add_item ::
    "(string \<Rightarrow> json option) \<Rightarrow> transcript_index \<Rightarrow> string set \<Rightarrow> string option \<Rightarrow> TranscriptOptions \<Rightarrow>
     ProviderProjectionItem \<Rightarrow> TranscriptTurn list \<Rightarrow> failure + TranscriptTurn list" where
  "add_item from_str x ids root options i turns0 =
     (let nested = (case pi_parent_id i of Some parent \<Rightarrow> parent \<in> ids | None \<Rightarrow> False);
          at_ms = map_option fst (ti_times x (pi_id i));
          starts_turn = (pi_render_class i = UserChat \<and> \<not> nested \<and> trim (pi_body i) \<noteq> []);
          turns = (if starts_turn \<or> turns0 = [] then turns0 @ [new_turn (length turns0 + 1) at_ms] else turns0);
          turn = last turns;
          target = Option.bind (ti_tool_use_ids x (pi_id i)) (ti_targets x)
      in case (if creates_pull_request i target then find_pr_urls (pi_body i) else Inr []) of
           Inl e \<Rightarrow> Inl e
         | Inr urls \<Rightarrow>
             (let linked = turn\<lparr>tt_pr_urls := fold push_new urls (tt_pr_urls turn)\<rparr>
              in Inr (butlast turns @ [case transcript_entry from_str i target root options of
                   None \<Rightarrow> linked
                 | Some entry \<Rightarrow> push_entry (entry\<lparr>te_nested := nested, te_at_ms := at_ms,
                     te_at := map_option rfc3339_from_ms at_ms\<rparr>) linked])))"

fun add_items ::
    "(string \<Rightarrow> json option) \<Rightarrow> transcript_index \<Rightarrow> string set \<Rightarrow> string option \<Rightarrow> TranscriptOptions \<Rightarrow>
     ProviderProjectionItem list \<Rightarrow> TranscriptTurn list \<Rightarrow> failure + TranscriptTurn list" where
  "add_items from_str x ids root options [] turns = Inr turns"
| "add_items from_str x ids root options (i # is) turns =
     (case add_item from_str x ids root options i turns of Inl e \<Rightarrow> Inl e
      | Inr turns' \<Rightarrow> add_items from_str x ids root options is turns')"

definition recorded_outcome :: "ProviderEventRecord \<Rightarrow> TurnOutcome option" where
  "recorded_outcome r = (case er_phase r of
       ProviderEventPhase.Completed \<Rightarrow>
         Some (if prefix ''error'' (unwrap_or (er_provider_subtype r) []) then Failed else Success)
     | ProviderEventPhase.Failed \<Rightarrow> Some Failed
     | ProviderEventPhase.Interrupted \<Rightarrow> Some Interrupted
     | ProviderEventPhase.Declined \<Rightarrow> Some Interrupted
     | _ \<Rightarrow> None)"

text \<open>The newest turn that had started when the record was made.\<close>

definition settle_turn :: "ProviderEventRecord \<Rightarrow> TranscriptTurn list \<Rightarrow> TranscriptTurn list" where
  "settle_turn r turns = (case recorded_outcome r of None \<Rightarrow> turns
     | Some outcome \<Rightarrow>
         (let at = nat (er_occurred_at_ms r)
          in case rposition (\<lambda>turn. case tt_started_ms turn of None \<Rightarrow> True | Some started \<Rightarrow> started \<le> at) turns of
               None \<Rightarrow> turns
             | Some n \<Rightarrow> turns[n := (turns ! n)\<lparr>tt_outcome := outcome, tt_ended_ms := Some at\<rparr>]))"

definition finish_turn :: "nat \<Rightarrow> TranscriptTurn \<Rightarrow> TranscriptTurn" where
  "finish_turn last_turn turn = turn\<lparr>
     tt_outcome := (if tt_ended_ms turn = None \<and> tt_turn turn = last_turn then Running else tt_outcome turn),
     tt_started_at := map_option rfc3339_from_ms (tt_started_ms turn),
     tt_ended_at := map_option rfc3339_from_ms (tt_ended_ms turn)\<rparr>"

definition build_chat_transcript ::
    "(string \<Rightarrow> string option) \<Rightarrow> (string \<times> string \<times> string option \<times> ProjectionImage list \<Rightarrow> nat) \<Rightarrow>
     (string \<Rightarrow> json option) \<Rightarrow> ProviderEventRecord list \<Rightarrow> TranscriptOptions \<Rightarrow> failure + TranscriptTurn list" where
  "build_chat_transcript key_of hash from_str records options =
     (case provider_projection_from_records key_of hash records of
        None \<Rightarrow> Inl Redaction_never_returns
      | Some projection \<Rightarrow>
          (let items = filter provider_projection_item_is_relevant_chat_event
                 (drop_echoed_user_messages (pp_items projection));
               root = map_option (\<lambda>r. trim_end_char (CHR ''/'') r @ ''/'') (to_workspace_root options)
           in case add_items from_str (transcript_index_of records) (set (map pi_id items)) root options items [] of
                Inl e \<Rightarrow> Inl e
              | Inr turns \<Rightarrow>
                  (let settled = fold settle_turn (filter (\<lambda>r. er_kind r = ProviderEventKind.Turn) records) turns
                   in Inr (map (finish_turn (length settled)) settled))))"

section \<open>The part a caller asked for\<close>

definition elide_early_entries :: "nat \<Rightarrow> TranscriptTurn \<Rightarrow> TranscriptTurn" where
  "elide_early_entries max_entries turn =
     (if length (tt_entries turn) \<le> max_entries then turn
      else (let keep_user = te_kind (tt_entries turn ! 0) = User;
                keep_tail = (if keep_user then max_entries - 1 else max_entries);
                start = length (tt_entries turn) - keep_tail;
                first_kept = (if keep_user then 1 else 0)
            in turn\<lparr>tt_elided := tt_elided turn + (start - first_kept),
                 tt_entries := take first_kept (tt_entries turn) @ drop start (tt_entries turn)\<rparr>))"

definition since_turn :: "nat option \<Rightarrow> TranscriptTurn \<Rightarrow> TranscriptTurn option" where
  "since_turn since_ms turn = (case since_ms of None \<Rightarrow> Some turn
     | Some since \<Rightarrow>
         if (case tt_ended_ms turn of Some ended \<Rightarrow> ended < since | None \<Rightarrow> False) then None
         else (let entries = filter (\<lambda>e. case or_else (te_at_ms e) (tt_started_ms turn) of None \<Rightarrow> True
                     | Some at \<Rightarrow> since \<le> at) (tt_entries turn)
               in if entries \<noteq> [] \<or> (case tt_ended_ms turn of Some ended \<Rightarrow> since \<le> ended | None \<Rightarrow> False)
                  then Some (turn\<lparr>tt_entries := entries\<rparr>) else None))"

definition select_turns :: "TranscriptTurn list \<Rightarrow> nat option \<Rightarrow> nat \<Rightarrow> nat option \<Rightarrow> TranscriptTurn list" where
  "select_turns turns since_ms tail max_entries =
     (let since = List.map_filter (since_turn since_ms) turns;
          newest = drop (length since - tail) since
      in case max_entries of None \<Rightarrow> newest | Some m \<Rightarrow> map (elide_early_entries (max m 2)) newest)"

definition current_tool :: "TranscriptTurn list \<Rightarrow> string option" where
  "current_tool turns =
     (if turns = [] \<or> tt_outcome (last turns) \<noteq> Running then None
      else map_option (\<lambda>e. case te_tool e of
          Some tool \<Rightarrow> if te_text e = [] then tool else tool @ '': '' @ te_text e
        | None \<Rightarrow> te_text e)
       (find (\<lambda>e. te_kind e = Tool \<and> (te_status e = ''running'' \<or> te_status e = ''pending''))
         (rev (tt_entries (last turns)))))"

definition last_outcome :: "TranscriptTurn list \<Rightarrow> TurnOutcome option" where
  "last_outcome turns = (if turns = [] then None else Some (tt_outcome (last turns)))"

definition latest_pr_url :: "TranscriptTurn list \<Rightarrow> string option" where
  "latest_pr_url turns =
     find_map (\<lambda>turn. if tt_pr_urls turn = [] then None else Some (last (tt_pr_urls turn))) (rev turns)"

end
