(* ===== verification/Transcript_Facts.thy ===== *)
theory Transcript_Facts
  imports Transcript
begin

text \<open>
  What a transcript of \<open>chat_transcript.rs\<close> promises: turns numbered in order, each but the first begun by the
  message of the user it answers, at most the last of them running; a selection that says how much it left out; links to pull requests
  that have the form of one. And the link that makes the search panic.
\<close>

section \<open>Turns\<close>

text \<open>A message of the user that is not a subagent's stands first in its turn.\<close>

definition begins_with_user :: "TranscriptTurn \<Rightarrow> bool" where
  "begins_with_user turn \<longleftrightarrow> (\<forall>e\<in>set (tl (tt_entries turn)). te_kind e = User \<longrightarrow> te_nested e)"

definition opened_by_user :: "TranscriptTurn \<Rightarrow> bool" where
  "opened_by_user turn \<longleftrightarrow> tt_entries turn \<noteq> [] \<and> te_kind (hd (tt_entries turn)) = User
     \<and> \<not> te_nested (hd (tt_entries turn))"

text \<open>
  Only the first turn may begin with something else, what the agent said before any message. Every other
  one begins with a message of the user, and no turn has a second.
\<close>

definition turns_in_order :: "TranscriptTurn list \<Rightarrow> bool" where
  "turns_in_order turns \<longleftrightarrow> map tt_turn turns = [1..<length turns + 1] \<and> list_all begins_with_user turns
     \<and> list_all opened_by_user (tl turns)"

definition untouched :: "TranscriptTurn \<Rightarrow> bool" where
  "untouched turn \<longleftrightarrow> tt_outcome turn = Unknown \<and> tt_ended_ms turn = None"

lemma tool_entry_kind: "te_kind (tool_entry from_str i target root options status) \<noteq> User"
  by (simp add: tool_entry_def case_prod_beta Let_def)

lemma transcript_entry_user:
  assumes "transcript_entry from_str i target root options = Some e" and "te_kind e = User"
  shows "pi_render_class i = UserChat \<and> trim (pi_body i) \<noteq> []"
  using assms by (cases "pi_render_class i")
    (auto simp: transcript_entry_def Let_def plain_entry_def tool_entry_kind split: if_splits)

lemma push_entry_begins:
  assumes "begins_with_user turn" and "te_kind e = User \<Longrightarrow> te_nested e \<or> tt_entries turn = []"
  shows "begins_with_user (push_entry e turn)"
  using assms by (cases "tt_entries turn") (auto simp: begins_with_user_def push_entry_def)

lemma push_entry_opens:
  "opened_by_user turn \<Longrightarrow> opened_by_user (push_entry e turn)"
  "te_kind e = User \<Longrightarrow> \<not> te_nested e \<Longrightarrow> tt_entries turn = [] \<Longrightarrow> opened_by_user (push_entry e turn)"
  by (auto simp: opened_by_user_def push_entry_def hd_append)

lemma opened_links [simp]: "opened_by_user (turn\<lparr>tt_pr_urls := urls\<rparr>) = opened_by_user turn"
  by (simp add: opened_by_user_def)

lemma starting_entry:
  "pi_render_class i = UserChat \<Longrightarrow> trim (pi_body i) \<noteq> [] \<Longrightarrow>
     \<exists>e. transcript_entry from_str i target root options = Some e \<and> te_kind e = User"
  by (simp add: transcript_entry_def Let_def plain_entry_def case_prod_beta)

lemma tl_append_last: "tl (xs @ [x]) = (if xs = [] then [] else tl xs @ [x])"
  by simp

lemma push_entry_fields [simp]:
  "tt_turn (push_entry e turn) = tt_turn turn" "tt_outcome (push_entry e turn) = tt_outcome turn"
  "tt_ended_ms (push_entry e turn) = tt_ended_ms turn"
  by (simp_all add: push_entry_def)

lemma add_item_order:
  assumes inv: "turns_in_order turns" "list_all untouched turns"
    and add: "add_item from_str x ids root options i turns = Inr turns'"
  shows "turns_in_order turns' \<and> list_all untouched turns' \<and> turns' \<noteq> []"
proof -
  define nested where "nested = (case pi_parent_id i of Some parent \<Rightarrow> parent \<in> ids | None \<Rightarrow> False)"
  define at_ms where "at_ms = map_option fst (ti_times x (pi_id i))"
  define starts where "starts \<longleftrightarrow> pi_render_class i = UserChat \<and> \<not> nested \<and> trim (pi_body i) \<noteq> []"
  define ts where "ts = (if starts \<or> turns = [] then turns @ [new_turn (length turns + 1) at_ms] else turns)"
  let ?target = "Option.bind (ti_tool_use_ids x (pi_id i)) (ti_targets x)"
  have ts: "map tt_turn ts = [1..<length ts + 1]" "list_all begins_with_user ts" "list_all untouched ts" "ts \<noteq> []"
    using inv by (auto simp: ts_def turns_in_order_def new_turn_def begins_with_user_def untouched_def Suc_le_eq)
  have fresh: "starts \<Longrightarrow> tt_entries (last ts) = []" by (simp add: ts_def new_turn_def)
  have "add_item from_str x ids root options i turns =
    (case (if creates_pull_request i ?target then find_pr_urls (pi_body i) else Inr []) of
       Inl e \<Rightarrow> Inl e
     | Inr urls \<Rightarrow> Inr (butlast ts @ [case transcript_entry from_str i ?target root options of
         None \<Rightarrow> (last ts)\<lparr>tt_pr_urls := fold push_new urls (tt_pr_urls (last ts))\<rparr>
       | Some entry \<Rightarrow> push_entry (entry\<lparr>te_nested := nested, te_at_ms := at_ms,
           te_at := map_option rfc3339_from_ms at_ms\<rparr>)
         ((last ts)\<lparr>tt_pr_urls := fold push_new urls (tt_pr_urls (last ts))\<rparr>)]))"
    by (simp only: add_item_def Let_def nested_def at_ms_def starts_def ts_def)
  with add obtain urls where "turns' = butlast ts @ [case transcript_entry from_str i ?target root options of
      None \<Rightarrow> (last ts)\<lparr>tt_pr_urls := fold push_new urls (tt_pr_urls (last ts))\<rparr>
    | Some entry \<Rightarrow> push_entry (entry\<lparr>te_nested := nested, te_at_ms := at_ms,
        te_at := map_option rfc3339_from_ms at_ms\<rparr>)
      ((last ts)\<lparr>tt_pr_urls := fold push_new urls (tt_pr_urls (last ts))\<rparr>)]"
    by (cases "if creates_pull_request i ?target then find_pr_urls (pi_body i) else Inr []") (simp_all, metis)
  then obtain t where t: "turns' = butlast ts @ [t]"
    and tdef: "t = (case transcript_entry from_str i ?target root options of
      None \<Rightarrow> (last ts)\<lparr>tt_pr_urls := fold push_new urls (tt_pr_urls (last ts))\<rparr>
    | Some entry \<Rightarrow> push_entry (entry\<lparr>te_nested := nested, te_at_ms := at_ms,
        te_at := map_option rfc3339_from_ms at_ms\<rparr>)
      ((last ts)\<lparr>tt_pr_urls := fold push_new urls (tt_pr_urls (last ts))\<rparr>))" by blast
  have same: "tt_turn t = tt_turn (last ts)" "tt_outcome t = tt_outcome (last ts)" "tt_ended_ms t = tt_ended_ms (last ts)"
    unfolding tdef by (simp_all split: option.split)
  have split: "ts = butlast ts @ [last ts]" using ts(4) by simp
  have last_good: "begins_with_user (last ts)" "untouched (last ts)"
    using ts(2-4) by (auto simp: list_all_iff)
  have "begins_with_user t"
  proof (cases "transcript_entry from_str i ?target root options")
    case None
    then show ?thesis using last_good(1) by (simp add: tdef begins_with_user_def)
  next
    case (Some e)
    have "te_kind e = User \<Longrightarrow> nested \<or> tt_entries (last ts) = []"
      using transcript_entry_user [OF Some] fresh by (auto simp: starts_def)
    then show ?thesis using last_good(1)
      by (simp add: tdef Some) (rule push_entry_begins, simp_all add: begins_with_user_def)
  qed
  moreover have "list_all opened_by_user (tl turns')"
  proof (cases "butlast ts = []")
    case False
    have kept: "opened_by_user t" if "opened_by_user (last ts)"
      using that by (simp add: tdef push_entry_opens(1) split: option.split)
    have "opened_by_user t \<and> list_all opened_by_user (tl (butlast ts))"
    proof (cases starts)
      case True
      then obtain e where e: "transcript_entry from_str i ?target root options = Some e" "te_kind e = User"
        using starting_entry [of i from_str ?target root options] by (auto simp: starts_def)
      then have "opened_by_user t"
        using fresh True by (simp add: tdef) (rule push_entry_opens(2), simp_all add: starts_def)
      moreover have "butlast ts = turns" using True by (simp add: ts_def)
      ultimately show ?thesis using inv(1) by (simp add: turns_in_order_def)
    next
      case other: False
      with False have old: "ts = turns" by (auto simp: ts_def split: if_splits)
      obtain u us where u: "turns = u # us" using ts(4) old by (cases turns) auto
      with False old have us: "us \<noteq> []" by auto
      with inv(1) u have "list_all opened_by_user us" by (simp add: turns_in_order_def)
      with us have "opened_by_user (last ts)" "list_all opened_by_user (butlast us)"
        by (auto simp: old u list_all_iff dest: in_set_butlastD)
      with kept us show ?thesis by (simp add: old u)
    qed
    with False show ?thesis by (simp add: t)
  qed (simp add: t)
  moreover have "untouched t" using last_good(2) same by (simp add: untouched_def)
  moreover have "map tt_turn turns' = map tt_turn (butlast ts @ [last ts])" by (simp add: t same(1))
  then have "map tt_turn turns' = map tt_turn ts" by (simp only: split [symmetric])
  moreover have "length turns' = length ts" using ts(4) by (simp add: t)
  moreover have "list_all begins_with_user (butlast ts)" "list_all untouched (butlast ts)"
    using ts(2,3) by (auto simp: list_all_iff dest: in_set_butlastD)
  ultimately show ?thesis using ts(1) t by (simp add: turns_in_order_def)
qed

lemma add_items_order:
  "add_items from_str x ids root options is turns = Inr turns' \<Longrightarrow> turns_in_order turns \<Longrightarrow> list_all untouched turns
   \<Longrightarrow> turns_in_order turns' \<and> list_all untouched turns'"
proof (induction "is" arbitrary: turns)
  case (Cons i "is")
  then show ?case by (auto split: sum.splits dest: add_item_order)
qed simp

text \<open>A turn that no record ended still has no outcome.\<close>

definition unsettled_unknown :: "TranscriptTurn \<Rightarrow> bool" where
  "unsettled_unknown turn \<longleftrightarrow> tt_outcome turn \<noteq> Running \<and> (tt_ended_ms turn = None \<longrightarrow> tt_outcome turn = Unknown)"

lemma settle_order:
  assumes "turns_in_order turns" "list_all unsettled_unknown turns"
  shows "turns_in_order (settle_turn r turns) \<and> list_all unsettled_unknown (settle_turn r turns)
    \<and> length (settle_turn r turns) = length turns"
proof (cases "recorded_outcome r")
  case None
  with assms show ?thesis by (simp add: settle_turn_def)
next
  case (Some outcome)
  have running: "outcome \<noteq> Running" using Some by (auto simp: recorded_outcome_def split: ProviderEventPhase.splits if_splits)
  show ?thesis
  proof (cases "rposition (\<lambda>turn. case tt_started_ms turn of None \<Rightarrow> True
      | Some started \<Rightarrow> started \<le> nat (er_occurred_at_ms r)) turns")
    case None
    with assms Some show ?thesis by (simp add: settle_turn_def Let_def)
  next
    case (Some n)
    then have n: "n < length turns" using rposition_Some by blast
    let ?t = "(turns ! n)\<lparr>tt_outcome := outcome, tt_ended_ms := Some (nat (er_occurred_at_ms r))\<rparr>"
    have s: "settle_turn r turns = turns[n := ?t]"
      using Some \<open>recorded_outcome r = Some outcome\<close> by (simp add: settle_turn_def Let_def)
    have "map tt_turn (turns[n := ?t]) = map tt_turn turns"
      using n by (simp add: map_update) (metis list_update_id length_map nth_map)
    moreover have "begins_with_user ?t" using assms(1) n by (simp add: turns_in_order_def begins_with_user_def list_all_length)
    moreover have "list_all opened_by_user (tl (turns[n := ?t]))"
      using assms(1) n by (cases n; cases turns)
        (auto simp: turns_in_order_def list_all_length opened_by_user_def nth_list_update)
    ultimately show ?thesis
      using assms running unfolding s turns_in_order_def
      by (auto simp: list_all_iff unsettled_unknown_def dest!: set_update_subset_insert [THEN subsetD])
  qed
qed

lemma settle_all_order:
  "turns_in_order turns \<Longrightarrow> list_all unsettled_unknown turns \<Longrightarrow>
   turns_in_order (fold settle_turn rs turns) \<and> list_all unsettled_unknown (fold settle_turn rs turns)
   \<and> length (fold settle_turn rs turns) = length turns"
  by (induction rs arbitrary: turns) (simp_all add: settle_order)

text \<open>
  C27. The turns of a transcript are numbered from one without gaps. Every turn after the first begins with
  a message of the user, the first may begin with what the agent said before any, and no turn has another
  such message further down; messages to a subagent do not count. No turn but the last is shown as running,
  that one exactly when no record has ended it.
\<close>

theorem transcript_turns_in_order:
  assumes "build_chat_transcript key_of hash from_str records options = Inr turns"
  shows "turns_in_order turns
    \<and> (\<forall>n<length turns. tt_outcome (turns ! n) = Running \<longleftrightarrow> n = length turns - 1 \<and> tt_ended_ms (turns ! n) = None)"
proof -
  from assms obtain added ids items root rs where
    added: "add_items from_str (transcript_index_of records) ids root options items [] = Inr added"
    and turns: "turns = map (finish_turn (length (fold settle_turn rs added))) (fold settle_turn rs added)"
    by (auto simp: build_chat_transcript_def Let_def split: option.splits sum.splits)
  have "turns_in_order added \<and> list_all untouched added"
    using add_items_order [OF added] by (simp add: turns_in_order_def)
  then have "turns_in_order added" "list_all unsettled_unknown added"
    by (auto simp: list_all_iff untouched_def unsettled_unknown_def)
  then have s: "turns_in_order (fold settle_turn rs added)" "list_all unsettled_unknown (fold settle_turn rs added)"
    using settle_all_order by blast+
  let ?s = "fold settle_turn rs added"
  have number: "n < length ?s \<Longrightarrow> tt_turn (?s ! n) = n + 1" for n
  proof -
    assume "n < length ?s"
    then have "tt_turn (?s ! n) = map tt_turn ?s ! n" by simp
    also have "\<dots> = [1..<length ?s + 1] ! n" using s(1) by (simp add: turns_in_order_def)
    finally show ?thesis using \<open>n < length ?s\<close> by (simp del: upt_Suc)
  qed
  have "turns_in_order turns" using s(1)
    by (auto simp: turns turns_in_order_def finish_turn_def begins_with_user_def opened_by_user_def list_all_iff o_def
      map_tl [symmetric])
  moreover have "tt_outcome (turns ! n) = Running \<longleftrightarrow> n = length turns - 1 \<and> tt_ended_ms (turns ! n) = None"
    if "n < length turns" for n
  proof -
    have "unsettled_unknown (?s ! n)" using s(2) that by (simp add: turns list_all_length)
    then show ?thesis using that number [of n] by (auto simp: turns finish_turn_def unsettled_unknown_def)
  qed
  ultimately show ?thesis by blast
qed

definition example_record :: ProviderEventRecord where
  "example_record = \<lparr>er_id = 1, er_identity_key = ''k1'', er_provider = ''claude'', er_provider_event_id = None,
     er_provider_item_id = None, er_provider_thread_id = None, er_provider_turn_id = None,
     er_parent_provider_item_id = None, er_parent_provider_thread_id = None, er_workspace_id = None,
     er_chat_thread_id = None, er_process_id = None, er_phase = ProviderEventPhase.Completed, er_kind = UserInput,
     er_provider_subtype = None, er_provider_sequence = None, er_received_sequence = 1, er_timeline_seq = None,
     er_occurred_at_ms = 5, er_normalized_payload = JObj [(''body'', JStr ''hello'')], er_raw_json = JNull,
     er_schema_version = 1, er_adapter_version = [], er_created_at = [], er_updated_at = []\<rparr>"

definition example_options :: TranscriptOptions where
  "example_options = \<lparr>to_workspace_root = None, to_include_thinking = False, to_full = True\<rparr>"

lemma example_text: "trim ''hello'' = ''hello''" "trim ''k1'' = ''k1''"
  by (simp_all add: trim_def trim_start_def trim_end_def is_whitespace_def)

lemma example_builds:
  "\<exists>t. build_chat_transcript (\<lambda>_. None) (\<lambda>_. 0) (\<lambda>_. None) [example_record] example_options = Inr [t]"
  by (simp add: build_chat_transcript_def provider_projection_from_records_def render_provider_event_projection_def
    project_event_def projection_item_from_event_def provider_projection_event_from_record_def example_record_def
    provider_projection_category_def provider_projection_category_uses_raw_payload_def canonical_projection_id_def
    provider_projection_canonical_id_def provider_projection_record_body_def example_text Let_def
    drop_echoed_user_messages_def provider_projection_item_is_relevant_chat_event_def
    provider_projection_item_is_parser_noise_def add_item_def creates_pull_request_def transcript_entry_def
    clip_def example_options_def push_entry_def new_turn_def)

theorem transcript_turns_in_order_witness:
  "\<exists>t. build_chat_transcript (\<lambda>_. None) (\<lambda>_. 0) (\<lambda>_. None) [example_record] example_options = Inr [t]
     \<and> tt_turn t = 1"
proof -
  obtain t where t: "build_chat_transcript (\<lambda>_. None) (\<lambda>_. 0) (\<lambda>_. None) [example_record] example_options = Inr [t]"
    using example_builds by blast
  from transcript_turns_in_order [OF t] have "tt_turn t = 1" by (simp add: turns_in_order_def)
  with t show ?thesis by blast
qed

section \<open>The part a caller asked for\<close>

lemma elide_keeps:
  fixes u :: TranscriptTurn
  assumes "2 \<le> m"
  defines "t \<equiv> elide_early_entries m u"
  shows "tt_turn t = tt_turn u" "tt_outcome t = tt_outcome u"
    "tt_elided t + length (tt_entries t) = tt_elided u + length (tt_entries u)"
    "length (tt_entries t) = min m (length (tt_entries u))" "subseq (tt_entries t) (tt_entries u)"
    "tt_entries u \<noteq> [] \<Longrightarrow> last (tt_entries t) = last (tt_entries u)"
    "tt_entries u \<noteq> [] \<Longrightarrow> te_kind (hd (tt_entries u)) = User \<Longrightarrow> hd (tt_entries t) = hd (tt_entries u)"
proof -
  show "tt_turn t = tt_turn u" "tt_outcome t = tt_outcome u" by (simp_all add: t_def elide_early_entries_def Let_def)
  show "tt_elided t + length (tt_entries t) = tt_elided u + length (tt_entries u)"
    "length (tt_entries t) = min m (length (tt_entries u))"
    using assms(1) by (auto simp: t_def elide_early_entries_def Let_def)
  have cut: "subseq (take n xs @ drop (n + k) xs) xs" for n k and xs :: "TranscriptEntry list"
  proof -
    have "subseq (drop (n + k) xs) (drop n xs)"
      by (metis add.commute drop_drop subseq_order.trans suffix_drop suffix_imp_subseq)
    then have "subseq (take n xs @ drop (n + k) xs) (take n xs @ drop n xs)"
      by (rule list_emb_append_mono [OF subseq_order.order_refl])
    then show ?thesis by (simp only: append_take_drop_id)
  qed
  from cut [where n = 1 and k = "length (tt_entries u) - (m - 1) - 1" and xs = "tt_entries u"]
    cut [where n = 0 and k = "length (tt_entries u) - m" and xs = "tt_entries u"]
  show "subseq (tt_entries t) (tt_entries u)"
    using assms(1) by (auto simp: t_def elide_early_entries_def Let_def Suc_diff_le split: if_splits)
  show "last (tt_entries t) = last (tt_entries u)" if "tt_entries u \<noteq> []"
    using assms(1) that by (auto simp: t_def elide_early_entries_def Let_def last_append last_drop)
  show "hd (tt_entries t) = hd (tt_entries u)" if "tt_entries u \<noteq> []" "te_kind (hd (tt_entries u)) = User"
    using assms(1) that by (cases "tt_entries u") (auto simp: t_def elide_early_entries_def Let_def)
qed

text \<open>What a caller that gives a time sees: the entries made since, and the turns that have any or ended since.\<close>

definition made_since :: "nat option \<Rightarrow> TranscriptTurn \<Rightarrow> TranscriptEntry \<Rightarrow> bool" where
  "made_since since turn e \<longleftrightarrow> (\<forall>time at. since = Some time \<and>
     (te_at_ms e = Some at \<or> te_at_ms e = None \<and> tt_started_ms turn = Some at) \<longrightarrow> time \<le> at)"

definition seen_since :: "nat option \<Rightarrow> TranscriptTurn \<Rightarrow> bool" where
  "seen_since since turn \<longleftrightarrow> (\<forall>time. since = Some time \<longrightarrow>
     (case tt_ended_ms turn of Some ended \<Rightarrow> time \<le> ended | None \<Rightarrow> \<exists>e\<in>set (tt_entries turn). made_since since turn e))"

lemma since_turn_seen: "since_turn since turn =
    (if seen_since since turn then Some (turn\<lparr>tt_entries := filter (made_since since turn) (tt_entries turn)\<rparr>) else None)"
proof (cases since)
  case None
  then show ?thesis by (simp add: since_turn_def seen_since_def made_since_def)
next
  case (Some time)
  have "(case or_else (te_at_ms e) (tt_started_ms turn) of None \<Rightarrow> True | Some at \<Rightarrow> time \<le> at) \<longleftrightarrow> made_since since turn e" for e
    by (cases "te_at_ms e") (auto simp: or_else_def made_since_def Some split: option.split)
  then show ?thesis
    by (cases "tt_ended_ms turn") (auto simp: since_turn_def seen_since_def Some filter_empty_conv Let_def)
qed

lemma elide_newest:
  assumes "2 \<le> m"
  shows "suffix (tl (tt_entries (elide_early_entries m u))) (tt_entries u)"
proof (cases "length (tt_entries u) \<le> m")
  case True
  then show ?thesis by (simp add: elide_early_entries_def suffix_tl)
next
  case False
  then obtain e es where "tt_entries u = e # es" by (cases "tt_entries u") auto
  moreover have "suffix (drop n es) (e # es)" "suffix (tl (drop n es)) (e # es)" "suffix (tl (e # es)) (e # es)" for n
    by (metis suffix_ConsI suffix_drop) (metis suffix_ConsI suffix_drop suffix_order.trans suffix_tl, rule suffix_tl)
  ultimately show ?thesis using False assms
    by (auto simp: elide_early_entries_def Let_def drop_Cons' simp del: drop_Suc split: if_splits)
qed

text \<open>
  C28. A selection shows the newest of the turns a caller may see, as many as were asked for or all there
  are, in order. In each it shows the newest entries made since the time asked for, as many as were asked
  for (two at the least, so asking for one or none gives two) or all, with the message of the user that
  begins them in front; the number of entries shown and the number said to be left out add up to those made
  since, entries made before are not counted.
\<close>

theorem selection_accounts_for_entries:
  defines "kept \<equiv> \<lambda>turns since. filter (seen_since since) turns"
  assumes "i < length (select_turns turns since tail (Some m))"
    and "t = select_turns turns since tail (Some m) ! i"
    and "u = kept turns since ! (length (kept turns since) - length (select_turns turns since tail (Some m)) + i)"
    and "es = filter (made_since since u) (tt_entries u)"
  shows "length (select_turns turns since tail (Some m)) = min tail (length (kept turns since))
    \<and> tt_turn t = tt_turn u \<and> length (tt_entries t) = min (max m 2) (length es)
    \<and> tt_elided t + length (tt_entries t) = tt_elided u + length es
    \<and> subseq (tt_entries t) es \<and> suffix (tl (tt_entries t)) es
    \<and> (es \<noteq> [] \<longrightarrow> last (tt_entries t) = last es \<and> (te_kind (hd es) = User \<longrightarrow> hd (tt_entries t) = hd es))"
proof -
  let ?cut = "\<lambda>u. u\<lparr>tt_entries := filter (made_since since u) (tt_entries u)\<rparr>" and ?k = "kept turns since"
  have "List.map_filter (since_turn since) turns = map ?cut ?k"
    unfolding kept_def by (induction turns) (simp_all add: map_filter_simps since_turn_seen)
  then have sel: "select_turns turns since tail (Some m) = map (elide_early_entries (max m 2)) (drop (length ?k - tail) (map ?cut ?k))"
    by (simp add: select_turns_def Let_def)
  then have len: "length (select_turns turns since tail (Some m)) = min tail (length ?k)" by simp
  with assms(2-4) sel have t: "t = elide_early_entries (max m 2) (?cut u)" by (simp add: min_def)
  have "2 \<le> max m 2" by simp
  note e = elide_keeps [OF this, of "?cut u", folded t] elide_newest [OF this, of "?cut u", folded t]
  then show ?thesis using len unfolding assms(5) by (intro conjI impI) simp_all
qed

definition example_entry :: "EntryKind \<Rightarrow> string \<Rightarrow> TranscriptEntry" where
  "example_entry k s = \<lparr>te_kind = k, te_at = None, te_tool = None, te_text = s, te_status = ''complete'',
     te_result = None, te_truncated = False, te_nested = False, te_at_ms = None\<rparr>"

definition example_turn :: TranscriptTurn where
  "example_turn = (new_turn 1 None)\<lparr>tt_entries := [example_entry User ''fix it'', example_entry Tool ''cargo test'',
     example_entry Assistant ''done'']\<rparr>"

theorem selection_accounts_for_entries_witness:
  "\<exists>t. select_turns [example_turn] None 5 (Some 1) = [t] \<and> length (tt_entries t) = 2 \<and> tt_elided t = 1
     \<and> hd (tt_entries t) = example_entry User ''fix it'' \<and> last (tt_entries t) = example_entry Assistant ''done''"
proof -
  have kept: "filter (seen_since None) [example_turn] = [example_turn]"
    "filter (made_since None example_turn) (tt_entries example_turn) = tt_entries example_turn"
    by (simp_all add: seen_since_def made_since_def)
  have len: "length (select_turns [example_turn] None 5 (Some 1)) = 1"
    by (simp add: select_turns_def since_turn_seen map_filter_simps seen_since_def)
  then obtain t where t: "select_turns [example_turn] None 5 (Some 1) = [t]" by (auto simp: length_Suc_conv)
  have "0 < length (select_turns [example_turn] None 5 (Some 1))" "t = select_turns [example_turn] None 5 (Some 1) ! 0"
    "example_turn = filter (seen_since None) [example_turn] ! (length (filter (seen_since None) [example_turn])
       - length (select_turns [example_turn] None 5 (Some 1)) + 0)"
    "tt_entries example_turn = filter (made_since None example_turn) (tt_entries example_turn)"
    by (simp_all only: len t kept) simp_all
  note r = selection_accounts_for_entries [OF this]
  have e: "length (tt_entries example_turn) = 3" "tt_elided example_turn = 0" "tt_entries example_turn \<noteq> []"
    "hd (tt_entries example_turn) = example_entry User ''fix it''" "te_kind (hd (tt_entries example_turn)) = User"
    "last (tt_entries example_turn) = example_entry Assistant ''done''"
    by (simp_all add: example_turn_def new_turn_def example_entry_def)
  from r e(3,5) have n: "length (tt_entries t) = min 2 (length (tt_entries example_turn))"
    "tt_elided t + length (tt_entries t) = tt_elided example_turn + length (tt_entries example_turn)"
    and ends: "last (tt_entries t) = last (tt_entries example_turn)" "hd (tt_entries t) = hd (tt_entries example_turn)"
    by simp_all
  from n have "length (tt_entries t) = 2" "tt_elided t = 1" by (simp_all add: e(1,2))
  with t ends show ?thesis by (simp add: e)
qed

section \<open>Pull requests\<close>

lemma find_pr_urls_panics:
  assumes "find_str s ''https://'' = Some n" and "prefix ''https://pull/'' (drop n s)"
  shows "find_pr_urls_from urls s = Inl Slice_panics"
proof -
  obtain r where r: "drop n s = ''https://pull/'' @ r" using assms(2) by (auto simp: prefix_def)
  define end_at where "end_at = (case position ends_link (drop n s) of None \<Rightarrow> length (drop n s) | Some k \<Rightarrow> k)"
  have safe: "\<not> ends_link c" if "c \<in> set ''https://pull/''" for c
    using that by (auto simp: ends_link_def is_whitespace_def)
  have skip: "position p (xs @ ys) = map_option (\<lambda>k. length xs + k) (position p ys)"
    if "\<forall>x\<in>set xs. \<not> p x" for p and xs ys :: string
    using that
  proof (induction xs)
    case Nil
    show ?case by (cases "position p ys") simp_all
  next
    case (Cons x xs)
    then show ?case by (cases "position p ys") simp_all
  qed
  have "position ends_link (drop n s) = map_option (\<lambda>k. length ''https://pull/'' + k) (position ends_link r)"
    unfolding r by (rule skip) (use safe in blast)
  then have "length ''https://pull/'' \<le> end_at"
    by (auto simp: end_at_def r split: option.split)
  then obtain r' where r': "take end_at (drop n s) = ''https://pull/'' @ r'"
    unfolding r take_append by (metis take_all)
  have "find_str (''https://pull/'' @ r') ''/pull/'' = Some 7" by simp
  then have "pr_link (take end_at (drop n s)) = Inl Slice_panics" unfolding r' by (simp add: pr_link_def)
  then show ?thesis using assms(1)
    by (subst find_pr_urls_from.simps) (simp add: Let_def end_at_def [symmetric])
qed

text \<open>A link as GitHub writes one: a host, an owner, a repository and a number.\<close>

definition pr_form :: "string \<Rightarrow> bool" where
  "pr_form url \<longleftrightarrow> (\<exists>path digits. url = ''https://'' @ path @ ''/pull/'' @ digits
     \<and> length (split_on (CHR ''/'') path) = 3 \<and> digits \<noteq> [] \<and> list_all is_ascii_digit digits)"

lemma pr_link_form:
  assumes "prefix ''https://'' url" and "pr_link url = Inr (Some link)"
  shows "pr_form link \<and> prefix link url"
proof -
  from assms(2) obtain pull where pull: "find_str url ''/pull/'' = Some pull" "length ''https://'' \<le> pull"
    by (auto simp: pr_link_def Let_def split: option.splits if_splits)
  obtain rest where rest: "drop pull url = ''/pull/'' @ rest"
    using find_str_Some [OF pull(1)] by (auto simp: prefix_def)
  obtain more where more: "url = ''https://'' @ more" using assms(1) by (auto simp: prefix_def)
  define path where "path = slice url (length ''https://'') pull"
  define digits where "digits = takeWhile is_ascii_digit rest"
  have whole: "url = take pull url @ ''/pull/'' @ rest" using rest by (metis append_take_drop_id)
  have n: "pull \<le> length url" using find_str_Some [OF pull(1)] by simp
  obtain k where k: "pull = length ''https://'' + k" using pull(2) le_Suc_ex by blast
  have "take (length xs + k) (xs @ more) = xs @ slice (xs @ more) (length xs) (length xs + k)" for xs
    by (simp add: slice_def)
  then have head: "take pull url = ''https://'' @ path" unfolding k path_def more .
  have behind: "drop (pull + length ''/pull/'') url = rest"
  proof -
    have "drop (pull + length xs) url = ys" if "drop pull url = xs @ ys" for xs ys
      using that by (metis add.commute append_eq_conv_conj drop_drop)
    from this [OF rest] show ?thesis .
  qed
  from assms(2) have link: "digits \<noteq> []" "length (split_on (CHR ''/'') path) = 3"
    "link = take (pull + length ''/pull/'' + length digits) url"
    using pull behind by (auto simp: pr_link_def Let_def path_def digits_def split: if_splits)
  have "take (length digits) rest = digits" unfolding digits_def by (metis takeWhile_eq_take)
  have "link = take (pull + length ''/pull/'' + length digits) (take pull url @ ''/pull/'' @ rest)"
    unfolding link(3) by (subst whole) (rule refl)
  also have "\<dots> = take pull url @ ''/pull/'' @ digits"
  proof -
    have "take (n + length ys + k) (xs @ ys @ rest) = xs @ ys @ take k rest" if "length xs = n" for n k xs ys
      using that by simp
    from this [of "take pull url" pull "''/pull/''" "length digits"] n \<open>take (length digits) rest = digits\<close>
    show ?thesis by (simp only: length_take min_absorb2)
  qed
  finally have "link = ''https://'' @ path @ ''/pull/'' @ digits" by (simp add: head)
  moreover have "list_all is_ascii_digit digits" by (auto simp: digits_def list_all_iff dest: set_takeWhileD)
  ultimately have "pr_form link" using link unfolding pr_form_def by blast
  moreover have "prefix link url" by (simp add: link(3) take_is_prefix)
  ultimately show ?thesis by simp
qed

lemma contains_drop: "contains_str (drop n s) u \<Longrightarrow> contains_str s u"
  unfolding contains_str_iff by (metis append.assoc append_take_drop_id)

lemma contains_prefix: "prefix u s \<Longrightarrow> contains_str s u"
  unfolding contains_str_iff prefix_def by (metis append_Nil)

lemma find_pr_urls_from_links:
  "find_pr_urls_from urls s = Inr links \<Longrightarrow> distinct urls \<Longrightarrow> (\<forall>u\<in>set urls. pr_form u \<and> contains_str whole u) \<Longrightarrow>
   (\<forall>u. contains_str s u \<longrightarrow> contains_str whole u) \<Longrightarrow>
   distinct links \<and> (\<forall>u\<in>set links. pr_form u \<and> contains_str whole u)"
proof (induction urls s rule: find_pr_urls_from.induct)
  case (1 urls rest)
  show ?case
  proof (cases "find_str rest ''https://''")
    case None
    then show ?thesis using "1.prems" by (simp add: find_pr_urls_from.simps [of urls rest])
  next
    case (Some start)
    define candidate where "candidate = drop start rest"
    define end_at where "end_at = (case position ends_link candidate of None \<Rightarrow> length candidate | Some n \<Rightarrow> n)"
    from "1.prems"(1) Some obtain link where link: "pr_link (take end_at candidate) = Inr link"
      and step: "find_pr_urls_from (case link of None \<Rightarrow> urls | Some url \<Rightarrow> if url \<in> set urls then urls else urls @ [url])
        (drop (max end_at 1) candidate) = Inr links"
      by (auto simp: find_pr_urls_from.simps [of urls rest] Let_def candidate_def [symmetric] end_at_def [symmetric]
        split: sum.splits)
    have https: "prefix ''https://'' candidate" using find_str_Some [OF Some] by (simp add: candidate_def)
    have within: "contains_str candidate u \<Longrightarrow> contains_str whole u" for u
      using "1.prems"(4) contains_drop [of start rest u] by (simp add: candidate_def)
    have good: "pr_form u \<and> contains_str whole u" if "link = Some u" for u
    proof -
      have "prefix ''https://'' (take end_at candidate)"
      proof -
        obtain r where r: "candidate = ''https://'' @ r" using https by (auto simp: prefix_def)
        have "8 \<le> end_at"
          by (auto simp: end_at_def r ends_link_def is_whitespace_def split: option.split)
        then show ?thesis unfolding r take_append by simp
      qed
      from pr_link_form [OF this] link that have "pr_form u" "prefix u candidate"
        using prefix_order.trans [OF _ take_is_prefix] by auto
      then show ?thesis using within contains_prefix by blast
    qed
    show ?thesis
    proof (rule "1.IH" [OF Some candidate_def end_at_def link step])
      show "distinct (case link of None \<Rightarrow> urls | Some url \<Rightarrow> if url \<in> set urls then urls else urls @ [url])"
        using "1.prems"(2) by (simp split: option.split)
      show "\<forall>u\<in>set (case link of None \<Rightarrow> urls | Some url \<Rightarrow> if url \<in> set urls then urls else urls @ [url]).
          pr_form u \<and> contains_str whole u"
        using "1.prems"(3) good by (auto split: option.splits if_splits)
      show "\<forall>u. contains_str (drop (max end_at 1) candidate) u \<longrightarrow> contains_str whole u"
        using within contains_drop by blast
    qed
  qed
qed

text \<open>
  What a transcript takes for the link of a pull request is one: a host, an owner, a repository and a number,
  standing in the text as it is, each link once.
\<close>

lemma found_links_are_pull_requests:
  assumes "find_pr_urls s = Inr urls"
  shows "distinct urls \<and> (\<forall>u\<in>set urls. pr_form u \<and> contains_str s u)"
  using find_pr_urls_from_links [of "[]" s urls s] assms by (simp add: find_pr_urls_def)

definition example_output :: string where
  "example_output = ''see https://github.com/o/r/pull/41, and''"

lemma example_link: "find_pr_urls example_output = Inr [''https://github.com/o/r/pull/41'']"
  by (simp add: find_pr_urls_def example_output_def find_pr_urls_from.simps [of _ "_ # _"] find_pr_urls_from.simps [of _ "[]"]
    Let_def ends_link_def is_whitespace_def pr_link_def is_ascii_digit_def in_range_def slice_def)

text \<open>
  A first link of a text whose host is \<open>pull\<close> makes the search for pull requests panic: the path
  is sliced from behind the scheme up to the \<open>/pull/\<close> that the host already is.
\<close>

lemma host_pull_panics:
  assumes "find_str s ''https://'' = Some n" and "prefix ''https://pull/'' (drop n s)"
  shows "find_pr_urls s = Inl Slice_panics"
  using find_pr_urls_panics [OF assms] by (simp add: find_pr_urls_def)

end
