(* ===== verification/Workspace_Store.thy ===== *)
theory Workspace_Store
  imports Session_Runtime
begin

text \<open>
  The workspaces of the store and what the daemon does in them with \<open>git\<close> and \<open>gh\<close>
  (\<open>crates/core/src/workspace.rs\<close>, with the parsers of \<open>github_pr.rs\<close>): names and renaming, changed files,
  staging, committing and pushing, and opening a pull request.

  An operation takes the store to the store it leaves and to its result, an error being the chain of its
  messages, outermost first. What lies outside is a record of arguments: the clock, the answer of a
  command (which may depend on every command run before), the paths that exist and the parser of JSON.
  Every command run is recorded in order. SQL errors of single statements are left out; a row a look-up
  does not find is an error, as in the code. The columns the synchronisation of pull requests writes
  (\<open>checks_state\<close>, \<open>checks_counts\<close>) and \<open>branch_generated\<close> are not kept.
\<close>

section \<open>Rows\<close>

record Workspace =
  wk_id :: int
  wk_repository_id :: int
  wk_name :: string
  wk_path :: string
  wk_branch :: string
  wk_base_ref :: string
  wk_port_base :: nat
  wk_status :: string
  wk_archived_at :: "string option"
  wk_created_at :: string
  wk_updated_at :: string

record PullRequest =
  pl_id :: int
  pl_workspace_id :: int
  pl_provider :: string
  pl_number :: int
  pl_url :: string
  pl_state :: string
  pl_created_at :: string
  pl_updated_at :: string

record WorkspaceTimelineEvent =
  we_id :: int
  we_workspace_id :: int
  we_workspace_name :: string
  we_kind :: string
  we_summary :: string
  we_created_at :: string

record RepositoryRecord =
  rr_id :: int
  rr_root_path :: string
  rr_default_branch :: string
  rr_remote_name :: string
  rr_workspace_parent_path :: string

record Task =
  tk_id :: int
  tk_workspace_id :: int
  tk_title :: string
  tk_body :: string
  tk_status :: string
  tk_owner_session_id :: "int option"
  tk_owner :: "string option"
  tk_intended_areas :: "string list"
  tk_blocked_reason :: "string option"
  tk_review_notes :: string
  tk_linked_session_ids :: "int list"
  tk_created_at :: string
  tk_updated_at :: string

record Summary =
  sm_id :: int
  sm_workspace_id :: int
  sm_scope_type :: string
  sm_scope_id :: int
  sm_body_markdown :: string
  sm_source_refs :: "string list"
  sm_created_at :: string
  sm_updated_at :: string

record SummaryRefreshState =
  rs_id :: int
  rs_workspace_id :: int
  rs_scope_type :: string
  rs_scope_id :: int
  rs_source :: string
  rs_evidence_hash :: string
  rs_latest_message_id :: "int option"
  rs_latest_provider_sequence :: "int option"
  rs_last_refreshed_at :: string

text \<open>The columns of a chat thread and of a process the operations here use.\<close>

record thread_columns =
  ct_id :: int
  ct_workspace_id :: int
  ct_provider :: string
  ct_title :: string
  ct_status :: string
  ct_task_id :: "int option"
  ct_intended_areas :: string
  ct_updated_at :: string

record process_columns =
  px_id :: int
  px_workspace_id :: int
  px_chat_thread_id :: "int option"
  px_kind :: string
  px_pid :: nat
  px_log_path :: string
  px_status :: ProcessStatus

text \<open>The row of a background task: the fields of the code's struct, and the workspace id the row keeps.\<close>

record BackgroundTask =
  bk_id :: int
  bk_repository_name :: string
  bk_workspace_id :: "int option"
  bk_workspace_name :: "string option"
  bk_task_id :: "int option"
  bk_title :: string
  bk_prompt :: string
  bk_provider :: string
  bk_status :: string
  bk_run_checks :: bool
  bk_open_pr :: bool
  bk_draft_pr :: bool
  bk_detail :: string
  bk_error :: "string option"
  bk_created_at :: string
  bk_updated_at :: string

text \<open>A command: the directory it runs in (the daemon's own where there is none), the program and its arguments.\<close>

record outside_command =
  oc_cwd :: "string option"
  oc_program :: string
  oc_args :: "string list"

text \<open>Its outcome: it did not start, or it ended with success or not, leaving what it printed.\<close>

datatype outcome = Not_run string | Ended bool string string

record ws_store =
  st_workspaces :: "Workspace list"
  st_repositories :: "RepositoryRecord list"
  st_pull_requests :: "PullRequest list"
  st_timeline :: "WorkspaceTimelineEvent list"
  st_spotlights :: "(int \<times> string) list"
  st_tasks :: "Task list"
  st_summaries :: "Summary list"
  st_refresh_states :: "SummaryRefreshState list"
  st_threads :: "thread_columns list"
  st_processes :: "process_columns list"
  st_queue :: queue
  st_background :: "BackgroundTask list"
  st_commands :: "outside_command list"

record outside =
  ou_now :: string
  ou_run :: "outside_command list \<Rightarrow> outside_command \<Rightarrow> outcome"
  ou_paths :: "string list"
  ou_from_str :: "string \<Rightarrow> json option"

section \<open>Operations that may fail\<close>

type_synonym error_chain = "string list"

type_synonym ('s, 'a) operation = "'s \<Rightarrow> 's \<times> (error_chain + 'a)"

definition give :: "'a \<Rightarrow> ('s, 'a) operation" where
  "give x s = (s, Inr x)"

definition bail :: "error_chain \<Rightarrow> ('s, 'a) operation" where
  "bail e s = (s, Inl e)"

definition read_store :: "('s \<Rightarrow> 'a) \<Rightarrow> ('s, 'a) operation" where
  "read_store f s = (s, Inr (f s))"

definition write_store :: "('s \<Rightarrow> 's) \<Rightarrow> ('s, unit) operation" where
  "write_store f s = (f s, Inr ())"

text \<open>\<open>?\<close>: the next operation runs on a result, an error ends the whole.\<close>

definition chain :: "('s, 'a) operation \<Rightarrow> ('a \<Rightarrow> ('s, 'b) operation) \<Rightarrow> ('s, 'b) operation" where
  "chain m f s = (case m s of (t, Inl e) \<Rightarrow> (t, Inl e) | (t, Inr x) \<Rightarrow> f x t)"

text \<open>The result kept as a value, errors included.\<close>

definition attempt :: "('s, 'a) operation \<Rightarrow> ('s, error_chain + 'a) operation" where
  "attempt m s = (case m s of (t, r) \<Rightarrow> (t, Inr r))"

definition ensure :: "bool \<Rightarrow> string \<Rightarrow> ('s, unit) operation" where
  "ensure b message = (if b then give () else bail [message])"

definition lift_result :: "error_chain + 'a \<Rightarrow> ('s, 'a) operation" where
  "lift_result r = (case r of Inl e \<Rightarrow> bail e | Inr x \<Rightarrow> give x)"

text \<open>\<open>context\<close>: a message in front of the chain.\<close>

definition with_context :: "string \<Rightarrow> ('s, 'a) operation \<Rightarrow> ('s, 'a) operation" where
  "with_context message m s = (case m s of (t, Inl e) \<Rightarrow> (t, Inl (message # e)) | (t, Inr x) \<Rightarrow> (t, Inr x))"

text \<open>An error shown by \<open>{err:#}\<close>, and by \<open>to_string\<close>.\<close>

definition show_chain :: "error_chain \<Rightarrow> string" where
  "show_chain e = join '': '' e"

definition show_error :: "error_chain \<Rightarrow> string" where
  "show_error e = (case e of [] \<Rightarrow> [] | m # _ \<Rightarrow> m)"

named_theorems step_simps \<open>running operations that may fail\<close>

lemma chain_give [step_simps]: "chain (give x) f = f x"
  by (simp add: chain_def give_def fun_eq_iff)

lemma chain_bail [step_simps]: "chain (bail e) f = bail e"
  by (simp add: chain_def bail_def fun_eq_iff)

lemma chain_read [step_simps]: "chain (read_store g) f s = f (g s) s"
  by (simp add: chain_def read_store_def)

lemma chain_write [step_simps]: "chain (write_store g) f s = f () (g s)"
  by (simp add: chain_def write_store_def)

lemma chain_assoc: "chain (chain m f) g = chain m (\<lambda>x. chain (f x) g)"
  by (simp add: chain_def fun_eq_iff split: prod.split sum.split)

lemma give_run [step_simps]: "give x s = (s, Inr x)"
  by (simp add: give_def)

lemma bail_run [step_simps]: "bail e s = (s, Inl e)"
  by (simp add: bail_def)

lemma chain_ensure [step_simps]: "chain (ensure b message) f = (if b then f () else bail [message])"
  by (simp add: ensure_def step_simps)

text \<open>What an operation keeps: its parts keep it.\<close>

definition keeps :: "('s \<Rightarrow> 'p) \<Rightarrow> ('s, 'a) operation \<Rightarrow> bool" where
  "keeps part m \<longleftrightarrow> (\<forall>s. part (fst (m s)) = part s)"

named_theorems keeps_intros \<open>what operations leave alone\<close>

lemma keeps_give [keeps_intros]: "keeps part (give x)"
  by (simp add: keeps_def give_def)

lemma keeps_bail [keeps_intros]: "keeps part (bail e)"
  by (simp add: keeps_def bail_def)

lemma keeps_read [keeps_intros]: "keeps part (read_store f)"
  by (simp add: keeps_def read_store_def)

lemma keeps_ensure [keeps_intros]: "keeps part (ensure b message)"
  by (simp add: ensure_def keeps_intros)

lemma keeps_lift [keeps_intros]: "keeps part (lift_result r)"
  by (cases r) (simp_all add: lift_result_def keeps_intros)

lemma keeps_write [keeps_intros]: "(\<And>s. part (f s) = part s) \<Longrightarrow> keeps part (write_store f)"
  by (simp add: keeps_def write_store_def)

lemma keepsD: "keeps part m \<Longrightarrow> m s = (t, r) \<Longrightarrow> part t = part s"
  by (metis fst_conv keeps_def)

lemma keeps_chain [keeps_intros]:
  assumes "keeps part m" and "\<And>x. keeps part (f x)"
  shows "keeps part (chain m f)"
  unfolding keeps_def
proof
  fix s
  obtain t r where m: "m s = (t, r)" by (metis surj_pair)
  then have "part t = part s" by (rule keepsD [OF assms(1)])
  with assms(2) show "part (fst (chain m f s)) = part s"
    by (cases r) (simp_all add: chain_def m keeps_def)
qed

lemma keeps_attempt [keeps_intros]: "keeps part m \<Longrightarrow> keeps part (attempt m)"
  by (simp add: keeps_def attempt_def case_prod_beta)

lemma keeps_context [keeps_intros]: "keeps part m \<Longrightarrow> keeps part (with_context message m)"
  by (simp add: keeps_def with_context_def case_prod_beta split: sum.split)

section \<open>Looking rows up\<close>

definition no_rows :: string where
  "no_rows = ''Query returned no rows''"

definition row_or :: "string \<Rightarrow> 'a option \<Rightarrow> error_chain + 'a" where
  "row_or message row = (case row of None \<Rightarrow> Inl [message, no_rows] | Some r \<Rightarrow> Inr r)"

definition find_workspace :: "string \<Rightarrow> ws_store \<Rightarrow> Workspace option" where
  "find_workspace name s = find (\<lambda>w. wk_name w = name) (st_workspaces s)"

definition get_by_name :: "string \<Rightarrow> (ws_store, Workspace) operation" where
  "get_by_name name = chain (read_store (find_workspace name)) (\<lambda>row. lift_result (row_or (''load workspace '' @ name) row))"

definition workspace_name_by_id :: "int \<Rightarrow> (ws_store, string) operation" where
  "workspace_name_by_id i = chain (read_store (\<lambda>s. map_option wk_name (find (\<lambda>w. wk_id w = i) (st_workspaces s))))
     (\<lambda>row. lift_result (row_or (''load workspace name for id '' @ show_int i) row))"

definition load_repository_by_id :: "int \<Rightarrow> (ws_store, RepositoryRecord) operation" where
  "load_repository_by_id i = chain (read_store (\<lambda>s. find (\<lambda>r. rr_id r = i) (st_repositories s)))
     (\<lambda>row. lift_result (row_or (''load repository '' @ show_int i) row))"

definition record_workspace_event :: "outside \<Rightarrow> int \<Rightarrow> string \<Rightarrow> string \<Rightarrow> string \<Rightarrow> (ws_store, unit) operation" where
  "record_workspace_event ou i name kind summary = write_store (\<lambda>s. s\<lparr>st_timeline := st_timeline s @
     [\<lparr>we_id = sql_next we_id (st_timeline s), we_workspace_id = i, we_workspace_name = name, we_kind = kind,
       we_summary = summary, we_created_at = ou_now ou\<rparr>]\<rparr>)"

section \<open>Names\<close>

text \<open>A byte of a character outside ASCII becomes a dash; a run of dashes is one separator, as a single one is.\<close>

definition slugify :: "string \<Rightarrow> string" where
  "slugify t =
     (let slug = join ''-'' (filter (\<lambda>part. part \<noteq> []) (split_when (\<lambda>c. c = CHR ''-'')
            (map (\<lambda>c. if is_ascii_alphanumeric c then ascii_lower c else CHR ''-'') t)))
      in if slug = [] then ''workspace''
         else if 40 < length slug then trim_end_char (CHR ''-'') (take 40 slug)
         else slug)"

definition workspace_name_char :: "char \<Rightarrow> bool" where
  "workspace_name_char c \<longleftrightarrow> is_ascii_alphanumeric c \<or> c = CHR ''-'' \<or> c = CHR ''_''"

definition validate_workspace_name :: "string \<Rightarrow> error_chain + unit" where
  "validate_workspace_name name =
     (if trim name = [] then Inl [''workspace name must not be empty'']
      else if \<not> list_all workspace_name_char name
      then Inl [''workspace name may only contain ASCII letters, numbers, '' @ [CHR 0x27] @ ''-'' @ [CHR 0x27]
        @ '' and '' @ [CHR 0x27] @ ''_'' @ [CHR 0x27]]
      else Inr ())"

definition join_path :: "string \<Rightarrow> string \<Rightarrow> string" where
  "join_path parent name = (if parent = [] then name
     else if last parent = CHR ''/'' then parent @ name else parent @ ''/'' @ name)"

text \<open>Paths are compared as texts.\<close>

definition workspace_name_available_for_rename ::
  "outside \<Rightarrow> RepositoryRecord \<Rightarrow> int \<Rightarrow> string \<Rightarrow> ws_store \<Rightarrow> error_chain + bool" where
  "workspace_name_available_for_rename ou repository i name s =
     (if \<exists>w\<in>set (st_workspaces s). wk_name w = name \<and> wk_id w \<noteq> i then Inr False
      else let candidate_path = join_path (rr_workspace_parent_path repository) name
           in if candidate_path \<notin> set (ou_paths ou) then Inr True
              else case find (\<lambda>w. wk_id w = i) (st_workspaces s) of
                  None \<Rightarrow> Inl [no_rows]
                | Some w \<Rightarrow> Inr (wk_path w = candidate_path))"

definition name_candidate :: "string \<Rightarrow> nat \<Rightarrow> string" where
  "name_candidate base k = (if k = 0 then base else base @ ''-'' @ show_nat k)"

text \<open>The suffixes whose candidate is somebody's name or an existing directory: finitely many.\<close>

definition taken_suffixes :: "outside \<Rightarrow> RepositoryRecord \<Rightarrow> string \<Rightarrow> ws_store \<Rightarrow> nat set" where
  "taken_suffixes ou repository base s = {n. name_candidate base n \<in> wk_name ` set (st_workspaces s)
     \<or> join_path (rr_workspace_parent_path repository) (name_candidate base n) \<in> set (ou_paths ou)}"

lemma show_nat_inj: "show_nat m = show_nat n \<longleftrightarrow> m = n"
  by (metis digits_value_of show_nat_def)

lemma show_nat_nonempty: "show_nat n \<noteq> []"
  using digits_of_digits [of n] by (simp add: show_nat_def)

lemma name_candidate_inj: "inj (name_candidate base)"
  by (auto simp: inj_def name_candidate_def show_nat_inj)

lemma join_path_inj: "inj (join_path parent)"
  by (auto simp: inj_def join_path_def)

lemma taken_suffixes_finite: "finite (taken_suffixes ou repository base s)"
proof -
  have "taken_suffixes ou repository base s = name_candidate base -` (wk_name ` set (st_workspaces s))
      \<union> (join_path (rr_workspace_parent_path repository) \<circ> name_candidate base) -` set (ou_paths ou)"
    by (auto simp: taken_suffixes_def)
  then show ?thesis
    by (simp add: finite_vimageI name_candidate_inj join_path_inj inj_compose)
qed

lemma unavailable_taken:
  "workspace_name_available_for_rename ou repository i (name_candidate base n) s = Inr False \<Longrightarrow>
    n \<in> taken_suffixes ou repository base s"
  by (force simp: workspace_name_available_for_rename_def taken_suffixes_def Let_def split: if_splits option.splits)

text \<open>The first candidate that is available; a candidate is passed over only if it is taken, so one is reached.\<close>

function unique_name_from :: "outside \<Rightarrow> RepositoryRecord \<Rightarrow> int \<Rightarrow> string \<Rightarrow> ws_store \<Rightarrow> nat \<Rightarrow> error_chain + string" where
  "unique_name_from ou repository i base s k =
     (let candidate = name_candidate base k
      in case validate_workspace_name candidate of Inl e \<Rightarrow> Inl e
         | Inr _ \<Rightarrow> (case workspace_name_available_for_rename ou repository i candidate s of
             Inl e \<Rightarrow> Inl e
           | Inr True \<Rightarrow> Inr candidate
           | Inr False \<Rightarrow> unique_name_from ou repository i base s (Suc k)))"
  by pat_completeness auto

termination
proof (relation "measure (\<lambda>(ou, repository, i, base, s, n). card {m \<in> taken_suffixes ou repository base s. n \<le> m})", goal_cases)
  case (2 ou repository i base s n candidate u b)
  then have taken: "n \<in> taken_suffixes ou repository base s" using unavailable_taken by simp
  let ?T = "taken_suffixes ou repository base s"
  have "n \<in> {m \<in> ?T. n \<le> m}" "n \<notin> {m \<in> ?T. Suc n \<le> m}" using taken by simp_all
  then have "{m \<in> ?T. Suc n \<le> m} \<subset> {m \<in> ?T. n \<le> m}" using Suc_leD by blast
  moreover have "finite {m \<in> ?T. n \<le> m}" by (simp add: taken_suffixes_finite)
  ultimately show ?case by (simp add: psubset_card_mono)
qed simp

declare unique_name_from.simps [simp del]

definition unique_message_workspace_name ::
  "outside \<Rightarrow> RepositoryRecord \<Rightarrow> int \<Rightarrow> string \<Rightarrow> (ws_store, string) operation" where
  "unique_message_workspace_name ou repository i base =
     chain (read_store (\<lambda>s. unique_name_from ou repository i base s 0)) lift_result"

definition metadata_workspace_name :: "outside \<Rightarrow> RepositoryRecord \<Rightarrow> int \<Rightarrow> string \<Rightarrow> (ws_store, string) operation" where
  "metadata_workspace_name ou repository i raw = unique_message_workspace_name ou repository i (slugify raw)"

definition rename_rows :: "string \<Rightarrow> string \<Rightarrow> int \<Rightarrow> ws_store \<Rightarrow> ws_store" where
  "rename_rows now new_name i s = s\<lparr>
     st_workspaces := update_where (\<lambda>w. wk_id w = i) (\<lambda>w. w\<lparr>wk_name := new_name, wk_updated_at := now\<rparr>) (st_workspaces s),
     st_spotlights := map (\<lambda>(j, n). if j = i then (j, new_name) else (j, n)) (st_spotlights s)\<rparr>"

definition rename :: "outside \<Rightarrow> string \<Rightarrow> string \<Rightarrow> (ws_store, Workspace) operation" where
  "rename ou name new_name =
     chain (lift_result (validate_workspace_name new_name)) (\<lambda>_.
     chain (get_by_name name) (\<lambda>workspace.
     chain (load_repository_by_id (wk_repository_id workspace)) (\<lambda>repository.
     chain (chain (read_store (workspace_name_available_for_rename ou repository (wk_id workspace) new_name)) lift_result) (\<lambda>available.
     chain (ensure available (''workspace '' @ new_name @ '' already exists'')) (\<lambda>_.
     chain (read_store (\<lambda>s. count_where (\<lambda>w. wk_id w = wk_id workspace) (st_workspaces s))) (\<lambda>changed.
     chain (write_store (rename_rows (ou_now ou) new_name (wk_id workspace))) (\<lambda>_.
     chain (ensure (changed > 0) (''workspace '' @ name @ '' not found'')) (\<lambda>_.
     chain (get_by_name new_name) (\<lambda>renamed.
     chain (record_workspace_event ou (wk_id renamed) (wk_name renamed) ''workspace.renamed''
       (''Renamed workspace from '' @ name @ '' to '' @ new_name)) (\<lambda>_.
     give renamed))))))))))"

section \<open>Commands\<close>

definition run_command :: "outside \<Rightarrow> outside_command \<Rightarrow> (ws_store, outcome) operation" where
  "run_command ou c s = (s\<lparr>st_commands := st_commands s @ [c]\<rparr>, Inr (ou_run ou (st_commands s) c))"

definition command_output :: "outside \<Rightarrow> string \<Rightarrow> string \<Rightarrow> string list \<Rightarrow> (ws_store, string) operation" where
  "command_output ou cwd program args =
     chain (run_command ou \<lparr>oc_cwd = Some cwd, oc_program = program, oc_args = args\<rparr>) (\<lambda>r. case r of
       Not_run cause \<Rightarrow> bail [''run '' @ program @ '' in '' @ cwd, cause]
     | Ended ok out err \<Rightarrow> chain (ensure ok (program @ '' command failed in '' @ cwd @ '': '' @ err @ [CHR 0x0A] @ out)) (\<lambda>_. give out))"

definition git_output_dynamic :: "outside \<Rightarrow> string \<Rightarrow> string list \<Rightarrow> (ws_store, string) operation" where
  "git_output_dynamic ou cwd args = command_output ou cwd ''git'' (''--no-optional-locks'' # args)"

definition git_dynamic :: "outside \<Rightarrow> string \<Rightarrow> string list \<Rightarrow> (ws_store, unit) operation" where
  "git_dynamic ou cwd args =
     chain (run_command ou \<lparr>oc_cwd = None, oc_program = ''git'', oc_args = ''-C'' # cwd # args\<rparr>) (\<lambda>r. case r of
       Not_run cause \<Rightarrow> bail [''run git in '' @ cwd, cause]
     | Ended ok out err \<Rightarrow> ensure ok (''git command failed in '' @ cwd @ '': '' @ err @ [CHR 0x0A] @ out))"

section \<open>Changes\<close>

text \<open>The lines of a command's output that are not blank, trimmed.\<close>

definition trimmed_lines :: "string \<Rightarrow> string list" where
  "trimmed_lines output = filter (\<lambda>path. path \<noteq> []) (map trim (str_lines output))"

text \<open>\<open>line.get(n..)\<close>: nothing within a character or past the end.\<close>

definition get_from :: "nat \<Rightarrow> string \<Rightarrow> string option" where
  "get_from n line = (if length line < n then None
     else case drop n line of [] \<Rightarrow> Some [] | c # _ \<Rightarrow> if utf8_continues c then None else Some (drop n line))"

definition changed_files :: "outside \<Rightarrow> string \<Rightarrow> (ws_store, string list) operation" where
  "changed_files ou name =
     chain (get_by_name name) (\<lambda>workspace.
     chain (git_output_dynamic ou (wk_path workspace) [''status'', ''--short'']) (\<lambda>output.
     give (filter (\<lambda>path. path \<noteq> []) (map trim (List.map_filter (get_from 3) (str_lines output))))))"

definition workspace_base_ref :: "Workspace \<Rightarrow> string" where
  "workspace_base_ref workspace = (if trim (wk_base_ref workspace) = [] then ''main'' else wk_base_ref workspace)"

definition workspace_merge_base_ref :: "outside \<Rightarrow> Workspace \<Rightarrow> string \<Rightarrow> (ws_store, string option) operation" where
  "workspace_merge_base_ref ou workspace base_ref =
     chain (run_command ou \<lparr>oc_cwd = None, oc_program = ''git'',
         oc_args = [''-C'', wk_path workspace, ''merge-base'', ''HEAD'', base_ref]\<rparr>) (\<lambda>r. give (case r of
       Ended True out err \<Rightarrow> (if trim out = [] then None else Some (trim out)) | _ \<Rightarrow> None))"

text \<open>A \<open>BTreeSet\<close> of paths: without repetitions, in order.\<close>

definition branch_changed_files :: "outside \<Rightarrow> string \<Rightarrow> (ws_store, string list) operation" where
  "branch_changed_files ou name =
     chain (get_by_name name) (\<lambda>workspace.
     let base_ref = workspace_base_ref workspace in
     chain (workspace_merge_base_ref ou workspace base_ref) (\<lambda>merge_base.
     let base_commit = unwrap_or merge_base base_ref in
     chain (attempt (git_output_dynamic ou (wk_path workspace) [''diff'', ''--name-only'', base_commit, ''HEAD''])) (\<lambda>committed.
     chain (changed_files ou name) (\<lambda>changed.
     give (sort (remdups ((case committed of Inr out \<Rightarrow> trimmed_lines out | Inl _ \<Rightarrow> []) @ changed)))))))"

definition git_status_short :: "outside \<Rightarrow> string \<Rightarrow> (ws_store, string) operation" where
  "git_status_short ou name = chain (get_by_name name) (\<lambda>workspace.
     git_output_dynamic ou (wk_path workspace) [''status'', ''--short''])"

definition parse_untracked_status_paths :: "string \<Rightarrow> string list" where
  "parse_untracked_status_paths output =
     filter (\<lambda>path. path \<noteq> []) (map trim (List.map_filter (strip_prefix ''?? '') (str_lines output)))"

definition untracked_files :: "outside \<Rightarrow> string \<Rightarrow> (ws_store, string list) operation" where
  "untracked_files ou name = chain (get_by_name name) (\<lambda>workspace.
     chain (git_output_dynamic ou (wk_path workspace) [''status'', ''--porcelain'', ''--untracked-files=all'']) (\<lambda>status.
     give (parse_untracked_status_paths status)))"

section \<open>Staging, committing and pushing\<close>

text \<open>\<open>Path::components\<close> drops empty parts and every dot but one in front.\<close>

definition validate_workspace_relative_path :: "string \<Rightarrow> error_chain + string" where
  "validate_workspace_relative_path relative_path =
     (let parts = filter (\<lambda>part. part \<noteq> []) (split_on (CHR ''/'') relative_path)
      in if prefix ''/'' relative_path then Inl [''workspace file path must be relative: '' @ relative_path]
         else if ''..'' \<in> set parts \<or> (parts \<noteq> [] \<and> hd parts = ''.'')
         then Inl [''workspace file path may not use path traversal: '' @ relative_path]
         else Inr relative_path)"

definition stage_workspace_file :: "outside \<Rightarrow> string \<Rightarrow> string \<Rightarrow> (ws_store, unit) operation" where
  "stage_workspace_file ou name relative_path =
     chain (get_by_name name) (\<lambda>workspace.
     chain (lift_result (validate_workspace_relative_path relative_path)) (\<lambda>path_value.
     chain (git_dynamic ou (wk_path workspace) [''add'', ''--'', path_value]) (\<lambda>_.
     record_workspace_event ou (wk_id workspace) (wk_name workspace) ''git.staged'' (''Staged '' @ relative_path))))"

definition stage_all_workspace_files :: "outside \<Rightarrow> string \<Rightarrow> (ws_store, unit) operation" where
  "stage_all_workspace_files ou name =
     chain (get_by_name name) (\<lambda>workspace.
     chain (git_dynamic ou (wk_path workspace) [''add'', ''-A'']) (\<lambda>_.
     record_workspace_event ou (wk_id workspace) (wk_name workspace) ''git.staged_all'' ''Staged all changed files''))"

definition unstage_workspace_file :: "outside \<Rightarrow> string \<Rightarrow> string \<Rightarrow> (ws_store, unit) operation" where
  "unstage_workspace_file ou name relative_path =
     chain (get_by_name name) (\<lambda>workspace.
     chain (lift_result (validate_workspace_relative_path relative_path)) (\<lambda>path_value.
     chain (git_dynamic ou (wk_path workspace) [''restore'', ''--staged'', ''--'', path_value]) (\<lambda>_.
     record_workspace_event ou (wk_id workspace) (wk_name workspace) ''git.unstaged'' (''Unstaged '' @ relative_path))))"

definition unstage_all_workspace_files :: "outside \<Rightarrow> string \<Rightarrow> (ws_store, unit) operation" where
  "unstage_all_workspace_files ou name =
     chain (get_by_name name) (\<lambda>workspace.
     chain (git_dynamic ou (wk_path workspace) [''restore'', ''--staged'', ''--'', ''.'']) (\<lambda>_.
     record_workspace_event ou (wk_id workspace) (wk_name workspace) ''git.unstaged_all'' ''Unstaged all files''))"

definition ensure_tracked_in_head :: "outside \<Rightarrow> string \<Rightarrow> string \<Rightarrow> (ws_store, unit) operation" where
  "ensure_tracked_in_head ou cwd relative_path =
     chain (run_command ou \<lparr>oc_cwd = None, oc_program = ''git'',
         oc_args = [''-C'', cwd, ''ls-files'', ''--error-unmatch'', ''--'', relative_path]\<rparr>) (\<lambda>r. case r of
       Not_run cause \<Rightarrow> bail [''check tracked file in '' @ cwd, cause]
     | Ended ok out err \<Rightarrow> ensure ok (relative_path @ '' is not tracked in HEAD and cannot be safely reverted''))"

definition revert_workspace_file :: "outside \<Rightarrow> string \<Rightarrow> string \<Rightarrow> (ws_store, unit) operation" where
  "revert_workspace_file ou name relative_path =
     chain (get_by_name name) (\<lambda>workspace.
     chain (lift_result (validate_workspace_relative_path relative_path)) (\<lambda>path_value.
     chain (ensure_tracked_in_head ou (wk_path workspace) relative_path) (\<lambda>_.
     chain (git_dynamic ou (wk_path workspace) [''restore'', ''--source=HEAD'', ''--staged'', ''--worktree'', ''--'', path_value]) (\<lambda>_.
     record_workspace_event ou (wk_id workspace) (wk_name workspace) ''file.reverted''
       (''Reverted '' @ relative_path @ '' to HEAD'')))))"

definition is_conductor_context_path :: "string \<Rightarrow> bool" where
  "is_conductor_context_path path \<longleftrightarrow> path = ''.context'' \<or> prefix ''.context/'' path
     \<or> path = ''.archductor/prompt-packs'' \<or> prefix ''.archductor/prompt-packs/'' path"

definition commit_message_draft_for_files :: "string \<Rightarrow> string list \<Rightarrow> string" where
  "commit_message_draft_for_files workspace_name files =
     (case or_else (find (\<lambda>path. \<not> is_conductor_context_path path) files) (case files of [] \<Rightarrow> None | f # _ \<Rightarrow> Some f) of
        Some path \<Rightarrow> ''chore: update '' @ path
      | None \<Rightarrow> ''chore: update '' @ workspace_name)"

definition commit_message_draft :: "outside \<Rightarrow> string \<Rightarrow> (ws_store, string) operation" where
  "commit_message_draft ou name =
     chain (get_by_name name) (\<lambda>workspace.
     chain (git_output_dynamic ou (wk_path workspace) [''diff'', ''--cached'', ''--name-only'']) (\<lambda>staged.
     chain (if trim staged = [] then changed_files ou name else give (trimmed_lines staged)) (\<lambda>files.
     give (commit_message_draft_for_files (wk_name workspace) files))))"

definition generated_commit_message_from_staged_diff :: "outside \<Rightarrow> string \<Rightarrow> (ws_store, string) operation" where
  "generated_commit_message_from_staged_diff ou name =
     chain (get_by_name name) (\<lambda>workspace.
     chain (git_output_dynamic ou (wk_path workspace) [''diff'', ''--cached'', ''--name-only'']) (\<lambda>staged.
     chain (ensure (trimmed_lines staged \<noteq> []) ''stage at least one file before generating a commit message'') (\<lambda>_.
     give (commit_message_draft_for_files (wk_name workspace) (trimmed_lines staged)))))"

definition commit_workspace_changes :: "outside \<Rightarrow> string \<Rightarrow> string \<Rightarrow> (ws_store, string) operation" where
  "commit_workspace_changes ou name message0 =
     chain (get_by_name name) (\<lambda>workspace.
     let message = trim message0 in
     chain (ensure (message \<noteq> []) ''commit message cannot be empty'') (\<lambda>_.
     chain (git_output_dynamic ou (wk_path workspace) [''diff'', ''--cached'', ''--name-only'']) (\<lambda>staged.
     chain (ensure (trim staged \<noteq> []) ''stage at least one file before committing'') (\<lambda>_.
     chain (git_output_dynamic ou (wk_path workspace) [''commit'', ''-m'', message]) (\<lambda>output.
     chain (record_workspace_event ou (wk_id workspace) (wk_name workspace) ''commit.created''
       (''Committed staged changes: '' @ message)) (\<lambda>_.
     give output))))))"

definition push_branch :: "outside \<Rightarrow> string \<Rightarrow> (ws_store, string) operation" where
  "push_branch ou name =
     chain (get_by_name name) (\<lambda>workspace.
     chain (git_output_dynamic ou (wk_path workspace) [''push'', ''-u'', ''origin'', wk_branch workspace]) (\<lambda>output.
     chain (record_workspace_event ou (wk_id workspace) (wk_name workspace) ''branch.pushed''
       (''Pushed branch '' @ wk_branch workspace)) (\<lambda>_.
     give output)))"

section \<open>Pull requests\<close>

definition extract_pull_request_url :: "string \<Rightarrow> string option" where
  "extract_pull_request_url output = find (prefix ''https://'') (map trim (rev (str_lines output)))"

definition parse_pull_request_number :: "string \<Rightarrow> int option" where
  "parse_pull_request_number url = parse_i64 (last (split_on (CHR ''/'') (trim_end_char (CHR ''/'') url)))"

definition first_pull_request_url_from_json :: "(string \<Rightarrow> json option) \<Rightarrow> string \<Rightarrow> string option" where
  "first_pull_request_url_from_json from_str output =
     Option.bind (from_str output) (\<lambda>value. Option.bind (as_array value) (\<lambda>entries. case entries of [] \<Rightarrow> None
       | entry # _ \<Rightarrow> Option.bind (jget entry ''url'') as_str))"

definition extract_json_string_field :: "string \<Rightarrow> string \<Rightarrow> string option" where
  "extract_json_string_field json_text field =
     (let needle = [CHR 0x22] @ field @ [CHR 0x22]
      in Option.bind (find_str json_text needle) (\<lambda>start.
         Option.bind (strip_prefix '':'' (trim_start (drop (start + length needle) json_text))) (\<lambda>after_colon.
         Option.bind (strip_prefix [CHR 0x22] (trim_start after_colon)) (\<lambda>after_quote.
         map_option (\<lambda>k. take k after_quote) (position (\<lambda>c. c = CHR 0x22) after_quote)))))"

definition find_pull_request :: "int \<Rightarrow> ws_store \<Rightarrow> PullRequest option" where
  "find_pull_request i s = find (\<lambda>p. pl_workspace_id p = i) (st_pull_requests s)"

definition pull_request_by_workspace_id :: "int \<Rightarrow> (ws_store, PullRequest option) operation" where
  "pull_request_by_workspace_id i = read_store (find_pull_request i)"

definition upsert_pull_request :: "string \<Rightarrow> int \<Rightarrow> int \<Rightarrow> string \<Rightarrow> string \<Rightarrow> PullRequest list \<Rightarrow> PullRequest list" where
  "upsert_pull_request now i number url state rows =
     (if \<exists>p\<in>set rows. pl_workspace_id p = i
      then update_where (\<lambda>p. pl_workspace_id p = i)
        (\<lambda>p. p\<lparr>pl_number := number, pl_url := url, pl_state := state, pl_updated_at := now\<rparr>) rows
      else rows @ [\<lparr>pl_id = sql_next pl_id rows, pl_workspace_id = i, pl_provider = ''github'', pl_number = number,
        pl_url = url, pl_state = state, pl_created_at = now, pl_updated_at = now\<rparr>])"

definition record_pull_request_with_state :: "outside \<Rightarrow> int \<Rightarrow> string \<Rightarrow> string \<Rightarrow> (ws_store, PullRequest) operation" where
  "record_pull_request_with_state ou i url state =
     chain (lift_result (case parse_pull_request_number url of
         None \<Rightarrow> Inl [''parse pull request number from '' @ url] | Some n \<Rightarrow> Inr n)) (\<lambda>number.
     chain (write_store (\<lambda>s. s\<lparr>st_pull_requests := upsert_pull_request (ou_now ou) i number url state (st_pull_requests s)\<rparr>)) (\<lambda>_.
     chain (pull_request_by_workspace_id i) (\<lambda>row.
     chain (lift_result (case row of None \<Rightarrow> Inl [''load recorded pull request''] | Some p \<Rightarrow> Inr p)) (\<lambda>pull_request.
     chain (workspace_name_by_id i) (\<lambda>name.
     chain (record_workspace_event ou i name ''pr.created'' (''Recorded GitHub PR #'' @ show_int (pl_number pull_request))) (\<lambda>_.
     give pull_request))))))"

definition record_pull_request :: "outside \<Rightarrow> int \<Rightarrow> string \<Rightarrow> (ws_store, PullRequest) operation" where
  "record_pull_request ou i url = record_pull_request_with_state ou i url ''open''"

definition pull_request_url_for_workspace :: "outside \<Rightarrow> Workspace \<Rightarrow> (ws_store, string option) operation" where
  "pull_request_url_for_workspace ou workspace =
     chain (command_output ou (wk_path workspace) ''gh'' [''pr'', ''list'', ''--head'', wk_branch workspace, ''--state'', ''open'',
         ''--json'', ''url'', ''--limit'', ''1'']) (\<lambda>output.
     give (first_pull_request_url_from_json (ou_from_str ou) output))"

definition existing_pull_request_for_workspace :: "outside \<Rightarrow> Workspace \<Rightarrow> (ws_store, PullRequest option) operation" where
  "existing_pull_request_for_workspace ou workspace =
     chain (pull_request_by_workspace_id (wk_id workspace)) (\<lambda>row.
     case row of Some pr \<Rightarrow> if pl_state pr = ''open'' then give (Some pr) else
         chain (pull_request_url_for_workspace ou workspace) (\<lambda>url. case url of None \<Rightarrow> give None
           | Some u \<Rightarrow> chain (record_pull_request ou (wk_id workspace) u) (\<lambda>p. give (Some p)))
       | None \<Rightarrow> chain (pull_request_url_for_workspace ou workspace) (\<lambda>url. case url of None \<Rightarrow> give None
           | Some u \<Rightarrow> chain (record_pull_request ou (wk_id workspace) u) (\<lambda>p. give (Some p))))"

definition gh_pr_args_for_workspace :: "Workspace \<Rightarrow> string \<Rightarrow> string list \<Rightarrow> (ws_store, string list) operation" where
  "gh_pr_args_for_workspace workspace subcommand extra =
     chain (pull_request_by_workspace_id (wk_id workspace)) (\<lambda>row.
     give ([''pr'', subcommand] @ (case row of Some pr \<Rightarrow> [show_int (pl_number pr)] | None \<Rightarrow> []) @ extra))"

definition apply_pull_request_workspace_naming :: "outside \<Rightarrow> Workspace \<Rightarrow> string option \<Rightarrow> (ws_store, unit) operation" where
  "apply_pull_request_workspace_naming ou workspace requested_title =
     chain (case trimmed_nonempty requested_title of
         Some title \<Rightarrow> give title
       | None \<Rightarrow>
           chain (gh_pr_args_for_workspace workspace ''view'' [''--json'', ''title'']) (\<lambda>args.
           chain (command_output ou (wk_path workspace) ''gh'' args) (\<lambda>output.
           lift_result (case extract_json_string_field output ''title'' of
             None \<Rightarrow> Inl [''pull request response had no title''] | Some t \<Rightarrow> Inr t)))) (\<lambda>title.
     chain (load_repository_by_id (wk_repository_id workspace)) (\<lambda>repository.
     chain (metadata_workspace_name ou repository (wk_id workspace) title) (\<lambda>name.
     if name \<noteq> wk_name workspace then chain (rename ou (wk_name workspace) name) (\<lambda>_. give ()) else give ())))"

definition create_pull_request_args :: "string option \<Rightarrow> string option \<Rightarrow> bool \<Rightarrow> string list" where
  "create_pull_request_args title body draft = [''pr'', ''create'']
     @ (case title of Some t \<Rightarrow> [''--title'', t] | None \<Rightarrow> [''--fill''])
     @ (case body of Some b \<Rightarrow> [''--body'', b] | None \<Rightarrow> [])
     @ (if draft then [''--draft''] else [])"

definition create_pull_request ::
  "outside \<Rightarrow> string \<Rightarrow> string option \<Rightarrow> string option \<Rightarrow> bool \<Rightarrow> (ws_store, string) operation" where
  "create_pull_request ou name title body draft =
     chain (get_by_name name) (\<lambda>workspace.
     chain (existing_pull_request_for_workspace ou workspace) (\<lambda>existing. case existing of
       Some pr \<Rightarrow> give (''Existing PR: '' @ pl_url pr @ [CHR 0x0A])
     | None \<Rightarrow>
       chain (branch_changed_files ou name) (\<lambda>files.
       chain (ensure (files \<noteq> []) (''workspace '' @ name @
         '' has nothing to propose: no commits since it branched and no uncommitted changes'')) (\<lambda>_.
       chain (command_output ou (wk_path workspace) ''gh'' (create_pull_request_args title body draft)) (\<lambda>output.
       chain (case extract_pull_request_url output of
           None \<Rightarrow> give ()
         | Some url \<Rightarrow>
           chain (record_pull_request ou (wk_id workspace) url) (\<lambda>_.
           chain (attempt (apply_pull_request_workspace_naming ou workspace title)) (\<lambda>_. give ()))) (\<lambda>_.
       give output))))))"

section \<open>Slugs are names\<close>

text \<open>
  What a slug looks like, read from its start or after a dash (\<open>True\<close>) or within a part: no dash in
  front, none twice in a row; \<open>slug_shape\<close> leaves open how it ends, \<open>slug_ok\<close> asks for no dash there.
\<close>

definition slug_char :: "char \<Rightarrow> bool" where
  "slug_char c \<longleftrightarrow> is_ascii_alphanumeric c \<and> ascii_lower c = c"

fun slug_shape :: "bool \<Rightarrow> string \<Rightarrow> bool" where
  "slug_shape dash [] = True"
| "slug_shape dash (c # s) = (if c = CHR ''-'' then \<not> dash \<and> slug_shape True s else slug_char c \<and> slug_shape False s)"

definition slug_ok :: "string \<Rightarrow> bool" where
  "slug_ok s \<longleftrightarrow> s \<noteq> [] \<and> slug_shape True s \<and> last s \<noteq> CHR ''-''"

lemma slug_shape_append: "slug_shape dash (s @ t) \<Longrightarrow> slug_shape dash s"
  by (induction dash s rule: slug_shape.induct) (auto split: if_splits)

lemma slug_shape_part: "list_all slug_char p \<Longrightarrow> CHR ''-'' \<notin> set p \<Longrightarrow> p \<noteq> [] \<Longrightarrow> slug_shape dash (p @ s) = slug_shape False s"
proof (induction p arbitrary: dash)
  case (Cons a p)
  then show ?case by (cases "p = []") auto
qed simp

lemma slug_char_lower: "is_ascii_alphanumeric c \<Longrightarrow> slug_char (ascii_lower c)"
  by (auto simp: slug_char_def is_ascii_alphanumeric_def is_ascii_lowercase_def is_ascii_uppercase_def
    is_ascii_digit_def in_range_def ascii_lower_def Let_def)

lemma join_ends: "parts \<noteq> [] \<Longrightarrow> [] \<notin> set parts \<Longrightarrow> join sep parts \<noteq> [] \<and> last (join sep parts) = last (last parts)"
  by (induction sep parts rule: join.induct) auto

lemma slug_join:
  assumes "\<forall>p\<in>set parts. p \<noteq> [] \<and> list_all slug_char p \<and> CHR ''-'' \<notin> set p"
  shows "slug_shape True (join ''-'' parts)"
  using assms
proof (induction "''-''" parts rule: join.induct)
  case (3 p q ps)
  then show ?case by (simp add: slug_shape_part)
qed (auto simp: slug_shape_part [where s = "[]", simplified])

lemma split_when_parts: "\<forall>p\<in>set (split_when f s). set p \<subseteq> {c \<in> set s. \<not> f c}"
proof (induction f s rule: split_when.induct)
  case (2 f d s)
  show ?case
  proof (cases "f d")
    case False
    with 2 show ?thesis by (cases "split_when f s") fastforce+
  qed (use 2 in fastforce)
qed simp

lemma split_when_nonempty [simp]: "split_when f s \<noteq> []"
  by (induction f s rule: split_when.induct) (auto split: list.splits)

lemma join_Cons: "join sep ((c # p) # ps) = c # join sep (p # ps)"
  by (cases ps) simp_all

lemma join_Nil: "ps \<noteq> [] \<Longrightarrow> join sep ([] # ps) = sep @ join sep ps"
  by (cases ps) simp_all

lemma join_split: "join [c] (split_when (\<lambda>d. d = c) s) = s"
proof (induction s)
  case (Cons d s)
  then show ?case
    by (cases "split_when (\<lambda>d. d = c) s") (auto simp: join_Cons join_Nil)
qed simp

text \<open>Parts of a slug are not empty, except that the first is where the text goes on within a part.\<close>

lemma slug_parts:
  "slug_shape dash s \<Longrightarrow> s = [] \<or> last s \<noteq> CHR ''-'' \<Longrightarrow> dash \<longrightarrow> s \<noteq> [] \<Longrightarrow>
    [] \<notin> set (tl (split_when (\<lambda>d. d = CHR ''-'') s)) \<and> (dash \<longrightarrow> hd (split_when (\<lambda>d. d = CHR ''-'') s) \<noteq> [])"
proof (induction dash s rule: slug_shape.induct)
  case (2 dash c s)
  let ?parts = "split_when (\<lambda>d. d = CHR ''-'') s"
  obtain p ps where parts: "?parts = p # ps" by (cases ?parts) auto
  from 2 parts show ?case by (cases "s = []") (auto split: if_splits)
qed simp

lemma slug_fixed: "slug_ok s \<Longrightarrow> slugify s = (if 40 < length s then trim_end_char (CHR ''-'') (take 40 s) else s)"
proof -
  assume ok: "slug_ok s"
  let ?parts = "split_when (\<lambda>d. d = CHR ''-'') s"
  have "\<forall>c\<in>set s. (if is_ascii_alphanumeric c then ascii_lower c else CHR ''-'') = c"
  proof -
    have "slug_shape dash s \<Longrightarrow> \<forall>c\<in>set s. c = CHR ''-'' \<or> slug_char c" for dash
      by (induction dash s rule: slug_shape.induct) (auto split: if_splits)
    then have "\<forall>c\<in>set s. c = CHR ''-'' \<or> slug_char c" using ok unfolding slug_ok_def by blast
    moreover have "\<not> is_ascii_alphanumeric (CHR ''-'')" by code_simp
    ultimately show ?thesis by (metis slug_char_def)
  qed
  then have "map (\<lambda>c. if is_ascii_alphanumeric c then ascii_lower c else CHR ''-'') s = s" by (simp add: map_idI)
  moreover have "[] \<notin> set ?parts" using slug_parts [of True s] ok by (cases ?parts) (auto simp: slug_ok_def)
  then have "filter (\<lambda>part. part \<noteq> []) ?parts = ?parts" by (auto simp: filter_id_conv)
  ultimately show ?thesis using ok by (simp add: slugify_def Let_def join_split slug_ok_def)
qed

lemma trim_end_char_append: "\<exists>k. s = trim_end_char c s @ replicate k c"
proof -
  have "takeWhile (\<lambda>d. d = c) t = replicate (length (takeWhile (\<lambda>d. d = c) t)) c" for t
    by (induction t) auto
  then have "rev s = replicate (length (takeWhile (\<lambda>d. d = c) (rev s))) c @ dropWhile (\<lambda>d. d = c) (rev s)"
    using takeWhile_dropWhile_id [of "\<lambda>d. d = c" "rev s"] by metis
  then have "s = trim_end_char c s @ replicate (length (takeWhile (\<lambda>d. d = c) (rev s))) c"
    unfolding trim_end_char_def by (metis rev_append rev_replicate rev_rev_ident)
  then show ?thesis by blast
qed

lemma trim_end_char_last: "trim_end_char c s \<noteq> [] \<Longrightarrow> last (trim_end_char c s) \<noteq> c"
  using hd_dropWhile [of "\<lambda>d. d = c" "rev s"] by (simp add: trim_end_char_def last_rev)

lemma slug_cut:
  assumes "slug_ok s" and "0 < n"
  shows "slug_ok (trim_end_char (CHR ''-'') (take n s))"
proof -
  let ?t = "trim_end_char (CHR ''-'') (take n s)"
  obtain k where k: "take n s = ?t @ replicate k (CHR ''-'')" using trim_end_char_append by blast
  have "slug_shape True (take n s)" using assms slug_shape_append [of True "take n s" "drop n s"] by (simp add: slug_ok_def)
  with k have shape: "slug_shape True (?t @ replicate k (CHR ''-''))" by simp
  have "?t \<noteq> []"
  proof
    assume "?t = []"
    moreover have "take n s \<noteq> []" using assms by (simp add: slug_ok_def)
    ultimately show False using k shape by (cases k) auto
  qed
  with slug_shape_append [OF shape] trim_end_char_last show ?thesis by (simp add: slug_ok_def)
qed

lemma slugify_ok: "slug_ok (slugify t)"
proof -
  let ?text = "map (\<lambda>c. if is_ascii_alphanumeric c then ascii_lower c else CHR ''-'') t"
  let ?parts = "filter (\<lambda>part. part \<noteq> []) (split_when (\<lambda>c. c = CHR ''-'') ?text)"
  let ?slug = "join ''-'' ?parts"
  have chars: "\<forall>p\<in>set ?parts. p \<noteq> [] \<and> list_all slug_char p \<and> CHR ''-'' \<notin> set p"
  proof (intro ballI conjI)
    fix p assume p: "p \<in> set ?parts"
    then show "p \<noteq> []" by simp
    have sub: "set p \<subseteq> {c \<in> set ?text. c \<noteq> CHR ''-''}"
      using p split_when_parts [of "\<lambda>c. c = CHR ''-''" ?text] by simp
    then show "CHR ''-'' \<notin> set p" by blast
    have "slug_char c" if "c \<in> set ?text" "c \<noteq> CHR ''-''" for c
      using that slug_char_lower by (auto split: if_splits)
    with sub show "list_all slug_char p" by (auto simp: list_all_iff)
  qed
  have ok: "slug_ok ?slug" if "?slug \<noteq> []"
  proof -
    have parts: "?parts \<noteq> []" using that by (metis join.simps(1))
    have "[] \<notin> set ?parts" by simp
    with parts have "last ?slug = last (last ?parts)" using join_ends by blast
    moreover have "last ?parts \<in> set ?parts" using parts by (rule last_in_set)
    then have "last ?parts \<noteq> []" "CHR ''-'' \<notin> set (last ?parts)" using chars by blast+
    then have "last (last ?parts) \<noteq> CHR ''-''" by (metis last_in_set)
    ultimately show ?thesis using that slug_join [OF chars] by (simp add: slug_ok_def)
  qed
  have "slug_ok ''workspace''" by code_simp
  with ok slug_cut [of ?slug 40] show ?thesis by (simp add: slugify_def Let_def)
qed

text \<open>
  C31. What a title becomes as a name is a name: whatever the text, its slug passes the check of names, has at most forty
  characters, no dash at either end and none twice in a row, and is its own slug.
\<close>

theorem slug_is_a_workspace_name:
  "validate_workspace_name (slugify t) = Inr () \<and> length (slugify t) \<le> 40
    \<and> slug_ok (slugify t) \<and> slugify (slugify t) = slugify t"
proof -
  have ok: "slug_ok (slugify t)" by (rule slugify_ok)
  have len: "length (slugify t) \<le> 40"
  proof -
    have "length (trim_end_char c s) \<le> length s" for c s
      using trim_end_char_append [of s c] by (metis le_add1 length_append)
    then have "length (trim_end_char c (take 40 s)) \<le> 40" for c s by (rule order_trans) simp
    then show ?thesis unfolding slugify_def Let_def by auto
  qed
  have "slug_shape dash s \<Longrightarrow> list_all workspace_name_char s" for dash s
    by (induction dash s rule: slug_shape.induct) (auto simp: workspace_name_char_def slug_char_def split: if_splits)
  with ok have names: "list_all workspace_name_char (slugify t)" by (auto simp: slug_ok_def)
  have "\<not> workspace_name_char c" if "is_whitespace c" for c
    using that by (auto simp: workspace_name_char_def is_ascii_alphanumeric_def is_ascii_lowercase_def is_ascii_uppercase_def
      is_ascii_digit_def in_range_def is_whitespace_def Let_def)
  then have no_space: "dropWhile is_whitespace s = s" if "list_all workspace_name_char s" for s
    using that by (cases s) auto
  have "trim s = s" if "list_all workspace_name_char s" for s
    using that no_space [of s] no_space [of "rev s"] by (simp add: trim_def trim_start_def trim_end_def)
  with names ok have "trim (slugify t) \<noteq> []" by (simp add: slug_ok_def)
  with names ok len slug_fixed [OF ok] show ?thesis by (simp add: validate_workspace_name_def)
qed

section \<open>Names stay apart\<close>

definition names_ok :: "ws_store \<Rightarrow> bool" where
  "names_ok s \<longleftrightarrow> keyed wk_id (st_workspaces s) \<and> keyed wk_name (st_workspaces s)"

text \<open>What an operation may assume and has to leave.\<close>

definition preserves :: "('s \<Rightarrow> bool) \<Rightarrow> ('s, 'a) operation \<Rightarrow> bool" where
  "preserves P m \<longleftrightarrow> (\<forall>s. P s \<longrightarrow> P (fst (m s)))"

lemma preserves_chain:
  assumes "preserves P m" and "\<And>x. preserves P (f x)"
  shows "preserves P (chain m f)"
  unfolding preserves_def
proof (intro allI impI)
  fix s assume "P s"
  obtain t r where m: "m s = (t, r)" by (metis surj_pair)
  then have "P t" using assms(1) \<open>P s\<close> by (metis fst_conv preserves_def)
  with assms(2) show "P (fst (chain m f s))"
    by (cases r) (simp_all add: chain_def m preserves_def)
qed

lemma preserves_attempt: "preserves P m \<Longrightarrow> preserves P (attempt m)"
  by (simp add: preserves_def attempt_def case_prod_beta)

lemma keeps_preserves: "keeps part m \<Longrightarrow> (\<And>s t. part t = part s \<Longrightarrow> P s \<Longrightarrow> P t) \<Longrightarrow> preserves P m"
  by (auto simp: keeps_def preserves_def)

lemma keeps_run_command [keeps_intros]: "(\<And>s cs. part (s\<lparr>st_commands := cs\<rparr>) = part s) \<Longrightarrow> keeps part (run_command ou c)"
  by (simp add: keeps_def run_command_def)

lemma keeps_event [keeps_intros]: "(\<And>s t. part (s\<lparr>st_timeline := t\<rparr>) = part s) \<Longrightarrow> keeps part (record_workspace_event ou i name kind summary)"
  by (simp add: record_workspace_event_def keeps_intros)

lemmas operation_defs = get_by_name_def workspace_name_by_id_def load_repository_by_id_def
  command_output_def git_output_dynamic_def git_dynamic_def changed_files_def workspace_merge_base_ref_def branch_changed_files_def
  pull_request_by_workspace_id_def record_pull_request_with_state_def record_pull_request_def pull_request_url_for_workspace_def
  existing_pull_request_for_workspace_def gh_pr_args_for_workspace_def metadata_workspace_name_def unique_message_workspace_name_def
  stage_all_workspace_files_def commit_message_draft_def commit_workspace_changes_def push_branch_def

lemma keeps_case_outcome [keeps_intros]:
  "(\<And>c. keeps part (f c)) \<Longrightarrow> (\<And>a b c. keeps part (g a b c)) \<Longrightarrow> keeps part (case r of Not_run c \<Rightarrow> f c | Ended a b c \<Rightarrow> g a b c)"
  by (cases r) simp_all

lemma keeps_case_option [keeps_intros]:
  "keeps part f \<Longrightarrow> (\<And>x. keeps part (g x)) \<Longrightarrow> keeps part (case r of None \<Rightarrow> f | Some x \<Rightarrow> g x)"
  by (cases r) simp_all

lemma keeps_if [keeps_intros]: "keeps part f \<Longrightarrow> keeps part g \<Longrightarrow> keeps part (if b then f else g)"
  by simp

lemma keeps_let [keeps_intros]: "(\<And>x. keeps part (f x)) \<Longrightarrow> keeps part (let x = a in f x)"
  by (simp add: Let_def)

lemma workspaces_kept:
  "keeps st_workspaces (get_by_name name)"
  "keeps st_workspaces (load_repository_by_id i)"
  "keeps st_workspaces (branch_changed_files ou name)"
  "keeps st_workspaces (command_output ou cwd program args)"
  "keeps st_workspaces (existing_pull_request_for_workspace ou w)"
  "keeps st_workspaces (record_pull_request ou i url)"
  "keeps st_workspaces (gh_pr_args_for_workspace w sub extra)"
  "keeps st_workspaces (metadata_workspace_name ou repository i raw)"
  unfolding operation_defs by (intro keeps_intros; simp)+

lemma names_kept: "keeps st_workspaces m \<Longrightarrow> preserves names_ok m"
  by (erule keeps_preserves) (simp add: names_ok_def)

lemma rename_rows_names:
  assumes ok: "names_ok s" and free: "\<forall>w\<in>set (st_workspaces s). wk_name w = new_name \<longrightarrow> wk_id w = i"
  shows "names_ok (rename_rows now new_name i s)"
proof -
  let ?f = "\<lambda>w. if wk_id w = i then w\<lparr>wk_name := new_name, wk_updated_at := now\<rparr> else w"
  have ids: "map (wk_id \<circ> ?f) (st_workspaces s) = map wk_id (st_workspaces s)" by simp
  have "inj_on (wk_name \<circ> ?f) (set (st_workspaces s))"
  proof (rule inj_onI)
    fix v w assume vw: "v \<in> set (st_workspaces s)" "w \<in> set (st_workspaces s)" and eq: "(wk_name \<circ> ?f) v = (wk_name \<circ> ?f) w"
    have "wk_id v = wk_id w \<or> wk_name v = wk_name w"
      using eq free vw by (auto split: if_splits)
    with ok vw show "v = w" by (auto simp: names_ok_def keyed_def distinct_map inj_on_def)
  qed
  moreover have "distinct (st_workspaces s)" using ok by (auto simp: names_ok_def keyed_def distinct_map)
  ultimately have "distinct (map (wk_name \<circ> ?f) (st_workspaces s))" by (simp add: distinct_map)
  moreover have "distinct (map (wk_id \<circ> ?f) (st_workspaces s))" using ok unfolding ids by (simp add: names_ok_def keyed_def)
  moreover have "st_workspaces (rename_rows now new_name i s) = map ?f (st_workspaces s)"
    by (simp add: rename_rows_def update_where_def)
  ultimately show ?thesis unfolding names_ok_def keyed_def by (simp only: map_map)
qed

lemma lift_run: "lift_result r s = (s, r)"
  by (cases r) (simp_all add: lift_result_def step_simps)

lemma chain_lift: "chain (lift_result r) f s = (case r of Inl e \<Rightarrow> (s, Inl e) | Inr x \<Rightarrow> f x s)"
  by (simp add: chain_def lift_run)

lemma get_by_name_run: "get_by_name name s = (s, row_or (''load workspace '' @ name) (find_workspace name s))"
  by (simp add: get_by_name_def step_simps lift_run)

lemma chain_get_by_name: "chain (get_by_name name) f s = (case find_workspace name s of
    None \<Rightarrow> (s, Inl [''load workspace '' @ name, no_rows]) | Some w \<Rightarrow> f w s)"
  by (simp add: chain_def get_by_name_run row_or_def split: option.split)

text \<open>A rename is refused, or it moves the workspace found to a name no other has and then only reads and reports.\<close>

definition renamed_report :: "outside \<Rightarrow> string \<Rightarrow> string \<Rightarrow> nat \<Rightarrow> (ws_store, Workspace) operation" where
  "renamed_report ou name new_name changed =
     chain (ensure (changed > 0) (''workspace '' @ name @ '' not found'')) (\<lambda>_.
     chain (get_by_name new_name) (\<lambda>renamed.
     chain (record_workspace_event ou (wk_id renamed) (wk_name renamed) ''workspace.renamed''
       (''Renamed workspace from '' @ name @ '' to '' @ new_name)) (\<lambda>_. give renamed)))"

lemma rename_run:
  "rename ou name new_name s =
     (case validate_workspace_name new_name of Inl e \<Rightarrow> (s, Inl e) | Inr _ \<Rightarrow>
      case find_workspace name s of None \<Rightarrow> (s, Inl [''load workspace '' @ name, no_rows]) | Some w \<Rightarrow>
      case row_or (''load repository '' @ show_int (wk_repository_id w)) (find (\<lambda>r. rr_id r = wk_repository_id w) (st_repositories s)) of
        Inl e \<Rightarrow> (s, Inl e) | Inr repository \<Rightarrow>
      case workspace_name_available_for_rename ou repository (wk_id w) new_name s of Inl e \<Rightarrow> (s, Inl e)
      | Inr available \<Rightarrow> if \<not> available then (s, Inl [''workspace '' @ new_name @ '' already exists''])
        else renamed_report ou name new_name (count_where (\<lambda>v. wk_id v = wk_id w) (st_workspaces s))
               (rename_rows (ou_now ou) new_name (wk_id w) s))"
proof -
  have load: "chain (load_repository_by_id i) f s = (case row_or (''load repository '' @ show_int i)
      (find (\<lambda>r. rr_id r = i) (st_repositories s)) of Inl e \<Rightarrow> (s, Inl e) | Inr r \<Rightarrow> f r s)" for i and f :: "_ \<Rightarrow> (ws_store, Workspace) operation"
    by (simp add: load_repository_by_id_def chain_assoc chain_read chain_lift)
  have read: "chain (chain (read_store g) lift_result) f s = (case g s of Inl e \<Rightarrow> (s, Inl e) | Inr r \<Rightarrow> f r s)"
    for g and f :: "_ \<Rightarrow> (ws_store, Workspace) operation"
    by (simp add: chain_assoc chain_read chain_lift)
  show ?thesis
    by (simp only: rename_def renamed_report_def chain_lift chain_get_by_name load read chain_ensure chain_read chain_write
      if_distrib [where f = "\<lambda>m. m s"] bail_run if_not_P if_P cong: if_cong)
      (simp add: bail_run split: sum.split option.split)
qed

lemma rename_cases:
  obtains "st_workspaces (fst (rename ou name new_name s)) = st_workspaces s"
  | w where "find_workspace name s = Some w" "\<forall>v\<in>set (st_workspaces s). wk_name v = new_name \<longrightarrow> wk_id v = wk_id w"
      "st_workspaces (fst (rename ou name new_name s)) = st_workspaces (rename_rows (ou_now ou) new_name (wk_id w) s)"
proof -
  have report: "st_workspaces (fst (renamed_report ou name new_name n t)) = st_workspaces t" for n t
  proof -
    have "keeps st_workspaces (renamed_report ou name new_name n)"
      unfolding renamed_report_def by (intro keeps_intros workspaces_kept; simp)
    then show ?thesis by (simp add: keeps_def)
  qed
  have free: "\<forall>v\<in>set (st_workspaces s). wk_name v = new_name \<longrightarrow> wk_id v = wk_id w"
    if "workspace_name_available_for_rename ou repository (wk_id w) new_name s = Inr True" for repository w
    using that by (auto simp: workspace_name_available_for_rename_def split: if_splits)
  let ?out = "st_workspaces (fst (rename ou name new_name s))"
  have "?out = st_workspaces s \<or> (\<exists>w. find_workspace name s = Some w
      \<and> (\<forall>v\<in>set (st_workspaces s). wk_name v = new_name \<longrightarrow> wk_id v = wk_id w)
      \<and> ?out = st_workspaces (rename_rows (ou_now ou) new_name (wk_id w) s))"
    unfolding rename_run using free by (auto simp: report split: sum.split option.split)
  with that show ?thesis by blast
qed

lemma rename_names: "preserves names_ok (rename ou name new_name)"
  unfolding preserves_def
proof (intro allI impI)
  fix s assume ok: "names_ok s"
  show "names_ok (fst (rename ou name new_name s))"
  proof (cases rule: rename_cases [of ou name new_name s])
    case 1
    with ok show ?thesis by (simp add: names_ok_def)
  next
    case (2 w)
    then show ?thesis using rename_rows_names [OF ok 2(2), of "ou_now ou"] by (simp add: names_ok_def)
  qed
qed

named_theorems preserves_intros \<open>what operations preserve\<close>

lemma preserves_case_option [preserves_intros]:
  "preserves P f \<Longrightarrow> (\<And>x. preserves P (g x)) \<Longrightarrow> preserves P (case r of None \<Rightarrow> f | Some x \<Rightarrow> g x)"
  by (cases r) simp_all

lemma preserves_if [preserves_intros]: "preserves P f \<Longrightarrow> preserves P g \<Longrightarrow> preserves P (if b then f else g)"
  by simp

lemmas names_preserved [preserves_intros] = workspaces_kept [THEN names_kept] keeps_give [THEN names_kept]
  keeps_bail [THEN names_kept] keeps_ensure [THEN names_kept] keeps_lift [THEN names_kept]

lemma naming_names [preserves_intros]: "preserves names_ok (apply_pull_request_workspace_naming ou workspace title)"
  unfolding apply_pull_request_workspace_naming_def by (intro preserves_intros preserves_chain rename_names)

lemma create_names: "preserves names_ok (create_pull_request ou name title body draft)"
  unfolding create_pull_request_def by (intro preserves_intros preserves_chain preserves_attempt)

text \<open>
  C32. No two workspaces ever share a name: a rename, and opening a pull request, which renames the workspace after the
  title, leave the ids and the names of the workspaces distinct.
\<close>

theorem workspace_names_stay_distinct:
  assumes "names_ok s"
  shows "names_ok (fst (rename ou name new_name s)) \<and> names_ok (fst (create_pull_request ou name title body draft s))"
  using assms rename_names create_names by (simp add: preserves_def)

section \<open>A store to try operations on\<close>

definition example_workspace :: Workspace where
  "example_workspace = \<lparr>wk_id = 1, wk_repository_id = 1, wk_name = ''a'', wk_path = ''/w/a'', wk_branch = ''lc/a'',
     wk_base_ref = ''main'', wk_port_base = 3000, wk_status = ''active'', wk_archived_at = None, wk_created_at = ''t'',
     wk_updated_at = ''t''\<rparr>"

definition example_note :: Summary where
  "example_note = \<lparr>sm_id = 1, sm_workspace_id = 1, sm_scope_type = ''workspace'', sm_scope_id = 0,
     sm_body_markdown = ''note'', sm_source_refs = [''archductor:agent''], sm_created_at = ''t'', sm_updated_at = ''t''\<rparr>"

definition example_task :: BackgroundTask where
  "example_task = \<lparr>bk_id = 1, bk_repository_name = ''demo'', bk_workspace_id = Some 1, bk_workspace_name = Some ''a'',
     bk_task_id = Some 1, bk_title = ''fix'', bk_prompt = ''fix'', bk_provider = ''codex'', bk_status = ''running'',
     bk_run_checks = True, bk_open_pr = True, bk_draft_pr = True, bk_detail = [], bk_error = None, bk_created_at = ''t'',
     bk_updated_at = ''t''\<rparr>"

definition example_ws_store :: ws_store where
  "example_ws_store = \<lparr>st_workspaces = [example_workspace],
     st_repositories = [\<lparr>rr_id = 1, rr_root_path = ''/r'', rr_default_branch = ''main'', rr_remote_name = ''origin'',
       rr_workspace_parent_path = ''/w''\<rparr>],
     st_pull_requests = [], st_timeline = [], st_spotlights = [],
     st_tasks = [\<lparr>tk_id = 1, tk_workspace_id = 1, tk_title = ''fix'', tk_body = [], tk_status = ''in_progress'',
       tk_owner_session_id = None, tk_owner = None, tk_intended_areas = [], tk_blocked_reason = None, tk_review_notes = [],
       tk_linked_session_ids = [], tk_created_at = ''t'', tk_updated_at = ''t''\<rparr>],
     st_summaries = [example_note], st_refresh_states = [],
     st_threads = [\<lparr>ct_id = 3, ct_workspace_id = 1, ct_provider = ''codex'', ct_title = ''fix'', ct_status = ''active'',
       ct_task_id = Some 1, ct_intended_areas = [], ct_updated_at = ''t''\<rparr>],
     st_processes = [], st_queue = [], st_background = [example_task], st_commands = []\<rparr>"

definition example_outside :: outside where
  "example_outside = \<lparr>ou_now = ''now'', ou_run = (\<lambda>_ _. Ended True [] []), ou_paths = [''/w/a''], ou_from_str = (\<lambda>_. None)\<rparr>"

lemma example_names: "names_ok example_ws_store"
  by (simp add: names_ok_def keyed_def example_ws_store_def)

theorem workspace_names_stay_distinct_witness:
  "names_ok (fst (rename example_outside ''a'' ''b'' example_ws_store))
    \<and> names_ok (fst (create_pull_request example_outside ''a'' (Some ''Fix it'') None True example_ws_store))"
  by (rule workspace_names_stay_distinct [OF example_names])

end
