(* ===== verification/Workspace_Tasks.thy ===== *)
theory Workspace_Tasks
  imports Workspace_Store
begin

text \<open>
  The tasks of a workspace and the summaries kept of it, of its chats and of its tasks
  (\<open>crates/core/src/workspace_intel.rs\<close>). A column that holds a list as lines of text is kept as the
  list the text reads back as. The drafts of summaries and of pull requests, and the evidence a refresh
  compares, are read from the whole store: they are arguments, collected in the record \<open>drafts\<close>.
\<close>

record drafts =
  dr_workspace :: "string \<Rightarrow> ws_store \<Rightarrow> error_chain + string"
  dr_session :: "string \<Rightarrow> int \<Rightarrow> ws_store \<Rightarrow> error_chain + string"
  dr_task :: "string \<Rightarrow> int \<Rightarrow> ws_store \<Rightarrow> error_chain + string"
  dr_pull_request :: "string \<Rightarrow> ws_store \<Rightarrow> error_chain + (string \<times> string)"
  dr_evidence :: "string \<Rightarrow> int \<Rightarrow> string \<Rightarrow> int \<Rightarrow> string \<Rightarrow> ws_store \<Rightarrow> error_chain + (string \<times> int option \<times> int option)"

section \<open>Lists as lines and words from a set\<close>

definition join_list :: "string list \<Rightarrow> string" where
  "join_list values = join [CHR 0x0A] (filter (\<lambda>v. v \<noteq> []) (map trim values))"

definition split_list :: "string \<Rightarrow> string list" where
  "split_list v = filter (\<lambda>line. line \<noteq> []) (map trim (str_lines v))"

definition TASK_STATUSES :: "string list" where
  "TASK_STATUSES = [''todo'', ''in_progress'', ''blocked'', ''review'', ''done'']"

definition SUMMARY_SCOPES :: "string list" where
  "SUMMARY_SCOPES = [''workspace'', ''session'', ''task'', ''review'', ''handoff'']"

definition validate_word :: "string \<Rightarrow> string list \<Rightarrow> string \<Rightarrow> error_chain + string" where
  "validate_word v0 allowed label =
     (let v = to_ascii_lowercase (trim v0) in if v \<in> set allowed then Inr v
      else Inl [''unknown '' @ label @ '' `'' @ v @ ''` (expected one of '' @ join '', '' allowed @ '')''])"

text \<open>The path of a line \<open>kind path\<close>; all of it where there is no space.\<close>

definition parse_file_change_line :: "string \<Rightarrow> string option" where
  "parse_file_change_line line0 =
     (let line = trim line0; path = trim (case position (\<lambda>c. c = CHR '' '') line of Some k \<Rightarrow> drop (Suc k) line | None \<Rightarrow> line)
      in if line = [] \<or> path = [] then None else Some path)"

definition parse_file_change_body :: "string \<Rightarrow> string list" where
  "parse_file_change_body body = List.map_filter parse_file_change_line (str_lines body)"

definition relative_workspace_path :: "string \<Rightarrow> string \<Rightarrow> string" where
  "relative_workspace_path path workspace_path0 =
     (let workspace_path = trim_end_char (CHR ''/'') workspace_path0
      in if workspace_path = [] then path
         else case strip_prefix workspace_path path of None \<Rightarrow> path
            | Some rest0 \<Rightarrow> (let rest = dropWhile (\<lambda>c. c = CHR ''/'') rest0 in if rest = [] then path else rest))"

section \<open>Text an agent supplies\<close>

text \<open>The opening bracket of a tag of Archductor's own becomes a parenthesis.\<close>

definition starts_own_tag :: "string \<Rightarrow> bool" where
  "starts_own_tag after =
     (let lowered = to_ascii_lowercase after
      in prefix ''archductor'' (case strip_prefix ''/'' lowered of Some r \<Rightarrow> r | None \<Rightarrow> lowered))"

fun defang_archductor_markup :: "string \<Rightarrow> string" where
  "defang_archductor_markup [] = []"
| "defang_archductor_markup (c # s) = (if c = CHR ''<'' \<and> starts_own_tag s then CHR ''('' else c) # defang_archductor_markup s"

definition AGENT_SUMMARY_MAX_CHARS :: nat where
  "AGENT_SUMMARY_MAX_CHARS = 1200"

definition clamp_agent_summary :: "string \<Rightarrow> string" where
  "clamp_agent_summary body0 =
     (let body = trim (defang_archductor_markup body0)
      in if chars_count body \<le> AGENT_SUMMARY_MAX_CHARS then body
         else let clamped = chars_take AGENT_SUMMARY_MAX_CHARS body
              in case rposition (\<lambda>c. c = CHR 0x0A) clamped of
                   Some k \<Rightarrow> if AGENT_SUMMARY_MAX_CHARS div 2 < k then trim_end (take k clamped) else trim_end clamped
                 | None \<Rightarrow> trim_end clamped)"

section \<open>Tasks\<close>

record TaskUpdate =
  tu_title :: "string option"
  tu_body :: "string option"
  tu_status :: "string option"
  tu_owner_session_id :: "int option option"
  tu_owner :: "string option option"
  tu_intended_areas :: "string list option"
  tu_blocked_reason :: "string option option"
  tu_review_notes :: "string option"

definition no_update :: TaskUpdate where
  "no_update = \<lparr>tu_title = None, tu_body = None, tu_status = None, tu_owner_session_id = None, tu_owner = None,
     tu_intended_areas = None, tu_blocked_reason = None, tu_review_notes = None\<rparr>"

definition task_linked_sessions :: "int \<Rightarrow> ws_store \<Rightarrow> int list" where
  "task_linked_sessions i s = sort (map ct_id (filter (\<lambda>t. ct_task_id t = Some i) (st_threads s)))"

definition get_task :: "int \<Rightarrow> (ws_store, Task) operation" where
  "get_task i = chain (read_store (\<lambda>s. find (\<lambda>t. tk_id t = i) (st_tasks s))) (\<lambda>row.
     chain (lift_result (row_or (''load task '' @ show_int i) row)) (\<lambda>task.
     read_store (\<lambda>s. task\<lparr>tk_linked_session_ids := task_linked_sessions i s\<rparr>)))"

definition create_task :: "outside \<Rightarrow> string \<Rightarrow> string \<Rightarrow> string \<Rightarrow> string list \<Rightarrow> (ws_store, Task) operation" where
  "create_task ou workspace_name title0 body intended_areas =
     (let title = trim title0 in
     chain (ensure (title \<noteq> []) ''task title is required'') (\<lambda>_.
     chain (get_by_name workspace_name) (\<lambda>workspace.
     chain (read_store (\<lambda>s. sql_next tk_id (st_tasks s))) (\<lambda>i.
     chain (write_store (\<lambda>s. s\<lparr>st_tasks := st_tasks s @ [\<lparr>tk_id = i, tk_workspace_id = wk_id workspace, tk_title = title,
         tk_body = trim body, tk_status = ''todo'', tk_owner_session_id = None, tk_owner = None,
         tk_intended_areas = split_list (join_list intended_areas), tk_blocked_reason = None, tk_review_notes = [],
         tk_linked_session_ids = [], tk_created_at = ou_now ou, tk_updated_at = ou_now ou\<rparr>]\<rparr>)) (\<lambda>_.
     chain (get_task i) (\<lambda>task.
     chain (record_workspace_event ou (wk_id workspace) (wk_name workspace) ''task.created''
       (''Task #'' @ show_int (tk_id task) @ '' created: '' @ tk_title task)) (\<lambda>_.
     give task)))))))"

definition list_tasks :: "string \<Rightarrow> (ws_store, Task list) operation" where
  "list_tasks workspace_name = chain (get_by_name workspace_name) (\<lambda>workspace.
     read_store (\<lambda>s. map (\<lambda>t. t\<lparr>tk_linked_session_ids := task_linked_sessions (tk_id t) s\<rparr>)
       (sort_key tk_id (filter (\<lambda>t. tk_workspace_id t = wk_id workspace) (st_tasks s)))))"

definition task_in_workspace :: "string \<Rightarrow> int \<Rightarrow> (ws_store, Task) operation" where
  "task_in_workspace workspace_name i =
     chain (get_by_name workspace_name) (\<lambda>workspace.
     chain (get_task i) (\<lambda>task.
     chain (ensure (tk_workspace_id task = wk_id workspace)
       (''task '' @ show_int i @ '' not found in workspace '' @ workspace_name)) (\<lambda>_.
     give task)))"

definition ensure_session_in_workspace :: "int \<Rightarrow> int \<Rightarrow> (ws_store, unit) operation" where
  "ensure_session_in_workspace workspace_id session_id =
     chain (read_store (\<lambda>s. map_option ct_workspace_id (find (\<lambda>t. ct_id t = session_id) (st_threads s)))) (\<lambda>owner. case owner of
       Some o' \<Rightarrow> if o' = workspace_id then give ()
         else bail [''session '' @ show_int session_id @ '' belongs to a different workspace'']
     | None \<Rightarrow> bail [''session '' @ show_int session_id @ '' not found''])"

text \<open>A nullable text of an update: trimmed, and cleared when nothing is left.\<close>

definition updated_text :: "string option option \<Rightarrow> string option \<Rightarrow> string option" where
  "updated_text new old = (case new of None \<Rightarrow> old | Some v \<Rightarrow> trimmed_nonempty v)"

definition update_task :: "outside \<Rightarrow> string \<Rightarrow> int \<Rightarrow> TaskUpdate \<Rightarrow> (ws_store, Task) operation" where
  "update_task ou workspace_name i u =
     chain (ensure (u \<noteq> no_update) ''task update requires at least one field'') (\<lambda>_.
     chain (task_in_workspace workspace_name i) (\<lambda>existing.
     chain (case tu_title u of None \<Rightarrow> give (tk_title existing)
         | Some v \<Rightarrow> chain (ensure (trim v \<noteq> []) ''task title is required'') (\<lambda>_. give (trim v))) (\<lambda>title.
     let body = (case tu_body u of Some v \<Rightarrow> trim v | None \<Rightarrow> tk_body existing) in
     chain (case tu_status u of None \<Rightarrow> give (tk_status existing)
         | Some v \<Rightarrow> lift_result (validate_word v TASK_STATUSES ''task status'')) (\<lambda>status.
     chain (case tu_owner_session_id u of None \<Rightarrow> give (tk_owner_session_id existing)
         | Some None \<Rightarrow> give None
         | Some (Some session_id) \<Rightarrow>
             chain (ensure_session_in_workspace (tk_workspace_id existing) session_id) (\<lambda>_. give (Some session_id))) (\<lambda>owner_session_id.
     let owner = updated_text (tu_owner u) (tk_owner existing);
         review_notes = (case tu_review_notes u of Some v \<Rightarrow> trim v | None \<Rightarrow> tk_review_notes existing);
         intended_areas = join_list (case tu_intended_areas u of Some areas \<Rightarrow> areas | None \<Rightarrow> tk_intended_areas existing);
         blocked_reason = updated_text (tu_blocked_reason u) (tk_blocked_reason existing) in
     chain (ensure (status \<noteq> ''blocked'' \<or> blocked_reason \<noteq> None) ''blocked tasks require a blocked_reason'') (\<lambda>_.
     chain (write_store (\<lambda>s. s\<lparr>st_tasks := update_where (\<lambda>t. tk_id t = i)
         (\<lambda>t. t\<lparr>tk_title := title, tk_body := body, tk_status := status, tk_owner_session_id := owner_session_id,
            tk_owner := owner, tk_intended_areas := split_list intended_areas, tk_blocked_reason := blocked_reason,
            tk_review_notes := review_notes, tk_updated_at := ou_now ou\<rparr>) (st_tasks s)\<rparr>)) (\<lambda>_.
     chain (get_task i) (\<lambda>task.
     chain (if tk_status task \<noteq> tk_status existing
         then chain (workspace_name_by_id (tk_workspace_id existing)) (\<lambda>name.
              record_workspace_event ou (tk_workspace_id existing) name ''task.status_changed''
                (''Task #'' @ show_int (tk_id task) @ '' '' @ tk_status existing @ '' '' @ [CHR 0xE2, CHR 0x86, CHR 0x92] @ '' '' @ tk_status task))
         else give ()) (\<lambda>_.
     give task)))))))))"

text \<open>
  Deleting a task takes three statements and no transaction; the second is refused while a background task
  refers to the row, for the database enforces foreign keys.
\<close>

definition delete_task :: "string \<Rightarrow> int \<Rightarrow> (ws_store, unit) operation" where
  "delete_task workspace_name i =
     chain (task_in_workspace workspace_name i) (\<lambda>task.
     chain (write_store (\<lambda>s. s\<lparr>st_threads :=
         update_where (\<lambda>t. ct_task_id t = Some i) (\<lambda>t. t\<lparr>ct_task_id := None\<rparr>) (st_threads s)\<rparr>)) (\<lambda>_.
     chain (read_store (\<lambda>s. \<exists>b\<in>set (st_background s). bk_task_id b = Some i)) (\<lambda>referred.
     chain (ensure (\<not> referred) ''FOREIGN KEY constraint failed'') (\<lambda>_.
     write_store (\<lambda>s. s\<lparr>st_tasks := delete_where (\<lambda>t. tk_id t = i) (st_tasks s),
       st_summaries := delete_where (\<lambda>m. sm_workspace_id m = tk_workspace_id task \<and> sm_scope_type m = ''task''
         \<and> sm_scope_id m = i) (st_summaries s)\<rparr>)))))"

definition assign_session_task :: "string \<Rightarrow> int \<Rightarrow> int option \<Rightarrow> (ws_store, unit) operation" where
  "assign_session_task workspace_name session_id task_id =
     chain (get_by_name workspace_name) (\<lambda>workspace.
     chain (ensure_session_in_workspace (wk_id workspace) session_id) (\<lambda>_.
     chain (case task_id of None \<Rightarrow> give ()
         | Some i \<Rightarrow> chain (get_task i) (\<lambda>task. ensure (tk_workspace_id task = wk_id workspace)
             (''task '' @ show_int i @ '' belongs to a different workspace than session '' @ show_int session_id))) (\<lambda>_.
     write_store (\<lambda>s. s\<lparr>st_threads := update_where (\<lambda>t. ct_id t = session_id) (\<lambda>t. t\<lparr>ct_task_id := task_id\<rparr>) (st_threads s)\<rparr>))))"

definition set_session_intended_areas :: "string \<Rightarrow> int \<Rightarrow> string list \<Rightarrow> (ws_store, unit) operation" where
  "set_session_intended_areas workspace_name session_id areas =
     chain (get_by_name workspace_name) (\<lambda>workspace.
     let here = (\<lambda>t. ct_id t = session_id \<and> ct_workspace_id t = wk_id workspace) in
     chain (read_store (\<lambda>s. count_where here (st_threads s))) (\<lambda>changed.
     chain (write_store (\<lambda>s. s\<lparr>st_threads := update_where here (\<lambda>t. t\<lparr>ct_intended_areas := join_list areas\<rparr>) (st_threads s)\<rparr>)) (\<lambda>_.
     ensure (changed > 0) (''session '' @ show_int session_id @ '' not found in workspace '' @ workspace_name))))"

text \<open>Open and blocked tasks of each workspace that has any.\<close>

definition task_counts_by_workspace :: "ws_store \<Rightarrow> (int \<times> (nat \<times> nat)) list" where
  "task_counts_by_workspace s = map (\<lambda>i. (i,
       (count_where (\<lambda>t. tk_workspace_id t = i \<and> tk_status t \<noteq> ''done'') (st_tasks s),
        count_where (\<lambda>t. tk_workspace_id t = i \<and> tk_status t = ''blocked'') (st_tasks s))))
     (remdups (map tk_workspace_id (st_tasks s)))"

section \<open>Summaries\<close>

definition AGENT_SUMMARY_SOURCE_REF :: string where
  "AGENT_SUMMARY_SOURCE_REF = ''archductor:agent''"

definition SUMMARY_REFRESH_SOURCE_REF :: string where
  "SUMMARY_REFRESH_SOURCE_REF = ''archductor:refresh''"

definition summary_is_agent_authored :: "Summary \<Rightarrow> bool" where
  "summary_is_agent_authored m \<longleftrightarrow> AGENT_SUMMARY_SOURCE_REF \<in> set (sm_source_refs m)"

definition summary_is_refresh_authored :: "Summary \<Rightarrow> bool" where
  "summary_is_refresh_authored m \<longleftrightarrow> (\<forall>r\<in>set (sm_source_refs m). r = SUMMARY_REFRESH_SOURCE_REF)"

definition at_scope :: "int \<Rightarrow> string \<Rightarrow> int \<Rightarrow> Summary \<Rightarrow> bool" where
  "at_scope i scope_type scope_id m \<longleftrightarrow> sm_workspace_id m = i \<and> sm_scope_type m = scope_type \<and> sm_scope_id m = scope_id"

definition summary_at :: "int \<Rightarrow> string \<Rightarrow> int \<Rightarrow> ws_store \<Rightarrow> Summary option" where
  "summary_at i scope_type scope_id s = find (at_scope i scope_type scope_id) (st_summaries s)"

definition get_summary :: "string \<Rightarrow> string \<Rightarrow> int option \<Rightarrow> (ws_store, Summary option) operation" where
  "get_summary workspace_name scope_type0 scope_id =
     chain (lift_result (validate_word scope_type0 SUMMARY_SCOPES ''summary scope'')) (\<lambda>scope_type.
     chain (get_by_name workspace_name) (\<lambda>workspace.
     read_store (summary_at (wk_id workspace) scope_type (unwrap_or scope_id 0))))"

definition upsert_summary :: "string \<Rightarrow> int \<Rightarrow> string \<Rightarrow> int \<Rightarrow> string \<Rightarrow> string list \<Rightarrow> Summary list \<Rightarrow> Summary list" where
  "upsert_summary now i scope_type scope_id body source_refs rows =
     (if \<exists>m\<in>set rows. at_scope i scope_type scope_id m
      then update_where (at_scope i scope_type scope_id)
        (\<lambda>m. m\<lparr>sm_body_markdown := body, sm_source_refs := split_list (join_list source_refs), sm_updated_at := now\<rparr>) rows
      else rows @ [\<lparr>sm_id = sql_next sm_id rows, sm_workspace_id = i, sm_scope_type = scope_type, sm_scope_id = scope_id,
        sm_body_markdown = body, sm_source_refs = split_list (join_list source_refs), sm_created_at = now, sm_updated_at = now\<rparr>])"

definition save_summary :: "outside \<Rightarrow> string \<Rightarrow> string \<Rightarrow> int option \<Rightarrow> string \<Rightarrow> string list \<Rightarrow> (ws_store, Summary) operation" where
  "save_summary ou workspace_name scope_type0 scope_id0 body_markdown source_refs =
     chain (lift_result (validate_word scope_type0 SUMMARY_SCOPES ''summary scope'')) (\<lambda>scope_type.
     let scope_id = unwrap_or scope_id0 0; body = trim body_markdown in
     chain (ensure (scope_type = ''workspace'' \<or> scope_id \<noteq> 0) (scope_type @ '' summaries require a scope_id'')) (\<lambda>_.
     chain (ensure (body \<noteq> []) ''summary body is required'') (\<lambda>_.
     chain (get_by_name workspace_name) (\<lambda>workspace.
     chain (write_store (\<lambda>s. s\<lparr>st_summaries :=
         upsert_summary (ou_now ou) (wk_id workspace) scope_type scope_id body source_refs (st_summaries s)\<rparr>)) (\<lambda>_.
     chain (get_summary workspace_name scope_type (Some scope_id)) (\<lambda>stored.
     lift_result (case stored of None \<Rightarrow> Inl [''summary was not stored''] | Some m \<Rightarrow> Inr m)))))))"

definition save_agent_workspace_summary :: "outside \<Rightarrow> string \<Rightarrow> string \<Rightarrow> (ws_store, Summary) operation" where
  "save_agent_workspace_summary ou workspace_name body_markdown =
     (let body = clamp_agent_summary body_markdown in
      chain (ensure (body \<noteq> []) ''summary body is required'') (\<lambda>_.
      save_summary ou workspace_name ''workspace'' None body [AGENT_SUMMARY_SOURCE_REF]))"

definition agent_workspace_summary :: "string \<Rightarrow> (ws_store, Summary option) operation" where
  "agent_workspace_summary workspace_name = chain (get_summary workspace_name ''workspace'' None)
     (\<lambda>m. give (Option.bind m (\<lambda>m. if summary_is_agent_authored m then Some m else None)))"

definition save_agent_chat_summary :: "outside \<Rightarrow> string \<Rightarrow> int \<Rightarrow> string \<Rightarrow> (ws_store, Summary) operation" where
  "save_agent_chat_summary ou workspace_name thread_id body_markdown =
     (let body = clamp_agent_summary body_markdown in
      chain (ensure (body \<noteq> []) ''summary body is required'') (\<lambda>_.
      save_summary ou workspace_name ''session'' (Some thread_id) body [AGENT_SUMMARY_SOURCE_REF]))"

definition agent_chat_summary :: "string \<Rightarrow> int \<Rightarrow> (ws_store, Summary option) operation" where
  "agent_chat_summary workspace_name thread_id = chain (get_summary workspace_name ''session'' (Some thread_id))
     (\<lambda>m. give (Option.bind m (\<lambda>m. if summary_is_agent_authored m then Some m else None)))"

definition list_summaries :: "string \<Rightarrow> (ws_store, Summary list) operation" where
  "list_summaries workspace_name = chain (get_by_name workspace_name) (\<lambda>workspace.
     read_store (\<lambda>s. sort_key sm_scope_type (sort_key sm_scope_id
       (filter (\<lambda>m. sm_workspace_id m = wk_id workspace) (st_summaries s)))))"

definition delete_summary :: "string \<Rightarrow> int \<Rightarrow> (ws_store, unit) operation" where
  "delete_summary workspace_name i =
     chain (get_by_name workspace_name) (\<lambda>workspace.
     let here = (\<lambda>m. sm_id m = i \<and> sm_workspace_id m = wk_id workspace) in
     chain (read_store (\<lambda>s. count_where here (st_summaries s))) (\<lambda>changed.
     chain (write_store (\<lambda>s. s\<lparr>st_summaries := delete_where here (st_summaries s)\<rparr>)) (\<lambda>_.
     ensure (changed > 0) (''summary '' @ show_int i @ '' not found in workspace '' @ workspace_name))))"

section \<open>Refreshing summaries\<close>

datatype SummaryRefreshScope = WorkspaceScope string | CurrentChat string int | TaskScope string int

definition at_refresh :: "int \<Rightarrow> string \<Rightarrow> int \<Rightarrow> SummaryRefreshState \<Rightarrow> bool" where
  "at_refresh i scope_type scope_id r \<longleftrightarrow> rs_workspace_id r = i \<and> rs_scope_type r = scope_type \<and> rs_scope_id r = scope_id"

definition summary_refresh_state :: "int \<Rightarrow> string \<Rightarrow> int \<Rightarrow> (ws_store, SummaryRefreshState option) operation" where
  "summary_refresh_state i scope_type scope_id = read_store (\<lambda>s. find (at_refresh i scope_type scope_id) (st_refresh_states s))"

definition record_summary_refresh_state ::
  "outside \<Rightarrow> int \<Rightarrow> string \<Rightarrow> int \<Rightarrow> string \<Rightarrow> string \<Rightarrow> int option \<Rightarrow> int option \<Rightarrow> (ws_store, unit) operation" where
  "record_summary_refresh_state ou i scope_type scope_id source hash latest_message latest_sequence =
     write_store (\<lambda>s. s\<lparr>st_refresh_states :=
       (if \<exists>r\<in>set (st_refresh_states s). at_refresh i scope_type scope_id r
        then update_where (at_refresh i scope_type scope_id)
          (\<lambda>r. r\<lparr>rs_source := source, rs_evidence_hash := hash, rs_latest_message_id := latest_message,
             rs_latest_provider_sequence := latest_sequence, rs_last_refreshed_at := ou_now ou\<rparr>) (st_refresh_states s)
        else st_refresh_states s @ [\<lparr>rs_id = sql_next rs_id (st_refresh_states s), rs_workspace_id = i,
          rs_scope_type = scope_type, rs_scope_id = scope_id, rs_source = source, rs_evidence_hash = hash,
          rs_latest_message_id = latest_message, rs_latest_provider_sequence = latest_sequence,
          rs_last_refreshed_at = ou_now ou\<rparr>])\<rparr>)"

text \<open>The state after a refresh was recorded.\<close>

definition stored_refresh_state :: "int \<Rightarrow> string \<Rightarrow> int \<Rightarrow> (ws_store, SummaryRefreshState) operation" where
  "stored_refresh_state i scope_type scope_id = chain (summary_refresh_state i scope_type scope_id) (\<lambda>state.
     lift_result (case state of None \<Rightarrow> Inl [''summary refresh state was not stored''] | Some r \<Rightarrow> Inr r))"

definition write_refreshed :: "outside \<Rightarrow> string \<Rightarrow> int \<Rightarrow> string \<Rightarrow> int \<Rightarrow> string \<Rightarrow> string \<Rightarrow> string \<times> int option \<times> int option
    \<Rightarrow> (ws_store, Summary \<times> SummaryRefreshState \<times> bool) operation" where
  "write_refreshed ou workspace_name i scope_type scope_id body source evidence =
     chain (save_summary ou workspace_name scope_type (Some scope_id) body [SUMMARY_REFRESH_SOURCE_REF]) (\<lambda>summary.
     chain (record_summary_refresh_state ou i scope_type scope_id source (fst evidence) (fst (snd evidence)) (snd (snd evidence))) (\<lambda>_.
     chain (stored_refresh_state i scope_type scope_id) (\<lambda>state. give (summary, state, True))))"

definition save_refreshed_summary :: "outside \<Rightarrow> drafts \<Rightarrow> string \<Rightarrow> string \<Rightarrow> int option \<Rightarrow> string \<Rightarrow> string
    \<Rightarrow> (ws_store, Summary \<times> SummaryRefreshState \<times> bool) operation" where
  "save_refreshed_summary ou dr workspace_name scope_type scope_id0 body source =
     chain (get_by_name workspace_name) (\<lambda>workspace.
     let i = wk_id workspace; scope_id = unwrap_or scope_id0 0 in
     chain (chain (read_store (dr_evidence dr workspace_name i scope_type scope_id body)) lift_result) (\<lambda>evidence.
     chain (summary_refresh_state i scope_type scope_id) (\<lambda>existing_state.
     chain (get_summary workspace_name scope_type (Some scope_id)) (\<lambda>existing_summary.
     case (existing_summary, existing_state) of
       (Some m, None) \<Rightarrow>
         if \<not> summary_is_refresh_authored m
         then chain (record_summary_refresh_state ou i scope_type scope_id source (fst evidence) (fst (snd evidence)) (snd (snd evidence)))
                (\<lambda>_. chain (stored_refresh_state i scope_type scope_id) (\<lambda>state. give (m, state, False)))
         else write_refreshed ou workspace_name i scope_type scope_id body source evidence
     | (Some m, Some state) \<Rightarrow>
         if \<not> summary_is_refresh_authored m \<or> rs_evidence_hash state = fst evidence then give (m, state, False)
         else write_refreshed ou workspace_name i scope_type scope_id body source evidence
     | (None, _) \<Rightarrow> write_refreshed ou workspace_name i scope_type scope_id body source evidence))))"

text \<open>A draft, which reads the workspace first.\<close>

definition drafted :: "(ws_store \<Rightarrow> error_chain + 'a) \<Rightarrow> string \<Rightarrow> (ws_store, 'a) operation" where
  "drafted draft workspace_name = chain (get_by_name workspace_name) (\<lambda>_. chain (read_store draft) lift_result)"

fun refresh_summary :: "outside \<Rightarrow> drafts \<Rightarrow> SummaryRefreshScope \<Rightarrow> (ws_store, Summary \<times> SummaryRefreshState \<times> bool) operation" where
  "refresh_summary ou dr (WorkspaceScope w) = chain (drafted (dr_workspace dr w) w) (\<lambda>body.
     save_refreshed_summary ou dr w ''workspace'' None body ''auto'')"
| "refresh_summary ou dr (CurrentChat w thread_id) = chain (drafted (dr_session dr w thread_id) w) (\<lambda>body.
     save_refreshed_summary ou dr w ''session'' (Some thread_id) body ''auto'')"
| "refresh_summary ou dr (TaskScope w task_id) = chain (drafted (dr_task dr w task_id) w) (\<lambda>body.
     save_refreshed_summary ou dr w ''task'' (Some task_id) body ''auto'')"

section \<open>Lists survive being stored\<close>

lemma lines_of_part: "CHR 0x0A \<notin> set p \<Longrightarrow> lines_of acc (p @ s) = lines_of (rev p @ acc) s"
  by (induction p arbitrary: acc) auto

lemma str_lines_part:
  assumes "CHR 0x0A \<notin> set p" and "p \<noteq> []" and "last p \<noteq> CHR 0x0D"
  shows "str_lines (p @ CHR 0x0A # s) = p # str_lines s"
proof -
  from assms(2,3) obtain d ds where d: "rev p = d # ds" "d \<noteq> CHR 0x0D" by (cases "rev p") (auto simp: last_rev hd_rev)
  then have "lines_of (rev p) (CHR 0x0A # s) = rev (rev p) # lines_of [] s" by simp
  with lines_of_part [OF assms(1), of "[]"] show ?thesis by (simp add: str_lines_def)
qed

lemma lines_of_join:
  "\<forall>p\<in>set ps. CHR 0x0A \<notin> set p \<and> p \<noteq> [] \<and> last p \<noteq> CHR 0x0D \<Longrightarrow> str_lines (join [CHR 0x0A] ps) = ps"
proof (induction "[CHR 0x0A]" ps rule: join.induct)
  case (2 p)
  then show ?case using lines_of_part [of p "[]" "[]"] by (simp add: str_lines_def)
next
  case (3 p q ps)
  then show ?case by (simp add: str_lines_part)
qed (simp add: str_lines_def)

lemma trim_last: "trim v \<noteq> [] \<Longrightarrow> \<not> is_whitespace (last (trim v))"
  using hd_dropWhile [of is_whitespace "rev (trim_start v)"] by (simp add: trim_def trim_end_def last_rev)

lemma trim_subset: "set (trim v) \<subseteq> set v"
  unfolding trim_def trim_end_def trim_start_def set_rev by (metis set_dropWhileD set_rev subsetI)

text \<open>
  A list kept as lines reads back: what is stored of a list of texts without line breaks is the texts
  trimmed, the blank ones left out, in order.
\<close>

lemma stored_list_reads_back:
  assumes "\<forall>v\<in>set vs. CHR 0x0A \<notin> set v"
  shows "split_list (join_list vs) = filter (\<lambda>v. v \<noteq> []) (map trim vs)"
proof -
  let ?ps = "filter (\<lambda>v. v \<noteq> []) (map trim vs)"
  have cr: "is_whitespace (CHR 0x0D)" by code_simp
  have "CHR 0x0A \<notin> set p \<and> p \<noteq> [] \<and> last p \<noteq> CHR 0x0D" if "p \<in> set ?ps" for p
  proof -
    from that obtain v where v: "v \<in> set vs" "p = trim v" "p \<noteq> []" by auto
    with trim_last [of v] trim_subset [of v] assms cr show ?thesis by auto
  qed
  then have "str_lines (join_list vs) = ?ps" unfolding join_list_def by (intro lines_of_join ballI)
  moreover have "map trim ?ps = ?ps" by (rule map_idI) auto
  ultimately show ?thesis by (simp add: split_list_def)
qed

section \<open>Tasks stay well formed\<close>

definition task_ok :: "Task \<Rightarrow> bool" where
  "task_ok t \<longleftrightarrow> tk_title t \<noteq> [] \<and> tk_status t \<in> set TASK_STATUSES
     \<and> (tk_status t = ''blocked'' \<longrightarrow> tk_blocked_reason t \<noteq> None)"

definition tasks_ok :: "ws_store \<Rightarrow> bool" where
  "tasks_ok s \<longleftrightarrow> keyed tk_id (st_tasks s) \<and> (\<forall>t\<in>set (st_tasks s). task_ok t)"

text \<open>An operation keeps the tasks well formed, and \<open>R\<close> holds of its result when it has one.\<close>

definition secures :: "(ws_store, 'a) operation \<Rightarrow> ('a \<Rightarrow> bool) \<Rightarrow> bool" where
  "secures m R \<longleftrightarrow> (\<forall>s. tasks_ok s \<longrightarrow> tasks_ok (fst (m s)) \<and> (\<forall>x. snd (m s) = Inr x \<longrightarrow> R x))"

lemma secures_chain:
  assumes "secures m Q" and "\<And>x. Q x \<Longrightarrow> secures (f x) R"
  shows "secures (chain m f) R"
  unfolding secures_def
proof (intro allI impI)
  fix s assume ok: "tasks_ok s"
  obtain t r where m: "m s = (t, r)" by (metis surj_pair)
  with assms(1) ok have "tasks_ok t" and r: "\<forall>x. r = Inr x \<longrightarrow> Q x" unfolding secures_def by (metis fst_conv, metis snd_conv)
  then show "tasks_ok (fst (chain m f s)) \<and> (\<forall>x. snd (chain m f s) = Inr x \<longrightarrow> R x)"
    using assms(2) by (cases r) (simp_all add: chain_def m secures_def)
qed

lemma secures_kept: "keeps st_tasks m \<Longrightarrow> secures m (\<lambda>_. True)"
  by (simp add: secures_def keeps_def tasks_ok_def)

lemma secures_give: "R x \<Longrightarrow> secures (give x) R"
  by (simp add: secures_def give_def)

lemma secures_ensure: "secures (ensure b message) (\<lambda>_. b)"
  by (simp add: secures_def ensure_def give_def bail_def)

lemma secures_lift: "(\<And>x. r = Inr x \<Longrightarrow> R x) \<Longrightarrow> secures (lift_result r) R"
  by (simp add: secures_def lift_run)

lemma secures_write: "(\<And>s. tasks_ok s \<Longrightarrow> tasks_ok (f s)) \<Longrightarrow> secures (write_store f) (\<lambda>_. True)"
  by (simp add: secures_def write_store_def)

lemma tasks_kept [keeps_intros]:
  "keeps st_tasks (get_by_name name)" "keeps st_tasks (workspace_name_by_id j)" "keeps st_tasks (get_task j)"
  "keeps st_tasks (ensure_session_in_workspace j k)"
  unfolding get_by_name_def workspace_name_by_id_def get_task_def ensure_session_in_workspace_def by (intro keeps_intros)+

lemma secures_existing: "secures (task_in_workspace name i) task_ok"
proof -
  have get: "secures (get_task i) task_ok"
    unfolding secures_def get_task_def
    by (auto simp: chain_read chain_lift row_or_def read_store_def tasks_ok_def task_ok_def dest!: find_keyed_Some
      split: option.splits)
  show ?thesis
    unfolding task_in_workspace_def
    by (rule secures_chain, rule secures_kept, rule keeps_intros, rule secures_chain, rule get, rule secures_chain,
      rule secures_ensure, rule secures_give)
qed

lemma updated_ok:
  assumes "tasks_ok s" and "\<And>t. tk_id (f t) = tk_id t" and "\<And>t. task_ok (f t)"
  shows "tasks_ok (s\<lparr>st_tasks := update_where p f (st_tasks s)\<rparr>)"
  using assms update_where_keyed [of tk_id f p "st_tasks s"]
  by (simp add: tasks_ok_def keyed_def) (auto simp: update_where_def)

lemma update_task_secures: "secures (update_task ou name i u) (\<lambda>_. True)"
proof -
  have title: "secures (case tu_title u of None \<Rightarrow> give (tk_title existing)
      | Some v \<Rightarrow> chain (ensure (trim v \<noteq> []) ''task title is required'') (\<lambda>_. give (trim v))) (\<lambda>t. t \<noteq> [])" if "task_ok existing" for existing
    using that by (cases "tu_title u") (auto simp: task_ok_def intro!: secures_give secures_chain [OF secures_ensure])
  have status: "secures (case tu_status u of None \<Rightarrow> give (tk_status existing)
      | Some v \<Rightarrow> lift_result (validate_word v TASK_STATUSES ''task status'')) (\<lambda>st. st \<in> set TASK_STATUSES)" if "task_ok existing" for existing
    using that by (cases "tu_status u") (auto simp: task_ok_def validate_word_def Let_def intro!: secures_give secures_lift split: if_splits)
  have kept: "secures m (\<lambda>_. True)" if "keeps st_tasks m" for m :: "(ws_store, 'a) operation" using that by (rule secures_kept)
  show ?thesis
    unfolding update_task_def Let_def
    apply (rule secures_chain, rule secures_ensure)
    apply (rule secures_chain, rule secures_existing)
    apply (rule secures_chain, erule title)
    apply (rule secures_chain, erule status)
    apply (rule secures_chain [where Q = "\<lambda>_. True"], rule secures_kept)
    subgoal by (intro keeps_intros)
    apply (rule secures_chain, rule secures_ensure)
    apply (rule secures_chain, rule secures_write, rule updated_ok, assumption)
    subgoal by simp
    subgoal by (auto simp: task_ok_def)
    apply (rule secures_kept)
    by (intro keeps_intros; simp)
qed


lemma create_task_secures: "secures (create_task ou name title body areas) (\<lambda>_. True)"
proof -
  have fresh: "tasks_ok (s\<lparr>st_tasks := st_tasks s @ [row (sql_next tk_id (st_tasks s))]\<rparr>)"
    if "tasks_ok s" "\<And>i. tk_id (row i) = i" "\<And>i. task_ok (row i)" for s row
    using that sql_next_greater [of _ "st_tasks s" tk_id] by (fastforce simp: tasks_ok_def keyed_def)
  have insert: "secures (chain (read_store (\<lambda>s. sql_next tk_id (st_tasks s))) (\<lambda>i.
      chain (write_store (\<lambda>s. s\<lparr>st_tasks := st_tasks s @ [row i]\<rparr>)) (\<lambda>_. g i))) (\<lambda>_. True)"
    if "\<And>i. tk_id (row i) = i" "\<And>i. task_ok (row i)" "\<And>i. secures (g i) (\<lambda>_. True)" for row and g :: "int \<Rightarrow> (ws_store, Task) operation"
    using that fresh unfolding secures_def chain_read chain_write by blast
  show ?thesis
    unfolding create_task_def Let_def
    apply (rule secures_chain, rule secures_ensure)
    apply (rule secures_chain, rule secures_kept, rule keeps_intros)
    apply (rule insert)
    subgoal by simp
    subgoal by (simp add: task_ok_def TASK_STATUSES_def)
    apply (rule secures_kept)
    by (intro keeps_intros; simp)
qed

lemma delete_task_secures: "secures (delete_task name i) (\<lambda>_. True)"
proof -
  have gone: "tasks_ok (s\<lparr>st_tasks := delete_where p (st_tasks s), st_summaries := x\<rparr>)" if "tasks_ok s" for s p x
    using that by (auto simp: tasks_ok_def keyed_def delete_where_def intro: distinct_map_filter)
  show ?thesis
    unfolding delete_task_def
    apply (rule secures_chain, rule secures_existing)
    apply (rule secures_chain, rule secures_kept, intro keeps_intros, simp)
    apply (rule secures_chain, rule secures_kept, intro keeps_intros)
    apply (rule secures_chain, rule secures_ensure)
    by (rule secures_write, rule gone)
qed

text \<open>
  C33. The tasks of a workspace stay well formed: whatever an operation on tasks is given, and whether it succeeds or fails part of
  the way, afterwards every task has a title, one of the five statuses, a reason if it is blocked, and an id of its own.
\<close>

theorem tasks_stay_well_formed:
  assumes "tasks_ok s"
  shows "tasks_ok (fst (create_task ou name title body areas s)) \<and> tasks_ok (fst (update_task ou name i u s))
    \<and> tasks_ok (fst (delete_task name i s)) \<and> tasks_ok (fst (assign_session_task name k task s))"
proof -
  have "keeps st_tasks (assign_session_task name k task)"
    unfolding assign_session_task_def by (intro keeps_intros; simp)
  then have "secures (assign_session_task name k task) (\<lambda>_. True)" by (rule secures_kept)
  then show ?thesis
    using assms create_task_secures update_task_secures delete_task_secures unfolding secures_def by blast
qed

theorem tasks_stay_well_formed_witness:
  "tasks_ok (fst (create_task example_outside ''a'' ''next'' [] [] example_ws_store))
    \<and> tasks_ok (fst (update_task example_outside ''a'' 1 (no_update\<lparr>tu_status := Some ''blocked''\<rparr>) example_ws_store))
    \<and> tasks_ok (fst (delete_task ''a'' 1 example_ws_store)) \<and> tasks_ok (fst (assign_session_task ''a'' 3 None example_ws_store))"
proof -
  have "tasks_ok example_ws_store" by (simp add: tasks_ok_def keyed_def task_ok_def TASK_STATUSES_def example_ws_store_def)
  then show ?thesis by (rule tasks_stay_well_formed)
qed

section \<open>Text of agents is tame\<close>

text \<open>Somewhere an opening bracket is followed by the name of the program, with or without a slash and in any case.\<close>

definition holds_own_tag :: "string \<Rightarrow> bool" where
  "holds_own_tag s \<longleftrightarrow> (\<exists>before after. s = before @ CHR ''<'' # after
     \<and> (prefix ''archductor'' (to_ascii_lowercase after) \<or> prefix ''/archductor'' (to_ascii_lowercase after)))"

lemma lowercase_append: "to_ascii_lowercase (s @ t) = to_ascii_lowercase s @ to_ascii_lowercase t"
  by (simp add: to_ascii_lowercase_def)

lemma starts_own_tag_iff: "starts_own_tag s \<longleftrightarrow> prefix ''archductor'' (to_ascii_lowercase s) \<or> prefix ''/archductor'' (to_ascii_lowercase s)"
  by (cases "to_ascii_lowercase s") (auto simp: starts_own_tag_def strip_prefix_def)

lemma holds_own_tag_iff: "holds_own_tag s \<longleftrightarrow> (\<exists>before after. s = before @ CHR ''<'' # after \<and> starts_own_tag after)"
  by (simp add: holds_own_tag_def starts_own_tag_iff)

lemma starts_own_tag_append: "starts_own_tag s \<Longrightarrow> starts_own_tag (s @ t)"
  by (auto simp: starts_own_tag_iff lowercase_append prefix_prefix)

lemma holds_own_tag_part: "holds_own_tag s \<Longrightarrow> holds_own_tag (a @ s @ b)"
  unfolding holds_own_tag_iff by (metis append.assoc append_Cons starts_own_tag_append)

lemma defang_prefix: "CHR ''('' \<notin> set q \<Longrightarrow> prefix q (to_ascii_lowercase (defang_archductor_markup s)) \<Longrightarrow> prefix q (to_ascii_lowercase s)"
proof (induction s arbitrary: q)
  case (Cons c s)
  have paren: "ascii_lower (CHR ''('') = CHR ''(''" by code_simp
  show ?case
  proof (cases q)
    case q: (Cons d ds)
    with Cons.prems paren have "\<not> (c = CHR ''<'' \<and> starts_own_tag s)" by (auto simp: to_ascii_lowercase_def split: if_splits)
    with Cons q show ?thesis by (auto simp: to_ascii_lowercase_def)
  qed simp
qed simp

lemma defang_no_tag: "\<not> holds_own_tag (defang_archductor_markup s)"
proof (induction s)
  case (Cons c s)
  show ?case
  proof
    assume "holds_own_tag (defang_archductor_markup (c # s))"
    then obtain before after where split: "defang_archductor_markup (c # s) = before @ CHR ''<'' # after" "starts_own_tag after"
      by (auto simp: holds_own_tag_iff)
    show False
    proof (cases before)
      case Nil
      with split have "c = CHR ''<''" "\<not> starts_own_tag s" "after = defang_archductor_markup s" by (auto split: if_splits)
      with split(2) defang_prefix [of "''archductor''" s] defang_prefix [of "''/archductor''" s] show False
        by (auto simp: starts_own_tag_iff)
    next
      case (Cons d ds)
      with split Cons.IH show False by (auto simp: holds_own_tag_iff)
    qed
  qed
qed (simp add: holds_own_tag_iff)

lemma trim_part: "\<exists>a b. s = a @ trim s @ b"
proof -
  have "s = takeWhile is_whitespace s @ trim_start s" by (simp add: trim_start_def)
  moreover have "\<exists>b. t = trim_end t @ b" for t
    unfolding trim_end_def by (metis rev_append rev_rev_ident takeWhile_dropWhile_id)
  ultimately show ?thesis unfolding trim_def by metis
qed

lemma trim_end_part: "\<exists>b. s = trim_end s @ b"
  unfolding trim_end_def by (metis rev_append rev_rev_ident takeWhile_dropWhile_id)

lemma clamped_is_tame:
  "chars_count (clamp_agent_summary body) \<le> 1200 \<and> \<not> holds_own_tag (clamp_agent_summary body)"
proof -
  let ?body = "trim (defang_archductor_markup body)"
  let ?r = "clamp_agent_summary body"
  have "\<exists>b. ?body = ?r @ b \<and> chars_count ?r \<le> 1200"
  proof (cases "chars_count ?body \<le> 1200")
    case True
    then show ?thesis by (simp add: clamp_agent_summary_def AGENT_SUMMARY_MAX_CHARS_def Let_def)
  next
    case False
    let ?c = "chars_take 1200 ?body"
    have cut: "?r = (case rposition (\<lambda>c. c = CHR 0x0A) ?c of
        Some k \<Rightarrow> if AGENT_SUMMARY_MAX_CHARS div 2 < k then trim_end (take k ?c) else trim_end ?c | None \<Rightarrow> trim_end ?c)"
      using False by (simp add: clamp_agent_summary_def AGENT_SUMMARY_MAX_CHARS_def Let_def)
    have "?r = trim_end ?c \<or> (\<exists>k. ?r = trim_end (take k ?c))"
    proof (cases "rposition (\<lambda>c. c = CHR 0x0A) ?c")
      case (Some k)
      with cut show ?thesis by (cases "AGENT_SUMMARY_MAX_CHARS div 2 < k") auto
    qed (use cut in simp)
    then obtain k where "?r = trim_end (take k ?c)" by (metis order_refl take_all)
    then obtain t where r: "?r = trim_end t" "t = take k ?c" by simp
    obtain b1 b2 b3 where b: "?body = ?c @ b1" "?c = t @ b2" "t = ?r @ b3"
      using chars_take_prefix [of 1200 ?body] r trim_end_part [of t] append_take_drop_id [of k ?c] by (metis prefix_def)
    have "chars_count ?c \<le> 1200" by (simp add: chars_count_take)
    moreover have "?c = ?r @ (b3 @ b2)" using b(2,3) by simp
    ultimately have "chars_count ?r \<le> 1200" by (metis chars_count_append le_add1 order_trans)
    moreover have "?body = ?r @ (b3 @ b2 @ b1)" using b by simp
    ultimately show ?thesis by metis
  qed
  moreover obtain a b where "defang_archductor_markup body = a @ ?body @ b" using trim_part by blast
  ultimately show ?thesis using defang_no_tag [of body] holds_own_tag_part by (metis append.assoc)
qed

lemma trim_tame:
  assumes "chars_count s \<le> n" and "\<not> holds_own_tag s"
  shows "chars_count (trim s) \<le> n \<and> \<not> holds_own_tag (trim s)"
proof -
  obtain a b where "s = a @ trim s @ b" using trim_part by blast
  with assms show ?thesis by (metis chars_count_append holds_own_tag_part le_add1 le_add2 order_trans)
qed

lemma summary_scopes_valid: "scope \<in> set SUMMARY_SCOPES \<Longrightarrow> validate_word scope SUMMARY_SCOPES label = Inr scope"
proof -
  have "\<forall>scope\<in>set SUMMARY_SCOPES. to_ascii_lowercase (trim scope) = scope" by code_simp
  then show "scope \<in> set SUMMARY_SCOPES \<Longrightarrow> ?thesis" by (simp add: validate_word_def Let_def)
qed

text \<open>What a saved summary holds: the row at its scope has the text and the references that were given.\<close>

lemma save_summary_stores:
  assumes "save_summary ou w scope k body refs s = (s', Inr m)"
  shows "m \<in> set (st_summaries s') \<and> sm_body_markdown m = trim body \<and> sm_source_refs m = split_list (join_list refs)"
proof -
  obtain scope' where valid: "validate_word scope SUMMARY_SCOPES ''summary scope'' = Inr scope'"
    using assms by (auto simp: save_summary_def chain_lift split: sum.splits)
  then have known: "scope' \<in> set SUMMARY_SCOPES" by (auto simp: validate_word_def Let_def split: if_splits)
  obtain ws where ws: "find_workspace w s = Some ws"
    using assms valid by (auto simp: save_summary_def chain_lift Let_def chain_ensure bail_run chain_get_by_name split: if_splits option.splits)
  let ?rows = "upsert_summary (ou_now ou) (wk_id ws) scope' (unwrap_or k 0) (trim body) refs (st_summaries s)"
  have ws': "find_workspace w (s\<lparr>st_summaries := ?rows\<rparr>) = Some ws" using ws by (simp add: find_workspace_def)
  have found: "find (at_scope (wk_id ws) scope' (unwrap_or k 0)) ?rows = Some m" and s': "s' = s\<lparr>st_summaries := ?rows\<rparr>"
    using assms valid ws ws' summary_scopes_valid [OF known]
    by (auto simp: save_summary_def chain_lift Let_def chain_ensure bail_run chain_get_by_name chain_write get_summary_def
      chain_assoc chain_read lift_run unwrap_or_def summary_at_def split: if_splits option.splits)
  then have m: "m \<in> set ?rows" "at_scope (wk_id ws) scope' (unwrap_or k 0) m" by (auto simp: find_Some_iff)
  have written: "sm_body_markdown m = trim body \<and> sm_source_refs m = split_list (join_list refs)"
  proof (cases "\<exists>y\<in>set (st_summaries s). at_scope (wk_id ws) scope' (unwrap_or k 0) y")
    case True
    then have "?rows = update_where (at_scope (wk_id ws) scope' (unwrap_or k 0))
        (\<lambda>m. m\<lparr>sm_body_markdown := trim body, sm_source_refs := split_list (join_list refs), sm_updated_at := ou_now ou\<rparr>) (st_summaries s)"
      by (simp add: upsert_summary_def)
    with m(1) have "\<exists>y\<in>set (st_summaries s). m = (if at_scope (wk_id ws) scope' (unwrap_or k 0) y
        then y\<lparr>sm_body_markdown := trim body, sm_source_refs := split_list (join_list refs), sm_updated_at := ou_now ou\<rparr> else y)"
      by (simp only: update_where_def set_map image_iff)
    then obtain y where "m = (if at_scope (wk_id ws) scope' (unwrap_or k 0) y
        then y\<lparr>sm_body_markdown := trim body, sm_source_refs := split_list (join_list refs), sm_updated_at := ou_now ou\<rparr> else y)" ..
    with m(2) show ?thesis by (simp split: if_splits)
  next
    case False
    with m show ?thesis by (auto simp: upsert_summary_def)
  qed
  show ?thesis using m written s' by simp
qed

lemma agent_ref_kept: "split_list (join_list [AGENT_SUMMARY_SOURCE_REF]) = [''archductor:agent'']"
  by code_simp

text \<open>
  C34. A summary an agent writes through its own requests is tame when it is stored: the row that holds the summary of the workspace or
  of a chat after the agent saved one has at most twelve hundred characters, and it holds no opening or closing tag of
  Archductor's own, whatever the agent wrote, so replayed into a later session it cannot pass for a directive; and the row is
  signed as the agent's.
\<close>

theorem agent_summary_is_tame:
  assumes "save_agent_workspace_summary ou w body s = (s', Inr m) \<or> save_agent_chat_summary ou w thread_id body s = (s', Inr m)"
  shows "m \<in> set (st_summaries s') \<and> chars_count (sm_body_markdown m) \<le> 1200 \<and> \<not> holds_own_tag (sm_body_markdown m)
    \<and> sm_source_refs m = [''archductor:agent'']"
proof -
  from assms obtain scope k where "save_summary ou w scope k (clamp_agent_summary body) [AGENT_SUMMARY_SOURCE_REF] s = (s', Inr m)"
    by (auto simp: save_agent_workspace_summary_def save_agent_chat_summary_def Let_def chain_ensure bail_run split: if_splits)
  from save_summary_stores [OF this] show ?thesis
    using trim_tame clamped_is_tame [of body] agent_ref_kept by metis
qed

theorem agent_summary_is_tame_witness:
  "\<exists>m. m \<in> set (st_summaries (fst (save_agent_workspace_summary example_outside ''a'' ''see <Archductor> x'' example_ws_store)))
    \<and> sm_body_markdown m = ''see (Archductor> x'' \<and> \<not> holds_own_tag (sm_body_markdown m)"
proof -
  let ?save = "save_agent_workspace_summary example_outside ''a'' ''see <Archductor> x'' example_ws_store"
  obtain s' r where run: "?save = (s', r)" by (metis surj_pair)
  have "(case snd ?save of Inr m \<Rightarrow> sm_body_markdown m | Inl e \<Rightarrow> []) = ''see (Archductor> x''" by code_simp
  with run obtain m where m: "r = Inr m" "sm_body_markdown m = ''see (Archductor> x''" by (cases r) auto
  show ?thesis using agent_summary_is_tame [of example_outside "''a''" "''see <Archductor> x''" example_ws_store s' m 0] run m by auto
qed

end
