(* ===== verification/Background_Tasks.thy ===== *)
theory Background_Tasks
  imports Workspace_Tasks Daemon
begin

text \<open>
  Background tasks (\<open>crates/core/src/background_tasks.rs\<close>, and the daemon's tick in
  \<open>crates/core/src/archcar/server.rs\<close>): a workspace made from a prompt, an agent at work in it, and, once the
  agent is idle, checks, a summary and a pull request.

  Creating a workspace, the configured checks of a repository and starting one are arguments, collected in
  \<open>background_ports\<close>; a check that starts is recorded as a process. A step holds the claim, so it is one
  operation; what may happen between its reading of the row and its writing is the subject of the section
  on interleavings.
\<close>

record background_ports =
  bp_create :: "string \<Rightarrow> string \<Rightarrow> string option \<Rightarrow> string option \<Rightarrow> string option \<Rightarrow> ws_store \<Rightarrow> error_chain + Workspace"
  bp_checks :: "Workspace \<Rightarrow> ws_store \<Rightarrow> error_chain + string list"
  bp_start_check :: "Workspace \<Rightarrow> string \<Rightarrow> ws_store \<Rightarrow> error_chain + process_columns"

record BackgroundAgentSpec =
  ba_provider :: string
  ba_prompt :: "string option"

record StartBackgroundTask =
  sb_repository :: string
  sb_prompt :: string
  sb_title :: "string option"
  sb_workspace_name :: "string option"
  sb_branch :: "string option"
  sb_base_ref :: "string option"
  sb_provider :: string
  sb_run_checks :: bool
  sb_open_pr :: bool
  sb_draft_pr :: bool
  sb_extra_agents :: "BackgroundAgentSpec list"

definition background_task_is_terminal :: "string \<Rightarrow> bool" where
  "background_task_is_terminal status \<longleftrightarrow> status \<in> {''ready'', ''failed'', ''cancelled''}"

definition title_from_prompt :: "string \<Rightarrow> string" where
  "title_from_prompt prompt =
     (let line = unwrap_or (find (\<lambda>line. line \<noteq> []) (map trim (str_lines prompt))) ''Background task''
      in chars_take 72 line @ (if 72 < chars_count line then [CHR 0xE2, CHR 0x80, CHR 0xA6] else []))"

section \<open>Rows\<close>

definition get_background_task :: "int \<Rightarrow> (ws_store, BackgroundTask) operation" where
  "get_background_task i = chain (read_store (\<lambda>s. find (\<lambda>b. bk_id b = i) (st_background s)))
     (\<lambda>row. lift_result (row_or (''load background task '' @ show_int i) row))"

definition list_background_tasks :: "bool \<Rightarrow> (ws_store, BackgroundTask list) operation" where
  "list_background_tasks active_only = read_store (\<lambda>s. sort_key bk_id
     (filter (\<lambda>b. active_only \<longrightarrow> \<not> background_task_is_terminal (bk_status b)) (st_background s)))"

text \<open>The update guarded by \<open>status NOT IN ('ready', 'failed', 'cancelled')\<close>.\<close>

definition update_unsettled :: "int \<Rightarrow> (BackgroundTask \<Rightarrow> BackgroundTask) \<Rightarrow> (ws_store, unit) operation" where
  "update_unsettled i f = write_store (\<lambda>s. s\<lparr>st_background :=
     update_where (\<lambda>b. bk_id b = i \<and> \<not> background_task_is_terminal (bk_status b)) f (st_background s)\<rparr>)"

definition fail_background_task :: "outside \<Rightarrow> int \<Rightarrow> string \<Rightarrow> (ws_store, unit) operation" where
  "fail_background_task ou i error =
     update_unsettled i (\<lambda>b. b\<lparr>bk_status := ''failed'', bk_error := Some error, bk_updated_at := ou_now ou\<rparr>)"

definition set_background_task_status :: "outside \<Rightarrow> int \<Rightarrow> string \<Rightarrow> string \<Rightarrow> (ws_store, unit) operation" where
  "set_background_task_status ou i status detail =
     update_unsettled i (\<lambda>b. b\<lparr>bk_status := status, bk_detail := detail, bk_updated_at := ou_now ou\<rparr>)"

definition start_background_task :: "outside \<Rightarrow> background_ports \<Rightarrow> StartBackgroundTask \<Rightarrow> (ws_store, BackgroundTask) operation" where
  "start_background_task ou ports input =
     (let prompt = trim (sb_prompt input) in
     chain (ensure (prompt \<noteq> []) ''background task prompt is required'') (\<lambda>_.
     chain (ensure (sb_provider input \<in> {''codex'', ''claude''})
       (''background tasks need a managed agent provider (codex or claude), got `'' @ sb_provider input @ ''`'')) (\<lambda>_.
     chain (case find (\<lambda>agent. ba_provider agent \<notin> {''codex'', ''claude''}) (sb_extra_agents input) of None \<Rightarrow> give ()
         | Some agent \<Rightarrow> bail [''background tasks need managed agent providers (codex or claude), got `'' @ ba_provider agent @ ''`'']) (\<lambda>_.
     let title = (case trimmed_nonempty (sb_title input) of Some t \<Rightarrow> t | None \<Rightarrow> title_from_prompt prompt) in
     chain (chain (read_store (bp_create ports (sb_repository input) prompt (sb_workspace_name input) (sb_branch input)
         (sb_base_ref input))) lift_result) (\<lambda>made.
     chain (read_store (\<lambda>s. made\<lparr>wk_id := sql_next wk_id (st_workspaces s)\<rparr>)) (\<lambda>workspace.
     chain (write_store (\<lambda>s. s\<lparr>st_workspaces := st_workspaces s @ [workspace]\<rparr>)) (\<lambda>_.
     chain (create_task ou (wk_name workspace) title prompt []) (\<lambda>task.
     chain (update_task ou (wk_name workspace) (tk_id task) (no_update\<lparr>tu_status := Some ''in_progress''\<rparr>)) (\<lambda>_.
     chain (read_store (\<lambda>s. sql_next bk_id (st_background s))) (\<lambda>i.
     chain (write_store (\<lambda>s. s\<lparr>st_background := st_background s @ [\<lparr>bk_id = i, bk_repository_name = sb_repository input,
         bk_workspace_id = Some (wk_id workspace), bk_workspace_name = Some (wk_name workspace), bk_task_id = Some (tk_id task),
         bk_title = title, bk_prompt = prompt, bk_provider = sb_provider input, bk_status = ''pending'',
         bk_run_checks = sb_run_checks input, bk_open_pr = sb_open_pr input, bk_draft_pr = sb_draft_pr input,
         bk_detail = ''Waiting for the agent session to start'', bk_error = None, bk_created_at = ou_now ou,
         bk_updated_at = ou_now ou\<rparr>]\<rparr>)) (\<lambda>_.
     chain (get_background_task i) (\<lambda>background.
     chain (record_workspace_event ou (wk_id workspace) (wk_name workspace) ''background_task.created''
       (''Background task #'' @ show_int (bk_id background) @ '' created: '' @ title)) (\<lambda>_.
     give background)))))))))))))"

definition cancel_background_task :: "outside \<Rightarrow> int \<Rightarrow> (ws_store, BackgroundTask) operation" where
  "cancel_background_task ou i =
     chain (get_background_task i) (\<lambda>task.
     chain (ensure (\<not> background_task_is_terminal (bk_status task))
       (''background task '' @ show_int i @ '' already finished ('' @ bk_status task @ '')'')) (\<lambda>_.
     chain (set_background_task_status ou i ''cancelled'' ''Cancelled by request'') (\<lambda>_.
     get_background_task i)))"

definition mark_background_task_running :: "outside \<Rightarrow> int \<Rightarrow> (ws_store, BackgroundTask) operation" where
  "mark_background_task_running ou i =
     chain (set_background_task_status ou i ''running'' ''Agent session running'') (\<lambda>_. get_background_task i)"

definition mark_background_task_failed :: "outside \<Rightarrow> int \<Rightarrow> string \<Rightarrow> (ws_store, BackgroundTask) operation" where
  "mark_background_task_failed ou i error = chain (fail_background_task ou i error) (\<lambda>_. get_background_task i)"

section \<open>The steps\<close>

definition list_workspace_checks :: "background_ports \<Rightarrow> string \<Rightarrow> (ws_store, string list) operation" where
  "list_workspace_checks ports workspace = chain (get_by_name workspace) (\<lambda>w.
     chain (read_store (bp_checks ports w)) lift_result)"

definition run_workspace_check :: "background_ports \<Rightarrow> string \<Rightarrow> string \<Rightarrow> (ws_store, unit) operation" where
  "run_workspace_check ports workspace key = chain (get_by_name workspace) (\<lambda>w.
     chain (chain (read_store (bp_start_check ports w key)) lift_result) (\<lambda>process.
     write_store (\<lambda>s. s\<lparr>st_processes := st_processes s @ [process\<lparr>px_id := sql_next px_id (st_processes s),
       px_workspace_id := wk_id w, px_kind := ''check''\<rparr>]\<rparr>)))"

text \<open>The processes of a kind, newest first.\<close>

definition list_processes :: "string \<Rightarrow> string \<Rightarrow> (ws_store, process_columns list) operation" where
  "list_processes workspace kind = chain (get_by_name workspace) (\<lambda>w.
     read_store (\<lambda>s. rev (sort_key px_id (filter (\<lambda>p. px_workspace_id p = wk_id w \<and> px_kind p = kind) (st_processes s)))))"

fun start_checks :: "background_ports \<Rightarrow> string \<Rightarrow> string list \<Rightarrow> (ws_store, string list) operation" where
  "start_checks ports workspace [] = give []"
| "start_checks ports workspace (key # keys) =
     chain (attempt (run_workspace_check ports workspace key)) (\<lambda>r.
     chain (start_checks ports workspace keys) (\<lambda>started.
     give ((case r of Inr _ \<Rightarrow> key | Inl err \<Rightarrow> key @ '' (failed to start: '' @ show_error err @ '')'') # started)))"

definition begin_background_checks :: "outside \<Rightarrow> background_ports \<Rightarrow> BackgroundTask \<Rightarrow> string \<Rightarrow> (ws_store, unit) operation" where
  "begin_background_checks ou ports task workspace =
     (if \<not> bk_run_checks task then set_background_task_status ou (bk_id task) ''summarizing'' ''Checks skipped by request''
      else chain (attempt (list_workspace_checks ports workspace)) (\<lambda>r.
        let checks = (case r of Inr keys \<Rightarrow> keys | Inl _ \<Rightarrow> []) in
        if checks = [] then set_background_task_status ou (bk_id task) ''summarizing'' ''No checks configured for this repository''
        else chain (start_checks ports workspace checks) (\<lambda>started.
          set_background_task_status ou (bk_id task) ''checking'' (''Running checks: '' @ join '', '' started))))"

definition finish_background_checks :: "outside \<Rightarrow> BackgroundTask \<Rightarrow> string \<Rightarrow> (ws_store, unit) operation" where
  "finish_background_checks ou task workspace =
     chain (list_processes workspace ''check'') (\<lambda>checks.
     let running = length (filter (\<lambda>p. px_status p = Running) checks) in
     if running > 0
     then set_background_task_status ou (bk_id task) ''checking'' (''Waiting on '' @ show_nat running @ '' running check(s)'')
     else set_background_task_status ou (bk_id task) ''summarizing'' ''Checks finished'')"

definition write_background_summary :: "outside \<Rightarrow> drafts \<Rightarrow> BackgroundTask \<Rightarrow> string \<Rightarrow> (ws_store, unit) operation" where
  "write_background_summary ou dr task workspace =
     chain (drafted (dr_workspace dr workspace) workspace) (\<lambda>body.
     chain (save_summary ou workspace ''workspace'' None body [''background task #'' @ show_int (bk_id task)]) (\<lambda>_.
     chain (case bk_task_id task of None \<Rightarrow> give ()
         | Some i \<Rightarrow> chain (attempt (update_task ou workspace i (no_update\<lparr>tu_status := Some ''review''\<rparr>))) (\<lambda>_. give ())) (\<lambda>_.
     if bk_open_pr task then set_background_task_status ou (bk_id task) ''opening_pr'' ''Preparing pull request''
     else set_background_task_status ou (bk_id task) ''ready'' ''Ready for review (no pull request requested)'')))"

text \<open>What the agent left is committed.\<close>

definition commit_what_is_left :: "outside \<Rightarrow> BackgroundTask \<Rightarrow> string \<Rightarrow> (ws_store, unit) operation" where
  "commit_what_is_left ou task workspace =
     chain (attempt (changed_files ou workspace)) (\<lambda>r.
     if (case r of Inr files \<Rightarrow> files | Inl _ \<Rightarrow> []) = [] then give ()
     else chain (attempt (commit_message_draft ou workspace)) (\<lambda>drafted_message.
       let message = (case drafted_message of Inr m \<Rightarrow> m | Inl _ \<Rightarrow> bk_title task) in
       chain (stage_all_workspace_files ou workspace) (\<lambda>_.
       chain (commit_workspace_changes ou workspace message) (\<lambda>_. give ()))))"

definition open_background_pull_request :: "outside \<Rightarrow> drafts \<Rightarrow> BackgroundTask \<Rightarrow> string \<Rightarrow> (ws_store, unit) operation" where
  "open_background_pull_request ou dr task workspace =
     chain (commit_what_is_left ou task workspace) (\<lambda>_.
     chain (push_branch ou workspace) (\<lambda>_.
     chain (drafted (dr_pull_request dr workspace) workspace) (\<lambda>(title, body).
     chain (create_pull_request ou workspace (Some title) (Some body) (bk_draft_pr task)) (\<lambda>output.
     set_background_task_status ou (bk_id task) ''ready'' (''Pull request ready: '' @ trim output)))))"

text \<open>
  A step reads the row under the claim: either there is nothing to do, and the row is the answer, or a
  transition of the row that was read is run.
\<close>

definition advance_begin :: "outside \<Rightarrow> int \<Rightarrow> bool \<Rightarrow> (ws_store, BackgroundTask + BackgroundTask \<times> string) operation" where
  "advance_begin ou i agent_active =
     chain (get_background_task i) (\<lambda>task.
     if background_task_is_terminal (bk_status task) then give (Inl task)
     else case bk_workspace_name task of
       None \<Rightarrow> chain (fail_background_task ou i ''background task has no workspace'') (\<lambda>_.
         chain (get_background_task i) (\<lambda>t. give (Inl t)))
     | Some workspace \<Rightarrow>
       if bk_status task \<in> {''pending'', ''running''} \<and> agent_active then give (Inl task) else give (Inr (task, workspace)))"

definition background_transition :: "outside \<Rightarrow> background_ports \<Rightarrow> drafts \<Rightarrow> BackgroundTask \<Rightarrow> string \<Rightarrow> (ws_store, unit) operation" where
  "background_transition ou ports dr task workspace =
     (if bk_status task \<in> {''pending'', ''running''} then begin_background_checks ou ports task workspace
      else if bk_status task = ''checking'' then finish_background_checks ou task workspace
      else if bk_status task = ''summarizing'' then write_background_summary ou dr task workspace
      else if bk_status task = ''opening_pr'' then open_background_pull_request ou dr task workspace
      else bail [''unknown background task status `'' @ bk_status task @ ''`''])"

definition advance_end :: "outside \<Rightarrow> background_ports \<Rightarrow> drafts \<Rightarrow> BackgroundTask \<times> string \<Rightarrow> (ws_store, BackgroundTask) operation" where
  "advance_end ou ports dr = (\<lambda>(task, workspace).
     chain (attempt (background_transition ou ports dr task workspace)) (\<lambda>r.
     chain (case r of Inr _ \<Rightarrow> give () | Inl err \<Rightarrow> fail_background_task ou (bk_id task) (show_chain err)) (\<lambda>_.
     get_background_task (bk_id task))))"

definition advance_background_task ::
  "outside \<Rightarrow> background_ports \<Rightarrow> drafts \<Rightarrow> int \<Rightarrow> bool \<Rightarrow> (ws_store, BackgroundTask) operation" where
  "advance_background_task ou ports dr i agent_active = chain (advance_begin ou i agent_active) (\<lambda>r. case r of
     Inl task \<Rightarrow> give task | Inr step \<Rightarrow> advance_end ou ports dr step)"

section \<open>Whether the agent is at work\<close>

definition workspace_has_active_agent :: "string \<Rightarrow> (ws_store, bool) operation" where
  "workspace_has_active_agent name = chain (get_by_name name) (\<lambda>w. read_store (\<lambda>s.
     \<exists>p\<in>set (st_processes s). px_workspace_id p = wk_id w \<and> px_kind p = ''session'' \<and> px_status p = Running))"

definition workspace_has_queued_chat_input :: "string \<Rightarrow> (ws_store, bool) operation" where
  "workspace_has_queued_chat_input name = chain (get_by_name name) (\<lambda>w. read_store (\<lambda>s.
     \<exists>q\<in>set (st_queue s). \<exists>t\<in>set (st_threads s). ct_id t = qi_thread_id q \<and> ct_workspace_id t = wk_id w))"

text \<open>A question to the store, false where it has no answer.\<close>

definition or_false :: "(ws_store, bool) operation \<Rightarrow> ws_store \<Rightarrow> bool" where
  "or_false m s = (case snd (m s) of Inr b \<Rightarrow> b | Inl _ \<Rightarrow> False)"

fun tick_each :: "outside \<Rightarrow> background_ports \<Rightarrow> drafts \<Rightarrow> (string \<Rightarrow> ws_store \<Rightarrow> bool) \<Rightarrow> BackgroundTask list
    \<Rightarrow> (ws_store, BackgroundTask list) operation" where
  "tick_each ou ports dr agent_active [] = give []"
| "tick_each ou ports dr agent_active (task # tasks) =
     chain (read_store (\<lambda>s. case bk_workspace_name task of None \<Rightarrow> False
         | Some w \<Rightarrow> or_false (workspace_has_queued_chat_input w) s \<or> agent_active w s)) (\<lambda>active.
     chain (advance_background_task ou ports dr (bk_id task) active) (\<lambda>advanced.
     chain (tick_each ou ports dr agent_active tasks) (\<lambda>rest. give (advanced # rest))))"

definition tick_background_tasks_with ::
  "outside \<Rightarrow> background_ports \<Rightarrow> drafts \<Rightarrow> (string \<Rightarrow> ws_store \<Rightarrow> bool) \<Rightarrow> (ws_store, BackgroundTask list) operation" where
  "tick_background_tasks_with ou ports dr agent_active =
     chain (list_background_tasks True) (tick_each ou ports dr agent_active)"

text \<open>The tick of a store alone, which asks the process rows.\<close>

definition tick_background_tasks :: "outside \<Rightarrow> background_ports \<Rightarrow> drafts \<Rightarrow> (ws_store, BackgroundTask list) operation" where
  "tick_background_tasks ou ports dr =
     tick_background_tasks_with ou ports dr (\<lambda>w. or_false (workspace_has_active_agent w))"

text \<open>The workspaces of the daemon's sessions: those with a turn under way, and all of them.\<close>

definition busy_agent_workspaces :: "server \<Rightarrow> string list" where
  "busy_agent_workspaces sv = map (sn_workspace \<circ> sh_snapshot \<circ> snd)
     (filter (\<lambda>(_, h). sn_runtime_state (sh_snapshot h) \<in> {AgentSessionState.Starting, AgentSessionState.Running,
        AgentSessionState.Streaming, AgentSessionState.ToolRunning}) (sv_sessions sv))"

definition workspaces_with_live_sessions :: "server \<Rightarrow> string list" where
  "workspaces_with_live_sessions sv = map (sn_workspace \<circ> sh_snapshot \<circ> snd) (sv_sessions sv)"

text \<open>The daemon's tick: the sessions are read first, at \<open>sv\<close>, and the store is ticked after.\<close>

definition daemon_tick :: "outside \<Rightarrow> background_ports \<Rightarrow> drafts \<Rightarrow> server \<Rightarrow> (ws_store, BackgroundTask list) operation" where
  "daemon_tick ou ports dr sv =
     (let busy = busy_agent_workspaces sv; live = workspaces_with_live_sessions sv
      in tick_background_tasks_with ou ports dr (\<lambda>w s.
        if w \<in> set live then w \<in> set busy else or_false (workspace_has_active_agent w) s))"

section \<open>Answers to try operations with\<close>

definition example_ports :: background_ports where
  "example_ports = \<lparr>bp_create = (\<lambda>_ _ _ _ _ _. Inl [''no workspace'']), bp_checks = (\<lambda>_ _. Inr []),
     bp_start_check = (\<lambda>_ _ _. Inl [''no check''])\<rparr>"

definition example_drafts :: drafts where
  "example_drafts = \<lparr>dr_workspace = (\<lambda>_ _. Inr ''draft''), dr_session = (\<lambda>_ _ _. Inr ''draft''), dr_task = (\<lambda>_ _ _. Inr ''draft''),
     dr_pull_request = (\<lambda>_ _. Inr (''title'', ''body'')), dr_evidence = (\<lambda>_ _ _ _ _ _. Inr (''hash'', None, None))\<rparr>"

end
