(* ===== verification/Agent_Status.thy ===== *)
theory Agent_Status
  imports Transcript_Facts Background_Tasks
begin

text \<open>
  What the board of agents shows (\<open>crates/core/src/agent_status.rs\<close>): what each agent does, read from the daemon
  that holds its process and from the events it left, and the most urgent of it per workspace.

  The daemon's answer and the stored events are read at different moments: both are functions of the moment, and a
  session is read at four of them, the last two unused where one look is enough. Whether a process number is alive,
  when a file was changed, the lines of the status listing and the checks a pull request's row keeps are arguments.
\<close>

section \<open>Activity\<close>

datatype AgentActivity = Working | AwaitingInput | Finished | Failed | Stopped

fun activity_str :: "AgentActivity \<Rightarrow> string" where
  "activity_str Working = ''working''"
| "activity_str AwaitingInput = ''awaiting_input''"
| "activity_str Finished = ''finished''"
| "activity_str Failed = ''failed''"
| "activity_str Stopped = ''stopped''"

fun urgency :: "AgentActivity \<Rightarrow> nat" where
  "urgency AwaitingInput = 4"
| "urgency Failed = 3"
| "urgency Working = 2"
| "urgency Finished = 1"
| "urgency Stopped = 0"

record LiveProbe =
  lp_alive :: bool
  lp_runtime_state :: "AgentSessionState option"

datatype LivenessSource = ByDaemon | ByPid

text \<open>What the last turn came to, where it ended with a verdict.\<close>

definition by_outcome :: "TurnOutcome option \<Rightarrow> AgentActivity \<Rightarrow> AgentActivity" where
  "by_outcome last_turn unfinished =
     (if last_turn = Some TurnOutcome.Success then Finished
      else if last_turn = Some TurnOutcome.Failed then AgentActivity.Failed else unfinished)"

definition working_states :: "AgentSessionState set" where
  "working_states = {AgentSessionState.Starting, AgentSessionState.Running, AgentSessionState.Streaming,
     AgentSessionState.ToolRunning}"

definition derive_activity :: "bool \<Rightarrow> AgentSessionState option \<Rightarrow> nat \<Rightarrow> TurnOutcome option \<Rightarrow> AgentActivity" where
  "derive_activity alive runtime_state asks last_turn =
     (if runtime_state = Some AgentSessionState.Failed then AgentActivity.Failed
      else if \<not> alive then by_outcome last_turn Stopped
      else if asks > 0 then AwaitingInput
      else case runtime_state of
        Some st \<Rightarrow> if st \<in> working_states then Working else by_outcome last_turn AwaitingInput
      | None \<Rightarrow> if last_turn = Some TurnOutcome.Running then Working else by_outcome last_turn AwaitingInput)"

definition idle_seconds :: "nat \<Rightarrow> nat \<Rightarrow> nat" where
  "idle_seconds last_activity_ms now_ms = (now_ms - last_activity_ms) div 1000"

section \<open>Reading a session\<close>

record SessionRead =
  sr_live :: "LiveProbe option"
  sr_records :: "ProviderEventRecord list"
  sr_turns :: "TranscriptTurn list"

definition look :: "(ProviderEventRecord list \<Rightarrow> failure + TranscriptTurn list) \<Rightarrow> LiveProbe option
    \<Rightarrow> ProviderEventRecord list \<Rightarrow> failure + SessionRead" where
  "look transcript live records = (case transcript records of Inl e \<Rightarrow> Inl e
     | Inr turns \<Rightarrow> Inr \<lparr>sr_live = live, sr_records = records, sr_turns = turns\<rparr>)"

definition idle_with_an_open_turn :: "SessionRead \<Rightarrow> bool" where
  "idle_with_an_open_turn read \<longleftrightarrow> last_outcome (sr_turns read) = Some TurnOutcome.Running
     \<and> (case sr_live read of None \<Rightarrow> False
        | Some live \<Rightarrow> derive_activity (lp_alive live) (lp_runtime_state live) 0 (last_outcome (sr_turns read)) = AwaitingInput)"

text \<open>The daemon is asked at the first moment and the events are read at the second; at the third and fourth once more.\<close>

definition read_session :: "(ProviderEventRecord list \<Rightarrow> failure + TranscriptTurn list) \<Rightarrow> (nat \<Rightarrow> LiveProbe option)
    \<Rightarrow> (nat \<Rightarrow> ProviderEventRecord list) \<Rightarrow> nat \<times> nat \<times> nat \<times> nat \<Rightarrow> failure + SessionRead" where
  "read_session transcript probe events = (\<lambda>(m1, m2, m3, m4).
     case look transcript (probe m1) (events m2) of
       Inl e \<Rightarrow> Inl e
     | Inr first \<Rightarrow> if idle_with_an_open_turn first then look transcript (probe m3) (events m4) else Inr first)"

section \<open>Reports\<close>

record SessionReport =
  sp_session_id :: int
  sp_thread_id :: "int option"
  sp_kind :: string
  sp_title :: "string option"
  sp_alive :: bool
  sp_liveness_source :: LivenessSource
  sp_state :: AgentActivity
  sp_last_activity :: "string option"
  sp_idle_seconds :: "nat option"
  sp_current_tool :: "string option"
  sp_turn_outcome :: "TurnOutcome option"
  sp_turns :: nat
  sp_pending_interactions :: nat
  sp_queued_inputs :: nat
  sp_pr_url :: "string option"

record PullRequestReport =
  pq_number :: int
  pq_state :: string
  pq_url :: string
  pq_checks :: "string option"

record WorkspaceReport =
  wr_workspace :: string
  wr_repository :: string
  wr_status :: string
  wr_branch :: string
  wr_has_upstream :: "bool option"
  wr_ahead :: "nat option"
  wr_behind :: "nat option"
  wr_additions :: nat
  wr_deletions :: nat
  wr_open_todos :: nat
  wr_run_script :: string
  wr_state :: "AgentActivity option"
  wr_pr :: "PullRequestReport option"
  wr_pr_url :: "string option"
  wr_sessions :: "SessionReport list"

record StatusReport =
  su_schema_version :: nat
  su_generated_at :: string
  su_workspaces :: "WorkspaceReport list"

record BranchPushState =
  bp_ahead :: nat
  bp_behind :: nat
  bp_has_upstream :: bool

record WorkspaceStatusLine =
  sl_workspace :: Workspace
  sl_repository_name :: string
  sl_open_todos :: nat
  sl_pull_request :: "PullRequest option"
  sl_run_running :: bool
  sl_active_sessions :: nat
  sl_branch_push_state :: "BranchPushState option"
  sl_diff_additions :: nat
  sl_diff_deletions :: nat

record board =
  bo_transcript :: "TranscriptOptions \<Rightarrow> ProviderEventRecord list \<Rightarrow> failure + TranscriptTurn list"
  bo_probe :: "process_columns \<Rightarrow> nat \<Rightarrow> LiveProbe option"
  bo_events :: "nat \<Rightarrow> event_store"
  bo_moments :: "int \<Rightarrow> nat \<times> nat \<times> nat \<times> nat"
  bo_process_alive :: "nat \<Rightarrow> bool"
  bo_modified_ms :: "string \<Rightarrow> nat option"
  bo_interactions :: interactions
  bo_checks :: "PullRequest \<Rightarrow> string option"
  bo_now_ms :: nat

definition last_activity_ms :: "board \<Rightarrow> process_columns \<Rightarrow> ProviderEventRecord list \<Rightarrow> nat option" where
  "last_activity_ms bo process records = (case map (\<lambda>r. nat (er_occurred_at_ms r)) records of
     [] \<Rightarrow> bo_modified_ms bo (px_log_path process) | x # xs \<Rightarrow> Some (fold max xs x))"

definition session_report :: "board \<Rightarrow> ws_store \<Rightarrow> process_columns \<Rightarrow> thread_columns option \<Rightarrow> SessionRead \<Rightarrow> SessionReport" where
  "session_report bo s process thread read =
     (let (alive, runtime_state, source) = (case sr_live read of
            Some live \<Rightarrow> (lp_alive live, lp_runtime_state live, ByDaemon)
          | None \<Rightarrow> (px_status process = ProcessStatus.Running \<and> bo_process_alive bo (px_pid process), None, ByPid));
        last_ms = last_activity_ms bo process (sr_records read);
        asks = (case px_chat_thread_id process of None \<Rightarrow> 0
          | Some i \<Rightarrow> length (list_interactions (Some i) True (bo_interactions bo)));
        queued = (case px_chat_thread_id process of None \<Rightarrow> 0 | Some i \<Rightarrow> length (list_queued_chat_inputs i (st_queue s)));
        outcome = last_outcome (sr_turns read);
        state = derive_activity alive runtime_state asks outcome
      in \<lparr>sp_session_id = px_id process, sp_thread_id = px_chat_thread_id process,
        sp_kind = (case thread of Some t \<Rightarrow> ct_provider t | None \<Rightarrow> ''agent''), sp_title = map_option ct_title thread,
        sp_alive = alive, sp_liveness_source = source, sp_state = state,
        sp_last_activity = map_option rfc3339_from_ms last_ms,
        sp_idle_seconds = map_option (\<lambda>ms. idle_seconds ms (bo_now_ms bo)) last_ms,
        sp_current_tool = (if state = Working then current_tool (sr_turns read) else None), sp_turn_outcome = outcome,
        sp_turns = length (sr_turns read), sp_pending_interactions = asks, sp_queued_inputs = queued,
        sp_pr_url = latest_pr_url (sr_turns read)\<rparr>)"

definition list_chat_threads :: "string \<Rightarrow> (ws_store, thread_columns list) operation" where
  "list_chat_threads name = chain (get_by_name name) (\<lambda>w. read_store (\<lambda>s. rev (sort_key ct_updated_at (sort_key ct_id
     (filter (\<lambda>t. ct_workspace_id t = wk_id w \<and> ct_status t \<noteq> ''closed'') (st_threads s))))))"

definition list_sessions :: "string \<Rightarrow> (ws_store, process_columns list) operation" where
  "list_sessions name = list_processes name ''session''"

text \<open>The newest session of each chat.\<close>

definition keep_newest :: "process_columns \<Rightarrow> (int \<times> process_columns) list \<Rightarrow> (int \<times> process_columns) list" where
  "keep_newest process newest = (case px_chat_thread_id process of None \<Rightarrow> newest
     | Some i \<Rightarrow> (case map_of newest i of
         Some kept \<Rightarrow> if px_id kept < px_id process then bt_insert i process newest else newest
       | None \<Rightarrow> bt_insert i process newest))"

definition newest_sessions :: "process_columns list \<Rightarrow> (int \<times> process_columns) list" where
  "newest_sessions processes = fold keep_newest processes []"

definition read_and_report :: "board \<Rightarrow> ws_store \<Rightarrow> Workspace \<Rightarrow> thread_columns list \<Rightarrow> int \<times> process_columns
    \<Rightarrow> failure + SessionReport" where
  "read_and_report bo s w threads = (\<lambda>(i, process).
     case read_session (bo_transcript bo \<lparr>to_workspace_root = Some (wk_path w), to_include_thinking = False, to_full = False\<rparr>)
         (bo_probe bo process) (\<lambda>m. list_for_chat_thread i (bo_events bo m)) (bo_moments bo (px_id process)) of
       Inl e \<Rightarrow> Inl e
     | Inr read \<Rightarrow> Inr (session_report bo s process (find (\<lambda>t. ct_id t = i) threads) read))"

fun report_each :: "('p \<Rightarrow> 'e + 'r) \<Rightarrow> 'p list \<Rightarrow> 'e + 'r list" where
  "report_each f [] = Inr []"
| "report_each f (p # ps) = (case f p of Inl e \<Rightarrow> Inl e
     | Inr r \<Rightarrow> (case report_each f ps of Inl e \<Rightarrow> Inl e | Inr rs \<Rightarrow> Inr (r # rs)))"

definition STOPPED_SESSIONS_PER_WORKSPACE :: nat where "STOPPED_SESSIONS_PER_WORKSPACE = 3"

text \<open>The agents alive and, of a workspace in use, the newest that are not: \<open>stopped\<close> counts those met before.\<close>

fun retain_reports :: "bool \<Rightarrow> nat \<Rightarrow> SessionReport list \<Rightarrow> SessionReport list" where
  "retain_reports archived stopped [] = []"
| "retain_reports archived stopped (r # rs) =
     (if sp_alive r then r # retain_reports archived stopped rs
      else if \<not> archived \<and> Suc stopped \<le> STOPPED_SESSIONS_PER_WORKSPACE then r # retain_reports archived (Suc stopped) rs
      else retain_reports archived (Suc stopped) rs)"

datatype status_error = Refused error_chain | Stuck failure

definition session_reports :: "board \<Rightarrow> ws_store \<Rightarrow> WorkspaceStatusLine \<Rightarrow> status_error + SessionReport list" where
  "session_reports bo s line =
     (let w = sl_workspace line in
      case snd (list_chat_threads (wk_name w) s) of
        Inl e \<Rightarrow> Inl (Refused e)
      | Inr threads \<Rightarrow> (case snd (list_sessions (wk_name w) s) of
          Inl e \<Rightarrow> Inl (Refused e)
        | Inr processes \<Rightarrow> (case report_each (read_and_report bo s w threads) (newest_sessions processes) of
            Inl e \<Rightarrow> Inl (Stuck e)
          | Inr reports \<Rightarrow> Inr (retain_reports (wk_status w = ''archived'') 0 (sort_key (\<lambda>r. - sp_session_id r) reports)))))"

text \<open>\<open>max_by_key\<close>: the last of the greatest.\<close>

fun most_urgent :: "AgentActivity list \<Rightarrow> AgentActivity option" where
  "most_urgent [] = None"
| "most_urgent (a # as) = (case most_urgent as of None \<Rightarrow> Some a
     | Some b \<Rightarrow> Some (if urgency b < urgency a then a else b))"

definition workspace_report :: "board \<Rightarrow> WorkspaceStatusLine \<Rightarrow> SessionReport list \<Rightarrow> WorkspaceReport" where
  "workspace_report bo line sessions =
     (let w = sl_workspace line; push = sl_branch_push_state line;
        pr = map_option (\<lambda>pr. \<lparr>pq_number = pl_number pr, pq_state = pl_state pr, pq_url = pl_url pr,
          pq_checks = bo_checks bo pr\<rparr>) (sl_pull_request line);
        upstream = (case push of Some p \<Rightarrow> if bp_has_upstream p then Some p else None | None \<Rightarrow> None)
      in \<lparr>wr_workspace = wk_name w, wr_repository = sl_repository_name line, wr_status = wk_status w, wr_branch = wk_branch w,
        wr_has_upstream = map_option bp_has_upstream push, wr_ahead = map_option bp_ahead upstream,
        wr_behind = map_option bp_behind upstream, wr_additions = sl_diff_additions line, wr_deletions = sl_diff_deletions line,
        wr_open_todos = sl_open_todos line, wr_run_script = (if sl_run_running line then ''running'' else ''stopped''),
        wr_state = most_urgent (map sp_state sessions), wr_pr = pr,
        wr_pr_url = (case pr of Some p \<Rightarrow> Some (pq_url p) | None \<Rightarrow> find_map sp_pr_url sessions), wr_sessions = sessions\<rparr>)"

definition STATUS_SCHEMA_VERSION :: nat where "STATUS_SCHEMA_VERSION = 1"

definition collect_status :: "board \<Rightarrow> ws_store \<Rightarrow> WorkspaceStatusLine list \<Rightarrow> string option \<Rightarrow> status_error + StatusReport" where
  "collect_status bo s lines only_workspace =
     (let chosen = filter (\<lambda>line. case only_workspace of None \<Rightarrow> True | Some name \<Rightarrow> name = wk_name (sl_workspace line)) lines in
      case report_each (\<lambda>line. case session_reports bo s line of Inl e \<Rightarrow> Inl e
          | Inr sessions \<Rightarrow> Inr (workspace_report bo line sessions)) chosen of
        Inl e \<Rightarrow> Inl e
      | Inr workspaces \<Rightarrow> (case only_workspace of
          Some name \<Rightarrow> if workspaces = [] then Inl (Refused [''workspace '' @ name @ '' not found''])
            else Inr \<lparr>su_schema_version = STATUS_SCHEMA_VERSION, su_generated_at = rfc3339_from_ms (bo_now_ms bo), su_workspaces = workspaces\<rparr>
        | None \<Rightarrow> Inr \<lparr>su_schema_version = STATUS_SCHEMA_VERSION, su_generated_at = rfc3339_from_ms (bo_now_ms bo),
            su_workspaces = workspaces\<rparr>))"

section \<open>A session read across the end of a turn\<close>

definition busy_state :: "AgentSessionState \<Rightarrow> bool" where
  "busy_state st \<longleftrightarrow> st \<in> working_states"

lemma open_turn_idle:
  assumes "sr_live read = Some \<lparr>lp_alive = True, lp_runtime_state = Some st\<rparr>" and "st \<noteq> AgentSessionState.Failed"
  shows "idle_with_an_open_turn read \<longleftrightarrow> last_outcome (sr_turns read) = Some TurnOutcome.Running \<and> \<not> busy_state st"
  using assms by (auto simp: idle_with_an_open_turn_def derive_activity_def busy_state_def by_outcome_def)

text \<open>
  A reading of a session takes an ended turn for an open one of an idle agent only if it met two turns: where the loop takes four
  moments a turn, marking itself busy, storing the input, storing the end and marking itself ready, a reading that pairs an
  idle answer with an open turn has one turn begin between the two moments of its first look, end before its second
  look, and another begin between the two moments of that look.
\<close>

lemma reading_misled_only_by_two_turns:
  assumes order: "m1 \<le> m2" "m2 \<le> m3" "m3 \<le> m4"
    and answers: "\<And>m. probe m = Some \<lparr>lp_alive = True, lp_runtime_state = Some (st m)\<rparr>" "\<And>m. st m \<noteq> AgentSessionState.Failed"
    and busy: "\<And>m. st m \<in> working_states \<longleftrightarrow> m mod 4 \<noteq> 0"
    and stored: "\<And>m. transcript (events m) = Inr (turns m)"
      "\<And>m. last_outcome (turns m) = Some TurnOutcome.Running \<longleftrightarrow> m mod 4 = 2"
  shows "\<exists>r. read_session transcript probe events (m1, m2, m3, m4) = Inr r
    \<and> (idle_with_an_open_turn r \<longrightarrow> (\<exists>a b. m1 \<le> 4 * a \<and> m2 = 4 * a + 2 \<and> 4 * a + 4 \<le> m3 \<and> m3 \<le> 4 * b \<and> m4 = 4 * b + 2))"
proof -
  let ?look = "\<lambda>a b. \<lparr>sr_live = probe a, sr_records = events b, sr_turns = turns b\<rparr>"
  have idle: "idle_with_an_open_turn (?look a b) \<longleftrightarrow> a mod 4 = 0 \<and> b mod 4 = 2" for a b
    using open_turn_idle [of "?look a b" "st a"] answers busy [of a] stored(2) [of b] by (auto simp: busy_state_def)
  have run: "read_session transcript probe events (m1, m2, m3, m4)
      = Inr (if m1 mod 4 = 0 \<and> m2 mod 4 = 2 then ?look m3 m4 else ?look m1 m2)"
    by (simp add: read_session_def look_def stored(1) idle)
  show ?thesis
  proof (cases "m1 mod 4 = 0 \<and> m2 mod 4 = 2")
    case True
    have "\<exists>a b. m1 \<le> 4 * a \<and> m2 = 4 * a + 2 \<and> 4 * a + 4 \<le> m3 \<and> m3 \<le> 4 * b \<and> m4 = 4 * b + 2"
      if "m3 mod 4 = 0" "m4 mod 4 = 2"
    proof -
      have "m1 = 4 * (m1 div 4)" "m2 = 4 * (m2 div 4) + 2" "m3 = 4 * (m3 div 4)" "m4 = 4 * (m4 div 4) + 2"
        using True that mult_div_mod_eq [of 4 m1] mult_div_mod_eq [of 4 m2] mult_div_mod_eq [of 4 m3] mult_div_mod_eq [of 4 m4]
        by linarith+
      then obtain c a d b where m: "m1 = 4 * c" "m2 = 4 * a + 2" "m3 = 4 * d" "m4 = 4 * b + 2" by blast
      have "c \<le> a" "a + 1 \<le> d" "d \<le> b" using order unfolding m by presburger+
      then show ?thesis unfolding m by (intro exI [of _ a] exI [of _ b]) simp
    qed
    then show ?thesis unfolding run using True idle by simp
  next
    case False
    have "read_session transcript probe events (m1, m2, m3, m4) = Inr (?look m1 m2)" by (subst run, subst if_not_P [OF False]) (rule refl)
    moreover have "\<not> idle_with_an_open_turn (?look m1 m2)" using False idle by blast
    ultimately show ?thesis by blast
  qed
qed

section \<open>What the board shows\<close>

lemma map_of_bt_insert: "bt_sorted m \<Longrightarrow> map_of (bt_insert k v m) = (map_of m)(k \<mapsto> v)"
proof (induction k v m rule: bt_insert.induct)
  case (2 k v a b m)
  have "map_of m a = None" if "a < k" using 2(2) by (auto simp: bt_sorted_def map_of_eq_None_iff)
  with 2 show ?case by (auto simp: bt_sorted_def fun_eq_iff map_of_eq_None_iff)
qed simp

text \<open>Of the processes of a chat the entry holds the newest.\<close>

definition newest_of :: "process_columns list \<Rightarrow> int \<Rightarrow> process_columns \<Rightarrow> bool" where
  "newest_of processes i p \<longleftrightarrow> p \<in> set processes \<and> px_chat_thread_id p = Some i
     \<and> (\<forall>q\<in>set processes. px_chat_thread_id q = Some i \<longrightarrow> px_id q \<le> px_id p)"

lemma newest_sessions_ok:
  "bt_sorted (newest_sessions ps) \<and> (\<forall>i. case map_of (newest_sessions ps) i of
     Some p \<Rightarrow> newest_of ps i p | None \<Rightarrow> \<forall>q\<in>set ps. px_chat_thread_id q \<noteq> Some i)"
proof (induction ps rule: rev_induct)
  case (snoc p ps)
  let ?m = "newest_sessions ps"
  have step: "newest_sessions (ps @ [p]) = keep_newest p ?m" by (simp add: newest_sessions_def)
  have sorted: "bt_sorted ?m" and each: "case map_of ?m i of
     Some p \<Rightarrow> newest_of ps i p | None \<Rightarrow> \<forall>q\<in>set ps. px_chat_thread_id q \<noteq> Some i" for i
    using snoc.IH by blast+
  show ?case
  proof (cases "px_chat_thread_id p")
    case None
    then have "keep_newest p ?m = ?m" by (simp add: keep_newest_def)
    moreover have "(case map_of ?m i of
       Some p' \<Rightarrow> newest_of (ps @ [p]) i p' | None \<Rightarrow> \<forall>q\<in>set (ps @ [p]). px_chat_thread_id q \<noteq> Some i)" for i
      using each [of i] None by (auto simp: newest_of_def split: option.splits)
    ultimately show ?thesis unfolding step using sorted by simp
  next
    case (Some t)
    have "(case map_of (keep_newest p ?m) i of
       Some p' \<Rightarrow> newest_of (ps @ [p]) i p' | None \<Rightarrow> \<forall>q\<in>set (ps @ [p]). px_chat_thread_id q \<noteq> Some i)" for i
      using each [of i] each [of t] Some map_of_bt_insert [OF sorted, of t p]
      by (auto simp: keep_newest_def newest_of_def split: option.splits intro: order_trans [OF _ less_imp_le])
    moreover have "bt_sorted (keep_newest p ?m)" using sorted Some by (auto simp: keep_newest_def split: option.split)
    ultimately show ?thesis unfolding step by blast
  qed
qed (simp add: newest_sessions_def bt_sorted_def)

lemma report_each_all: "report_each f ps = Inr rs \<Longrightarrow> list_all2 (\<lambda>p r. f p = Inr r) ps rs"
  by (induction ps arbitrary: rs) (auto split: sum.splits)

lemma retain_subset: "set (retain_reports a n rs) \<subseteq> set rs" "r \<in> set rs \<Longrightarrow> sp_alive r \<Longrightarrow> r \<in> set (retain_reports a n rs)"
  by (induction a n rs rule: retain_reports.induct) auto

lemma retain_sorted: "sorted_wrt P rs \<Longrightarrow> sorted_wrt P (retain_reports a n rs)"
proof (induction a n rs rule: retain_reports.induct)
  case (2 a n r rs)
  have "x \<in> set (retain_reports a m rs) \<Longrightarrow> x \<in> set rs" for m x using retain_subset(1) by blast
  with 2 show ?case by simp
qed simp

lemma retain_few: "length (filter (\<lambda>r. \<not> sp_alive r) (retain_reports a n rs)) \<le> (if a then 0 else 3 - n)"
  by (induction a n rs rule: retain_reports.induct) (auto simp: STOPPED_SESSIONS_PER_WORKSPACE_def)

lemma most_urgent_is: "case most_urgent as of None \<Rightarrow> as = [] | Some a \<Rightarrow> a \<in> set as \<and> (\<forall>b\<in>set as. urgency b \<le> urgency a)"
  by (induction as) (auto split: option.splits)

lemma report_of_process:
  "read_and_report bo s w threads (i, p) = Inr r \<Longrightarrow> sp_session_id r = px_id p \<and> sp_thread_id r = px_chat_thread_id p"
  by (auto simp: read_and_report_def session_report_def Let_def split: sum.splits prod.splits option.splits)

lemma listed_processes_keyed:
  assumes "keyed px_id (st_processes s)" and "snd (list_sessions name s) = Inr processes"
  shows "keyed px_id processes"
  using assms
  by (auto simp: list_sessions_def list_processes_def chain_get_by_name read_store_def keyed_def distinct_map
    intro: inj_on_subset split: option.splits)

lemma newest_unique:
  assumes "keyed px_id processes" and "newest_of processes i p" and "newest_of processes i q"
  shows "p = q"
proof -
  have "px_id p = px_id q" using assms(2,3) by (auto simp: newest_of_def intro: order_antisym)
  with assms show ?thesis by (auto simp: newest_of_def keyed_def distinct_map inj_on_def)
qed

lemma newest_entries:
  assumes "keyed px_id processes"
  shows "(i, p) \<in> set (newest_sessions processes) \<longleftrightarrow> newest_of processes i p"
proof -
  have sorted: "distinct (map fst (newest_sessions processes))" and each: "case map_of (newest_sessions processes) i of
     Some p \<Rightarrow> newest_of processes i p | None \<Rightarrow> \<forall>q\<in>set processes. px_chat_thread_id q \<noteq> Some i"
    using newest_sessions_ok [of processes] bt_sorted_distinct by blast+
  have "(i, p) \<in> set (newest_sessions processes) \<longleftrightarrow> map_of (newest_sessions processes) i = Some p"
    using sorted by simp
  then show ?thesis
    using each newest_unique [OF assms] by (cases "map_of (newest_sessions processes) i") (auto simp: newest_of_def)
qed

text \<open>
  The board shows every agent that is alive and little else: of a workspace it lists sessions newest first, each the newest
  of its chat and read as a report of it; none that is alive is left out, of the others there are three at most, and none where
  the workspace is archived; and the state of the workspace is that of the session that most needs somebody.
\<close>

lemma board_shows_live_agents:
  assumes keyed: "keyed px_id (st_processes s)"
    and listed: "snd (list_sessions (wk_name w) s) = Inr processes" "snd (list_chat_threads (wk_name w) s) = Inr threads"
    and reports: "sl_workspace line = w" "session_reports bo s line = Inr reports"
  shows "sorted_wrt (>) (map sp_session_id reports)
    \<and> (\<forall>r\<in>set reports. \<exists>i p. newest_of processes i p \<and> read_and_report bo s w threads (i, p) = Inr r)
    \<and> (\<forall>i p r. newest_of processes i p \<and> read_and_report bo s w threads (i, p) = Inr r \<and> sp_alive r \<longrightarrow> r \<in> set reports)
    \<and> length (filter (\<lambda>r. \<not> sp_alive r) reports) \<le> (if wk_status w = ''archived'' then 0 else 3)
    \<and> (case wr_state (workspace_report bo line reports) of None \<Rightarrow> reports = []
       | Some a \<Rightarrow> a \<in> sp_state ` set reports \<and> (\<forall>r\<in>set reports. urgency (sp_state r) \<le> urgency a))"
proof -
  let ?report = "read_and_report bo s w threads" and ?newest = "newest_sessions processes"
  obtain all where all: "report_each ?report ?newest = Inr all"
    and kept: "reports = retain_reports (wk_status w = ''archived'') 0 (sort_key (\<lambda>r. - sp_session_id r) all)"
    using reports listed by (auto simp: session_reports_def Let_def split: sum.splits)
  have k: "keyed px_id processes" by (rule listed_processes_keyed [OF keyed listed(1)])
  have each: "list_all2 (\<lambda>e r. ?report e = Inr r) ?newest all" by (rule report_each_all [OF all])
  have members: "r \<in> set all \<longleftrightarrow> (\<exists>e\<in>set ?newest. ?report e = Inr r)" for r
    using each by (fastforce simp: list_all2_conv_all_nth in_set_conv_nth)
  have ids: "map sp_session_id all = map (px_id \<circ> snd) ?newest"
    using each by (induction rule: list_all2_induct) (auto dest: report_of_process)
  have "distinct (map (px_id \<circ> snd) ?newest)"
  proof -
    have "distinct ?newest" using newest_sessions_ok [of processes] bt_sorted_distinct [of ?newest] by (simp add: distinct_map)
    moreover have "inj_on (px_id \<circ> snd) (set ?newest)"
    proof (rule inj_onI)
      fix x y assume xy: "x \<in> set ?newest" "y \<in> set ?newest" "(px_id \<circ> snd) x = (px_id \<circ> snd) y"
      obtain i p j q where e: "x = (i, p)" "y = (j, q)" by (metis surj_pair)
      have n: "newest_of processes i p" "newest_of processes j q" using xy e newest_entries [OF k] by auto
      then have "p = q" using k xy(3) e by (auto simp: newest_of_def keyed_def distinct_map inj_on_def)
      with n e show "x = y" by (simp add: newest_of_def)
    qed
    ultimately show ?thesis by (simp add: distinct_map)
  qed
  then have distinct: "distinct (map (\<lambda>r. - sp_session_id r) all)"
    unfolding ids [symmetric] by (auto simp: distinct_map inj_on_def)
  have "sorted_wrt (<) (map (\<lambda>r. - sp_session_id r) (sort_key (\<lambda>r. - sp_session_id r) all))"
    using distinct by (simp add: strict_sorted_iff distinct_map)
  then have "sorted_wrt (\<lambda>r q. sp_session_id q < sp_session_id r) (sort_key (\<lambda>r. - sp_session_id r) all)"
    by (simp add: sorted_wrt_map)
  then have order: "sorted_wrt (>) (map sp_session_id reports)"
    unfolding kept sorted_wrt_map by (rule retain_sorted)
  have from_all: "r \<in> set all" if "r \<in> set reports" for r
    using that retain_subset(1) unfolding kept by fastforce
  have read: "\<exists>i p. newest_of processes i p \<and> ?report (i, p) = Inr r" if "r \<in> set reports" for r
    using from_all [OF that] members newest_entries [OF k] by (metis surj_pair)
  have alive: "r \<in> set reports" if "newest_of processes i p" "?report (i, p) = Inr r" "sp_alive r" for i p r
  proof -
    have "r \<in> set all" using that(1,2) members newest_entries [OF k] by blast
    with that(3) show ?thesis unfolding kept by (intro retain_subset(2)) simp_all
  qed
  have few: "length (filter (\<lambda>r. \<not> sp_alive r) reports) \<le> (if wk_status w = ''archived'' then 0 else 3)"
    using retain_few [of "wk_status w = ''archived''" 0] unfolding kept by (metis minus_nat.diff_0)
  have "wr_state (workspace_report bo line reports) = most_urgent (map sp_state reports)"
    by (simp add: workspace_report_def Let_def)
  then have "case wr_state (workspace_report bo line reports) of None \<Rightarrow> reports = []
       | Some a \<Rightarrow> a \<in> sp_state ` set reports \<and> (\<forall>r\<in>set reports. urgency (sp_state r) \<le> urgency a)"
    using most_urgent_is [of "map sp_state reports"] by (simp split: option.splits)
  with order read alive few show ?thesis by blast
qed

end
