(* ===== verification/Background_Facts.thy ===== *)
theory Background_Facts
  imports Background_Tasks
begin

text \<open>
  What the transitions of a background task promise whatever runs between two of its steps: a task that
  ended keeps its row, its pull request is prepared once, and a task whose agent is idle moves on to an end.
\<close>

section \<open>What the transitions leave alone\<close>

lemma background_kept [keeps_intros]:
  "keeps st_background (get_by_name name)"
  "keeps st_background (workspace_name_by_id j)"
  "keeps st_background (load_repository_by_id j)"
  "keeps st_background (changed_files ou name)"
  "keeps st_background (branch_changed_files ou name)"
  "keeps st_background (stage_all_workspace_files ou name)"
  "keeps st_background (commit_message_draft ou name)"
  "keeps st_background (commit_workspace_changes ou name message)"
  "keeps st_background (push_branch ou name)"
  "keeps st_background (command_output ou cwd program args)"
  "keeps st_background (record_pull_request ou j url)"
  "keeps st_background (existing_pull_request_for_workspace ou w)"
  "keeps st_background (metadata_workspace_name ou repository j raw)"
  "keeps st_background (gh_pr_args_for_workspace w sub extra)"
  unfolding operation_defs by (intro keeps_intros; simp)+

lemma background_kept_rename [keeps_intros]: "keeps st_background (rename ou name new_name)"
  unfolding rename_def by (intro keeps_intros; simp add: rename_rows_def)

lemma background_kept_create [keeps_intros]: "keeps st_background (create_pull_request ou name title body draft)"
  unfolding create_pull_request_def apply_pull_request_workspace_naming_def by (intro keeps_intros)

lemma background_kept_tasks [keeps_intros]:
  "keeps st_background (get_task j)"
  "keeps st_background (task_in_workspace name j)"
  "keeps st_background (ensure_session_in_workspace j k)"
  unfolding get_task_def task_in_workspace_def ensure_session_in_workspace_def by (intro keeps_intros)+

lemma background_kept_update [keeps_intros]: "keeps st_background (update_task ou name j u)"
  unfolding update_task_def by (intro keeps_intros; simp)

lemma background_kept_create_task [keeps_intros]: "keeps st_background (create_task ou name title body areas)"
  unfolding create_task_def by (intro keeps_intros; simp)

lemma background_kept_summaries [keeps_intros]:
  "keeps st_background (get_summary name scope k)"
  "keeps st_background (save_summary ou name scope k body refs)"
  "keeps st_background (drafted draft name)"
  unfolding get_summary_def save_summary_def drafted_def by (intro keeps_intros; simp)+

lemma background_kept_checks [keeps_intros]:
  "keeps st_background (list_workspace_checks ports name)"
  "keeps st_background (run_workspace_check ports name key)"
  "keeps st_background (list_processes name kind)"
  unfolding list_workspace_checks_def run_workspace_check_def list_processes_def by (intro keeps_intros; simp)+

lemma background_kept_start_checks [keeps_intros]: "keeps st_background (start_checks ports name keys)"
  by (induction keys) (simp, intro keeps_intros, simp, intro keeps_intros)

lemma background_kept_commit [keeps_intros]: "keeps st_background (commit_what_is_left ou task name)"
  unfolding commit_what_is_left_def by (intro keeps_intros)

section \<open>How a transition ends\<close>

text \<open>The rows after the guarded update of a status.\<close>

definition settle_rows :: "outside \<Rightarrow> int \<Rightarrow> string \<Rightarrow> string \<Rightarrow> BackgroundTask list \<Rightarrow> BackgroundTask list" where
  "settle_rows ou i status detail = update_where (\<lambda>b. bk_id b = i \<and> \<not> background_task_is_terminal (bk_status b))
     (\<lambda>b. b\<lparr>bk_status := status, bk_detail := detail, bk_updated_at := ou_now ou\<rparr>)"

text \<open>A transition fails and leaves the rows of tasks alone, or ends by setting the task's status to one of \<open>S\<close>.\<close>

definition ends_in :: "outside \<Rightarrow> int \<Rightarrow> string set \<Rightarrow> (ws_store, unit) operation \<Rightarrow> bool" where
  "ends_in ou i S m \<longleftrightarrow> (\<forall>s.
     (\<exists>e. snd (m s) = Inl e \<and> st_background (fst (m s)) = st_background s) \<or>
     (\<exists>status\<in>S. \<exists>detail. snd (m s) = Inr () \<and> st_background (fst (m s)) = settle_rows ou i status detail (st_background s)))"

named_theorems ends_intros \<open>how transitions end\<close>

lemma ends_status [ends_intros]: "status \<in> S \<Longrightarrow> ends_in ou i S (set_background_task_status ou i status detail)"
  by (auto simp: ends_in_def set_background_task_status_def update_unsettled_def write_store_def settle_rows_def)

lemma ends_bail [ends_intros]: "ends_in ou i S (bail e)"
  by (simp add: ends_in_def bail_def)

lemma ends_if [ends_intros]: "ends_in ou i S m \<Longrightarrow> ends_in ou i S n \<Longrightarrow> ends_in ou i S (if b then m else n)"
  by simp

lemma ends_let [ends_intros]: "(\<And>x. ends_in ou i S (f x)) \<Longrightarrow> ends_in ou i S (let x = a in f x)"
  by (simp add: Let_def)

lemma ends_case_prod [ends_intros]: "(\<And>x y. ends_in ou i S (f x y)) \<Longrightarrow> ends_in ou i S (case p of (x, y) \<Rightarrow> f x y)"
  by (cases p) simp

lemma ends_chain [ends_intros]:
  assumes "keeps st_background m" and "\<And>x. ends_in ou i S (f x)"
  shows "ends_in ou i S (chain m f)"
  unfolding ends_in_def
proof
  fix s
  obtain t r where m: "m s = (t, r)" by (metis surj_pair)
  then have same: "st_background t = st_background s" by (rule keepsD [OF assms(1)])
  show "(\<exists>e. snd (chain m f s) = Inl e \<and> st_background (fst (chain m f s)) = st_background s) \<or>
     (\<exists>status\<in>S. \<exists>detail. snd (chain m f s) = Inr () \<and> st_background (fst (chain m f s)) = settle_rows ou i status detail (st_background s))"
  proof (cases r)
    case (Inl e)
    with m same show ?thesis by (simp add: chain_def)
  next
    case (Inr x)
    with m same assms(2) [of x, unfolded ends_in_def, rule_format, of t] show ?thesis by (simp add: chain_def)
  qed
qed

text \<open>What each transition can leave.\<close>

fun next_statuses :: "BackgroundTask \<Rightarrow> string set" where
  "next_statuses task =
     (if bk_status task \<in> {''pending'', ''running'', ''checking''} then {''checking'', ''summarizing''}
      else if bk_status task = ''summarizing'' then (if bk_open_pr task then {''opening_pr''} else {''ready''})
      else {''ready''})"

lemma transition_ends: "ends_in ou (bk_id task) (next_statuses task) (background_transition ou ports dr task w)"
proof -
  have "ends_in ou (bk_id task) {''checking'', ''summarizing''} (begin_background_checks ou ports task w)"
    unfolding begin_background_checks_def by (intro ends_intros keeps_intros) simp_all
  moreover have "ends_in ou (bk_id task) {''checking'', ''summarizing''} (finish_background_checks ou task w)"
    unfolding finish_background_checks_def by (intro ends_intros keeps_intros) simp_all
  moreover have "ends_in ou (bk_id task) (if bk_open_pr task then {''opening_pr''} else {''ready''}) (write_background_summary ou dr task w)"
    unfolding write_background_summary_def
    by (cases "bk_open_pr task"; simp only: if_True if_False; intro ends_intros keeps_intros; simp)
  moreover have "ends_in ou (bk_id task) {''ready''} (open_background_pull_request ou dr task w)"
    unfolding open_background_pull_request_def by (intro ends_intros keeps_intros) simp_all
  ultimately show ?thesis by (simp add: background_transition_def ends_bail)
qed

text \<open>The rows after the end of a step: the task's row, unless it ended meanwhile, has a status the transition leads to, or failed.\<close>

definition failed_rows :: "outside \<Rightarrow> int \<Rightarrow> string \<Rightarrow> BackgroundTask list \<Rightarrow> BackgroundTask list" where
  "failed_rows ou i error = update_where (\<lambda>b. bk_id b = i \<and> \<not> background_task_is_terminal (bk_status b))
     (\<lambda>b. b\<lparr>bk_status := ''failed'', bk_error := Some error, bk_updated_at := ou_now ou\<rparr>)"

lemma get_background_run: "get_background_task i s = (s, row_or (''load background task '' @ show_int i)
    (find (\<lambda>b. bk_id b = i) (st_background s)))"
  by (simp add: get_background_task_def chain_read lift_run)

lemma advance_end_rows:
  obtains status detail where "status \<in> next_statuses task"
      "st_background (fst (advance_end ou ports dr (task, w) s)) = settle_rows ou (bk_id task) status detail (st_background s)"
      "fst (advance_end ou ports dr (task, w) s) = fst (background_transition ou ports dr task w s)"
      "snd (background_transition ou ports dr task w s) = Inr ()"
  | e where "st_background (fst (advance_end ou ports dr (task, w) s)) = failed_rows ou (bk_id task) (show_chain e) (st_background s)"
      "snd (background_transition ou ports dr task w s) = Inl e"
proof -
  let ?m = "background_transition ou ports dr task w"
  obtain t r where m: "?m s = (t, r)" by (metis surj_pair)
  have run: "fst (advance_end ou ports dr (task, w) s) = (case r of Inr _ \<Rightarrow> t
      | Inl e \<Rightarrow> t\<lparr>st_background := failed_rows ou (bk_id task) (show_chain e) (st_background t)\<rparr>)"
    by (simp add: advance_end_def chain_def attempt_def m give_run get_background_run fail_background_task_def
      update_unsettled_def write_store_def failed_rows_def split: sum.split)
  note ends = transition_ends [of ou task ports dr w, unfolded ends_in_def, rule_format, of s]
  show thesis
  proof (cases r)
    case (Inl e)
    with ends m that(2) [of e] show thesis by (simp add: run)
  next
    case (Inr u)
    with ends m obtain status detail where "status \<in> next_statuses task"
        "st_background t = settle_rows ou (bk_id task) status detail (st_background s)"
      by (auto simp del: next_statuses.simps)
    with Inr m that(1) [of status detail] show thesis by (simp add: run del: next_statuses.simps)
  qed
qed

section \<open>Interleavings\<close>

text \<open>
  The daemon's supervisor, requests of clients and the start of a task run at once. A step reads the row
  and takes the claim, and ends later; another step, and a cancellation, wait for the claim, while the
  marks of a task as running or failed do not. \<open>Elsewhere\<close> is whatever else changes the store meanwhile,
  short of the rows of background tasks, which the deletion of their workspace detaches from it and the
  deletion of their repository removes. \<open>bw_opened\<close> records the
  tasks whose pull request was prepared.
\<close>

record background_world =
  bw_store :: ws_store
  bw_claim :: "(BackgroundTask \<times> string) option"
  bw_opened :: "int list"

datatype background_move =
    Start_task StartBackgroundTask
  | Cancel_task int
  | Mark_running int
  | Mark_failed int string
  | Begin_step int bool
  | End_step
  | Elsewhere "ws_store \<Rightarrow> ws_store"

definition on_store :: "(ws_store, 'a) operation \<Rightarrow> background_world \<Rightarrow> background_world" where
  "on_store m v = v\<lparr>bw_store := fst (m (bw_store v))\<rparr>"

fun background_step :: "outside \<Rightarrow> background_ports \<Rightarrow> drafts \<Rightarrow> background_world \<Rightarrow> background_move \<Rightarrow> background_world" where
  "background_step ou ports dr v (Start_task input) = on_store (start_background_task ou ports input) v"
| "background_step ou ports dr v (Cancel_task i) =
     (if bw_claim v = None then on_store (cancel_background_task ou i) v else v)"
| "background_step ou ports dr v (Mark_running i) = on_store (mark_background_task_running ou i) v"
| "background_step ou ports dr v (Mark_failed i error) = on_store (mark_background_task_failed ou i error) v"
| "background_step ou ports dr v (Begin_step i agent_active) =
     (if bw_claim v \<noteq> None then v
      else let (s, r) = advance_begin ou i agent_active (bw_store v)
           in v\<lparr>bw_store := s, bw_claim := (case r of Inr (Inr step) \<Rightarrow> Some step | _ \<Rightarrow> None)\<rparr>)"
| "background_step ou ports dr v End_step =
     (case bw_claim v of None \<Rightarrow> v
      | Some step \<Rightarrow> (on_store (advance_end ou ports dr step) v)\<lparr>bw_claim := None,
          bw_opened := bw_opened v @ (if bk_status (fst step) = ''opening_pr'' then [bk_id (fst step)] else [])\<rparr>)"
| "background_step ou ports dr v (Elsewhere f) =
     v\<lparr>bw_store := (f (bw_store v))\<lparr>st_background := st_background (bw_store v)\<rparr>\<rparr>"

definition background_row :: "int \<Rightarrow> background_world \<Rightarrow> BackgroundTask option" where
  "background_row i v = find (\<lambda>b. bk_id b = i) (st_background (bw_store v))"

definition row_ended :: "BackgroundTask option \<Rightarrow> bool" where
  "row_ended r \<longleftrightarrow> (\<exists>b. r = Some b \<and> background_task_is_terminal (bk_status b))"

text \<open>Between two moments the rows are updated where they have not ended, and new ones come behind under new ids.\<close>

definition rows_moved :: "BackgroundTask list \<Rightarrow> BackgroundTask list \<Rightarrow> bool" where
  "rows_moved rows rows' \<longleftrightarrow> (\<exists>new f. rows' = map f rows @ new
     \<and> (\<forall>b\<in>set rows. bk_id (f b) = bk_id b \<and> (background_task_is_terminal (bk_status b) \<longrightarrow> f b = b))
     \<and> (\<forall>b\<in>set new. \<forall>c\<in>set rows. bk_id c < bk_id b))"

lemma rows_moved_refl [intro]: "rows_moved rows rows"
  unfolding rows_moved_def by (rule exI [of _ "[]"], rule exI [of _ "\<lambda>b. b"]) simp

lemma rows_moved_update:
  assumes "\<And>b. bk_id (f b) = bk_id b"
  shows "rows_moved rows (update_where (\<lambda>b. bk_id b = i \<and> \<not> background_task_is_terminal (bk_status b)) f rows)"
  unfolding rows_moved_def update_where_def
  by (rule exI [of _ "[]"], rule exI [of _ "\<lambda>b. if bk_id b = i \<and> \<not> background_task_is_terminal (bk_status b) then f b else b"])
    (simp add: assms)

lemma keeps_rows: "keeps st_background m \<Longrightarrow> rows_moved (st_background s) (st_background (fst (m s)))"
  by (simp add: keeps_def rows_moved_refl)

lemma set_status_rows: "rows_moved (st_background s) (st_background (fst (chain (set_background_task_status ou i st d) (\<lambda>_. get_background_task i) s)))"
  by (simp add: set_background_task_status_def update_unsettled_def chain_write get_background_run rows_moved_update)

lemma fail_rows: "rows_moved (st_background s) (st_background (fst (chain (fail_background_task ou i e) (\<lambda>_. get_background_task i) s)))"
  by (simp add: fail_background_task_def update_unsettled_def chain_write get_background_run rows_moved_update)

lemma chain_get_background: "chain (get_background_task i) f s = (case find (\<lambda>b. bk_id b = i) (st_background s) of
    None \<Rightarrow> (s, Inl [''load background task '' @ show_int i, no_rows]) | Some b \<Rightarrow> f b s)"
  by (simp add: chain_def get_background_run row_or_def split: option.split)

lemma cancel_rows: "rows_moved (st_background s) (st_background (fst (cancel_background_task ou i s)))"
  by (auto simp: cancel_background_task_def chain_get_background chain_ensure bail_run set_status_rows split: option.split)

lemma begin_rows: "rows_moved (st_background s) (st_background (fst (advance_begin ou i active s)))"
  by (auto simp: advance_begin_def chain_get_background give_run fail_background_task_def update_unsettled_def chain_write
    rows_moved_update split: option.split)

lemma end_rows: "rows_moved (st_background s) (st_background (fst (advance_end ou ports dr (task, w) s)))"
  by (cases rule: advance_end_rows [of task ou ports dr w s])
    (auto simp: settle_rows_def failed_rows_def rows_moved_update)

lemma rows_moved_trans:
  assumes "rows_moved rows rows1" and "rows_moved rows1 rows2"
  shows "rows_moved rows rows2"
proof -
  from assms(1) obtain new f where f: "rows1 = map f rows @ new"
    "\<forall>b\<in>set rows. bk_id (f b) = bk_id b \<and> (background_task_is_terminal (bk_status b) \<longrightarrow> f b = b)"
    "\<forall>b\<in>set new. \<forall>c\<in>set rows. bk_id c < bk_id b" by (auto simp: rows_moved_def)
  from assms(2) obtain new' g where g: "rows2 = map g rows1 @ new'"
    "\<forall>b\<in>set rows1. bk_id (g b) = bk_id b \<and> (background_task_is_terminal (bk_status b) \<longrightarrow> g b = b)"
    "\<forall>b\<in>set new'. \<forall>c\<in>set rows1. bk_id c < bk_id b" by (auto simp: rows_moved_def)
  have "\<forall>b\<in>set rows. bk_id (g (f b)) = bk_id b \<and> (background_task_is_terminal (bk_status b) \<longrightarrow> g (f b) = b)"
    using f(1,2) g(2) by (metis (no_types, lifting) UnCI image_eqI set_append set_map)
  moreover have "\<forall>b\<in>set (map g new @ new'). \<forall>c\<in>set rows. bk_id c < bk_id b"
  proof (intro ballI)
    fix b c assume c: "c \<in> set rows" and "b \<in> set (map g new @ new')"
    then consider n where "n \<in> set new" "b = g n" | "b \<in> set new'" by auto
    then show "bk_id c < bk_id b"
    proof cases
      case 1
      then have "bk_id b = bk_id n" using f(1) g(2) by simp
      with 1 c f(3) show ?thesis by simp
    next
      case 2
      have "f c \<in> set rows1" "bk_id (f c) = bk_id c" using c f(1,2) by simp_all
      with 2 g(3) show ?thesis by metis
    qed
  qed
  moreover have "rows2 = map (g \<circ> f) rows @ (map g new @ new')" using f(1) g(1) by simp
  ultimately show ?thesis unfolding rows_moved_def comp_def by blast
qed

definition moves_rows :: "(ws_store, 'a) operation \<Rightarrow> bool" where
  "moves_rows m \<longleftrightarrow> (\<forall>s. rows_moved (st_background s) (st_background (fst (m s))))"

lemma moves_keeps: "keeps st_background m \<Longrightarrow> moves_rows m"
  by (simp add: moves_rows_def keeps_rows)

lemma moves_chain:
  assumes "moves_rows m" and "\<And>x. moves_rows (f x)"
  shows "moves_rows (chain m f)"
  unfolding moves_rows_def
proof
  fix s
  obtain t r where m: "m s = (t, r)" by (metis surj_pair)
  then have one: "rows_moved (st_background s) (st_background t)" using assms(1) by (metis fst_conv moves_rows_def)
  show "rows_moved (st_background s) (st_background (fst (chain m f s)))"
  proof (cases r)
    case (Inr x)
    have "rows_moved (st_background t) (st_background (fst (f x t)))" using assms(2) by (simp add: moves_rows_def)
    with one Inr show ?thesis by (simp add: chain_def m rows_moved_trans)
  qed (simp add: chain_def m one)
qed

lemma moves_insert:
  assumes "\<And>i. bk_id (row i) = i" and "\<And>i. moves_rows (f i)"
  shows "moves_rows (chain (read_store (\<lambda>s. sql_next bk_id (st_background s))) (\<lambda>i.
    chain (write_store (\<lambda>s. s\<lparr>st_background := st_background s @ [row i]\<rparr>)) (\<lambda>_. f i)))"
  unfolding moves_rows_def chain_read chain_write
proof
  fix s :: ws_store
  let ?i = "sql_next bk_id (st_background s)" and ?t = "\<lambda>i. s\<lparr>st_background := st_background s @ [row i]\<rparr>"
  have "rows_moved (st_background s) (st_background (?t ?i))"
    unfolding rows_moved_def
    by (rule exI [of _ "[row ?i]"], rule exI [of _ "\<lambda>b. b"]) (simp add: assms(1) sql_next_greater)
  moreover have "rows_moved (st_background (?t ?i)) (st_background (fst (f ?i (?t ?i))))"
    using assms(2) by (simp only: moves_rows_def)
  ultimately show "rows_moved (st_background s) (st_background (fst (f ?i (?t ?i))))" by (rule rows_moved_trans)
qed

lemma start_rows: "moves_rows (start_background_task ou ports input)"
  unfolding start_background_task_def Let_def get_background_task_def
  by (intro moves_insert moves_chain moves_keeps [OF keeps_ensure] moves_keeps [OF keeps_read]
    moves_keeps [OF keeps_lift] moves_keeps [OF keeps_give] moves_keeps [OF keeps_event] moves_keeps [OF background_kept_create_task]
    moves_keeps [OF background_kept_update] moves_keeps [OF keeps_write] moves_keeps [OF keeps_case_option] keeps_intros; simp)

lemma step_rows: "rows_moved (st_background (bw_store v)) (st_background (bw_store (background_step ou ports dr v m)))"
proof (cases m)
  case (Start_task input)
  then show ?thesis using start_rows by (simp add: on_store_def moves_rows_def)
next
  case (Begin_step i active)
  then show ?thesis using begin_rows [of "bw_store v" ou i active] by (auto simp: Let_def split: prod.split)
qed (auto simp: on_store_def cancel_rows mark_background_task_running_def mark_background_task_failed_def set_status_rows fail_rows
  end_rows split: option.split)

lemma rows_moved_find:
  assumes "rows_moved rows rows'" and "find (\<lambda>b. bk_id b = i) rows = Some b" and "background_task_is_terminal (bk_status b)"
  shows "find (\<lambda>b. bk_id b = i) rows' = Some b"
proof -
  from assms(1) obtain new f where f: "rows' = map f rows @ new"
    "\<forall>b\<in>set rows. bk_id (f b) = bk_id b \<and> (background_task_is_terminal (bk_status b) \<longrightarrow> f b = b)" by (auto simp: rows_moved_def)
  have "find (\<lambda>b. bk_id b = i) (map f rows @ new) = Some b"
    using assms(2,3) f(2) by (induction rows) (auto split: if_splits)
  with f(1) show ?thesis by simp
qed

interpretation ended: terminal_machine "background_step ou ports dr" "background_row i" row_ended for ou ports dr i
proof
  fix v m
  assume "row_ended (background_row i v)"
  then show "background_row i (background_step ou ports dr v m) = background_row i v"
    using rows_moved_find [OF step_rows [of v ou ports dr m]] by (auto simp: row_ended_def background_row_def)
qed

definition world_of :: "ws_store \<Rightarrow> background_world" where
  "world_of s = \<lparr>bw_store = s, bw_claim = None, bw_opened = []\<rparr>"

text \<open>
  C37. A background task that ended stays as it ended: however steps, starts, cancellations and marks of running or failed
  follow one another, and with a step under way meanwhile, the row of a ready, failed or cancelled task never changes again,
  the deletion of its workspace or repository aside.
\<close>

theorem ended_background_task_stays:
  assumes "background_row i v = Some b" and "background_task_is_terminal (bk_status b)"
  shows "background_row i (fold (\<lambda>m v. background_step ou ports dr v m) moves v) = Some b"
  using ended.terminal_run [of i v ou ports dr moves] assms by (simp add: row_ended_def)

theorem ended_background_task_stays_witness:
  "background_row 1 (fold (\<lambda>m v. background_step example_outside example_ports example_drafts v m)
      [Cancel_task 1, Mark_running 1, Begin_step 1 False, Mark_failed 1 ''late'']
      (world_of (example_ws_store\<lparr>st_background := [example_task\<lparr>bk_status := ''ready''\<rparr>]\<rparr>)))
    = Some (example_task\<lparr>bk_status := ''ready''\<rparr>)"
  by (rule ended_background_task_stays) (simp_all add: background_row_def world_of_def example_task_def background_task_is_terminal_def)

section \<open>A pull request is prepared once\<close>

definition ended_id :: "int \<Rightarrow> BackgroundTask list \<Rightarrow> bool" where
  "ended_id i rows \<longleftrightarrow> i \<in> bk_id ` set rows \<and> (\<forall>b\<in>set rows. bk_id b = i \<longrightarrow> background_task_is_terminal (bk_status b))"

lemma ids_moved: "rows_moved rows rows' \<Longrightarrow> bk_id ` set rows \<subseteq> bk_id ` set rows'"
  unfolding rows_moved_def by (elim exE conjE) (metis (no_types, lifting) UnCI image_eqI image_subsetI set_append set_map)

lemma ended_id_moved:
  assumes "rows_moved rows rows'" and ended: "ended_id i rows"
  shows "ended_id i rows'"
proof -
  from assms(1) obtain new f where f: "rows' = map f rows @ new"
    "\<forall>b\<in>set rows. bk_id (f b) = bk_id b \<and> (background_task_is_terminal (bk_status b) \<longrightarrow> f b = b)"
    "\<forall>b\<in>set new. \<forall>c\<in>set rows. bk_id c < bk_id b" by (auto simp: rows_moved_def)
  have "background_task_is_terminal (bk_status b)" if b: "b \<in> set rows'" and i: "bk_id b = i" for b
  proof -
    have "b \<notin> set new" using ended f(3) i by (fastforce simp: ended_id_def)
    then obtain c where c: "c \<in> set rows" "b = f c" using f(1) b by auto
    with f(2) i ended have "background_task_is_terminal (bk_status c)" by (auto simp: ended_id_def)
    with c f(2) show ?thesis by metis
  qed
  with ids_moved [OF assms(1)] ended show ?thesis by (auto simp: ended_id_def)
qed

definition opened_ok :: "background_world \<Rightarrow> bool" where
  "opened_ok v \<longleftrightarrow> distinct (bw_opened v) \<and> (\<forall>i\<in>set (bw_opened v). ended_id i (st_background (bw_store v)))
     \<and> (\<forall>task w. bw_claim v = Some (task, w) \<longrightarrow>
          bk_id task \<notin> set (bw_opened v) \<and> bk_id task \<in> bk_id ` set (st_background (bw_store v)))"

lemma begin_claims:
  assumes "snd (advance_begin ou i active s) = Inr (Inr (task, w))"
  shows "task \<in> set (st_background s) \<and> \<not> background_task_is_terminal (bk_status task) \<and> fst (advance_begin ou i active s) = s"
proof (cases "find (\<lambda>b. bk_id b = i) (st_background s)")
  case None
  with assms show ?thesis by (simp add: advance_begin_def chain_get_background)
next
  case (Some b)
  have no_step: "snd (chain (fail_background_task ou i e) (\<lambda>_. chain (get_background_task i) (\<lambda>t. give (Inl t))) s) \<noteq> Inr (Inr x)"
    for e and x :: "BackgroundTask \<times> string"
    by (simp add: fail_background_task_def update_unsettled_def chain_write chain_get_background give_run split: option.split)
  have "b \<in> set (st_background s)" using find_keyed_Some [OF Some] by simp
  with assms Some no_step show ?thesis
    by (cases "bk_workspace_name b") (auto simp: advance_begin_def chain_get_background give_run split: if_splits)
qed

lemma opening_ends:
  assumes "bk_status task = ''opening_pr''" and "bk_id task \<in> bk_id ` set (st_background s)"
  shows "ended_id (bk_id task) (st_background (fst (advance_end ou ports dr (task, w) s)))"
proof -
  let ?rows = "st_background (fst (advance_end ou ports dr (task, w) s))"
  have ids: "bk_id task \<in> bk_id ` set ?rows" using assms(2) ids_moved [OF end_rows] by blast
  have settled: "\<forall>b\<in>set (settle_rows ou (bk_id task) ''ready'' d old). bk_id b = bk_id task \<longrightarrow> background_task_is_terminal (bk_status b)"
    and failed: "\<forall>b\<in>set (failed_rows ou (bk_id task) e old). bk_id b = bk_id task \<longrightarrow> background_task_is_terminal (bk_status b)" for d e old
    by (auto simp: settle_rows_def failed_rows_def update_where_def background_task_is_terminal_def)
  have "\<forall>b\<in>set ?rows. bk_id b = bk_id task \<longrightarrow> background_task_is_terminal (bk_status b)"
  proof (cases rule: advance_end_rows [of task ou ports dr w s])
    case (1 status detail)
    then have "status = ''ready''" using assms(1) by simp
    with 1 settled show ?thesis by simp
  next
    case (2 e)
    with failed show ?thesis by simp
  qed
  with ids show ?thesis by (simp add: ended_id_def)
qed

lemma opened_step:
  assumes ok: "opened_ok v"
  shows "opened_ok (background_step ou ports dr v m)"
proof -
  let ?v = "background_step ou ports dr v m"
  have moved: "rows_moved (st_background (bw_store v)) (st_background (bw_store ?v))" by (rule step_rows)
  have kept: "opened_ok ?v" if "bw_opened ?v = bw_opened v" "bw_claim ?v = bw_claim v \<or> bw_claim ?v = None"
    using ok that ended_id_moved [OF moved] ids_moved [OF moved] by (auto simp: opened_ok_def)
  show ?thesis
  proof (cases m)
    case (Begin_step i active)
    show ?thesis
    proof (cases "bw_claim v = None \<and> (\<exists>step. snd (advance_begin ou i active (bw_store v)) = Inr (Inr step))")
      case True
      then obtain task w where claim: "snd (advance_begin ou i active (bw_store v)) = Inr (Inr (task, w))" by auto
      note b = begin_claims [OF claim]
      have step: "bw_opened ?v = bw_opened v" "bw_claim ?v = Some (task, w)" "bw_store ?v = bw_store v"
        using True Begin_step claim b by (simp_all add: Let_def case_prod_beta)
      have "bk_id task \<notin> set (bw_opened v)" using ok b by (auto simp: opened_ok_def ended_id_def)
      with ok step b show ?thesis by (auto simp: opened_ok_def)
    next
      case False
      then have "bw_opened ?v = bw_opened v" "bw_claim ?v = bw_claim v \<or> bw_claim ?v = None"
        using Begin_step by (auto simp: Let_def case_prod_beta split: sum.split)
      then show ?thesis by (rule kept)
    qed
  next
    case End_step
    show ?thesis
    proof (cases "bw_claim v")
      case (Some step)
      obtain task w where tw: "step = (task, w)" by (cases step)
      with ok Some have here: "bk_id task \<notin> set (bw_opened v)" "bk_id task \<in> bk_id ` set (st_background (bw_store v))"
        by (auto simp: opened_ok_def)
      have v: "bw_claim ?v = None" "bw_store ?v = fst (advance_end ou ports dr (task, w) (bw_store v))"
        "bw_opened ?v = bw_opened v @ (if bk_status task = ''opening_pr'' then [bk_id task] else [])"
        using End_step Some tw by (simp_all add: on_store_def)
      show ?thesis
      proof (cases "bk_status task = ''opening_pr''")
        case True
        with ok v here opening_ends [OF True here(2), of ou ports dr w] ended_id_moved [OF moved] show ?thesis
          by (auto simp: opened_ok_def)
      qed (use kept v in simp)
    qed (use ok End_step in simp)
  qed (use kept in \<open>simp_all add: on_store_def\<close>)
qed

interpretation opened: closed_machine "background_step ou ports dr" opened_ok for ou ports dr
  by unfold_locales (rule opened_step)

text \<open>
  C36. A background task prepares its pull request at most once: however steps, starts, cancellations and marks of running or
  failed interleave, a task set back to running while its pull request is being opened included, no task comes to the step
  that commits, pushes and opens a pull request a second time.
\<close>

theorem background_task_opens_one_pull_request:
  "distinct (bw_opened (fold (\<lambda>m v. background_step ou ports dr v m) moves (world_of s)))"
proof -
  have "opened_ok (world_of s)" by (simp add: opened_ok_def world_of_def)
  then show ?thesis using opened.closed_run [of "world_of s"] by (simp add: opened_ok_def)
qed

section \<open>A settled task comes to an end\<close>

definition steps_left :: "string \<Rightarrow> nat" where
  "steps_left status =
     (if background_task_is_terminal status then 0 else if status = ''opening_pr'' then 1
      else if status = ''summarizing'' then 2 else if status = ''checking'' then 3 else 4)"

lemma steps_left_le: "steps_left status \<le> 4"
  by (simp add: steps_left_def)

definition check_running :: "string \<Rightarrow> ws_store \<Rightarrow> bool" where
  "check_running workspace s \<longleftrightarrow> (\<exists>w p. find_workspace workspace s = Some w \<and> p \<in> set (st_processes s)
     \<and> px_workspace_id p = wk_id w \<and> px_kind p = ''check'' \<and> px_status p = Running)"

lemma advance_run:
  assumes "find (\<lambda>b. bk_id b = i) (st_background s) = Some b" and "\<not> background_task_is_terminal (bk_status b)"
    and "bk_workspace_name b = Some w" and "bk_status b \<in> {''pending'', ''running''} \<longrightarrow> \<not> active"
  shows "advance_background_task ou ports dr i active s = advance_end ou ports dr (b, w) s"
  using assms by (auto simp: advance_background_task_def advance_begin_def chain_assoc chain_get_background chain_give)

lemma find_settled:
  assumes "find (\<lambda>b. bk_id b = i) rows = Some b" and "\<not> background_task_is_terminal (bk_status b)"
  shows "find (\<lambda>b. bk_id b = i) (settle_rows ou i status detail rows)
      = Some (b\<lparr>bk_status := status, bk_detail := detail, bk_updated_at := ou_now ou\<rparr>)"
    and "find (\<lambda>b. bk_id b = i) (failed_rows ou i e rows)
      = Some (b\<lparr>bk_status := ''failed'', bk_error := Some e, bk_updated_at := ou_now ou\<rparr>)"
  using assms find_keyed_Some [OF assms(1)]
  by (simp_all add: settle_rows_def failed_rows_def update_where_find)

lemma finish_waits:
  assumes "snd (finish_background_checks ou task w s) = Inr ()" and "\<not> check_running w s"
  shows "st_background (fst (finish_background_checks ou task w s))
    = settle_rows ou (bk_id task) ''summarizing'' ''Checks finished'' (st_background s)"
proof (cases "find_workspace w s")
  case None
  with assms(1) show ?thesis by (simp add: finish_background_checks_def list_processes_def chain_assoc chain_get_by_name)
next
  case (Some ws)
  have "filter (\<lambda>p. px_status p = Running) (rev (sort_key px_id
      (filter (\<lambda>p. px_workspace_id p = wk_id ws \<and> px_kind p = ''check'') (st_processes s)))) = []"
    using assms(2) Some by (auto simp: check_running_def filter_empty_conv)
  with Some show ?thesis
    by (simp add: finish_background_checks_def list_processes_def chain_assoc chain_get_by_name chain_read
      set_background_task_status_def update_unsettled_def write_store_def settle_rows_def)
qed

text \<open>
  C38. A settled task comes to an end: an advance of a task that has not ended, once its agent is idle, brings it at least one step
  nearer to its end, unless it is waiting for a check that still runs; four steps at most are left, and a transition that fails,
  or a workspace that is gone, ends the task as failed.
\<close>

theorem background_task_moves_on:
  assumes row: "find (\<lambda>b. bk_id b = i) (st_background s) = Some b" and going: "\<not> background_task_is_terminal (bk_status b)"
    and no_check: "\<forall>w. bk_workspace_name b = Some w \<and> bk_status b = ''checking'' \<longrightarrow> \<not> check_running w s"
  shows "\<exists>b'. find (\<lambda>b. bk_id b = i) (st_background (fst (advance_background_task ou ports dr i False s))) = Some b'
    \<and> steps_left (bk_status b') < steps_left (bk_status b) \<and> steps_left (bk_status b) \<le> 4"
proof (cases "bk_workspace_name b")
  case None
  then have "st_background (fst (advance_background_task ou ports dr i False s))
      = failed_rows ou i ''background task has no workspace'' (st_background s)"
    using row going
    by (simp add: advance_background_task_def advance_begin_def chain_assoc chain_get_background fail_background_task_def
      update_unsettled_def chain_write failed_rows_def chain_give give_run split: option.split)
  then show ?thesis
    using find_settled(2) [OF row going] going by (simp add: steps_left_def background_task_is_terminal_def)
next
  case (Some w)
  have id: "bk_id b = i" using find_keyed_Some [OF row] by simp
  have run: "advance_background_task ou ports dr i False s = advance_end ou ports dr (b, w) s"
    using advance_run [OF row going Some] by simp
  show ?thesis
  proof (cases rule: advance_end_rows [of b ou ports dr w s])
    case (1 status detail)
    have found: "find (\<lambda>b. bk_id b = i) (st_background (fst (advance_end ou ports dr (b, w) s)))
        = Some (b\<lparr>bk_status := status, bk_detail := detail, bk_updated_at := ou_now ou\<rparr>)"
      using find_settled(1) [OF row going] 1(2) id by simp
    have "steps_left status < steps_left (bk_status b)"
    proof (cases "bk_status b = ''checking''")
      case True
      then have m: "background_transition ou ports dr b w = finish_background_checks ou b w"
        by (simp add: background_transition_def)
      with 1 True have "st_background (fst (advance_end ou ports dr (b, w) s))
          = settle_rows ou i ''summarizing'' ''Checks finished'' (st_background s)"
        using finish_waits [of ou b w s] no_check Some id by simp
      with found have "map_option bk_status (find (\<lambda>b. bk_id b = i) (settle_rows ou i ''summarizing'' ''Checks finished'' (st_background s)))
          = Some status" by simp
      then have "status = ''summarizing''" by (simp add: find_settled(1) [OF row going])
      with True show ?thesis by (simp add: steps_left_def background_task_is_terminal_def)
    next
      case False
      with 1(1) going show ?thesis
        by (auto simp: steps_left_def background_task_is_terminal_def split: if_splits)
    qed
    with found run steps_left_le show ?thesis by simp
  next
    case (2 e)
    then show ?thesis
      using find_settled(2) [OF row going] id run going steps_left_le
      by (simp add: steps_left_def background_task_is_terminal_def)
  qed
qed

theorem background_task_moves_on_witness:
  "\<exists>b'. find (\<lambda>b. bk_id b = 1) (st_background (fst (advance_background_task example_outside example_ports example_drafts 1 False
      example_ws_store))) = Some b' \<and> steps_left (bk_status b') < steps_left ''running'' \<and> steps_left ''running'' \<le> 4"
proof -
  have "bk_status example_task = ''running''" by (simp add: example_task_def)
  moreover have "find (\<lambda>b. bk_id b = 1) (st_background example_ws_store) = Some example_task"
    by (simp add: example_ws_store_def example_task_def)
  ultimately show ?thesis
    using background_task_moves_on [of 1 example_ws_store example_task example_outside example_ports example_drafts]
    by (simp add: background_task_is_terminal_def)
qed

end
