(* ===== verification/Background_Effects.thy ===== *)
theory Background_Effects
  imports Background_Facts
begin

text \<open>
  What the steps of a background task do outside its row: the commands that open a pull request come in
  order, a refresh leaves what somebody wrote, and three ways in which a background task goes wrong: its
  workspace is renamed, its summary takes the place of the agent's, and the tick looks away while an input
  is handed over.
\<close>

section \<open>The order of commands\<close>

definition is_pr_create :: "outside_command \<Rightarrow> bool" where
  "is_pr_create c \<longleftrightarrow> oc_program c = ''gh'' \<and> take 2 (oc_args c) = [''pr'', ''create'']"

definition push_command :: "Workspace \<Rightarrow> outside_command" where
  "push_command w = \<lparr>oc_cwd = Some (wk_path w), oc_program = ''git'',
     oc_args = [''--no-optional-locks'', ''push'', ''-u'', ''origin'', wk_branch w]\<rparr>"

definition succeeded :: "outcome \<Rightarrow> bool" where
  "succeeded r \<longleftrightarrow> (\<exists>out err. r = Ended True out err)"

text \<open>An operation runs commands after those run before, at most \<open>n\<close> of them opening a pull request.\<close>

definition creates_at_most :: "nat \<Rightarrow> (ws_store, 'a) operation \<Rightarrow> bool" where
  "creates_at_most n m \<longleftrightarrow> (\<forall>s. \<exists>cs. st_commands (fst (m s)) = st_commands s @ cs \<and> length (filter is_pr_create cs) \<le> n)"

lemma creates_keeps: "keeps st_commands m \<Longrightarrow> creates_at_most n m"
  by (auto simp: keeps_def creates_at_most_def)

lemma creates_chain:
  assumes "creates_at_most k m" and "\<And>x. creates_at_most n (f x)"
  shows "creates_at_most (k + n) (chain m f)"
  unfolding creates_at_most_def
proof
  fix s
  obtain t r where m: "m s = (t, r)" by (metis surj_pair)
  with assms(1) obtain cs where cs: "st_commands t = st_commands s @ cs" "length (filter is_pr_create cs) \<le> k"
    by (metis creates_at_most_def fst_conv)
  show "\<exists>cs. st_commands (fst (chain m f s)) = st_commands s @ cs \<and> length (filter is_pr_create cs) \<le> k + n"
  proof (cases r)
    case (Inl e)
    with m cs show ?thesis by (auto simp: chain_def)
  next
    case (Inr x)
    from assms(2) [of x] obtain ds where "st_commands (fst (f x t)) = st_commands t @ ds" "length (filter is_pr_create ds) \<le> n"
      by (auto simp: creates_at_most_def)
    with m cs Inr show ?thesis by (auto simp: chain_def intro!: exI [of _ "cs @ ds"])
  qed
qed

lemma creates_then: "creates_at_most n m \<Longrightarrow> (\<And>x. creates_at_most 0 (f x)) \<Longrightarrow> creates_at_most n (chain m f)"
  using creates_chain [of n m 0 f] by simp

lemma creates_after: "creates_at_most 0 m \<Longrightarrow> (\<And>x. creates_at_most n (f x)) \<Longrightarrow> creates_at_most n (chain m f)"
  using creates_chain [of 0 m n f] by simp

named_theorems creates_intros \<open>operations that open no pull request\<close>

lemma creates_attempt [creates_intros]: "creates_at_most n m \<Longrightarrow> creates_at_most n (attempt m)"
  by (simp add: creates_at_most_def attempt_def case_prod_beta)

lemma creates_run: "creates_at_most (if is_pr_create c then 1 else 0) (run_command ou c)"
  by (simp add: creates_at_most_def run_command_def)

lemma creates_case_option [creates_intros]:
  "creates_at_most n f \<Longrightarrow> (\<And>x. creates_at_most n (g x)) \<Longrightarrow> creates_at_most n (case r of None \<Rightarrow> f | Some x \<Rightarrow> g x)"
  by (cases r) simp_all

lemma creates_if [creates_intros]: "creates_at_most n f \<Longrightarrow> creates_at_most n g \<Longrightarrow> creates_at_most n (if b then f else g)"
  by simp

lemma creates_let [creates_intros]: "(\<And>x. creates_at_most n (f x)) \<Longrightarrow> creates_at_most n (let x = a in f x)"
  by (simp add: Let_def)

lemma creates_prod [creates_intros]: "(\<And>x y. creates_at_most n (f x y)) \<Longrightarrow> creates_at_most n (case p of (x, y) \<Rightarrow> f x y)"
  by (cases p) simp

lemma creates_case_outcome [creates_intros]:
  "(\<And>c. creates_at_most n (f c)) \<Longrightarrow> (\<And>a b c. creates_at_most n (g a b c)) \<Longrightarrow>
    creates_at_most n (case r of Not_run c \<Rightarrow> f c | Ended a b c \<Rightarrow> g a b c)"
  by (cases r) simp_all

lemma commands_kept [keeps_intros]:
  "keeps st_commands (get_by_name name)" "keeps st_commands (workspace_name_by_id j)"
  "keeps st_commands (load_repository_by_id j)" "keeps st_commands (pull_request_by_workspace_id j)"
  "keeps st_commands (record_pull_request ou j url)" "keeps st_commands (metadata_workspace_name ou repository j raw)"
  "keeps st_commands (gh_pr_args_for_workspace w sub extra)" "keeps st_commands (drafted draft name)"
  unfolding operation_defs drafted_def by (intro keeps_intros; simp)+

lemma commands_kept_rename [keeps_intros]: "keeps st_commands (rename ou name new_name)"
  unfolding rename_def by (intro keeps_intros; simp add: rename_rows_def)

lemma commands_kept_status [keeps_intros]: "keeps st_commands (set_background_task_status ou i status detail)"
  unfolding set_background_task_status_def update_unsettled_def by (intro keeps_intros; simp)

lemma creates_kept [creates_intros]:
  "creates_at_most n (give x)" "creates_at_most n (bail e)" "creates_at_most n (ensure b message)" "creates_at_most n (lift_result r)"
  "creates_at_most n (get_by_name name)" "creates_at_most n (record_workspace_event ou j name kind summary)"
  "creates_at_most n (record_pull_request ou j url)" "creates_at_most n (load_repository_by_id j)"
  "creates_at_most n (metadata_workspace_name ou repository j raw)" "creates_at_most n (rename ou name new_name)"
  "creates_at_most n (pull_request_by_workspace_id j)" "creates_at_most n (drafted draft name)"
  "creates_at_most n (set_background_task_status ou i status detail)"
  by (intro creates_keeps keeps_intros; simp)+

lemma creates_output: "program \<noteq> ''gh'' \<or> take 2 args \<noteq> [''pr'', ''create''] \<Longrightarrow> creates_at_most 0 (command_output ou cwd program args)"
  unfolding command_output_def
  by (rule creates_after, rule creates_run [of "\<lparr>oc_cwd = Some cwd, oc_program = program, oc_args = args\<rparr>" ou, THEN back_subst [of "\<lambda>n. creates_at_most n _"]])
    (auto simp: is_pr_create_def intro!: creates_intros creates_after)

lemma creates_one_output: "creates_at_most 1 (command_output ou cwd program args)"
proof -
  have "creates_at_most 1 (run_command ou c)" for c
    using creates_run [of c ou] by (auto simp: creates_at_most_def split: if_splits intro: le_SucI)
  then show ?thesis unfolding command_output_def
    by (rule creates_then) (auto intro!: creates_intros creates_after)
qed

lemma creates_git [creates_intros]: "creates_at_most 0 (git_output_dynamic ou cwd args)"
  unfolding git_output_dynamic_def by (rule creates_output) simp

lemma creates_git_dynamic [creates_intros]: "creates_at_most 0 (git_dynamic ou cwd args)"
  unfolding git_dynamic_def
  by (rule creates_after, rule creates_run [THEN back_subst [of "\<lambda>n. creates_at_most n _"]])
    (auto simp: is_pr_create_def intro!: creates_intros)


lemma creates_files [creates_intros]:
  "creates_at_most 0 (changed_files ou name)" "creates_at_most 0 (stage_all_workspace_files ou name)"
  "creates_at_most 0 (commit_workspace_changes ou name message)" "creates_at_most 0 (push_branch ou name)"
  unfolding changed_files_def stage_all_workspace_files_def commit_workspace_changes_def push_branch_def
  by (intro creates_intros creates_after; simp)+

lemma creates_draft [creates_intros]: "creates_at_most 0 (commit_message_draft ou name)"
  unfolding commit_message_draft_def by (intro creates_intros creates_after)

lemma creates_commit [creates_intros]: "creates_at_most 0 (commit_what_is_left ou task name)"
  unfolding commit_what_is_left_def by (intro creates_intros creates_after)

lemma creates_branch_files [creates_intros]: "creates_at_most 0 (branch_changed_files ou name)"
proof -
  have "creates_at_most 0 (workspace_merge_base_ref ou w base)" for w base
    unfolding workspace_merge_base_ref_def
    by (rule creates_after, rule creates_run [THEN back_subst [of "\<lambda>n. creates_at_most n _"]])
      (auto simp: is_pr_create_def intro!: creates_intros)
  then show ?thesis unfolding branch_changed_files_def by (intro creates_intros creates_after)
qed

lemma creates_existing [creates_intros]: "creates_at_most 0 (existing_pull_request_for_workspace ou w)"
  unfolding existing_pull_request_for_workspace_def pull_request_url_for_workspace_def
  by (intro creates_intros creates_after creates_output; simp)

lemma creates_naming [creates_intros]: "creates_at_most 0 (apply_pull_request_workspace_naming ou w (Some title))"
  unfolding apply_pull_request_workspace_naming_def gh_pr_args_for_workspace_def chain_assoc chain_give
  by (intro creates_intros creates_after creates_output; simp)


lemma creates_create: "creates_at_most 1 (create_pull_request ou name (Some title) body draft)"
proof -
  have "creates_at_most 1 (give x)" for x :: 'a by (rule creates_intros)
  show ?thesis
    unfolding create_pull_request_def
    by (intro creates_intros creates_after creates_then [where m = "command_output ou cwd program args" for cwd program args]
      creates_one_output)
qed

lemma chain_run: "chain (run_command ou c) f s = f (ou_run ou (st_commands s) c) (s\<lparr>st_commands := st_commands s @ [c]\<rparr>)"
  by (simp add: chain_def run_command_def)

lemma push_run:
  assumes "snd (push_branch ou name s) = Inr out"
  shows "\<exists>w. find_workspace name s = Some w \<and> succeeded (ou_run ou (st_commands s) (push_command w))
    \<and> st_commands (fst (push_branch ou name s)) = st_commands s @ [push_command w]"
proof (cases "find_workspace name s")
  case None
  with assms show ?thesis by (simp add: push_branch_def chain_get_by_name)
next
  case (Some w)
  let ?r = "ou_run ou (st_commands s) (push_command w)"
  let ?s = "s\<lparr>st_commands := st_commands s @ [push_command w]\<rparr>"
  have run: "push_branch ou name s = (case ?r of Not_run cause \<Rightarrow> (?s, Inl [''run git in '' @ wk_path w, cause])
     | Ended ok out err \<Rightarrow> if ok then chain (record_workspace_event ou (wk_id w) (wk_name w) ''branch.pushed''
       (''Pushed branch '' @ wk_branch w)) (\<lambda>_. give out) ?s
       else (?s, Inl [''git command failed in '' @ wk_path w @ '': '' @ err @ [CHR 0x0A] @ out]))"
    using Some by (simp add: push_branch_def chain_get_by_name git_output_dynamic_def command_output_def chain_assoc chain_run
      chain_bail bail_run chain_ensure chain_give push_command_def split: outcome.split)
  with assms obtain o1 e1 where r: "?r = Ended True o1 e1" by (auto split: outcome.splits if_splits)
  with run have "st_commands (fst (push_branch ou name s)) = st_commands s @ [push_command w]"
    by (simp add: record_workspace_event_def chain_write give_run)
  with Some r show ?thesis by (simp add: succeeded_def)
qed

lemma commit_keeps_workspaces: "keeps st_workspaces (commit_what_is_left ou task name)"
  unfolding commit_what_is_left_def commit_message_draft_def stage_all_workspace_files_def commit_workspace_changes_def
    git_dynamic_def operation_defs
  by (intro keeps_intros; simp)

text \<open>
  C39. A pull request is opened once and after the push of its branch: of the commands that open the pull request of a background
  task at most one creates a pull request, and if one does, a command before it pushed, with success, the branch of the
  workspace the task's name stands for, from that workspace's directory.
\<close>

theorem pull_request_follows_push:
  "\<exists>cs. st_commands (fst (open_background_pull_request ou dr task name s)) = st_commands s @ cs
    \<and> length (filter is_pr_create cs) \<le> 1
    \<and> (\<forall>k<length cs. is_pr_create (cs ! k) \<longrightarrow> (\<exists>j<k. \<exists>w. find_workspace name s = Some w \<and> cs ! j = push_command w
         \<and> succeeded (ou_run ou (st_commands s @ take j cs) (cs ! j))))"
proof -
  let ?commit = "commit_what_is_left ou task name" and ?push = "push_branch ou name"
  let ?rest = "chain (drafted (dr_pull_request dr name) name) (\<lambda>(title, body).
     chain (create_pull_request ou name (Some title) (Some body) (bk_draft_pr task)) (\<lambda>output.
     set_background_task_status ou (bk_id task) ''ready'' (''Pull request ready: '' @ trim output)))"
  have none: "\<exists>cs. st_commands u = st_commands s @ cs \<and> length (filter is_pr_create cs) \<le> 1 \<and>
      (\<forall>k<length cs. is_pr_create (cs ! k) \<longrightarrow> (\<exists>j<k. \<exists>w. find_workspace name s = Some w \<and> cs ! j = push_command w
         \<and> succeeded (ou_run ou (st_commands s @ take j cs) (cs ! j))))"
    if "st_commands u = st_commands s @ ds" "length (filter is_pr_create ds) \<le> 0" for u ds
    using that by (intro exI [of _ ds]) (auto simp: filter_empty_conv)
  obtain t r where commit: "?commit s = (t, r)" by (metis surj_pair)
  with creates_commit [of ou task name] obtain cs where cs: "st_commands t = st_commands s @ cs" "length (filter is_pr_create cs) \<le> 0"
    by (metis creates_at_most_def fst_conv)
  show ?thesis
  proof (cases r)
    case (Inl e)
    with commit have "fst (open_background_pull_request ou dr task name s) = t"
      by (simp add: open_background_pull_request_def chain_def)
    with none [OF cs] show ?thesis by (simp only:)
  next
    case (Inr x)
    obtain u q where push: "?push t = (u, q)" by (metis surj_pair)
    show ?thesis
    proof (cases q)
      case (Inl e)
      from creates_files(4) [of ou name] push obtain ds where "st_commands u = st_commands t @ ds" "length (filter is_pr_create ds) \<le> 0"
        by (metis creates_at_most_def fst_conv)
      with cs have "st_commands u = st_commands s @ (cs @ ds)" "length (filter is_pr_create (cs @ ds)) \<le> 0" by simp_all
      note none [OF this]
      moreover have "fst (open_background_pull_request ou dr task name s) = u"
        using commit push Inl Inr by (simp add: open_background_pull_request_def chain_def)
      ultimately show ?thesis by (simp only:)
    next
      case pushed: (Inr out)
      from push pushed push_run [of ou name t out] obtain w where w: "succeeded (ou_run ou (st_commands t) (push_command w))"
        "st_commands u = st_commands t @ [push_command w]" and found: "find_workspace name t = Some w" by auto
      have here: "find_workspace name s = Some w"
        using found keepsD [OF commit_keeps_workspaces commit] by (simp add: find_workspace_def)
      have "creates_at_most 1 ?rest"
        by (intro creates_intros creates_after creates_then creates_create)
      then obtain es where es: "st_commands (fst (?rest u)) = st_commands u @ es" "length (filter is_pr_create es) \<le> 1"
        unfolding creates_at_most_def by blast
      let ?cs = "cs @ push_command w # es"
      have all: "st_commands (fst (open_background_pull_request ou dr task name s)) = st_commands s @ ?cs"
        using commit push Inr pushed cs(1) w(2) es(1) by (simp add: open_background_pull_request_def chain_def)
      have other: "\<not> is_pr_create (push_command w)" by (simp add: is_pr_create_def push_command_def)
      then have few: "length (filter is_pr_create ?cs) \<le> 1" using cs(2) es(2) by simp
      have after: "length cs < k" if "is_pr_create (?cs ! k)" for k
      proof (rule ccontr)
        assume "\<not> length cs < k"
        then consider "k < length cs" | "k = length cs" by linarith
        then show False
        proof cases
          case 1
          then have "cs ! k \<in> set cs" "is_pr_create (cs ! k)" using that by (simp_all add: nth_append)
          with cs(2) show False by (simp add: filter_empty_conv)
        next
          case 2
          with that other show False by simp
        qed
      qed
      have last_push: "?cs ! length cs = push_command w" "st_commands s @ take (length cs) ?cs = st_commands t" using cs(1) by simp_all
      show ?thesis
      proof (rule exI [of _ ?cs], intro conjI allI impI)
        fix k assume "is_pr_create (?cs ! k)"
        with after have "length cs < k" .
        with last_push w(1) here show "\<exists>j<k. \<exists>v. find_workspace name s = Some v \<and> ?cs ! j = push_command v \<and> succeeded (ou_run ou (st_commands s @ take j ?cs) (?cs ! j))"
          by (intro exI [of _ "length cs"] conjI exI [of _ w]) (simp_all only:)
      qed (rule all few)+
    qed
  qed
qed


section \<open>A renamed workspace\<close>

lemma background_kept_report: "keeps st_background (renamed_report ou name new_name n)" "keeps st_commands (renamed_report ou name new_name n)"
    "keeps st_workspaces (renamed_report ou name new_name n)"
  unfolding renamed_report_def by (intro keeps_intros workspaces_kept; simp)+

lemma rename_done:
  assumes "rename ou name new_name s = (s1, Inr w')" and ok: "names_ok s" and other: "new_name \<noteq> name"
  shows "find_workspace name s1 = None \<and> st_background s1 = st_background s \<and> st_commands s1 = st_commands s"
proof -
  from assms(1) obtain w n where w: "find_workspace name s = Some w"
    and run: "renamed_report ou name new_name n (rename_rows (ou_now ou) new_name (wk_id w) s) = (s1, Inr w')"
    by (auto simp: rename_run split: sum.splits option.splits if_splits)
  have rows: "st_workspaces s1 = st_workspaces (rename_rows (ou_now ou) new_name (wk_id w) s)"
    "st_background s1 = st_background s" "st_commands s1 = st_commands s"
    using keepsD [OF background_kept_report(3) run] keepsD [OF background_kept_report(1) run] keepsD [OF background_kept_report(2) run]
    by (simp_all add: rename_rows_def)
  have "wk_name v \<noteq> name" if "v \<in> set (st_workspaces s1)" for v
  proof
    assume v: "wk_name v = name"
    from that rows(1) obtain u where u: "u \<in> set (st_workspaces s)"
      "v = (if wk_id u = wk_id w then u\<lparr>wk_name := new_name, wk_updated_at := ou_now ou\<rparr> else u)"
      by (auto simp: rename_rows_def update_where_def)
    with v other have "wk_name u = wk_name w" "wk_id u \<noteq> wk_id w"
      using find_keyed_Some [OF w [unfolded find_workspace_def]] by (auto split: if_splits)
    moreover have "w \<in> set (st_workspaces s)" using find_keyed_Some [OF w [unfolded find_workspace_def]] by simp
    ultimately show False using ok u(1) by (auto simp: names_ok_def keyed_def distinct_map dest: inj_onD)
  qed
  then have "find_workspace name s1 = None" by (auto simp: find_workspace_def find_None_iff)
  with rows show ?thesis by simp
qed

text \<open>Without its workspace a task's checks are found to be none, and its summary fails.\<close>

lemma begin_without_workspace:
  assumes "find_workspace w s = None"
  shows "\<exists>detail. background_transition ou ports dr b w s
    = (if bk_status b \<in> {''pending'', ''running''} then set_background_task_status ou (bk_id b) ''summarizing'' detail s
       else background_transition ou ports dr b w s)"
proof (cases "bk_status b \<in> {''pending'', ''running''}")
  case True
  have "begin_background_checks ou ports b w s = set_background_task_status ou (bk_id b) ''summarizing''
      (if bk_run_checks b then ''No checks configured for this repository'' else ''Checks skipped by request'') s"
    using assms by (simp add: begin_background_checks_def list_workspace_checks_def chain_def attempt_def get_by_name_run row_or_def)
  with True show ?thesis by (auto simp: background_transition_def)
qed simp

lemma summary_without_workspace:
  assumes "find_workspace w s = None" and "bk_status b = ''summarizing''"
  shows "background_transition ou ports dr b w s = (s, Inl [''load workspace '' @ w, no_rows])"
  using assms by (simp add: background_transition_def write_background_summary_def drafted_def chain_assoc chain_get_by_name)

text \<open>
  C40. A background task does not survive the renaming of its workspace: the row keeps the old name, so once the workspace has been
  renamed, as naming does after the first message of its agent, the two next advances of the idle task find no checks and fail
  it, however its agent's work went, without a command having run.
\<close>

theorem renamed_workspace_fails_its_task:
  assumes ok: "names_ok s" and row: "find (\<lambda>b. bk_id b = i) (st_background s) = Some b"
    and b: "bk_status b = ''running''" "bk_workspace_name b = Some name"
    and renamed: "rename ou name new_name s = (s1, Inr w')" "new_name \<noteq> name"
    and twice: "s2 = fst (advance_background_task ou ports dr i False s1)" "s3 = fst (advance_background_task ou ports dr i False s2)"
  shows "\<exists>b'. find (\<lambda>b. bk_id b = i) (st_background s3) = Some b' \<and> bk_status b' = ''failed''
    \<and> bk_error b' = Some (''load workspace '' @ name @ '': Query returned no rows'') \<and> st_commands s3 = st_commands s"
proof -
  note gone = rename_done [OF renamed(1) ok renamed(2)]
  have id: "bk_id b = i" using find_keyed_Some [OF row] by simp
  have row1: "find (\<lambda>b. bk_id b = i) (st_background s1) = Some b" using row gone by simp
  obtain detail where "background_transition ou ports dr b name s1 = set_background_task_status ou i ''summarizing'' detail s1"
    using begin_without_workspace [of name s1 ou ports dr b] gone b(1) id by auto
  then have t1: "s2 = s1\<lparr>st_background := settle_rows ou i ''summarizing'' detail (st_background s1)\<rparr>"
    using twice(1) advance_run [OF row1 _ b(2)] b(1) id
    by (simp add: background_task_is_terminal_def advance_end_def chain_def attempt_def set_background_task_status_def
      update_unsettled_def write_store_def settle_rows_def give_run get_background_run)
  let ?b = "b\<lparr>bk_status := ''summarizing'', bk_detail := detail, bk_updated_at := ou_now ou\<rparr>"
  have row2: "find (\<lambda>b. bk_id b = i) (st_background s2) = Some ?b"
    using find_settled(1) [OF row1] b(1) t1 by (simp add: background_task_is_terminal_def)
  have "find_workspace name s2 = None" using gone t1 by (simp add: find_workspace_def)
  note fails = summary_without_workspace [OF this, of ?b ou ports dr]
  have t2: "s3 = s2\<lparr>st_background := failed_rows ou i (show_chain [''load workspace '' @ name, no_rows]) (st_background s2)\<rparr>"
    using twice(2) advance_run [OF row2, of name False ou ports dr] b(2) id fails
    by (simp add: background_task_is_terminal_def advance_end_def chain_def attempt_def fail_background_task_def
      update_unsettled_def write_store_def failed_rows_def give_run get_background_run)
  show ?thesis
    using find_settled(2) [OF row2, of ou "show_chain [''load workspace '' @ name, no_rows]"] gone t1 t2
    by (simp add: background_task_is_terminal_def show_chain_def no_rows_def)
qed


section \<open>Summaries somebody wrote\<close>

definition summaries_keyed :: "ws_store \<Rightarrow> bool" where
  "summaries_keyed s \<longleftrightarrow> keyed (\<lambda>m. (sm_workspace_id m, sm_scope_type m, sm_scope_id m)) (st_summaries s)"

lemma summary_at_unique:
  assumes "summaries_keyed s" and "m \<in> set (st_summaries s)" and "at_scope i scope k m"
  shows "summary_at i scope k s = Some m"
proof -
  let ?key = "\<lambda>m. (sm_workspace_id m, sm_scope_type m, sm_scope_id m)"
  have "find (\<lambda>x. ?key x = ?key m) (st_summaries s) = Some m"
    using keyed_find [of ?key "st_summaries s" m] assms(1,2) by (simp add: summaries_keyed_def)
  moreover have "(\<lambda>x. ?key x = ?key m) = at_scope i scope k" using assms(3) by (auto simp: at_scope_def)
  ultimately show ?thesis by (simp add: summary_at_def)
qed

lemma upsert_other: "m \<in> set rows \<Longrightarrow> \<not> at_scope i scope k m \<Longrightarrow> m \<in> set (upsert_summary now i scope k body refs rows)"
  by (force simp: upsert_summary_def update_where_def)

lemma known_scope: "scope \<in> {''workspace'', ''session'', ''task''} \<Longrightarrow> validate_word scope SUMMARY_SCOPES label = Inr scope"
proof -
  have "\<forall>scope\<in>{''workspace'', ''session'', ''task''}. to_ascii_lowercase (trim scope) = scope \<and> scope \<in> set SUMMARY_SCOPES"
    by code_simp
  then show "scope \<in> {''workspace'', ''session'', ''task''} \<Longrightarrow> ?thesis" by (simp only: validate_word_def Let_def) simp
qed

lemma save_summary_rows:
  assumes "scope \<in> {''workspace'', ''session'', ''task''}" and "find_workspace w s = Some ws"
  shows "st_summaries (fst (save_summary ou w scope k body refs s)) = st_summaries s
    \<or> st_summaries (fst (save_summary ou w scope k body refs s))
      = upsert_summary (ou_now ou) (wk_id ws) scope (unwrap_or k 0) (trim body) refs (st_summaries s)"
proof -
  have kept: "keeps st_summaries (get_summary w scope k)" for scope k
    unfolding get_summary_def get_by_name_def by (intro keeps_intros)
  have "keeps st_summaries (chain (get_summary w scope (Some n)) (\<lambda>stored.
      lift_result (case stored of None \<Rightarrow> Inl [''summary was not stored''] | Some m \<Rightarrow> Inr m)))" for scope n
    by (intro keeps_intros kept)
  then show ?thesis
    using assms(2) by (simp add: save_summary_def known_scope [OF assms(1)] chain_lift Let_def chain_ensure bail_run
      chain_get_by_name chain_write keeps_def)
qed

lemma unwrap_or_Some: "unwrap_or (Some x) d = x"
  by (simp add: unwrap_or_def)

lemma get_summary_run:
  assumes "scope \<in> {''workspace'', ''session'', ''task''}" and "find_workspace w s = Some ws"
  shows "chain (get_summary w scope k) f s = f (summary_at (wk_id ws) scope (unwrap_or k 0) s) s"
  using assms(2) by (simp add: get_summary_def known_scope [OF assms(1)] chain_assoc chain_lift chain_get_by_name chain_read)

lemma refresh_keeps_authored:
  assumes scope: "scope \<in> {''workspace'', ''session'', ''task''}" and keyed: "summaries_keyed s"
    and m: "m \<in> set (st_summaries s)" "\<not> summary_is_refresh_authored m"
  shows "m \<in> set (st_summaries (fst (save_refreshed_summary ou dr w scope k body source s)))"
proof (cases "find_workspace w s")
  case None
  with m show ?thesis by (simp add: save_refreshed_summary_def chain_get_by_name)
next
  case (Some ws)
  let ?k = "unwrap_or k 0"
  have kept: "keeps st_summaries (record_summary_refresh_state ou i scope ?k source h a b)"
    "keeps st_summaries (stored_refresh_state i scope ?k)" for i h a b
    unfolding record_summary_refresh_state_def stored_refresh_state_def summary_refresh_state_def
    by (intro keeps_intros; simp)+
  have rewritten: "m \<in> set (st_summaries (fst (write_refreshed ou w (wk_id ws) scope ?k body source evidence s)))"
    if "\<not> at_scope (wk_id ws) scope ?k m" for evidence
  proof -
    let ?save = "save_summary ou w scope (Some ?k) body [SUMMARY_REFRESH_SOURCE_REF]"
    obtain t r where save: "?save s = (t, r)" by (metis surj_pair)
    have "m \<in> set (st_summaries t)"
      using save_summary_rows [OF scope Some, of ou "Some ?k" body "[SUMMARY_REFRESH_SOURCE_REF]"] m(1) upsert_other that
      by (auto simp: save unwrap_or_Some)
    moreover have "keeps st_summaries (chain (record_summary_refresh_state ou (wk_id ws) scope ?k source (fst evidence)
        (fst (snd evidence)) (snd (snd evidence))) (\<lambda>_. chain (stored_refresh_state (wk_id ws) scope ?k) (\<lambda>state. give (x, state, True))))" for x :: Summary
      by (intro keeps_intros kept)
    ultimately show ?thesis
      by (cases r) (simp_all add: write_refreshed_def chain_def [of ?save] save keeps_def)
  qed
  have authored: "keeps st_summaries (chain (record_summary_refresh_state ou (wk_id ws) scope ?k source h a b)
      (\<lambda>_. chain (stored_refresh_state (wk_id ws) scope ?k) (\<lambda>state. give (x, state, False))))" for h a b and x :: Summary
    by (intro keeps_intros kept)
  show ?thesis
  proof (cases "dr_evidence dr w (wk_id ws) scope ?k body s")
    case (Inl e)
    with Some m show ?thesis
      by (simp add: save_refreshed_summary_def chain_get_by_name Let_def chain_assoc chain_read chain_lift)
  next
    case (Inr evidence)
    have run: "save_refreshed_summary ou dr w scope k body source s = (\<lambda>existing_state. case (summary_at (wk_id ws) scope ?k s, existing_state) of
       (Some m, None) \<Rightarrow>
         if \<not> summary_is_refresh_authored m
         then chain (record_summary_refresh_state ou (wk_id ws) scope ?k source (fst evidence) (fst (snd evidence)) (snd (snd evidence)))
                (\<lambda>_. chain (stored_refresh_state (wk_id ws) scope ?k) (\<lambda>state. give (m, state, False)))
         else write_refreshed ou w (wk_id ws) scope ?k body source evidence
     | (Some m, Some state) \<Rightarrow>
         if \<not> summary_is_refresh_authored m \<or> rs_evidence_hash state = fst evidence then give (m, state, False)
         else write_refreshed ou w (wk_id ws) scope ?k body source evidence
     | (None, _) \<Rightarrow> write_refreshed ou w (wk_id ws) scope ?k body source evidence)
       (find (at_refresh (wk_id ws) scope ?k) (st_refresh_states s)) s"
      using Some Inr
      by (simp add: save_refreshed_summary_def chain_get_by_name Let_def chain_assoc chain_read chain_lift summary_refresh_state_def
        get_summary_run [OF scope Some] unwrap_or_Some)
    show ?thesis
    proof (cases "at_scope (wk_id ws) scope ?k m")
      case True
      then have "summary_at (wk_id ws) scope ?k s = Some m" by (rule summary_at_unique [OF keyed m(1)])
      with m authored show ?thesis by (simp add: run keeps_def give_run split: option.split)
    next
      case False
      with m rewritten authored show ?thesis by (simp add: run keeps_def give_run split: option.split)
    qed
  qed
qed

text \<open>
  C35. A refresh leaves what is signed: whichever summary the daemon refreshes, a summary that names a source other than the
  refresh itself, as the agent's note and what is saved in the Summary tab do, stands as it was. A summary saved without a
  source is not protected, see below.
\<close>

theorem refresh_leaves_written_summaries:
  assumes "summaries_keyed s" and "m \<in> set (st_summaries s)" and "r \<in> set (sm_source_refs m)" and "r \<noteq> ''archductor:refresh''"
  shows "m \<in> set (st_summaries (fst (refresh_summary ou dr scope s)))"
proof -
  have authored: "\<not> summary_is_refresh_authored m"
    using assms(3,4) by (auto simp: summary_is_refresh_authored_def SUMMARY_REFRESH_SOURCE_REF_def)
  have draft: "fst (drafted draft w s) = s" for draft :: "ws_store \<Rightarrow> error_chain + string" and w
    by (auto simp: drafted_def chain_get_by_name chain_read lift_run split: option.split)
  have "m \<in> set (st_summaries (fst (chain (drafted draft w) (\<lambda>body. save_refreshed_summary ou dr w kind k body source) s)))"
    if "kind \<in> {''workspace'', ''session'', ''task''}" for draft w kind k source
    using draft [of draft w] refresh_keeps_authored [OF that assms(1,2) authored] assms(2)
    by (cases "drafted draft w s") (auto simp: chain_def split: sum.split)
  then show ?thesis by (cases scope) simp_all
qed


section \<open>The note a background task takes the place of\<close>

lemma trim_plain:
  assumes "s \<noteq> []" and "\<not> is_whitespace (hd s)" and "\<not> is_whitespace (last s)"
  shows "trim s = s"
proof -
  have "trim_start s = s" using assms(1,2) by (cases s) (simp_all add: trim_start_def)
  moreover have "dropWhile is_whitespace (rev s) = rev s" using assms(1,3) by (cases s rule: rev_cases) simp_all
  ultimately show ?thesis by (simp add: trim_def trim_end_def)
qed

lemma show_nat_plain: "\<forall>c\<in>set (show_nat n). \<not> is_whitespace c"
  using digits_of_digits [of n]
  by (auto simp: show_nat_def list_all_iff is_ascii_digit_def in_range_def is_whitespace_def Let_def)

lemma show_int_plain: "show_int n \<noteq> [] \<and> (\<forall>c\<in>set (show_int n). \<not> is_whitespace c)"
proof -
  have "\<not> is_whitespace (CHR ''-'')" by code_simp
  then show ?thesis using show_nat_plain show_nat_nonempty by (auto simp: show_int_def)
qed

lemma task_ref_reads_back: "split_list (join_list [''background task #'' @ show_int n]) = [''background task #'' @ show_int n]"
proof -
  let ?r = "''background task #'' @ show_int n"
  have n: "show_int n \<noteq> []" "\<forall>c\<in>set (show_int n). \<not> is_whitespace c" using show_int_plain by simp_all
  have "is_whitespace (CHR 0x0A)" "\<not> is_whitespace (CHR ''b'')" by code_simp+
  with n have "CHR 0x0A \<notin> set (show_int n)" "\<not> is_whitespace (last ?r)" "\<not> is_whitespace (hd ?r)" by auto
  then have "CHR 0x0A \<notin> set ?r" "trim ?r = ?r" by (simp, intro trim_plain, simp_all)
  moreover have "last ?r \<noteq> CHR 0x0D"
  proof -
    have "is_whitespace (CHR 0x0D)" by code_simp
    with n have "last (show_int n) \<noteq> CHR 0x0D" using last_in_set by metis
    with n show ?thesis by simp
  qed
  ultimately show ?thesis
    using lines_of_join [of "[?r]"] by (simp add: split_list_def join_list_def)
qed

text \<open>
  A background task takes the place of the agent's note: where the agent of the workspace wrote its summary, the summary step of a
  background task, once it succeeds, leaves the mechanical draft in that row; the note is gone, the row no longer counts as an
  agent's, and it does not count as a refresh's either, so no refresh will write it again.
\<close>

lemma background_summary_replaces_note:
  assumes ws: "find_workspace w s = Some ws" and keyed: "summaries_keyed s"
    and agent: "m \<in> set (st_summaries s)" "at_scope (wk_id ws) ''workspace'' 0 m" "summary_is_agent_authored m"
    and finished: "write_background_summary ou dr task w s = (s', Inr ())"
  shows "\<exists>m' body. summary_at (wk_id ws) ''workspace'' 0 s' = Some m' \<and> sm_id m' = sm_id m
    \<and> dr_workspace dr w s = Inr body \<and> sm_body_markdown m' = trim body
    \<and> \<not> summary_is_agent_authored m' \<and> \<not> summary_is_refresh_authored m'"
proof -
  define ref where "ref = ''background task #'' @ show_int (bk_id task)"
  define rest where "rest = chain (case bk_task_id task of None \<Rightarrow> give ()
      | Some i \<Rightarrow> chain (attempt (update_task ou w i (no_update\<lparr>tu_status := Some ''review''\<rparr>))) (\<lambda>_. give ())) (\<lambda>_.
      if bk_open_pr task then set_background_task_status ou (bk_id task) ''opening_pr'' ''Preparing pull request''
      else set_background_task_status ou (bk_id task) ''ready'' ''Ready for review (no pull request requested)'')"
  have kept: "keeps st_summaries rest"
    unfolding rest_def update_task_def task_in_workspace_def get_task_def get_by_name_def ensure_session_in_workspace_def
      workspace_name_by_id_def set_background_task_status_def update_unsettled_def
    by (intro keeps_intros; simp)
  have "\<exists>body. dr_workspace dr w s = Inr body"
    using finished ws by (auto simp: write_background_summary_def drafted_def chain_assoc chain_get_by_name chain_read chain_lift split: sum.splits)
  then obtain body where body: "dr_workspace dr w s = Inr body" by blast
  let ?save = "save_summary ou w ''workspace'' None body [ref]"
  obtain t r where save: "?save s = (t, r)" by (metis surj_pair)
  have "chain ?save (\<lambda>_. rest) s = (s', Inr ())"
    using finished ws body
    by (simp add: write_background_summary_def drafted_def chain_assoc chain_get_by_name chain_read chain_lift ref_def rest_def)
  then obtain m1 where r: "r = Inr m1" and run: "rest t = (s', Inr ())"
    using save by (cases r) (auto simp: chain_def)
  have s': "st_summaries s' = st_summaries t" by (rule keepsD [OF kept run])
  let ?rows = "upsert_summary (ou_now ou) (wk_id ws) ''workspace'' 0 (trim body) [ref] (st_summaries s)"
  have written: "st_summaries t = ?rows"
  proof -
    have kept: "keeps st_summaries (chain (get_summary w ''workspace'' (Some 0)) (\<lambda>stored.
        lift_result (case stored of None \<Rightarrow> Inl [''summary was not stored''] | Some m \<Rightarrow> Inr m)))"
      unfolding get_summary_def get_by_name_def by (intro keeps_intros)
    have known: "validate_word ''workspace'' SUMMARY_SCOPES label = Inr ''workspace''" for label by (rule known_scope) simp
    show ?thesis
      using save r ws keepsD [OF kept]
      by (auto simp: save_summary_def known chain_lift Let_def chain_ensure bail_run chain_get_by_name chain_write unwrap_or_def
        split: if_splits)
  qed
  let ?m = "m\<lparr>sm_body_markdown := trim body, sm_source_refs := [ref], sm_updated_at := ou_now ou\<rparr>"
  have "find (at_scope (wk_id ws) ''workspace'' 0) ?rows = Some ?m"
  proof -
    have same: "at_scope i scope k (x\<lparr>sm_body_markdown := b, sm_source_refs := refs, sm_updated_at := n\<rparr>) = at_scope i scope k x"
      for i scope k x b refs n by (simp add: at_scope_def)
    have "find P (update_where P f rows) = map_option f (find P rows)" if "\<And>x. P (f x) = P x" for P :: "Summary \<Rightarrow> bool" and f rows
      using that by (induction rows) (auto simp: update_where_def)
    moreover have "find (at_scope (wk_id ws) ''workspace'' 0) (st_summaries s) = Some m"
      using summary_at_unique [OF keyed agent(1,2)] by (simp add: summary_at_def)
    moreover have "split_list (join_list [ref]) = [ref]" unfolding ref_def by (rule task_ref_reads_back)
    moreover have "\<exists>x\<in>set (st_summaries s). at_scope (wk_id ws) ''workspace'' 0 x" using agent(1,2) by blast
    ultimately show ?thesis by (simp add: upsert_summary_def same)
  qed
  then have found: "summary_at (wk_id ws) ''workspace'' 0 s' = Some ?m" by (simp add: summary_at_def s' written)
  have "\<not> summary_is_agent_authored ?m" "\<not> summary_is_refresh_authored ?m"
    by (simp_all add: summary_is_agent_authored_def summary_is_refresh_authored_def AGENT_SUMMARY_SOURCE_REF_def SUMMARY_REFRESH_SOURCE_REF_def ref_def)
  with found body show ?thesis by (intro exI [of _ ?m] exI [of _ body]) simp
qed

lemma example_keyed: "summaries_keyed example_ws_store" "example_note \<in> set (st_summaries example_ws_store)"
  by (simp_all add: summaries_keyed_def keyed_def example_ws_store_def)

theorem refresh_leaves_written_summaries_witness:
  "example_note \<in> set (st_summaries (fst (refresh_summary example_outside example_drafts (WorkspaceScope ''a'') example_ws_store)))"
  by (rule refresh_leaves_written_summaries [OF example_keyed, of "''archductor:agent''"]) (simp_all add: example_note_def)

text \<open>
  What is saved without a source, as the command line does by default and the tool of an agent always does, the next refresh writes over.
\<close>

lemma unsigned_summary_is_refreshed:
  "let s = fst (save_summary example_outside ''a'' ''workspace'' None ''by hand'' [] example_ws_store)
   in map sm_body_markdown (st_summaries s) = [''by hand'']
    \<and> map sm_body_markdown (st_summaries (fst (refresh_summary example_outside example_drafts (WorkspaceScope ''a'') s))) = [''draft'']"
  by code_simp

lemma example_summary_written:
  "snd (write_background_summary example_outside example_drafts example_task ''a'' example_ws_store) = Inr ()"
  by code_simp

lemma example_renamed: "snd (rename example_outside ''a'' ''b'' example_ws_store) = Inr (example_workspace\<lparr>wk_name := ''b'', wk_updated_at := ''now''\<rparr>)"
  by code_simp

theorem renamed_workspace_fails_its_task_witness:
  "let s1 = fst (rename example_outside ''a'' ''b'' example_ws_store);
     s2 = fst (advance_background_task example_outside example_ports example_drafts 1 False s1);
     s3 = fst (advance_background_task example_outside example_ports example_drafts 1 False s2)
   in \<exists>b'. find (\<lambda>b. bk_id b = 1) (st_background s3) = Some b' \<and> bk_status b' = ''failed''
    \<and> bk_error b' = Some ''load workspace a: Query returned no rows'' \<and> st_commands s3 = []"
proof -
  have "find (\<lambda>b. bk_id b = 1) (st_background example_ws_store) = Some example_task" "bk_status example_task = ''running''"
    "bk_workspace_name example_task = Some ''a''" "st_commands example_ws_store = []"
    by (simp_all add: example_ws_store_def example_task_def)
  then show ?thesis
    using renamed_workspace_fails_its_task [OF example_names, of 1 example_task "''a''" example_outside "''b''" _ _ _ example_ports example_drafts]
      example_renamed by (simp add: Let_def prod_eq_iff)
qed

section \<open>A tick across a hand-over\<close>

text \<open>The example server once the queued input of its one thread is handed over, and a store whose queue is a server's.\<close>

definition handed_over :: "string \<Rightarrow> server" where
  "handed_over content = drain_queued_input_once daemon_env (\<lambda>_. Some ''w'') (\<lambda>s. s) 3 (arrive content example_server)"

definition store_with_queue :: "server \<Rightarrow> ws_store" where
  "store_with_queue sv = example_ws_store\<lparr>st_workspaces := [example_workspace\<lparr>wk_name := ''w''\<rparr>],
     st_background := [example_task\<lparr>bk_workspace_name := Some ''w''\<rparr>], st_queue := sv_queue sv\<rparr>"

definition ticked_status :: "server \<Rightarrow> server \<Rightarrow> string" where
  "ticked_status sessions queue =
     concat (map bk_status (st_background (fst (daemon_tick example_outside example_ports example_drafts sessions
       (store_with_queue queue)))))"

lemma handed_over_is: "handed_over content = example_server\<lparr>sv_sessions := [(7, example_handle\<lparr>sh_snapshot :=
       mark_session_busy_for_input 9 (sh_snapshot example_handle), sh_commands := [SendQueuedInput (example_input content)]\<rparr>)],
       sv_sent := [ChatQueueUpdated 3]\<rparr>"
  by (simp add: handed_over_def arrive_def drain_queued_input_once_def peek_next_queued_chat_input_def list_queued_chat_inputs_def
      ready_session_handle_for_thread_def is_live_def validate_send_input_delivery_def claim_next_queued_chat_input_def
      hand_over_def note_session_not_ready_for_queue_def kind_tracks_turns_def update_handle_def broadcast_def
      delete_where_def Let_def example_server_def example_handle_def example_input_def daemon_env_def)

text \<open>
  The tick of the daemon can miss an input that is handed over: it reads the sessions first and the queue of the store after, so
  where a queued input is handed to its session in between, it sees an idle session and an empty queue, and the running task goes
  on to its checks and its summary while the agent works on the input; a tick before the hand-over, and one after it, leaves the
  task running.
\<close>

lemma tick_misses_handed_over_input:
  "ticked_status (arrive content example_server) (arrive content example_server) = ''running''
    \<and> ticked_status (handed_over content) (handed_over content) = ''running''
    \<and> ticked_status (arrive content example_server) (handed_over content) = ''summarizing''"
proof -
  have busy: "busy_agent_workspaces (handed_over content) = [''w'']" "workspaces_with_live_sessions (handed_over content) = [''w'']"
    by (simp_all add: busy_agent_workspaces_def workspaces_with_live_sessions_def handed_over_is mark_session_busy_for_input_def example_handle_def)
  have idle: "busy_agent_workspaces (arrive content example_server) = []" "workspaces_with_live_sessions (arrive content example_server) = [''w'']"
    by (simp_all add: busy_agent_workspaces_def workspaces_with_live_sessions_def arrive_def example_server_def example_handle_def)
  have q: "sv_queue (handed_over content) = []" "sv_queue (arrive content example_server) = [example_input content]"
    by (simp_all add: handed_over_is arrive_def example_server_def)
  show ?thesis
    unfolding ticked_status_def store_with_queue_def daemon_tick_def busy idle q
    by (intro conjI; code_simp)
qed

definition example_changes :: outside where
  "example_changes = example_outside\<lparr>ou_run := (\<lambda>_ c. Ended True (if ''list'' \<in> set (oc_args c) then [] else ''?? a.txt'') [])\<rparr>"

theorem pull_request_follows_push_witness:
  "let after = st_commands (fst (open_background_pull_request example_changes example_drafts example_task ''a'' example_ws_store))
   in map oc_program (filter is_pr_create after) = [''gh'']
    \<and> (\<exists>cs. after = cs \<and> (\<forall>k<length cs. is_pr_create (cs ! k) \<longrightarrow> (\<exists>j<k. \<exists>w. find_workspace ''a'' example_ws_store = Some w \<and> cs ! j = push_command w
         \<and> succeeded (ou_run example_changes (take j cs) (cs ! j)))))"
proof -
  have "map oc_program (filter is_pr_create
      (st_commands (fst (open_background_pull_request example_changes example_drafts example_task ''a'' example_ws_store)))) = [''gh'']"
    by code_simp
  moreover have "st_commands example_ws_store = []" by (simp add: example_ws_store_def)
  ultimately show ?thesis
    using pull_request_follows_push [of example_changes example_drafts example_task "''a''" example_ws_store]
    by (simp add: Let_def)
qed

end
