(* ===== verification/Spec2Isabelle.thy ===== *)
theory Spec2Isabelle
  imports Session_State Turn_Ledger Acp_Adapter Claude_Adapter Provider_Inputs Provider_Interactions Chat_Queue
    Chat_Store Provider_Events Redaction Harness_Metadata Codex_Adapter Codex_Framing Daemon Handoff
    Answers Acp_Facts Projection_Facts Transcript_Facts Agent_Status Background_Effects
begin

text \<open>
  A model of the core of the Archductor daemon (the Rust crate \<open>crates/core\<close>): it runs coding agents
  (Codex, Claude Code, any agent of the Agent Client Protocol) as child processes, one session per chat
  thread, hands them what the user writes, reads what they answer, stores both, shows them as a timeline and
  a transcript, and carries work that nobody watches to a pull request.

  \<^bold>\<open>How the parts work together.\<close> The user's inputs wait in a queue per thread. The daemon drains a
  queue when a session reports that it is ready or that a turn ended: it claims the input in front,
  marks the session busy and sends the input to the session's loop as a command. The loop records the
  input, writes a request for it to the agent and waits for the answer. Each line of the agent goes to
  an adapter, which turns the agent's protocol into effects of one contract: an input acknowledged, a
  turn completed, an event to store, an ask to put to the user. Which turns are open is kept in a
  ledger of generations that the daemon and the loop both write, behind the lock of the session's
  snapshot. The stored events are projected into the cards of a timeline and the turns of a transcript.
  A background task makes a workspace from a prompt, and once its agent is idle a tick of the daemon
  takes it through checks, a summary and a pull request.

  \<^bold>\<open>Theories and sources\<close> (paths under \<open>src/crates/core/src\<close>).

  \<^item> Prelude and Json: strings, ordered maps, table updates, saturating arithmetic, the \<open>serde_json\<close>
    values and their printing.
  \<^item> Session_State: \<open>session_event.rs\<close>, \<open>session_state.rs\<close>, \<open>session_pipeline.rs\<close>. The runtime state machine
    of a session and the fold of terminal events into it.
  \<^item> Turn_Ledger: \<open>TurnGenerations\<close> of \<open>archcar/session.rs\<close>, with an abstract specification (the set of
    open generations) it refines.
  \<^item> Harness_Contract: \<open>archcar/harness_contract.rs\<close>, the types of \<open>provider_events.rs\<close>, and the locale of
    an adapter, which Acp_Adapter and Claude_Adapter interpret.
  \<^item> Acp_Adapter: \<open>provider_adapters/acp.rs\<close>. Claude_Parser and Claude_Adapter: the stream records and the
    managed adapter of \<open>provider_adapters/claude_stream.rs\<close>.
  \<^item> Codex_Wire and Codex_Adapter: \<open>provider_adapters/codex_app_server.rs\<close>: requests, messages, events,
    the managed adapter and the synchronous client.
  \<^item> Provider_Inputs, Provider_Interactions, Provider_Events: the stores of the files of these names. Chat_Queue:
    the queue's operations in \<open>workspace.rs\<close>, with the locale of a queue per key. Chat_Store: the messages of a
    thread in \<open>workspace.rs\<close>, \<open>chat_store.rs\<close> and \<open>codex_tui.rs\<close>.
  \<^item> Redaction: \<open>redaction.rs\<close>. Harness_Metadata: the controls a thread keeps as text (\<open>archcar/session.rs\<close>).
  \<^item> Session_Runtime: what the provider loops share in \<open>archcar/session.rs\<close> and \<open>runtime_session_store.rs\<close>;
    Provider_Loop: the connection to an agent and what the loops do with it in the same way.
  \<^item> Codex_Session: \<open>run_codex_app_server_session_loop\<close>, one definition per stage of the loop's body.
    Codex_Facts and Codex_Framing: its properties, with the locale that lifts a relation every stage
    respects to a whole life of the loop, interpreted twice.
  \<^item> Claude_Session and Claude_Facts: the loop of a Claude session, its restarts and its properties.
    Acp_Session and Acp_Facts: the loop of an ACP session with the inputs it holds back.
  \<^item> Daemon: the drain of a queue and the reaction to a session's events in \<open>archcar/server.rs\<close>. Handoff: the
    daemon and the codex loop together. Daemon_Requests: the requests of clients that reach sessions, modes,
    queues and interactions. Answers: such a request together with the loop that receives it.
  \<^item> Projection and Projection_Facts: \<open>provider_projection.rs\<close>. Civil_Time, Transcript and Transcript_Facts:
    \<open>chat_transcript.rs\<close>, its calendar arithmetic in the first. Agent_Status: \<open>agent_status.rs\<close>, what the board
    of agents shows.
  \<^item> Workspace_Store: names, changes, commits and pull requests of a workspace (\<open>workspace.rs\<close>,
    \<open>github_pr.rs\<close>). Workspace_Tasks: tasks and summaries (\<open>workspace_intel.rs\<close>).
  \<^item> Background_Tasks: \<open>background_tasks.rs\<close> and the tick in \<open>archcar/server.rs\<close>. Background_Facts: how the
    status of a task moves under every interleaving; Background_Effects: the commands a task runs, the summaries
    it replaces, and the tick across a hand-over.

  \<^bold>\<open>What the lemmas show.\<close> The ledger refines a set of open turns and never reopens one. Each adapter
  completes an input at most once and answers an ask with what was offered. The stores keep their rows
  in place and their states moving forward; the queue is first in, first out. Redaction does not depend
  on the secret it hides. The codex loop writes whole lines under fresh ids; each of the three
  loops hands a queued input to the agent or back to the queue, save one sent to an ACP loop between the release of
  what it holds and its return, which is lost; a Claude session is ready only when idle and a kill of it is final; the
  ACP loop keeps the order of its inputs until it releases them. Drains of a thread exclude each other and hand over
  one input per turn. The timeline has one card an item, and the payloads it shows hide what stands
  under the name of a secret; transcripts number their turns without gaps, a selection accounts for what it leaves
  out, and the civil dates are the calendar counted day by day. Workspace names stay distinct and slugs are names;
  tasks stay well formed; a refresh leaves the summaries that it does not take for its own. A background task moves on
  with each tick, prepares its pull request at most once and after the push, and stays as it ended. The board of agents
  shows each chat's newest session if it is alive, and a reading takes an ended turn for an open one only across
  two turns. Where the code does not do what it means
  to, a theorem or lemma says what it does: interrupting an idle session, a rejected start after a hand-over,
  a wake-up between two critical sections, a redaction that never returns, an approved plan that still denies
  edits, a renamed workspace that fails its task, a tick that misses an input handed over.

  \<^bold>\<open>How the code is rendered.\<close> Rust structs are records (fields under a short prefix), enums datatypes,
  \<open>Result\<close> a sum with the error message on the left (in the workspace theories the chain of messages, outermost
  first), maps and sets ordered association lists and lists.
  Integers are \<open>nat\<close> or \<open>int\<close> with the code's saturating or checked operations written out. A loop over
  a list is a fold or a structural recursion; a loop over text, and the search for a free name, has a
  termination proof, and the one that may not end (redaction) is an option whose \<open>None\<close> is not returning, which
  the steps of a session carry on.
  Interleaving is a schedule: a list saying which caller of the drain takes its next critical section, or how
  something else changes the server meanwhile; for background tasks a list of moves, the store being open to any
  change elsewhere between the two halves of a step. The fuel of \<open>read_until_end\<close> is one more than the number of
  characters, enough because each message read consumes one at least.

  \<^bold>\<open>Parameters.\<close> The clocks, fresh ids, hashes, \<open>serde_json::from_str\<close>, the base64 decoder, the result of
  writing to the agent or to a file and of opening the database are arguments, collected in the record
  \<open>env\<close> where a step reads several. The workspace of a thread, the session a restore brings back and
  the last text of an assistant are arguments of the daemon's steps. The answers of \<open>git\<close> and \<open>gh\<close>, which may
  depend on every command run before, and the paths that exist are the record \<open>outside\<close>; the drafts of summaries
  and pull requests are \<open>drafts\<close>; creating a workspace and its checks are \<open>background_ports\<close>.

  \<^bold>\<open>Not modelled.\<close> Spawning and signalling processes, sockets and terminals; opening and migrating the
  database and SQL errors of single statements; the client protocol's serialisation; the terminal session loop
  and its screen parser; launching and recovering sessions; the rest of the daemon's requests; the creation,
  deletion and diffs of worktrees; the drafts of summaries and what else \<open>workspace_intel.rs\<close> shows; agent
  naming; settings, installation, integrations with other services and the command line. Poisoned
  locks, log lines and the time between steps are left out. Most of it is input, output and SQL; the rest
  (context attachments, the requests on workspaces) is what a further extension would take.
\<close>

end
